(* ===== verification/Prelude.thy ===== *)
theory Prelude
  imports Main
begin

section \<open>Shared vocabulary of the backend model\<close>

text \<open>
  What every component uses: the exceptions the services throw, the result of an operation that
  may throw, and database tables as lists of rows with the queries the services issue on them
  (\<open>findOne\<close>, \<open>find\<close>, \<open>update ... where\<close> with its affected count, \<open>delete\<close>). A table lists
  its rows in storage order; \<open>findOne\<close> without an ORDER BY returns the first match in it.

  Operations are functions from a state to a result and a new state: an exception keeps the
  writes made before it was thrown, as the code does outside a transaction.
\<close>

subsection \<open>Types\<close>

type_synonym uuid = string

text \<open>A \<open>Date\<close> of the code: milliseconds since the epoch.\<close>

type_synonym instant = int

text \<open>The exception classes thrown by the services; \<open>DatabaseError\<close> and \<open>RedisError\<close> are the
  errors of the drivers, \<open>WsException\<close> the error of the socket gateway, \<open>PlainError\<close> is \<open>new Error(...)\<close>.\<close>

datatype exc =
    BadRequestException string
  | UnauthorizedException string
  | ForbiddenException string
  | NotFoundException string
  | ConflictException string
  | UnprocessableEntityException string
  | InternalServerErrorException string
  | DatabaseError string
  | RedisError string
  | WsException string
  | PlainError string

type_synonym 'a result = "exc + 'a"

abbreviation ok :: "'a \<Rightarrow> 'a result" where
  "ok \<equiv> Inr"

abbreviation throw :: "exc \<Rightarrow> 'a result" where
  "throw \<equiv> Inl"

subsection \<open>Collections of facts\<close>

named_theorems table_simps "queries and updates on tables"
named_theorems op_defs "definitions of service operations, unfolded by the component proofs"

subsection \<open>Tables\<close>

definition find_one :: "('r \<Rightarrow> bool) \<Rightarrow> 'r list \<Rightarrow> 'r option" where
  "find_one P t = List.find P t"

definition find_rows :: "('r \<Rightarrow> bool) \<Rightarrow> 'r list \<Rightarrow> 'r list" where
  "find_rows P t = filter P t"

definition update_rows :: "('r \<Rightarrow> bool) \<Rightarrow> ('r \<Rightarrow> 'r) \<Rightarrow> 'r list \<Rightarrow> 'r list" where
  "update_rows P f t = map (\<lambda>r. if P r then f r else r) t"

definition affected :: "('r \<Rightarrow> bool) \<Rightarrow> 'r list \<Rightarrow> nat" where
  "affected P t = length (filter P t)"

definition delete_rows :: "('r \<Rightarrow> bool) \<Rightarrow> 'r list \<Rightarrow> 'r list" where
  "delete_rows P t = filter (\<lambda>r. \<not> P r) t"

lemma find_one_SomeD: "find_one P t = Some r \<Longrightarrow> r \<in> set t \<and> P r"
  by (auto simp: find_one_def find_Some_iff)

lemma find_one_None_iff [table_simps]: "find_one P t = None \<longleftrightarrow> (\<forall>r \<in> set t. \<not> P r)"
  by (auto simp: find_one_def find_None_iff)

lemma length_update_rows [simp]: "length (update_rows P f t) = length t"
  by (simp add: update_rows_def)

lemma update_rows_append [table_simps]:
  "update_rows P f (t @ u) = update_rows P f t @ update_rows P f u"
  by (simp add: update_rows_def)

lemma update_rows_single [simp]: "update_rows P f [r] = [if P r then f r else r]"
  by (simp add: update_rows_def)

lemma set_update_rows: "set (update_rows P f t) = (\<lambda>r. if P r then f r else r) ` set t"
  by (simp add: update_rows_def)

lemma map_key_update_rows [simp]:
  "(\<And>r. key (f r) = key r) \<Longrightarrow> map key (update_rows P f t) = map key t"
  by (simp add: update_rows_def)

lemma find_one_update:
  "(\<And>x. P x \<Longrightarrow> P (f x)) \<Longrightarrow> find_one P (update_rows P f t) = map_option f (find_one P t)"
  by (induction t) (auto simp: find_one_def update_rows_def)

lemma find_one_update_other:
  "(\<And>x. P x \<Longrightarrow> \<not> Q x \<and> \<not> Q (f x)) \<Longrightarrow> find_one Q (update_rows P f t) = find_one Q t"
  by (induction t) (auto simp: find_one_def update_rows_def)

lemma find_one_append:
  "find_one P (t @ u) = (case find_one P t of Some r \<Rightarrow> Some r | None \<Rightarrow> find_one P u)"
  by (induction t) (auto simp: find_one_def)

lemma affected_eq_0_iff [table_simps]: "affected P t = 0 \<longleftrightarrow> (\<forall>r \<in> set t. \<not> P r)"
  by (auto simp: affected_def filter_empty_conv)

lemma update_rows_unaffected: "affected P t = 0 \<Longrightarrow> update_rows P f t = t"
  by (auto simp: affected_eq_0_iff update_rows_def intro: map_idI)

lemma affected_after_update [table_simps]:
  "(\<And>r. P r \<Longrightarrow> \<not> P (f r)) \<Longrightarrow> affected P (update_rows P f t) = 0"
  by (auto simp: affected_eq_0_iff set_update_rows)

lemma affected_key_le_1:
  assumes "distinct (map key t)" and "\<And>r. P r \<Longrightarrow> key r = k"
  shows "affected P t \<le> 1"
  using assms(1)
proof (induction t)
  case Nil
  then show ?case by (simp add: affected_def)
next
  case (Cons r t)
  show ?case
  proof (cases "P r")
    case True
    then have "key r = k" by (rule assms(2))
    have "\<forall>x \<in> set t. \<not> P x"
      using Cons.prems assms(2) \<open>key r = k\<close> by (auto simp: image_iff)
    with True show ?thesis by (simp add: affected_def filter_empty_conv)
  next
    case False
    with Cons show ?thesis by (simp add: affected_def)
  qed
qed

lemma affected_1_ex: "affected P t = 1 \<Longrightarrow> \<exists>r \<in> set t. P r"
  by (auto simp: affected_def length_Suc_conv filter_eq_Cons_iff)

lemma ex_affected_1:
  assumes "distinct (map key t)" and "\<And>r. P r \<Longrightarrow> key r = k" and "\<exists>r \<in> set t. P r"
  shows "affected P t = 1"
proof -
  have "affected P t \<le> 1" by (rule affected_key_le_1 [OF assms(1,2)])
  moreover have "affected P t \<noteq> 0" using assms(3) by (auto simp: affected_eq_0_iff)
  ultimately show ?thesis by simp
qed

lemma update_one_split:
  assumes "affected P t = 1"
  obtains xs r ys where "t = xs @ r # ys" "P r" "\<And>x. x \<in> set xs \<union> set ys \<Longrightarrow> \<not> P x"
    "\<And>f. update_rows P f t = xs @ f r # ys"
proof -
  from assms obtain r where f: "filter P t = [r]" by (auto simp: affected_def length_Suc_conv)
  then obtain xs ys where t: "t = xs @ r # ys" and xs: "\<forall>x \<in> set xs. \<not> P x" and r: "P r" and "[] = filter P ys"
    by (auto simp: filter_eq_Cons_iff)
  then have ys: "\<forall>x \<in> set ys. \<not> P x" by (metis filter_empty_conv)
  have "update_rows P f t = xs @ f r # ys" for f
    using xs ys r unfolding t by (auto simp: update_rows_def intro: map_idI)
  with t r xs ys that show thesis by blast
qed

text \<open>INSERT of a row whose key is the primary key of the table.\<close>

definition insert_row :: "('r \<Rightarrow> 'k) \<Rightarrow> 'r \<Rightarrow> 'r list \<Rightarrow> 'r list result" where
  "insert_row key r t =
     (if key r \<in> key ` set t then throw (DatabaseError ''duplicate key value violates unique constraint'')
      else ok (t @ [r]))"

lemma insert_row_ok_iff: "insert_row key r t = Inr u \<longleftrightarrow> key r \<notin> key ` set t \<and> u = t @ [r]"
  by (auto simp: insert_row_def)

lemma insert_row_distinct:
  "insert_row key r t = Inr u \<Longrightarrow> distinct (map key t) \<Longrightarrow> distinct (map key u)"
  by (auto simp: insert_row_ok_iff)

lemma find_one_key_unique:
  "distinct (map key t) \<Longrightarrow> r \<in> set t \<Longrightarrow> find_one (\<lambda>x. key x = key r) t = Some r"
  by (induction t) (auto simp: find_one_def image_iff)

lemma distinct_key_eq:
  "distinct (map key t) \<Longrightarrow> x \<in> set t \<Longrightarrow> y \<in> set t \<Longrightarrow> key x = key y \<Longrightarrow> x = y"
  unfolding distinct_map by (blast dest: inj_onD)

lemma update_key_split:
  assumes "distinct (map key t)" and "r \<in> set t" and "P r" and "\<And>x. P x \<Longrightarrow> key x = key r"
  obtains xs ys where "t = xs @ r # ys" "\<And>x. x \<in> set xs \<union> set ys \<Longrightarrow> key x \<noteq> key r"
    "\<And>f. update_rows P f t = xs @ f r # ys"
proof -
  have "affected P t = 1" using assms(2,3) by (intro ex_affected_1 [OF assms(1) assms(4)]) auto
  then obtain xs r' ys where s: "t = xs @ r' # ys" "P r'" "\<And>f. update_rows P f t = xs @ f r' # ys"
    by (rule update_one_split) blast
  then have "r' = r" using assms(1,2) assms(4) [OF s(2)] by (auto simp: image_iff)
  moreover have "key x \<noteq> key r" if "x \<in> set xs \<union> set ys" for x
    using that assms(1) s(1) \<open>r' = r\<close> by (auto simp: image_iff)
  ultimately show thesis using s that by blast
qed

lemma delete_key_split:
  assumes "distinct (map key t)" and "r \<in> set t"
  obtains xs ys where "t = xs @ r # ys" "delete_rows (\<lambda>x. key x = key r) t = xs @ ys"
    "\<And>x. x \<in> set xs \<union> set ys \<Longrightarrow> key x \<noteq> key r"
proof -
  from assms(2) obtain xs ys where t: "t = xs @ r # ys" by (auto simp: in_set_conv_decomp)
  with assms(1) have n: "\<And>x. x \<in> set xs \<union> set ys \<Longrightarrow> key x \<noteq> key r" by (auto simp: image_iff)
  then have "delete_rows (\<lambda>x. key x = key r) t = xs @ ys"
    by (auto simp: t delete_rows_def filter_id_conv)
  with t n that show thesis by blast
qed

subsection \<open>Operations\<close>

text \<open>An operation of a service: awaiting one after the other, an exception ends the chain and
  keeps the state reached so far.\<close>

type_synonym ('s, 'a) op = "'s \<Rightarrow> 'a result \<times> 's"

definition return_op :: "'a \<Rightarrow> ('s, 'a) op" where
  "return_op x s = (ok x, s)"

definition throw_op :: "exc \<Rightarrow> ('s, 'a) op" where
  "throw_op e s = (throw e, s)"

definition bind_op :: "('s, 'a) op \<Rightarrow> ('a \<Rightarrow> ('s, 'b) op) \<Rightarrow> ('s, 'b) op" where
  "bind_op m f s = (case m s of (Inl e, t) \<Rightarrow> (Inl e, t) | (Inr x, t) \<Rightarrow> f x t)"

lemma return_op_simp [simp]: "return_op x s = (Inr x, s)"
  by (simp add: return_op_def)

lemma throw_op_simp [simp]: "throw_op e s = (Inl e, s)"
  by (simp add: throw_op_def)

lemma bind_op_ok: "m s = (Inr x, t) \<Longrightarrow> bind_op m f s = f x t"
  by (simp add: bind_op_def)

lemma bind_op_throw: "m s = (Inl e, t) \<Longrightarrow> bind_op m f s = (Inl e, t)"
  by (simp add: bind_op_def)

lemma bind_op_eq_ok_iff:
  "bind_op m f s = (Inr y, u) \<longleftrightarrow> (\<exists>x t. m s = (Inr x, t) \<and> f x t = (Inr y, u))"
  by (auto simp: bind_op_def split: prod.splits sum.splits)

lemma bind_op_state:
  assumes "\<And>x t. m s = (x, t) \<Longrightarrow> Q t" and "\<And>x t. m s = (Inr x, t) \<Longrightarrow> Q t \<Longrightarrow> Q (snd (f x t))"
  shows "Q (snd (bind_op m f s))"
  using assms by (auto simp: bind_op_def split: prod.splits sum.splits)

lemma bind_op_assoc: "bind_op (bind_op m f) g = bind_op m (\<lambda>x. bind_op (f x) g)"
  by (auto simp: fun_eq_iff bind_op_def split: prod.splits sum.splits)

end
