(* ===== verification/RedisStore.thy ===== *)
theory RedisStore
  imports Prelude "HOL-Library.Sublist"
begin

section \<open>The typed Redis wrapper (modules/redis)\<close>

text \<open>
  \<open>RedisService\<close> is written against the ioredis client, which is not part of the repository: the
  client is a record of its commands over a server state \<open>'r\<close>, an argument of every operation.
  A stored text is either the JSON text of a value or a text that \<open>JSON.parse\<close> rejects. The
  locale \<open>redis_server\<close> states what the code relies on of the documented commands SET EX, SET
  KEEPTTL XX, GET, GETDEL, PTTL and DEL, through the live entries of the server at a time; the
  store of the last subsection is a server that satisfies it.
\<close>

subsection \<open>The client\<close>

datatype 'v json_text = Json 'v | BadText

record ('r, 'v) redis_client =
  rc_set_ex :: "string \<Rightarrow> 'v json_text \<Rightarrow> int \<Rightarrow> instant \<Rightarrow> ('r, unit) op"
  rc_set_keepttl_xx :: "string \<Rightarrow> 'v json_text \<Rightarrow> instant \<Rightarrow> ('r, bool) op"
  rc_get :: "string \<Rightarrow> instant \<Rightarrow> ('r, 'v json_text option) op"
  rc_getdel :: "string \<Rightarrow> instant \<Rightarrow> ('r, 'v json_text option) op"
  rc_pttl :: "string \<Rightarrow> instant \<Rightarrow> ('r, int) op"
  rc_del :: "string \<Rightarrow> instant \<Rightarrow> ('r, unit) op"

subsection \<open>redis.constants.ts and the keyspace bridge of redis.module.ts\<close>

definition EXAM_SESSION_PREFIX :: string where
  "EXAM_SESSION_PREFIX = ''exam:session:''"

definition EXAM_GRACE_PREFIX :: string where
  "EXAM_GRACE_PREFIX = ''exam:grace:''"

definition GRACE_WINDOW_SECONDS :: int where
  "GRACE_WINDOW_SECONDS = 120"

datatype expiry_type = SessionExpiry | GraceExpiry

text \<open>The payload emitted for an expired key, if it is one of the exam keys.\<close>

definition keyspace_event :: "string \<Rightarrow> (expiry_type \<times> uuid) option" where
  "keyspace_event key =
     (if prefix EXAM_SESSION_PREFIX key then Some (SessionExpiry, drop (length EXAM_SESSION_PREFIX) key)
      else if prefix EXAM_GRACE_PREFIX key then Some (GraceExpiry, drop (length EXAM_GRACE_PREFIX) key)
      else None)"

lemma keyspace_event_session: "keyspace_event (EXAM_SESSION_PREFIX @ sid) = Some (SessionExpiry, sid)"
  by (simp add: keyspace_event_def)

lemma keyspace_event_grace: "keyspace_event (EXAM_GRACE_PREFIX @ sid) = Some (GraceExpiry, sid)"
  by (simp add: keyspace_event_def EXAM_SESSION_PREFIX_def EXAM_GRACE_PREFIX_def)

lemma key_families_disjoint [simp]:
  "EXAM_SESSION_PREFIX @ a \<noteq> EXAM_GRACE_PREFIX @ b" "EXAM_GRACE_PREFIX @ b \<noteq> EXAM_SESSION_PREFIX @ a"
  by (simp_all add: EXAM_SESSION_PREFIX_def EXAM_GRACE_PREFIX_def)

subsection \<open>RedisService\<close>

definition setJson :: "('r, 'v) redis_client \<Rightarrow> string \<Rightarrow> 'v \<Rightarrow> int \<Rightarrow> instant \<Rightarrow> ('r, unit) op" where
  "setJson C key v ttlSeconds now = rc_set_ex C key (Json v) ttlSeconds now"

definition setJsonKeepTtl :: "('r, 'v) redis_client \<Rightarrow> string \<Rightarrow> 'v \<Rightarrow> instant \<Rightarrow> ('r, bool) op" where
  "setJsonKeepTtl C key v now = rc_set_keepttl_xx C key (Json v) now"

text \<open>Parsing: a text that is not JSON is logged and read as null.\<close>

fun parse_or_null :: "'v json_text option \<Rightarrow> 'v option" where
  "parse_or_null None = None"
| "parse_or_null (Some (Json v)) = Some v"
| "parse_or_null (Some BadText) = None"

definition getJson :: "('r, 'v) redis_client \<Rightarrow> string \<Rightarrow> instant \<Rightarrow> ('r, 'v option) op" where
  "getJson C key now = bind_op (rc_get C key now) (\<lambda>raw. return_op (parse_or_null raw))"

definition getDelJson :: "('r, 'v) redis_client \<Rightarrow> string \<Rightarrow> instant \<Rightarrow> ('r, 'v option) op" where
  "getDelJson C key now = bind_op (rc_getdel C key now) (\<lambda>raw. return_op (parse_or_null raw))"

definition pttl :: "('r, 'v) redis_client \<Rightarrow> string \<Rightarrow> instant \<Rightarrow> ('r, int) op" where
  "pttl C key now = rc_pttl C key now"

definition del :: "('r, 'v) redis_client \<Rightarrow> string \<Rightarrow> instant \<Rightarrow> ('r, unit) op" where
  "del C key now = rc_del C key now"

lemmas redis_service_defs = setJson_def setJsonKeepTtl_def getJson_def getDelJson_def pttl_def del_def

subsection \<open>What the code relies on\<close>

text \<open>
  \<open>view r t k\<close> is the entry of key \<open>k\<close> that is live at time \<open>t\<close>: its text and its deadline.
  \<open>up r\<close> says that the server answers.
\<close>

type_synonym 'v live_entry = "'v json_text \<times> instant option"

definition remaining :: "instant \<Rightarrow> 'v live_entry option \<Rightarrow> int" where
  "remaining now e = (case e of None \<Rightarrow> -2 | Some (_, None) \<Rightarrow> -1 | Some (_, Some d) \<Rightarrow> d - now)"

locale redis_server =
  fixes C :: "('r, 'v) redis_client"
    and view :: "'r \<Rightarrow> instant \<Rightarrow> string \<Rightarrow> 'v live_entry option"
    and up :: "'r \<Rightarrow> bool"
  assumes deadline_ahead: "view r t k = Some (v, Some d) \<Longrightarrow> t < d"
    and time_passes: "t \<le> t' \<Longrightarrow> view r t' k =
          (case view r t k of Some (v, Some d) \<Rightarrow> if t' < d then Some (v, Some d) else None | e \<Rightarrow> e)"
    and set_ex_up: "up r \<Longrightarrow> 0 < ttl \<Longrightarrow> fst (rc_set_ex C k v ttl now r) = ok ()"
    and set_ex: "rc_set_ex C k v ttl now r = (Inr (), r') \<Longrightarrow>
          view r' now = (view r now)(k \<mapsto> (v, Some (now + ttl * 1000)))"
    and keepttl_up: "up r \<Longrightarrow> fst (rc_set_keepttl_xx C k v now r) = ok (view r now k \<noteq> None)"
    and keepttl: "rc_set_keepttl_xx C k v now r = (Inr b, r') \<Longrightarrow> b = (view r now k \<noteq> None) \<and>
          view r' now = (case view r now k of None \<Rightarrow> view r now | Some (_, d) \<Rightarrow> (view r now)(k \<mapsto> (v, d)))"
    and get_up: "up r \<Longrightarrow> rc_get C k now r = (ok (map_option fst (view r now k)), r)"
    and get: "rc_get C k now r = (Inr raw, r') \<Longrightarrow> raw = map_option fst (view r now k) \<and> r' = r"
    and getdel_up: "up r \<Longrightarrow> fst (rc_getdel C k now r) = ok (map_option fst (view r now k))"
    and getdel: "rc_getdel C k now r = (Inr raw, r') \<Longrightarrow>
          raw = map_option fst (view r now k) \<and> view r' now = (view r now)(k := None)"
    and pttl_up: "up r \<Longrightarrow> rc_pttl C k now r = (ok (remaining now (view r now k)), r)"
    and pttl: "rc_pttl C k now r = (Inr n, r') \<Longrightarrow> n = remaining now (view r now k) \<and> r' = r"
    and del_up: "up r \<Longrightarrow> fst (rc_del C k now r) = ok ()"
    and del: "rc_del C k now r = (Inr (), r') \<Longrightarrow> view r' now = (view r now)(k := None)"
begin

lemma remaining_pos_iff: "0 < remaining now (view r now k) \<longleftrightarrow> (\<exists>v d. view r now k = Some (v, Some d))"
  by (auto simp: remaining_def split: option.splits dest: deadline_ahead)

end

subsection \<open>A server\<close>

text \<open>A store of texts with deadlines, and whether it answers.\<close>

record 'v redis_store =
  entries :: "(string \<times> 'v live_entry) list"
  online :: bool

definition live_at :: "'v redis_store \<Rightarrow> instant \<Rightarrow> string \<Rightarrow> 'v live_entry option" where
  "live_at r t k = (case map_of (entries r) k of
      Some (v, Some d) \<Rightarrow> if t < d then Some (v, Some d) else None
    | e \<Rightarrow> e)"

definition drop_key :: "string \<Rightarrow> 'v redis_store \<Rightarrow> 'v redis_store" where
  "drop_key k r = r\<lparr>entries := filter (\<lambda>(k', _). k' \<noteq> k) (entries r)\<rparr>"

definition put_key :: "string \<Rightarrow> 'v live_entry \<Rightarrow> 'v redis_store \<Rightarrow> 'v redis_store" where
  "put_key k e r = r\<lparr>entries := (k, e) # entries r\<rparr>"

definition answering :: "('v redis_store, 'a) op \<Rightarrow> ('v redis_store, 'a) op" where
  "answering m r = (if online r then m r else (throw (RedisError ''connection is closed''), r))"

definition store_client :: "('v redis_store, 'v) redis_client" where
  "store_client = \<lparr>
     rc_set_ex = (\<lambda>k v ttl now. answering (\<lambda>r.
        if 0 < ttl then (ok (), put_key k (v, Some (now + ttl * 1000)) r)
        else (throw (RedisError ''ERR invalid expire time''), r))),
     rc_set_keepttl_xx = (\<lambda>k v now. answering (\<lambda>r. case live_at r now k of
        None \<Rightarrow> (ok False, r) | Some (_, d) \<Rightarrow> (ok True, put_key k (v, d) r))),
     rc_get = (\<lambda>k now. answering (\<lambda>r. (ok (map_option fst (live_at r now k)), r))),
     rc_getdel = (\<lambda>k now. answering (\<lambda>r. (ok (map_option fst (live_at r now k)), drop_key k r))),
     rc_pttl = (\<lambda>k now. answering (\<lambda>r. (ok (remaining now (live_at r now k)), r))),
     rc_del = (\<lambda>k now. answering (\<lambda>r. (ok (), drop_key k r)))\<rparr>"

lemma live_at_put [simp]:
  "live_at (put_key k e r) t k' = (if k' = k then (case snd e of Some d \<Rightarrow> if t < d then Some e else None | None \<Rightarrow> Some e)
     else live_at r t k')"
  by (auto simp: live_at_def put_key_def split: prod.splits option.splits)

lemma live_at_drop [simp]: "live_at (drop_key k r) t = (live_at r t)(k := None)"
proof
  fix k'
  have "map_of (filter (\<lambda>(k', _). k' \<noteq> k) xs) k' = (if k' = k then None else map_of xs k')"
    for xs :: "(string \<times> 'a live_entry) list"
    by (induction xs) auto
  then show "live_at (drop_key k r) t k' = ((live_at r t)(k := None)) k'"
    by (auto simp: live_at_def drop_key_def split: option.splits prod.splits)
qed

lemma live_at_ahead: "live_at r t k = Some (v, Some d) \<Longrightarrow> t < d"
  by (auto simp: live_at_def split: option.splits prod.splits if_splits)

lemma live_at_later:
  assumes "t \<le> t'"
  shows "live_at r t' k =
     (case live_at r t k of Some (v, Some d) \<Rightarrow> if t' < d then Some (v, Some d) else None | e \<Rightarrow> e)"
proof (cases "map_of (entries r) k")
  case None
  then show ?thesis by (simp add: live_at_def)
next
  case (Some e)
  then show ?thesis using assms by (cases e; cases "snd e") (auto simp: live_at_def)
qed

lemma store_client_simps:
  "rc_set_ex store_client k v ttl now r =
     (if online r \<and> 0 < ttl then (Inr (), put_key k (v, Some (now + ttl * 1000)) r)
      else if online r then (Inl (RedisError ''ERR invalid expire time''), r)
      else (Inl (RedisError ''connection is closed''), r))"
  "rc_set_keepttl_xx store_client k v now r =
     (if online r then (case live_at r now k of None \<Rightarrow> (Inr False, r) | Some (_, d) \<Rightarrow> (Inr True, put_key k (v, d) r))
      else (Inl (RedisError ''connection is closed''), r))"
  "rc_get store_client k now r =
     (if online r then (Inr (map_option fst (live_at r now k)), r)
      else (Inl (RedisError ''connection is closed''), r))"
  "rc_getdel store_client k now r =
     (if online r then (Inr (map_option fst (live_at r now k)), drop_key k r)
      else (Inl (RedisError ''connection is closed''), r))"
  "rc_pttl store_client k now r =
     (if online r then (Inr (remaining now (live_at r now k)), r)
      else (Inl (RedisError ''connection is closed''), r))"
  "rc_del store_client k now r =
     (if online r then (Inr (), drop_key k r) else (Inl (RedisError ''connection is closed''), r))"
  by (simp_all add: store_client_def answering_def)

lemma live_at_put_ex: "0 < ttl \<Longrightarrow> live_at (put_key k (v, Some (now + ttl * 1000)) r) now =
    (live_at r now)(k \<mapsto> (v, Some (now + ttl * 1000)))"
  by (simp add: fun_eq_iff)

lemma live_at_put_keep: "live_at r now k = Some (w, d) \<Longrightarrow>
    live_at (put_key k (v, d) r) now = (live_at r now)(k \<mapsto> (v, d))"
  by (auto simp: fun_eq_iff dest: live_at_ahead split: option.splits)

interpretation store: redis_server store_client live_at online
proof (unfold_locales, goal_cases)
  case 1 then show ?case by (rule live_at_ahead)
next
  case 2 then show ?case by (rule live_at_later)
next
  case 3 then show ?case by (simp add: store_client_simps)
next
  case 4 then show ?case by (auto simp: store_client_simps live_at_put_ex split: if_splits)
next
  case 5 then show ?case by (simp add: store_client_simps split: option.split)
next
  case 6 then show ?case
    by (auto simp: store_client_simps live_at_put_keep split: if_splits option.splits)
qed (auto simp: store_client_simps split: if_splits)

end
