(* ===== verification/JsNumber.thy ===== *)
theory JsNumber
  imports Prelude Complex_Main "HOL-Library.Log_Nat"
begin

section \<open>JavaScript numbers\<close>

text \<open>
  The arithmetic the services do on JavaScript numbers. A finite IEEE double is the rational it
  denotes; \<open>rnd53\<close> rounds a rational to the nearest double (53 bits of precision, ties to even;
  neither overflow nor underflow can occur for the quotients of counts, marks and milliseconds
  taken here). \<open>js_div\<close> and \<open>js_mul\<close> are the rounded operations; \<open>to_fixed2\<close> is the decimal
  that \<open>toFixed(2)\<close> prints (nearest multiple of 1/100, the larger on a tie) and \<open>parse_float\<close>
  reads a decimal back. \<open>js_round\<close> and \<open>js_ceil\<close> are \<open>Math.round\<close> and \<open>Math.ceil\<close>.
\<close>

type_synonym number = rat

subsection \<open>Rounding to a double\<close>

definition expo :: "rat \<Rightarrow> int" where
  "expo x = (case quotient_of x of (p, q) \<Rightarrow>
     let e = bitlen p - bitlen q in if 2 powi e \<le> x then e else e - 1)"

definition round_even :: "rat \<Rightarrow> int" where
  "round_even y = (let f = \<lfloor>y\<rfloor>; d = y - of_int f in
     if d < 1 / 2 then f else if 1 / 2 < d then f + 1 else if even f then f else f + 1)"

definition ulp :: "rat \<Rightarrow> rat" where
  "ulp x = 2 powi (expo x - 52)"

definition rnd_pos :: "rat \<Rightarrow> rat" where
  "rnd_pos x = of_int (round_even (x / ulp x)) * ulp x"

definition rnd53 :: "rat \<Rightarrow> number" where
  "rnd53 x = (if x = 0 then 0 else if x < 0 then - rnd_pos (- x) else rnd_pos x)"

definition js_div :: "number \<Rightarrow> number \<Rightarrow> number" where
  "js_div a b = rnd53 (a / b)"

definition js_mul :: "number \<Rightarrow> number \<Rightarrow> number" where
  "js_mul a b = rnd53 (a * b)"

definition to_fixed2 :: "number \<Rightarrow> rat" where
  "to_fixed2 x = (if x < 0 then - (of_int \<lfloor>- x * 100 + 1 / 2\<rfloor> / 100) else of_int \<lfloor>x * 100 + 1 / 2\<rfloor> / 100)"

definition parse_float :: "rat \<Rightarrow> number" where
  "parse_float q = rnd53 q"

definition js_round :: "number \<Rightarrow> int" where
  "js_round x = \<lfloor>x + 1 / 2\<rfloor>"

definition js_ceil :: "number \<Rightarrow> int" where
  "js_ceil x = \<lceil>x\<rceil>"

subsection \<open>The exponent\<close>

lemma bitlen_powi: "0 < p \<Longrightarrow> (2::rat) powi (bitlen p - 1) \<le> of_int p \<and> of_int p < (2::rat) powi (bitlen p)"
proof -
  assume p: "0 < p"
  then have b: "1 \<le> bitlen p" by (auto simp: bitlen_alt_def)
  from p have "2 ^ nat (bitlen p - 1) \<le> p \<and> p < 2 ^ nat (bitlen p)" by (rule bitlen_bounds)
  then have "(of_int (2 ^ nat (bitlen p - 1)) :: rat) \<le> of_int p \<and> (of_int p :: rat) < of_int (2 ^ nat (bitlen p))"
    by (simp only: of_int_le_iff of_int_less_iff)
  with b show ?thesis by (simp add: power_int_nonneg_exp)
qed

lemma expo_bounds:
  assumes "0 < x"
  shows "2 powi expo x \<le> x" and "x < 2 powi (expo x + 1)"
proof -
  obtain p q where pq: "quotient_of x = (p, q)" by (cases "quotient_of x")
  have q: "0 < q" using quotient_of_denom_pos [OF pq] .
  have x: "x = of_int p / of_int q" using quotient_of_div [OF pq] .
  have p: "0 < p" using assms q unfolding x by (simp add: zero_less_divide_iff)
  let ?e = "bitlen p - bitlen q"
  have P: "(2::rat) powi (bitlen p - 1) \<le> of_int p" "of_int p < (2::rat) powi (bitlen p)"
    using bitlen_powi [OF p] by auto
  have Q: "(2::rat) powi (bitlen q - 1) \<le> of_int q" "of_int q < (2::rat) powi (bitlen q)"
    using bitlen_powi [OF q] by auto
  have up: "x < 2 powi (?e + 1)"
  proof -
    have "of_int p < (2::rat) powi (?e + 1) * 2 powi (bitlen q - 1)"
      using P(2) by (simp flip: power_int_add)
    also have "\<dots> \<le> 2 powi (?e + 1) * of_int q"
      using Q(1) by (intro mult_left_mono) auto
    finally show ?thesis using q by (simp add: x divide_less_eq)
  qed
  have low: "2 powi (?e - 1) \<le> x"
  proof -
    have "(2::rat) powi (?e - 1) * of_int q \<le> 2 powi (?e - 1) * 2 powi (bitlen q)"
      using Q(2) by (intro mult_left_mono) auto
    also have "\<dots> = 2 powi (bitlen p - 1)"
      by (simp flip: power_int_add add: algebra_simps)
    also have "\<dots> \<le> of_int p" by (rule P(1))
    finally show ?thesis using q by (simp add: x le_divide_eq)
  qed
  have e: "expo x = (if 2 powi ?e \<le> x then ?e else ?e - 1)"
    by (simp add: expo_def pq Let_def)
  show "2 powi expo x \<le> x" using low by (simp add: e)
  show "x < 2 powi (expo x + 1)" using up by (simp add: e)
qed

lemma expo_mono:
  assumes "0 < x" "x \<le> y"
  shows "expo x \<le> expo y"
proof (rule ccontr)
  assume "\<not> expo x \<le> expo y"
  then have "expo y + 1 \<le> expo x" by simp
  then have "(2::rat) powi (expo y + 1) \<le> 2 powi (expo x)" by (intro power_int_increasing) auto
  moreover have "2 powi (expo x) \<le> x" using assms by (intro expo_bounds)
  moreover have "y < 2 powi (expo y + 1)" using assms by (intro expo_bounds) auto
  ultimately show False using assms by simp
qed

lemma ulp_pos [simp]: "0 < ulp x"
  by (simp add: ulp_def)

lemma ulp_le: "0 < x \<Longrightarrow> ulp x * 2 ^ 52 \<le> x"
proof -
  assume "0 < x"
  have "ulp x * 2 ^ 52 = 2 powi (expo x - 52 + 52)"
    unfolding ulp_def by (subst power_int_add) auto
  with expo_bounds(1) [OF \<open>0 < x\<close>] show ?thesis by simp
qed

subsection \<open>Rounding is monotone, exact on representable values, and close\<close>

lemma round_even_near: "\<bar>of_int (round_even y) - y\<bar> \<le> 1 / 2"
  unfolding round_even_def Let_def using floor_correct [of y] by (auto simp: abs_le_iff)

lemma round_even_of_int [simp]: "round_even (of_int n) = n"
  by (simp add: round_even_def)

lemma round_even_mono:
  assumes "x \<le> y"
  shows "round_even x \<le> round_even y"
proof (cases "\<lfloor>x\<rfloor> = \<lfloor>y\<rfloor>")
  case True
  with assms show ?thesis by (auto simp: round_even_def Let_def)
next
  case False
  with floor_mono [OF assms] have "\<lfloor>x\<rfloor> + 1 \<le> \<lfloor>y\<rfloor>" by simp
  moreover have "round_even x \<le> \<lfloor>x\<rfloor> + 1" "\<lfloor>y\<rfloor> \<le> round_even y" by (auto simp: round_even_def Let_def)
  ultimately show ?thesis by simp
qed

lemma scaled_bounds:
  assumes "0 < x"
  shows "2 ^ 52 \<le> x / ulp x" and "x / ulp x < 2 ^ 53"
proof -
  show "2 ^ 52 \<le> x / ulp x" using ulp_le [OF assms] by (simp add: le_divide_eq mult.commute)
  have "2 ^ 53 * ulp x = 2 powi (53 + (expo x - 52))" unfolding ulp_def by (subst power_int_add) auto
  with expo_bounds(2) [OF assms] show "x / ulp x < 2 ^ 53" by (simp add: divide_less_eq add.commute)
qed

lemma rnd_pos_bounds:
  assumes "0 < x"
  shows "2 powi expo x \<le> rnd_pos x" and "rnd_pos x \<le> 2 powi (expo x + 1)"
proof -
  have "round_even (of_int (2 ^ 52)) \<le> round_even (x / ulp x)"
    using scaled_bounds(1) [OF assms] by (intro round_even_mono) simp
  then have "(of_int (2 ^ 52) :: rat) \<le> of_int (round_even (x / ulp x))"
    unfolding round_even_of_int by (simp only: of_int_le_iff)
  then have lo: "(2::rat) ^ 52 \<le> of_int (round_even (x / ulp x))" by simp
  have "round_even (x / ulp x) \<le> round_even (of_int (2 ^ 53))"
    using scaled_bounds(2) [OF assms] by (intro round_even_mono) simp
  then have "(of_int (round_even (x / ulp x)) :: rat) \<le> of_int (2 ^ 53)"
    unfolding round_even_of_int by (simp only: of_int_le_iff)
  then have hi: "of_int (round_even (x / ulp x)) \<le> (2::rat) ^ 53" by simp
  have e: "(2::rat) powi expo x = 2 ^ 52 * ulp x" "(2::rat) powi (expo x + 1) = 2 ^ 53 * ulp x"
    using power_int_add [of "2::rat" 52 "expo x - 52"] power_int_add [of "2::rat" 53 "expo x - 52"]
    by (simp_all add: ulp_def add.commute)
  show "2 powi expo x \<le> rnd_pos x"
    unfolding e rnd_pos_def using lo by (intro mult_right_mono) (auto intro: less_imp_le)
  show "rnd_pos x \<le> 2 powi (expo x + 1)"
    unfolding e rnd_pos_def using hi by (intro mult_right_mono) (auto intro: less_imp_le)
qed

lemma rnd_pos_pos: "0 < x \<Longrightarrow> 0 < rnd_pos x"
  using rnd_pos_bounds(1) [of x] by (meson less_le_trans zero_less_power_int zero_less_numeral)

lemma rnd_pos_mono:
  assumes "0 < x" "x \<le> y"
  shows "rnd_pos x \<le> rnd_pos y"
proof (cases "expo x = expo y")
  case True
  then have u: "ulp x = ulp y" by (simp add: ulp_def)
  have "x / ulp y \<le> y / ulp y" using assms by (simp add: divide_right_mono less_imp_le)
  then show ?thesis
    unfolding rnd_pos_def u by (intro mult_right_mono) (auto intro: round_even_mono less_imp_le)
next
  case False
  with expo_mono [OF assms] have e: "expo x + 1 \<le> expo y" by simp
  have "rnd_pos x \<le> 2 powi (expo x + 1)" using assms by (intro rnd_pos_bounds)
  also have "\<dots> \<le> 2 powi expo y" using e by (intro power_int_increasing) auto
  also have "\<dots> \<le> rnd_pos y" using assms by (intro rnd_pos_bounds) auto
  finally show ?thesis .
qed

lemma rnd53_0 [simp]: "rnd53 0 = 0"
  by (simp add: rnd53_def)

lemma rnd53_mono: "x \<le> y \<Longrightarrow> rnd53 x \<le> rnd53 y"
  using rnd_pos_mono [of x y] rnd_pos_mono [of "- y" "- x"] rnd_pos_pos [of "- x"] rnd_pos_pos [of y]
  by (auto simp: rnd53_def)

lemma rnd53_nonneg: "0 \<le> x \<Longrightarrow> 0 \<le> rnd53 x"
  using rnd53_mono [of 0 x] by simp

lemma rnd_pos_exact: "x / ulp x = of_int n \<Longrightarrow> rnd_pos x = x"
proof -
  assume h: "x / ulp x = of_int n"
  have "ulp x \<noteq> 0" using ulp_pos [of x] by linarith
  with h have "x = of_int n * ulp x" by (simp add: divide_eq_eq)
  with h show ?thesis by (simp add: rnd_pos_def)
qed

lemma rnd_pos_of_int:
  assumes "0 < n" "n \<le> 2 ^ 53"
  shows "rnd_pos (of_int n) = of_int n"
proof (cases "expo (of_int n) \<le> 52")
  case True
  have "of_int n / ulp (of_int n) = of_int n * (2::rat) powi (52 - expo (of_int n))"
    by (simp add: ulp_def power_int_diff)
  also have "\<dots> = of_int (n * 2 ^ nat (52 - expo (of_int n)))"
    using True by (simp add: power_int_nonneg_exp)
  finally show ?thesis by (rule rnd_pos_exact)
next
  case False
  have pos: "0 < (of_int n :: rat)" using assms by simp
  have "(2::rat) powi 53 \<le> 2 powi expo (of_int n)" using False by (intro power_int_increasing) auto
  also have "\<dots> \<le> of_int n" using expo_bounds(1) [OF pos] .
  finally have "(of_int (2 ^ 53) :: rat) \<le> of_int n" by simp
  then have n: "n = 2 ^ 53" using assms unfolding of_int_le_iff by linarith
  have "2 powi expo (of_int n) < (2::rat) powi 54"
    using expo_bounds(1) [OF pos] unfolding n by (rule le_less_trans) simp
  then have "expo (of_int n) < 54" by (rule power_int_le_imp_less_exp [rotated]) auto
  with False have e: "expo (of_int n) = 53" by simp
  have "of_int n / ulp (of_int n) = of_int (2 ^ 52)" by (simp add: ulp_def e) (simp add: n)
  then show ?thesis by (rule rnd_pos_exact)
qed

lemma rnd53_of_int: "\<bar>n\<bar> \<le> 2 ^ 53 \<Longrightarrow> rnd53 (of_int n) = of_int n"
  using rnd_pos_of_int [of n] rnd_pos_of_int [of "- n"] by (auto simp: rnd53_def)

lemma rnd53_numeral: "numeral w \<le> (2 ^ 53 :: int) \<Longrightarrow> rnd53 (numeral w) = numeral w"
  using rnd53_of_int [of "numeral w"] by simp

lemma rnd53_1 [simp]: "rnd53 1 = 1"
  using rnd53_of_int [of 1] by simp

lemma rnd53_100 [simp]: "rnd53 100 = 100"
  by (rule rnd53_numeral) simp

lemma rnd53_near:
  assumes "0 \<le> x"
  shows "\<bar>rnd53 x - x\<bar> \<le> x / 2 ^ 53"
proof (cases "x = 0")
  case True
  then show ?thesis by simp
next
  case False
  with assms have pos: "0 < x" by simp
  have u: "ulp x \<noteq> 0" using ulp_pos [of x] by linarith
  have "rnd53 x - x = (of_int (round_even (x / ulp x)) - x / ulp x) * ulp x"
    using pos u by (simp add: rnd53_def rnd_pos_def left_diff_distrib)
  then have "\<bar>rnd53 x - x\<bar> = \<bar>of_int (round_even (x / ulp x)) - x / ulp x\<bar> * ulp x"
    using abs_of_pos [OF ulp_pos [of x]] by (simp add: abs_mult)
  also have "\<dots> \<le> 1 / 2 * ulp x"
    by (intro mult_right_mono round_even_near) (auto intro: less_imp_le)
  also have "\<dots> \<le> x / 2 ^ 53" using ulp_le [OF pos] by (simp add: field_simps)
  finally show ?thesis .
qed

subsection \<open>Percentages of counts\<close>

text \<open>\<open>a / b * 100\<close> on doubles, for counts or marks \<open>a \<le> b\<close>.\<close>

definition js_percent :: "number \<Rightarrow> number \<Rightarrow> number" where
  "js_percent a b = js_mul (js_div a b) 100"

lemma js_div_unit:
  assumes "0 \<le> a" "a \<le> b" "0 < b"
  shows "0 \<le> js_div a b" and "js_div a b \<le> 1"
  using assms rnd53_nonneg [of "a / b"] rnd53_mono [of "a / b" 1] by (auto simp: js_div_def)

lemma js_percent_range:
  assumes "0 \<le> a" "a \<le> b" "0 < b"
  shows "0 \<le> js_percent a b" and "js_percent a b \<le> 100"
  using js_div_unit [OF assms] rnd53_nonneg [of "js_div a b * 100"] rnd53_mono [of "js_div a b * 100" 100]
  by (auto simp: js_percent_def js_mul_def)

lemma js_percent_all [simp]: "0 < b \<Longrightarrow> js_percent b b = 100"
  by (simp add: js_percent_def js_mul_def js_div_def)

lemma js_percent_none [simp]: "js_percent 0 b = 0"
  by (simp add: js_percent_def js_mul_def js_div_def)

lemma js_percent_near:
  assumes "0 \<le> a" "a \<le> b" "0 < b"
  shows "\<bar>js_percent a b - 100 * a / b\<bar> \<le> 1 / 10 ^ 12"
proof -
  let ?v = "js_div a b"
  have ab: "0 \<le> a / b" "a / b \<le> 1" using assms by auto
  have v: "0 \<le> ?v" "?v \<le> 1" using js_div_unit [OF assms] .
  have "\<bar>?v - a / b\<bar> \<le> a / b / 2 ^ 53" unfolding js_div_def using ab(1) by (rule rnd53_near)
  also have "\<dots> \<le> 1 / 2 ^ 53" using ab by (intro divide_right_mono) auto
  finally have d1: "\<bar>?v - a / b\<bar> \<le> 1 / 2 ^ 53" .
  have "\<bar>js_percent a b - ?v * 100\<bar> \<le> ?v * 100 / 2 ^ 53"
    unfolding js_percent_def js_mul_def using v by (intro rnd53_near) simp
  also have "\<dots> \<le> 100 / 2 ^ 53" using v by (intro divide_right_mono) auto
  finally have d2: "\<bar>js_percent a b - ?v * 100\<bar> \<le> 100 / 2 ^ 53" .
  have eq: "100 * a / b = 100 * (a / b)" by simp
  from d1 d2 have "\<bar>js_percent a b - 100 * (a / b)\<bar> \<le> 200 / 2 ^ 53" by linarith
  also have "\<dots> \<le> 1 / 10 ^ 12" by simp
  finally show ?thesis unfolding eq .
qed

text \<open>With fewer than 200 marks a fraction below a whole percentage stays clearly below it.\<close>

lemma percent_gap:
  fixes e t thr :: int
  assumes "100 * e < thr * t" "0 < t" "t < 200"
  shows "100 * of_int e / of_int t \<le> (of_int thr - 1 / 199 :: rat)"
proof -
  have "100 * e + 1 \<le> thr * t" using assms by simp
  then have "of_int (100 * e + 1) \<le> (of_int (thr * t) :: rat)" by (simp only: of_int_le_iff)
  moreover have "(of_int t :: rat) \<le> 199" using of_int_le_iff [of t 199, where 'a = rat] assms by simp
  moreover have "(0::rat) < of_int t" using assms by simp
  ultimately show ?thesis by (simp add: field_simps)
qed

lemma percent_reach:
  fixes e t thr :: int
  assumes "thr * t \<le> 100 * e" "0 < t"
  shows "(of_int thr :: rat) \<le> 100 * of_int e / of_int t"
proof -
  have "(of_int (thr * t) :: rat) \<le> of_int (100 * e)" using assms by (simp only: of_int_le_iff)
  with assms show ?thesis by (simp add: le_divide_eq)
qed

subsection \<open>Decimal rounding\<close>

lemma to_fixed2_mono: "0 \<le> x \<Longrightarrow> x \<le> y \<Longrightarrow> to_fixed2 x \<le> to_fixed2 y"
  by (auto simp: to_fixed2_def intro!: divide_right_mono floor_mono)

lemma to_fixed2_of_int: "0 \<le> n \<Longrightarrow> to_fixed2 (of_int n) = of_int n"
proof -
  assume "0 \<le> n"
  have "\<lfloor>of_int n * 100 + 1 / 2 :: rat\<rfloor> = n * 100"
    by (rule floor_unique) auto
  with \<open>0 \<le> n\<close> show ?thesis by (simp add: to_fixed2_def)
qed

lemma to_fixed2_ge:
  fixes thr :: int
  assumes "0 \<le> x" "of_int thr - 1 / 200 \<le> x"
  shows "of_int thr \<le> to_fixed2 x"
proof -
  have "(of_int (100 * thr) :: rat) \<le> x * 100 + 1 / 2" using assms by simp
  then have "100 * thr \<le> \<lfloor>x * 100 + 1 / 2\<rfloor>" by (simp add: le_floor_iff)
  then have "(of_int (100 * thr) :: rat) \<le> of_int \<lfloor>x * 100 + 1 / 2\<rfloor>" by (simp only: of_int_le_iff)
  with assms show ?thesis by (simp add: to_fixed2_def le_divide_eq)
qed

lemma to_fixed2_less:
  fixes thr :: int
  assumes "0 \<le> x" "x < of_int thr - 1 / 200"
  shows "to_fixed2 x \<le> of_int thr - 1 / 100"
proof -
  have "x * 100 + 1 / 2 < of_int (100 * thr)" using assms by simp
  then have "\<lfloor>x * 100 + 1 / 2\<rfloor> < 100 * thr" by (simp add: floor_less_iff)
  then have "\<lfloor>x * 100 + 1 / 2\<rfloor> \<le> 100 * thr - 1" by simp
  then have "(of_int \<lfloor>x * 100 + 1 / 2\<rfloor> :: rat) \<le> of_int (100 * thr - 1)" by (simp only: of_int_le_iff)
  with assms show ?thesis by (simp add: to_fixed2_def divide_le_eq)
qed

lemma parse_float_ge: "\<bar>thr\<bar> \<le> 2 ^ 53 \<Longrightarrow> of_int thr \<le> x \<Longrightarrow> of_int thr \<le> parse_float x"
  using rnd53_mono [of "of_int thr" x] by (simp add: parse_float_def rnd53_of_int)

lemma parse_float_less:
  fixes thr :: int
  assumes "0 \<le> x" "x \<le> of_int thr - 1 / 100" "thr \<le> 100"
  shows "parse_float x < of_int thr"
proof -
  have t: "(of_int thr :: rat) \<le> 100" using of_int_le_iff [of thr 100, where 'a = rat] assms(3) by simp
  have "parse_float x \<le> x + x / 2 ^ 53"
    using rnd53_near [OF assms(1)] unfolding parse_float_def by linarith
  also have "\<dots> < of_int thr" using assms(2) t by simp
  finally show ?thesis .
qed

lemma js_round_ge:
  fixes n :: int
  shows "of_int n - 1 / 2 \<le> x \<Longrightarrow> n \<le> js_round x"
  by (simp add: js_round_def le_floor_iff)

lemma js_round_le:
  fixes n :: int
  shows "x < of_int n + 1 / 2 \<Longrightarrow> js_round x \<le> n"
  by (simp add: js_round_def floor_le_iff)

end
