(* ===== verification/Entities.thy ===== *)
theory Entities
  imports Prelude JsNumber
begin

section \<open>Database rows\<close>

text \<open>
  The TypeORM entities under \<open>src/src/database/entities\<close>: a class is a record that extends the
  record of its base class, a nullable column is an option, a \<open>timestamptz\<close> an \<open>instant\<close>, a
  \<open>jsonb\<close> object of strings an association list or a map. Relations that are only used for joins
  are not fields of the row, except \<open>Exam.questions\<close> and \<open>ExamQuestion.options\<close>, which the exam
  engine loads with the exam. Field names carry a prefix per class; \<open>pk\<close> is the column \<open>id\<close>.
\<close>

subsection \<open>base.entity.ts\<close>

record uuid_entity =
  pk :: uuid
  createdAt :: instant
  updatedAt :: instant

record int_entity =
  serial :: nat
  int_createdAt :: instant
  int_updatedAt :: instant

text \<open>\<open>repository.update\<close> sets the \<open>UpdateDateColumn\<close>.\<close>

definition touch :: "instant \<Rightarrow> 'a uuid_entity_scheme \<Rightarrow> 'a uuid_entity_scheme" where
  "touch now r = r\<lparr>updatedAt := now\<rparr>"

lemma touch_simps [simp]:
  "pk (touch now r) = pk r" "createdAt (touch now r) = createdAt r" "updatedAt (touch now r) = now"
  by (simp_all add: touch_def)

subsection \<open>Translations (common/i18n/types.ts)\<close>

type_synonym locale_block = "string \<rightharpoonup> string"
type_synonym localized = "string \<rightharpoonup> locale_block"

subsection \<open>user.entity.ts\<close>

record user = uuid_entity +
  u_email :: string
  u_passwordHash :: string
  u_firstName :: string
  u_lastName :: string
  u_phone :: "string option"
  u_avatarUrl :: "string option"
  u_country :: "string option"
  u_city :: "string option"
  u_street :: "string option"
  u_address :: "string option"
  u_postalCode :: "string option"
  u_occupation :: "string option"
  u_position :: "string option"
  u_company :: "string option"
  u_locale :: string
  u_emailVerified :: bool
  u_emailVerifiedAt :: "instant option"
  u_active :: bool

subsection \<open>admin-user.entity.ts\<close>

datatype admin_role = SUPER_ADMIN | LEARNING_ADMIN | CONTENT_CREATOR | FINANCE_ADMIN | SUPPORT_ADMIN

record admin_user = uuid_entity +
  a_email :: string
  a_passwordHash :: string
  a_firstName :: string
  a_lastName :: string
  a_role :: admin_role
  a_locale :: string
  a_active :: bool
  a_createdById :: "uuid option"

subsection \<open>auth-misc.entity.ts, auth-token.entity.ts\<close>

datatype token_owner_type = OWNER_USER | OWNER_ADMIN

record refresh_token = int_entity +
  rt_userId :: "uuid option"
  rt_adminId :: "uuid option"
  rt_ownerType :: token_owner_type
  rt_tokenHash :: string
  rt_expiresAt :: instant
  rt_revokedAt :: "instant option"

datatype auth_token_purpose = EMAIL_VERIFICATION | PASSWORD_RESET

record auth_token = int_entity +
  tk_userId :: uuid
  tk_purpose :: auth_token_purpose
  tk_tokenHash :: string
  tk_expiresAt :: instant
  tk_usedAt :: "instant option"

subsection \<open>certificate.entity.ts, learning-module.entity.ts, lesson.entity.ts\<close>

datatype cert_level = FOUNDATION | PRACTITIONER | AUTHORITY

text \<open>\<open>price\<close> is \<open>numeric(10,2)\<close>: hundredths of the currency unit.\<close>

record certificate = uuid_entity +
  c_title :: string
  c_programCode :: string
  c_description :: "string option"
  c_translations :: localized
  c_priceCents :: int
  c_currency :: string
  c_active :: bool
  c_thumbnailUrl :: "string option"
  c_badgeImageUrl :: "string option"
  c_track :: "string option"
  c_level :: "cert_level option"
  c_durationHours :: "int option"
  c_syllabusUrl :: "string option"

record learning_module = uuid_entity +
  m_certId :: uuid
  m_title :: string
  m_description :: "string option"
  m_translations :: localized
  m_position :: int
  m_active :: bool

record lesson = uuid_entity +
  l_moduleId :: uuid
  l_title :: string
  l_videoUrl :: "string option"
  l_contentText :: "string option"
  l_translations :: localized
  l_position :: int
  l_durationSeconds :: "int option"
  l_active :: bool

subsection \<open>student-purchase.entity.ts, progress-cert-transaction.entity.ts\<close>

datatype payment_type = ENROLLMENT | RETAKE

record student_purchase = uuid_entity +
  sp_userId :: uuid
  sp_certId :: uuid
  sp_paymentIntentId :: "string option"
  sp_paymentType :: payment_type
  sp_preExamConfirmed :: bool
  sp_examCompleted :: bool

record student_progress = uuid_entity +
  pr_userId :: uuid
  pr_lessonId :: uuid
  pr_completedAt :: instant

subsection \<open>exam.entity.ts\<close>

datatype exam_status = DRAFT | PUBLISHED
datatype question_type = MCQ | TRUE_FALSE

record exam_question_option = uuid_entity +
  o_questionId :: uuid
  o_optionText :: string
  o_isCorrect :: bool

record exam_question = uuid_entity +
  q_examId :: uuid
  q_questionText :: string
  q_questionType :: question_type
  q_position :: int
  q_marks :: int
  q_options :: "exam_question_option list"

record exam = uuid_entity +
  e_certId :: uuid
  e_title :: string
  e_examOrder :: int
  e_status :: exam_status
  e_passingScore :: int
  e_durationMinutes :: int
  e_createdById :: "uuid option"
  e_translations :: localized
  e_questions :: "exam_question list"

subsection \<open>exam-access-code.entity.ts, exam-attempt.entity.ts, test-session.entity.ts\<close>

text \<open>\<open>Record<string, string>\<close>: question id to option id, one entry per key.\<close>

type_synonym answers = "(uuid \<times> uuid) list"

record exam_access_code = uuid_entity +
  ac_userId :: uuid
  ac_examId :: uuid
  ac_certId :: uuid
  ac_tokenHash :: string
  ac_expiresAt :: instant
  ac_usedAt :: "instant option"

datatype attempt_status = ATTEMPT_SUBMITTED | ATTEMPT_AUTO_SUBMITTED

record exam_attempt = uuid_entity +
  at_userId :: uuid
  at_examId :: uuid
  at_certId :: uuid
  at_score :: number
  at_passed :: bool
  at_answers :: answers
  at_durationSeconds :: "int option"
  at_startedAt :: instant
  at_submittedAt :: instant
  at_status :: attempt_status
  at_lateFlag :: bool

datatype test_session_status = ACTIVE | SUBMITTED | EXPIRED | AUTO_SUBMITTED

record test_session = uuid_entity +
  ts_userId :: uuid
  ts_examId :: uuid
  ts_certId :: "uuid option"
  ts_sessionToken :: string
  ts_startedAt :: instant
  ts_durationSeconds :: int
  ts_expiresAt :: instant
  ts_status :: test_session_status
  ts_submittedAt :: "instant option"
  ts_snapshot :: "answers option"

end
