(* ===== verification/Contracts.thy ===== *)
theory Contracts
  imports Prelude
begin

section \<open>Contracts shared by several components\<close>

text \<open>
  Two interfaces recur in this backend. \<open>single_use\<close> is the contract of everything that may be
  claimed once: access codes, auth tokens, refresh tokens, grace keys and the transition of a
  session out of its open statuses are all claimed by a conditional write whose affected count
  decides the winner. \<open>guarded_system\<close> is the contract of a component whose operations keep an
  invariant, so that every reachable state satisfies it.
\<close>

subsection \<open>First writer wins\<close>

text \<open>Claiming a list of keys one after the other, with the outcome of each claim.\<close>

fun run_claims :: "('k \<Rightarrow> 's \<Rightarrow> bool \<times> 's) \<Rightarrow> 'k list \<Rightarrow> 's \<Rightarrow> ('k \<times> bool) list \<times> 's" where
  "run_claims claim [] s = ([], s)"
| "run_claims claim (k # ks) s =
     (case claim k s of (b, s1) \<Rightarrow>
        case run_claims claim ks s1 of (bs, s2) \<Rightarrow> ((k, b) # bs, s2))"

definition wins :: "'k \<Rightarrow> ('k \<times> bool) list \<Rightarrow> nat" where
  "wins k log = length (filter (\<lambda>(k', b). k' = k \<and> b) log)"

locale single_use =
  fixes invar :: "'s \<Rightarrow> bool"
    and open_key :: "'s \<Rightarrow> 'k \<Rightarrow> bool"
    and claim :: "'k \<Rightarrow> 's \<Rightarrow> bool \<times> 's"
  assumes claim_invar: "invar s \<Longrightarrow> invar (snd (claim k s))"
    and claim_result: "invar s \<Longrightarrow> fst (claim k s) = open_key s k"
    and claim_closes: "invar s \<Longrightarrow> \<not> open_key (snd (claim k s)) k"
    and claim_frame: "invar s \<Longrightarrow> k' \<noteq> k \<Longrightarrow> open_key (snd (claim k s)) k' = open_key s k'"
begin

lemma run_invar: "invar s \<Longrightarrow> invar (snd (run_claims claim ks s))"
proof (induction ks arbitrary: s)
  case (Cons k ks)
  from Cons.prems have "invar (snd (claim k s))" by (rule claim_invar)
  from Cons.IH [OF this] show ?case by (auto split: prod.splits)
qed simp

lemma wins_exact:
  "invar s \<Longrightarrow> wins k (fst (run_claims claim ks s)) = (if open_key s k \<and> k \<in> set ks then 1 else 0)"
proof (induction ks arbitrary: s)
  case Nil
  then show ?case by (simp add: wins_def)
next
  case (Cons x ks)
  obtain b s1 where c: "claim x s = (b, s1)" by (cases "claim x s")
  have inv: "invar s1" using claim_invar [OF Cons.prems, of x] by (simp add: c)
  have b: "b = open_key s x" using claim_result [OF Cons.prems, of x] by (simp add: c)
  have o: "open_key s1 k = (k \<noteq> x \<and> open_key s k)"
    using claim_closes [OF Cons.prems, of x] claim_frame [OF Cons.prems, of k x]
    by (auto simp: c)
  obtain bs s2 where r: "run_claims claim ks s1 = (bs, s2)" by (cases "run_claims claim ks s1")
  from Cons.IH [OF inv] have "wins k bs = (if open_key s1 k \<and> k \<in> set ks then 1 else 0)" by (simp add: r)
  then show ?case by (auto simp: c r b o wins_def)
qed

lemma at_most_one_winner: "invar s \<Longrightarrow> wins k (fst (run_claims claim ks s)) \<le> 1"
  by (simp add: wins_exact)

lemma claimed_twice_loses:
  "invar s \<Longrightarrow> fst (claim k (snd (claim k s))) = False"
  using claim_result [OF claim_invar] claim_closes by auto

end

text \<open>
  The usual provider of the contract: \<open>UPDATE ... SET f WHERE key AND open\<close>, claimed by the caller
  whose affected count is not zero.
\<close>

definition claim_rows :: "('k \<Rightarrow> 'r \<Rightarrow> bool) \<Rightarrow> ('r \<Rightarrow> 'r) \<Rightarrow> 'k \<Rightarrow> 'r list \<Rightarrow> bool \<times> 'r list" where
  "claim_rows P f k t = (affected (P k) t \<noteq> 0, update_rows (P k) f t)"

locale row_claim =
  fixes P :: "'k \<Rightarrow> 'r \<Rightarrow> bool"
    and f :: "'r \<Rightarrow> 'r"
  assumes closes: "P k r \<Longrightarrow> \<not> P k (f r)"
    and keeps_other: "P k r \<Longrightarrow> k' \<noteq> k \<Longrightarrow> P k' (f r) = P k' r"
begin

lemma claim_open: "fst (claim_rows P f k t) \<longleftrightarrow> (\<exists>r \<in> set t. P k r)"
  by (simp add: claim_rows_def affected_eq_0_iff)

lemma claim_shut: "\<not> (\<exists>r \<in> set (snd (claim_rows P f k t)). P k r)"
  using closes by (auto simp: claim_rows_def set_update_rows)

lemma claim_other:
  assumes "k' \<noteq> k"
  shows "(\<exists>r \<in> set (snd (claim_rows P f k t)). P k' r) \<longleftrightarrow> (\<exists>r \<in> set t. P k' r)"
proof -
  have "P k' (if P k r then f r else r) = P k' r" for r
    using keeps_other [OF _ assms] by simp
  then show ?thesis
    by (simp only: claim_rows_def set_update_rows snd_conv bex_simps(7))
qed

end

sublocale row_claim \<subseteq> single_use "\<lambda>_. True" "\<lambda>t k. \<exists>r \<in> set t. P k r" "claim_rows P f"
  by unfold_locales (simp_all add: claim_open claim_shut claim_other)

subsection \<open>Invariants of reachable states\<close>

inductive reachable_from :: "('s \<Rightarrow> 's \<Rightarrow> bool) \<Rightarrow> 's \<Rightarrow> 's \<Rightarrow> bool" for step and s where
  start: "reachable_from step s s"
| extend: "reachable_from step s t \<Longrightarrow> step t u \<Longrightarrow> reachable_from step s u"

lemma reachable_from_trans:
  assumes "reachable_from step t u" and "reachable_from step s t"
  shows "reachable_from step s u"
  using assms by (induction rule: reachable_from.induct) (auto intro: reachable_from.extend)

locale guarded_system =
  fixes invar :: "'s \<Rightarrow> bool"
    and step :: "'s \<Rightarrow> 's \<Rightarrow> bool"
  assumes step_invar: "invar s \<Longrightarrow> step s t \<Longrightarrow> invar t"
begin

lemma reachable_invar: "reachable_from step s t \<Longrightarrow> invar s \<Longrightarrow> invar t"
  by (induction rule: reachable_from.induct) (auto intro: step_invar)

end

text \<open>A step relation with a quantity that never decreases.\<close>

locale monotone_system = guarded_system +
  fixes closed_key :: "'s \<Rightarrow> 'k \<Rightarrow> bool"
  assumes step_closed: "invar s \<Longrightarrow> step s t \<Longrightarrow> closed_key s k \<Longrightarrow> closed_key t k"
begin

lemma reachable_closed: "reachable_from step s t \<Longrightarrow> invar s \<Longrightarrow> closed_key s k \<Longrightarrow> closed_key t k"
  by (induction rule: reachable_from.induct) (auto intro: step_closed reachable_invar)

end

end
