(* ===== verification/TestSession.thy ===== *)
theory TestSession
  imports RedisStore Entities Contracts
begin

section \<open>Exam sessions in Redis (modules/exam/test-session.service.ts)\<close>

text \<open>
  \<open>TestSessionService\<close>: the exam session key, whose time to live is the countdown of the exam, and
  the grace key that opens for two minutes when it expires. The values of the two key families are
  the two constructors of \<open>exam_json\<close>; a value of the other family's shape is never written and
  reads as null. \<open>startedAt\<close> is kept as the instant of its ISO 8601 text.

  The lemmas of the context hold for every client that satisfies the laws of \<open>redis_server\<close>:
  autosave never moves a deadline, a deleted session has no key, and a grace key is handed out once.
\<close>

subsection \<open>Values\<close>

record exam_session_data =
  xs_sessionId :: uuid
  xs_userId :: uuid
  xs_examId :: uuid
  xs_certId :: uuid
  xs_startedAt :: instant
  xs_answers :: answers

datatype exam_json = SessionJson exam_session_data | GraceJson answers

fun as_session :: "exam_json option \<Rightarrow> exam_session_data option" where
  "as_session (Some (SessionJson d)) = Some d"
| "as_session _ = None"

fun as_grace :: "exam_json option \<Rightarrow> answers option" where
  "as_grace (Some (GraceJson a)) = Some a"
| "as_grace _ = None"

type_synonym 'r exam_client = "('r, exam_json) redis_client"

subsection \<open>Operations\<close>

definition start :: "'r exam_client \<Rightarrow> exam_session_data \<Rightarrow> int \<Rightarrow> instant \<Rightarrow> ('r, unit) op" where
  "start C d ttlSeconds now =
     setJson C (EXAM_SESSION_PREFIX @ xs_sessionId d) (SessionJson (d\<lparr>xs_answers := []\<rparr>)) ttlSeconds now"

definition autosave :: "'r exam_client \<Rightarrow> uuid \<Rightarrow> answers \<Rightarrow> instant \<Rightarrow> ('r, bool) op" where
  "autosave C sid a now =
     (let key = EXAM_SESSION_PREFIX @ sid in
      bind_op (getJson C key now) (\<lambda>existing.
        case as_session existing of
          None \<Rightarrow> return_op False
        | Some d \<Rightarrow> setJsonKeepTtl C key (SessionJson (d\<lparr>xs_answers := a\<rparr>)) now))"

definition getSession :: "'r exam_client \<Rightarrow> uuid \<Rightarrow> instant \<Rightarrow> ('r, exam_session_data option \<times> int) op" where
  "getSession C sid now =
     (let key = EXAM_SESSION_PREFIX @ sid in
      bind_op (getJson C key now) (\<lambda>data.
      bind_op (pttl C key now) (\<lambda>pttlMs. return_op (as_session data, pttlMs))))"

definition deleteSession :: "'r exam_client \<Rightarrow> uuid \<Rightarrow> instant \<Rightarrow> ('r, unit) op" where
  "deleteSession C sid now = del C (EXAM_SESSION_PREFIX @ sid) now"

definition startGrace :: "'r exam_client \<Rightarrow> uuid \<Rightarrow> answers \<Rightarrow> instant \<Rightarrow> ('r, unit) op" where
  "startGrace C sid snapshot now =
     setJson C (EXAM_GRACE_PREFIX @ sid) (GraceJson snapshot) GRACE_WINDOW_SECONDS now"

definition consumeGrace :: "'r exam_client \<Rightarrow> uuid \<Rightarrow> instant \<Rightarrow> ('r, answers option) op" where
  "consumeGrace C sid now =
     bind_op (getDelJson C (EXAM_GRACE_PREFIX @ sid) now) (\<lambda>data. return_op (as_grace data))"

definition hasGrace :: "'r exam_client \<Rightarrow> uuid \<Rightarrow> instant \<Rightarrow> ('r, bool) op" where
  "hasGrace C sid now =
     bind_op (pttl C (EXAM_GRACE_PREFIX @ sid) now) (\<lambda>n. return_op (0 < n))"

lemmas test_session_defs = start_def autosave_def getSession_def deleteSession_def startGrace_def
  consumeGrace_def hasGrace_def redis_service_defs Let_def

subsection \<open>The live keys of a session\<close>

definition session_entry :: "exam_json live_entry option \<Rightarrow> (exam_session_data \<times> instant option) option" where
  "session_entry e = (case e of Some (Json (SessionJson d), t) \<Rightarrow> Some (d, t) | _ \<Rightarrow> None)"

definition grace_entry :: "exam_json live_entry option \<Rightarrow> (answers \<times> instant option) option" where
  "grace_entry e = (case e of Some (Json (GraceJson a), t) \<Rightarrow> Some (a, t) | _ \<Rightarrow> None)"

lemma entry_simps [simp]:
  "session_entry None = None" "grace_entry None = None"
  "session_entry (Some (Json (SessionJson d), t)) = Some (d, t)"
  "grace_entry (Some (Json (GraceJson a), t)) = Some (a, t)"
  by (simp_all add: session_entry_def grace_entry_def)

lemma as_session_read: "as_session (parse_or_null (map_option fst e)) = map_option fst (session_entry e)"
  by (cases e) (auto simp: session_entry_def split: json_text.splits exam_json.splits)

lemma as_grace_read: "as_grace (parse_or_null (map_option fst e)) = map_option fst (grace_entry e)"
  by (cases e) (auto simp: grace_entry_def split: json_text.splits exam_json.splits)

lemma session_entry_SomeD: "session_entry e = Some (d, t) \<Longrightarrow> e = Some (Json (SessionJson d), t)"
  by (auto simp: session_entry_def split: option.splits prod.splits json_text.splits exam_json.splits)

subsection \<open>What the operations do to the keys\<close>

locale exam_redis = redis_server C view up
  for C :: "('r, exam_json) redis_client"
    and view :: "'r \<Rightarrow> instant \<Rightarrow> string \<Rightarrow> exam_json live_entry option"
    and up :: "'r \<Rightarrow> bool"
begin

lemma start_up: "up r \<Longrightarrow> 0 < ttl \<Longrightarrow> fst (start C d ttl now r) = Inr ()"
  by (simp add: test_session_defs set_ex_up)

lemma start_view:
  "start C d ttl now r = (Inr (), r') \<Longrightarrow>
   view r' now = (view r now)(EXAM_SESSION_PREFIX @ xs_sessionId d \<mapsto>
     (Json (SessionJson (d\<lparr>xs_answers := []\<rparr>)), Some (now + ttl * 1000)))"
  by (simp add: test_session_defs set_ex)

lemma autosave_view:
  assumes "autosave C sid a now r = (Inr b, r')"
  shows "b \<longleftrightarrow> session_entry (view r now (EXAM_SESSION_PREFIX @ sid)) \<noteq> None"
    and "view r' now = (case session_entry (view r now (EXAM_SESSION_PREFIX @ sid)) of
           None \<Rightarrow> view r now
         | Some (d, t) \<Rightarrow> (view r now)(EXAM_SESSION_PREFIX @ sid \<mapsto> (Json (SessionJson (d\<lparr>xs_answers := a\<rparr>)), t)))"
proof -
  let ?k = "EXAM_SESSION_PREFIX @ sid"
  obtain raw r1 where g: "rc_get C ?k now r = (Inr raw, r1)"
    and rest: "(case as_session (parse_or_null raw) of None \<Rightarrow> (Inr False, r1)
        | Some d \<Rightarrow> rc_set_keepttl_xx C ?k (Json (SessionJson (d\<lparr>xs_answers := a\<rparr>))) now r1) = (Inr b, r')"
    using assms
    by (auto simp: test_session_defs bind_op_eq_ok_iff split: option.splits)
  from get [OF g] have raw: "raw = map_option fst (view r now ?k)" and r1: "r1 = r" by auto
  have "b \<longleftrightarrow> session_entry (view r now ?k) \<noteq> None"
    and "view r' now = (case session_entry (view r now ?k) of None \<Rightarrow> view r now
         | Some (d, t) \<Rightarrow> (view r now)(?k \<mapsto> (Json (SessionJson (d\<lparr>xs_answers := a\<rparr>)), t)))"
    using rest unfolding raw r1 as_session_read
    by (auto split: option.splits dest!: keepttl dest: session_entry_SomeD)
  then show "b \<longleftrightarrow> session_entry (view r now ?k) \<noteq> None"
    and "view r' now = (case session_entry (view r now ?k) of None \<Rightarrow> view r now
         | Some (d, t) \<Rightarrow> (view r now)(?k \<mapsto> (Json (SessionJson (d\<lparr>xs_answers := a\<rparr>)), t)))"
    by simp_all
qed

lemma autosave_keeps_deadlines:
  "autosave C sid a now r = (Inr b, r') \<Longrightarrow> remaining now (view r' now k) = remaining now (view r now k)"
  by (drule autosave_view(2))
    (auto simp: remaining_def split: option.splits dest!: session_entry_SomeD)

lemma getSession_up:
  "up r \<Longrightarrow> getSession C sid now r =
     (Inr (map_option fst (session_entry (view r now (EXAM_SESSION_PREFIX @ sid))),
           remaining now (view r now (EXAM_SESSION_PREFIX @ sid))), r)"
  by (simp add: test_session_defs bind_op_def get_up pttl_up as_session_read)

lemma getSession_value:
  "getSession C sid now r = (Inr (d, n), r') \<Longrightarrow>
     d = map_option fst (session_entry (view r now (EXAM_SESSION_PREFIX @ sid))) \<and>
     n = remaining now (view r now (EXAM_SESSION_PREFIX @ sid)) \<and> r' = r"
  by (auto simp: test_session_defs bind_op_eq_ok_iff as_session_read dest!: get pttl)

lemma deleteSession_view:
  "deleteSession C sid now r = (Inr (), r') \<Longrightarrow> view r' now = (view r now)(EXAM_SESSION_PREFIX @ sid := None)"
  by (simp add: test_session_defs del)

lemma startGrace_view:
  "startGrace C sid a now r = (Inr (), r') \<Longrightarrow>
   view r' now = (view r now)(EXAM_GRACE_PREFIX @ sid \<mapsto> (Json (GraceJson a), Some (now + 120000)))"
  by (simp add: test_session_defs set_ex GRACE_WINDOW_SECONDS_def)

lemma consumeGrace_value:
  "consumeGrace C sid now r = (Inr g, r') \<Longrightarrow>
     g = map_option fst (grace_entry (view r now (EXAM_GRACE_PREFIX @ sid))) \<and>
     view r' now = (view r now)(EXAM_GRACE_PREFIX @ sid := None)"
  by (auto simp: test_session_defs bind_op_eq_ok_iff as_grace_read dest!: getdel)

lemma consumeGrace_up:
  "up r \<Longrightarrow> fst (consumeGrace C sid now r) =
     Inr (map_option fst (grace_entry (view r now (EXAM_GRACE_PREFIX @ sid))))"
  using getdel_up [of r "EXAM_GRACE_PREFIX @ sid" now]
  by (auto simp: test_session_defs bind_op_def as_grace_read split: prod.splits sum.splits)

lemma consumed_once:
  assumes "consumeGrace C sid now r = (Inr g, r1)" and "now \<le> t" and "consumeGrace C sid t r1 = (Inr g2, r2)"
  shows "g2 = None"
proof -
  from consumeGrace_value [OF assms(1)] have "view r1 now (EXAM_GRACE_PREFIX @ sid) = None" by simp
  then have "view r1 t (EXAM_GRACE_PREFIX @ sid) = None" using time_passes [OF assms(2)] by simp
  with consumeGrace_value [OF assms(3)] show ?thesis by simp
qed

lemma hasGrace_up:
  "up r \<Longrightarrow> hasGrace C sid now r =
     (Inr (\<exists>v d. view r now (EXAM_GRACE_PREFIX @ sid) = Some (v, Some d)), r)"
  by (simp add: test_session_defs bind_op_def pttl_up remaining_pos_iff)

text \<open>The grace window of a session is open for 120 seconds after \<open>startGrace\<close>, unless it is
  consumed.\<close>

lemma grace_window:
  assumes "startGrace C sid a now r = (Inr (), r')" and "now \<le> t"
  shows "grace_entry (view r' t (EXAM_GRACE_PREFIX @ sid)) = (if t < now + 120000 then Some (a, Some (now + 120000)) else None)"
  using time_passes [OF assms(2), of r'] startGrace_view [OF assms(1)] by simp

lemma countdown:
  assumes "start C d ttl now r = (Inr (), r')" and "now \<le> t"
  shows "remaining t (view r' t (EXAM_SESSION_PREFIX @ xs_sessionId d)) =
    (if t < now + ttl * 1000 then now + ttl * 1000 - t else -2)"
  using time_passes [OF assms(2), of r'] start_view [OF assms(1)] by (simp add: remaining_def)

end

interpretation xstore: exam_redis store_client live_at online
  by unfold_locales

text \<open>A grace key is claimed at most once, in any sequence of claims at a time.\<close>

definition claim_grace :: "instant \<Rightarrow> uuid \<Rightarrow> exam_json redis_store \<Rightarrow> bool \<times> exam_json redis_store" where
  "claim_grace now sid r = (case consumeGrace store_client sid now r of
      (Inr (Some _), r') \<Rightarrow> (True, r') | (_, r') \<Rightarrow> (False, r'))"

lemma claim_grace_simp:
  "online r \<Longrightarrow> claim_grace now sid r =
     (grace_entry (live_at r now (EXAM_GRACE_PREFIX @ sid)) \<noteq> None, drop_key (EXAM_GRACE_PREFIX @ sid) r)"
  by (simp add: claim_grace_def test_session_defs bind_op_def store_client_simps as_grace_read
      split: option.split)

lemma online_drop [simp]: "online (drop_key k r) = online r"
  by (simp add: drop_key_def)

interpretation grace: single_use online
  "\<lambda>r sid. grace_entry (live_at r now (EXAM_GRACE_PREFIX @ sid)) \<noteq> None" "claim_grace now" for now
  by unfold_locales (simp_all add: claim_grace_simp)

end
