(* ===== verification/ExamScoring.thy ===== *)
theory ExamScoring
  imports Entities
begin

section \<open>Scoring an exam (ExamService.scoreAnswers)\<close>

text \<open>
  The loop of \<open>scoreAnswers\<close> with its three accumulators, its percentage in double precision
  arithmetic, and the comparison with the passing score. \<open>marks\<close> and \<open>passing_score\<close> are NOT NULL
  columns, so their \<open>??\<close> defaults are never used. The lemmas relate the loop to sums over the
  questions, bound the score, and show when the rounded score passes exactly the fractions that
  reach the threshold.
\<close>

definition PASSING_SCORE :: int where
  "PASSING_SCORE = 80"

record score_result =
  s_score :: number
  s_passed :: bool
  s_correctCount :: nat
  s_totalCount :: nat

subsection \<open>The loop\<close>

text \<open>\<open>answers[question.id]\<close>, falsy when it is absent or the empty string.\<close>

definition selected_option :: "answers \<Rightarrow> exam_question \<Rightarrow> uuid option" where
  "selected_option a q = (case map_of a (pk q) of
      Some oid \<Rightarrow> if oid = '''' then None else Some oid
    | None \<Rightarrow> None)"

definition answered_correctly :: "answers \<Rightarrow> exam_question \<Rightarrow> bool" where
  "answered_correctly a q = (case selected_option a q of
      None \<Rightarrow> False
    | Some oid \<Rightarrow> (case find_one (\<lambda>x. pk x = oid) (q_options q) of
        None \<Rightarrow> False
      | Some x \<Rightarrow> o_isCorrect x))"

fun score_loop :: "answers \<Rightarrow> exam_question list \<Rightarrow> nat \<times> int \<times> int \<Rightarrow> nat \<times> int \<times> int" where
  "score_loop a [] (correctCount, earnedMarks, totalMarks) = (correctCount, earnedMarks, totalMarks)"
| "score_loop a (q # qs) (correctCount, earnedMarks, totalMarks) =
     (let weight = q_marks q; totalMarks' = totalMarks + weight in
      if answered_correctly a q then score_loop a qs (correctCount + 1, earnedMarks + weight, totalMarks')
      else score_loop a qs (correctCount, earnedMarks, totalMarks'))"

definition percent_score :: "int \<Rightarrow> int \<Rightarrow> number" where
  "percent_score earnedMarks totalMarks =
     (if 0 < totalMarks then parse_float (to_fixed2 (js_percent (of_int earnedMarks) (of_int totalMarks))) else 0)"

definition scoreAnswers :: "exam list \<Rightarrow> uuid \<Rightarrow> answers \<Rightarrow> score_result" where
  "scoreAnswers exams examId a = (case find_one (\<lambda>e. pk e = examId) exams of
      None \<Rightarrow> \<lparr>s_score = 0, s_passed = False, s_correctCount = 0, s_totalCount = 0\<rparr>
    | Some exam \<Rightarrow>
        if e_questions exam = [] then \<lparr>s_score = 0, s_passed = False, s_correctCount = 0, s_totalCount = 0\<rparr>
        else (case score_loop a (e_questions exam) (0, 0, 0) of (correctCount, earnedMarks, totalMarks) \<Rightarrow>
          let score = percent_score earnedMarks totalMarks in
          \<lparr>s_score = score, s_passed = of_int (e_passingScore exam) \<le> score,
           s_correctCount = correctCount, s_totalCount = length (e_questions exam)\<rparr>))"

subsection \<open>The loop computes sums\<close>

definition earned_marks :: "answers \<Rightarrow> exam_question list \<Rightarrow> int" where
  "earned_marks a qs = sum_list (map q_marks (filter (answered_correctly a) qs))"

definition total_marks :: "exam_question list \<Rightarrow> int" where
  "total_marks qs = sum_list (map q_marks qs)"

lemma score_loop_sums:
  "score_loop a qs (c, e, t) =
     (c + length (filter (answered_correctly a) qs), e + earned_marks a qs, t + total_marks qs)"
  by (induction qs arbitrary: c e t) (auto simp: earned_marks_def total_marks_def Let_def)

definition marks_ok :: "exam_question list \<Rightarrow> bool" where
  "marks_ok qs \<longleftrightarrow> (\<forall>q \<in> set qs. 0 \<le> q_marks q)"

lemma marks_bounds:
  assumes "marks_ok qs"
  shows "0 \<le> earned_marks a qs" "earned_marks a qs \<le> total_marks qs" "0 \<le> total_marks qs"
  using assms by (induction qs) (auto simp: marks_ok_def earned_marks_def total_marks_def)

lemma scoreAnswers_found:
  "find_one (\<lambda>e. pk e = examId) exams = Some exam \<Longrightarrow> e_questions exam \<noteq> [] \<Longrightarrow>
   scoreAnswers exams examId a =
     \<lparr>s_score = percent_score (earned_marks a (e_questions exam)) (total_marks (e_questions exam)),
      s_passed = of_int (e_passingScore exam) \<le>
        percent_score (earned_marks a (e_questions exam)) (total_marks (e_questions exam)),
      s_correctCount = length (filter (answered_correctly a) (e_questions exam)),
      s_totalCount = length (e_questions exam)\<rparr>"
  by (simp add: scoreAnswers_def score_loop_sums Let_def)

lemma scoreAnswers_cases [consumes 0, case_names empty found]:
  assumes "scoreAnswers exams examId a = \<lparr>s_score = 0, s_passed = False, s_correctCount = 0, s_totalCount = 0\<rparr> \<Longrightarrow> P"
    and "\<And>exam. find_one (\<lambda>e. pk e = examId) exams = Some exam \<Longrightarrow> e_questions exam \<noteq> [] \<Longrightarrow> P"
  shows P
proof (cases "find_one (\<lambda>e. pk e = examId) exams")
  case None
  then show ?thesis using assms(1) by (simp add: scoreAnswers_def)
next
  case (Some exam)
  then show ?thesis using assms by (cases "e_questions exam = []") (simp_all add: scoreAnswers_def)
qed

subsection \<open>The percentage\<close>

lemma of_int_marks:
  assumes "0 \<le> e" "e \<le> t" "0 < t"
  shows "(0 :: rat) \<le> of_int e" "(of_int e :: rat) \<le> of_int t" "(0 :: rat) < of_int t"
  using assms by simp_all

lemma percent_near:
  assumes "0 \<le> e" "e \<le> t" "0 < t"
  shows "\<bar>js_percent (of_int e) (of_int t) - 100 * of_int e / of_int t\<bar> \<le> 1 / 100000"
proof -
  have "(1 :: rat) / 10 ^ 12 \<le> 1 / 100000" by simp
  with js_percent_near [OF of_int_marks [OF assms]] show ?thesis by (rule order_trans)
qed

lemma percent_score_range:
  assumes "0 \<le> e" "e \<le> t"
  shows "0 \<le> percent_score e t \<and> percent_score e t \<le> 100"
proof (cases "0 < t")
  case True
  note m = of_int_marks [OF assms True]
  let ?p = "js_percent (of_int e) (of_int t)"
  have p: "0 \<le> ?p" "?p \<le> 100" by (rule js_percent_range [OF m])+
  have "to_fixed2 0 \<le> to_fixed2 ?p" "to_fixed2 ?p \<le> to_fixed2 100"
    using p by (auto intro: to_fixed2_mono)
  then have "0 \<le> to_fixed2 ?p" "to_fixed2 ?p \<le> 100"
    using to_fixed2_of_int [of 0] to_fixed2_of_int [of 100] by simp_all
  with rnd53_mono [of 0 "to_fixed2 ?p"] rnd53_mono [of "to_fixed2 ?p" 100] True
  show ?thesis by (simp add: percent_score_def parse_float_def)
qed (simp add: percent_score_def)

lemma percent_score_all: "0 < t \<Longrightarrow> percent_score t t = 100"
  using to_fixed2_of_int [of 100] by (simp add: percent_score_def parse_float_def)

lemma percent_score_none [simp]: "percent_score 0 t = 0"
  using to_fixed2_of_int [of 0] by (simp add: percent_score_def parse_float_def)

lemma percent_score_reaches:
  assumes "0 \<le> e" "e \<le> t" "0 < t" "0 \<le> thr" "thr \<le> 100" "thr * t \<le> 100 * e"
  shows "of_int thr \<le> percent_score e t"
proof -
  note m = of_int_marks [OF assms(1-3)]
  have "of_int thr \<le> to_fixed2 (js_percent (of_int e) (of_int t))"
  proof (rule to_fixed2_ge)
    show "0 \<le> js_percent (of_int e) (of_int t)" by (rule js_percent_range(1) [OF m])
    show "of_int thr - 1 / 200 \<le> js_percent (of_int e) (of_int t)"
      using percent_near [OF assms(1-3)] percent_reach [OF assms(6) assms(3)] by linarith
  qed
  with assms show ?thesis by (auto simp: percent_score_def intro: parse_float_ge)
qed

lemma percent_score_misses:
  assumes "0 \<le> e" "e \<le> t" "0 < t" "t < 200" "thr \<le> 100" "100 * e < thr * t"
  shows "percent_score e t < of_int thr"
proof -
  note m = of_int_marks [OF assms(1-3)]
  let ?p = "js_percent (of_int e) (of_int t)"
  have p: "0 \<le> ?p" by (rule js_percent_range(1) [OF m])
  have "100 * of_int e / of_int t \<le> (of_int thr - 1 / 199 :: rat)" by (rule percent_gap [OF assms(6,3,4)])
  then have "?p < of_int thr - 1 / 200" using percent_near [OF assms(1-3)] by linarith
  from to_fixed2_less [OF p this] have "to_fixed2 ?p \<le> of_int thr - 1 / 100" .
  moreover have "0 \<le> to_fixed2 ?p" using to_fixed2_mono [OF order_refl p] to_fixed2_of_int [of 0] by simp
  ultimately show ?thesis using assms by (auto simp: percent_score_def intro: parse_float_less)
qed

lemma percent_score_iff:
  assumes "0 \<le> e" "e \<le> t" "0 < t" "t < 200" "0 \<le> thr" "thr \<le> 100"
  shows "of_int thr \<le> percent_score e t \<longleftrightarrow> thr * t \<le> 100 * e"
  using percent_score_reaches [OF assms(1-3,5-6)] percent_score_misses [OF assms(1-4,6)]
  by linarith

lemma score_range:
  assumes "\<forall>e \<in> set exams. marks_ok (e_questions e)"
  shows "0 \<le> s_score (scoreAnswers exams examId a) \<and> s_score (scoreAnswers exams examId a) \<le> 100"
proof (cases rule: scoreAnswers_cases [of exams examId a])
  case (found exam)
  then have "marks_ok (e_questions exam)" using assms by (auto dest: find_one_SomeD)
  from percent_score_range [OF marks_bounds(1,2) [OF this]] found show ?thesis
    by (simp add: scoreAnswers_found)
qed simp

lemma correct_le_total: "s_correctCount (scoreAnswers exams examId a) \<le> s_totalCount (scoreAnswers exams examId a)"
  by (cases rule: scoreAnswers_cases [of exams examId a]) (simp_all add: scoreAnswers_found)

end
