(* ===== verification/RowSecurity.thy ===== *)
theory RowSecurity
  imports Entities
begin

section \<open>Row level security and column checks (InitialSchema migration)\<close>

text \<open>
  The policies of \<open>1747000000000-InitialSchema.ts\<close> compare a row's \<open>user_id\<close> with the session
  variable \<open>app.current_user_id\<close>, read with \<open>NULLIF(current_setting(...), '')\<close>. A policy with only
  a USING clause also checks inserted rows. The services set the variable inside a transaction,
  where it is visible until the transaction ends.
\<close>

definition current_setting_or_null :: "string option \<Rightarrow> uuid option" where
  "current_setting_or_null guc = (case guc of Some u \<Rightarrow> if u = '''' then None else Some u | None \<Rightarrow> None)"

definition exam_attempts_isolation :: "string option \<Rightarrow> exam_attempt \<Rightarrow> bool" where
  "exam_attempts_isolation guc a \<longleftrightarrow> current_setting_or_null guc = Some (at_userId a)"

definition student_purchases_isolation :: "string option \<Rightarrow> student_purchase \<Rightarrow> bool" where
  "student_purchases_isolation guc p \<longleftrightarrow> current_setting_or_null guc = Some (sp_userId p)"

text \<open>\<open>CHECK (score BETWEEN 0 AND 100)\<close> and \<open>CHECK (passing_score BETWEEN 1 AND 100)\<close>.\<close>

definition attempt_score_check :: "exam_attempt \<Rightarrow> bool" where
  "attempt_score_check a \<longleftrightarrow> 0 \<le> at_score a \<and> at_score a \<le> 100"

definition exam_check :: "exam \<Rightarrow> bool" where
  "exam_check e \<longleftrightarrow> 1 \<le> e_examOrder e \<and> e_examOrder e \<le> 6 \<and> 1 \<le> e_passingScore e \<and> e_passingScore e \<le> 100"

lemma current_setting_Some [simp]: "u \<noteq> '''' \<Longrightarrow> current_setting_or_null (Some u) = Some u"
  by (simp add: current_setting_or_null_def)

lemma unset_sees_nothing [simp]:
  "\<not> exam_attempts_isolation None a" "\<not> student_purchases_isolation None p"
  "\<not> exam_attempts_isolation (Some '''') a" "\<not> student_purchases_isolation (Some '''') p"
  by (simp_all add: exam_attempts_isolation_def student_purchases_isolation_def current_setting_or_null_def)

end
