(* ===== verification/JsString.thy ===== *)
theory JsString
  imports Main "HOL-Library.Sublist" "HOL-Library.Char_ord"
begin

section \<open>JavaScript strings\<close>

text \<open>
  The string methods the services use, on ASCII strings: \<open>trim\<close>, \<open>toLowerCase\<close>, \<open>split\<close>,
  \<open>startsWith\<close>, \<open>replace\<close> of all matches, \<open>padStart\<close>, number to text, and the hexadecimal text of
  a byte buffer (\<open>buffer.toString('hex')\<close>).
\<close>

abbreviation code_of :: "char \<Rightarrow> nat" where
  "code_of c \<equiv> of_char c"

definition js_space :: "char \<Rightarrow> bool" where
  "js_space c \<longleftrightarrow> code_of c \<in> {9, 10, 11, 12, 13, 32, 160}"

definition trim :: "string \<Rightarrow> string" where
  "trim s = rev (dropWhile js_space (rev (dropWhile js_space s)))"

definition lower_char :: "char \<Rightarrow> char" where
  "lower_char c = (if 65 \<le> code_of c \<and> code_of c \<le> 90 then char_of (code_of c + 32) else c)"

definition upper_char :: "char \<Rightarrow> char" where
  "upper_char c = (if 97 \<le> code_of c \<and> code_of c \<le> 122 then char_of (code_of c - 32) else c)"

text \<open>Capital and small letters, with code equations on the bits of a character.\<close>

definition capital :: "char \<Rightarrow> bool" where
  "capital c \<longleftrightarrow> 65 \<le> code_of c \<and> code_of c \<le> 90"

definition small :: "char \<Rightarrow> bool" where
  "small c \<longleftrightarrow> 97 \<le> code_of c \<and> code_of c \<le> 122"

lemma capital_code [code]: "capital (Char b0 b1 b2 b3 b4 b5 b6 b7) \<longleftrightarrow>
    \<not> b7 \<and> b6 \<and> \<not> b5 \<and> (b0 \<or> b1 \<or> b2 \<or> b3 \<or> b4) \<and> \<not> (b4 \<and> b3 \<and> (b2 \<or> b1 \<and> b0))"
  unfolding capital_def by (cases b7; cases b6; cases b5; cases b4; cases b3; cases b2; cases b1; cases b0; simp)

lemma small_code [code]: "small (Char b0 b1 b2 b3 b4 b5 b6 b7) \<longleftrightarrow>
    \<not> b7 \<and> b6 \<and> b5 \<and> (b0 \<or> b1 \<or> b2 \<or> b3 \<or> b4) \<and> \<not> (b4 \<and> b3 \<and> (b2 \<or> b1 \<and> b0))"
  unfolding small_def by (cases b7; cases b6; cases b5; cases b4; cases b3; cases b2; cases b1; cases b0; simp)

lemma lower_char_code [code]: "lower_char (Char b0 b1 b2 b3 b4 b5 b6 b7) =
    (if capital (Char b0 b1 b2 b3 b4 b5 b6 b7) then Char b0 b1 b2 b3 b4 True b6 b7 else Char b0 b1 b2 b3 b4 b5 b6 b7)"
proof (cases "capital (Char b0 b1 b2 b3 b4 b5 b6 b7)")
  case True
  then have b: "\<not> b7" "b6" "\<not> b5" by (simp_all add: capital_code)
  have "code_of (Char b0 b1 b2 b3 b4 b5 b6 b7) + 32 = code_of (Char b0 b1 b2 b3 b4 True b6 b7)"
    using b by simp
  then have "char_of (code_of (Char b0 b1 b2 b3 b4 b5 b6 b7) + 32) = Char b0 b1 b2 b3 b4 True b6 b7"
    by (simp only: char_of_char)
  then show ?thesis using True by (simp only: lower_char_def capital_def if_True)
next
  case False
  then show ?thesis by (simp only: lower_char_def capital_def if_False)
qed

definition toLowerCase :: "string \<Rightarrow> string" where
  "toLowerCase = map lower_char"

definition toUpperCase :: "string \<Rightarrow> string" where
  "toUpperCase = map upper_char"

text \<open>\<open>s.split(sep)\<close> for a separator of one character.\<close>

fun split_on :: "char \<Rightarrow> string \<Rightarrow> string list" where
  "split_on c [] = [[]]"
| "split_on c (x # xs) = (if x = c then [] # split_on c xs
     else case split_on c xs of [] \<Rightarrow> [[x]] | w # ws \<Rightarrow> (x # w) # ws)"

fun join_with :: "string \<Rightarrow> string list \<Rightarrow> string" where
  "join_with sep [] = []"
| "join_with sep [w] = w"
| "join_with sep (w # ws) = w @ sep @ join_with sep ws"

definition hex_digit :: "nat \<Rightarrow> char" where
  "hex_digit n = (if n < 10 then char_of (n + 48) else char_of (n + 87))"

definition to_hex :: "nat list \<Rightarrow> string" where
  "to_hex bs = concat (map (\<lambda>b. [hex_digit (b div 16), hex_digit (b mod 16)]) bs)"

fun nat_text :: "nat \<Rightarrow> string" where
  "nat_text n = (if n < 10 then [char_of (n + 48)] else nat_text (n div 10) @ [char_of (n mod 10 + 48)])"

declare nat_text.simps [simp del]

definition int_text :: "int \<Rightarrow> string" where
  "int_text n = (if n < 0 then ''-'' @ nat_text (nat (- n)) else nat_text (nat n))"

lemma split_on_nonempty [simp]: "split_on c s \<noteq> []"
  by (induction s) (auto split: list.splits)

lemma join_with_push [simp]: "join_with sep ((x # w) # ws) = x # join_with sep (w # ws)"
  by (cases ws) simp_all

lemma join_split: "join_with [c] (split_on c s) = s"
proof (induction s)
  case (Cons x xs)
  then show ?case by (cases "split_on c xs") (auto simp: neq_Nil_conv)
qed simp

lemma lower_char_idem [simp]: "lower_char (lower_char c) = lower_char c"
  by (auto simp: lower_char_def)

lemma toLowerCase_idem [simp]: "toLowerCase (toLowerCase s) = toLowerCase s"
  by (simp add: toLowerCase_def)


end
