(* ===== verification/Externals.thy ===== *)
theory Externals
  imports Prelude
begin

section \<open>Libraries the services call\<close>

text \<open>
  bcrypt is not part of the repository: its two functions are arguments. \<open>hash\<close> draws a salt, which is
  one of the values a request draws, together with the time, random bytes and the keys of new rows.

  A start of an exam goes on after its first transaction: the Redis server executes the command of
  the countdown at its own, later time \<open>redisAt\<close>, and two further calls of the database may throw,
  the transaction that undoes the start (\<open>restoreFails\<close>) and the query for the questions
  (\<open>questionsFail\<close>).
\<close>

record bcrypt_lib =
  bc_hash :: "string \<Rightarrow> nat \<Rightarrow> string \<Rightarrow> string"
  bc_compare :: "string \<Rightarrow> string \<Rightarrow> bool"

text \<open>The documented behaviour of bcrypt: a plain text matches its own hash, whatever the salt and cost.\<close>

definition bcrypt_ok :: "bcrypt_lib \<Rightarrow> bool" where
  "bcrypt_ok B \<longleftrightarrow> (\<forall>s c p. bc_compare B p (bc_hash B s c p))"

record request_env =
  now :: instant
  salt :: string
  randomBytes :: "nat list"
  newId :: uuid
  redisAt :: instant
  restoreFails :: "exc option"
  questionsFail :: "exc option"

end
