(* ===== verification/ExamService.thy ===== *)
theory ExamService
  imports TestSession ExamScoring RowSecurity JsString Externals
begin

section \<open>The exam engine (modules/exam/exam.service.ts, exam.controller.ts)\<close>

text \<open>
  \<open>ExamService\<close> over its four tables and the Redis server. Every operation takes one reading of
  the clock, \<open>now\<close> (a start also the time of the Redis server, \<open>redisAt\<close>), the random values it draws and the library functions of bcrypt; it returns its
  result and the state with all writes that were committed. A transaction that throws leaves the
  tables as they were. \<open>startExam\<close> and \<open>scoreAndPersist\<close> are composed of the definitions of their
  phases, which the interleaving model reuses as its atomic steps.

  \<open>es_users\<close> and \<open>es_certs\<close> are the keys that the foreign keys of the four tables refer to.
\<close>

subsection \<open>State and environment\<close>

record 'r exam_state =
  es_users :: "uuid list"
  es_certs :: "uuid list"
  es_exams :: "exam list"
  es_codes :: "exam_access_code list"
  es_attempts :: "exam_attempt list"
  es_sessions :: "test_session list"
  es_redis :: 'r

definition ACCESS_CODE_BCRYPT_COST :: nat where
  "ACCESS_CODE_BCRYPT_COST = 10"

definition ACCESS_CODE_TTL_MS :: int where
  "ACCESS_CODE_TTL_MS = 24 * 60 * 60 * 1000"

definition on_redis :: "('r, 'a) op \<Rightarrow> ('r exam_state, 'a) op" where
  "on_redis m s = (case m (es_redis s) of (x, r) \<Rightarrow> (x, s\<lparr>es_redis := r\<rparr>))"

definition find_exam :: "uuid \<Rightarrow> 'r exam_state \<Rightarrow> exam option" where
  "find_exam examId s = find_one (\<lambda>e. pk e = examId) (es_exams s)"

definition find_session :: "uuid \<Rightarrow> 'r exam_state \<Rightarrow> test_session option" where
  "find_session sid s = find_one (\<lambda>t. pk t = sid) (es_sessions s)"

subsection \<open>Access codes: issue and assign\<close>

record issued_code =
  ic_plainCode :: string
  ic_expiresAt :: instant
  ic_examId :: uuid

definition issueAccessCode :: "bcrypt_lib \<Rightarrow> request_env \<Rightarrow> uuid \<Rightarrow> exam \<Rightarrow> ('r exam_state, issued_code) op" where
  "issueAccessCode B env userId exam s =
     (let plainCode = to_hex (randomBytes env);
          tokenHash = bc_hash B (salt env) ACCESS_CODE_BCRYPT_COST plainCode;
          expires = now env + ACCESS_CODE_TTL_MS;
          row = \<lparr>pk = newId env, createdAt = now env, updatedAt = now env, ac_userId = userId,
                 ac_examId = pk exam, ac_certId = e_certId exam, ac_tokenHash = tokenHash,
                 ac_expiresAt = expires, ac_usedAt = None\<rparr>
      in if userId \<notin> set (es_users s)
         then (throw (DatabaseError ''violates foreign key constraint''), s)
         else case insert_row pk row (es_codes s) of
           Inl e \<Rightarrow> (throw e, s)
         | Inr codes \<Rightarrow>
             (ok \<lparr>ic_plainCode = plainCode, ic_expiresAt = expires, ic_examId = pk exam\<rparr>,
              s\<lparr>es_codes := codes\<rparr>))"

definition assignExam :: "bcrypt_lib \<Rightarrow> request_env \<Rightarrow> uuid \<Rightarrow> uuid \<Rightarrow> uuid \<Rightarrow> ('r exam_state, issued_code) op" where
  "assignExam B env userId examId certId s =
     (case find_exam examId s of
        None \<Rightarrow> (throw (NotFoundException ''Exam not found''), s)
      | Some exam \<Rightarrow>
          if e_certId exam \<noteq> certId
          then (throw (BadRequestException ''Exam does not belong to the given certificate''), s)
          else if e_status exam \<noteq> PUBLISHED
          then (throw (UnprocessableEntityException ''Exam is not published''), s)
          else issueAccessCode B env userId exam s)"

text \<open>The attempts query runs in a transaction with \<open>app.current_user_id\<close> set to the student.\<close>

definition getAttemptedExamIds :: "uuid \<Rightarrow> uuid \<Rightarrow> 'r exam_state \<Rightarrow> uuid set" where
  "getAttemptedExamIds userId certId s =
     set (map at_examId (find_rows (\<lambda>a. at_userId a = userId \<and> at_certId a = certId)
       (filter (exam_attempts_isolation (Some userId)) (es_attempts s))))"

definition exam_pool :: "uuid \<Rightarrow> 'r exam_state \<Rightarrow> exam list" where
  "exam_pool certId s =
     sort_key e_examOrder (find_rows (\<lambda>e. e_certId e = certId \<and> e_status e = PUBLISHED) (es_exams s))"

definition assignNextExam ::
  "bcrypt_lib \<Rightarrow> request_env \<Rightarrow> uuid \<Rightarrow> uuid \<Rightarrow> ('r exam_state, issued_code \<times> int \<times> string) op" where
  "assignNextExam B env userId certId s =
     (let pool = exam_pool certId s in
      if pool = [] then (throw (NotFoundException ''No published exams exist for this certificate''), s)
      else
        let attempted = getAttemptedExamIds userId certId s in
        case find_one (\<lambda>e. pk e \<notin> attempted) pool of
          None \<Rightarrow> (throw (ForbiddenException ''Exam pool exhausted: the student has attempted every published exam for this certificate''), s)
        | Some next \<Rightarrow>
            let outstanding = find_one (\<lambda>c. ac_userId c = userId \<and> ac_examId c = pk next \<and> ac_usedAt c = None) (es_codes s) in
            if (case outstanding of None \<Rightarrow> False | Some c \<Rightarrow> now env < ac_expiresAt c)
            then (throw (ConflictException ''Student already has an unused access code for their next exam''), s)
            else bind_op (issueAccessCode B env userId next)
                   (\<lambda>issued. return_op (issued, e_examOrder next, e_title next)) s)"

subsection \<open>Access codes: verify\<close>

text \<open>\<open>for (const candidate of candidates)\<close>: skip the expired, return the first that matches.\<close>

fun first_match :: "bcrypt_lib \<Rightarrow> instant \<Rightarrow> string \<Rightarrow> exam_access_code list \<Rightarrow> exam_access_code option" where
  "first_match B t code [] = None"
| "first_match B t code (c # cs) =
     (if ac_expiresAt c < t then first_match B t code cs
      else if bc_compare B code (ac_tokenHash c) then Some c
      else first_match B t code cs)"

definition findAndVerifyCode ::
  "bcrypt_lib \<Rightarrow> instant \<Rightarrow> uuid \<Rightarrow> string \<Rightarrow> uuid \<Rightarrow> 'r exam_state \<Rightarrow> (exam_access_code \<times> exam) result" where
  "findAndVerifyCode B t userId code examId s =
     (case find_exam examId s of
        None \<Rightarrow> throw (NotFoundException ''Exam not found'')
      | Some exam \<Rightarrow>
          if e_status exam \<noteq> PUBLISHED then throw (ForbiddenException ''Invalid or expired access code'')
          else
            let candidates = sort_key (\<lambda>c. - createdAt c)
                  (find_rows (\<lambda>c. ac_userId c = userId \<and> ac_examId c = examId \<and> ac_usedAt c = None) (es_codes s))
            in case first_match B t code candidates of
                 None \<Rightarrow> throw (ForbiddenException ''Invalid or expired access code'')
               | Some c \<Rightarrow> ok (c, exam))"

definition validateAccess ::
  "bcrypt_lib \<Rightarrow> instant \<Rightarrow> uuid \<Rightarrow> string \<Rightarrow> uuid \<Rightarrow> 'r exam_state \<Rightarrow> (exam \<times> uuid) result" where
  "validateAccess B t userId code examId s =
     (case findAndVerifyCode B t userId code examId s of
        Inl e \<Rightarrow> throw e
      | Inr (c, exam) \<Rightarrow> ok (exam, pk c))"

subsection \<open>Starting an exam\<close>

text \<open>The reads before the transaction: the verified code, the exam, no active session.\<close>

definition start_guard ::
  "bcrypt_lib \<Rightarrow> instant \<Rightarrow> uuid \<Rightarrow> string \<Rightarrow> uuid \<Rightarrow> 'r exam_state \<Rightarrow> (exam_access_code \<times> exam) result" where
  "start_guard B t userId code examId s =
     (case findAndVerifyCode B t userId code examId s of
        Inl e \<Rightarrow> throw e
      | Inr (c, exam) \<Rightarrow>
          (case find_one (\<lambda>x. ts_userId x = userId \<and> ts_examId x = examId \<and> ts_status x = ACTIVE) (es_sessions s) of
             Some _ \<Rightarrow> throw (ConflictException ''An active session already exists for this exam'')
           | None \<Rightarrow> ok (c, exam)))"

definition new_session :: "request_env \<Rightarrow> uuid \<Rightarrow> uuid \<Rightarrow> exam_access_code \<Rightarrow> exam \<Rightarrow> test_session" where
  "new_session env userId examId c exam =
     (let durationSeconds = e_durationMinutes exam * 60 in
      \<lparr>pk = newId env, createdAt = now env, updatedAt = now env, ts_userId = userId, ts_examId = examId,
       ts_certId = Some (ac_certId c), ts_sessionToken = pk c, ts_startedAt = now env,
       ts_durationSeconds = durationSeconds, ts_expiresAt = now env + durationSeconds * 1000,
       ts_status = ACTIVE, ts_submittedAt = None, ts_snapshot = None\<rparr>)"

text \<open>The transaction that consumes the code and inserts the session.\<close>

definition code_unused :: "uuid \<Rightarrow> exam_access_code \<Rightarrow> bool" where
  "code_unused cid c \<longleftrightarrow> pk c = cid \<and> ac_usedAt c = None"

definition mark_code_used :: "instant \<Rightarrow> exam_access_code \<Rightarrow> exam_access_code" where
  "mark_code_used t c = (touch t c)\<lparr>ac_usedAt := Some t\<rparr>"

definition start_tx ::
  "request_env \<Rightarrow> uuid \<Rightarrow> uuid \<Rightarrow> exam_access_code \<Rightarrow> exam \<Rightarrow> ('r exam_state, test_session) op" where
  "start_tx env userId examId c exam s =
     (case claim_rows code_unused (mark_code_used (now env)) (pk c) (es_codes s) of
        (False, _) \<Rightarrow> (throw (ConflictException ''Access code has already been used''), s)
      | (True, codes) \<Rightarrow>
          let row = new_session env userId examId c exam
          in case insert_row pk row (es_sessions s) of
               Inl e \<Rightarrow> (throw e, s)
             | Inr ses \<Rightarrow> (ok row, s\<lparr>es_codes := codes, es_sessions := ses\<rparr>))"

interpretation access_codes: row_claim code_unused "mark_code_used t" for t
  by unfold_locales (auto simp: code_unused_def mark_code_used_def touch_def)

text \<open>The compensating transaction: drop the session row, free the code.\<close>

definition free_code :: "instant \<Rightarrow> exam_access_code \<Rightarrow> exam_access_code" where
  "free_code t c = (touch t c)\<lparr>ac_usedAt := None\<rparr>"

definition start_compensate :: "instant \<Rightarrow> uuid \<Rightarrow> uuid \<Rightarrow> 'r exam_state \<Rightarrow> 'r exam_state" where
  "start_compensate t sid cid s =
     s\<lparr>es_sessions := delete_rows (\<lambda>x. pk x = sid) (es_sessions s),
       es_codes := update_rows (\<lambda>c. pk c = cid) (free_code t) (es_codes s)\<rparr>"

record start_result =
  sr_sessionId :: uuid
  sr_durationSeconds :: int
  sr_expiresAt :: instant
  sr_questions :: "exam_question list"

definition session_payload :: "test_session \<Rightarrow> uuid \<Rightarrow> uuid \<Rightarrow> exam_access_code \<Rightarrow> exam_session_data" where
  "session_payload ses userId examId c =
     \<lparr>xs_sessionId = pk ses, xs_userId = userId, xs_examId = examId, xs_certId = ac_certId c,
      xs_startedAt = ts_startedAt ses, xs_answers = []\<rparr>"

text \<open>The query for the questions is made outside every \<open>try\<close>: what it throws is the answer.\<close>

definition load_questions :: "request_env \<Rightarrow> uuid \<Rightarrow> 'r exam_state \<Rightarrow> exam_question list result" where
  "load_questions env examId s = (case questionsFail env of
      Some err \<Rightarrow> throw err
    | None \<Rightarrow> ok (case find_exam examId s of
        None \<Rightarrow> [] | Some exam \<Rightarrow> sort_key q_position (e_questions exam)))"

text \<open>
  After the transaction: the Redis key, which lives from the time the server sets it, and then the
  questions. When the key cannot be set, the compensating transaction runs inside the \<open>catch\<close>: if it
  throws in its turn, its error replaces the first and the session and the used code stay.
\<close>

definition start_redis ::
  "'r exam_client \<Rightarrow> request_env \<Rightarrow> uuid \<Rightarrow> uuid \<Rightarrow> exam_access_code \<Rightarrow> test_session \<Rightarrow> ('r exam_state, start_result) op" where
  "start_redis C env userId examId c ses s =
     (case on_redis (start C (session_payload ses userId examId c) (ts_durationSeconds ses) (redisAt env)) s of
        (Inl err, s') \<Rightarrow>
          (case restoreFails env of
             Some err' \<Rightarrow> (throw err', s')
           | None \<Rightarrow> (throw err, start_compensate (now env) (pk ses) (pk c) s'))
      | (Inr _, s') \<Rightarrow>
          (case load_questions env examId s' of
             Inl err \<Rightarrow> (throw err, s')
           | Inr questions \<Rightarrow>
               (ok \<lparr>sr_sessionId = pk ses, sr_durationSeconds = ts_durationSeconds ses,
                    sr_expiresAt = ts_expiresAt ses, sr_questions = questions\<rparr>, s')))"

definition startExam ::
  "'r exam_client \<Rightarrow> bcrypt_lib \<Rightarrow> request_env \<Rightarrow> uuid \<Rightarrow> string \<Rightarrow> uuid \<Rightarrow> ('r exam_state, start_result) op" where
  "startExam C B env userId code examId s =
     (case start_guard B (now env) userId code examId s of
        Inl e \<Rightarrow> (throw e, s)
      | Inr (c, exam) \<Rightarrow>
          bind_op (start_tx env userId examId c exam)
            (\<lambda>ses. start_redis C env userId examId c ses) s)"

subsection \<open>Owned sessions, autosave and status\<close>

fun status_text :: "test_session_status \<Rightarrow> string" where
  "status_text ACTIVE = ''active''"
| "status_text SUBMITTED = ''submitted''"
| "status_text EXPIRED = ''expired''"
| "status_text AUTO_SUBMITTED = ''auto_submitted''"

definition getOwnedSession :: "uuid \<Rightarrow> uuid \<Rightarrow> test_session_status list \<Rightarrow> 'r exam_state \<Rightarrow> test_session result" where
  "getOwnedSession sid userId allowed s =
     (case find_session sid s of
        None \<Rightarrow> throw (NotFoundException ''Session not found'')
      | Some ses \<Rightarrow>
          if ts_userId ses \<noteq> userId then throw (ForbiddenException ''Session does not belong to this user'')
          else if ts_status ses \<notin> set allowed
          then throw (UnprocessableEntityException
            (''Session is in status '' @ [CHR 0x27] @ status_text (ts_status ses) @ [CHR 0x27] @ '' which is not allowed for this operation''))
          else ok ses)"

abbreviation all_statuses :: "test_session_status list" where
  "all_statuses \<equiv> [ACTIVE, SUBMITTED, EXPIRED, AUTO_SUBMITTED]"

definition getOwnedActiveSession :: "uuid \<Rightarrow> uuid \<Rightarrow> 'r exam_state \<Rightarrow> test_session result" where
  "getOwnedActiveSession sid userId s = getOwnedSession sid userId [ACTIVE] s"

definition save_snapshot :: "instant \<Rightarrow> uuid \<Rightarrow> answers \<Rightarrow> 'r exam_state \<Rightarrow> 'r exam_state" where
  "save_snapshot t sid a s = s\<lparr>es_sessions :=
     update_rows (\<lambda>x. pk x = sid) (\<lambda>x. (touch t x)\<lparr>ts_snapshot := Some a\<rparr>) (es_sessions s)\<rparr>"

definition autosaveExam :: "'r exam_client \<Rightarrow> instant \<Rightarrow> uuid \<Rightarrow> uuid \<Rightarrow> answers \<Rightarrow> ('r exam_state, unit) op" where
  "autosaveExam C t sid userId a s =
     (case getOwnedActiveSession sid userId s of
        Inl e \<Rightarrow> (throw e, s)
      | Inr ses \<Rightarrow>
          bind_op (on_redis (autosave C sid a t))
            (\<lambda>saved. if \<not> saved
               then throw_op (UnprocessableEntityException ''Session has expired; autosave rejected'')
               else (\<lambda>s'. (ok (), save_snapshot t (pk ses) a s'))) s)"

record session_status_result =
  st_sessionId :: uuid
  st_remainingSeconds :: int
  st_answers :: answers
  st_status :: test_session_status

definition remaining_seconds :: "int \<Rightarrow> int" where
  "remaining_seconds pttlMs = (if 0 < pttlMs then js_ceil (js_div (of_int pttlMs) 1000) else 0)"

definition getSessionStatus :: "'r exam_client \<Rightarrow> instant \<Rightarrow> uuid \<Rightarrow> uuid \<Rightarrow> ('r exam_state, session_status_result) op" where
  "getSessionStatus C t sid userId s =
     (case getOwnedSession sid userId all_statuses s of
        Inl e \<Rightarrow> (throw e, s)
      | Inr ses \<Rightarrow>
          bind_op (on_redis (getSession C sid t))
            (\<lambda>(data, pttlMs). return_op
               \<lparr>st_sessionId = sid, st_remainingSeconds = remaining_seconds pttlMs,
                st_answers = (case data of Some d \<Rightarrow> xs_answers d
                   | None \<Rightarrow> (case ts_snapshot ses of Some a \<Rightarrow> a | None \<Rightarrow> [])),
                st_status = ts_status ses\<rparr>) s)"

subsection \<open>Submitting\<close>

definition resolveCertId :: "test_session \<Rightarrow> uuid" where
  "resolveCertId ses = (case ts_certId ses of Some c \<Rightarrow> c | None \<Rightarrow> ts_examId ses)"

definition terminal_status :: "attempt_status \<Rightarrow> test_session_status" where
  "terminal_status st = (if st = ATTEMPT_AUTO_SUBMITTED then AUTO_SUBMITTED else SUBMITTED)"

definition new_attempt ::
  "request_env \<Rightarrow> test_session \<Rightarrow> answers \<Rightarrow> attempt_status \<Rightarrow> bool \<Rightarrow> score_result \<Rightarrow> exam_attempt" where
  "new_attempt env ses a st lateFlag r =
     \<lparr>pk = newId env, createdAt = now env, updatedAt = now env, at_userId = ts_userId ses,
      at_examId = ts_examId ses, at_certId = resolveCertId ses, at_score = s_score r, at_passed = s_passed r,
      at_answers = a, at_durationSeconds = Some (js_round (js_div (of_int (now env - ts_startedAt ses)) 1000)),
      at_startedAt = ts_startedAt ses, at_submittedAt = now env, at_status = st, at_lateFlag = lateFlag\<rparr>"

text \<open>The conditional transition out of ACTIVE or EXPIRED.\<close>

definition open_session :: "uuid \<Rightarrow> test_session \<Rightarrow> bool" where
  "open_session sid x \<longleftrightarrow> pk x = sid \<and> ts_status x \<in> {ACTIVE, EXPIRED}"

definition close_session :: "instant \<Rightarrow> test_session_status \<Rightarrow> answers \<Rightarrow> test_session \<Rightarrow> test_session" where
  "close_session t st a x = (touch t x)\<lparr>ts_status := st, ts_submittedAt := Some t, ts_snapshot := Some a\<rparr>"

interpretation transitions: row_claim open_session "close_session t (terminal_status st) a" for t st a
  by unfold_locales (auto simp: open_session_def close_session_def touch_def terminal_status_def)

text \<open>The transaction: set the user, transition, insert the attempt. The foreign key, the check
  constraint and the policy of \<open>exam_attempts\<close> can each make the insert fail, which rolls back.\<close>

definition persist_tx ::
  "request_env \<Rightarrow> test_session \<Rightarrow> answers \<Rightarrow> attempt_status \<Rightarrow> exam_attempt \<Rightarrow> ('r exam_state, unit) op" where
  "persist_tx env ses a st row s =
     (let guc = Some (ts_userId ses) in
      if affected (open_session (pk ses)) (es_sessions s) \<noteq> 1
      then (throw (ConflictException ''Session has already been submitted''), s)
      else
        let closed = update_rows (open_session (pk ses)) (close_session (now env) (terminal_status st) a) (es_sessions s)
        in if \<not> exam_attempts_isolation guc row
           then (throw (DatabaseError ''new row violates row-level security policy''), s)
           else if \<not> attempt_score_check row
           then (throw (DatabaseError ''violates check constraint''), s)
           else if at_userId row \<notin> set (es_users s) \<or> at_certId row \<notin> set (es_certs s)
           then (throw (DatabaseError ''violates foreign key constraint''), s)
           else case insert_row pk row (es_attempts s) of
             Inl e \<Rightarrow> (throw e, s)
           | Inr atts \<Rightarrow> (ok (), s\<lparr>es_sessions := closed, es_attempts := atts\<rparr>))"

definition scoreAndPersist ::
  "'r exam_client \<Rightarrow> request_env \<Rightarrow> test_session \<Rightarrow> answers \<Rightarrow> attempt_status \<Rightarrow> bool \<Rightarrow> ('r exam_state, score_result) op" where
  "scoreAndPersist C env ses a st lateFlag s =
     (let r = scoreAnswers (es_exams s) (ts_examId ses) a;
          row = new_attempt env ses a st lateFlag r
      in bind_op (persist_tx env ses a st row)
           (\<lambda>_. bind_op (on_redis (deleteSession C (pk ses) (now env))) (\<lambda>_. return_op r)) s)"

definition submitExam ::
  "'r exam_client \<Rightarrow> request_env \<Rightarrow> uuid \<Rightarrow> uuid \<Rightarrow> answers \<Rightarrow> ('r exam_state, score_result) op" where
  "submitExam C env sid userId a s =
     (case getOwnedActiveSession sid userId s of
        Inl e \<Rightarrow> (throw e, s)
      | Inr ses \<Rightarrow> scoreAndPersist C env ses a ATTEMPT_SUBMITTED False s)"

definition lateSubmitExam ::
  "'r exam_client \<Rightarrow> request_env \<Rightarrow> uuid \<Rightarrow> uuid \<Rightarrow> answers \<Rightarrow> ('r exam_state, score_result) op" where
  "lateSubmitExam C env sid userId a s =
     (case getOwnedSession sid userId [EXPIRED] s of
        Inl e \<Rightarrow> (throw e, s)
      | Inr ses \<Rightarrow>
          bind_op (on_redis (consumeGrace C sid (now env)))
            (\<lambda>grace. case grace of
               None \<Rightarrow> throw_op (ForbiddenException ''Grace window has closed; late submission is no longer accepted'')
             | Some snapshot \<Rightarrow>
                 let finalAnswers = (if 0 < length a then a else snapshot) in
                 scoreAndPersist C env ses finalAnswers ATTEMPT_SUBMITTED True) s)"

text \<open>Errors of the automatic submission are logged; the operation always returns.\<close>

definition autoSubmitFromSnapshot :: "'r exam_client \<Rightarrow> request_env \<Rightarrow> uuid \<Rightarrow> 'r exam_state \<Rightarrow> 'r exam_state" where
  "autoSubmitFromSnapshot C env sid s =
     (case find_session sid s of
        None \<Rightarrow> s
      | Some ses \<Rightarrow>
          if ts_status ses \<noteq> EXPIRED \<and> ts_status ses \<noteq> ACTIVE then s
          else
            let a = (case ts_snapshot ses of Some x \<Rightarrow> x | None \<Rightarrow> [])
            in snd (scoreAndPersist C env ses a ATTEMPT_AUTO_SUBMITTED False s))"

subsection \<open>exam.controller.ts\<close>

record exam_summary =
  es_id :: uuid
  es_title :: string
  es_durationMinutes :: int
  es_passingScore :: int

definition validate_response :: "exam \<Rightarrow> exam_summary" where
  "validate_response exam = \<lparr>es_id = pk exam, es_title = e_title exam,
     es_durationMinutes = e_durationMinutes exam, es_passingScore = e_passingScore exam\<rparr>"

definition controller_validateAccess ::
  "bcrypt_lib \<Rightarrow> instant \<Rightarrow> uuid \<Rightarrow> string \<Rightarrow> uuid \<Rightarrow> 'r exam_state \<Rightarrow> (uuid \<times> exam_summary) result" where
  "controller_validateAccess B t userId code examId s =
     (case validateAccess B t userId code examId s of
        Inl e \<Rightarrow> throw e
      | Inr (exam, cid) \<Rightarrow> ok (cid, validate_response exam))"

text \<open>What a student sees of a question: no marks, no \<open>isCorrect\<close>.\<close>

record option_view =
  ov_id :: uuid
  ov_optionText :: string

record question_view =
  qv_id :: uuid
  qv_questionText :: string
  qv_questionType :: question_type
  qv_position :: int
  qv_options :: "option_view list"

definition strip_option :: "exam_question_option \<Rightarrow> option_view" where
  "strip_option x = \<lparr>ov_id = pk x, ov_optionText = o_optionText x\<rparr>"

definition strip_question :: "exam_question \<Rightarrow> question_view" where
  "strip_question q = \<lparr>qv_id = pk q, qv_questionText = q_questionText q, qv_questionType = q_questionType q,
     qv_position = q_position q, qv_options = map strip_option (q_options q)\<rparr>"

definition controller_startExam ::
  "'r exam_client \<Rightarrow> bcrypt_lib \<Rightarrow> request_env \<Rightarrow> uuid \<Rightarrow> string \<Rightarrow> uuid \<Rightarrow>
   ('r exam_state, uuid \<times> int \<times> instant \<times> question_view list) op" where
  "controller_startExam C B env userId code examId =
     bind_op (startExam C B env userId code examId)
       (\<lambda>r. return_op (sr_sessionId r, sr_durationSeconds r, sr_expiresAt r, map strip_question (sr_questions r)))"

text \<open>The admin endpoint: an absent \<open>examId\<close> assigns the next exam.\<close>

definition controller_assignExam ::
  "bcrypt_lib \<Rightarrow> request_env \<Rightarrow> uuid \<Rightarrow> uuid \<Rightarrow> uuid option \<Rightarrow> ('r exam_state, issued_code \<times> (int \<times> string) option) op" where
  "controller_assignExam B env userId certId examId =
     (case examId of
        Some eid \<Rightarrow> bind_op (assignExam B env userId eid certId) (\<lambda>r. return_op (r, None))
      | None \<Rightarrow> bind_op (assignNextExam B env userId certId) (\<lambda>(r, ord, title). return_op (r, Some (ord, title))))"

end
