(* ===== verification/ExamGateway.thy ===== *)
theory ExamGateway
  imports ExamService
begin

section \<open>Timer gateway and keyspace handler (exam.gateway.ts, exam-keyspace.handler.ts)\<close>

text \<open>
  The socket gateway keeps one timer per session with the thresholds it has already warned about.
  A run of the interval callback is \<open>timer_tick\<close>. Emitted events are collected in order with the
  room they are sent to. The keyspace handler reacts to the expiry of the two kinds of exam keys.
\<close>

subsection \<open>Gateway state\<close>

definition WARNING_THRESHOLDS :: "int list" where
  "WARNING_THRESHOLDS = [600, 300]"

definition TICK_INTERVAL_MS :: int where
  "TICK_INTERVAL_MS = 30000"

definition SESSION_ROOM :: "uuid \<Rightarrow> string" where
  "SESSION_ROOM sid = ''session:'' @ sid"

datatype ws_event =
    TimerTick uuid int
  | WarningEvent uuid int int
  | SessionExpiredEvent uuid

record gateway_state =
  gw_timers :: "uuid \<rightharpoonup> int list"
  gw_rooms :: "(string \<times> string) list"
  gw_emitted :: "(string \<times> ws_event) list"

record 'r exam_world =
  w_exam :: "'r exam_state"
  w_gateway :: gateway_state

definition on_exam :: "('r exam_state, 'a) op \<Rightarrow> ('r exam_world, 'a) op" where
  "on_exam m w = (case m (w_exam w) of (x, s) \<Rightarrow> (x, w\<lparr>w_exam := s\<rparr>))"

definition on_gateway :: "(gateway_state \<Rightarrow> gateway_state) \<Rightarrow> ('r exam_world, unit) op" where
  "on_gateway f w = (ok (), w\<lparr>w_gateway := f (w_gateway w)\<rparr>)"

definition emit :: "string \<Rightarrow> ws_event \<Rightarrow> gateway_state \<Rightarrow> gateway_state" where
  "emit room ev g = g\<lparr>gw_emitted := gw_emitted g @ [(room, ev)]\<rparr>"

subsection \<open>Connection middleware\<close>

text \<open>\<open>handshake.auth?.token ?? headers.authorization?.split(' ')[1]\<close>, then \<open>jwt.verify\<close>; the
  verifier, a function of the secret and the token to the subject, is an argument.\<close>

definition handshake_token :: "string option \<Rightarrow> string option \<Rightarrow> string option" where
  "handshake_token authToken authorization = (case authToken of
      Some t \<Rightarrow> Some t
    | None \<Rightarrow> (case authorization of
        None \<Rightarrow> None
      | Some h \<Rightarrow> (case split_on (CHR 0x20) h of _ # t # _ \<Rightarrow> Some t | _ \<Rightarrow> None)))"

definition ws_authenticate ::
  "(string \<Rightarrow> string \<Rightarrow> uuid option) \<Rightarrow> string \<Rightarrow> string option \<Rightarrow> string option \<Rightarrow> uuid result" where
  "ws_authenticate verify secret authToken authorization =
     (case handshake_token authToken authorization of
        None \<Rightarrow> throw (WsException ''Missing authentication token'')
      | Some t \<Rightarrow>
          if t = '''' then throw (WsException ''Missing authentication token'')
          else (case verify secret t of
            None \<Rightarrow> throw (WsException ''Invalid or expired token'')
          | Some sub \<Rightarrow> ok sub))"

subsection \<open>Timers\<close>

definition startTimer :: "uuid \<Rightarrow> gateway_state \<Rightarrow> gateway_state" where
  "startTimer sid g = g\<lparr>gw_timers := (gw_timers g)(sid \<mapsto> [])\<rparr>"

definition clearTimer :: "uuid \<Rightarrow> gateway_state \<Rightarrow> gateway_state" where
  "clearTimer sid g = (if gw_timers g sid = None then g else g\<lparr>gw_timers := (gw_timers g)(sid := None)\<rparr>)"

definition clearSessionTimer :: "uuid \<Rightarrow> gateway_state \<Rightarrow> gateway_state" where
  "clearSessionTimer sid g = clearTimer sid g"

definition handleJoinSession ::
  "'r exam_client \<Rightarrow> instant \<Rightarrow> string \<Rightarrow> uuid \<Rightarrow> uuid \<Rightarrow> ('r exam_world, bool \<times> int) op" where
  "handleJoinSession C t socketId userId sid =
     bind_op (on_exam (on_redis (getSession C sid t)))
       (\<lambda>(data, pttlMs).
          if (case data of None \<Rightarrow> True | Some d \<Rightarrow> xs_userId d \<noteq> userId)
          then throw_op (WsException ''Session not found or does not belong to this user'')
          else bind_op (on_gateway (\<lambda>g.
                 let g1 = g\<lparr>gw_rooms := gw_rooms g @ [(socketId, SESSION_ROOM sid)]\<rparr>
                 in if gw_timers g1 sid = None then startTimer sid g1 else g1))
               (\<lambda>_. return_op (True, remaining_seconds pttlMs)))"

text \<open>The loop over the warning thresholds: warn when reached and not warned before.\<close>

fun warn_loop :: "uuid \<Rightarrow> int \<Rightarrow> int list \<Rightarrow> int list \<times> gateway_state \<Rightarrow> int list \<times> gateway_state" where
  "warn_loop sid remainingSeconds [] (warned, g) = (warned, g)"
| "warn_loop sid remainingSeconds (th # ths) (warned, g) =
     (if remainingSeconds \<le> th \<and> th \<notin> set warned
      then warn_loop sid remainingSeconds ths
             (th # warned, emit (SESSION_ROOM sid) (WarningEvent sid remainingSeconds th) g)
      else warn_loop sid remainingSeconds ths (warned, g))"

text \<open>One run of the callback for the timer of \<open>sid\<close>; a Redis error is logged.\<close>

definition timer_tick :: "'r exam_client \<Rightarrow> instant \<Rightarrow> uuid \<Rightarrow> 'r exam_world \<Rightarrow> 'r exam_world" where
  "timer_tick C t sid w = (case gw_timers (w_gateway w) sid of
      None \<Rightarrow> w
    | Some warned \<Rightarrow>
        (case on_exam (on_redis (getSession C sid t)) w of
           (Inl _, w') \<Rightarrow> w'
         | (Inr (_, pttlMs), w') \<Rightarrow>
             if pttlMs \<le> 0 then w'\<lparr>w_gateway := clearTimer sid (w_gateway w')\<rparr>
             else
               let remainingSeconds = js_ceil (js_div (of_int pttlMs) 1000);
                   g1 = emit (SESSION_ROOM sid) (TimerTick sid remainingSeconds) (w_gateway w');
                   (warned', g2) = warn_loop sid remainingSeconds WARNING_THRESHOLDS (warned, g1)
               in w'\<lparr>w_gateway := g2\<lparr>gw_timers := (gw_timers g2)(sid \<mapsto> warned')\<rparr>\<rparr>))"

definition emitSessionExpired :: "uuid \<Rightarrow> gateway_state \<Rightarrow> gateway_state" where
  "emitSessionExpired sid g = clearTimer sid (emit (SESSION_ROOM sid) (SessionExpiredEvent sid) g)"

subsection \<open>Keyspace handler\<close>

definition mark_expired :: "instant \<Rightarrow> uuid \<Rightarrow> 'r exam_state \<Rightarrow> 'r exam_state" where
  "mark_expired t sid s = s\<lparr>es_sessions :=
     update_rows (\<lambda>x. pk x = sid) (\<lambda>x. (touch t x)\<lparr>ts_status := EXPIRED\<rparr>) (es_sessions s)\<rparr>"

definition handleSessionExpiry :: "'r exam_client \<Rightarrow> instant \<Rightarrow> uuid \<Rightarrow> ('r exam_world, unit) op" where
  "handleSessionExpiry C t sid w = (case find_session sid (w_exam w) of
      None \<Rightarrow> (ok (), w)
    | Some ses \<Rightarrow>
        if ts_status ses \<noteq> ACTIVE then (ok (), w)
        else
          let snapshot = (case ts_snapshot ses of Some a \<Rightarrow> a | None \<Rightarrow> [])
          in bind_op (on_exam (\<lambda>s. (ok (), mark_expired t sid s)))
               (\<lambda>_. bind_op (on_exam (on_redis (startGrace C sid snapshot t)))
                 (\<lambda>_. on_gateway (emitSessionExpired sid))) w)"

definition handleGraceExpiry :: "'r exam_client \<Rightarrow> request_env \<Rightarrow> uuid \<Rightarrow> ('r exam_world, unit) op" where
  "handleGraceExpiry C env sid = on_exam (\<lambda>s. (ok (), autoSubmitFromSnapshot C env sid s))"

fun handleExpiry :: "'r exam_client \<Rightarrow> request_env \<Rightarrow> expiry_type \<times> uuid \<Rightarrow> ('r exam_world, unit) op" where
  "handleExpiry C env (SessionExpiry, sid) = handleSessionExpiry C (now env) sid"
| "handleExpiry C env (GraceExpiry, sid) = handleGraceExpiry C env sid"

text \<open>The subscriber of \<open>redis.module.ts\<close>: keys of other families raise no event.\<close>

definition on_expired_message :: "'r exam_client \<Rightarrow> request_env \<Rightarrow> string \<Rightarrow> ('r exam_world, unit) op" where
  "on_expired_message C env key = (case keyspace_event key of
      None \<Rightarrow> return_op () | Some ev \<Rightarrow> handleExpiry C env ev)"

end
