(* ===== verification/ExamInvariant.thy ===== *)
theory ExamInvariant
  imports ExamGateway "HOL-Library.Multiset"
begin

section \<open>The invariant of the exam engine\<close>

text \<open>
  Every committed write of the engine is one of seven: insert a code, start a session, compensate a
  failed start, save a snapshot, persist a submission, mark a session expired, or a change outside
  the four tables. Each keeps the invariant; the operations are sequences of them. The invariant
  says that keys are unique, that every session was started with a code of its own that is used,
  that a student has one active session per exam, and that the attempts are, as a multiset, exactly
  the records of the closed sessions.
\<close>

subsection \<open>The invariant\<close>

definition keys_ok :: "'r exam_state \<Rightarrow> bool" where
  "keys_ok s \<longleftrightarrow> distinct (map pk (es_codes s)) \<and> distinct (map pk (es_sessions s)) \<and> distinct (map pk (es_attempts s))"

definition started_with :: "exam_access_code list \<Rightarrow> test_session \<Rightarrow> bool" where
  "started_with codes x \<longleftrightarrow> (\<exists>c \<in> set codes. pk c = ts_sessionToken x \<and> ac_usedAt c \<noteq> None \<and>
     ac_userId c = ts_userId x \<and> ac_examId c = ts_examId x)"

definition codes_ok :: "'r exam_state \<Rightarrow> bool" where
  "codes_ok s \<longleftrightarrow> distinct (map ts_sessionToken (es_sessions s)) \<and>
     (\<forall>x \<in> set (es_sessions s). started_with (es_codes s) x)"

definition active_slot :: "test_session \<Rightarrow> uuid \<times> uuid" where
  "active_slot x = (ts_userId x, ts_examId x)"

definition one_active :: "'r exam_state \<Rightarrow> bool" where
  "one_active s \<longleftrightarrow> distinct (map active_slot (filter (\<lambda>x. ts_status x = ACTIVE) (es_sessions s)))"

definition closed :: "test_session \<Rightarrow> bool" where
  "closed x \<longleftrightarrow> ts_status x = SUBMITTED \<or> ts_status x = AUTO_SUBMITTED"

definition attempt_record :: "exam_attempt \<Rightarrow> uuid \<times> uuid \<times> uuid \<times> instant \<times> instant option \<times> answers option \<times> test_session_status" where
  "attempt_record a = (at_userId a, at_examId a, at_certId a, at_startedAt a, Some (at_submittedAt a),
     Some (at_answers a), terminal_status (at_status a))"

definition session_record :: "test_session \<Rightarrow> uuid \<times> uuid \<times> uuid \<times> instant \<times> instant option \<times> answers option \<times> test_session_status" where
  "session_record x = (ts_userId x, ts_examId x, resolveCertId x, ts_startedAt x, ts_submittedAt x,
     ts_snapshot x, ts_status x)"

definition ledger_ok :: "'r exam_state \<Rightarrow> bool" where
  "ledger_ok s \<longleftrightarrow> mset (map attempt_record (es_attempts s)) = mset (map session_record (filter closed (es_sessions s)))"

definition scores_ok :: "'r exam_state \<Rightarrow> bool" where
  "scores_ok s \<longleftrightarrow> (\<forall>a \<in> set (es_attempts s). attempt_score_check a)"

text \<open>\<open>core_inv\<close> is the part that also survives the interleaving of requests.\<close>

definition core_inv :: "'r exam_state \<Rightarrow> bool" where
  "core_inv s \<longleftrightarrow> keys_ok s \<and> codes_ok s \<and> ledger_ok s \<and> scores_ok s"

definition exam_inv :: "'r exam_state \<Rightarrow> bool" where
  "exam_inv s \<longleftrightarrow> core_inv s \<and> one_active s"

lemma exam_inv_core: "exam_inv s \<Longrightarrow> core_inv s"
  by (simp add: exam_inv_def)

lemmas inv_defs = keys_ok_def codes_ok_def one_active_def ledger_ok_def scores_ok_def

lemma exam_inv_simps [simp]:
  "exam_inv (s\<lparr>es_redis := r\<rparr>) = exam_inv s" "exam_inv (s\<lparr>es_exams := es\<rparr>) = exam_inv s"
  "core_inv (s\<lparr>es_redis := r\<rparr>) = core_inv s"
  by (simp_all add: exam_inv_def core_inv_def inv_defs)

lemma exam_invI:
  "keys_ok s \<Longrightarrow> codes_ok s \<Longrightarrow> one_active s \<Longrightarrow> ledger_ok s \<Longrightarrow> scores_ok s \<Longrightarrow> exam_inv s"
  by (simp add: exam_inv_def core_inv_def)

lemma core_invI: "keys_ok s \<Longrightarrow> codes_ok s \<Longrightarrow> ledger_ok s \<Longrightarrow> scores_ok s \<Longrightarrow> core_inv s"
  by (simp add: core_inv_def)

lemma closed_iff_not_open: "closed x \<longleftrightarrow> ts_status x \<notin> {ACTIVE, EXPIRED}"
  by (cases "ts_status x") (auto simp: closed_def)

lemma started_with_mono:
  "started_with codes x \<Longrightarrow> (\<And>c. c \<in> set codes \<Longrightarrow> ac_usedAt c \<noteq> None \<Longrightarrow> pk c = ts_sessionToken x \<Longrightarrow> c \<in> set codes') \<Longrightarrow>
   started_with codes' x"
  unfolding started_with_def by blast

subsection \<open>Writes on sessions\<close>

text \<open>Replacing one open session by an open session of the same student, exam and code, not
  activating it.\<close>

lemma replace_open_session:
  assumes "exam_inv s" and "es_sessions s = xs @ x # ys" and "\<not> closed x"
    and "pk (f x) = pk x" "ts_sessionToken (f x) = ts_sessionToken x" "active_slot (f x) = active_slot x"
    and "\<not> closed (f x)" "ts_status (f x) = ACTIVE \<Longrightarrow> ts_status x = ACTIVE"
  shows "exam_inv (s\<lparr>es_sessions := xs @ f x # ys\<rparr>)"
proof (rule exam_invI)
  have eq: "started_with (es_codes s) (f x) = started_with (es_codes s) x"
    using assms(5,6) by (simp add: started_with_def active_slot_def)
  show "keys_ok (s\<lparr>es_sessions := xs @ f x # ys\<rparr>)" "codes_ok (s\<lparr>es_sessions := xs @ f x # ys\<rparr>)"
    "ledger_ok (s\<lparr>es_sessions := xs @ f x # ys\<rparr>)" "scores_ok (s\<lparr>es_sessions := xs @ f x # ys\<rparr>)"
    using assms(1-5,7) eq by (simp_all add: exam_inv_def core_inv_def inv_defs)
  show "one_active (s\<lparr>es_sessions := xs @ f x # ys\<rparr>)"
  proof -
    have "one_active s" using assms(1) by (simp add: exam_inv_def)
    then show ?thesis
      using assms(2,6,8)
      by (cases "ts_status (f x) = ACTIVE"; cases "ts_status x = ACTIVE") (auto simp: one_active_def)
  qed
qed

lemma find_session_SomeD: "find_session sid s = Some x \<Longrightarrow> x \<in> set (es_sessions s) \<and> pk x = sid"
  unfolding find_session_def by (rule find_one_SomeD)

lemma session_update_split:
  assumes "exam_inv s" and "x \<in> set (es_sessions s)" and "P x" and "\<And>y. P y \<Longrightarrow> pk y = pk x"
  obtains xs ys where "es_sessions s = xs @ x # ys" "\<And>f. update_rows P f (es_sessions s) = xs @ f x # ys"
proof -
  have d: "distinct (map pk (es_sessions s))" using assms(1) by (simp add: exam_inv_def core_inv_def keys_ok_def)
  show thesis
    by (rule update_key_split [where P = P, OF d assms(2,3)]) (auto intro: assms(4) that)
qed

lemma inv_save_snapshot:
  assumes "exam_inv s" and "find_session sid s = Some x" and "\<not> closed x"
  shows "exam_inv (save_snapshot t sid a s)"
proof -
  from find_session_SomeD [OF assms(2)] have x: "x \<in> set (es_sessions s)" "pk x = sid" by auto
  obtain xs ys where "es_sessions s = xs @ x # ys"
    "\<And>f. update_rows (\<lambda>y. pk y = sid) f (es_sessions s) = xs @ f x # ys"
    using session_update_split [OF assms(1) x(1), of "\<lambda>y. pk y = sid"] x(2) by auto
  with replace_open_session [OF assms(1) this(1) assms(3), of "\<lambda>x. (touch t x)\<lparr>ts_snapshot := Some a\<rparr>"] assms(3)
  show ?thesis by (simp add: save_snapshot_def touch_def closed_def active_slot_def)
qed

lemma inv_mark_expired:
  assumes "exam_inv s" and "find_session sid s = Some x" and "\<not> closed x"
  shows "exam_inv (mark_expired t sid s)"
proof -
  from find_session_SomeD [OF assms(2)] have x: "x \<in> set (es_sessions s)" "pk x = sid" by auto
  obtain xs ys where "es_sessions s = xs @ x # ys"
    "\<And>f. update_rows (\<lambda>y. pk y = sid) f (es_sessions s) = xs @ f x # ys"
    using session_update_split [OF assms(1) x(1), of "\<lambda>y. pk y = sid"] x(2) by auto
  with replace_open_session [OF assms(1) this(1) assms(3), of "\<lambda>x. (touch t x)\<lparr>ts_status := EXPIRED\<rparr>"]
  show ?thesis by (simp add: mark_expired_def touch_def closed_def active_slot_def)
qed

subsection \<open>Codes\<close>

lemma inv_add_code:
  assumes "exam_inv s" and "insert_row pk row (es_codes s) = Inr codes"
  shows "exam_inv (s\<lparr>es_codes := codes\<rparr>)"
proof -
  from assms(2) have c: "codes = es_codes s @ [row]" by (simp add: insert_row_ok_iff)
  have "distinct (map pk codes)"
    using insert_row_distinct [OF assms(2)] assms(1) by (simp add: exam_inv_def core_inv_def keys_ok_def)
  moreover have "started_with codes x" if "x \<in> set (es_sessions s)" for x
    using that assms(1) by (auto simp: exam_inv_def core_inv_def codes_ok_def started_with_def c)
  ultimately show ?thesis using assms(1) by (auto simp: exam_inv_def core_inv_def inv_defs)
qed

lemma snd_bind_return [simp]: "snd (bind_op m (\<lambda>x. return_op (f x)) s) = snd (m s)"
  by (auto simp: bind_op_def split: prod.split sum.split)

text \<open>What the verification of a code returns.\<close>

lemma first_match_SomeD:
  "first_match B t code cs = Some c \<Longrightarrow> c \<in> set cs \<and> t \<le> ac_expiresAt c \<and> bc_compare B code (ac_tokenHash c)"
  by (induction cs) (auto split: if_splits)

lemma find_exam_SomeD: "find_exam examId s = Some e \<Longrightarrow> e \<in> set (es_exams s) \<and> pk e = examId"
  unfolding find_exam_def by (rule find_one_SomeD)

lemma findAndVerifyCode_okD:
  assumes "findAndVerifyCode B t userId code examId s = Inr (c, exam)"
  shows "c \<in> set (es_codes s)" "ac_userId c = userId" "ac_examId c = examId" "ac_usedAt c = None"
    "t \<le> ac_expiresAt c" "bc_compare B code (ac_tokenHash c)"
    "exam \<in> set (es_exams s)" "pk exam = examId" "e_status exam = PUBLISHED"
  using assms
  by (auto simp: findAndVerifyCode_def Let_def find_rows_def split: option.splits if_splits
      dest!: first_match_SomeD find_exam_SomeD)

lemma start_guard_okD:
  assumes "start_guard B t userId code examId s = Inr (c, exam)"
  shows "findAndVerifyCode B t userId code examId s = Inr (c, exam)"
    and "\<And>x. x \<in> set (es_sessions s) \<Longrightarrow> ts_status x = ACTIVE \<Longrightarrow> active_slot x \<noteq> (userId, examId)"
  using assms
  by (auto simp: start_guard_def find_one_None_iff active_slot_def split: sum.splits option.splits)

subsection \<open>Starting\<close>

lemma start_tx_okD:
  assumes "start_tx env userId examId c exam s = (Inr row, s')"
  shows "row = new_session env userId examId c exam"
    and "s' = s\<lparr>es_codes := update_rows (code_unused (pk c)) (mark_code_used (now env)) (es_codes s),
               es_sessions := es_sessions s @ [row]\<rparr>"
    and "pk row \<notin> pk ` set (es_sessions s)"
    and "\<exists>c' \<in> set (es_codes s). pk c' = pk c \<and> ac_usedAt c' = None"
  using assms
  by (auto simp: start_tx_def Let_def insert_row_ok_iff claim_rows_def affected_eq_0_iff code_unused_def
      split: bool.splits sum.splits)

lemma start_tx_throws: "start_tx env userId examId c exam s = (Inl e, s') \<Longrightarrow> s' = s"
  by (auto simp: start_tx_def Let_def split: prod.splits bool.splits sum.splits)

lemma mark_code_used_simps [simp]:
  "pk (mark_code_used t c) = pk c" "ac_usedAt (mark_code_used t c) = Some t"
  "ac_userId (mark_code_used t c) = ac_userId c" "ac_examId (mark_code_used t c) = ac_examId c"
  "ac_certId (mark_code_used t c) = ac_certId c"
  by (simp_all add: mark_code_used_def touch_def)

lemma new_session_simps [simp]:
  "pk (new_session env u e c exam) = newId env" "ts_userId (new_session env u e c exam) = u"
  "ts_examId (new_session env u e c exam) = e" "ts_sessionToken (new_session env u e c exam) = pk c"
  "ts_status (new_session env u e c exam) = ACTIVE" "ts_certId (new_session env u e c exam) = Some (ac_certId c)"
  "ts_startedAt (new_session env u e c exam) = now env"
  "ts_durationSeconds (new_session env u e c exam) = e_durationMinutes exam * 60"
  "ts_expiresAt (new_session env u e c exam) = now env + e_durationMinutes exam * 60 * 1000"
  "ts_submittedAt (new_session env u e c exam) = None" "ts_snapshot (new_session env u e c exam) = None"
  by (simp_all add: new_session_def Let_def)

lemma unused_code_no_session:
  assumes "core_inv s" and "c \<in> set (es_codes s)" and "ac_usedAt c = None" and "x \<in> set (es_sessions s)"
  shows "ts_sessionToken x \<noteq> pk c"
proof
  assume t: "ts_sessionToken x = pk c"
  from assms(1,4) obtain c' where "c' \<in> set (es_codes s)" "pk c' = pk c" "ac_usedAt c' \<noteq> None"
    unfolding core_inv_def codes_ok_def started_with_def t [symmetric] by blast
  moreover have "distinct (map pk (es_codes s))" using assms(1) by (simp add: core_inv_def keys_ok_def)
  ultimately have "c' = c" using assms(2) by (blast intro: distinct_key_eq)
  with \<open>ac_usedAt c' \<noteq> None\<close> assms(3) show False by simp
qed

lemma core_start_tx:
  assumes "core_inv s" and "start_tx env userId examId c exam s = (Inr row, s')"
    and "\<And>c'. c' \<in> set (es_codes s) \<Longrightarrow> pk c' = pk c \<Longrightarrow> ac_userId c' = userId \<and> ac_examId c' = examId"
  shows "core_inv s'"
proof -
  note ok = start_tx_okD [OF assms(2)]
  let ?codes = "update_rows (code_unused (pk c)) (mark_code_used (now env)) (es_codes s)"
  from ok(4) obtain c' where c': "c' \<in> set (es_codes s)" "pk c' = pk c" "ac_usedAt c' = None" by blast
  then have used: "mark_code_used (now env) c' \<in> set ?codes" by (auto simp: set_update_rows code_unused_def)
  have keep: "started_with ?codes x" if "started_with (es_codes s) x" for x
    using that by (rule started_with_mono) (auto simp: set_update_rows code_unused_def image_iff)
  have new: "started_with ?codes row"
    unfolding started_with_def using used
    by (rule bexI [rotated]) (use assms(3) [OF c'(1,2)] in \<open>simp add: ok(1) c'(2)\<close>)
  have fresh: "pk c \<notin> ts_sessionToken ` set (es_sessions s)"
    using unused_code_no_session [OF assms(1) c'(1,3)] c'(2) by force
  show ?thesis
  proof (rule core_invI)
    show "keys_ok s'" using assms(1) ok(3) by (simp add: ok(2) core_inv_def keys_ok_def)
    show "codes_ok s'" using assms(1) fresh keep new
      by (auto simp: ok(2) core_inv_def codes_ok_def) (simp_all add: ok(1))
    show "ledger_ok s'" using assms(1) by (simp add: ok(1,2) core_inv_def ledger_ok_def closed_def)
    show "scores_ok s'" using assms(1) by (simp add: ok(2) core_inv_def scores_ok_def)
  qed
qed

lemma inv_start_tx:
  assumes "exam_inv s" and "start_tx env userId examId c exam s = (Inr row, s')"
    and "c \<in> set (es_codes s)" "ac_userId c = userId" "ac_examId c = examId"
    and "\<And>x. x \<in> set (es_sessions s) \<Longrightarrow> ts_status x = ACTIVE \<Longrightarrow> active_slot x \<noteq> (userId, examId)"
  shows "exam_inv s'"
proof -
  have d: "distinct (map pk (es_codes s))" using assms(1) by (simp add: exam_inv_def core_inv_def keys_ok_def)
  have "core_inv s'"
    by (rule core_start_tx [OF exam_inv_core [OF assms(1)] assms(2)])
      (use distinct_key_eq [OF d _ assms(3)] assms(4,5) in auto)
  moreover have "one_active s'" using assms(1,6)
    by (force simp: start_tx_okD(1,2) [OF assms(2)] exam_inv_def one_active_def active_slot_def)
  ultimately show ?thesis by (simp add: exam_inv_def)
qed

lemma free_code_simps [simp]:
  "pk (free_code t c) = pk c" "ac_usedAt (free_code t c) = None"
  "ac_userId (free_code t c) = ac_userId c" "ac_examId (free_code t c) = ac_examId c"
  by (simp_all add: free_code_def touch_def)

lemma core_compensate:
  assumes "core_inv s" and "x \<in> set (es_sessions s)" "pk x = sid" "ts_sessionToken x = cid" "\<not> closed x"
  shows "core_inv (start_compensate t sid cid s) \<and> (one_active s \<longrightarrow> one_active (start_compensate t sid cid s))"
proof -
  let ?codes = "update_rows (\<lambda>c. pk c = cid) (free_code t) (es_codes s)"
  have d: "distinct (map pk (es_sessions s))" using assms(1) by (simp add: core_inv_def keys_ok_def)
  obtain xs ys where ses: "es_sessions s = xs @ x # ys" "delete_rows (\<lambda>y. pk y = sid) (es_sessions s) = xs @ ys"
    by (rule delete_key_split [OF d assms(2)]) (simp add: assms(3))
  let ?s = "s\<lparr>es_sessions := xs @ ys, es_codes := ?codes\<rparr>"
  have s': "start_compensate t sid cid s = ?s" by (simp add: start_compensate_def ses(2))
  have tok: "ts_sessionToken y \<noteq> cid" if "y \<in> set (xs @ ys)" for y
    using assms(1,4) that by (auto simp: core_inv_def codes_ok_def ses(1) image_iff)
  have keep: "started_with ?codes y" if "y \<in> set (xs @ ys)" for y
  proof (rule started_with_mono)
    show "started_with (es_codes s) y" using assms(1) that by (auto simp: core_inv_def codes_ok_def ses(1))
    show "c \<in> set ?codes" if "c \<in> set (es_codes s)" "pk c = ts_sessionToken y" for c
      using that tok [OF \<open>y \<in> set (xs @ ys)\<close>] by (auto simp: set_update_rows image_iff)
  qed
  have "core_inv ?s"
  proof (rule core_invI)
    show "keys_ok ?s" using assms(1) by (simp add: core_inv_def keys_ok_def ses(1))
    show "codes_ok ?s" using assms(1) keep by (simp add: core_inv_def codes_ok_def ses(1))
    show "ledger_ok ?s" using assms(1,5) by (simp add: core_inv_def ledger_ok_def ses(1))
    show "scores_ok ?s" using assms(1) by (simp add: core_inv_def scores_ok_def)
  qed
  moreover have "one_active s \<Longrightarrow> one_active ?s" by (auto simp: one_active_def ses(1) split: if_splits)
  ultimately show ?thesis unfolding s' by blast
qed

lemma inv_compensate:
  "exam_inv s \<Longrightarrow> x \<in> set (es_sessions s) \<Longrightarrow> pk x = sid \<Longrightarrow> ts_sessionToken x = cid \<Longrightarrow> \<not> closed x \<Longrightarrow>
   exam_inv (start_compensate t sid cid s)"
  using core_compensate [of s x sid cid t] by (simp add: exam_inv_def)

subsection \<open>Submitting\<close>

lemma close_session_simps [simp]:
  "pk (close_session t st a x) = pk x" "ts_userId (close_session t st a x) = ts_userId x"
  "ts_examId (close_session t st a x) = ts_examId x" "ts_certId (close_session t st a x) = ts_certId x"
  "ts_sessionToken (close_session t st a x) = ts_sessionToken x" "ts_status (close_session t st a x) = st"
  "ts_startedAt (close_session t st a x) = ts_startedAt x" "ts_submittedAt (close_session t st a x) = Some t"
  "ts_snapshot (close_session t st a x) = Some a" "resolveCertId (close_session t st a x) = resolveCertId x"
  by (simp_all add: close_session_def touch_def resolveCertId_def split: option.split)

lemma terminal_closed [simp]: "closed (close_session t (terminal_status st) a x)"
  by (simp add: closed_def terminal_status_def)

lemma terminal_not_active [simp]: "terminal_status st \<noteq> ACTIVE" "terminal_status st \<noteq> EXPIRED"
  by (simp_all add: terminal_status_def)

lemma persist_tx_okD:
  assumes "persist_tx env ses a st row s = (Inr (), s')"
  obtains xs x ys where "es_sessions s = xs @ x # ys" "pk x = pk ses" "\<not> closed x"
    "s' = s\<lparr>es_sessions := xs @ close_session (now env) (terminal_status st) a x # ys, es_attempts := es_attempts s @ [row]\<rparr>"
    "pk row \<notin> pk ` set (es_attempts s)" "attempt_score_check row" "at_userId row \<in> set (es_users s)"
    "at_certId row \<in> set (es_certs s)"
proof -
  let ?P = "open_session (pk ses)"
  have one: "affected ?P (es_sessions s) = 1"
    and row: "pk row \<notin> pk ` set (es_attempts s)" "attempt_score_check row" "at_userId row \<in> set (es_users s)"
      "at_certId row \<in> set (es_certs s)"
    and s': "s' = s\<lparr>es_sessions := update_rows ?P (close_session (now env) (terminal_status st) a) (es_sessions s),
       es_attempts := es_attempts s @ [row]\<rparr>"
    using assms by (auto simp: persist_tx_def Let_def insert_row_ok_iff split: if_splits sum.splits)
  from one obtain xs x ys where "es_sessions s = xs @ x # ys" "?P x"
    "\<And>f. update_rows ?P f (es_sessions s) = xs @ f x # ys" by (rule update_one_split) blast
  then show thesis using that row by (simp add: s' open_session_def closed_iff_not_open)
qed

lemma persist_tx_throws: "persist_tx env ses a st row s = (Inl e, s') \<Longrightarrow> s' = s"
  by (auto simp: persist_tx_def Let_def split: if_splits sum.splits)

text \<open>The columns of a session that no write changes.\<close>

definition same_session :: "test_session \<Rightarrow> test_session \<Rightarrow> bool" where
  "same_session x y \<longleftrightarrow> ts_userId x = ts_userId y \<and> ts_examId x = ts_examId y \<and> ts_certId x = ts_certId y \<and>
     ts_startedAt x = ts_startedAt y"

lemma recorded_attempt:
  "same_session x ses \<Longrightarrow> attempt_record (new_attempt env ses a st l r) =
     session_record (close_session (now env) (terminal_status st) a x)"
  by (simp add: attempt_record_def session_record_def new_attempt_def same_session_def resolveCertId_def split: option.split)

lemma core_persist_tx:
  assumes "core_inv s" and "persist_tx env ses a st (new_attempt env ses a st l r) s = (Inr (), s')"
    and "\<And>x. x \<in> set (es_sessions s) \<Longrightarrow> pk x = pk ses \<Longrightarrow> same_session x ses"
  shows "core_inv s' \<and> (one_active s \<longrightarrow> one_active s')"
  using assms(2)
proof (rule persist_tx_okD)
  fix xs x ys
  let ?row = "new_attempt env ses a st l r"
  let ?x = "close_session (now env) (terminal_status st) a x"
  let ?s = "s\<lparr>es_sessions := xs @ ?x # ys, es_attempts := es_attempts s @ [?row]\<rparr>"
  assume ses: "es_sessions s = xs @ x # ys" and x: "pk x = pk ses" "\<not> closed x"
    and s': "s' = ?s" and row: "pk ?row \<notin> pk ` set (es_attempts s)" "attempt_score_check ?row"
  have same: "same_session x ses" using assms(3) x(1) by (simp add: ses)
  have sw: "started_with cs ?x = started_with cs x" for cs by (simp add: started_with_def)
  have "core_inv ?s"
  proof (rule core_invI)
    show "keys_ok ?s" using assms(1) row(1) by (simp add: core_inv_def keys_ok_def ses)
    show "codes_ok ?s" using assms(1) by (simp add: core_inv_def codes_ok_def ses sw)
    show "ledger_ok ?s" using assms(1) x(2)
      by (simp add: core_inv_def ledger_ok_def ses recorded_attempt [OF same])
    show "scores_ok ?s" using assms(1) row(2) by (simp add: core_inv_def scores_ok_def)
  qed
  moreover have "one_active s \<Longrightarrow> one_active ?s" by (auto simp: one_active_def ses split: if_splits)
  ultimately show ?thesis unfolding s' by blast
qed

lemma inv_persist_tx:
  "exam_inv s \<Longrightarrow> persist_tx env ses a st (new_attempt env ses a st l r) s = (Inr (), s') \<Longrightarrow>
   (\<And>x. x \<in> set (es_sessions s) \<Longrightarrow> pk x = pk ses \<Longrightarrow> same_session x ses) \<Longrightarrow> exam_inv s'"
  using core_persist_tx [of s env ses a st l r s'] by (simp add: exam_inv_def)

lemma found_session_unique:
  assumes "exam_inv s" and "find_session sid s = Some ses"
  shows "\<And>x. x \<in> set (es_sessions s) \<Longrightarrow> pk x = pk ses \<Longrightarrow> x = ses"
  using assms find_session_SomeD [OF assms(2)]
  by (auto simp: exam_inv_def core_inv_def keys_ok_def intro: distinct_key_eq)

lemma same_session_refl [simp]: "same_session x x"
  by (simp add: same_session_def)

lemma getOwnedSession_okD:
  "getOwnedSession sid userId allowed s = Inr ses \<Longrightarrow>
     find_session sid s = Some ses \<and> ts_userId ses = userId \<and> ts_status ses \<in> set allowed"
  by (auto simp: getOwnedSession_def split: option.splits if_splits)

end
