(* ===== verification/ExamSteps.thy ===== *)
theory ExamSteps
  imports ExamInvariant
begin

section \<open>Executions of the exam engine\<close>

text \<open>
  The step relation of the engine, and the locale \<open>exam_writes\<close>: a property that the seven kinds
  of committed writes keep is kept by every operation and so holds in every reachable world. It is
  interpreted with the invariant and with the claim that closed sessions and attempts are kept.
\<close>

subsection \<open>The worlds an execution reaches\<close>

text \<open>Requests, socket messages, timer runs and expiry events, one after the other, with the exams
  edited by the admins and the Redis server moving on (time, restarts, evictions) in between.\<close>

inductive exam_step :: "'r exam_client \<Rightarrow> bcrypt_lib \<Rightarrow> 'r exam_world \<Rightarrow> 'r exam_world \<Rightarrow> bool" for C B where
  assign: "exam_step C B w (snd (on_exam (controller_assignExam B env u c e) w))"
| start_exam: "exam_step C B w (snd (on_exam (startExam C B env u code e) w))"
| save: "exam_step C B w (snd (on_exam (autosaveExam C t sid u a) w))"
| status: "exam_step C B w (snd (on_exam (getSessionStatus C t sid u) w))"
| submit: "exam_step C B w (snd (on_exam (submitExam C env sid u a) w))"
| late_submit: "exam_step C B w (snd (on_exam (lateSubmitExam C env sid u a) w))"
| expired: "exam_step C B w (snd (on_expired_message C env key w))"
| join: "exam_step C B w (snd (handleJoinSession C t sock u sid w))"
| tick: "exam_step C B w (timer_tick C t sid w)"
| redis: "exam_step C B w (w\<lparr>w_exam := (w_exam w)\<lparr>es_redis := r\<rparr>\<rparr>)"
| edit: "exam_step C B w (w\<lparr>w_exam := (w_exam w)\<lparr>es_exams := es\<rparr>\<rparr>)"

subsection \<open>Properties kept by every committed write\<close>

locale exam_writes =
  fixes Q :: "'r exam_state \<Rightarrow> bool"
  assumes is_inv: "Q s \<Longrightarrow> exam_inv s"
    and keeps_redis: "Q s \<Longrightarrow> Q (s\<lparr>es_redis := r\<rparr>)"
    and keeps_exams: "Q s \<Longrightarrow> Q (s\<lparr>es_exams := es\<rparr>)"
    and keeps_add_code: "Q s \<Longrightarrow> insert_row pk row (es_codes s) = Inr codes \<Longrightarrow> Q (s\<lparr>es_codes := codes\<rparr>)"
    and keeps_start_tx: "Q s \<Longrightarrow> start_tx env userId examId c exam s = (Inr ses, s') \<Longrightarrow>
          c \<in> set (es_codes s) \<Longrightarrow> ac_userId c = userId \<Longrightarrow> ac_examId c = examId \<Longrightarrow>
          (\<And>x. x \<in> set (es_sessions s) \<Longrightarrow> ts_status x = ACTIVE \<Longrightarrow> active_slot x \<noteq> (userId, examId)) \<Longrightarrow> Q s'"
    and keeps_compensate: "Q s \<Longrightarrow> x \<in> set (es_sessions s) \<Longrightarrow> pk x = sid \<Longrightarrow> ts_sessionToken x = cid \<Longrightarrow>
          \<not> closed x \<Longrightarrow> Q (start_compensate t sid cid s)"
    and keeps_snapshot: "Q s \<Longrightarrow> find_session sid s = Some x \<Longrightarrow> \<not> closed x \<Longrightarrow> Q (save_snapshot t sid a s)"
    and keeps_expired: "Q s \<Longrightarrow> find_session sid s = Some x \<Longrightarrow> \<not> closed x \<Longrightarrow> Q (mark_expired t sid s)"
    and keeps_persist: "Q s \<Longrightarrow> persist_tx env ses a st (new_attempt env ses a st l res) s = (Inr (), s') \<Longrightarrow>
          (\<And>x. x \<in> set (es_sessions s) \<Longrightarrow> pk x = pk ses \<Longrightarrow> same_session x ses) \<Longrightarrow> Q s'"
begin

lemma keeps_on_redis: "Q s \<Longrightarrow> Q (snd (on_redis m s))"
  by (simp add: on_redis_def keeps_redis split: prod.split)

lemma keeps_issueAccessCode: "Q s \<Longrightarrow> Q (snd (issueAccessCode B env userId exam s))"
  by (auto simp: issueAccessCode_def Let_def keeps_add_code split: sum.split)

lemma keeps_assignExam: "Q s \<Longrightarrow> Q (snd (assignExam B env userId examId certId s))"
  by (auto simp: assignExam_def keeps_issueAccessCode split: option.split)

lemma keeps_assignNextExam: "Q s \<Longrightarrow> Q (snd (assignNextExam B env userId certId s))"
  by (auto simp: assignNextExam_def Let_def keeps_issueAccessCode split: option.split)

lemma keeps_start_redis:
  assumes "Q s" and "ses \<in> set (es_sessions s)" and "ts_sessionToken ses = pk c" and "\<not> closed ses"
  shows "Q (snd (start_redis C env userId examId c ses s))"
proof -
  let ?m = "start C (session_payload ses userId examId c) (ts_durationSeconds ses) (redisAt env)"
  obtain y r where m: "?m (es_redis s) = (y, r)" by (cases "?m (es_redis s)")
  have "Q (start_compensate (now env) (pk ses) (pk c) (s\<lparr>es_redis := r\<rparr>))"
    using assms by (intro keeps_compensate [of _ ses]) (simp_all add: keeps_redis)
  with assms(1) show ?thesis
    by (cases y) (auto simp: start_redis_def on_redis_def m keeps_redis split: option.split sum.split)
qed

lemma keeps_startExam:
  assumes "Q s"
  shows "Q (snd (startExam C B env userId code examId s))"
proof (cases "start_guard B (now env) userId code examId s")
  case (Inl e)
  with assms show ?thesis by (simp add: startExam_def)
next
  case (Inr ce)
  obtain c exam where g: "start_guard B (now env) userId code examId s = Inr (c, exam)"
    using Inr by (cases ce) simp
  note ver = findAndVerifyCode_okD [OF start_guard_okD(1) [OF g]]
  obtain y s1 where tx: "start_tx env userId examId c exam s = (y, s1)"
    by (cases "start_tx env userId examId c exam s")
  show ?thesis
  proof (cases y)
    case (Inl e)
    with tx assms start_tx_throws show ?thesis by (fastforce simp: startExam_def g bind_op_def)
  next
    case (Inr row)
    with tx have ok: "start_tx env userId examId c exam s = (Inr row, s1)" by simp
    note d = start_tx_okD [OF ok]
    have inv: "Q s1"
      using keeps_start_tx [OF assms ok ver(1-3)] start_guard_okD(2) [OF g] by blast
    have "Q (snd (start_redis C env userId examId c row s1))"
      by (rule keeps_start_redis [OF inv]) (simp_all add: d(1,2) closed_def)
    then show ?thesis by (simp add: startExam_def g bind_op_def ok)
  qed
qed

lemma keeps_scoreAndPersist:
  assumes "Q s" and "\<And>x. x \<in> set (es_sessions s) \<Longrightarrow> pk x = pk ses \<Longrightarrow> same_session x ses"
  shows "Q (snd (scoreAndPersist C env ses a st l s))"
proof -
  let ?row = "new_attempt env ses a st l (scoreAnswers (es_exams s) (ts_examId ses) a)"
  obtain y s1 where tx: "persist_tx env ses a st ?row s = (y, s1)" by (cases "persist_tx env ses a st ?row s")
  show ?thesis
  proof (cases y)
    case (Inl e)
    with tx assms(1) persist_tx_throws show ?thesis by (fastforce simp: scoreAndPersist_def Let_def bind_op_def)
  next
    case (Inr u)
    with tx keeps_persist [OF assms(1) _ assms(2)] have "Q s1" by simp
    with tx Inr show ?thesis by (simp add: scoreAndPersist_def Let_def bind_op_ok keeps_on_redis)
  qed
qed

lemma keeps_score_found:
  assumes "Q s" and "find_session sid s = Some ses"
  shows "Q (snd (scoreAndPersist C env ses a st l (s\<lparr>es_redis := r\<rparr>)))"
  using assms found_session_unique [OF is_inv [OF assms(1)] assms(2)]
  by (intro keeps_scoreAndPersist) (auto simp: same_session_def keeps_redis)

lemma keeps_submitExam:
  "Q s \<Longrightarrow> Q (snd (submitExam C env sid userId a s))"
  using keeps_score_found [of s sid _ C env a ATTEMPT_SUBMITTED False "es_redis s"]
  by (auto simp: submitExam_def getOwnedActiveSession_def split: sum.split dest!: getOwnedSession_okD)

lemma keeps_lateSubmitExam:
  assumes "Q s"
  shows "Q (snd (lateSubmitExam C env sid userId a s))"
proof (cases "getOwnedSession sid userId [EXPIRED] s")
  case (Inl e)
  with assms show ?thesis by (simp add: lateSubmitExam_def)
next
  case (Inr ses)
  obtain y r where m: "consumeGrace C sid (now env) (es_redis s) = (y, r)"
    by (cases "consumeGrace C sid (now env) (es_redis s)")
  from Inr have f: "find_session sid s = Some ses" by (auto dest: getOwnedSession_okD)
  show ?thesis
    using assms Inr m keeps_score_found [OF assms f]
    by (cases y) (simp_all add: lateSubmitExam_def bind_op_def on_redis_def Let_def keeps_redis split: option.split)
qed

lemma keeps_autoSubmit:
  assumes "Q s"
  shows "Q (autoSubmitFromSnapshot C env sid s)"
  using assms keeps_score_found [OF assms, of sid _ C env _ ATTEMPT_AUTO_SUBMITTED False "es_redis s"]
  by (simp add: autoSubmitFromSnapshot_def Let_def split: option.split)

lemma keeps_autosaveExam:
  assumes "Q s"
  shows "Q (snd (autosaveExam C t sid userId a s))"
proof (cases "getOwnedSession sid userId [ACTIVE] s")
  case (Inl e)
  with assms show ?thesis by (simp add: autosaveExam_def getOwnedActiveSession_def)
next
  case (Inr ses)
  obtain y r where m: "autosave C sid a t (es_redis s) = (y, r)" by (cases "autosave C sid a t (es_redis s)")
  from getOwnedSession_okD [OF Inr] have f: "find_session sid s = Some ses" and "\<not> closed ses" by (auto simp: closed_def)
  moreover from f have "pk ses = sid" by (auto dest: find_session_SomeD)
  ultimately have "Q (save_snapshot t (pk ses) a (s\<lparr>es_redis := r\<rparr>))"
    using assms keeps_snapshot [of "s\<lparr>es_redis := r\<rparr>" sid ses t a] by (simp add: find_session_def keeps_redis)
  with assms Inr m show ?thesis
    by (cases y) (simp_all add: autosaveExam_def getOwnedActiveSession_def bind_op_def on_redis_def keeps_redis)
qed

lemma keeps_getSessionStatus: "Q s \<Longrightarrow> Q (snd (getSessionStatus C t sid userId s))"
  by (auto simp: getSessionStatus_def bind_op_def keeps_on_redis split: sum.split prod.split)
    (metis keeps_on_redis snd_conv)+

lemma keeps_on_exam:
  "Q (w_exam w) \<Longrightarrow> (Q (w_exam w) \<Longrightarrow> Q (snd (m (w_exam w)))) \<Longrightarrow> Q (w_exam (snd (on_exam m w)))"
  by (auto simp: on_exam_def split: prod.split)

lemma keeps_outside:
  "Q (w_exam w) \<Longrightarrow> Q (w_exam (w\<lparr>w_exam := (w_exam w)\<lparr>es_redis := r\<rparr>\<rparr>))"
  "Q (w_exam w) \<Longrightarrow> Q (w_exam (w\<lparr>w_exam := (w_exam w)\<lparr>es_exams := es\<rparr>\<rparr>))"
  by (simp_all add: keeps_redis keeps_exams)

lemma snd_bind_return3: "snd (bind_op m (\<lambda>(x, y, z). return_op (f x y z)) s) = snd (m s)"
  by (auto simp: bind_op_def split: prod.split sum.split)

lemma keeps_assign_dispatch: "Q s \<Longrightarrow> Q (snd (controller_assignExam B env u c e s))"
  by (simp add: controller_assignExam_def keeps_assignExam keeps_assignNextExam snd_bind_return3 split: option.split)

lemma w_exam_on_gateway [simp]: "w_exam (snd (on_gateway f w)) = w_exam w"
  by (simp add: on_gateway_def)

lemma keeps_session_expiry:
  assumes "Q (w_exam w)"
  shows "Q (w_exam (snd (handleSessionExpiry C t sid w)))"
proof (cases "find_session sid (w_exam w)")
  case None
  with assms show ?thesis by (simp add: handleSessionExpiry_def)
next
  case (Some ses)
  show ?thesis
  proof (cases "ts_status ses = ACTIVE")
    case True
    then have "\<not> closed ses" by (simp add: closed_def)
    with assms Some have "Q (mark_expired t sid (w_exam w))"
      by (simp add: keeps_expired)
    then show ?thesis
      using Some True
      by (auto simp: handleSessionExpiry_def Let_def bind_op_def on_exam_def on_redis_def on_gateway_def keeps_redis
          split: prod.split sum.split)
  qed (use assms Some in \<open>simp add: handleSessionExpiry_def\<close>)
qed

lemma keeps_expired_message:
  assumes "Q (w_exam w)"
  shows "Q (w_exam (snd (on_expired_message C env key w)))"
proof (cases "keyspace_event key")
  case (Some ev)
  obtain ty sid where ev: "ev = (ty, sid)" by (cases ev)
  show ?thesis
    using assms Some keeps_session_expiry [OF assms] keeps_autoSubmit [of "w_exam w"]
    by (cases ty) (auto simp: on_expired_message_def ev handleGraceExpiry_def on_exam_def keeps_redis)
qed (use assms in \<open>simp add: on_expired_message_def\<close>)

lemma keeps_join: "Q (w_exam w) \<Longrightarrow> Q (w_exam (snd (handleJoinSession C t sock u sid w)))"
  by (auto simp: handleJoinSession_def bind_op_def on_exam_def on_redis_def on_gateway_def keeps_redis Let_def
      split: prod.split sum.split)

lemma keeps_tick: "Q (w_exam w) \<Longrightarrow> Q (w_exam (timer_tick C t sid w))"
  by (auto simp: timer_tick_def on_exam_def on_redis_def keeps_redis Let_def
      split: prod.split sum.split option.split)

lemmas operations_keep = keeps_assign_dispatch keeps_startExam keeps_autosaveExam keeps_getSessionStatus
  keeps_submitExam keeps_lateSubmitExam keeps_expired_message keeps_join keeps_tick

lemma exam_step_keeps: "exam_step C B w w' \<Longrightarrow> Q (w_exam w) \<Longrightarrow> Q (w_exam w')"
  by (induction rule: exam_step.induct) (auto intro!: keeps_on_exam intro: operations_keep keeps_redis keeps_exams)

end

subsection \<open>The invariant holds in every reachable world\<close>

lemma find_session_split:
  assumes "exam_inv s" and "find_session sid s = Some x"
  obtains xs ys where "es_sessions s = xs @ x # ys" "pk x = sid"
    "\<And>f. update_rows (\<lambda>y. pk y = sid) f (es_sessions s) = xs @ f x # ys"
proof -
  from find_session_SomeD [OF assms(2)] have x: "x \<in> set (es_sessions s)" "pk x = sid" by auto
  show thesis
    by (rule session_update_split [OF assms(1) x(1), where P = "\<lambda>y. pk y = sid"]) (simp_all add: x(2) that)
qed

interpretation inv: exam_writes exam_inv
proof (unfold_locales, goal_cases)
  case 4 then show ?case by (rule inv_add_code)
next
  case 5 then show ?case by (rule inv_start_tx)
next
  case 6 then show ?case by (rule inv_compensate)
next
  case 7 then show ?case by (rule inv_save_snapshot)
next
  case 8 then show ?case by (rule inv_mark_expired)
next
  case 9 then show ?case by (rule inv_persist_tx)
qed simp_all

text \<open>Closed sessions and attempts are never changed or removed.\<close>

definition history_kept :: "test_session set \<Rightarrow> exam_attempt set \<Rightarrow> 'r exam_state \<Rightarrow> bool" where
  "history_kept X A s \<longleftrightarrow> exam_inv s \<and> X \<subseteq> {x \<in> set (es_sessions s). closed x} \<and> A \<subseteq> set (es_attempts s)"

lemma history_replace:
  assumes "history_kept X A s" and "exam_inv s'" and "es_sessions s = xs @ x # ys" and "\<not> closed x"
    and "set xs \<union> set ys \<subseteq> set (es_sessions s')" and "set (es_attempts s) \<subseteq> set (es_attempts s')"
  shows "history_kept X A s'"
  using assms by (auto simp: history_kept_def)

interpretation history: exam_writes "history_kept X A" for X A
proof (unfold_locales, goal_cases)
  case (4 s row codes)
  then show ?case by (simp add: history_kept_def inv_add_code)
next
  case (5 s env userId examId c exam ses s')
  then have "exam_inv s'" by (auto simp: history_kept_def intro: inv_start_tx)
  with 5 start_tx_okD [OF 5(2)] show ?case by (auto simp: history_kept_def)
next
  case (6 s x sid cid t)
  then have inv: "exam_inv (start_compensate t sid cid s)" by (auto simp: history_kept_def intro: inv_compensate)
  from 6 have d: "distinct (map pk (es_sessions s))" by (simp add: history_kept_def exam_inv_def core_inv_def keys_ok_def)
  obtain xs ys where e: "es_sessions s = xs @ x # ys" and del: "delete_rows (\<lambda>y. pk y = pk x) (es_sessions s) = xs @ ys"
    by (rule delete_key_split [OF d 6(2)])
  show ?case
    by (rule history_replace [OF 6(1) inv e 6(5)]) (simp_all add: start_compensate_def del 6(3) [symmetric])
next
  case (7 s sid x t a)
  then have i: "exam_inv s" by (simp add: history_kept_def)
  obtain xs ys where e: "es_sessions s = xs @ x # ys"
    and u: "\<And>f. update_rows (\<lambda>y. pk y = sid) f (es_sessions s) = xs @ f x # ys"
    by (rule find_session_split [OF i 7(2)]) blast
  show ?case
    by (rule history_replace [OF 7(1) inv_save_snapshot [OF i 7(2,3)] e 7(3)]) (auto simp: save_snapshot_def u)
next
  case (8 s sid x t)
  then have i: "exam_inv s" by (simp add: history_kept_def)
  obtain xs ys where e: "es_sessions s = xs @ x # ys"
    and u: "\<And>f. update_rows (\<lambda>y. pk y = sid) f (es_sessions s) = xs @ f x # ys"
    by (rule find_session_split [OF i 8(2)]) blast
  show ?case
    by (rule history_replace [OF 8(1) inv_mark_expired [OF i 8(2,3)] e 8(3)]) (auto simp: mark_expired_def u)
next
  case (9 s env ses a st l res s')
  then have "exam_inv s'" by (auto simp: history_kept_def intro: inv_persist_tx)
  with 9(1) show ?case using 9(2)
    by (elim persist_tx_okD) (auto intro: history_replace)
qed (auto simp: history_kept_def)

definition world_inv :: "'r exam_world \<Rightarrow> bool" where
  "world_inv w \<longleftrightarrow> exam_inv (w_exam w)"

definition recorded :: "'r exam_world \<Rightarrow> test_session + exam_attempt \<Rightarrow> bool" where
  "recorded w k = (case k of
      Inl x \<Rightarrow> x \<in> set (es_sessions (w_exam w)) \<and> closed x
    | Inr a \<Rightarrow> a \<in> set (es_attempts (w_exam w)))"

lemma recorded_history:
  "world_inv w \<Longrightarrow> recorded w k \<longleftrightarrow>
     (case k of Inl x \<Rightarrow> history_kept {x} {} (w_exam w) | Inr a \<Rightarrow> history_kept {} {a} (w_exam w))"
  by (simp add: world_inv_def recorded_def history_kept_def split: sum.split)

interpretation exams: monotone_system world_inv "exam_step C B" recorded for C :: "'r exam_client" and B
proof (unfold_locales, goal_cases)
  case (1 w w')
  then show ?case by (auto simp: world_inv_def intro: inv.exam_step_keeps)
next
  case (2 w w' k)
  then have "world_inv w'" by (auto simp: world_inv_def intro: inv.exam_step_keeps)
  with 2 show ?case by (auto simp: recorded_history split: sum.splits intro: history.exam_step_keeps)
qed

end
