(* ===== verification/ExamFacts.thy ===== *)
theory ExamFacts
  imports ExamSteps
begin

section \<open>What the exam operations compute\<close>

text \<open>
  Functional lemmas behind the properties of the exam engine: which exam is assigned next, what the
  start response depends on, what a failed start leaves behind, how the remaining seconds are
  rounded, and when a late submission is accepted.
\<close>

subsection \<open>Sorting and searching\<close>

lemma find_one_map: "(\<And>x. P (h x) = P x) \<Longrightarrow> find_one P (map h xs) = map_option h (find_one P xs)"
  by (induction xs) (auto simp: find_one_def)

lemma insort_key_map: "(\<And>x. f (h x) = f x) \<Longrightarrow> insort_key f (h x) (map h xs) = map h (insort_key f x xs)"
  by (induction xs) auto

lemma sort_key_map: "(\<And>x. f (h x) = f x) \<Longrightarrow> sort_key f (map h xs) = map h (sort_key f xs)"
  by (induction xs) (simp_all add: insort_key_map)

lemma find_one_sorted_list:
  "sorted (map f ys) \<Longrightarrow> find_one P ys = Some x \<Longrightarrow> y \<in> set ys \<Longrightarrow> P y \<Longrightarrow> f x \<le> f y"
  by (induction ys) (auto simp: find_one_def split: if_splits)

lemma find_one_sorted:
  "find_one P (sort_key f xs) = Some x \<Longrightarrow> y \<in> set xs \<Longrightarrow> P y \<Longrightarrow> f x \<le> f y"
  by (rule find_one_sorted_list [of f "sort_key f xs" P]) simp_all

subsection \<open>Assignment\<close>

lemma exam_pool_set: "e \<in> set (exam_pool certId s) \<longleftrightarrow> e \<in> set (es_exams s) \<and> e_certId e = certId \<and> e_status e = PUBLISHED"
  by (auto simp: exam_pool_def find_rows_def)

lemma attempted_ids:
  "userId \<noteq> '''' \<Longrightarrow> getAttemptedExamIds userId certId s =
     {at_examId a | a. a \<in> set (es_attempts s) \<and> at_userId a = userId \<and> at_certId a = certId}"
  by (auto simp: getAttemptedExamIds_def find_rows_def exam_attempts_isolation_def)

lemma issue_okD:
  "issueAccessCode B env userId exam s = (Inr r, s') \<Longrightarrow>
     ic_examId r = pk exam \<and> ic_plainCode r = to_hex (randomBytes env) \<and> ic_expiresAt r = now env + ACCESS_CODE_TTL_MS \<and>
     (\<exists>row. s' = s\<lparr>es_codes := es_codes s @ [row]\<rparr> \<and> pk row \<notin> pk ` set (es_codes s) \<and> ac_userId row = userId \<and>
       ac_examId row = pk exam \<and> ac_certId row = e_certId exam \<and> ac_usedAt row = None \<and>
       ac_expiresAt row = ic_expiresAt r \<and>
       ac_tokenHash row = bc_hash B (salt env) ACCESS_CODE_BCRYPT_COST (ic_plainCode r))"
  by (auto simp: issueAccessCode_def Let_def insert_row_ok_iff split: if_splits sum.splits)

lemma assignExam_okD:
  "assignExam B env userId examId certId s = (Inr r, s') \<Longrightarrow>
     \<exists>exam. find_exam examId s = Some exam \<and> e_certId exam = certId \<and> e_status exam = PUBLISHED \<and>
       issueAccessCode B env userId exam s = (Inr r, s')"
  by (auto simp: assignExam_def split: option.splits if_splits)

lemma assignNextExam_okD:
  assumes "assignNextExam B env userId certId s = (Inr (r, ord, title), s')"
  shows "\<exists>next. find_one (\<lambda>e. pk e \<notin> getAttemptedExamIds userId certId s) (exam_pool certId s) = Some next \<and>
    issueAccessCode B env userId next s = (Inr r, s') \<and> ord = e_examOrder next \<and> title = e_title next"
  using assms by (auto simp: assignNextExam_def Let_def bind_op_eq_ok_iff split: if_splits option.splits)

lemma next_exam_least:
  assumes "find_one (\<lambda>e. pk e \<notin> ids) (exam_pool certId s) = Some next"
  shows "next \<in> set (es_exams s)" "e_certId next = certId" "e_status next = PUBLISHED" "pk next \<notin> ids"
    and "\<And>e. e \<in> set (es_exams s) \<Longrightarrow> e_certId e = certId \<Longrightarrow> e_status e = PUBLISHED \<Longrightarrow> pk e \<notin> ids \<Longrightarrow>
          e_examOrder next \<le> e_examOrder e"
proof -
  show "next \<in> set (es_exams s)" "e_certId next = certId" "e_status next = PUBLISHED" "pk next \<notin> ids"
    using find_one_SomeD [OF assms] by (auto simp: exam_pool_set)
  show "e_examOrder next \<le> e_examOrder e"
    if "e \<in> set (es_exams s)" "e_certId e = certId" "e_status e = PUBLISHED" "pk e \<notin> ids" for e
    using find_one_sorted [OF assms [unfolded exam_pool_def]] that by (auto simp: find_rows_def)
qed

subsection \<open>The start response\<close>

definition hide_answers :: "exam \<Rightarrow> exam" where
  "hide_answers e = e\<lparr>e_questions :=
     map (\<lambda>q. q\<lparr>q_options := map (\<lambda>x. x\<lparr>o_isCorrect := False\<rparr>) (q_options q)\<rparr>) (e_questions e)\<rparr>"

lemma hide_answers_simps [simp]:
  "pk (hide_answers e) = pk e" "e_status (hide_answers e) = e_status e" "e_certId (hide_answers e) = e_certId e"
  "e_durationMinutes (hide_answers e) = e_durationMinutes e"
  by (simp_all add: hide_answers_def)

lemma find_exam_hidden:
  "find_exam examId (s\<lparr>es_exams := map hide_answers (es_exams s)\<rparr>) = map_option hide_answers (find_exam examId s)"
  by (simp add: find_exam_def find_one_map)

lemma load_questions_hidden:
  "map_sum id (map strip_question) (load_questions env examId (s\<lparr>es_exams := map hide_answers (es_exams s)\<rparr>)) =
     map_sum id (map strip_question) (load_questions env examId s)"
  by (simp add: load_questions_def find_exam_hidden hide_answers_def sort_key_map strip_question_def
      strip_option_def o_def split: option.split)

lemma start_guard_hidden:
  "start_guard B t userId code examId (s\<lparr>es_exams := map hide_answers (es_exams s)\<rparr>) =
     (case start_guard B t userId code examId s of Inl e \<Rightarrow> Inl e | Inr (c, exam) \<Rightarrow> Inr (c, hide_answers exam))"
  by (simp add: start_guard_def findAndVerifyCode_def find_exam_hidden Let_def
      split: option.split sum.split prod.split)

lemma start_tx_hidden:
  "start_tx env u e c (hide_answers exam) (s\<lparr>es_exams := map hide_answers (es_exams s)\<rparr>) =
     (case start_tx env u e c exam s of (r, s') \<Rightarrow> (r, s'\<lparr>es_exams := map hide_answers (es_exams s')\<rparr>))"
  by (simp add: start_tx_def new_session_def Let_def split: prod.split bool.split sum.split)

lemma load_questions_redis [simp]: "load_questions env e (s\<lparr>es_redis := r\<rparr>) = load_questions env e s"
  by (simp add: load_questions_def find_exam_def cong: option.case_cong)

definition start_view :: "start_result \<Rightarrow> uuid \<times> int \<times> instant \<times> question_view list" where
  "start_view r = (sr_sessionId r, sr_durationSeconds r, sr_expiresAt r, map strip_question (sr_questions r))"

lemma controller_start_view:
  "fst (controller_startExam C B env u code e s) = map_sum id start_view (fst (startExam C B env u code e s))"
  by (auto simp: controller_startExam_def bind_op_def start_view_def split: prod.split sum.split)

lemma start_redis_hidden:
  "map_sum id start_view (fst (start_redis C env u e c ses (s\<lparr>es_exams := map hide_answers (es_exams s)\<rparr>))) =
   map_sum id start_view (fst (start_redis C env u e c ses s))"
proof -
  have r: "s\<lparr>es_exams := x, es_redis := r\<rparr> = (s\<lparr>es_redis := r\<rparr>)\<lparr>es_exams := x\<rparr>" for x r by simp
  show ?thesis
    using load_questions_hidden [of env e s]
    by (auto simp: start_redis_def on_redis_def start_view_def split: prod.split sum.split option.split)
qed

lemma start_response_hidden:
  "fst (controller_startExam C B env u code e (s\<lparr>es_exams := map hide_answers (es_exams s)\<rparr>)) =
   fst (controller_startExam C B env u code e s)"
  unfolding controller_start_view
  using start_redis_hidden
  by (auto simp: startExam_def start_guard_hidden bind_op_def start_tx_hidden split: prod.split sum.split)

subsection \<open>A start that fails\<close>

definition untimed :: "exam_access_code \<Rightarrow> exam_access_code" where
  "untimed c = c\<lparr>updatedAt := 0\<rparr>"

lemma compensation_restores:
  assumes "exam_inv s" and "c \<in> set (es_codes s)" and "ac_usedAt c = None"
    and "start_tx env u e c exam s = (Inr row, s1)"
    and s2: "s2 = start_compensate t (pk row) (pk c) (s1\<lparr>es_redis := r\<rparr>)"
  shows "es_sessions s2 = es_sessions s \<and> map untimed (es_codes s2) = map untimed (es_codes s) \<and>
    es_attempts s2 = es_attempts s"
proof -
  have s1: "s1 = s\<lparr>es_codes := update_rows (code_unused (pk c)) (mark_code_used (now env)) (es_codes s),
      es_sessions := es_sessions s @ [row]\<rparr>" and fresh: "pk row \<notin> pk ` set (es_sessions s)"
    using start_tx_okD(2,3) [OF assms(4)] by auto
  have "delete_rows (\<lambda>x. pk x = pk row) (es_sessions s @ [row]) = es_sessions s"
    using fresh by (auto simp: delete_rows_def filter_id_conv image_iff)
  moreover have d: "distinct (map pk (es_codes s))" using assms(1) by (simp add: exam_inv_def core_inv_def keys_ok_def)
  have "untimed (if pk (if code_unused (pk c) x then mark_code_used (now env) x else x) = pk c
      then free_code t (if code_unused (pk c) x then mark_code_used (now env) x else x)
      else (if code_unused (pk c) x then mark_code_used (now env) x else x)) = untimed x"
    if "x \<in> set (es_codes s)" for x
  proof (cases "pk x = pk c")
    case True
    with distinct_key_eq [OF d that assms(2)] have "x = c" by simp
    with assms(3) show ?thesis
      by (simp add: code_unused_def untimed_def free_code_def mark_code_used_def touch_def)
  qed (simp add: code_unused_def)
  then have "map untimed (update_rows (\<lambda>x. pk x = pk c) (free_code t)
      (update_rows (code_unused (pk c)) (mark_code_used (now env)) (es_codes s))) = map untimed (es_codes s)"
    by (simp add: update_rows_def o_def)
  ultimately show ?thesis by (simp add: s2 s1 start_compensate_def)
qed

text \<open>The tables after a start whose transaction was committed and not undone.\<close>

definition start_left :: "request_env \<Rightarrow> uuid \<Rightarrow> uuid \<Rightarrow> exam_access_code \<Rightarrow> exam \<Rightarrow> 'r exam_state \<Rightarrow> 'r exam_state \<Rightarrow> bool" where
  "start_left env u e c exam s s' \<longleftrightarrow>
     es_sessions s' = es_sessions s @ [new_session env u e c exam] \<and>
     es_codes s' = update_rows (code_unused (pk c)) (mark_code_used (now env)) (es_codes s) \<and>
     es_attempts s' = es_attempts s"

lemma failed_start_cases:
  assumes "exam_inv s" and "startExam C B env u code e s = (Inl err, s')"
  shows "es_sessions s' = es_sessions s \<and> map untimed (es_codes s') = map untimed (es_codes s) \<and>
      es_attempts s' = es_attempts s \<or>
    (restoreFails env = Some err \<or> questionsFail env = Some err) \<and>
      (\<exists>c exam. findAndVerifyCode B (now env) u code e s = Inr (c, exam) \<and> start_left env u e c exam s s')"
proof (cases "start_guard B (now env) u code e s")
  case (Inl x)
  with assms(2) show ?thesis by (simp add: startExam_def)
next
  case (Inr ce)
  then obtain c exam where g: "start_guard B (now env) u code e s = Inr (c, exam)" by (cases ce) simp
  note ver = findAndVerifyCode_okD [OF start_guard_okD(1) [OF g]]
  obtain y s1 where tx: "start_tx env u e c exam s = (y, s1)" by (cases "start_tx env u e c exam s")
  show ?thesis
  proof (cases y)
    case (Inl x)
    with tx start_tx_throws [of env u e c exam s x s1] assms(2) g show ?thesis
      by (simp add: startExam_def bind_op_def)
  next
    case (Inr row)
    with tx have tx': "start_tx env u e c exam s = (Inr row, s1)" by simp
    obtain z r where m: "start C (session_payload row u e c) (ts_durationSeconds row) (redisAt env) (es_redis s1) = (z, r)"
      by (cases "start C (session_payload row u e c) (ts_durationSeconds row) (redisAt env) (es_redis s1)")
    have left: "start_left env u e c exam s (s1\<lparr>es_redis := r\<rparr>)"
      using start_tx_okD(1,2) [OF tx'] by (simp add: start_left_def)
    have run: "start_redis C env u e c row s1 = (Inl err, s')"
      using assms(2) by (simp add: startExam_def g bind_op_ok [of "start_tx env u e c exam", OF tx'])
    note undone = compensation_restores [OF assms(1) ver(1,4) tx' refl, of "now env" r]
    show ?thesis
    proof (cases z)
      case (Inl e1)
      show ?thesis
      proof (cases "restoreFails env")
        case None
        with run m Inl undone show ?thesis by (simp add: start_redis_def on_redis_def)
      next
        case (Some e2)
        with run m Inl left start_guard_okD(1) [OF g] show ?thesis by (auto simp: start_redis_def on_redis_def)
      qed
    next
      case (Inr x)
      with run m have "questionsFail env = Some err" "s' = s1\<lparr>es_redis := r\<rparr>"
        by (auto simp: start_redis_def on_redis_def load_questions_def split: option.splits)
      with left start_guard_okD(1) [OF g] show ?thesis by blast
    qed
  qed
qed

subsection \<open>Remaining seconds\<close>

lemma ceil_seconds:
  assumes "0 < p" and "p \<le> 10 ^ 12"
  shows "remaining_seconds p = (p + 999) div 1000"
proof -
  define n where "n = (p + 999) div 1000"
  have n: "1000 * (n - 1) + 1 \<le> p" "p \<le> 1000 * n" "0 < n" "n \<le> 10 ^ 10"
    using assms unfolding n_def by auto
  define x where "x = (of_int p :: rat) / 1000"
  have x: "of_int n - 1 + 1 / 1000 \<le> x" "x \<le> of_int n" "0 \<le> x" "x \<le> 10 ^ 9"
    using n(1,2) assms of_int_le_iff [of "1000 * (n - 1) + 1" p, where 'a = rat]
      of_int_le_iff [of p "1000 * n", where 'a = rat] of_int_le_iff [of p "10 ^ 12", where 'a = rat]
    by (auto simp: x_def field_simps)
  have "rnd53 x \<le> rnd53 (of_int n)" using x(2) by (rule rnd53_mono)
  then have le: "rnd53 x \<le> of_int n" using n(3,4) by (simp add: rnd53_of_int)
  have "x / 2 ^ 53 \<le> 10 ^ 9 / 2 ^ 53" using x(4) by (intro divide_right_mono) auto
  also have "\<dots> < (1 :: rat) / 1000" by simp
  finally have "of_int n - 1 < rnd53 x" using rnd53_near [OF x(3)] x(1) by linarith
  with le have "\<lceil>rnd53 x\<rceil> = n" by (intro ceiling_unique) auto
  with assms show ?thesis by (simp add: remaining_seconds_def js_ceil_def js_div_def x_def n_def)
qed

end
