(* ===== verification/ExamLive.thy ===== *)
theory ExamLive
  imports ExamFacts
begin

section \<open>The exam engine on a Redis server\<close>

text \<open>
  Lemmas that need the laws of \<open>redis_server\<close>: the countdown of a started exam, autosave, status,
  the grace window after expiry, and that the owner of an active session can always submit. The
  gateway's warnings are at the end.
\<close>

lemma on_redis_okD:
  "on_redis m s = (Inr x, s') \<Longrightarrow> \<exists>r. m (es_redis s) = (Inr x, r) \<and> s' = s\<lparr>es_redis := r\<rparr>"
  by (auto simp: on_redis_def split: prod.splits)

lemma on_redis_throwD:
  "on_redis m s = (Inl x, s') \<Longrightarrow> \<exists>r. m (es_redis s) = (Inl x, r) \<and> s' = s\<lparr>es_redis := r\<rparr>"
  by (auto simp: on_redis_def split: prod.splits)

lemma startExam_okD:
  assumes "startExam C B env u code e s = (Inr r, s')"
  shows "\<exists>c exam s1 red. findAndVerifyCode B (now env) u code e s = Inr (c, exam) \<and>
    start_tx env u e c exam s = (Inr (new_session env u e c exam), s1) \<and>
    start C (session_payload (new_session env u e c exam) u e c) (e_durationMinutes exam * 60) (redisAt env) (es_redis s) = (Inr (), red) \<and>
    s' = s1\<lparr>es_redis := red\<rparr> \<and> sr_sessionId r = newId env \<and> sr_durationSeconds r = e_durationMinutes exam * 60 \<and>
    sr_expiresAt r = now env + e_durationMinutes exam * 60 * 1000 \<and>
    (\<forall>x \<in> set (es_sessions s). ts_status x = ACTIVE \<longrightarrow> active_slot x \<noteq> (u, e))"
proof -
  from assms obtain c exam where g: "start_guard B (now env) u code e s = Inr (c, exam)"
    by (auto simp: startExam_def split: sum.splits)
  with assms obtain row s1 where tx: "start_tx env u e c exam s = (Inr row, s1)"
    and red: "start_redis C env u e c row s1 = (Inr r, s')"
    by (auto simp: startExam_def bind_op_eq_ok_iff)
  have same: "es_redis s1 = es_redis s" using start_tx_okD(2) [OF tx] by simp
  show ?thesis
    using start_guard_okD [OF g] tx red start_tx_okD(1) [OF tx] same
    by (auto simp: start_redis_def on_redis_def split: prod.splits sum.splits option.splits)
qed

lemma submitExam_okD:
  assumes "submitExam C env sid u a s = (Inr r, s')"
  shows "\<exists>ses. find_session sid s = Some ses \<and> ts_userId ses = u \<and> ts_status ses = ACTIVE \<and>
    scoreAndPersist C env ses a ATTEMPT_SUBMITTED False s = (Inr r, s')"
  using assms by (auto simp: submitExam_def getOwnedActiveSession_def split: sum.splits dest!: getOwnedSession_okD)

lemma scoreAndPersist_okD:
  assumes "scoreAndPersist C env ses a st l s = (Inr r, s')"
  shows "r = scoreAnswers (es_exams s) (ts_examId ses) a \<and>
    (\<exists>xs x ys red. es_sessions s = xs @ x # ys \<and> pk x = pk ses \<and> \<not> closed x \<and>
       s' = s\<lparr>es_sessions := xs @ close_session (now env) (terminal_status st) a x # ys,
              es_attempts := es_attempts s @ [new_attempt env ses a st l r], es_redis := red\<rparr>)"
proof -
  let ?r = "scoreAnswers (es_exams s) (ts_examId ses) a"
  from assms obtain s1 where tx: "persist_tx env ses a st (new_attempt env ses a st l ?r) s = (Inr (), s1)"
    and r: "r = ?r" and red: "on_redis (deleteSession C (pk ses) (now env)) s1 = (Inr (), s')"
    by (auto simp: scoreAndPersist_def Let_def bind_op_eq_ok_iff)
  from on_redis_okD [OF red] obtain q where s': "s' = s1\<lparr>es_redis := q\<rparr>" by blast
  show ?thesis
  proof (rule persist_tx_okD [OF tx])
    fix xs x ys
    assume "es_sessions s = xs @ x # ys" "pk x = pk ses" "\<not> closed x"
      "s1 = s\<lparr>es_sessions := xs @ close_session (now env) (terminal_status st) a x # ys,
         es_attempts := es_attempts s @ [new_attempt env ses a st l ?r]\<rparr>"
    then show ?thesis using s' r by (intro conjI exI [of _ xs] exI [of _ x] exI [of _ ys] exI [of _ q]) simp_all
  qed
qed

text \<open>Nothing but the open session, the foreign keys and a fresh key is needed to submit.\<close>

lemma persist_succeeds:
  assumes "exam_inv s" and "find_session sid s = Some ses" and "\<not> closed ses"
    and "ts_userId ses \<noteq> ''''" and "ts_userId ses \<in> set (es_users s)" and "resolveCertId ses \<in> set (es_certs s)"
    and "\<forall>e \<in> set (es_exams s). marks_ok (e_questions e)" and "newId env \<notin> pk ` set (es_attempts s)"
  shows "\<exists>s1. persist_tx env ses a st (new_attempt env ses a st l (scoreAnswers (es_exams s) (ts_examId ses) a)) s = (Inr (), s1) \<and>
    es_redis s1 = es_redis s"
proof -
  let ?row = "new_attempt env ses a st l (scoreAnswers (es_exams s) (ts_examId ses) a)"
  from find_session_SomeD [OF assms(2)] have x: "ses \<in> set (es_sessions s)" "pk ses = sid" by auto
  have d: "distinct (map pk (es_sessions s))" using assms(1) by (simp add: exam_inv_def core_inv_def keys_ok_def)
  have "affected (open_session (pk ses)) (es_sessions s) = 1"
    using x assms(3) by (intro ex_affected_1 [OF d]) (auto simp: open_session_def closed_iff_not_open)
  moreover have "attempt_score_check ?row"
    using score_range [OF assms(7)] by (simp add: attempt_score_check_def new_attempt_def)
  ultimately show ?thesis
    using assms(4,5,6,8)
    by (simp add: persist_tx_def Let_def insert_row_def exam_attempts_isolation_def) (simp add: new_attempt_def)
qed

lemma no_certificate_no_attempt:
  assumes "resolveCertId ses \<notin> set (es_certs s)"
  shows "\<exists>e. scoreAndPersist C env ses a st l s = (Inl e, s)"
  using assms
  by (auto simp: scoreAndPersist_def Let_def bind_op_def persist_tx_def new_attempt_def)

lemma autosaveExam_okD:
  assumes "autosaveExam C t sid u a s = (Inr (), s')"
  shows "\<exists>ses r. getOwnedSession sid u [ACTIVE] s = Inr ses \<and> autosave C sid a t (es_redis s) = (Inr True, r) \<and>
    s' = save_snapshot t sid a (s\<lparr>es_redis := r\<rparr>)"
proof -
  obtain y r where m: "autosave C sid a t (es_redis s) = (y, r)" by (cases "autosave C sid a t (es_redis s)")
  from assms obtain ses where o: "getOwnedSession sid u [ACTIVE] s = Inr ses"
    by (auto simp: autosaveExam_def getOwnedActiveSession_def split: sum.splits)
  then have "pk ses = sid" by (auto dest: getOwnedSession_okD find_session_SomeD)
  with assms o m show ?thesis
    by (auto simp: autosaveExam_def getOwnedActiveSession_def bind_op_def on_redis_def split: sum.splits if_splits)
qed

context exam_redis
begin

lemma started_countdown:
  assumes "startExam C B env u code e s = (Inr r, s')" and "redisAt env \<le> t"
  shows "remaining t (view (es_redis s') t (EXAM_SESSION_PREFIX @ sr_sessionId r)) =
    (let d = sr_expiresAt r + (redisAt env - now env) in if t < d then d - t else -2)"
proof -
  from startExam_okD [OF assms(1)] obtain c exam red where
    st: "start C (session_payload (new_session env u e c exam) u e c) (e_durationMinutes exam * 60) (redisAt env) (es_redis s) = (Inr (), red)"
    and s': "es_redis s' = red" "sr_sessionId r = newId env" "sr_expiresAt r = now env + e_durationMinutes exam * 60 * 1000"
    by fastforce
  from countdown [OF st assms(2)] show ?thesis by (simp add: s' session_payload_def algebra_simps)
qed

lemma autosaveExam_keeps_deadlines:
  "autosaveExam C t sid u a s = (Inr (), s') \<Longrightarrow>
   remaining t (view (es_redis s') t k) = remaining t (view (es_redis s) t k)"
  by (drule autosaveExam_okD) (auto simp: save_snapshot_def dest: autosave_keeps_deadlines)

lemma autosaveExam_mirrors:
  assumes "autosaveExam C t sid u a s = (Inr (), s')"
  shows "(\<exists>ses. find_session sid s = Some ses \<and> ts_userId ses = u \<and> ts_status ses = ACTIVE) \<and>
    (\<exists>ses. find_session sid s' = Some ses \<and> ts_snapshot ses = Some a) \<and>
    (\<exists>d dl. view (es_redis s') t (EXAM_SESSION_PREFIX @ sid) = Some (Json (SessionJson d), dl) \<and> xs_answers d = a)"
proof -
  from autosaveExam_okD [OF assms] obtain ses r where o: "getOwnedSession sid u [ACTIVE] s = Inr ses"
    and r: "autosave C sid a t (es_redis s) = (Inr True, r)" and s': "s' = save_snapshot t sid a (s\<lparr>es_redis := r\<rparr>)"
    by blast
  from autosave_view [OF r] obtain d dl where
    "session_entry (view (es_redis s) t (EXAM_SESSION_PREFIX @ sid)) = Some (d, dl)"
    "view r t = (view (es_redis s) t)(EXAM_SESSION_PREFIX @ sid \<mapsto> (Json (SessionJson (d\<lparr>xs_answers := a\<rparr>)), dl))"
    by auto
  then have v: "view (es_redis s') t (EXAM_SESSION_PREFIX @ sid) = Some (Json (SessionJson (d\<lparr>xs_answers := a\<rparr>)), dl)"
    by (simp add: s' save_snapshot_def)
  have "find_session sid s' = Some ((touch t ses)\<lparr>ts_snapshot := Some a\<rparr>)"
    using getOwnedSession_okD [OF o]
    by (simp add: s' save_snapshot_def find_session_def find_one_update touch_def)
  with getOwnedSession_okD [OF o] v show ?thesis by auto
qed

lemma status_up:
  assumes "up (es_redis s)" and "find_session sid s = Some ses" and "ts_userId ses = u"
    and "view (es_redis s) t (EXAM_SESSION_PREFIX @ sid) = Some (Json (SessionJson d), Some dl)"
  shows "fst (getSessionStatus C t sid u s) =
    Inr \<lparr>st_sessionId = sid, st_remainingSeconds = remaining_seconds (dl - t), st_answers = xs_answers d, st_status = ts_status ses\<rparr>"
proof -
  have "ts_status ses \<in> set all_statuses" by (cases "ts_status ses") auto
  with assms show ?thesis
    by (simp add: getSessionStatus_def getOwnedSession_def bind_op_def on_redis_def getSession_up remaining_def)
qed

lemma lateSubmit_okD:
  assumes "lateSubmitExam C env sid u a s = (Inr r, s')"
  shows "\<exists>ses snapshot s1. find_session sid s = Some ses \<and> ts_userId ses = u \<and> ts_status ses = EXPIRED \<and>
    map_option fst (grace_entry (view (es_redis s) (now env) (EXAM_GRACE_PREFIX @ sid))) = Some snapshot \<and>
    scoreAndPersist C env ses (if a = [] then snapshot else a) ATTEMPT_SUBMITTED True s1 = (Inr r, s') \<and>
    (\<exists>red. s1 = s\<lparr>es_redis := red\<rparr> \<and> view red (now env) (EXAM_GRACE_PREFIX @ sid) = None)"
proof -
  from assms obtain ses snapshot s1 where o: "getOwnedSession sid u [EXPIRED] s = Inr ses"
    and red: "on_redis (consumeGrace C sid (now env)) s = (Inr (Some snapshot), s1)"
    and sp: "scoreAndPersist C env ses (if a = [] then snapshot else a) ATTEMPT_SUBMITTED True s1 = (Inr r, s')"
    by (cases a) (auto simp: lateSubmitExam_def bind_op_eq_ok_iff Let_def split: sum.splits option.splits)
  from on_redis_okD [OF red] obtain q where "consumeGrace C sid (now env) (es_redis s) = (Inr (Some snapshot), q)"
    "s1 = s\<lparr>es_redis := q\<rparr>" by blast
  with consumeGrace_value [OF this(1)] getOwnedSession_okD [OF o] sp show ?thesis
    by (intro exI [of _ ses] exI [of _ snapshot] exI [of _ s1]) auto
qed

lemma expiry_opens_grace:
  assumes "handleSessionExpiry C t sid w = (Inr (), w')" and "find_session sid (w_exam w) = Some ses" and "ts_status ses = ACTIVE"
    and "t \<le> t'"
  shows "grace_entry (view (es_redis (w_exam w')) t' (EXAM_GRACE_PREFIX @ sid)) =
    (if t' < t + 120000 then Some (case ts_snapshot ses of Some a \<Rightarrow> a | None \<Rightarrow> [], Some (t + 120000)) else None)"
proof -
  let ?a = "case ts_snapshot ses of Some a \<Rightarrow> a | None \<Rightarrow> []"
  from assms(1-3) obtain r where "startGrace C sid ?a t (es_redis (w_exam w)) = (Inr (), r)" "es_redis (w_exam w') = r"
    by (auto simp: handleSessionExpiry_def Let_def bind_op_def on_exam_def on_redis_def on_gateway_def mark_expired_def
        split: prod.splits sum.splits)
  with grace_window [OF this(1) assms(4)] show ?thesis by simp
qed

lemma late_submit_closed:
  assumes "up (es_redis s)" and "grace_entry (view (es_redis s) (now env) (EXAM_GRACE_PREFIX @ sid)) = None"
  shows "\<exists>e. fst (lateSubmitExam C env sid u a s) = Inl e"
proof -
  have "fst (consumeGrace C sid (now env) (es_redis s)) = Inr None"
    using consumeGrace_up [OF assms(1)] assms(2) by simp
  then show ?thesis
    by (auto simp: lateSubmitExam_def bind_op_def on_redis_def split: sum.split prod.splits)
qed

end

subsection \<open>Warnings of the gateway\<close>

definition is_warning :: "uuid \<Rightarrow> int \<Rightarrow> string \<times> ws_event \<Rightarrow> bool" where
  "is_warning sid th e = (case snd e of WarningEvent s _ k \<Rightarrow> s = sid \<and> k = th | _ \<Rightarrow> False)"

definition warning_count :: "uuid \<Rightarrow> int \<Rightarrow> 'r exam_world \<Rightarrow> nat" where
  "warning_count sid th w = length (filter (is_warning sid th) (gw_emitted (w_gateway w)))"

lemma warn_loop_emits:
  "distinct ths \<Longrightarrow> warn_loop sid r ths (warned, g) = (warned', g') \<Longrightarrow>
     gw_timers g' = gw_timers g \<and> set warned' = set warned \<union> {th \<in> set ths. r \<le> th} \<and>
     length (filter (is_warning sid th) (gw_emitted g')) = length (filter (is_warning sid th) (gw_emitted g)) +
       (if th \<in> set ths \<and> r \<le> th \<and> th \<notin> set warned then 1 else 0)"
proof (induction ths arbitrary: warned g)
  case (Cons x xs)
  show ?case
  proof (cases "r \<le> x \<and> x \<notin> set warned")
    case True
    then show ?thesis
      using Cons.IH [of "x # warned" "emit (SESSION_ROOM sid) (WarningEvent sid r x) g"] Cons.prems
      by (auto simp: emit_def is_warning_def)
  next
    case False
    then show ?thesis using Cons.IH [of warned g] Cons.prems by auto
  qed
qed auto

text \<open>Budget of warnings for a threshold: one while the timer has not warned, then none.\<close>

definition warnings_left :: "uuid \<Rightarrow> int \<Rightarrow> 'r exam_world \<Rightarrow> nat" where
  "warnings_left sid th w = (case gw_timers (w_gateway w) sid of
      None \<Rightarrow> 0 | Some warned \<Rightarrow> if th \<in> set warned then 0 else 1)"

lemma tick_warnings:
  "warning_count sid th (timer_tick C t sid w) + warnings_left sid th (timer_tick C t sid w)
     \<le> warning_count sid th w + warnings_left sid th w"
proof (cases "gw_timers (w_gateway w) sid")
  case None
  then show ?thesis by (simp add: timer_tick_def)
next
  case (Some warned)
  obtain y w1 where m: "on_exam (on_redis (getSession C sid t)) w = (y, w1)"
    by (cases "on_exam (on_redis (getSession C sid t)) w")
  then have g: "w_gateway w1 = w_gateway w" by (auto simp: on_exam_def split: prod.splits)
  show ?thesis
  proof (cases y)
    case (Inl e)
    with Some m g show ?thesis by (simp add: timer_tick_def warning_count_def warnings_left_def)
  next
    case (Inr v)
    obtain d p where v: "v = (d, p)" by (cases v)
    let ?r = "js_ceil (js_div (of_int p) 1000)"
    let ?g1 = "emit (SESSION_ROOM sid) (TimerTick sid ?r) (w_gateway w)"
    obtain warned' g2 where l: "warn_loop sid ?r WARNING_THRESHOLDS (warned, ?g1) = (warned', g2)"
      by (cases "warn_loop sid ?r WARNING_THRESHOLDS (warned, ?g1)")
    have "distinct WARNING_THRESHOLDS" by (simp add: WARNING_THRESHOLDS_def)
    from warn_loop_emits [OF this l, of th] have
      "length (filter (is_warning sid th) (gw_emitted g2)) =
         length (filter (is_warning sid th) (gw_emitted (w_gateway w))) +
         (if th \<in> set WARNING_THRESHOLDS \<and> ?r \<le> th \<and> th \<notin> set warned then 1 else 0)"
      "set warned' = set warned \<union> {th \<in> set WARNING_THRESHOLDS. ?r \<le> th}"
      by (auto simp: emit_def is_warning_def)
    with Some m g Inr v l show ?thesis
      by (auto simp: timer_tick_def warning_count_def warnings_left_def clearTimer_def Let_def)
  qed
qed

definition run_ticks :: "'r exam_client \<Rightarrow> uuid \<Rightarrow> instant list \<Rightarrow> 'r exam_world \<Rightarrow> 'r exam_world" where
  "run_ticks C sid ts w = fold (\<lambda>t. timer_tick C t sid) ts w"

lemma ticks_warnings:
  "warning_count sid th (run_ticks C sid ts w) + warnings_left sid th (run_ticks C sid ts w)
     \<le> warning_count sid th w + warnings_left sid th w"
proof (induction ts arbitrary: w)
  case (Cons t ts)
  then show ?case using tick_warnings [of sid th C t w] by (simp add: run_ticks_def) (meson le_trans)
qed (simp add: run_ticks_def)

subsection \<open>How long a timer runs\<close>

definition tick_times :: "instant \<Rightarrow> nat \<Rightarrow> instant list" where
  "tick_times t0 n = map (\<lambda>k. t0 + TICK_INTERVAL_MS * (int k + 1)) [0..<n]"

definition is_tick :: "uuid \<Rightarrow> string \<times> ws_event \<Rightarrow> bool" where
  "is_tick sid e = (case snd e of TimerTick s _ \<Rightarrow> s = sid | _ \<Rightarrow> False)"

definition tick_count :: "uuid \<Rightarrow> 'r exam_world \<Rightarrow> nat" where
  "tick_count sid w = length (filter (is_tick sid) (gw_emitted (w_gateway w)))"

lemma warn_loop_ticks:
  "warn_loop sid r ths (warned, g) = (warned', g') \<Longrightarrow> filter (is_tick s) (gw_emitted g') = filter (is_tick s) (gw_emitted g)"
  by (induction ths arbitrary: warned g) (fastforce simp: emit_def is_tick_def split: if_splits)+

lemma run_ticks_Suc:
  "run_ticks C sid (tick_times t0 (Suc n)) w =
     timer_tick C (t0 + TICK_INTERVAL_MS * (int n + 1)) sid (run_ticks C sid (tick_times t0 n) w)"
  by (simp add: run_ticks_def tick_times_def)

context exam_redis
begin

lemma tick_runs:
  assumes "up (es_redis (w_exam w))" "gw_timers (w_gateway w) sid \<noteq> None"
    "n = remaining t (view (es_redis (w_exam w)) t (EXAM_SESSION_PREFIX @ sid))"
  shows "w_exam (timer_tick C t sid w) = w_exam w"
    "gw_timers (w_gateway (timer_tick C t sid w)) sid = None \<longleftrightarrow> n \<le> 0"
    "tick_count sid (timer_tick C t sid w) = tick_count sid w + (if n \<le> 0 then 0 else 1)"
proof -
  obtain warned where warned: "gw_timers (w_gateway w) sid = Some warned" using assms(2) by blast
  let ?r = "js_ceil (js_div (of_int n) 1000)"
  obtain warned' g2 where l: "warn_loop sid ?r WARNING_THRESHOLDS (warned, emit (SESSION_ROOM sid) (TimerTick sid ?r) (w_gateway w)) = (warned', g2)"
    by (cases "warn_loop sid ?r WARNING_THRESHOLDS (warned, emit (SESSION_ROOM sid) (TimerTick sid ?r) (w_gateway w))")
  have run: "timer_tick C t sid w = (if n \<le> 0 then w\<lparr>w_gateway := clearTimer sid (w_gateway w)\<rparr>
      else w\<lparr>w_gateway := g2\<lparr>gw_timers := (gw_timers g2)(sid \<mapsto> warned')\<rparr>\<rparr>)"
    using warned getSession_up[OF assms(1), of sid t] l assms(3)
    by (simp add: timer_tick_def on_exam_def on_redis_def Let_def)
  have "filter (is_tick sid) (gw_emitted g2) = filter (is_tick sid) (gw_emitted (w_gateway w)) @ [(SESSION_ROOM sid, TimerTick sid ?r)]"
    using warn_loop_ticks[OF l, of sid] by (simp add: emit_def is_tick_def)
  then show "w_exam (timer_tick C t sid w) = w_exam w"
    "gw_timers (w_gateway (timer_tick C t sid w)) sid = None \<longleftrightarrow> n \<le> 0"
    "tick_count sid (timer_tick C t sid w) = tick_count sid w + (if n \<le> 0 then 0 else 1)"
    by (simp_all add: run tick_count_def clearTimer_def)
qed

lemma ticks_until_deadline:
  assumes "up (es_redis (w_exam w))" "gw_timers (w_gateway w) sid \<noteq> None"
    "view (es_redis (w_exam w)) t0 (EXAM_SESSION_PREFIX @ sid) = Some (v, Some d)"
  defines "m \<equiv> nat ((d - t0 - 1) div TICK_INTERVAL_MS)"
  shows "w_exam (run_ticks C sid (tick_times t0 n) w) = w_exam w \<and>
    (gw_timers (w_gateway (run_ticks C sid (tick_times t0 n) w)) sid = None \<longleftrightarrow> m < n) \<and>
    tick_count sid (run_ticks C sid (tick_times t0 n) w) = tick_count sid w + min n m"
proof (induction n)
  case 0
  then show ?case using assms(2) by (simp add: run_ticks_def tick_times_def)
next
  case (Suc n)
  let ?w = "run_ticks C sid (tick_times t0 n) w" and ?t = "t0 + TICK_INTERVAL_MS * (int n + 1)"
  have "t0 \<le> ?t" by (simp add: TICK_INTERVAL_MS_def)
  then have live: "remaining ?t (view (es_redis (w_exam w)) ?t (EXAM_SESSION_PREFIX @ sid)) = (if ?t < d then d - ?t else -2)"
    using time_passes[of t0 ?t] assms(3) by (simp add: remaining_def)
  have "0 \<le> d - t0 - 1" using deadline_ahead[OF assms(3)] by simp
  then have iff: "?t < d \<longleftrightarrow> Suc n \<le> m"
    unfolding m_def TICK_INTERVAL_MS_def by (auto simp: nat_le_iff Suc_le_eq zless_nat_eq_int_zless)
  show ?case
  proof (cases "m < n")
    case True
    then show ?thesis using Suc by (simp add: run_ticks_Suc timer_tick_def)
  next
    case False
    then have "gw_timers (w_gateway ?w) sid \<noteq> None" "up (es_redis (w_exam ?w))" using Suc assms(1) by simp_all
    from tick_runs[OF this(2,1) refl, of ?t] show ?thesis
      using Suc False live iff by (auto simp: run_ticks_Suc)
  qed
qed

end

end
