(* ===== verification/ExamRace.thy ===== *)
theory ExamRace
  imports ExamSteps
begin

section \<open>Interleavings of the exam operations\<close>

text \<open>
  The operations await the database between their reads and their writes. Here a request is a task:
  it begins with its reads and guards and is committed later, after any number of steps of other
  tasks. \<open>race_do\<close> executes one event of a schedule. The tables keep \<open>core_inv\<close> under every
  schedule of starts, submits, late submits and automatic submits; the two tasks whose write does not
  repeat its guard, the expiry handler and autosave, are excluded there and are the subject of the
  concrete schedules at the end.
\<close>

subsection \<open>Tasks and events\<close>

datatype exam_task =
    SubmitTask test_session answers attempt_status bool
  | StartTask uuid uuid exam_access_code exam
  | SaveTask uuid answers
  | ExpireTask test_session

record 'r race_state =
  rs_exam :: "'r exam_state"
  rs_tasks :: "exam_task list"

datatype race_event =
    BeginSubmit uuid uuid answers
  | BeginLateSubmit instant uuid uuid answers
  | BeginAutoSubmit uuid
  | BeginStart instant uuid string uuid
  | BeginSave instant uuid uuid answers
  | BeginExpire uuid
  | Commit request_env nat

fun begin_task :: "'r exam_client \<Rightarrow> bcrypt_lib \<Rightarrow> race_event \<Rightarrow> 'r exam_state \<Rightarrow> exam_task option \<times> 'r exam_state" where
  "begin_task C B (BeginSubmit sid u a) s =
     (case getOwnedActiveSession sid u s of
        Inl _ \<Rightarrow> (None, s) | Inr ses \<Rightarrow> (Some (SubmitTask ses a ATTEMPT_SUBMITTED False), s))"
| "begin_task C B (BeginLateSubmit t sid u a) s =
     (case getOwnedSession sid u [EXPIRED] s of
        Inl _ \<Rightarrow> (None, s)
      | Inr ses \<Rightarrow> (case on_redis (consumeGrace C sid t) s of
            (Inr (Some snapshot), s') \<Rightarrow>
               (Some (SubmitTask ses (if 0 < length a then a else snapshot) ATTEMPT_SUBMITTED True), s')
          | (_, s') \<Rightarrow> (None, s')))"
| "begin_task C B (BeginAutoSubmit sid) s =
     (case find_session sid s of
        None \<Rightarrow> (None, s)
      | Some ses \<Rightarrow> if ts_status ses \<noteq> EXPIRED \<and> ts_status ses \<noteq> ACTIVE then (None, s)
          else (Some (SubmitTask ses (case ts_snapshot ses of Some x \<Rightarrow> x | None \<Rightarrow> []) ATTEMPT_AUTO_SUBMITTED False), s))"
| "begin_task C B (BeginStart t u code e) s =
     (case start_guard B t u code e s of
        Inl _ \<Rightarrow> (None, s) | Inr (c, exam) \<Rightarrow> (Some (StartTask u e c exam), s))"
| "begin_task C B (BeginSave t sid u a) s =
     (case getOwnedActiveSession sid u s of
        Inl _ \<Rightarrow> (None, s)
      | Inr ses \<Rightarrow> (case on_redis (autosave C sid a t) s of
            (Inr True, s') \<Rightarrow> (Some (SaveTask (pk ses) a), s') | (_, s') \<Rightarrow> (None, s')))"
| "begin_task C B (BeginExpire sid) s =
     (case find_session sid s of
        None \<Rightarrow> (None, s)
      | Some ses \<Rightarrow> if ts_status ses \<noteq> ACTIVE then (None, s) else (Some (ExpireTask ses), s))"
| "begin_task C B (Commit env n) s = (None, s)"

fun commit_task :: "'r exam_client \<Rightarrow> request_env \<Rightarrow> exam_task \<Rightarrow> 'r exam_state \<Rightarrow> 'r exam_state" where
  "commit_task C env (SubmitTask ses a st l) s = snd (scoreAndPersist C env ses a st l s)"
| "commit_task C env (StartTask u e c exam) s =
     snd (bind_op (start_tx env u e c exam) (\<lambda>ses. start_redis C env u e c ses) s)"
| "commit_task C env (SaveTask sid a) s = save_snapshot (now env) sid a s"
| "commit_task C env (ExpireTask ses) s =
     snd (on_redis (startGrace C (pk ses) (case ts_snapshot ses of Some a \<Rightarrow> a | None \<Rightarrow> []) (now env))
       (mark_expired (now env) (pk ses) s))"

definition race_do :: "'r exam_client \<Rightarrow> bcrypt_lib \<Rightarrow> race_event \<Rightarrow> 'r race_state \<Rightarrow> 'r race_state" where
  "race_do C B ev rs = (case ev of
      Commit env n \<Rightarrow>
        if n < length (rs_tasks rs)
        then rs\<lparr>rs_exam := commit_task C env (rs_tasks rs ! n) (rs_exam rs),
                rs_tasks := take n (rs_tasks rs) @ drop (Suc n) (rs_tasks rs)\<rparr>
        else rs
    | _ \<Rightarrow> (case begin_task C B ev (rs_exam rs) of
          (None, s) \<Rightarrow> rs\<lparr>rs_exam := s\<rparr>
        | (Some k, s) \<Rightarrow> rs\<lparr>rs_exam := s, rs_tasks := rs_tasks rs @ [k]\<rparr>))"

definition race_run :: "'r exam_client \<Rightarrow> bcrypt_lib \<Rightarrow> race_event list \<Rightarrow> 'r race_state \<Rightarrow> 'r race_state" where
  "race_run C B evs rs = fold (race_do C B) evs rs"

subsection \<open>Schedules without expiry and autosave\<close>

fun calm :: "race_event \<Rightarrow> bool" where
  "calm (BeginSave _ _ _ _) = False"
| "calm (BeginExpire _) = False"
| "calm _ = True"

fun task_ok :: "'r exam_state \<Rightarrow> exam_task \<Rightarrow> bool" where
  "task_ok s (SubmitTask ses a st l) \<longleftrightarrow> (\<exists>x \<in> set (es_sessions s). pk x = pk ses \<and> same_session x ses)"
| "task_ok s (StartTask u e c exam) \<longleftrightarrow> (\<exists>c' \<in> set (es_codes s). pk c' = pk c \<and> ac_userId c' = u \<and> ac_examId c' = e)"
| "task_ok s _ \<longleftrightarrow> False"

definition race_inv :: "'r race_state \<Rightarrow> bool" where
  "race_inv rs \<longleftrightarrow> core_inv (rs_exam rs) \<and> (\<forall>k \<in> set (rs_tasks rs). task_ok (rs_exam rs) k)"

text \<open>Rows that tasks refer to stay: the columns they rely on never change.\<close>

definition rows_stay :: "'r exam_state \<Rightarrow> 'r exam_state \<Rightarrow> bool" where
  "rows_stay s s' \<longleftrightarrow>
     (\<forall>x \<in> set (es_sessions s). \<exists>y \<in> set (es_sessions s'). pk y = pk x \<and> same_session y x) \<and>
     (\<forall>c \<in> set (es_codes s). \<exists>c' \<in> set (es_codes s'). pk c' = pk c \<and> ac_userId c' = ac_userId c \<and> ac_examId c' = ac_examId c)"

lemma rows_stay_refl [simp]: "rows_stay s s"
  unfolding rows_stay_def by (auto simp: same_session_def)

lemma rows_stay_same [simp]: "rows_stay s (s\<lparr>es_redis := r\<rparr>)"
  unfolding rows_stay_def by (auto simp: same_session_def)

lemma same_session_trans: "same_session x y \<Longrightarrow> same_session y z \<Longrightarrow> same_session x z"
  by (simp add: same_session_def)

lemma task_ok_stays: "rows_stay s s' \<Longrightarrow> task_ok s k \<Longrightarrow> task_ok s' k"
  by (cases k) (auto simp: rows_stay_def, (metis same_session_trans)+)

lemma core_unique_session:
  assumes "core_inv s" and "\<exists>x \<in> set (es_sessions s). pk x = pk ses \<and> same_session x ses"
    and "y \<in> set (es_sessions s)" and "pk y = pk ses"
  shows "same_session y ses"
proof -
  from assms(2) obtain x where x: "x \<in> set (es_sessions s)" "pk x = pk ses" "same_session x ses" by blast
  have "distinct (map pk (es_sessions s))" using assms(1) by (simp add: core_inv_def keys_ok_def)
  from distinct_key_eq [OF this assms(3) x(1)] assms(4) x show ?thesis by simp
qed

lemma on_redis_state: "\<exists>r. snd (on_redis m s) = s\<lparr>es_redis := r\<rparr>"
  by (auto simp: on_redis_def split: prod.split)

lemma begin_task_redis: "\<exists>r. snd (begin_task C B ev s) = s\<lparr>es_redis := r\<rparr>"
proof -
  have same: "\<exists>r. s = s\<lparr>es_redis := r\<rparr>" by (rule exI [of _ "es_redis s"]) simp
  show ?thesis
    using same
    by (cases ev) (auto simp: on_redis_def split: sum.split option.split prod.split bool.split)
qed

lemma submit_task_found: "find_session sid s = Some ses \<Longrightarrow> task_ok s (SubmitTask ses a st l)"
  by (auto dest!: find_session_SomeD intro!: bexI [of _ ses])

lemma start_task_found: "findAndVerifyCode B t u code e s = Inr (c, exam) \<Longrightarrow> task_ok s (StartTask u e c exam)"
  using findAndVerifyCode_okD(1-3) [of B t u code e s c exam] by (auto intro!: bexI [of _ c])

lemma begin_task_ok:
  "calm ev \<Longrightarrow> begin_task C B ev s = (Some k, s') \<Longrightarrow> task_ok s k"
  by (cases ev)
    (auto simp: getOwnedActiveSession_def on_redis_def simp del: task_ok.simps
      split: sum.splits option.splits prod.splits if_splits
      dest!: getOwnedSession_okD start_guard_okD(1) intro: submit_task_found start_task_found)

lemma submit_keeps:
  assumes "core_inv s" and "task_ok s (SubmitTask ses a st l)"
  shows "core_inv (snd (scoreAndPersist C env ses a st l s)) \<and> rows_stay s (snd (scoreAndPersist C env ses a st l s))"
proof -
  let ?row = "new_attempt env ses a st l (scoreAnswers (es_exams s) (ts_examId ses) a)"
  have same: "same_session y ses" if "y \<in> set (es_sessions s)" "pk y = pk ses" for y
    using core_unique_session [OF assms(1) _ that] assms(2) by simp
  obtain y s1 where tx: "persist_tx env ses a st ?row s = (y, s1)" by (cases "persist_tx env ses a st ?row s")
  show ?thesis
  proof (cases y)
    case (Inl e)
    with tx have "persist_tx env ses a st ?row s = (Inl e, s1)" by simp
    then have "snd (scoreAndPersist C env ses a st l s) = s"
      using persist_tx_throws by (fastforce simp: scoreAndPersist_def Let_def bind_op_def)
    with assms(1) show ?thesis by simp
  next
    case (Inr u)
    with tx have tx': "persist_tx env ses a st ?row s = (Inr (), s1)" by simp
    from core_persist_tx [OF assms(1) tx' same] have core: "core_inv s1" by blast
    have stay: "rows_stay s s1"
      by (rule persist_tx_okD [OF tx']) (auto simp: rows_stay_def same_session_def)
    obtain r where r: "snd (on_redis (deleteSession C (pk ses) (now env)) s1) = s1\<lparr>es_redis := r\<rparr>"
      using on_redis_state [of "deleteSession C (pk ses) (now env)" s1] by blast
    have "snd (scoreAndPersist C env ses a st l s) = s1\<lparr>es_redis := r\<rparr>"
      using tx' r by (simp add: scoreAndPersist_def Let_def bind_op_ok)
    moreover have "rows_stay s (s1\<lparr>es_redis := r\<rparr>)" using stay by (simp add: rows_stay_def)
    ultimately show ?thesis using core by simp
  qed
qed

definition code_like :: "exam_access_code \<Rightarrow> exam_access_code \<Rightarrow> bool" where
  "code_like c c' \<longleftrightarrow> pk c' = pk c \<and> ac_userId c' = ac_userId c \<and> ac_examId c' = ac_examId c"

lemma codes_stay:
  assumes "\<And>c. code_like c (f c)" and "\<exists>c0 \<in> set t. code_like c c0"
  shows "\<exists>c' \<in> set (update_rows P f t). code_like c c'"
proof -
  from assms(2) obtain c0 where c0: "c0 \<in> set t" "code_like c c0" by blast
  have "(if P c0 then f c0 else c0) \<in> set (update_rows P f t)" using c0(1) by (simp add: set_update_rows)
  moreover have "code_like c (if P c0 then f c0 else c0)" using c0(2) assms(1) [of c0] by (simp add: code_like_def)
  ultimately show ?thesis by blast
qed

lemma code_like_simps [simp]: "code_like c (mark_code_used t c)" "code_like c (free_code t c)" "code_like c c"
  by (simp_all add: code_like_def)

lemma rows_stayI:
  "set (es_sessions s) \<subseteq> set (es_sessions s') \<Longrightarrow> (\<And>c. c \<in> set (es_codes s) \<Longrightarrow> \<exists>c' \<in> set (es_codes s'). code_like c c') \<Longrightarrow>
   rows_stay s s'"
  unfolding rows_stay_def code_like_def by (blast intro: same_session_refl)

lemma rows_stay_start:
  assumes "start_tx env u e c exam s = (Inr row, s')"
  shows "rows_stay s s'"
proof (rule rows_stayI)
  show "set (es_sessions s) \<subseteq> set (es_sessions s')" by (auto simp: start_tx_okD(2) [OF assms])
  show "\<exists>c' \<in> set (es_codes s'). code_like d c'" if "d \<in> set (es_codes s)" for d
    using codes_stay [of "mark_code_used (now env)" "es_codes s" d] that
    by (simp add: start_tx_okD(2) [OF assms]) (metis code_like_simps(3))
qed

lemma rows_stay_compensate:
  assumes "start_tx env u e c exam s = (Inr row, s1)"
  shows "rows_stay s (start_compensate t (pk row) (pk c) (s1\<lparr>es_redis := r\<rparr>))"
proof (rule rows_stayI)
  have s1: "s1 = s\<lparr>es_codes := update_rows (code_unused (pk c)) (mark_code_used (now env)) (es_codes s),
      es_sessions := es_sessions s @ [row]\<rparr>" and fresh: "pk row \<notin> pk ` set (es_sessions s)"
    using start_tx_okD(2,3) [OF assms] by auto
  have "delete_rows (\<lambda>x. pk x = pk row) (es_sessions s @ [row]) = es_sessions s"
    using fresh by (auto simp: delete_rows_def filter_id_conv image_iff)
  then show "set (es_sessions s) \<subseteq> set (es_sessions (start_compensate t (pk row) (pk c) (s1\<lparr>es_redis := r\<rparr>)))"
    by (simp add: s1 start_compensate_def)
  show "\<exists>c' \<in> set (es_codes (start_compensate t (pk row) (pk c) (s1\<lparr>es_redis := r\<rparr>))). code_like d c'"
    if "d \<in> set (es_codes s)" for d
  proof -
    have "\<exists>c' \<in> set (update_rows (code_unused (pk c)) (mark_code_used (now env)) (es_codes s)). code_like d c'"
      by (rule codes_stay) (use that in \<open>auto intro!: bexI [of _ d]\<close>)
    then have "\<exists>c' \<in> set (update_rows (\<lambda>x. pk x = pk c) (free_code t)
        (update_rows (code_unused (pk c)) (mark_code_used (now env)) (es_codes s))). code_like d c'"
      by (rule codes_stay [rotated]) simp
    then show ?thesis by (simp add: s1 start_compensate_def)
  qed
qed

lemma start_keeps:
  assumes "core_inv s" and "task_ok s (StartTask u e c exam)"
  shows "core_inv (commit_task C env (StartTask u e c exam) s) \<and> rows_stay s (commit_task C env (StartTask u e c exam) s)"
proof -
  obtain y s1 where tx: "start_tx env u e c exam s = (y, s1)" by (cases "start_tx env u e c exam s")
  show ?thesis
  proof (cases y)
    case (Inl err)
    with tx start_tx_throws [of env u e c exam s err s1] assms(1) show ?thesis by (simp add: bind_op_def)
  next
    case (Inr row)
    with tx have tx': "start_tx env u e c exam s = (Inr row, s1)" by simp
    have d: "distinct (map pk (es_codes s))" using assms(1) by (simp add: core_inv_def keys_ok_def)
    from assms(2) obtain c0 where c0: "c0 \<in> set (es_codes s)" "pk c0 = pk c" "ac_userId c0 = u" "ac_examId c0 = e"
      by auto
    have core: "core_inv s1"
      by (rule core_start_tx [OF assms(1) tx']) (use distinct_key_eq [OF d _ c0(1)] c0 in auto)
    let ?m = "start C (session_payload row u e c) (ts_durationSeconds row) (redisAt env)"
    obtain z r where m: "?m (es_redis s1) = (z, r)" by (cases "?m (es_redis s1)")
    have "core_inv (start_compensate (now env) (pk row) (pk c) (s1\<lparr>es_redis := r\<rparr>))"
      using core_compensate [of "s1\<lparr>es_redis := r\<rparr>" row "pk row" "pk c"] core start_tx_okD(1,2) [OF tx']
      by (simp add: closed_def)
    moreover have "rows_stay s (s1\<lparr>es_redis := r\<rparr>)" using rows_stay_start [OF tx'] by (simp add: rows_stay_def)
    ultimately show ?thesis
      using core rows_stay_compensate [OF tx'] m tx'
      by (cases z) (auto simp: bind_op_ok start_redis_def on_redis_def split: option.split sum.split)
  qed
qed

lemma commit_keeps:
  "core_inv s \<Longrightarrow> task_ok s k \<Longrightarrow> core_inv (commit_task C env k s) \<and> rows_stay s (commit_task C env k s)"
  using submit_keeps [of s _ _ _ _ C env] start_keeps [of s _ _ _ _ C env]
  by (cases k) (simp_all del: task_ok.simps(1,2) commit_task.simps(2))

lemma race_do_cases:
  obtains env n where "ev = Commit env n" | s k where "begin_task C B ev (rs_exam rs) = (k, s)"
    "race_do C B ev rs = rs\<lparr>rs_exam := s, rs_tasks := rs_tasks rs @ (case k of None \<Rightarrow> [] | Some t \<Rightarrow> [t])\<rparr>"
proof (cases "\<exists>env n. ev = Commit env n")
  case True
  then show thesis using that(1) by blast
next
  case False
  obtain k s where b: "begin_task C B ev (rs_exam rs) = (k, s)" by (cases "begin_task C B ev (rs_exam rs)")
  with False have "race_do C B ev rs = rs\<lparr>rs_exam := s, rs_tasks := rs_tasks rs @ (case k of None \<Rightarrow> [] | Some t \<Rightarrow> [t])\<rparr>"
    by (cases ev; cases k) (auto simp: race_do_def)
  with b show thesis by (rule that(2))
qed

lemma race_do_inv:
  assumes "race_inv rs" and "calm ev"
  shows "race_inv (race_do C B ev rs)"
proof (cases rule: race_do_cases [where ev = ev and C = C and B = B and rs = rs])
  case (1 env n)
  show ?thesis
  proof (cases "n < length (rs_tasks rs)")
    case True
    let ?k = "rs_tasks rs ! n"
    from assms(1) True have "core_inv (commit_task C env ?k (rs_exam rs))"
      and st: "rows_stay (rs_exam rs) (commit_task C env ?k (rs_exam rs))"
      using commit_keeps [of "rs_exam rs" ?k C env] by (auto simp: race_inv_def)
    moreover have "task_ok (commit_task C env ?k (rs_exam rs)) k"
      if "k \<in> set (take n (rs_tasks rs)) \<union> set (drop (Suc n) (rs_tasks rs))" for k
    proof -
      have "k \<in> set (rs_tasks rs)" using that by (auto dest: in_set_takeD in_set_dropD)
      then show ?thesis using assms(1) task_ok_stays [OF st] by (simp add: race_inv_def)
    qed
    ultimately have "race_inv (rs\<lparr>rs_exam := commit_task C env ?k (rs_exam rs),
        rs_tasks := take n (rs_tasks rs) @ drop (Suc n) (rs_tasks rs)\<rparr>)"
      unfolding race_inv_def by simp
    then show ?thesis using True by (simp add: race_do_def 1)
  qed (use assms 1 in \<open>simp add: race_do_def\<close>)
next
  case (2 s k)
  obtain r where s: "s = (rs_exam rs)\<lparr>es_redis := r\<rparr>"
    using begin_task_redis [of C B ev "rs_exam rs"] 2(1) by auto
  have stay: "rows_stay (rs_exam rs) s" unfolding s by simp
  have "task_ok s t" if "k = Some t" for t
    using task_ok_stays [OF stay begin_task_ok [OF assms(2)]] 2(1) that by simp
  then show ?thesis
    using assms(1) task_ok_stays [OF stay] unfolding 2(2)
    by (auto simp: race_inv_def s split: option.splits)
qed

inductive calm_step :: "'r exam_client \<Rightarrow> bcrypt_lib \<Rightarrow> 'r race_state \<Rightarrow> 'r race_state \<Rightarrow> bool" for C B where
  "calm ev \<Longrightarrow> calm_step C B rs (race_do C B ev rs)"

inductive_cases calm_stepE: "calm_step C B rs rs'"

interpretation race: guarded_system race_inv "calm_step C B" for C :: "'r exam_client" and B
  by unfold_locales (auto elim!: calm_stepE intro: race_do_inv)

lemma race_run_reachable:
  "list_all calm evs \<Longrightarrow> reachable_from (calm_step C B) rs (race_run C B evs rs)"
proof (induction evs arbitrary: rs)
  case Nil
  then show ?case by (simp add: race_run_def reachable_from.start)
next
  case (Cons ev evs)
  then have "reachable_from (calm_step C B) (race_do C B ev rs) (race_run C B evs (race_do C B ev rs))" by simp
  moreover have "reachable_from (calm_step C B) rs (race_do C B ev rs)"
    using Cons.prems by (intro reachable_from.extend [OF reachable_from.start]) (simp add: calm_step.intros)
  ultimately show ?case unfolding race_run_def by (simp add: reachable_from_trans)
qed

end
