(* ===== verification/ExamExamples.thy ===== *)
theory ExamExamples
  imports ExamLive ExamRace
begin

section \<open>A small exam\<close>

text \<open>
  Concrete rows on which the witnesses of the exam properties evaluate the model: one student, one
  certificate, two exams (the first with two questions of one and three marks), one unused access
  code, and a reachable Redis store. Hashing is the identity.
\<close>

definition plain_bcrypt :: bcrypt_lib where
  "plain_bcrypt = \<lparr>bc_hash = (\<lambda>_ _ p. p), bc_compare = (=)\<rparr>"

definition demo_option :: "uuid \<Rightarrow> uuid \<Rightarrow> bool \<Rightarrow> exam_question_option" where
  "demo_option i q b = \<lparr>pk = i, createdAt = 0, updatedAt = 0, o_questionId = q, o_optionText = i, o_isCorrect = b\<rparr>"

definition demo_question :: "uuid \<Rightarrow> int \<Rightarrow> int \<Rightarrow> exam_question" where
  "demo_question i p m = \<lparr>pk = i, createdAt = 0, updatedAt = 0, q_examId = ''e1'', q_questionText = i,
     q_questionType = MCQ, q_position = p, q_marks = m,
     q_options = [demo_option (i @ ''a'') i True, demo_option (i @ ''b'') i False]\<rparr>"

definition demo_exam :: "uuid \<Rightarrow> int \<Rightarrow> exam_status \<Rightarrow> exam" where
  "demo_exam i ord st = \<lparr>pk = i, createdAt = 0, updatedAt = 0, e_certId = ''c1'', e_title = i, e_examOrder = ord,
     e_status = st, e_passingScore = 80, e_durationMinutes = 30, e_createdById = None, e_translations = Map.empty,
     e_questions = [demo_question ''q1'' 1 1, demo_question ''q2'' 2 3]\<rparr>"

definition demo_code :: "uuid \<Rightarrow> string \<Rightarrow> exam_access_code" where
  "demo_code i h = \<lparr>pk = i, createdAt = 0, updatedAt = 0, ac_userId = ''u1'', ac_examId = ''e1'', ac_certId = ''c1'',
     ac_tokenHash = h, ac_expiresAt = 86400000, ac_usedAt = None\<rparr>"

type_synonym demo_redis = "exam_json redis_store"

definition demo_state :: "demo_redis exam_state" where
  "demo_state = \<lparr>es_users = [''u1''], es_certs = [''c1''], es_exams = [demo_exam ''e2'' 2 PUBLISHED, demo_exam ''e1'' 1 PUBLISHED, demo_exam ''e3'' 3 DRAFT],
     es_codes = [demo_code ''k1'' ''secret'', demo_code ''k2'' ''other''], es_attempts = [], es_sessions = [],
     es_redis = \<lparr>entries = [], online = True\<rparr>\<rparr>"

definition demo_env :: "instant \<Rightarrow> uuid \<Rightarrow> request_env" where
  "demo_env t i = \<lparr>now = t, salt = [], randomBytes = [1, 2], newId = i, redisAt = t,
     restoreFails = None, questionsFail = None\<rparr>"

definition demo_gateway :: gateway_state where
  "demo_gateway = \<lparr>gw_timers = Map.empty, gw_rooms = [], gw_emitted = []\<rparr>"

definition demo_world :: "demo_redis exam_world" where
  "demo_world = \<lparr>w_exam = demo_state, w_gateway = demo_gateway\<rparr>"

text \<open>After \<open>startExam\<close> at time 1000 the session \<open>s1\<close> is active until 1801000.\<close>

definition demo_started :: "demo_redis exam_state" where
  "demo_started = snd (startExam store_client plain_bcrypt (demo_env 1000 ''s1'') ''u1'' ''secret'' ''e1'' demo_state)"

definition demo_session :: test_session where
  "demo_session = \<lparr>pk = ''s1'', createdAt = 1000, updatedAt = 1000, ts_userId = ''u1'', ts_examId = ''e1'',
     ts_certId = Some ''c1'', ts_sessionToken = ''k1'', ts_startedAt = 1000, ts_durationSeconds = 1800,
     ts_expiresAt = 1801000, ts_status = ACTIVE, ts_submittedAt = None, ts_snapshot = None\<rparr>"

lemmas demo_defs = plain_bcrypt_def demo_option_def demo_question_def demo_exam_def demo_code_def demo_state_def
  demo_env_def demo_gateway_def demo_world_def

lemma demo_state_inv: "exam_inv demo_state"
  by (simp add: demo_state_def demo_code_def exam_inv_def core_inv_def inv_defs)

lemma demo_world_inv: "world_inv demo_world"
  by (simp add: world_inv_def demo_world_def demo_state_inv)

end
