(* ===== verification/ExamProperties.thy ===== *)
theory ExamProperties
  imports ExamExamples
begin

section \<open>Properties of the exam engine\<close>

text \<open>
  The claims about the exam engine with their witnesses, which evaluate the model on the small exam
  of \<open>ExamExamples\<close>. Claims that need the Redis server quantify over every client that satisfies
  the laws of \<open>exam_redis\<close>.
\<close>

subsection \<open>Reachable worlds\<close>

definition demo_submitted_world :: "demo_redis exam_world" where
  "demo_submitted_world =
     snd (on_exam (submitExam store_client (demo_env 5000 ''a1'') ''s1'' ''u1'' [(''q1'', ''q1a''), (''q2'', ''q2a'')])
       (snd (on_exam (startExam store_client plain_bcrypt (demo_env 1000 ''s1'') ''u1'' ''secret'' ''e1'') demo_world)))"

lemma demo_submitted_reachable:
  "reachable_from (exam_step store_client plain_bcrypt) demo_world demo_submitted_world"
  unfolding demo_submitted_world_def
  by (rule reachable_from.extend [OF reachable_from.extend [OF reachable_from.start]])
    (rule exam_step.start_exam exam_step.submit)+

text \<open>C1: In every world reached from one that satisfies the invariant, the attempts are exactly the
  records of the closed sessions: same student, exam, certificate, start and submission times,
  answers and way of submission, one attempt per closed session and no other attempt.\<close>

theorem attempts_match_closed_sessions:
  assumes "world_inv w" and "reachable_from (exam_step C B) w w'"
  shows "mset (map attempt_record (es_attempts (w_exam w'))) =
    mset (map session_record (filter closed (es_sessions (w_exam w'))))"
  using exams.reachable_invar [OF assms(2,1)]
  by (simp add: world_inv_def exam_inv_def core_inv_def ledger_ok_def)

theorem attempts_match_closed_sessions_witness:
  "length (es_attempts (w_exam demo_submitted_world)) = 1 \<and>
   mset (map attempt_record (es_attempts (w_exam demo_submitted_world))) =
     mset (map session_record (filter closed (es_sessions (w_exam demo_submitted_world))))"
proof
  show "length (es_attempts (w_exam demo_submitted_world)) = 1" by code_simp
  show "mset (map attempt_record (es_attempts (w_exam demo_submitted_world))) =
      mset (map session_record (filter closed (es_sessions (w_exam demo_submitted_world))))"
    by (rule attempts_match_closed_sessions [OF demo_world_inv demo_submitted_reachable])
qed

text \<open>C7: In every reachable world no two sessions were started with the same access code, and the code
  of every session is one of the student's codes for that exam and is marked used.\<close>

theorem code_starts_one_session:
  assumes "world_inv w" and "reachable_from (exam_step C B) w w'"
  shows "distinct (map ts_sessionToken (es_sessions (w_exam w'))) \<and>
    (\<forall>x \<in> set (es_sessions (w_exam w')). \<exists>c \<in> set (es_codes (w_exam w')). pk c = ts_sessionToken x \<and>
      ac_usedAt c \<noteq> None \<and> ac_userId c = ts_userId x \<and> ac_examId c = ts_examId x)"
  using exams.reachable_invar [OF assms(2,1)]
  by (auto simp: world_inv_def exam_inv_def core_inv_def codes_ok_def started_with_def)

theorem code_starts_one_session_witness:
  "es_sessions (w_exam demo_submitted_world) \<noteq> [] \<and> distinct (map ts_sessionToken (es_sessions (w_exam demo_submitted_world)))"
proof
  show "es_sessions (w_exam demo_submitted_world) \<noteq> []" by code_simp
  show "distinct (map ts_sessionToken (es_sessions (w_exam demo_submitted_world)))"
    using code_starts_one_session [OF demo_world_inv demo_submitted_reachable] by blast
qed

text \<open>C26: Requests that run one after the other never give a student two active sessions of the same
  exam.\<close>

theorem one_active_session:
  assumes "world_inv w" and "reachable_from (exam_step C B) w w'"
    and "x \<in> set (es_sessions (w_exam w'))" "y \<in> set (es_sessions (w_exam w'))"
    and "ts_status x = ACTIVE" "ts_status y = ACTIVE" "ts_userId x = ts_userId y" "ts_examId x = ts_examId y"
  shows "x = y"
proof -
  let ?act = "filter (\<lambda>x. ts_status x = ACTIVE) (es_sessions (w_exam w'))"
  have "distinct (map active_slot ?act)"
    using exams.reachable_invar [OF assms(2,1)] by (simp add: world_inv_def exam_inv_def one_active_def)
  then show ?thesis using assms(3-8) by (intro distinct_key_eq [of active_slot ?act]) (auto simp: active_slot_def)
qed

theorem one_active_session_witness:
  "\<exists>w. reachable_from (exam_step store_client plain_bcrypt) demo_world w \<and> es_sessions (w_exam w) \<noteq> [] \<and>
     set (es_sessions (w_exam w)) \<subseteq> {demo_session}"
proof -
  let ?w = "snd (on_exam (startExam store_client plain_bcrypt (demo_env 1000 ''s1'') ''u1'' ''secret'' ''e1'') demo_world)"
  have r: "reachable_from (exam_step store_client plain_bcrypt) demo_world ?w"
    by (rule reachable_from.extend [OF reachable_from.start]) (rule exam_step.start_exam)
  have s: "es_sessions (w_exam ?w) = [demo_session]" by code_simp
  then have "x = demo_session" if "x \<in> set (es_sessions (w_exam ?w))" for x
    by (intro one_active_session [OF demo_world_inv r that]) (use that in \<open>simp_all add: demo_session_def\<close>)
  then have "set (es_sessions (w_exam ?w)) \<subseteq> {demo_session}" by blast
  with r s show ?thesis by (intro exI [of _ ?w] conjI) simp_all
qed

text \<open>C11: A closed session and a recorded attempt are never changed or removed by any later operation,
  expiry event, socket message or timer run.\<close>

theorem closed_records_are_kept:
  assumes "world_inv w" and "reachable_from (exam_step C B) w w'" and "recorded w k"
  shows "recorded w' k"
  by (rule exams.reachable_closed [OF assms(2,1,3)])

theorem closed_records_are_kept_witness:
  "\<exists>k. recorded demo_submitted_world k \<and>
     recorded (snd (on_exam (autosaveExam store_client 6000 ''s1'' ''u1'' []) demo_submitted_world)) k"
proof -
  let ?x = "hd (es_sessions (w_exam demo_submitted_world))"
  have r: "recorded demo_submitted_world (Inl ?x)" by code_simp
  have inv: "world_inv demo_submitted_world"
    by (rule exams.reachable_invar [OF demo_submitted_reachable demo_world_inv])
  have "reachable_from (exam_step store_client plain_bcrypt) demo_submitted_world
      (snd (on_exam (autosaveExam store_client 6000 ''s1'' ''u1'' []) demo_submitted_world))"
    by (rule reachable_from.extend [OF reachable_from.start]) (rule exam_step.save)
  from closed_records_are_kept [OF inv this r] r show ?thesis by blast
qed

subsection \<open>Interleaved requests\<close>

text \<open>C2: Under every interleaving of starts, submits, late submits and automatic submits, with any
  delay between the reads and the write of a request, there is one attempt per closed session and one
  session per access code: of concurrent submissions of a session only one is recorded.\<close>

theorem interleaved_submissions_recorded_once:
  assumes "race_inv rs" and "list_all calm evs"
  shows "mset (map attempt_record (es_attempts (rs_exam (race_run C B evs rs)))) =
      mset (map session_record (filter closed (es_sessions (rs_exam (race_run C B evs rs))))) \<and>
    distinct (map ts_sessionToken (es_sessions (rs_exam (race_run C B evs rs))))"
  using race.reachable_invar [OF race_run_reachable [OF assms(2)] assms(1), of C B]
  by (simp add: race_inv_def core_inv_def ledger_ok_def codes_ok_def)

definition demo_double_submit :: "race_event list" where
  "demo_double_submit =
     [BeginStart 1000 ''u1'' ''secret'' ''e1'', Commit (demo_env 1000 ''s1'') 0,
      BeginSubmit ''s1'' ''u1'' [(''q1'', ''q1a'')], BeginSubmit ''s1'' ''u1'' [(''q2'', ''q2a'')], BeginAutoSubmit ''s1'',
      Commit (demo_env 5000 ''a1'') 1, Commit (demo_env 5001 ''a2'') 0, Commit (demo_env 5002 ''a3'') 0]"

definition demo_race :: "demo_redis race_state" where
  "demo_race = \<lparr>rs_exam = demo_state, rs_tasks = []\<rparr>"

theorem interleaved_submissions_recorded_once_witness:
  "let s = rs_exam (race_run store_client plain_bcrypt demo_double_submit demo_race) in
     map at_answers (es_attempts s) = [[(''q2'', ''q2a'')]] \<and> distinct (map ts_sessionToken (es_sessions s))"
proof -
  have "race_inv demo_race" using demo_state_inv by (simp add: race_inv_def demo_race_def exam_inv_def)
  moreover have "list_all calm demo_double_submit" by (simp add: demo_double_submit_def)
  ultimately have d: "distinct (map ts_sessionToken (es_sessions (rs_exam (race_run store_client plain_bcrypt demo_double_submit demo_race))))"
    using interleaved_submissions_recorded_once by blast
  have "map at_answers (es_attempts (rs_exam (race_run store_client plain_bcrypt demo_double_submit demo_race))) = [[(''q2'', ''q2a'')]]"
    by code_simp
  with d show ?thesis by (simp add: Let_def)
qed

definition expiry_overwrites_submit :: "race_event list" where
  "expiry_overwrites_submit =
     [BeginStart 1000 ''u1'' ''secret'' ''e1'', Commit (demo_env 1000 ''s1'') 0,
      BeginSubmit ''s1'' ''u1'' [(''q1'', ''q1b'')], BeginExpire ''s1'',
      Commit (demo_env 1801000 ''a1'') 0, Commit (demo_env 1801001 ''x'') 0,
      BeginLateSubmit 1801500 ''s1'' ''u1'' [(''q1'', ''q1a''), (''q2'', ''q2a'')], Commit (demo_env 1801500 ''a2'') 0]"

text \<open>An example of what the schedules with expiry allow. The expiry handler reads the status and then
  updates the row without repeating the check. When a submission is committed in between, the
  submitted session becomes expired with an open grace window, and a late submission records a second
  attempt for the same session.\<close>

lemma expiry_race_records_two_attempts:
  "let s = rs_exam (race_run store_client plain_bcrypt expiry_overwrites_submit demo_race) in
     map (\<lambda>a. (at_score a, at_passed a, at_lateFlag a)) (es_attempts s) = [(0, False, False), (100, True, True)] \<and>
     map pk (es_sessions s) = [''s1'']"
  by code_simp

definition double_start :: "race_event list" where
  "double_start =
     [BeginStart 1000 ''u1'' ''secret'' ''e1'', BeginStart 1000 ''u1'' ''other'' ''e1'',
      Commit (demo_env 1000 ''s1'') 0, Commit (demo_env 1000 ''s2'') 0]"

text \<open>The check for an active session is made before the transaction of \<open>startExam\<close>. Two concurrent
  starts with two codes of the same exam both pass it and leave the student with two active sessions
  of that exam.\<close>

theorem start_race_gives_two_active_sessions:
  "map (\<lambda>x. (pk x, active_slot x, ts_status x))
     (es_sessions (rs_exam (race_run store_client plain_bcrypt double_start demo_race))) =
   [(''s1'', (''u1'', ''e1''), ACTIVE), (''s2'', (''u1'', ''e1''), ACTIVE)]"
  by code_simp

text \<open>Of any sequence of transactions that claim access codes, exactly one succeeds for every code
  that is unused at the beginning and claimed at all, and none for a used code.\<close>

theorem access_code_claimed_once:
  "wins cid (fst (run_claims (claim_rows code_unused (mark_code_used t)) cids codes)) =
     (if (\<exists>c \<in> set codes. code_unused cid c) \<and> cid \<in> set cids then 1 else 0)"
  by (rule access_codes.wins_exact) simp

subsection \<open>Scoring\<close>

text \<open>C3: With non-negative marks whose total is positive and below 200, an exam is passed exactly when
  the marks of the correctly answered questions reach the passing percentage of the total: division,
  multiplication by 100 and rounding to two decimals in double precision never change the verdict.\<close>

theorem passed_iff_threshold_reached:
  assumes "find_one (\<lambda>e. pk e = examId) exams = Some exam" and "marks_ok (e_questions exam)"
    and "0 < total_marks (e_questions exam)" "total_marks (e_questions exam) < 200" and "exam_check exam"
  shows "s_passed (scoreAnswers exams examId a) \<longleftrightarrow>
    e_passingScore exam * total_marks (e_questions exam) \<le> 100 * earned_marks a (e_questions exam)"
proof -
  have "e_questions exam \<noteq> []" using assms(3) by (auto simp: total_marks_def)
  with percent_score_iff [OF marks_bounds(1,2) [OF assms(2)] assms(3,4)] assms(1,5)
  show ?thesis by (simp add: scoreAnswers_found exam_check_def)
qed

theorem passed_iff_threshold_reached_witness:
  "\<not> s_passed (scoreAnswers (es_exams demo_state) ''e1'' [(''q2'', ''q2a'')])"
proof -
  have "s_passed (scoreAnswers (es_exams demo_state) ''e1'' [(''q2'', ''q2a'')]) \<longleftrightarrow>
      e_passingScore (demo_exam ''e1'' 1 PUBLISHED) * total_marks (e_questions (demo_exam ''e1'' 1 PUBLISHED))
        \<le> 100 * earned_marks [(''q2'', ''q2a'')] (e_questions (demo_exam ''e1'' 1 PUBLISHED))"
    by (rule passed_iff_threshold_reached) (simp_all add: find_one_def demo_defs marks_ok_def total_marks_def exam_check_def)
  then show ?thesis
    by (simp add: demo_defs total_marks_def earned_marks_def answered_correctly_def selected_option_def find_one_def)
qed

text \<open>The score of any answers, also of answers to unknown questions or options, is between 0 and
  100, never counts more correct answers than questions, and is 100 when every question of an exam
  with positive marks is answered correctly.\<close>

theorem score_is_a_percentage:
  assumes "\<forall>e \<in> set exams. marks_ok (e_questions e)"
  shows "0 \<le> s_score (scoreAnswers exams examId a) \<and> s_score (scoreAnswers exams examId a) \<le> 100 \<and>
    s_correctCount (scoreAnswers exams examId a) \<le> s_totalCount (scoreAnswers exams examId a) \<and>
    (\<forall>exam. find_one (\<lambda>e. pk e = examId) exams = Some exam \<longrightarrow> 0 < total_marks (e_questions exam) \<longrightarrow>
       (\<forall>q \<in> set (e_questions exam). answered_correctly a q) \<longrightarrow> s_score (scoreAnswers exams examId a) = 100)"
proof (intro conjI allI impI)
  show "0 \<le> s_score (scoreAnswers exams examId a)" "s_score (scoreAnswers exams examId a) \<le> 100"
    using score_range [OF assms] by auto
  show "s_correctCount (scoreAnswers exams examId a) \<le> s_totalCount (scoreAnswers exams examId a)"
    by (rule correct_le_total)
  fix exam
  assume e: "find_one (\<lambda>e. pk e = examId) exams = Some exam" "0 < total_marks (e_questions exam)"
    and all: "\<forall>q \<in> set (e_questions exam). answered_correctly a q"
  then have "earned_marks a (e_questions exam) = total_marks (e_questions exam)" "e_questions exam \<noteq> []"
    by (auto simp: earned_marks_def total_marks_def)
  with e show "s_score (scoreAnswers exams examId a) = 100" by (simp add: scoreAnswers_found percent_score_all)
qed

theorem score_is_a_percentage_witness:
  "s_score (scoreAnswers (es_exams demo_state) ''e1'' [(''q2'', ''q2a''), (''zz'', ''q1a'')]) \<le> 100"
proof -
  have "\<forall>e \<in> set (es_exams demo_state). marks_ok (e_questions e)" by (simp add: demo_defs marks_ok_def)
  from score_is_a_percentage [OF this] show ?thesis by blast
qed

subsection \<open>Access to an exam\<close>

text \<open>C38: An assignment by exam id succeeds only for a published exam of the given certificate, and a
  start only for a published exam with an unused, unexpired code of this student for this exam whose
  hash matches: a draft exam can be neither assigned nor sat.\<close>

theorem only_published_exams_are_sat:
  "(\<forall>r s'. assignExam B env u e c s = (Inr r, s') \<longrightarrow>
      (\<exists>exam \<in> set (es_exams s). pk exam = e \<and> e_certId exam = c \<and> e_status exam = PUBLISHED)) \<and>
   (\<forall>r s'. startExam C B env u code e s = (Inr r, s') \<longrightarrow>
      (\<exists>exam \<in> set (es_exams s). \<exists>k \<in> set (es_codes s). pk exam = e \<and> e_status exam = PUBLISHED \<and>
         ac_userId k = u \<and> ac_examId k = e \<and> ac_usedAt k = None \<and> now env \<le> ac_expiresAt k \<and>
         bc_compare B code (ac_tokenHash k)))"
proof (intro conjI allI impI)
  fix r s'
  assume "assignExam B env u e c s = (Inr r, s')"
  then show "\<exists>exam \<in> set (es_exams s). pk exam = e \<and> e_certId exam = c \<and> e_status exam = PUBLISHED"
    by (auto dest!: assignExam_okD find_exam_SomeD)
next
  fix r s'
  assume "startExam C B env u code e s = (Inr r, s')"
  from startExam_okD [OF this] obtain k exam where "findAndVerifyCode B (now env) u code e s = Inr (k, exam)" by blast
  from findAndVerifyCode_okD [OF this]
  show "\<exists>exam \<in> set (es_exams s). \<exists>k \<in> set (es_codes s). pk exam = e \<and> e_status exam = PUBLISHED \<and>
         ac_userId k = u \<and> ac_examId k = e \<and> ac_usedAt k = None \<and> now env \<le> ac_expiresAt k \<and>
         bc_compare B code (ac_tokenHash k)" by blast
qed

theorem only_published_exams_are_sat_witness:
  "\<exists>exam \<in> set (es_exams demo_state). pk exam = ''e1'' \<and> e_status exam = PUBLISHED"
proof -
  let ?r = "\<lparr>ic_plainCode = ''0102'', ic_expiresAt = 86400001, ic_examId = ''e1''\<rparr>"
  have "fst (assignExam plain_bcrypt (demo_env 1 ''k9'') ''u1'' ''e1'' ''c1'' demo_state) = Inr ?r" by code_simp
  then obtain s' where "assignExam plain_bcrypt (demo_env 1 ''k9'') ''u1'' ''e1'' ''c1'' demo_state = (Inr ?r, s')"
    by (metis prod.collapse)
  with only_published_exams_are_sat [of plain_bcrypt "demo_env 1 ''k9''" "''u1''" "''e1''" "''c1''" demo_state store_client]
  show ?thesis by blast
qed

text \<open>C39: Automatic assignment chooses a published exam of the certificate that the student has no
  attempt for, with the lowest order among those, and issues a fresh unused code for it that expires
  24 hours later.\<close>

theorem next_exam_is_lowest_unattempted:
  assumes "assignNextExam B env u c s = (Inr (r, ord, title), s')" and "u \<noteq> []"
  shows "\<exists>nx \<in> set (es_exams s). pk nx = ic_examId r \<and> e_examOrder nx = ord \<and> e_title nx = title \<and>
    e_certId nx = c \<and> e_status nx = PUBLISHED \<and>
    (\<forall>a \<in> set (es_attempts s). at_userId a = u \<and> at_certId a = c \<longrightarrow> at_examId a \<noteq> pk nx) \<and>
    (\<forall>e \<in> set (es_exams s). e_certId e = c \<and> e_status e = PUBLISHED \<and> e_examOrder e < ord \<longrightarrow>
       (\<exists>a \<in> set (es_attempts s). at_userId a = u \<and> at_certId a = c \<and> at_examId a = pk e)) \<and>
    (\<exists>k. es_codes s' = es_codes s @ [k] \<and> ac_userId k = u \<and> ac_examId k = pk nx \<and> ac_usedAt k = None \<and>
       ac_expiresAt k = now env + 24 * 60 * 60 * 1000)"
proof -
  from assignNextExam_okD [OF assms(1)] obtain nx where
    f: "find_one (\<lambda>e. pk e \<notin> getAttemptedExamIds u c s) (exam_pool c s) = Some nx"
    and i: "issueAccessCode B env u nx s = (Inr r, s')" and o: "ord = e_examOrder nx" "title = e_title nx" by blast
  note ids = attempted_ids [OF assms(2), of c s]
  note n = next_exam_least [OF f]
  have att: "\<forall>a \<in> set (es_attempts s). at_userId a = u \<and> at_certId a = c \<longrightarrow> at_examId a \<noteq> pk nx"
    using n(4) by (auto simp: ids)
  have low: "\<exists>a \<in> set (es_attempts s). at_userId a = u \<and> at_certId a = c \<and> at_examId a = pk e"
    if "e \<in> set (es_exams s)" "e_certId e = c" "e_status e = PUBLISHED" "e_examOrder e < ord" for e
    using n(5) [OF that(1-3)] that(4) by (fastforce simp: ids o(1))
  show ?thesis
    using n(1-3) o issue_okD [OF i] att low by (intro bexI [of _ "nx"]) (auto simp: ACCESS_CODE_TTL_MS_def)
qed

theorem next_exam_is_lowest_unattempted_witness:
  "\<exists>nx \<in> set (es_exams demo_state). pk nx = ''e1'' \<and> e_examOrder nx = 1 \<and> e_status nx = PUBLISHED"
proof -
  let ?s = "demo_state\<lparr>es_codes := []\<rparr>"
  let ?r = "\<lparr>ic_plainCode = ''0102'', ic_expiresAt = 86400001, ic_examId = ''e1''\<rparr>"
  have "fst (assignNextExam plain_bcrypt (demo_env 1 ''k9'') ''u1'' ''c1'' ?s) = Inr (?r, 1, ''e1'')" by code_simp
  then obtain s' where "assignNextExam plain_bcrypt (demo_env 1 ''k9'') ''u1'' ''c1'' ?s = (Inr (?r, 1, ''e1''), s')"
    by (metis prod.collapse)
  from next_exam_is_lowest_unattempted [OF this] show ?thesis by auto
qed

subsection \<open>Starting\<close>

text \<open>C36: What a student receives when starting an exam does not depend on which options are correct: with
  every \<open>isCorrect\<close> flag of every exam cleared the response is the same.\<close>

theorem start_response_hides_answers:
  "fst (controller_startExam C B env u code e (s\<lparr>es_exams := map hide_answers (es_exams s)\<rparr>)) =
   fst (controller_startExam C B env u code e s)"
  by (rule start_response_hidden)

text \<open>C9: A start that fails leaves the sessions, the attempts and, but for the update time of the freed
  code, the access codes as they were: when a check fails, when the transaction fails, and when Redis
  refuses the key and the compensating transaction is committed. The only failures that leave anything
  are two: the compensating transaction throws, or the query for the questions throws after Redis has
  taken the key. Then the caller gets that error, the new session stays active and the code stays
  used.\<close>

theorem failed_start_is_undone:
  assumes "exam_inv s" and "startExam C B env u code e s = (Inl err, s')"
  shows "es_sessions s' = es_sessions s \<and> map untimed (es_codes s') = map untimed (es_codes s) \<and>
      es_attempts s' = es_attempts s \<or>
    (restoreFails env = Some err \<or> questionsFail env = Some err) \<and>
      (\<exists>c exam. findAndVerifyCode B (now env) u code e s = Inr (c, exam) \<and>
         es_sessions s' = es_sessions s @ [new_session env u e c exam] \<and>
         es_codes s' = update_rows (code_unused (pk c)) (mark_code_used (now env)) (es_codes s) \<and>
         es_attempts s' = es_attempts s)"
  using failed_start_cases [OF assms] by (simp add: start_left_def)

text \<open>Redis is down after the guard has passed; the compensation is committed, or its connection is lost.\<close>

theorem failed_start_is_undone_witness:
  "let s = demo_state\<lparr>es_redis := \<lparr>entries = [], online = False\<rparr>\<rparr>; lost = DatabaseError ''connection lost'';
       s' = snd (startExam store_client plain_bcrypt (demo_env 1000 ''s1'') ''u1'' ''secret'' ''e1'' s);
       s'' = snd (startExam store_client plain_bcrypt (demo_env 1000 ''s1''\<lparr>restoreFails := Some lost\<rparr>) ''u1'' ''secret'' ''e1'' s)
   in es_sessions s' = [] \<and> map updatedAt (es_codes s') = [1000, 0] \<and> map untimed (es_codes s') = map untimed (es_codes s) \<and>
      map ts_status (es_sessions s'') = [ACTIVE] \<and> map ac_usedAt (es_codes s'') = [Some 1000, None]"
proof -
  let ?s = "demo_state\<lparr>es_redis := \<lparr>entries = [], online = False\<rparr>\<rparr>"
  let ?run = "startExam store_client plain_bcrypt (demo_env 1000 ''s1'') ''u1'' ''secret'' ''e1'' ?s"
  let ?run' = "startExam store_client plain_bcrypt (demo_env 1000 ''s1''\<lparr>restoreFails := Some (DatabaseError ''connection lost'')\<rparr>)
     ''u1'' ''secret'' ''e1'' ?s"
  have "fst ?run = Inl (RedisError ''connection is closed'')" by code_simp
  then have r: "?run = (Inl (RedisError ''connection is closed''), snd ?run)" by (metis prod.collapse)
  have "exam_inv ?s" using demo_state_inv by simp
  from failed_start_is_undone [OF this r] have "es_sessions (snd ?run) = es_sessions ?s"
    "map untimed (es_codes (snd ?run)) = map untimed (es_codes ?s)" by (auto simp: demo_env_def)
  moreover have "map updatedAt (es_codes (snd ?run)) = [1000, 0]" by code_simp
  moreover have "map ts_status (es_sessions (snd ?run')) = [ACTIVE]" by code_simp
  moreover have "map ac_usedAt (es_codes (snd ?run')) = [Some 1000, None]" by code_simp
  ultimately show ?thesis by (simp add: Let_def) (simp add: demo_state_def)
qed



subsection \<open>Autosave and status\<close>

text \<open>C35: An autosave that succeeds belongs to the owner of an active session, changes the remaining time
  of no key, and stores exactly the given answers both in Redis and in the session's snapshot.\<close>

theorem autosave_keeps_the_clock:
  assumes "exam_redis C view up" and "autosaveExam C t sid u a s = (Inr (), s')"
  shows "(\<forall>k. remaining t (view (es_redis s') t k) = remaining t (view (es_redis s) t k)) \<and>
    (\<exists>ses. find_session sid s = Some ses \<and> ts_userId ses = u \<and> ts_status ses = ACTIVE) \<and>
    (\<exists>ses. find_session sid s' = Some ses \<and> ts_snapshot ses = Some a) \<and>
    (\<exists>d dl. view (es_redis s') t (EXAM_SESSION_PREFIX @ sid) = Some (Json (SessionJson d), dl) \<and> xs_answers d = a)"
  using exam_redis.autosaveExam_keeps_deadlines [OF assms] exam_redis.autosaveExam_mirrors [OF assms] by blast

theorem autosave_keeps_the_clock_witness:
  "remaining 601000 (live_at (es_redis (snd (autosaveExam store_client 601000 ''s1'' ''u1'' [(''q1'', ''q1a'')] demo_started)))
     601000 (EXAM_SESSION_PREFIX @ ''s1'')) = 1200000"
proof -
  let ?run = "autosaveExam store_client 601000 ''s1'' ''u1'' [(''q1'', ''q1a'')] demo_started"
  have "fst ?run = Inr ()" by code_simp
  then have "?run = (Inr (), snd ?run)" by (metis prod.collapse)
  from autosave_keeps_the_clock [OF xstore.exam_redis_axioms this]
  have "remaining 601000 (live_at (es_redis (snd ?run)) 601000 (EXAM_SESSION_PREFIX @ ''s1'')) =
      remaining 601000 (live_at (es_redis demo_started) 601000 (EXAM_SESSION_PREFIX @ ''s1''))" by blast
  also have "\<dots> = 1200000" by code_simp
  finally show ?thesis .
qed

text \<open>While a session's key is live, the status request of its owner reports the remaining time in
  seconds, rounded up: with \<open>n\<close> whole seconds and a rest to go it reports \<open>n + 1\<close>, and the answers
  of the last autosave.\<close>

theorem status_reports_remaining_seconds:
  assumes "exam_redis C view up" and "up (es_redis s)" and "find_session sid s = Some ses" and "ts_userId ses = u"
    and "view (es_redis s) t (EXAM_SESSION_PREFIX @ sid) = Some (Json (SessionJson d), Some dl)" and "dl - t \<le> 10 ^ 12"
  shows "fst (getSessionStatus C t sid u s) =
    Inr \<lparr>st_sessionId = sid, st_remainingSeconds = (dl - t + 999) div 1000, st_answers = xs_answers d, st_status = ts_status ses\<rparr>"
proof -
  have "t < dl"
    using assms(5) exam_redis.axioms [OF assms(1)] redis_server.deadline_ahead by metis
  then have "remaining_seconds (dl - t) = (dl - t + 999) div 1000" using assms(6) by (intro ceil_seconds) auto
  with exam_redis.status_up [OF assms(1-5)] show ?thesis by simp
qed

theorem status_reports_remaining_seconds_witness:
  "map_sum id st_remainingSeconds (fst (getSessionStatus store_client 1799001 ''s1'' ''u1'' demo_started)) = Inr 2"
proof -
  let ?d = "\<lparr>xs_sessionId = ''s1'', xs_userId = ''u1'', xs_examId = ''e1'', xs_certId = ''c1'', xs_startedAt = 1000, xs_answers = []\<rparr>"
  have o: "online (es_redis demo_started)" by code_simp
  have f: "find_session ''s1'' demo_started = Some demo_session" by code_simp
  have u: "ts_userId demo_session = ''u1''" by (simp add: demo_session_def)
  have v: "live_at (es_redis demo_started) 1799001 (EXAM_SESSION_PREFIX @ ''s1'') = Some (Json (SessionJson ?d), Some 1801000)"
    by code_simp
  from status_reports_remaining_seconds [OF xstore.exam_redis_axioms o f u v] show ?thesis by simp
qed

subsection \<open>Submitting\<close>

text \<open>C29: While Redis answers, the owner of an active session can submit at any time, also after the
  deadline as long as the expiry event was not handled: the submission returns the score of the
  answers, records one attempt that is not late with exactly these answers, and removes the session's
  key. Beside Redis it needs what the rows must have: the student and the certificate that the session
  resolves to exist, the marks are not negative and the new attempt's key is fresh.\<close>

theorem owner_can_submit:
  assumes "exam_redis C view up" and "exam_inv s" and "find_session sid s = Some ses" and "ts_status ses = ACTIVE"
    and "ts_userId ses = u" "u \<noteq> []" "u \<in> set (es_users s)" "resolveCertId ses \<in> set (es_certs s)"
    and "\<forall>e \<in> set (es_exams s). marks_ok (e_questions e)" "newId env \<notin> pk ` set (es_attempts s)"
    and "up (es_redis s)"
  shows "\<exists>s' row. submitExam C env sid u a s = (Inr (scoreAnswers (es_exams s) (ts_examId ses) a), s') \<and>
    es_attempts s' = es_attempts s @ [row] \<and> at_answers row = a \<and> \<not> at_lateFlag row \<and> at_submittedAt row = now env \<and>
    view (es_redis s') (now env) (EXAM_SESSION_PREFIX @ sid) = None"
proof -
  let ?r = "scoreAnswers (es_exams s) (ts_examId ses) a"
  have "\<not> closed ses" using assms(4) by (simp add: closed_def)
  with persist_succeeds [OF assms(2,3) this _ _ assms(8-10)] assms(5-7) obtain s1 where
    tx: "persist_tx env ses a ATTEMPT_SUBMITTED (new_attempt env ses a ATTEMPT_SUBMITTED False ?r) s = (Inr (), s1)"
    and red: "es_redis s1 = es_redis s" by blast
  have pk: "pk ses = sid" using find_session_SomeD [OF assms(3)] by blast
  obtain y q where m: "deleteSession C sid (now env) (es_redis s) = (y, q)"
    by (cases "deleteSession C sid (now env) (es_redis s)")
  from assms(1,11) have "fst (deleteSession C sid (now env) (es_redis s)) = Inr ()"
    using redis_server.del_up [OF exam_redis.axioms] by (simp add: deleteSession_def del_def)
  with m have d: "deleteSession C sid (now env) (es_redis s) = (Inr (), q)" by simp
  have "submitExam C env sid u a s = (Inr ?r, s1\<lparr>es_redis := q\<rparr>)"
    using tx assms(3-5) d red
    by (simp add: submitExam_def getOwnedActiveSession_def getOwnedSession_def scoreAndPersist_def Let_def bind_op_def
        on_redis_def pk)
  moreover have "es_attempts s1 = es_attempts s @ [new_attempt env ses a ATTEMPT_SUBMITTED False ?r]"
    by (rule persist_tx_okD [OF tx]) simp
  moreover have "view q (now env) (EXAM_SESSION_PREFIX @ sid) = None"
    using exam_redis.deleteSession_view [OF assms(1) d] by simp
  moreover have "at_answers (new_attempt env ses a ATTEMPT_SUBMITTED False ?r) = a"
    "\<not> at_lateFlag (new_attempt env ses a ATTEMPT_SUBMITTED False ?r)"
    "at_submittedAt (new_attempt env ses a ATTEMPT_SUBMITTED False ?r) = now env"
    by (simp_all add: new_attempt_def)
  ultimately show ?thesis
    by (intro exI [of _ "s1\<lparr>es_redis := q\<rparr>"] exI [of _ "new_attempt env ses a ATTEMPT_SUBMITTED False ?r"]) simp
qed

text \<open>Half an hour after the deadline, with the key already gone from Redis.\<close>

theorem owner_can_submit_witness:
  "\<exists>row. es_attempts (snd (submitExam store_client (demo_env 3601000 ''a1'') ''s1'' ''u1'' [(''q1'', ''q1a'')] demo_started)) = [row] \<and>
     \<not> at_lateFlag row \<and> ts_expiresAt demo_session < at_submittedAt row"
proof -
  have inv: "exam_inv demo_started"
    unfolding demo_started_def by (rule inv.keeps_startExam [OF demo_state_inv])
  have f: "find_session ''s1'' demo_started = Some demo_session" by code_simp
  have st: "ts_status demo_session = ACTIVE" "ts_userId demo_session = ''u1''" by (simp_all add: demo_session_def)
  have p: "''u1'' \<in> set (es_users demo_started)" "resolveCertId demo_session \<in> set (es_certs demo_started)" by code_simp+
  have mk: "\<forall>e \<in> set (es_exams demo_started). marks_ok (e_questions e)" unfolding marks_ok_def by code_simp
  have new: "newId (demo_env 3601000 ''a1'') \<notin> pk ` set (es_attempts demo_started)" by code_simp
  have o: "online (es_redis demo_started)" by code_simp
  have e: "es_attempts demo_started = []" by code_simp
  from owner_can_submit [OF xstore.exam_redis_axioms inv f st _ p mk new o, of "[(''q1'', ''q1a'')]"] e
  show ?thesis by (auto simp: demo_env_def demo_session_def)
qed


definition demo_expired :: "demo_redis exam_world" where
  "demo_expired = snd (on_expired_message store_client (demo_env 1801000 ''x'') (EXAM_SESSION_PREFIX @ ''s1'')
     (demo_world\<lparr>w_exam := snd (autosaveExam store_client 2000 ''s1'' ''u1'' [(''q1'', ''q1a'')] demo_started)\<rparr>))"


text \<open>C28: When the expiry of an active session is handled at time \<open>t\<close>, the session's last snapshot is kept
  for a late submission exactly until 120 seconds later; from then on every late submission of the
  session is refused.\<close>

theorem grace_window_is_two_minutes:
  assumes "exam_redis C view up" and "handleSessionExpiry C t sid w = (Inr (), w')"
    and "find_session sid (w_exam w) = Some ses" and "ts_status ses = ACTIVE" and "t \<le> now env"
  shows "grace_entry (view (es_redis (w_exam w')) (now env) (EXAM_GRACE_PREFIX @ sid)) =
      (if now env < t + 120000 then Some (case ts_snapshot ses of Some a \<Rightarrow> a | None \<Rightarrow> [], Some (t + 120000)) else None) \<and>
    (t + 120000 \<le> now env \<and> up (es_redis (w_exam w')) \<longrightarrow>
       (\<exists>e. fst (lateSubmitExam C env sid u a (w_exam w')) = Inl e))"
proof
  show g: "grace_entry (view (es_redis (w_exam w')) (now env) (EXAM_GRACE_PREFIX @ sid)) =
      (if now env < t + 120000 then Some (case ts_snapshot ses of Some a \<Rightarrow> a | None \<Rightarrow> [], Some (t + 120000)) else None)"
    by (rule exam_redis.expiry_opens_grace [OF assms])
  then show "t + 120000 \<le> now env \<and> up (es_redis (w_exam w')) \<longrightarrow>
       (\<exists>e. fst (lateSubmitExam C env sid u a (w_exam w')) = Inl e)"
    using exam_redis.late_submit_closed [OF assms(1)] by auto
qed

theorem grace_window_is_two_minutes_witness:
  "\<exists>e. fst (lateSubmitExam store_client (demo_env 1921000 ''a1'') ''s1'' ''u1'' [(''q1'', ''q1a'')] (w_exam
     (snd (handleSessionExpiry store_client 1801000 ''s1'' (demo_world\<lparr>w_exam := demo_started\<rparr>))))) = Inl e"
proof -
  let ?w = "demo_world\<lparr>w_exam := demo_started\<rparr>"
  let ?run = "handleSessionExpiry store_client 1801000 ''s1'' ?w"
  have "fst ?run = Inr ()" by code_simp
  then have r: "?run = (Inr (), snd ?run)" by (metis prod.collapse)
  have f: "find_session ''s1'' (w_exam ?w) = Some demo_session" by code_simp
  have o: "online (es_redis (w_exam (snd ?run)))" by code_simp
  have st: "ts_status demo_session = ACTIVE" by (simp add: demo_session_def)
  from grace_window_is_two_minutes [OF xstore.exam_redis_axioms r f st, of "demo_env 1921000 ''a1''"] o show ?thesis
    by (simp add: demo_env_def)
qed

text \<open>A session without a certificate, as written before the migration that added the column, can
  never be submitted: the fallback to the exam's id violates the foreign key of the attempt, every
  submission throws and leaves the state as it was.\<close>

theorem sessions_without_certificate_are_stuck:
  assumes "find_session sid s = Some ses" and "ts_certId ses = None" and "ts_examId ses \<notin> set (es_certs s)"
  shows "\<exists>e. submitExam C env sid u a s = (Inl e, s)"
  using assms no_certificate_no_attempt [of ses s C env a ATTEMPT_SUBMITTED False]
  by (auto simp: submitExam_def getOwnedActiveSession_def getOwnedSession_def resolveCertId_def)

theorem sessions_without_certificate_are_stuck_witness:
  "\<exists>e. submitExam store_client (demo_env 2000 ''a1'') ''s1'' ''u1'' []
     (demo_state\<lparr>es_sessions := [demo_session\<lparr>ts_certId := None\<rparr>]\<rparr>) =
     (Inl e, demo_state\<lparr>es_sessions := [demo_session\<lparr>ts_certId := None\<rparr>]\<rparr>)"
  by (rule sessions_without_certificate_are_stuck [where ses = "demo_session\<lparr>ts_certId := None\<rparr>"])
    (simp_all add: find_session_def find_one_def demo_session_def demo_state_def demo_exam_def)

subsection \<open>Expiry events and warnings\<close>

text \<open>The key under which a session is stored, and the key of its grace window, lead back to that session
  when Redis announces their expiry, and keys of other families are ignored.\<close>

theorem expired_keys_find_their_session:
  "on_expired_message C env (EXAM_SESSION_PREFIX @ sid) w = handleSessionExpiry C (now env) sid w \<and>
   on_expired_message C env (EXAM_GRACE_PREFIX @ sid) w = handleGraceExpiry C env sid w \<and>
   (\<not> prefix EXAM_SESSION_PREFIX key \<and> \<not> prefix EXAM_GRACE_PREFIX key \<longrightarrow> on_expired_message C env key w = (Inr (), w))"
  by (simp add: on_expired_message_def keyspace_event_session keyspace_event_grace) (simp add: keyspace_event_def)

theorem expired_keys_find_their_session_witness:
  "on_expired_message store_client (demo_env 5 ''x'') ''socket.io#/exam'' demo_world = (Inr (), demo_world)"
  using expired_keys_find_their_session [of store_client "demo_env 5 ''x''" "[]" demo_world "''socket.io#/exam''"]
  by (simp add: EXAM_SESSION_PREFIX_def EXAM_GRACE_PREFIX_def)

text \<open>However often the callback of a session's timer runs, at whatever times and whatever Redis answers,
  it emits at most one warning for each threshold, and none for a threshold it has warned about.\<close>

theorem warned_at_most_once:
  "warning_count sid th (run_ticks C sid ts w) + warnings_left sid th (run_ticks C sid ts w)
     \<le> warning_count sid th w + warnings_left sid th w \<and> warnings_left sid th w \<le> 1"
proof
  show "warnings_left sid th w \<le> 1" by (simp add: warnings_left_def split: option.split)
qed (rule ticks_warnings)


text \<open>C20: The interval timer of a session ends by itself. While Redis answers and the session's key keeps its
  deadline, exactly one tick is emitted for every full interval that ends before the deadline; the
  first callback at or after the deadline removes the timer, and nothing is emitted afterwards.\<close>

theorem timer_stops:
  assumes "exam_redis C view up" and "up (es_redis (w_exam w))" and "gw_timers (w_gateway w) sid \<noteq> None"
    and "view (es_redis (w_exam w)) t0 (EXAM_SESSION_PREFIX @ sid) = Some (v, Some d)"
  shows "(gw_timers (w_gateway (run_ticks C sid (tick_times t0 n) w)) sid = None \<longleftrightarrow>
      nat ((d - t0 - 1) div TICK_INTERVAL_MS) < n) \<and>
    tick_count sid (run_ticks C sid (tick_times t0 n) w) = tick_count sid w + min n (nat ((d - t0 - 1) div TICK_INTERVAL_MS))"
  using exam_redis.ticks_until_deadline [OF assms, of n] by blast

text \<open>The demo session, joined at its start: after 60 callbacks the timer is gone and 59 ticks were emitted.\<close>

definition demo_joined_world :: "demo_redis exam_world" where
  "demo_joined_world = \<lparr>w_exam = demo_started, w_gateway = startTimer ''s1'' demo_gateway\<rparr>"

theorem timer_stops_witness:
  "gw_timers (w_gateway (run_ticks store_client ''s1'' (tick_times 1000 60) demo_joined_world)) ''s1'' = None \<and>
   tick_count ''s1'' (run_ticks store_client ''s1'' (tick_times 1000 60) demo_joined_world) = 59"
proof -
  have up: "online (es_redis (w_exam demo_joined_world))" by code_simp
  have timer: "gw_timers (w_gateway demo_joined_world) ''s1'' \<noteq> None"
    by (simp add: demo_joined_world_def startTimer_def)
  have "map_option snd (live_at (es_redis (w_exam demo_joined_world)) 1000 (EXAM_SESSION_PREFIX @ ''s1'')) = Some (Some 1801000)"
    by code_simp
  then obtain v where "live_at (es_redis (w_exam demo_joined_world)) 1000 (EXAM_SESSION_PREFIX @ ''s1'') = Some (v, Some 1801000)"
    by (cases "live_at (es_redis (w_exam demo_joined_world)) 1000 (EXAM_SESSION_PREFIX @ ''s1'')") auto
  from timer_stops [OF xstore.exam_redis_axioms up timer this, of 60] show ?thesis
    by (simp add: TICK_INTERVAL_MS_def tick_count_def demo_joined_world_def startTimer_def demo_gateway_def)
qed

end
