(* ===== verification/Mail.thy ===== *)
theory Mail
  imports Prelude JsString
begin

section \<open>Mail (modules/mail: template.renderer.ts, mail.service.ts)\<close>

text \<open>
  The template renderer, with its three regular expressions as scanners, and the builders and the
  sender of \<open>MailService\<close>. The template files and the current year are arguments. \<open>escapeHtml\<close> is
  modelled as the chain of replacements of the code; the lemmas show that it is one pass over the
  characters, that its output has no markup character, and that it can be undone.
\<close>

subsection \<open>Values and truthiness\<close>

datatype template_value = TStr string | TNum int | TBool bool | TUndefined

type_synonym template_vars = "(string \<times> template_value) list"

text \<open>The object spread \<open>{...a, ...b}\<close>: later entries win.\<close>

definition lookup_var :: "template_vars \<Rightarrow> string \<Rightarrow> template_value" where
  "lookup_var vars k = (case map_of (rev vars) k of None \<Rightarrow> TUndefined | Some v \<Rightarrow> v)"

fun isTruthy :: "template_value \<Rightarrow> bool" where
  "isTruthy TUndefined = False"
| "isTruthy (TBool b) = b"
| "isTruthy (TNum n) = (n \<noteq> 0)"
| "isTruthy (TStr s) = (0 < length s \<and> s \<noteq> ''false'')"

fun js_String :: "template_value \<Rightarrow> string" where
  "js_String TUndefined = ''undefined''"
| "js_String (TBool b) = (if b then ''true'' else ''false'')"
| "js_String (TNum n) = int_text n"
| "js_String (TStr s) = s"

subsection \<open>Conditionals\<close>

definition word_char :: "char \<Rightarrow> bool" where
  "word_char c \<longleftrightarrow> (48 \<le> code_of c \<and> code_of c \<le> 57) \<or> (65 \<le> code_of c \<and> code_of c \<le> 90) \<or>
     (97 \<le> code_of c \<and> code_of c \<le> 122) \<or> code_of c = 95"

text \<open>\<open>[\s\S]*?close\<close>: the text up to the first occurrence of \<open>close\<close> and the rest after it.\<close>

fun up_to :: "string \<Rightarrow> string \<Rightarrow> (string \<times> string) option" where
  "up_to close s = (if prefix close s then Some ([], drop (length close) s)
     else case s of [] \<Rightarrow> None
       | c # cs \<Rightarrow> map_option (\<lambda>(body, rest). (c # body, rest)) (up_to close cs))"

declare up_to.simps [simp del]

text \<open>\<open>{{#if\s+(\w+)}}([\s\S]*?){{/if}}\<close> at the start of a text: the key, the body, the rest.\<close>

definition match_block :: "string \<Rightarrow> string \<Rightarrow> string \<Rightarrow> (string \<times> string \<times> string) option" where
  "match_block opener close s =
     (if \<not> prefix opener s then None
      else let s1 = drop (length opener) s; sp = takeWhile js_space s1;
               s2 = drop (length sp) s1; key = takeWhile word_char s2; s3 = drop (length key) s2
           in if sp = [] \<or> key = [] \<or> \<not> prefix ''}}'' s3 then None
              else map_option (\<lambda>(body, rest). (key, body, rest)) (up_to close (drop 2 s3)))"

lemma up_to_shorter: "up_to close s = Some (body, rest) \<Longrightarrow> length rest \<le> length s"
proof (induction s arbitrary: body)
  case Nil
  then show ?case by (auto simp: up_to.simps [of close "[]"] split: if_splits)
next
  case (Cons c cs)
  then show ?case by (fastforce simp: up_to.simps [of close "c # cs"] split: if_splits)
qed

lemma match_block_shorter:
  assumes "match_block opener close s = Some (k, b, rest)"
  shows "length rest < length s"
proof -
  let ?s1 = "drop (length opener) s"
  let ?s2 = "drop (length (takeWhile js_space ?s1)) ?s1"
  let ?s3 = "drop (length (takeWhile word_char ?s2)) ?s2"
  from assms have p: "prefix [CHR 0x7D, CHR 0x7D] ?s3" and r: "\<exists>b. up_to close (drop 2 ?s3) = Some (b, rest)"
    by (auto simp: match_block_def Let_def simp del: drop_drop split: if_splits)
  from prefix_length_le [OF p] have "2 \<le> length ?s3" by simp
  moreover from r have "length rest \<le> length (drop 2 ?s3)" by (auto dest: up_to_shorter)
  ultimately show ?thesis by simp
qed

function replace_blocks :: "string \<Rightarrow> string \<Rightarrow> (string \<Rightarrow> string \<Rightarrow> string) \<Rightarrow> string \<Rightarrow> string" where
  "replace_blocks opener close f s = (case match_block opener close s of
      Some (key, body, rest) \<Rightarrow> f key body @ replace_blocks opener close f rest
    | None \<Rightarrow> (case s of [] \<Rightarrow> [] | c # cs \<Rightarrow> c # replace_blocks opener close f cs))"
  by pat_completeness auto

termination
  by (relation "measure (\<lambda>(_, _, _, s). length s)") (auto dest: match_block_shorter)

declare replace_blocks.simps [simp del]

definition renderConditionals :: "string \<Rightarrow> template_vars \<Rightarrow> string" where
  "renderConditionals template vars =
     replace_blocks ''{{#unless'' ''{{/unless}}'' (\<lambda>key body. if isTruthy (lookup_var vars key) then [] else body)
       (replace_blocks ''{{#if'' ''{{/if}}'' (\<lambda>key body. if isTruthy (lookup_var vars key) then body else []) template)"

subsection \<open>Escaping\<close>

text \<open>\<open>s.replace(/c/g, r)\<close> for a character \<open>c\<close>.\<close>

definition replace_char :: "char \<Rightarrow> string \<Rightarrow> string \<Rightarrow> string" where
  "replace_char c r s = concat (map (\<lambda>x. if x = c then r else [x]) s)"

definition escapeHtml :: "string \<Rightarrow> string" where
  "escapeHtml s =
     replace_char (CHR 0x27) ''&#039;''
       (replace_char (CHR 0x22) ''&quot;''
         (replace_char (CHR 0x3E) ''&gt;''
           (replace_char (CHR 0x3C) ''&lt;''
             (replace_char (CHR 0x26) ''&amp;'' s))))"

subsection \<open>Tokens\<close>

definition match_token :: "string \<Rightarrow> (string \<times> string) option" where
  "match_token s =
     (if \<not> prefix ''{{'' s then None
      else let key = takeWhile word_char (drop 2 s); s3 = drop (length key) (drop 2 s)
           in if key = [] \<or> \<not> prefix ''}}'' s3 then None else Some (key, drop 2 s3))"

lemma match_token_shorter: "match_token s = Some (k, rest) \<Longrightarrow> length rest < length s"
  by (auto simp: match_token_def Let_def split: if_splits dest!: prefix_length_le)

function replace_tokens :: "(string \<Rightarrow> string) \<Rightarrow> string \<Rightarrow> string" where
  "replace_tokens f s = (case match_token s of
      Some (key, rest) \<Rightarrow> f key @ replace_tokens f rest
    | None \<Rightarrow> (case s of [] \<Rightarrow> [] | c # cs \<Rightarrow> c # replace_tokens f cs))"
  by pat_completeness auto

termination
  by (relation "measure (\<lambda>(_, s). length s)") (auto dest: match_token_shorter)

declare replace_tokens.simps [simp del]

definition token_text :: "template_vars \<Rightarrow> bool \<Rightarrow> string \<Rightarrow> string" where
  "token_text vars escape key = (case lookup_var vars key of
      TUndefined \<Rightarrow> []
    | v \<Rightarrow> if escape then escapeHtml (js_String v) else js_String v)"

definition renderTokens :: "string \<Rightarrow> template_vars \<Rightarrow> bool \<Rightarrow> string" where
  "renderTokens template vars escape = replace_tokens (token_text vars escape) template"

text \<open>\<open>load name\<close> is the pair of files of a template.\<close>

definition renderTemplate :: "(string \<Rightarrow> string \<times> string) \<Rightarrow> int \<Rightarrow> string \<Rightarrow> template_vars \<Rightarrow> string \<times> string" where
  "renderTemplate load year name vars =
     (let (html, text) = load name; merged = (''currentYear'', TNum year) # vars
      in (renderTokens (renderConditionals html merged) merged True,
          renderTokens (renderConditionals text merged) merged False))"

definition renderHtml :: "(string \<Rightarrow> string) \<Rightarrow> int \<Rightarrow> string \<Rightarrow> template_vars \<Rightarrow> string" where
  "renderHtml load year name vars =
     (let merged = (''currentYear'', TNum year) # vars
      in renderTokens (renderConditionals (load name) merged) merged True)"

subsection \<open>What escaping gives\<close>

definition escape_char :: "char \<Rightarrow> string" where
  "escape_char c = (if c = CHR 0x26 then ''&amp;'' else if c = CHR 0x3C then ''&lt;''
     else if c = CHR 0x3E then ''&gt;'' else if c = CHR 0x22 then ''&quot;''
     else if c = CHR 0x27 then ''&#039;'' else [c])"

lemma replace_char_Nil [simp]: "replace_char c r [] = []"
  by (simp add: replace_char_def)

lemma replace_char_Cons: "replace_char c r (x # xs) = (if x = c then r else [x]) @ replace_char c r xs"
  by (simp add: replace_char_def)

lemma replace_char_append [simp]: "replace_char c r (xs @ ys) = replace_char c r xs @ replace_char c r ys"
  by (simp add: replace_char_def)

lemma escapeHtml_append [simp]: "escapeHtml (a @ b) = escapeHtml a @ escapeHtml b"
  by (simp add: escapeHtml_def)

lemma escapeHtml_single: "escapeHtml [c] = escape_char c"
  by (simp add: escapeHtml_def escape_char_def replace_char_Cons)

lemma escapeHtml_one_pass: "escapeHtml s = concat (map escape_char s)"
proof (induction s)
  case Nil
  then show ?case by (simp add: escapeHtml_def)
next
  case (Cons c s)
  then show ?case using escapeHtml_append [of "[c]" s] by (simp add: escapeHtml_single)
qed

lemma escape_char_safe: "x \<in> set (escape_char c) \<Longrightarrow> x \<notin> {CHR 0x3C, CHR 0x3E, CHR 0x22, CHR 0x27}"
  by (auto simp: escape_char_def split: if_splits)

lemma escapeHtml_no_markup: "x \<in> set (escapeHtml s) \<Longrightarrow> x \<notin> {CHR 0x3C, CHR 0x3E, CHR 0x22, CHR 0x27}"
  unfolding escapeHtml_one_pass using escape_char_safe by auto

text \<open>The entities are a prefix code, so escaping loses nothing.\<close>

lemma escape_char_prefix_code: "escape_char c @ u = escape_char d @ v \<Longrightarrow> c = d \<and> u = v"
  by (auto simp: escape_char_def split: if_splits)

lemma escape_char_nonempty [simp]: "escape_char c \<noteq> []"
  by (simp add: escape_char_def)

lemma escapeHtml_inj: "escapeHtml s = escapeHtml t \<Longrightarrow> s = t"
  unfolding escapeHtml_one_pass
proof (induction s arbitrary: t)
  case Nil
  then show ?case by (cases t) simp_all
next
  case (Cons c s)
  then obtain d t' where t: "t = d # t'" by (cases t) simp_all
  with Cons.prems escape_char_prefix_code [of c "concat (map escape_char s)" d "concat (map escape_char t')"]
  show ?case using Cons.IH by simp
qed

subsection \<open>Rendering is one pass\<close>

text \<open>A text without braces is copied; a token is replaced by the text of its value, which is not
  scanned again.\<close>

lemma match_token_no_brace: "c \<noteq> CHR 0x7B \<Longrightarrow> match_token (c # s) = None"
  by (simp add: match_token_def)

lemma replace_tokens_plain:
  "CHR 0x7B \<notin> set a \<Longrightarrow> replace_tokens f (a @ s) = a @ replace_tokens f s"
proof (induction a)
  case (Cons c a)
  then show ?case
    by (auto simp: match_token_no_brace replace_tokens.simps [of f "c # a @ s"])
qed simp

lemma takeWhile_word_append: "list_all word_char k \<Longrightarrow> takeWhile word_char (k @ [CHR 0x7D, CHR 0x7D] @ s) = k"
  by (induction k) (auto simp: word_char_def)

lemma replace_tokens_token:
  assumes "k \<noteq> []" and "list_all word_char k"
  shows "replace_tokens f (''{{'' @ k @ ''}}'' @ s) = f k @ replace_tokens f s"
proof -
  have "match_token (''{{'' @ k @ ''}}'' @ s) = Some (k, s)"
    using assms takeWhile_word_append [OF assms(2), of s] by (simp add: match_token_def Let_def)
  then show ?thesis by (subst replace_tokens.simps) simp
qed

lemma replace_tokens_Nil [simp]: "replace_tokens f [] = []"
  by (simp add: replace_tokens.simps [of f "[]"] match_token_def)

subsection \<open>MailService\<close>

record email_params =
  em_to :: string
  em_subject :: string
  em_text :: string
  em_html :: string

record mail_config =
  mc_isProd :: bool
  mc_fromAddress :: string
  mc_frontendBaseUrl :: string

definition strip_slashes :: "string \<Rightarrow> string" where
  "strip_slashes s = rev (dropWhile (\<lambda>c. c = CHR ''/'') (rev s))"

text \<open>The constructor: \<open>getOrThrow('APP_BASE_URL')\<close> only when FRONTEND_BASE_URL is empty or unset.\<close>

definition mail_constructor :: "string option \<Rightarrow> string option \<Rightarrow> string option \<Rightarrow> string option \<Rightarrow> mail_config result" where
  "mail_constructor nodeEnv mailFrom frontendBase appBase =
     (let base = (case frontendBase of Some f \<Rightarrow> if f = [] then appBase else Some f | None \<Rightarrow> appBase) in
      case base of
        None \<Rightarrow> throw (PlainError ''Configuration key APP_BASE_URL does not exist'')
      | Some b \<Rightarrow> ok \<lparr>mc_isProd = (nodeEnv = Some ''production'' \<or> nodeEnv = Some ''staging''),
                     mc_fromAddress = (case mailFrom of Some a \<Rightarrow> a | None \<Rightarrow> ''no-reply@invalid.local''),
                     mc_frontendBaseUrl = strip_slashes b\<rparr>)"

text \<open>Development logs the mail; production hands it to SendGrid, whose failure is logged and not thrown.
  \<open>sg\<close> says whether SendGrid accepts a mail; the state is the list of accepted mails and the log.\<close>

record mail_state =
  ms_sent :: "email_params list"
  ms_log :: "string list"

definition send :: "mail_config \<Rightarrow> (email_params \<Rightarrow> bool) \<Rightarrow> email_params \<Rightarrow> (mail_state, unit) op" where
  "send cfg sg m s =
     (if \<not> mc_isProd cfg
      then (ok (), s\<lparr>ms_log := ms_log s @ (''[DEV MAIL] To: '' @ em_to m @ '' | Subject: '' @ em_subject m) #
             map (\<lambda>l. ''[DEV MAIL] '' @ l) (filter (\<lambda>l. trim l \<noteq> []) (split_on (CHR 0x0A) (em_text m)))\<rparr>)
      else if sg m then (ok (), s\<lparr>ms_sent := ms_sent s @ [m]\<rparr>)
      else (ok (), s\<lparr>ms_log := ms_log s @ [''SendGrid send failed for '' @ em_to m]\<rparr>))"

definition fromTemplate ::
  "(string \<Rightarrow> string \<times> string) \<Rightarrow> int \<Rightarrow> string \<Rightarrow> string \<Rightarrow> string \<Rightarrow> template_vars \<Rightarrow> email_params" where
  "fromTemplate load year template toEmail subject vars =
     (let (html, text) = renderTemplate load year template ((''toEmail'', TStr toEmail) # vars)
      in \<lparr>em_to = toEmail, em_subject = subject, em_text = text, em_html = html\<rparr>)"

definition first_name_of :: "string \<Rightarrow> string" where
  "first_name_of fullName = (let w = hd (split_on (CHR 0x20) fullName) in if w = [] then fullName else w)"

definition buildVerificationEmail ::
  "mail_config \<Rightarrow> (string \<Rightarrow> string \<times> string) \<Rightarrow> int \<Rightarrow> string \<Rightarrow> string \<Rightarrow> string \<Rightarrow> email_params" where
  "buildVerificationEmail cfg load year toEmail fullName token =
     fromTemplate load year ''email-verification'' toEmail ''Verify your Institute of Scrum account''
       [(''firstName'', TStr (first_name_of fullName)),
        (''verificationUrl'', TStr (mc_frontendBaseUrl cfg @ ''/verify-email?token='' @ token)),
        (''expiresInHours'', TNum 24)]"

definition buildPasswordResetEmail ::
  "mail_config \<Rightarrow> (string \<Rightarrow> string \<times> string) \<Rightarrow> int \<Rightarrow> string \<Rightarrow> string \<Rightarrow> string \<Rightarrow> email_params" where
  "buildPasswordResetEmail cfg load year toEmail fullName token =
     fromTemplate load year ''password-reset'' toEmail ''Reset your Institute of Scrum password''
       [(''firstName'', TStr (first_name_of fullName)),
        (''resetUrl'', TStr (mc_frontendBaseUrl cfg @ ''/reset-password?token='' @ token)),
        (''expiresInHours'', TNum 1), (''supportEmail'', TStr (mc_fromAddress cfg))]"

lemma send_never_throws: "fst (send cfg sg m s) = Inr ()"
  by (simp add: send_def)

end
