(* ===== verification/I18n.thy ===== *)
theory I18n
  imports Entities JsString
begin

section \<open>Locales and translations (common/i18n/types.ts, i18n/resolvers, i18n.module.ts)\<close>

text \<open>
  The supported locales, the resolution of one translated field with its fallback to English, the
  locale hint read from an access token, and the two implementations of \<open>buildTranslations\<close> that
  rebuild the \<open>translations\<close> column on every write of the catalogue and of the curriculum. A JSON
  object is a map; the entries a request sends are a list with one entry per key.
\<close>

subsection \<open>types.ts\<close>

definition SUPPORTED_LOCALES :: "string list" where
  "SUPPORTED_LOCALES = [''en'', ''tr'', ''fr'', ''es'', ''ar'', ''de'']"

definition DEFAULT_LOCALE :: string where
  "DEFAULT_LOCALE = ''en''"

definition RTL_LOCALES :: "string list" where
  "RTL_LOCALES = [''ar'']"

definition isLocale :: "string \<Rightarrow> bool" where
  "isLocale l \<longleftrightarrow> l \<in> set SUPPORTED_LOCALES"

definition directionFor :: "string \<Rightarrow> string" where
  "directionFor l = (if l \<in> set RTL_LOCALES then ''rtl'' else ''ltr'')"

record translation_result =
  tr_value :: "string option"
  tr_localeUsed :: "string option"
  tr_fallbackUsed :: bool

text \<open>\<open>translations[l]?.[field]\<close>, when it is neither null nor the empty string.\<close>

definition filled :: "localized \<Rightarrow> string \<Rightarrow> string \<Rightarrow> string option" where
  "filled T l field = (case T l of None \<Rightarrow> None | Some b \<Rightarrow>
     (case b field of None \<Rightarrow> None | Some v \<Rightarrow> if v = '''' then None else Some v))"

definition resolveTranslation :: "localized option \<Rightarrow> string \<Rightarrow> string \<Rightarrow> translation_result" where
  "resolveTranslation translations field locale = (case translations of
      None \<Rightarrow> \<lparr>tr_value = None, tr_localeUsed = None, tr_fallbackUsed = False\<rparr>
    | Some T \<Rightarrow>
        (case filled T locale field of
           Some v \<Rightarrow> \<lparr>tr_value = Some v, tr_localeUsed = Some locale, tr_fallbackUsed = False\<rparr>
         | None \<Rightarrow>
             (case filled T DEFAULT_LOCALE field of
                Some v \<Rightarrow> \<lparr>tr_value = Some v, tr_localeUsed = Some DEFAULT_LOCALE, tr_fallbackUsed = True\<rparr>
              | None \<Rightarrow> \<lparr>tr_value = None, tr_localeUsed = None, tr_fallbackUsed = False\<rparr>)))"

text \<open>\<open>resolveLocale\<close> of the catalogue and of the learning service: the language of the request's
  i18n context, if there is one and it is supported.\<close>

definition resolveLocale :: "string option \<Rightarrow> string" where
  "resolveLocale ctxLang = (let raw = (case ctxLang of Some l \<Rightarrow> l | None \<Rightarrow> DEFAULT_LOCALE)
     in if isLocale raw then raw else DEFAULT_LOCALE)"

text \<open>The check constraints \<open>chk_users_locale_supported\<close> and \<open>chk_admin_users_locale_supported\<close> of
  \<open>1748000000000-AddI18nSupport.ts\<close>.\<close>

definition locale_check :: "string \<Rightarrow> bool" where
  "locale_check l \<longleftrightarrow> l \<in> {''en'', ''tr'', ''fr'', ''es'', ''ar'', ''de''}"

subsection \<open>user-preference.resolver.ts\<close>

text \<open>
  The context type, the locale of a user that guards attached, and the first Authorization header.
  Decoding the payload segment (\<open>base64url\<close>, then \<open>JSON.parse\<close>) is an argument that yields the
  \<open>locale\<close> claim when the text parses and the claim is a string.
\<close>

definition resolve_user_preference ::
  "(string \<Rightarrow> string option) \<Rightarrow> string \<Rightarrow> string option \<Rightarrow> string option \<Rightarrow> string option" where
  "resolve_user_preference localeClaim contextType userLocale bearer =
     (if contextType \<noteq> ''http'' then None
      else case (case userLocale of Some l \<Rightarrow> if l \<noteq> '''' \<and> isLocale l then Some l else None | None \<Rightarrow> None) of
        Some l \<Rightarrow> Some l
      | None \<Rightarrow>
          (case bearer of
             None \<Rightarrow> None
           | Some h \<Rightarrow>
               if \<not> prefix ''Bearer '' h then None
               else (case split_on CHR ''.'' (drop 7 h) of
                   [_, payload, _] \<Rightarrow>
                     (case localeClaim payload of
                        Some l \<Rightarrow> if isLocale l then Some l else None
                      | None \<Rightarrow> None)
                 | _ \<Rightarrow> None)))"

subsection \<open>buildTranslations of the learning service\<close>

text \<open>\<open>for (const [locale, block] of Object.entries(dtoT)) merged[locale] = block\<close>.\<close>

fun assign_entries :: "(string \<times> locale_block) list \<Rightarrow> localized \<Rightarrow> localized" where
  "assign_entries [] merged = merged"
| "assign_entries ((l, b) # es) merged = assign_entries es (merged(l \<mapsto> b))"

definition en_block :: "string \<Rightarrow> string \<Rightarrow> string option \<Rightarrow> locale_block" where
  "en_block bodyKey title body =
     (let b = [''title'' \<mapsto> title] in case body of None \<Rightarrow> b | Some x \<Rightarrow> b(bodyKey \<mapsto> x))"

definition buildTranslations ::
  "localized \<Rightarrow> (string \<times> locale_block) list option \<Rightarrow> string \<Rightarrow> string option \<Rightarrow> string \<Rightarrow> localized" where
  "buildTranslations existing dtoTranslations canonicalTitle canonicalBody bodyKey =
     (let dtoT = (case dtoTranslations of Some es \<Rightarrow> es | None \<Rightarrow> []);
          explicitEn = ''en'' \<in> fst ` set dtoT;
          merged = assign_entries dtoT existing
      in if explicitEn then merged
         else merged(''en'' \<mapsto> en_block bodyKey canonicalTitle canonicalBody))"

subsection \<open>Facts\<close>

lemma isLocale_DEFAULT [simp]: "isLocale DEFAULT_LOCALE"
  by (simp add: isLocale_def SUPPORTED_LOCALES_def DEFAULT_LOCALE_def)

lemma resolveLocale_supported [simp]: "isLocale (resolveLocale c)"
  by (simp add: resolveLocale_def Let_def)

lemma locale_check_iff: "locale_check l \<longleftrightarrow> isLocale l"
  by (simp add: locale_check_def isLocale_def SUPPORTED_LOCALES_def)

lemma assign_entries_eq: "assign_entries es m = m ++ map_of (rev es)"
proof (induction es m rule: assign_entries.induct)
  case (2 l b es m)
  have "m ++ map_of (rev ((l, b) # es)) = m ++ ([l \<mapsto> b] ++ map_of (rev es))"
    by (simp only: rev.simps map_of_append) simp
  also have "\<dots> = m(l \<mapsto> b) ++ map_of (rev es)"
    by (simp only: map_add_assoc map_add_upd map_add_empty)
  finally show ?case by (simp only: assign_entries.simps 2)
qed simp

lemma map_of_rev_distinct: "distinct (map fst es) \<Longrightarrow> map_of (rev es) = map_of es"
  by (rule map_of_inject_set [THEN iffD2]) (simp_all flip: rev_map)

lemma assign_entries_distinct: "distinct (map fst es) \<Longrightarrow> assign_entries es m = m ++ map_of es"
  by (simp add: assign_entries_eq map_of_rev_distinct)

lemma resolve_user_preference_supported: "resolve_user_preference f t u h = Some l \<Longrightarrow> isLocale l"
  by (auto simp: resolve_user_preference_def split: if_splits option.splits list.splits)

lemma resolveTranslation_cases:
  "resolveTranslation (Some T) f l =
     (case filled T l f of
        Some v \<Rightarrow> \<lparr>tr_value = Some v, tr_localeUsed = Some l, tr_fallbackUsed = False\<rparr>
      | None \<Rightarrow> \<lparr>tr_value = filled T ''en'' f, tr_localeUsed = (if filled T ''en'' f = None then None else Some ''en''),
                 tr_fallbackUsed = filled T ''en'' f \<noteq> None\<rparr>)"
  by (simp add: resolveTranslation_def DEFAULT_LOCALE_def split: option.split)

text \<open>What the rebuilt translations hold for each locale.\<close>

lemma buildTranslations_at:
  assumes "distinct (map fst es)"
  shows "buildTranslations ex (Some es) t b k l =
    (case map_of es l of Some blk \<Rightarrow> Some blk | None \<Rightarrow> if l = ''en'' then Some (en_block k t b) else ex l)"
  using assms
  by (auto simp: buildTranslations_def Let_def assign_entries_distinct map_add_def image_iff
      split: option.splits dest: map_of_SomeD)

lemma buildTranslations_none:
  "buildTranslations ex None t b k = ex(''en'' \<mapsto> en_block k t b)"
  by (simp add: buildTranslations_def)

lemma en_block_title [simp]: "k \<noteq> ''title'' \<Longrightarrow> en_block k t b ''title'' = Some t"
  by (simp add: en_block_def Let_def split: option.split)

end
