(* ===== verification/AuthService.thy ===== *)
theory AuthService
  imports Entities Contracts Externals Mail I18n
begin

section \<open>Authentication (modules/auth/auth.service.ts)\<close>

text \<open>
  \<open>AuthService\<close> over the tables of users, admins, refresh tokens and auth tokens. The tokens have a
  SERIAL key, drawn from the sequences of the state. bcrypt, the signing of JWTs, the mail templates
  and SendGrid are arguments. An exception keeps the writes made before it, as in the code, which
  uses no transaction here.
\<close>

subsection \<open>Payloads, configuration and state\<close>

datatype account_type = StudentAccount | AdminAccount

record access_payload =
  ap_sub :: uuid
  ap_type :: account_type
  ap_email :: string
  ap_locale :: string
  ap_role :: "admin_role option"

record refresh_payload =
  rp_sub :: uuid
  rp_type :: account_type
  rp_jti :: nat

record jwt_lib =
  jwt_sign_access :: "string \<Rightarrow> access_payload \<Rightarrow> int \<Rightarrow> instant \<Rightarrow> string"
  jwt_sign_refresh :: "string \<Rightarrow> refresh_payload \<Rightarrow> int \<Rightarrow> instant \<Rightarrow> string"

record auth_deps =
  ad_bcrypt :: bcrypt_lib
  ad_jwt :: jwt_lib
  ad_mail :: mail_config
  ad_templates :: "string \<Rightarrow> string \<times> string"
  ad_year :: int
  ad_sendgrid :: "email_params \<Rightarrow> bool"
  ad_accessTtlSec :: int
  ad_refreshTtlSec :: int
  ad_jwtSecret :: string
  ad_jwtRefreshSecret :: string

text \<open>\<open>Number(config.get(...) ?? default)\<close> of the constructor, for values that are numbers.\<close>

definition ttl_or_default :: "int option \<Rightarrow> int \<Rightarrow> int" where
  "ttl_or_default configured d = (case configured of Some n \<Rightarrow> n | None \<Rightarrow> d)"

record auth_state =
  au_users :: "user list"
  au_admins :: "admin_user list"
  au_refresh :: "refresh_token list"
  au_tokens :: "auth_token list"
  au_nextRefresh :: nat
  au_nextToken :: nat
  au_mail :: mail_state

definition BCRYPT_PASSWORD_COST :: nat where
  "BCRYPT_PASSWORD_COST = 12"

definition BCRYPT_TOKEN_COST :: nat where
  "BCRYPT_TOKEN_COST = 10"

definition EMAIL_VERIFICATION_TTL_HOURS :: int where
  "EMAIL_VERIFICATION_TTL_HOURS = 24"

definition PASSWORD_RESET_TTL_HOURS :: int where
  "PASSWORD_RESET_TTL_HOURS = 1"

definition user_fullName :: "user \<Rightarrow> string" where
  "user_fullName u = trim (u_firstName u @ '' '' @ u_lastName u)"

definition admin_fullName :: "admin_user \<Rightarrow> string" where
  "admin_fullName a = trim (a_firstName a @ '' '' @ a_lastName a)"

definition normalise_email :: "string \<Rightarrow> string" where
  "normalise_email e = toLowerCase (trim e)"

subsection \<open>Refresh tokens\<close>

definition live_refresh :: "nat \<Rightarrow> refresh_token \<Rightarrow> bool" where
  "live_refresh jti r \<longleftrightarrow> serial r = jti \<and> rt_revokedAt r = None"

definition revoke :: "instant \<Rightarrow> refresh_token \<Rightarrow> refresh_token" where
  "revoke t r = r\<lparr>int_updatedAt := t, rt_revokedAt := Some t\<rparr>"

interpretation refresh_claims: row_claim live_refresh "revoke t" for t
  by unfold_locales (auto simp: live_refresh_def revoke_def)

definition owned_live :: "uuid \<Rightarrow> account_type \<Rightarrow> refresh_token \<Rightarrow> bool" where
  "owned_live sub ty r \<longleftrightarrow>
     (if ty = AdminAccount then rt_adminId r = Some sub else rt_userId r = Some sub) \<and> rt_revokedAt r = None"

definition revokeAllRefreshTokens :: "instant \<Rightarrow> uuid \<Rightarrow> account_type \<Rightarrow> auth_state \<Rightarrow> auth_state" where
  "revokeAllRefreshTokens t sub ty s = s\<lparr>au_refresh := update_rows (owned_live sub ty) (revoke t) (au_refresh s)\<rparr>"

text \<open>The row is inserted with the hash \<open>pending\<close>, because the token carries its key, and then updated.\<close>

definition issueRefreshToken :: "auth_deps \<Rightarrow> request_env \<Rightarrow> uuid \<Rightarrow> account_type \<Rightarrow> (auth_state, string) op" where
  "issueRefreshToken D env sub ty s =
     (let t = now env; jti = au_nextRefresh s;
          row = \<lparr>serial = jti, int_createdAt = t, int_updatedAt = t,
                 rt_userId = (if ty = StudentAccount then Some sub else None),
                 rt_adminId = (if ty = AdminAccount then Some sub else None),
                 rt_ownerType = (if ty = AdminAccount then OWNER_ADMIN else OWNER_USER),
                 rt_tokenHash = ''pending'', rt_expiresAt = t + ad_refreshTtlSec D * 1000, rt_revokedAt = None\<rparr>
      in case insert_row serial row (au_refresh s) of
           Inl e \<Rightarrow> (throw e, s\<lparr>au_nextRefresh := jti + 1\<rparr>)
         | Inr rows \<Rightarrow>
             let token = jwt_sign_refresh (ad_jwt D) (ad_jwtRefreshSecret D)
                           \<lparr>rp_sub = sub, rp_type = ty, rp_jti = jti\<rparr> (ad_refreshTtlSec D) t;
                 h = bc_hash (ad_bcrypt D) (salt env) BCRYPT_TOKEN_COST token
             in (ok token,
                 s\<lparr>au_refresh := update_rows (\<lambda>r. serial r = jti) (\<lambda>r. r\<lparr>int_updatedAt := t, rt_tokenHash := h\<rparr>) rows,
                   au_nextRefresh := jti + 1\<rparr>))"

subsection \<open>Sessions\<close>

record auth_user_response =
  ar_id :: uuid
  ar_email :: string
  ar_firstName :: string
  ar_lastName :: string
  ar_fullName :: string
  ar_locale :: string
  ar_emailVerified :: bool
  ar_type :: account_type
  ar_role :: "admin_role option"

record login_response =
  lr_accessToken :: string
  lr_expiresIn :: int
  lr_user :: auth_user_response

definition signAccess :: "auth_deps \<Rightarrow> instant \<Rightarrow> access_payload \<Rightarrow> string" where
  "signAccess D t p = jwt_sign_access (ad_jwt D) (ad_jwtSecret D) p (ad_accessTtlSec D) t"

definition issueStudentSession :: "auth_deps \<Rightarrow> request_env \<Rightarrow> user \<Rightarrow> (auth_state, login_response \<times> string) op" where
  "issueStudentSession D env u =
     (let accessToken = signAccess D (now env)
            \<lparr>ap_sub = pk u, ap_type = StudentAccount, ap_email = u_email u, ap_locale = u_locale u, ap_role = None\<rparr>
      in bind_op (issueRefreshToken D env (pk u) StudentAccount)
           (\<lambda>token. return_op
              (\<lparr>lr_accessToken = accessToken, lr_expiresIn = ad_accessTtlSec D,
                lr_user = \<lparr>ar_id = pk u, ar_email = u_email u, ar_firstName = u_firstName u, ar_lastName = u_lastName u,
                  ar_fullName = user_fullName u, ar_locale = u_locale u, ar_emailVerified = u_emailVerified u,
                  ar_type = StudentAccount, ar_role = None\<rparr>\<rparr>, token)))"

definition issueAdminSession :: "auth_deps \<Rightarrow> request_env \<Rightarrow> admin_user \<Rightarrow> (auth_state, login_response \<times> string) op" where
  "issueAdminSession D env a =
     (let accessToken = signAccess D (now env)
            \<lparr>ap_sub = pk a, ap_type = AdminAccount, ap_email = a_email a, ap_locale = ''en'', ap_role = Some (a_role a)\<rparr>
      in bind_op (issueRefreshToken D env (pk a) AdminAccount)
           (\<lambda>token. return_op
              (\<lparr>lr_accessToken = accessToken, lr_expiresIn = ad_accessTtlSec D,
                lr_user = \<lparr>ar_id = pk a, ar_email = a_email a, ar_firstName = a_firstName a, ar_lastName = a_lastName a,
                  ar_fullName = admin_fullName a, ar_locale = ''en'', ar_emailVerified = True,
                  ar_type = AdminAccount, ar_role = Some (a_role a)\<rparr>\<rparr>, token)))"

subsection \<open>Auth tokens (email verification, password reset)\<close>

definition unused_token :: "nat \<Rightarrow> auth_token \<Rightarrow> bool" where
  "unused_token n r \<longleftrightarrow> serial r = n \<and> tk_usedAt r = None"

definition use_token :: "instant \<Rightarrow> auth_token \<Rightarrow> auth_token" where
  "use_token t r = r\<lparr>int_updatedAt := t, tk_usedAt := Some t\<rparr>"

interpretation token_claims: row_claim unused_token "use_token t" for t
  by unfold_locales (auto simp: unused_token_def use_token_def)

definition issueAuthToken :: "auth_deps \<Rightarrow> request_env \<Rightarrow> uuid \<Rightarrow> auth_token_purpose \<Rightarrow> int \<Rightarrow> (auth_state, string) op" where
  "issueAuthToken D env userId purpose ttlHours s =
     (let t = now env; n = au_nextToken s;
          retired = update_rows (\<lambda>r. tk_userId r = userId \<and> tk_purpose r = purpose \<and> tk_usedAt r = None) (use_token t) (au_tokens s);
          plainToken = to_hex (randomBytes env);
          row = \<lparr>serial = n, int_createdAt = t, int_updatedAt = t, tk_userId = userId, tk_purpose = purpose,
                 tk_tokenHash = bc_hash (ad_bcrypt D) (salt env) BCRYPT_TOKEN_COST plainToken,
                 tk_expiresAt = t + ttlHours * 60 * 60 * 1000, tk_usedAt = None\<rparr>
      in case insert_row serial row retired of
           Inl e \<Rightarrow> (throw e, s\<lparr>au_tokens := retired, au_nextToken := n + 1\<rparr>)
         | Inr rows \<Rightarrow> (ok plainToken, s\<lparr>au_tokens := rows, au_nextToken := n + 1\<rparr>))"

fun first_token :: "auth_deps \<Rightarrow> instant \<Rightarrow> string \<Rightarrow> auth_token list \<Rightarrow> auth_token option" where
  "first_token D t plain [] = None"
| "first_token D t plain (r # rs) =
     (if tk_expiresAt r < t then first_token D t plain rs
      else if bc_compare (ad_bcrypt D) plain (tk_tokenHash r) then Some r
      else first_token D t plain rs)"

text \<open>\<open>order: { id: 'DESC' }, take: 50\<close>.\<close>

definition token_candidates :: "auth_token_purpose \<Rightarrow> auth_token list \<Rightarrow> auth_token list" where
  "token_candidates purpose rows =
     take 50 (sort_key (\<lambda>r. - int (serial r)) (find_rows (\<lambda>r. tk_purpose r = purpose \<and> tk_usedAt r = None) rows))"

definition consumeAuthToken :: "auth_deps \<Rightarrow> instant \<Rightarrow> string \<Rightarrow> auth_token_purpose \<Rightarrow> (auth_state, uuid) op" where
  "consumeAuthToken D t plain purpose s =
     (case first_token D t plain (token_candidates purpose (au_tokens s)) of
        None \<Rightarrow> (throw (BadRequestException ''Token invalid or expired''), s)
      | Some r \<Rightarrow> (case claim_rows unused_token (use_token t) (serial r) (au_tokens s) of
            (False, _) \<Rightarrow> (throw (BadRequestException ''Token invalid or already used''), s)
          | (True, rows) \<Rightarrow> (ok (tk_userId r), s\<lparr>au_tokens := rows\<rparr>)))"

definition sendMail :: "auth_deps \<Rightarrow> email_params \<Rightarrow> (auth_state, unit) op" where
  "sendMail D m s = (case send (ad_mail D) (ad_sendgrid D) m (au_mail s) of (x, ms) \<Rightarrow> (x, s\<lparr>au_mail := ms\<rparr>))"

definition dispatchVerificationEmail :: "auth_deps \<Rightarrow> request_env \<Rightarrow> user \<Rightarrow> (auth_state, unit) op" where
  "dispatchVerificationEmail D env u =
     bind_op (issueAuthToken D env (pk u) EMAIL_VERIFICATION EMAIL_VERIFICATION_TTL_HOURS)
       (\<lambda>plain. sendMail D (buildVerificationEmail (ad_mail D) (ad_templates D) (ad_year D) (u_email u) (user_fullName u) plain))"

subsection \<open>Registration and verification\<close>

record register_dto =
  rd_email :: string
  rd_password :: string
  rd_firstName :: string
  rd_lastName :: string
  rd_phone :: "string option"
  rd_locale :: "string option"
  rd_country :: "string option"
  rd_city :: "string option"
  rd_street :: "string option"
  rd_address :: "string option"
  rd_postalCode :: "string option"
  rd_occupation :: "string option"
  rd_position :: "string option"
  rd_company :: "string option"

definition new_user :: "auth_deps \<Rightarrow> request_env \<Rightarrow> register_dto \<Rightarrow> user" where
  "new_user D env d =
     \<lparr>pk = newId env, createdAt = now env, updatedAt = now env, u_email = normalise_email (rd_email d),
      u_passwordHash = bc_hash (ad_bcrypt D) (salt env) BCRYPT_PASSWORD_COST (rd_password d),
      u_firstName = rd_firstName d, u_lastName = rd_lastName d, u_phone = rd_phone d, u_avatarUrl = None,
      u_country = rd_country d, u_city = rd_city d, u_street = rd_street d, u_address = rd_address d,
      u_postalCode = rd_postalCode d, u_occupation = rd_occupation d, u_position = rd_position d,
      u_company = rd_company d, u_locale = (case rd_locale d of Some l \<Rightarrow> l | None \<Rightarrow> ''en''),
      u_emailVerified = False, u_emailVerifiedAt = None, u_active = True\<rparr>"

text \<open>The unique index on \<open>users.email\<close> backs the check at the beginning; the locale is checked by the table.\<close>

definition insert_user :: "user \<Rightarrow> auth_state \<Rightarrow> user list result" where
  "insert_user u s =
     (if u_email u \<in> u_email ` set (au_users s)
      then throw (DatabaseError ''duplicate key value violates unique constraint'')
      else if \<not> locale_check (u_locale u) then throw (DatabaseError ''violates check constraint'')
      else insert_row pk u (au_users s))"

definition register :: "auth_deps \<Rightarrow> request_env \<Rightarrow> register_dto \<Rightarrow> (auth_state, uuid \<times> string) op" where
  "register D env d s =
     (case find_one (\<lambda>u. u_email u = normalise_email (rd_email d)) (au_users s) of
        Some _ \<Rightarrow> (throw (ConflictException ''Email is unavailable''), s)
      | None \<Rightarrow>
          let u = new_user D env d in
          case insert_user u s of
            Inl e \<Rightarrow> (throw e, s)
          | Inr users \<Rightarrow>
              bind_op (dispatchVerificationEmail D env u)
                (\<lambda>_. return_op (pk u, ''Registration successful. Check your email to verify your account.''))
                (s\<lparr>au_users := users\<rparr>))"

definition verifyEmail :: "auth_deps \<Rightarrow> instant \<Rightarrow> string \<Rightarrow> (auth_state, string) op" where
  "verifyEmail D t plain =
     bind_op (consumeAuthToken D t plain EMAIL_VERIFICATION)
       (\<lambda>userId s. (ok ''Email verified. You can now log in.'',
          s\<lparr>au_users := update_rows (\<lambda>u. pk u = userId)
               (\<lambda>u. (touch t u)\<lparr>u_emailVerified := True, u_emailVerifiedAt := Some t\<rparr>) (au_users s)\<rparr>))"

subsection \<open>Login\<close>

definition loginStudent :: "auth_deps \<Rightarrow> request_env \<Rightarrow> string \<Rightarrow> string \<Rightarrow> (auth_state, login_response \<times> string) op" where
  "loginStudent D env email password s =
     (case find_one (\<lambda>u. u_email u = normalise_email email) (au_users s) of
        None \<Rightarrow> (throw (UnauthorizedException ''Invalid credentials''), s)
      | Some u \<Rightarrow>
          if \<not> u_active u then (throw (UnauthorizedException ''Invalid credentials''), s)
          else if \<not> bc_compare (ad_bcrypt D) password (u_passwordHash u)
          then (throw (UnauthorizedException ''Invalid credentials''), s)
          else if \<not> u_emailVerified u
          then (throw (UnauthorizedException ''Email not verified. Check your inbox.''), s)
          else issueStudentSession D env u s)"

definition loginAdmin :: "auth_deps \<Rightarrow> request_env \<Rightarrow> string \<Rightarrow> string \<Rightarrow> (auth_state, login_response \<times> string) op" where
  "loginAdmin D env email password s =
     (case find_one (\<lambda>a. a_email a = normalise_email email) (au_admins s) of
        None \<Rightarrow> (throw (UnauthorizedException ''Invalid credentials''), s)
      | Some a \<Rightarrow>
          if \<not> a_active a then (throw (UnauthorizedException ''Invalid credentials''), s)
          else if \<not> bc_compare (ad_bcrypt D) password (a_passwordHash a)
          then (throw (UnauthorizedException ''Invalid credentials''), s)
          else issueAdminSession D env a s)"

subsection \<open>Refresh rotation\<close>

text \<open>The session for the owner of a rotated token.\<close>

definition reissue :: "auth_deps \<Rightarrow> request_env \<Rightarrow> refresh_payload \<Rightarrow> (auth_state, login_response \<times> string) op" where
  "reissue D env p s =
     (if rp_type p = AdminAccount
      then (case find_one (\<lambda>a. pk a = rp_sub p) (au_admins s) of
              None \<Rightarrow> (throw (UnauthorizedException ''Account is inactive''), s)
            | Some a \<Rightarrow> if \<not> a_active a then (throw (UnauthorizedException ''Account is inactive''), s)
                else issueAdminSession D env a s)
      else (case find_one (\<lambda>u. pk u = rp_sub p) (au_users s) of
              None \<Rightarrow> (throw (UnauthorizedException ''Account is inactive''), s)
            | Some u \<Rightarrow> if \<not> u_active u then (throw (UnauthorizedException ''Account is inactive''), s)
                else issueStudentSession D env u s))"

text \<open>What \<open>refresh\<close> decides from the row it has read.\<close>

datatype refresh_verdict = Reject exc | RevokeAll | ClaimRow refresh_token

definition refresh_guard :: "auth_deps \<Rightarrow> instant \<Rightarrow> refresh_payload \<Rightarrow> string \<Rightarrow> auth_state \<Rightarrow> refresh_verdict" where
  "refresh_guard D t p raw s =
     (case find_one (\<lambda>r. serial r = rp_jti p) (au_refresh s) of
        None \<Rightarrow> Reject (UnauthorizedException ''Refresh token invalid or expired'')
      | Some r \<Rightarrow>
          if rt_expiresAt r < t then Reject (UnauthorizedException ''Refresh token invalid or expired'')
          else if rt_revokedAt r \<noteq> None then RevokeAll
          else if \<not> bc_compare (ad_bcrypt D) raw (rt_tokenHash r)
          then Reject (UnauthorizedException ''Refresh token invalid'')
          else ClaimRow r)"

definition session_invalidated :: exc where
  "session_invalidated = UnauthorizedException ''Session invalidated. Please log in again.''"

definition refresh :: "auth_deps \<Rightarrow> request_env \<Rightarrow> refresh_payload \<Rightarrow> string \<Rightarrow> (auth_state, login_response \<times> string) op" where
  "refresh D env p raw s =
     (case refresh_guard D (now env) p raw s of
        Reject e \<Rightarrow> (throw e, s)
      | RevokeAll \<Rightarrow> (throw session_invalidated, revokeAllRefreshTokens (now env) (rp_sub p) (rp_type p) s)
      | ClaimRow r \<Rightarrow>
          (case claim_rows live_refresh (revoke (now env)) (serial r) (au_refresh s) of
             (False, _) \<Rightarrow> (throw session_invalidated, revokeAllRefreshTokens (now env) (rp_sub p) (rp_type p) s)
           | (True, rows) \<Rightarrow> reissue D env p (s\<lparr>au_refresh := rows\<rparr>)))"

definition logout :: "instant \<Rightarrow> refresh_payload \<Rightarrow> (auth_state, string) op" where
  "logout t p s = (ok ''Logged out'', s\<lparr>au_refresh := update_rows (live_refresh (rp_jti p)) (revoke t) (au_refresh s)\<rparr>)"

subsection \<open>Passwords\<close>

definition FORGOT_MESSAGE :: string where
  "FORGOT_MESSAGE = ''If an account exists for that email, a reset link has been sent.''"

definition forgotPassword :: "auth_deps \<Rightarrow> request_env \<Rightarrow> string \<Rightarrow> (auth_state, string) op" where
  "forgotPassword D env email s =
     (case find_one (\<lambda>u. u_email u = normalise_email email) (au_users s) of
        None \<Rightarrow> (ok FORGOT_MESSAGE, s)
      | Some u \<Rightarrow>
          if \<not> u_active u then (ok FORGOT_MESSAGE, s)
          else bind_op (issueAuthToken D env (pk u) PASSWORD_RESET PASSWORD_RESET_TTL_HOURS)
                 (\<lambda>plain. bind_op
                    (sendMail D (buildPasswordResetEmail (ad_mail D) (ad_templates D) (ad_year D) (u_email u) (user_fullName u) plain))
                    (\<lambda>_. return_op FORGOT_MESSAGE)) s)"

definition set_password :: "auth_deps \<Rightarrow> request_env \<Rightarrow> uuid \<Rightarrow> string \<Rightarrow> auth_state \<Rightarrow> auth_state" where
  "set_password D env userId password s =
     s\<lparr>au_users := update_rows (\<lambda>u. pk u = userId)
        (\<lambda>u. (touch (now env) u)\<lparr>u_passwordHash := bc_hash (ad_bcrypt D) (salt env) BCRYPT_PASSWORD_COST password\<rparr>) (au_users s)\<rparr>"

definition resetPassword :: "auth_deps \<Rightarrow> request_env \<Rightarrow> string \<Rightarrow> string \<Rightarrow> (auth_state, string) op" where
  "resetPassword D env plain newPassword =
     bind_op (consumeAuthToken D (now env) plain PASSWORD_RESET)
       (\<lambda>userId s. (ok ''Password reset successful. Please log in.'',
          revokeAllRefreshTokens (now env) userId StudentAccount (set_password D env userId newPassword s)))"

definition changePassword :: "auth_deps \<Rightarrow> request_env \<Rightarrow> uuid \<Rightarrow> string \<Rightarrow> string \<Rightarrow> (auth_state, string) op" where
  "changePassword D env userId currentPassword newPassword s =
     (if currentPassword = newPassword
      then (throw (BadRequestException ''New password must be different from current password''), s)
      else case find_one (\<lambda>u. pk u = userId) (au_users s) of
        None \<Rightarrow> (throw (UnauthorizedException ''Invalid credentials''), s)
      | Some u \<Rightarrow>
          if \<not> u_active u then (throw (UnauthorizedException ''Invalid credentials''), s)
          else if \<not> bc_compare (ad_bcrypt D) currentPassword (u_passwordHash u)
          then (throw (UnauthorizedException ''Invalid credentials''), s)
          else (ok ''Password changed. All active sessions have been signed out - please log in again.'',
                revokeAllRefreshTokens (now env) userId StudentAccount (set_password D env userId newPassword s)))"

definition hashPassword :: "auth_deps \<Rightarrow> request_env \<Rightarrow> string \<Rightarrow> string" where
  "hashPassword D env plain = bc_hash (ad_bcrypt D) (salt env) BCRYPT_PASSWORD_COST plain"

end
