(* ===== verification/JsObject.thy ===== *)
theory JsObject
  imports Main
begin

section \<open>Properties of request bodies\<close>

text \<open>
  A property of a request body can be missing (or \<open>undefined\<close>), \<open>null\<close> or a value; the optional
  validators let all three through. The operators the services apply to them are \<open>!== undefined\<close>,
  \<open>??\<close> and truthiness.
\<close>

datatype 'a js_field = Undefined | Null | Value 'a

definition defined :: "'a js_field \<Rightarrow> bool" where
  "defined f \<longleftrightarrow> f \<noteq> Undefined"

text \<open>\<open>f ?? d\<close>\<close>

definition or_default :: "'a js_field \<Rightarrow> 'a \<Rightarrow> 'a" where
  "or_default f d = (case f of Value v \<Rightarrow> v | _ \<Rightarrow> d)"

text \<open>\<open>f ?? null\<close>\<close>

definition or_null :: "'a js_field \<Rightarrow> 'a option" where
  "or_null f = (case f of Value v \<Rightarrow> Some v | _ \<Rightarrow> None)"

text \<open>A nullable column after \<open>if (f !== undefined) patch.column = f\<close>.\<close>

definition patched :: "'a js_field \<Rightarrow> 'a option \<Rightarrow> 'a option" where
  "patched f old = (case f of Undefined \<Rightarrow> old | Null \<Rightarrow> None | Value v \<Rightarrow> Some v)"

lemma js_field_simps [simp]:
  "defined Undefined = False" "defined Null = True" "defined (Value v) = True"
  "or_default Undefined d = d" "or_default Null d = d" "or_default (Value v) d = v"
  "or_null Undefined = None" "or_null Null = None" "or_null (Value v) = Some v"
  "patched Undefined x = x" "patched Null x = None" "patched (Value v) x = Some v"
  by (simp_all add: defined_def or_default_def or_null_def patched_def)

end
