(* ===== verification/AccessControl.thy ===== *)
theory AccessControl
  imports Entities
begin

section \<open>Who may call what (strategies, guards, decorators, RLS interceptor)\<close>

text \<open>
  The claims of a verified token become the user of the request (\<open>JwtStrategy\<close>,
  \<open>JwtRefreshStrategy\<close>), the global \<open>JwtAuthGuard\<close> and the \<open>RolesGuard\<close> decide from the metadata
  of a route, \<open>CurrentUser\<close> hands the user to a handler, and \<open>RlsInterceptor\<close> runs the handler inside a
  transaction that carries the caller's ids. Verifying a token (passport-jwt) is an argument: it yields the
  claims of a token that is signed with the secret and not expired.
\<close>

subsection \<open>Strategies\<close>

record jwt_claims =
  jc_sub :: "string option"
  jc_type :: "string option"
  jc_email :: "string option"
  jc_locale :: "string option"
  jc_role :: "string option"
  jc_jti :: "nat option"

record authenticated_user =
  us_id :: "uuid option"
  us_adminId :: "uuid option"
  us_type :: "string option"
  us_role :: "string option"
  us_email :: "string option"
  us_locale :: "string option"

definition falsy :: "string option \<Rightarrow> bool" where
  "falsy x \<longleftrightarrow> x = None \<or> x = Some ''''"

text \<open>The constructors refuse to start without a secret.\<close>

definition strategy_secret :: "(string \<rightharpoonup> string) \<Rightarrow> string \<Rightarrow> string result" where
  "strategy_secret config key =
     (if falsy (config key) then throw (PlainError (key @ '' is not configured'')) else ok (the (config key)))"

definition jwt_validate :: "jwt_claims \<Rightarrow> authenticated_user result" where
  "jwt_validate payload =
     (if falsy (jc_sub payload) \<or> falsy (jc_type payload) then throw (UnauthorizedException ''Invalid token payload'')
      else if jc_type payload = Some ''admin''
      then ok \<lparr>us_id = None, us_adminId = jc_sub payload, us_type = Some ''admin'', us_role = jc_role payload,
               us_email = jc_email payload, us_locale = jc_locale payload\<rparr>
      else ok \<lparr>us_id = jc_sub payload, us_adminId = None, us_type = Some ''student'', us_role = None,
               us_email = jc_email payload, us_locale = jc_locale payload\<rparr>)"

text \<open>The refresh token rides in the cookie; \<open>rawToken\<close> goes to the service with the payload.\<close>

definition jwt_refresh_validate :: "string option \<Rightarrow> jwt_claims \<Rightarrow> (jwt_claims \<times> string) result" where
  "jwt_refresh_validate cookie payload =
     (if falsy (jc_sub payload) \<or> falsy (jc_type payload) \<or> jc_jti payload = None
      then throw (UnauthorizedException ''Invalid refresh token payload'')
      else if falsy cookie then throw (UnauthorizedException ''Missing refresh token'')
      else ok (payload, the cookie))"

subsection \<open>Guards\<close>

text \<open>Metadata of a route: what the decorators put on the handler and on its class.\<close>

record route =
  ro_public :: "bool option \<times> bool option"
  ro_roles :: "string list option \<times> string list option"

text \<open>\<open>reflector.getAllAndOverride(key, [handler, class])\<close>\<close>

definition getAllAndOverride :: "'a option \<times> 'a option \<Rightarrow> 'a option" where
  "getAllAndOverride m = (case fst m of Some v \<Rightarrow> Some v | None \<Rightarrow> snd m)"

definition jwt_guard ::
  "(string \<Rightarrow> jwt_claims option) \<Rightarrow> route \<Rightarrow> string option \<Rightarrow> authenticated_user option result" where
  "jwt_guard verify r bearer =
     (if getAllAndOverride (ro_public r) = Some True then ok None
      else (case bearer of
          None \<Rightarrow> throw (UnauthorizedException ''Unauthorized'')
        | Some token \<Rightarrow>
            (case verify token of
               None \<Rightarrow> throw (UnauthorizedException ''Unauthorized'')
             | Some claims \<Rightarrow>
                 (case jwt_validate claims of Inl e \<Rightarrow> throw e | Inr u \<Rightarrow> ok (Some u)))))"

text \<open>\<open>JwtRefreshGuard\<close> takes the token from the cookie.\<close>

definition jwt_refresh_guard ::
  "(string \<Rightarrow> jwt_claims option) \<Rightarrow> string option \<Rightarrow> (jwt_claims \<times> string) result" where
  "jwt_refresh_guard verify cookie = (case cookie of
      None \<Rightarrow> throw (UnauthorizedException ''Unauthorized'')
    | Some token \<Rightarrow>
        (case verify token of
           None \<Rightarrow> throw (UnauthorizedException ''Unauthorized'')
         | Some claims \<Rightarrow> jwt_refresh_validate cookie claims))"

definition role_text :: "admin_role \<Rightarrow> string" where
  "role_text r = (case r of SUPER_ADMIN \<Rightarrow> ''super_admin'' | LEARNING_ADMIN \<Rightarrow> ''learning_admin''
     | CONTENT_CREATOR \<Rightarrow> ''content_creator'' | FINANCE_ADMIN \<Rightarrow> ''finance_admin'' | SUPPORT_ADMIN \<Rightarrow> ''support_admin'')"

definition roles_guard :: "route \<Rightarrow> authenticated_user option \<Rightarrow> unit result" where
  "roles_guard r user = (case getAllAndOverride (ro_roles r) of
      None \<Rightarrow> ok ()
    | Some [] \<Rightarrow> ok ()
    | Some required \<Rightarrow>
        (case user of
           None \<Rightarrow> throw (ForbiddenException ''Insufficient permissions'')
         | Some u \<Rightarrow>
             if falsy (us_role u) then throw (ForbiddenException ''Insufficient permissions'')
             else if us_role u = Some (role_text SUPER_ADMIN) \<or> the (us_role u) \<in> set required then ok ()
             else throw (ForbiddenException ''Insufficient permissions'')))"

text \<open>\<open>@CurrentUser()\<close> and \<open>@CurrentUser('id')\<close>\<close>

definition currentUser_id :: "authenticated_user option \<Rightarrow> uuid option" where
  "currentUser_id user = (case user of None \<Rightarrow> None | Some u \<Rightarrow> us_id u)"

text \<open>The check at the head of the learning and profile controllers.\<close>

definition requireStudent :: "authenticated_user option \<Rightarrow> uuid result" where
  "requireStudent user = (case user of
      None \<Rightarrow> throw (ForbiddenException ''This endpoint is for student accounts only'')
    | Some u \<Rightarrow>
        if us_type u \<noteq> Some ''student'' \<or> falsy (us_id u)
        then throw (ForbiddenException ''This endpoint is for student accounts only'')
        else ok (the (us_id u)))"

subsection \<open>The RLS interceptor\<close>

text \<open>The calls on the query runner and the handler, in the order they are made. \<open>fails\<close> says which call of
  the driver throws.\<close>

datatype runner_call =
    Connect
  | StartTransaction
  | SetConfig string string
  | Handle
  | Commit
  | Rollback
  | Release

text \<open>The statements before the handler.\<close>

definition rls_settings :: "authenticated_user \<Rightarrow> string \<Rightarrow> runner_call list" where
  "rls_settings u ip =
     (case us_id u of Some i \<Rightarrow> if i = '''' then [] else [SetConfig ''app.current_user_id'' i] | None \<Rightarrow> []) @
     (case us_adminId u of Some i \<Rightarrow> if i = '''' then [] else [SetConfig ''app.current_admin_id'' i] | None \<Rightarrow> []) @
     [SetConfig ''app.current_ip'' ip]"

text \<open>Awaiting calls one after the other up to the first that throws.\<close>

fun run_calls :: "(runner_call \<Rightarrow> exc option) \<Rightarrow> runner_call list \<Rightarrow> exc option \<times> runner_call list" where
  "run_calls fails [] = (None, [])"
| "run_calls fails (c # cs) = (case fails c of
      Some e \<Rightarrow> (Some e, [c])
    | None \<Rightarrow> (case run_calls fails cs of (r, calls) \<Rightarrow> (r, c # calls)))"

text \<open>The body of the \<open>try\<close>: settings, handler, commit.\<close>

definition rls_try ::
  "(runner_call \<Rightarrow> exc option) \<Rightarrow> authenticated_user \<Rightarrow> string \<Rightarrow> 'a result \<Rightarrow> 'a result \<times> runner_call list" where
  "rls_try fails u ip handled =
     (case run_calls fails (rls_settings u ip) of
        (Some e, calls) \<Rightarrow> (throw e, calls)
      | (None, calls) \<Rightarrow>
          (case handled of
             Inl e \<Rightarrow> (throw e, calls @ [Handle])
           | Inr v \<Rightarrow>
               (case fails Commit of
                  Some e \<Rightarrow> (throw e, calls @ [Handle, Commit])
                | None \<Rightarrow> (ok v, calls @ [Handle, Commit]))))"

text \<open>With \<open>catch\<close> (the transaction is active until a COMMIT has succeeded) and \<open>finally\<close>.\<close>

definition runWithRlsContext ::
  "(runner_call \<Rightarrow> exc option) \<Rightarrow> authenticated_user \<Rightarrow> string \<Rightarrow> 'a result \<Rightarrow> 'a result \<times> runner_call list" where
  "runWithRlsContext fails u ip handled =
     (case run_calls fails [Connect, StartTransaction] of
        (Some e, calls) \<Rightarrow> (throw e, calls)
      | (None, calls) \<Rightarrow>
          (case rls_try fails u ip handled of
             (r, tried) \<Rightarrow>
               (case (case r of
                   Inr v \<Rightarrow> (ok v, [])
                 | Inl e \<Rightarrow> (case fails Rollback of Some e' \<Rightarrow> (throw e', [Rollback]) | None \<Rightarrow> (throw e, [Rollback]))) of
                 (r2, caught) \<Rightarrow>
                   (case fails Release of
                      Some e \<Rightarrow> (throw e, calls @ tried @ caught @ [Release])
                    | None \<Rightarrow> (r2, calls @ tried @ caught @ [Release])))))"

definition intercept ::
  "(runner_call \<Rightarrow> exc option) \<Rightarrow> authenticated_user option \<Rightarrow> string \<Rightarrow> 'a result \<Rightarrow> 'a result \<times> runner_call list" where
  "intercept fails user ip handled = (case user of
      None \<Rightarrow> (handled, [Handle])
    | Some u \<Rightarrow>
        if falsy (us_id u) \<and> falsy (us_adminId u) then (handled, [Handle])
        else runWithRlsContext fails u ip handled)"

text \<open>What a handler sees as \<open>req.rlsRunner\<close>: the value of \<open>app.current_user_id\<close> on the runner, if there is one.\<close>

definition rls_runner :: "authenticated_user option \<Rightarrow> string option option" where
  "rls_runner user = (case user of
      None \<Rightarrow> None
    | Some u \<Rightarrow> if falsy (us_id u) \<and> falsy (us_adminId u) then None else Some (if falsy (us_id u) then None else us_id u))"

subsection \<open>Facts\<close>

lemma jwt_validate_ok:
  "jwt_validate c = Inr u \<Longrightarrow> (us_type u = Some ''student'' \<and> us_role u = None \<and> us_adminId u = None \<and> us_id u = jc_sub c \<or>
     us_type u = Some ''admin'' \<and> us_role u = jc_role c \<and> us_id u = None \<and> us_adminId u = jc_sub c) \<and> \<not> falsy (jc_sub c)"
  by (auto simp: jwt_validate_def split: if_splits)

lemma jwt_guard_ok:
  assumes "jwt_guard verify r bearer = Inr user"
  shows "(getAllAndOverride (ro_public r) = Some True \<and> user = None) \<or>
    (\<exists>token claims u. bearer = Some token \<and> verify token = Some claims \<and> jwt_validate claims = Inr u \<and> user = Some u)"
  using assms by (auto simp: jwt_guard_def split: if_splits option.splits sum.splits)

lemma roles_guard_ok:
  assumes "roles_guard r user = Inr x" and "getAllAndOverride (ro_roles r) = Some rs" and "rs \<noteq> []"
  shows "\<exists>u role. user = Some u \<and> us_role u = Some role \<and> (role = ''super_admin'' \<or> role \<in> set rs)"
  using assms by (cases rs) (auto simp: roles_guard_def falsy_def role_text_def split: if_splits option.splits)

lemma requireStudent_ok:
  "requireStudent user = Inr i \<Longrightarrow> i \<noteq> '''' \<and> (\<exists>u. user = Some u \<and> us_type u = Some ''student'' \<and> us_id u = Some i)"
  by (auto simp: requireStudent_def falsy_def split: if_splits option.splits)

lemma rls_runner_student: "requireStudent user = Inr i \<Longrightarrow> rls_runner user = Some (Some i)"
  by (auto dest!: requireStudent_ok simp: rls_runner_def falsy_def)

end
