(* ===== verification/Profile.thy ===== *)
theory Profile
  imports AuthService I18n JsObject AccessControl
begin

section \<open>Profiles (modules/profile)\<close>

text \<open>
  \<open>ProfileService\<close> over the users of the authentication state, and the student endpoints of
  \<open>ProfileController\<close>. The body of an update has one property per updatable field. The DTO class is
  compiled for ES2023, where a declared field is an own property of every instance (\<open>undefined\<close> when
  the request leaves it out); \<open>ownFields\<close> says whether that is so.
\<close>

record update_profile_dto =
  up_firstName :: "string js_field"
  up_lastName :: "string js_field"
  up_phone :: "string js_field"
  up_locale :: "string js_field"
  up_country :: "string js_field"
  up_city :: "string js_field"
  up_street :: "string js_field"
  up_address :: "string js_field"
  up_postalCode :: "string js_field"
  up_occupation :: "string js_field"
  up_position :: "string js_field"
  up_company :: "string js_field"
  up_avatarUrl :: "string js_field"

record profile_response =
  pf_id :: uuid
  pf_email :: string
  pf_firstName :: string
  pf_lastName :: string
  pf_fullName :: string
  pf_phone :: "string option"
  pf_avatarUrl :: "string option"
  pf_country :: "string option"
  pf_city :: "string option"
  pf_street :: "string option"
  pf_address :: "string option"
  pf_postalCode :: "string option"
  pf_occupation :: "string option"
  pf_position :: "string option"
  pf_company :: "string option"
  pf_locale :: string
  pf_direction :: string
  pf_emailVerified :: bool
  pf_createdAt :: instant
  pf_updatedAt :: instant

definition toResponseDto :: "user \<Rightarrow> profile_response" where
  "toResponseDto u =
     (let locale = (if isLocale (u_locale u) then u_locale u else ''en'') in
      \<lparr>pf_id = pk u, pf_email = u_email u, pf_firstName = u_firstName u, pf_lastName = u_lastName u,
       pf_fullName = user_fullName u, pf_phone = u_phone u, pf_avatarUrl = u_avatarUrl u, pf_country = u_country u,
       pf_city = u_city u, pf_street = u_street u, pf_address = u_address u, pf_postalCode = u_postalCode u,
       pf_occupation = u_occupation u, pf_position = u_position u, pf_company = u_company u, pf_locale = locale,
       pf_direction = directionFor locale, pf_emailVerified = u_emailVerified u, pf_createdAt = createdAt u,
       pf_updatedAt = updatedAt u\<rparr>)"

definition find_user :: "uuid \<Rightarrow> auth_state \<Rightarrow> user option" where
  "find_user userId s = find_one (\<lambda>u. pk u = userId) (au_users s)"

definition getProfile :: "uuid \<Rightarrow> auth_state \<Rightarrow> profile_response result" where
  "getProfile userId s = (case find_user userId s of
      None \<Rightarrow> throw (NotFoundException ''Profile not found'')
    | Some u \<Rightarrow> ok (toResponseDto u))"

text \<open>\<open>UPDATABLE_FIELDS\<close> with the value the body has for each.\<close>

definition profile_fields :: "update_profile_dto \<Rightarrow> (string \<times> string js_field) list" where
  "profile_fields d = [(''firstName'', up_firstName d), (''lastName'', up_lastName d), (''phone'', up_phone d),
     (''locale'', up_locale d), (''country'', up_country d), (''city'', up_city d), (''street'', up_street d),
     (''address'', up_address d), (''postalCode'', up_postalCode d), (''occupation'', up_occupation d),
     (''position'', up_position d), (''company'', up_company d), (''avatarUrl'', up_avatarUrl d)]"

text \<open>The loop: a field enters the patch when it is an own property of the body.\<close>

fun collect_patch :: "bool \<Rightarrow> (string \<times> string js_field) list \<Rightarrow> (string \<times> string js_field) list" where
  "collect_patch ownFields [] = []"
| "collect_patch ownFields ((k, v) # fs) =
     (if ownFields \<or> defined v then (k, v) # collect_patch ownFields fs else collect_patch ownFields fs)"

definition patch_value :: "(string \<times> string js_field) list \<Rightarrow> string \<Rightarrow> string js_field" where
  "patch_value patch k = (case map_of patch k of Some v \<Rightarrow> v | None \<Rightarrow> Undefined)"

text \<open>\<open>update(..., patch)\<close>: columns whose value is undefined keep theirs.\<close>

definition patch_user :: "instant \<Rightarrow> (string \<times> string js_field) list \<Rightarrow> user \<Rightarrow> user" where
  "patch_user t patch u = (touch t u)\<lparr>
     u_firstName := or_default (patch_value patch ''firstName'') (u_firstName u),
     u_lastName := or_default (patch_value patch ''lastName'') (u_lastName u),
     u_phone := patched (patch_value patch ''phone'') (u_phone u),
     u_locale := or_default (patch_value patch ''locale'') (u_locale u),
     u_country := patched (patch_value patch ''country'') (u_country u),
     u_city := patched (patch_value patch ''city'') (u_city u),
     u_street := patched (patch_value patch ''street'') (u_street u),
     u_address := patched (patch_value patch ''address'') (u_address u),
     u_postalCode := patched (patch_value patch ''postalCode'') (u_postalCode u),
     u_occupation := patched (patch_value patch ''occupation'') (u_occupation u),
     u_position := patched (patch_value patch ''position'') (u_position u),
     u_company := patched (patch_value patch ''company'') (u_company u),
     u_avatarUrl := patched (patch_value patch ''avatarUrl'') (u_avatarUrl u)\<rparr>"

text \<open>The NOT NULL columns, and the check on the locale.\<close>

definition user_update_error :: "(string \<times> string js_field) list \<Rightarrow> exc option" where
  "user_update_error patch =
     (if Null \<in> patch_value patch ` {''firstName'', ''lastName'', ''locale''}
      then Some (DatabaseError ''violates not-null constraint'')
      else case patch_value patch ''locale'' of
          Value l \<Rightarrow> if locale_check l then None else Some (DatabaseError ''violates check constraint'')
        | _ \<Rightarrow> None)"

definition updateProfile ::
  "bool \<Rightarrow> instant \<Rightarrow> uuid \<Rightarrow> update_profile_dto \<Rightarrow> (auth_state, profile_response) op" where
  "updateProfile ownFields t userId d s =
     (case find_user userId s of
        None \<Rightarrow> (throw (NotFoundException ''Profile not found''), s)
      | Some u \<Rightarrow>
          let patch = collect_patch ownFields (profile_fields d) in
          if patch = [] then (ok (toResponseDto u), s)
          else case user_update_error patch of
              Some e \<Rightarrow> (throw e, s)
            | None \<Rightarrow>
                let s1 = s\<lparr>au_users := update_rows (\<lambda>u. pk u = userId) (patch_user t patch) (au_users s)\<rparr>
                in (case find_user userId s1 of
                      None \<Rightarrow> (throw (DatabaseError ''EntityNotFoundError''), s1)
                    | Some u1 \<Rightarrow> (ok (toResponseDto u1), s1)))"

subsection \<open>ProfileController\<close>

definition controller_getMe :: "authenticated_user option \<Rightarrow> auth_state \<Rightarrow> profile_response result" where
  "controller_getMe user s = (case requireStudent user of Inl e \<Rightarrow> throw e | Inr i \<Rightarrow> getProfile i s)"

definition controller_updateMe ::
  "bool \<Rightarrow> instant \<Rightarrow> authenticated_user option \<Rightarrow> update_profile_dto \<Rightarrow> (auth_state, profile_response) op" where
  "controller_updateMe ownFields t user d s =
     (case requireStudent user of Inl e \<Rightarrow> (throw e, s) | Inr i \<Rightarrow> updateProfile ownFields t i d s)"

text \<open>The response of a change of password also clears the refresh cookie, given by name and path.\<close>

definition controller_updatePassword ::
  "auth_deps \<Rightarrow> request_env \<Rightarrow> authenticated_user option \<Rightarrow> string \<Rightarrow> string \<Rightarrow>
    (auth_state, string \<times> (string \<times> string)) op" where
  "controller_updatePassword D env user currentPassword newPassword s =
     (case requireStudent user of
        Inl e \<Rightarrow> (throw e, s)
      | Inr i \<Rightarrow> bind_op (changePassword D env i currentPassword newPassword)
          (\<lambda>m. return_op (m, (''refreshToken'', ''/api/v1/auth''))) s)"

subsection \<open>What an update changes\<close>

lemma patch_value_simps:
  "patch_value [] k = Undefined" "patch_value ((k', v) # fs) k = (if k' = k then v else patch_value fs k)"
  by (simp_all add: patch_value_def)

lemma patch_value_absent: "k \<notin> fst ` set fs \<Longrightarrow> patch_value (collect_patch own fs) k = Undefined"
  by (induction own fs rule: collect_patch.induct) (auto simp: patch_value_simps)

lemma patch_value_collect:
  "distinct (map fst fs) \<Longrightarrow> patch_value (collect_patch own fs) k = patch_value fs k"
proof (induction own fs rule: collect_patch.induct)
  case (2 own k' v fs)
  then show ?case using patch_value_absent [of k' fs own] by (auto simp: patch_value_simps defined_def)
qed simp

lemma profile_fields_distinct: "distinct (map fst (profile_fields d))"
  by (simp add: profile_fields_def)

lemma collect_empty: "collect_patch own (profile_fields d) = [] \<longleftrightarrow>
  \<not> own \<and> (\<forall>f \<in> snd ` set (profile_fields d). f = Undefined)"
  by (auto simp: profile_fields_def defined_def)

lemma profile_values:
  "patch_value (profile_fields d) ''firstName'' = up_firstName d" "patch_value (profile_fields d) ''lastName'' = up_lastName d"
  "patch_value (profile_fields d) ''phone'' = up_phone d" "patch_value (profile_fields d) ''locale'' = up_locale d"
  "patch_value (profile_fields d) ''country'' = up_country d" "patch_value (profile_fields d) ''city'' = up_city d"
  "patch_value (profile_fields d) ''street'' = up_street d" "patch_value (profile_fields d) ''address'' = up_address d"
  "patch_value (profile_fields d) ''postalCode'' = up_postalCode d"
  "patch_value (profile_fields d) ''occupation'' = up_occupation d"
  "patch_value (profile_fields d) ''position'' = up_position d" "patch_value (profile_fields d) ''company'' = up_company d"
  "patch_value (profile_fields d) ''avatarUrl'' = up_avatarUrl d"
  by (simp_all add: profile_fields_def patch_value_simps)

lemma pk_patch_user [simp]: "pk (patch_user t p u) = pk u"
  by (simp add: patch_user_def)

text \<open>The fields no student can move.\<close>

lemma patch_user_frame:
  "u_email (patch_user t p u) = u_email u \<and> u_passwordHash (patch_user t p u) = u_passwordHash u \<and>
   u_emailVerified (patch_user t p u) = u_emailVerified u \<and> u_emailVerifiedAt (patch_user t p u) = u_emailVerifiedAt u \<and>
   u_active (patch_user t p u) = u_active u \<and> createdAt (patch_user t p u) = createdAt u"
  by (simp add: patch_user_def touch_def)

end
