(* ===== verification/AuthFacts.thy ===== *)
theory AuthFacts
  imports Profile
begin

section \<open>Facts about authentication\<close>

text \<open>
  The invariant of the auth tables (serial keys are unique and below their sequence, emails and user
  keys are unique), kept by every operation; spent tokens stay spent in every reachable state; and
  what rotation, revocation and token consumption do to the rows.
\<close>

subsection \<open>The invariant\<close>

definition auth_inv :: "auth_state \<Rightarrow> bool" where
  "auth_inv s \<longleftrightarrow> distinct (map serial (au_refresh s)) \<and> (\<forall>r \<in> set (au_refresh s). serial r < au_nextRefresh s) \<and>
     distinct (map serial (au_tokens s)) \<and> (\<forall>r \<in> set (au_tokens s). serial r < au_nextToken s) \<and>
     distinct (map u_email (au_users s)) \<and> distinct (map pk (au_users s))"

lemma serial_revoke [simp]: "serial (revoke t r) = serial r" "rt_userId (revoke t r) = rt_userId r"
  "rt_adminId (revoke t r) = rt_adminId r" "rt_revokedAt (revoke t r) = Some t"
  by (simp_all add: revoke_def)

lemma serial_use_token [simp]: "serial (use_token t r) = serial r" "tk_usedAt (use_token t r) = Some t"
  "tk_userId (use_token t r) = tk_userId r"
  by (simp_all add: use_token_def)

lemma all_update_rows: "(\<And>r. Q (f r) = Q r) \<Longrightarrow> (\<forall>r \<in> set (update_rows P f t). Q r) = (\<forall>r \<in> set t. Q r)"
  by (induction t) (auto simp: update_rows_def)

lemma inv_update_refresh:
  "auth_inv s \<Longrightarrow> (\<And>r. serial (f r) = serial r) \<Longrightarrow> auth_inv (s\<lparr>au_refresh := update_rows P f (au_refresh s)\<rparr>)"
  by (simp add: auth_inv_def all_update_rows)

lemma inv_update_tokens:
  "auth_inv s \<Longrightarrow> (\<And>r. serial (f r) = serial r) \<Longrightarrow> auth_inv (s\<lparr>au_tokens := update_rows P f (au_tokens s)\<rparr>)"
  by (simp add: auth_inv_def all_update_rows)

lemma inv_update_users:
  "auth_inv s \<Longrightarrow> (\<And>u. pk (f u) = pk u) \<Longrightarrow> (\<And>u. u_email (f u) = u_email u) \<Longrightarrow>
   auth_inv (s\<lparr>au_users := update_rows P f (au_users s)\<rparr>)"
  by (simp add: auth_inv_def)

lemma inv_claim_tokens: "auth_inv s \<Longrightarrow> auth_inv (s\<lparr>au_tokens := snd (claim_rows unused_token (use_token t) n (au_tokens s))\<rparr>)"
  by (simp add: claim_rows_def inv_update_tokens)

lemma inv_claim_refresh: "auth_inv s \<Longrightarrow> auth_inv (s\<lparr>au_refresh := snd (claim_rows live_refresh (revoke t) n (au_refresh s))\<rparr>)"
  by (simp add: claim_rows_def inv_update_refresh)

lemma fresh_serial: "auth_inv s \<Longrightarrow> au_nextRefresh s \<notin> serial ` set (au_refresh s)"
  "auth_inv s \<Longrightarrow> au_nextToken s \<notin> serial ` set (au_tokens s)"
  by (auto simp: auth_inv_def)

subsection \<open>Issuing\<close>

definition issued_row :: "auth_deps \<Rightarrow> request_env \<Rightarrow> uuid \<Rightarrow> account_type \<Rightarrow> nat \<Rightarrow> refresh_token" where
  "issued_row D env sub ty jti =
     \<lparr>serial = jti, int_createdAt = now env, int_updatedAt = now env,
      rt_userId = (if ty = StudentAccount then Some sub else None),
      rt_adminId = (if ty = AdminAccount then Some sub else None),
      rt_ownerType = (if ty = AdminAccount then OWNER_ADMIN else OWNER_USER),
      rt_tokenHash = bc_hash (ad_bcrypt D) (salt env) BCRYPT_TOKEN_COST
        (jwt_sign_refresh (ad_jwt D) (ad_jwtRefreshSecret D) \<lparr>rp_sub = sub, rp_type = ty, rp_jti = jti\<rparr> (ad_refreshTtlSec D) (now env)),
      rt_expiresAt = now env + ad_refreshTtlSec D * 1000, rt_revokedAt = None\<rparr>"

lemma update_rows_absent: "(\<And>r. r \<in> set t \<Longrightarrow> \<not> P r) \<Longrightarrow> update_rows P f t = t"
  by (auto simp: update_rows_def intro: map_idI)

lemma issueRefreshToken_inv:
  assumes "auth_inv s"
  shows "issueRefreshToken D env sub ty s =
    (Inr (jwt_sign_refresh (ad_jwt D) (ad_jwtRefreshSecret D)
        \<lparr>rp_sub = sub, rp_type = ty, rp_jti = au_nextRefresh s\<rparr> (ad_refreshTtlSec D) (now env)),
     s\<lparr>au_refresh := au_refresh s @ [issued_row D env sub ty (au_nextRefresh s)], au_nextRefresh := au_nextRefresh s + 1\<rparr>)"
proof -
  have fresh: "au_nextRefresh s \<notin> serial ` set (au_refresh s)" using assms by (rule fresh_serial(1))
  have "update_rows (\<lambda>r. serial r = au_nextRefresh s) f (au_refresh s) = au_refresh s" for f
    using fresh by (intro update_rows_absent) (auto simp: image_iff)
  then show ?thesis
    using fresh by (simp add: issueRefreshToken_def Let_def insert_row_def update_rows_append issued_row_def)
qed

lemma inv_issued_refresh: "auth_inv s \<Longrightarrow> serial r = au_nextRefresh s \<Longrightarrow>
    auth_inv (s\<lparr>au_refresh := au_refresh s @ [r], au_nextRefresh := au_nextRefresh s + 1\<rparr>)"
  using fresh_serial(1) [of s] by (auto simp: auth_inv_def less_Suc_eq)

lemma serial_issued_row [simp]: "serial (issued_row D env sub ty n) = n" "rt_revokedAt (issued_row D env sub ty n) = None"
  by (simp_all add: issued_row_def)

lemma issueStudentSession_inv:
  assumes "auth_inv s"
  shows "\<exists>login token. issueStudentSession D env u s =
    (Inr (login, token), s\<lparr>au_refresh := au_refresh s @ [issued_row D env (pk u) StudentAccount (au_nextRefresh s)],
       au_nextRefresh := au_nextRefresh s + 1\<rparr>) \<and> ar_id (lr_user login) = pk u"
  using issueRefreshToken_inv [OF assms] by (simp add: issueStudentSession_def Let_def bind_op_def)

lemma issueAdminSession_inv:
  assumes "auth_inv s"
  shows "\<exists>login token. issueAdminSession D env a s =
    (Inr (login, token), s\<lparr>au_refresh := au_refresh s @ [issued_row D env (pk a) AdminAccount (au_nextRefresh s)],
       au_nextRefresh := au_nextRefresh s + 1\<rparr>) \<and> ar_id (lr_user login) = pk a"
  using issueRefreshToken_inv [OF assms] by (simp add: issueAdminSession_def Let_def bind_op_def)

lemma inv_issueStudentSession: "auth_inv s \<Longrightarrow> auth_inv (snd (issueStudentSession D env u s))"
  using issueStudentSession_inv [of s D env u] inv_issued_refresh [of s] by auto

lemma inv_issueAdminSession: "auth_inv s \<Longrightarrow> auth_inv (snd (issueAdminSession D env a s))"
  using issueAdminSession_inv [of s D env a] inv_issued_refresh [of s] by auto

definition token_retired :: "instant \<Rightarrow> uuid \<Rightarrow> auth_token_purpose \<Rightarrow> auth_token list \<Rightarrow> auth_token list" where
  "token_retired t userId purpose rows =
     update_rows (\<lambda>r. tk_userId r = userId \<and> tk_purpose r = purpose \<and> tk_usedAt r = None) (use_token t) rows"

definition issued_token :: "auth_deps \<Rightarrow> request_env \<Rightarrow> uuid \<Rightarrow> auth_token_purpose \<Rightarrow> int \<Rightarrow> nat \<Rightarrow> auth_token" where
  "issued_token D env userId purpose ttlHours n =
     \<lparr>serial = n, int_createdAt = now env, int_updatedAt = now env, tk_userId = userId, tk_purpose = purpose,
      tk_tokenHash = bc_hash (ad_bcrypt D) (salt env) BCRYPT_TOKEN_COST (to_hex (randomBytes env)),
      tk_expiresAt = now env + ttlHours * 60 * 60 * 1000, tk_usedAt = None\<rparr>"

lemma issued_token_simps [simp]:
  "serial (issued_token D env u p h n) = n" "tk_userId (issued_token D env u p h n) = u"
  "tk_purpose (issued_token D env u p h n) = p" "tk_usedAt (issued_token D env u p h n) = None"
  "tk_expiresAt (issued_token D env u p h n) = now env + h * 60 * 60 * 1000"
  by (simp_all add: issued_token_def)

lemma issueAuthToken_inv:
  assumes "auth_inv s"
  shows "issueAuthToken D env userId purpose ttl s =
    (Inr (to_hex (randomBytes env)),
     s\<lparr>au_tokens := token_retired (now env) userId purpose (au_tokens s) @ [issued_token D env userId purpose ttl (au_nextToken s)],
       au_nextToken := au_nextToken s + 1\<rparr>)"
proof -
  have "au_nextToken s \<notin> serial ` set (token_retired (now env) userId purpose (au_tokens s))"
    using fresh_serial(2) [OF assms] by (auto simp: token_retired_def set_update_rows image_iff split: if_splits)
  then show ?thesis by (simp add: issueAuthToken_def Let_def insert_row_def token_retired_def issued_token_def)
qed

lemma inv_issueAuthToken: "auth_inv s \<Longrightarrow> auth_inv (snd (issueAuthToken D env userId purpose ttl s))"
proof -
  assume inv: "auth_inv s"
  have i: "auth_inv (s\<lparr>au_tokens := token_retired (now env) userId purpose (au_tokens s)\<rparr>)"
    unfolding token_retired_def using inv by (rule inv_update_tokens) simp
  show ?thesis
    using i fresh_serial(2) [OF i] by (auto simp: issueAuthToken_inv [OF inv] auth_inv_def less_Suc_eq)
qed

subsection \<open>Every operation keeps the invariant and what is spent\<close>

definition spent :: "auth_state \<Rightarrow> nat + nat \<Rightarrow> bool" where
  "spent s k = (case k of
      Inl n \<Rightarrow> \<exists>r \<in> set (au_refresh s). serial r = n \<and> rt_revokedAt r \<noteq> None
    | Inr n \<Rightarrow> \<exists>r \<in> set (au_tokens s). serial r = n \<and> tk_usedAt r \<noteq> None)"

text \<open>\<open>s'\<close> follows \<open>s\<close>: the invariant holds and all that is spent stays spent.\<close>

definition follows :: "auth_state \<Rightarrow> auth_state \<Rightarrow> bool" where
  "follows s s' \<longleftrightarrow> (auth_inv s \<longrightarrow> auth_inv s') \<and> (\<forall>k. spent s k \<longrightarrow> spent s' k)"

lemma follows_refl [simp]: "follows s s"
  by (simp add: follows_def)

lemma follows_trans [trans]: "follows s t \<Longrightarrow> follows t u \<Longrightarrow> follows s u"
  by (simp add: follows_def)

lemma spent_update:
  "(\<And>r. serial (f r) = serial r) \<Longrightarrow> (\<And>r. mark r \<noteq> None \<Longrightarrow> mark (f r) \<noteq> None) \<Longrightarrow>
   \<exists>r \<in> set t. serial r = n \<and> mark r \<noteq> None \<Longrightarrow> \<exists>r \<in> set (update_rows P f t). serial r = n \<and> mark r \<noteq> None"
proof -
  assume f: "\<And>r. serial (f r) = serial r" "\<And>r. mark r \<noteq> None \<Longrightarrow> mark (f r) \<noteq> None"
  assume "\<exists>r \<in> set t. serial r = n \<and> mark r \<noteq> None"
  then obtain r where r: "r \<in> set t" "serial r = n" "mark r \<noteq> None" by blast
  then have "(if P r then f r else r) \<in> set (update_rows P f t)" by (simp add: set_update_rows)
  moreover have "serial (if P r then f r else r) = n \<and> mark (if P r then f r else r) \<noteq> None" using r f by simp
  ultimately show ?thesis by blast
qed

lemma follows_refresh:
  "(\<And>r. serial (f r) = serial r) \<Longrightarrow> (\<And>r. rt_revokedAt r \<noteq> None \<Longrightarrow> rt_revokedAt (f r) \<noteq> None) \<Longrightarrow>
   follows s (s\<lparr>au_refresh := update_rows P f (au_refresh s)\<rparr>)"
  using spent_update [of f rt_revokedAt "au_refresh s" _ P]
  by (auto simp: follows_def inv_update_refresh spent_def split: sum.splits)

lemma follows_tokens:
  "(\<And>r. serial (f r) = serial r) \<Longrightarrow> (\<And>r. tk_usedAt r \<noteq> None \<Longrightarrow> tk_usedAt (f r) \<noteq> None) \<Longrightarrow>
   follows s (s\<lparr>au_tokens := update_rows P f (au_tokens s)\<rparr>)"
  using spent_update [of f tk_usedAt "au_tokens s" _ P]
  by (auto simp: follows_def inv_update_tokens spent_def split: sum.splits)

lemma follows_users:
  "(\<And>u. pk (f u) = pk u) \<Longrightarrow> (\<And>u. u_email (f u) = u_email u) \<Longrightarrow>
   follows s (s\<lparr>au_users := update_rows P f (au_users s)\<rparr>)"
  by (simp add: follows_def inv_update_users spent_def split: sum.split)

lemma follows_revokeAll: "follows s (revokeAllRefreshTokens t sub ty s)"
  unfolding revokeAllRefreshTokens_def by (rule follows_refresh) simp_all

lemma follows_claims:
  "follows s (s\<lparr>au_refresh := snd (claim_rows live_refresh (revoke t) n (au_refresh s))\<rparr>)"
  "follows s (s\<lparr>au_tokens := snd (claim_rows unused_token (use_token t) n (au_tokens s))\<rparr>)"
  unfolding claim_rows_def by (simp_all add: follows_refresh follows_tokens)

lemma follows_set_password: "follows s (set_password D env u p s)"
  unfolding set_password_def by (rule follows_users) (simp_all add: touch_def)

lemma follows_issueStudent: "auth_inv s \<Longrightarrow> follows s (snd (issueStudentSession D env u s))"
  using issueStudentSession_inv [of s D env u] inv_issueStudentSession [of s D env u]
  by (auto simp: follows_def spent_def split: sum.splits)

lemma follows_issueAdmin: "auth_inv s \<Longrightarrow> follows s (snd (issueAdminSession D env a s))"
  using issueAdminSession_inv [of s D env a] inv_issueAdminSession [of s D env a]
  by (auto simp: follows_def spent_def split: sum.splits)

lemma follows_issueAuthToken:
  assumes "auth_inv s"
  shows "follows s (snd (issueAuthToken D env u p ttl s))"
proof -
  let ?t = "s\<lparr>au_tokens := token_retired (now env) u p (au_tokens s)\<rparr>"
  have "follows s ?t" unfolding token_retired_def by (rule follows_tokens) simp_all
  moreover have "spent ?t k \<Longrightarrow> spent (snd (issueAuthToken D env u p ttl s)) k" for k
    by (auto simp: issueAuthToken_inv [OF assms] spent_def split: sum.splits)
  ultimately show ?thesis
    using inv_issueAuthToken [OF assms, of D env u p ttl] assms by (simp add: follows_def)
qed

lemma follows_mail [simp]: "follows s (s\<lparr>au_mail := m\<rparr>)"
  by (simp add: follows_def auth_inv_def spent_def split: sum.split)

lemma sendMail_state: "\<exists>m. sendMail D e s = (Inr (), s\<lparr>au_mail := m\<rparr>)"
  using send_never_throws [of "ad_mail D" "ad_sendgrid D" e "au_mail s"]
  by (auto simp: sendMail_def split: prod.split)

lemma bind_follows:
  "follows s (snd (m s)) \<Longrightarrow> (\<And>x t. m s = (Inr x, t) \<Longrightarrow> follows t (snd (f x t))) \<Longrightarrow> follows s (snd (bind_op m f s))"
  by (auto simp: bind_op_def split: prod.splits sum.splits intro: follows_trans)

lemma follows_sendMail: "follows s (snd (sendMail D e s))"
  using sendMail_state [of D e s] by auto

lemma follows_consume: "follows s (snd (consumeAuthToken D t plain p s))"
  using follows_claims(2) [of s t]
  by (auto simp: consumeAuthToken_def split: option.split prod.split bool.split) (metis snd_conv)

lemma follows_dispatch: "auth_inv s \<Longrightarrow> follows s (snd (dispatchVerificationEmail D env u s))"
  unfolding dispatchVerificationEmail_def by (intro bind_follows follows_issueAuthToken follows_sendMail)

lemma follows_insert_user: "insert_user u s = Inr users \<Longrightarrow> follows s (s\<lparr>au_users := users\<rparr>)"
  by (auto simp: insert_user_def insert_row_ok_iff follows_def auth_inv_def spent_def split: if_splits sum.splits)

lemma follows_inv: "follows s s' \<Longrightarrow> auth_inv s \<Longrightarrow> auth_inv s'"
  by (simp add: follows_def)

lemma follows_register:
  assumes "auth_inv s"
  shows "follows s (snd (register D env d s))"
proof (cases "insert_user (new_user D env d) s")
  case (Inr users)
  from follows_insert_user [OF this] have "follows s (s\<lparr>au_users := users\<rparr>)" .
  moreover from follows_inv [OF this assms] have
    "follows (s\<lparr>au_users := users\<rparr>) (snd (bind_op (dispatchVerificationEmail D env (new_user D env d))
       (\<lambda>_. return_op (pk (new_user D env d), ''Registration successful. Check your email to verify your account.''))
       (s\<lparr>au_users := users\<rparr>)))"
    by (intro bind_follows) (simp_all add: follows_dispatch)
  ultimately show ?thesis by (auto simp: register_def Let_def Inr split: option.split intro: follows_trans)
qed (auto simp: register_def Let_def split: option.split)

lemma follows_verifyEmail: "follows s (snd (verifyEmail D t plain s))"
  unfolding verifyEmail_def by (intro bind_follows follows_consume) (simp add: follows_users touch_def)

lemma follows_logins:
  assumes "auth_inv s"
  shows "follows s (snd (loginStudent D env e p s))" "follows s (snd (loginAdmin D env e p s))"
    "follows s (snd (reissue D env pl s))"
  using follows_issueStudent [OF assms] follows_issueAdmin [OF assms]
  by (auto simp: loginStudent_def loginAdmin_def reissue_def split: option.split)

lemma follows_refresh_op:
  assumes "auth_inv s"
  shows "follows s (snd (refresh D env p raw s))"
proof (cases "refresh_guard D (now env) p raw s")
  case (ClaimRow r)
  obtain b rows where c: "claim_rows live_refresh (revoke (now env)) (serial r) (au_refresh s) = (b, rows)"
    by (cases "claim_rows live_refresh (revoke (now env)) (serial r) (au_refresh s)")
  with follows_claims(1) [of s "now env" "serial r"] have f: "follows s (s\<lparr>au_refresh := rows\<rparr>)" by simp
  from follows_logins(3) [OF follows_inv [OF f assms]] f c ClaimRow show ?thesis
    by (cases b) (auto simp: refresh_def follows_revokeAll intro: follows_trans)
qed (simp_all add: refresh_def follows_revokeAll)

lemma follows_passwords:
  assumes "auth_inv s"
  shows "follows s (snd (forgotPassword D env e s))" "follows s (snd (resetPassword D env t p s))"
    "follows s (snd (changePassword D env u a b s))" "follows s (snd (logout x pl s))"
proof -
  show "follows s (snd (forgotPassword D env e s))"
  proof -
    have "follows s (snd (bind_op (issueAuthToken D env i PASSWORD_RESET PASSWORD_RESET_TTL_HOURS)
       (\<lambda>plain. bind_op (sendMail D (m plain)) (\<lambda>_. return_op FORGOT_MESSAGE)) s))" for i m
      by (intro bind_follows follows_issueAuthToken [OF assms] follows_sendMail) simp_all
    then show ?thesis by (auto simp: forgotPassword_def split: option.split)
  qed
  show "follows s (snd (resetPassword D env t p s))"
    unfolding resetPassword_def
    by (intro bind_follows follows_consume) (auto intro: follows_trans follows_revokeAll follows_set_password)
  show "follows s (snd (changePassword D env u a b s))"
    by (auto simp: changePassword_def intro: follows_trans follows_revokeAll follows_set_password split: option.split)
  show "follows s (snd (logout x pl s))"
    unfolding logout_def by (simp add: follows_refresh)
qed

subsection \<open>Reachable states\<close>

inductive auth_step :: "auth_deps \<Rightarrow> auth_state \<Rightarrow> auth_state \<Rightarrow> bool" for D where
  register: "auth_step D s (snd (register D env d s))"
| verify: "auth_step D s (snd (verifyEmail D t plain s))"
| login: "auth_step D s (snd (loginStudent D env e p s))"
| login_admin: "auth_step D s (snd (loginAdmin D env e p s))"
| rotate: "auth_step D s (snd (refresh D env pl raw s))"
| logout: "auth_step D s (snd (logout t pl s))"
| forgot: "auth_step D s (snd (forgotPassword D env e s))"
| reset: "auth_step D s (snd (resetPassword D env plain p s))"
| change: "auth_step D s (snd (changePassword D env u a b s))"
| edit_profile: "auth_step D s (snd (updateProfile own t u pd s))"

lemma follows_profile: "follows s (snd (updateProfile own t u pd s))"
proof -
  have "follows s (s\<lparr>au_users := update_rows P (patch_user t p) (au_users s)\<rparr>)" for P p
    by (rule follows_users) (simp_all add: patch_user_frame)
  then show ?thesis by (simp add: updateProfile_def Let_def split: option.split)
qed

lemma auth_step_follows: "auth_step D s s' \<Longrightarrow> auth_inv s \<Longrightarrow> follows s s'"
  by (induction rule: auth_step.induct)
    (auto intro: follows_register follows_verifyEmail follows_logins follows_refresh_op follows_passwords follows_profile)

interpretation auth: monotone_system auth_inv "auth_step D" spent for D
proof (unfold_locales, goal_cases)
  case (1 s s')
  then show ?case using auth_step_follows follows_inv by blast
next
  case (2 s s' k)
  then show ?case using auth_step_follows [of D s s'] by (simp add: follows_def)
qed

subsection \<open>What the operations do\<close>

lemma revokeAll_none_live:
  "\<not> (\<exists>r \<in> set (au_refresh (revokeAllRefreshTokens t sub ty s)). owned_live sub ty r)"
  by (auto simp: revokeAllRefreshTokens_def set_update_rows owned_live_def)

lemma refresh_guard_claimD:
  assumes "refresh_guard D t p raw s = ClaimRow r"
  shows "r \<in> set (au_refresh s)" "serial r = rp_jti p" "t \<le> rt_expiresAt r" "rt_revokedAt r = None"
    "bc_compare (ad_bcrypt D) raw (rt_tokenHash r)"
  using assms
  by (auto simp: refresh_guard_def split: option.splits if_splits dest!: find_one_SomeD)

lemma reissue_okD:
  assumes "auth_inv s" and "reissue D env p s = (Inr (login, token), s')"
  shows "s' = s\<lparr>au_refresh := au_refresh s @ [issued_row D env (rp_sub p) (rp_type p) (au_nextRefresh s)],
      au_nextRefresh := au_nextRefresh s + 1\<rparr> \<and> ar_id (lr_user login) = rp_sub p"
proof (cases "rp_type p")
  case StudentAccount
  with assms(2) obtain u where "pk u = rp_sub p" "issueStudentSession D env u s = (Inr (login, token), s')"
    by (auto simp: reissue_def split: option.splits if_splits dest!: find_one_SomeD)
  with issueStudentSession_inv [OF assms(1), of D env u] StudentAccount show ?thesis by auto
next
  case AdminAccount
  with assms(2) obtain a where "pk a = rp_sub p" "issueAdminSession D env a s = (Inr (login, token), s')"
    by (auto simp: reissue_def split: option.splits if_splits dest!: find_one_SomeD)
  with issueAdminSession_inv [OF assms(1), of D env a] AdminAccount show ?thesis by auto
qed

lemma refresh_okD:
  assumes "auth_inv s" and "refresh D env p raw s = (Inr (login, token), s')"
  shows "\<exists>r. r \<in> set (au_refresh s) \<and> serial r = rp_jti p \<and> now env \<le> rt_expiresAt r \<and> rt_revokedAt r = None \<and>
      bc_compare (ad_bcrypt D) raw (rt_tokenHash r) \<and>
      au_refresh s' = update_rows (live_refresh (rp_jti p)) (revoke (now env)) (au_refresh s) @
        [issued_row D env (rp_sub p) (rp_type p) (au_nextRefresh s)] \<and> ar_id (lr_user login) = rp_sub p"
proof (cases "refresh_guard D (now env) p raw s")
  case (ClaimRow r)
  note g = refresh_guard_claimD [OF ClaimRow]
  let ?rows = "update_rows (live_refresh (serial r)) (revoke (now env)) (au_refresh s)"
  have "fst (claim_rows live_refresh (revoke (now env)) (serial r) (au_refresh s))"
    using g by (auto simp: refresh_claims.claim_open live_refresh_def)
  then have "reissue D env p (s\<lparr>au_refresh := ?rows\<rparr>) = (Inr (login, token), s')"
    using assms(2) ClaimRow by (simp add: refresh_def claim_rows_def)
  moreover have "auth_inv (s\<lparr>au_refresh := ?rows\<rparr>)" by (rule inv_update_refresh [OF assms(1)]) simp
  ultimately show ?thesis using reissue_okD g by fastforce
qed (use assms(2) in \<open>simp_all add: refresh_def\<close>)

lemma first_token_SomeD:
  "first_token D t plain rs = Some r \<Longrightarrow> r \<in> set rs \<and> t \<le> tk_expiresAt r \<and> bc_compare (ad_bcrypt D) plain (tk_tokenHash r)"
  by (induction rs) (auto split: if_splits)

lemma consume_okD:
  assumes "consumeAuthToken D t plain p s = (Inr userId, s')"
  shows "\<exists>r. r \<in> set (au_tokens s) \<and> tk_userId r = userId \<and> tk_purpose r = p \<and> tk_usedAt r = None \<and> t \<le> tk_expiresAt r \<and>
    bc_compare (ad_bcrypt D) plain (tk_tokenHash r) \<and>
    s' = s\<lparr>au_tokens := update_rows (unused_token (serial r)) (use_token t) (au_tokens s)\<rparr>"
proof -
  from assms obtain r where f: "first_token D t plain (token_candidates p (au_tokens s)) = Some r"
    by (auto simp: consumeAuthToken_def split: option.splits)
  from first_token_SomeD [OF f] have "r \<in> set (au_tokens s)" "tk_purpose r = p" "tk_usedAt r = None"
    by (auto simp: token_candidates_def find_rows_def dest!: in_set_takeD)
  with assms f first_token_SomeD [OF f] show ?thesis
    by (auto simp: consumeAuthToken_def claim_rows_def split: bool.splits)
qed

text \<open>Only the 50 newest unused tokens of a purpose are looked at.\<close>

lemma candidates_newest:
  assumes "r \<in> set (token_candidates p rows)"
  shows "card (serial ` {x \<in> set rows. tk_purpose x = p \<and> tk_usedAt x = None \<and> serial r < serial x}) < 50"
proof -
  define ys where "ys = sort_key (\<lambda>x. - int (serial x)) (find_rows (\<lambda>x. tk_purpose x = p \<and> tk_usedAt x = None) rows)"
  have "sorted (map (\<lambda>x. - int (serial x)) ys)" by (simp add: ys_def)
  from assms obtain i where i: "i < 50" "i < length ys" "r = ys ! i"
    by (auto simp: token_candidates_def ys_def in_set_conv_nth)
  have "{x \<in> set ys. serial r < serial x} \<subseteq> set (take i ys)"
  proof
    fix x assume x: "x \<in> {x \<in> set ys. serial r < serial x}"
    then obtain j where j: "j < length ys" "x = ys ! j" by (auto simp: in_set_conv_nth)
    have "j < i"
    proof (rule ccontr)
      assume "\<not> j < i"
      then have "- int (serial (ys ! i)) \<le> - int (serial (ys ! j))"
        using sorted_nth_mono [OF \<open>sorted (map (\<lambda>x. - int (serial x)) ys)\<close>, of i j] j(1) by simp
      with x i(3) j(2) show False by simp
    qed
    then show "x \<in> set (take i ys)" using j i(2) by (auto simp: in_set_conv_nth intro!: exI [of _ j])
  qed
  moreover have "{x \<in> set rows. tk_purpose x = p \<and> tk_usedAt x = None \<and> serial r < serial x} = {x \<in> set ys. serial r < serial x}"
    by (auto simp: ys_def find_rows_def)
  ultimately have "serial ` {x \<in> set rows. tk_purpose x = p \<and> tk_usedAt x = None \<and> serial r < serial x} \<subseteq> serial ` set (take i ys)"
    by auto
  then have "card (serial ` {x \<in> set rows. tk_purpose x = p \<and> tk_usedAt x = None \<and> serial r < serial x}) \<le> card (serial ` set (take i ys))"
    by (rule card_mono [rotated]) simp
  also have "\<dots> \<le> card (set (take i ys))" by (rule card_image_le) simp
  also have "\<dots> \<le> length (take i ys)" by (rule card_length)
  finally show ?thesis using i(1) by simp
qed

end
