(* ===== verification/AuthProperties.thy ===== *)
theory AuthProperties
  imports AuthFacts
begin

section \<open>Properties of authentication\<close>

text \<open>
  The claims about \<open>AuthService\<close> with their witnesses. The small state of the witnesses has one
  verified student with one refresh token; hashing is the identity and a signed token is the text of
  its key.
\<close>

definition demo_deps :: auth_deps where
  "demo_deps = \<lparr>ad_bcrypt = \<lparr>bc_hash = (\<lambda>_ _ p. p), bc_compare = (=)\<rparr>,
     ad_jwt = \<lparr>jwt_sign_access = (\<lambda>_ p _ _. ap_sub p), jwt_sign_refresh = (\<lambda>_ p _ _. nat_text (rp_jti p))\<rparr>,
     ad_mail = \<lparr>mc_isProd = True, mc_fromAddress = ''a'', mc_frontendBaseUrl = ''b''\<rparr>,
     ad_templates = (\<lambda>_. (''x'', ''y'')), ad_year = 2026, ad_sendgrid = (\<lambda>_. True),
     ad_accessTtlSec = 900, ad_refreshTtlSec = 604800, ad_jwtSecret = ''s'', ad_jwtRefreshSecret = ''r''\<rparr>"

definition demo_user :: user where
  "demo_user = \<lparr>pk = ''u1'', createdAt = 0, updatedAt = 0, u_email = ''jane@x.org'', u_passwordHash = ''old'',
     u_firstName = ''Jane'', u_lastName = ''Doe'', u_phone = None, u_avatarUrl = None, u_country = None, u_city = None,
     u_street = None, u_address = None, u_postalCode = None, u_occupation = None, u_position = None, u_company = None,
     u_locale = ''en'', u_emailVerified = True, u_emailVerifiedAt = Some 0, u_active = True\<rparr>"

definition demo_token :: refresh_token where
  "demo_token = \<lparr>serial = 1, int_createdAt = 0, int_updatedAt = 0, rt_userId = Some ''u1'', rt_adminId = None,
     rt_ownerType = OWNER_USER, rt_tokenHash = ''1'', rt_expiresAt = 1000, rt_revokedAt = None\<rparr>"

definition demo_auth :: auth_state where
  "demo_auth = \<lparr>au_users = [demo_user], au_admins = [], au_refresh = [demo_token], au_tokens = [],
     au_nextRefresh = 2, au_nextToken = 1, au_mail = \<lparr>ms_sent = [], ms_log = []\<rparr>\<rparr>"

definition auth_env :: "instant \<Rightarrow> request_env" where
  "auth_env t = \<lparr>now = t, salt = [], randomBytes = [1, 171], newId = ''n'', redisAt = t,
     restoreFails = None, questionsFail = None\<rparr>"

definition demo_payload :: refresh_payload where
  "demo_payload = \<lparr>rp_sub = ''u1'', rp_type = StudentAccount, rp_jti = 1\<rparr>"

lemma demo_auth_inv: "auth_inv demo_auth"
  by (simp add: auth_inv_def demo_auth_def demo_token_def)

text \<open>C5: A refresh that succeeds was given the key of an unrevoked, unexpired token row whose hash matches the
  presented token; it revokes that row and adds exactly one row, live, for the same account, and the
  login it returns is for that account.\<close>

theorem refresh_rotates_token:
  assumes "auth_inv s" and "refresh D env p raw s = (Inr (login, token), s')"
  shows "\<exists>r new. r \<in> set (au_refresh s) \<and> serial r = rp_jti p \<and> rt_revokedAt r = None \<and> now env \<le> rt_expiresAt r \<and>
    bc_compare (ad_bcrypt D) raw (rt_tokenHash r) \<and> ar_id (lr_user login) = rp_sub p \<and>
    au_refresh s' = update_rows (\<lambda>x. serial x = rp_jti p) (revoke (now env)) (au_refresh s) @ [new] \<and>
    owned_live (rp_sub p) (rp_type p) new"
proof -
  from refresh_okD [OF assms] obtain r where r: "r \<in> set (au_refresh s)" "serial r = rp_jti p" "now env \<le> rt_expiresAt r"
    "rt_revokedAt r = None" "bc_compare (ad_bcrypt D) raw (rt_tokenHash r)"
    and rows: "au_refresh s' = update_rows (live_refresh (rp_jti p)) (revoke (now env)) (au_refresh s) @
        [issued_row D env (rp_sub p) (rp_type p) (au_nextRefresh s)]" "ar_id (lr_user login) = rp_sub p" by blast
  have d: "distinct (map serial (au_refresh s))" using assms(1) by (simp add: auth_inv_def)
  have "update_rows (live_refresh (rp_jti p)) (revoke (now env)) (au_refresh s) =
      update_rows (\<lambda>x. serial x = rp_jti p) (revoke (now env)) (au_refresh s)"
    using distinct_key_eq [OF d _ r(1)] r(2,4) by (auto simp: update_rows_def live_refresh_def intro!: map_cong)
  moreover have "owned_live (rp_sub p) (rp_type p) (issued_row D env (rp_sub p) (rp_type p) (au_nextRefresh s))"
    by (cases "rp_type p") (simp_all add: owned_live_def issued_row_def)
  ultimately show ?thesis using r rows by auto
qed

theorem refresh_rotates_token_witness:
  "map rt_revokedAt (au_refresh (snd (refresh demo_deps (auth_env 500) demo_payload ''1'' demo_auth))) = [Some 500, None]"
proof -
  let ?run = "refresh demo_deps (auth_env 500) demo_payload ''1'' demo_auth"
  have "map_sum id snd (fst ?run) = Inr ''2''" by code_simp
  then obtain login where "?run = (Inr (login, ''2''), snd ?run)" by (cases "fst ?run") (auto simp: prod_eq_iff)
  from refresh_rotates_token [OF demo_auth_inv this] obtain new where
    "au_refresh (snd ?run) = update_rows (\<lambda>x. serial x = rp_jti demo_payload) (revoke (now (auth_env 500))) (au_refresh demo_auth) @ [new]"
    "owned_live (rp_sub demo_payload) (rp_type demo_payload) new" by blast
  then show ?thesis
    by (simp add: demo_payload_def auth_env_def demo_auth_def demo_token_def owned_live_def)
qed

text \<open>C12: Presenting a refresh token that was revoked before, within its lifetime, is answered with 401 and
  leaves the account without any live refresh token.\<close>

theorem reused_token_revokes_all:
  assumes "auth_inv s" and "r \<in> set (au_refresh s)" "serial r = rp_jti p" "rt_revokedAt r \<noteq> None" "now env \<le> rt_expiresAt r"
  shows "fst (refresh D env p raw s) = Inl session_invalidated \<and>
    (\<forall>x \<in> set (au_refresh (snd (refresh D env p raw s))). \<not> owned_live (rp_sub p) (rp_type p) x)"
proof -
  have d: "distinct (map serial (au_refresh s))" using assms(1) by (simp add: auth_inv_def)
  have "find_one (\<lambda>x. serial x = rp_jti p) (au_refresh s) = Some r"
    using find_one_key_unique [OF d assms(2)] assms(3) by simp
  then have "refresh_guard D (now env) p raw s = RevokeAll" using assms(4,5) by (simp add: refresh_guard_def)
  then show ?thesis using revokeAll_none_live by (auto simp: refresh_def)
qed

theorem reused_token_revokes_all_witness:
  "let s = demo_auth\<lparr>au_refresh := [revoke 400 demo_token, demo_token\<lparr>serial := 0\<rparr>]\<rparr> in
     fst (refresh demo_deps (auth_env 500) demo_payload ''1'' s) = Inl session_invalidated"
proof -
  let ?s = "demo_auth\<lparr>au_refresh := [revoke 400 demo_token, demo_token\<lparr>serial := 0\<rparr>]\<rparr>"
  have "auth_inv ?s" by (simp add: auth_inv_def demo_auth_def demo_token_def)
  from reused_token_revokes_all [OF this, of "revoke 400 demo_token" demo_payload "auth_env 500"] show ?thesis
    by (simp add: demo_payload_def demo_token_def auth_env_def Let_def revoke_def)
qed

text \<open>C10: In no state reached by any sequence of operations does a revoked refresh token become live again or
  a used verification or reset token unused again.\<close>

theorem spent_tokens_stay_spent:
  assumes "auth_inv s" and "reachable_from (auth_step D) s s'" and "spent s k"
  shows "spent s' k"
  by (rule auth.reachable_closed [OF assms(2,1,3)])

theorem spent_tokens_stay_spent_witness:
  "spent (snd (refresh demo_deps (auth_env 500) demo_payload ''1'' (snd (logout 400 demo_payload demo_auth)))) (Inl 1)"
proof -
  let ?s = "snd (logout 400 demo_payload demo_auth)"
  have s: "spent ?s (Inl 1)" by (simp add: spent_def logout_def demo_auth_def demo_payload_def demo_token_def live_refresh_def)
  have i: "auth_inv ?s" by (rule follows_inv [OF follows_passwords(4) demo_auth_inv]) (rule demo_auth_inv)
  have "reachable_from (auth_step demo_deps) ?s (snd (refresh demo_deps (auth_env 500) demo_payload ''1'' ?s))"
    by (rule reachable_from.extend [OF reachable_from.start]) (rule auth_step.rotate)
  from spent_tokens_stay_spent [OF i this s] show ?thesis .
qed

text \<open>Of any sequence of conditional updates that claim a refresh token, as the rotations of concurrent
  refresh requests do, exactly one affects the row of a live token that is claimed at all.\<close>

theorem refresh_token_claimed_once:
  "wins jti (fst (run_claims (claim_rows live_refresh (revoke t)) jtis rows)) =
     (if (\<exists>r \<in> set rows. live_refresh jti r) \<and> jti \<in> set jtis then 1 else 0)"
  by (rule refresh_claims.wins_exact) simp

text \<open>When two requests refresh with the same token, the loser revokes the account's tokens before the
  winner has stored its new one: the loser's revocation comes after the winner's claim, the winner's
  new token is live afterwards, so the reuse that was detected leaves the account with a live session.\<close>

theorem refresh_race_leaves_live_session:
  assumes "auth_inv s" and "refresh_guard D t p raw s = ClaimRow r" and "rp_type p = StudentAccount"
    and "\<exists>u \<in> set (au_users s). pk u = rp_sub p" and "\<forall>u \<in> set (au_users s). pk u = rp_sub p \<longrightarrow> u_active u"
  defines "won \<equiv> claim_rows live_refresh (revoke t) (serial r) (au_refresh s)"
  defines "lost \<equiv> claim_rows live_refresh (revoke t) (serial r) (snd won)"
  defines "s2 \<equiv> revokeAllRefreshTokens t (rp_sub p) (rp_type p) (s\<lparr>au_refresh := snd won\<rparr>)"
  shows "fst won \<and> \<not> fst lost \<and>
    (\<exists>login token s3. reissue D env p s2 = (Inr (login, token), s3) \<and>
       (\<exists>x \<in> set (au_refresh s3). owned_live (rp_sub p) (rp_type p) x))"
proof (intro conjI)
  note g = refresh_guard_claimD [OF assms(2)]
  show "fst won" unfolding won_def refresh_claims.claim_open using g by (auto simp: live_refresh_def)
  show "\<not> fst lost" unfolding lost_def won_def refresh_claims.claim_open using refresh_claims.claim_shut by blast
  have "follows s s2"
    unfolding s2_def won_def by (rule follows_trans [OF follows_claims(1) follows_revokeAll])
  then have inv: "auth_inv s2" using assms(1) by (rule follows_inv)
  have users: "au_users s2 = au_users s" by (simp add: s2_def revokeAllRefreshTokens_def)
  obtain u where u: "find_one (\<lambda>u. pk u = rp_sub p) (au_users s2) = Some u"
    using assms(4) by (cases "find_one (\<lambda>u. pk u = rp_sub p) (au_users s2)") (auto simp: users find_one_None_iff)
  with assms(5) have "u_active u" by (auto simp: users dest!: find_one_SomeD)
  with u assms(3) issueStudentSession_inv [OF inv, of D env u] obtain login token where
    r: "reissue D env p s2 = (Inr (login, token), s2\<lparr>au_refresh := au_refresh s2 @
       [issued_row D env (pk u) StudentAccount (au_nextRefresh s2)], au_nextRefresh := au_nextRefresh s2 + 1\<rparr>)"
    by (auto simp: reissue_def)
  have "pk u = rp_sub p" using find_one_SomeD [OF u] by simp
  then have "owned_live (rp_sub p) (rp_type p) (issued_row D env (pk u) StudentAccount (au_nextRefresh s2))"
    by (simp add: owned_live_def issued_row_def assms(3))
  with r show "\<exists>login token s3. reissue D env p s2 = (Inr (login, token), s3) \<and>
       (\<exists>x \<in> set (au_refresh s3). owned_live (rp_sub p) (rp_type p) x)"
    by fastforce
qed

theorem refresh_race_leaves_live_session_witness:
  "\<exists>r. refresh_guard demo_deps 500 demo_payload ''1'' demo_auth = ClaimRow r \<and>
     fst (claim_rows live_refresh (revoke 500) (serial r) (au_refresh demo_auth))"
proof -
  have g: "refresh_guard demo_deps 500 demo_payload ''1'' demo_auth = ClaimRow demo_token" by code_simp
  have "rp_type demo_payload = StudentAccount" "\<exists>u \<in> set (au_users demo_auth). pk u = rp_sub demo_payload"
    "\<forall>u \<in> set (au_users demo_auth). pk u = rp_sub demo_payload \<longrightarrow> u_active u"
    by (simp_all add: demo_payload_def demo_auth_def demo_user_def)
  from refresh_race_leaves_live_session [OF demo_auth_inv g this] g show ?thesis by blast
qed

subsection \<open>Passwords and verification\<close>

text \<open>Once the password is set and the tokens of the student are revoked, the student logs in with the new one.\<close>

lemma new_password_logs_in:
  assumes "auth_inv s" and "bcrypt_ok (ad_bcrypt D)" and s': "s' = revokeAllRefreshTokens (now env) userId StudentAccount (set_password D env userId new s)"
    and u: "u \<in> set (au_users s)" "pk u = userId" and "u_active u" and "u_emailVerified u" and "normalise_email (u_email u) = u_email u"
  shows "\<exists>login token s3. loginStudent D env (u_email u) new s' = (Inr (login, token), s3) \<and> ar_id (lr_user login) = userId"
proof -
  have inv: "auth_inv s'" unfolding s'
    by (rule follows_inv [OF follows_trans [OF follows_set_password follows_revokeAll] assms(1)])
  let ?f = "\<lambda>u. (touch (now env) u)\<lparr>u_passwordHash := bc_hash (ad_bcrypt D) (salt env) BCRYPT_PASSWORD_COST new\<rparr>"
  have users: "au_users s' = update_rows (\<lambda>u. pk u = userId) ?f (au_users s)"
    by (simp add: s' revokeAllRefreshTokens_def set_password_def)
  have "?f u \<in> set (au_users s')" using u by (auto simp: users set_update_rows)
  moreover have "distinct (map u_email (au_users s'))" using inv by (simp add: auth_inv_def)
  ultimately have "find_one (\<lambda>x. u_email x = u_email u) (au_users s') = Some (?f u)"
    using find_one_key_unique [of u_email "au_users s'" "?f u"] by (simp add: touch_def)
  with assms(2,6-8) u(2) issueStudentSession_inv [OF inv, of D env "?f u"] show ?thesis
    by (auto simp: loginStudent_def touch_def bcrypt_ok_def)
qed

text \<open>No live refresh token of the student is left, and an active, verified student logs in with the new password.\<close>

definition password_replaced :: "auth_deps \<Rightarrow> request_env \<Rightarrow> uuid \<Rightarrow> string \<Rightarrow> auth_state \<Rightarrow> auth_state \<Rightarrow> bool" where
  "password_replaced D env uid new s s' \<longleftrightarrow>
    (\<forall>x \<in> set (au_refresh s'). \<not> owned_live uid StudentAccount x) \<and>
    (\<forall>u \<in> set (au_users s). pk u = uid \<and> u_active u \<and> u_emailVerified u \<and> normalise_email (u_email u) = u_email u \<longrightarrow>
       (\<exists>login token s3. loginStudent D env (u_email u) new s' = (Inr (login, token), s3) \<and> ar_id (lr_user login) = uid))"

text \<open>C27: A password change needs the current password of the active account, a password reset an unused and
  unexpired reset token of the account that matches the given text. Either leaves the account without any live refresh
  token, and afterwards the student, when active and verified, logs in with the new password.\<close>

theorem password_change_ends_sessions:
  assumes "auth_inv s" and "bcrypt_ok (ad_bcrypt D)"
  shows "(changePassword D env userId cur new s = (Inr msg, s') \<longrightarrow>
      (\<exists>u \<in> set (au_users s). pk u = userId \<and> u_active u \<and> bc_compare (ad_bcrypt D) cur (u_passwordHash u)) \<and>
      password_replaced D env userId new s s') \<and>
    (resetPassword D env plain new s = (Inr msg2, s2) \<longrightarrow>
      (\<exists>r \<in> set (au_tokens s). tk_purpose r = PASSWORD_RESET \<and> tk_usedAt r = None \<and> now env \<le> tk_expiresAt r \<and>
         bc_compare (ad_bcrypt D) plain (tk_tokenHash r) \<and> password_replaced D env (tk_userId r) new s s2))"
proof (intro conjI impI)
  assume "changePassword D env userId cur new s = (Inr msg, s')"
  then obtain u where f: "find_one (\<lambda>u. pk u = userId) (au_users s) = Some u" and a: "u_active u"
    "bc_compare (ad_bcrypt D) cur (u_passwordHash u)"
    and s': "s' = revokeAllRefreshTokens (now env) userId StudentAccount (set_password D env userId new s)"
    by (auto simp: changePassword_def split: if_splits option.splits)
  from find_one_SomeD [OF f] a show "\<exists>u \<in> set (au_users s). pk u = userId \<and> u_active u \<and> bc_compare (ad_bcrypt D) cur (u_passwordHash u)"
    by blast
  have "\<forall>x \<in> set (au_refresh s'). \<not> owned_live userId StudentAccount x" using revokeAll_none_live unfolding s' by blast
  moreover note new_password_logs_in [OF assms(1,2) s']
  ultimately show "password_replaced D env userId new s s'" unfolding password_replaced_def by blast
next
  assume "resetPassword D env plain new s = (Inr msg2, s2)"
  then obtain uid s1 where c: "consumeAuthToken D (now env) plain PASSWORD_RESET s = (Inr uid, s1)"
    and s2: "s2 = revokeAllRefreshTokens (now env) uid StudentAccount (set_password D env uid new s1)"
    by (auto simp: resetPassword_def bind_op_def split: prod.splits sum.splits)
  from consume_okD [OF c] obtain r where r: "r \<in> set (au_tokens s)" "tk_userId r = uid" "tk_purpose r = PASSWORD_RESET"
    "tk_usedAt r = None" "now env \<le> tk_expiresAt r" "bc_compare (ad_bcrypt D) plain (tk_tokenHash r)"
    and s1: "s1 = s\<lparr>au_tokens := update_rows (unused_token (serial r)) (use_token (now env)) (au_tokens s)\<rparr>" by blast
  have users: "au_users s1 = au_users s" by (simp add: s1)
  have "follows s s1" using follows_consume [of s D "now env" plain PASSWORD_RESET] c by simp
  from follows_inv [OF this assms(1)] have inv1: "auth_inv s1" .
  have "\<forall>x \<in> set (au_refresh s2). \<not> owned_live uid StudentAccount x" using revokeAll_none_live unfolding s2 by blast
  moreover note new_password_logs_in [OF inv1 assms(2) s2, unfolded users]
  ultimately have "password_replaced D env uid new s s2" unfolding password_replaced_def by blast
  with r show "\<exists>r \<in> set (au_tokens s). tk_purpose r = PASSWORD_RESET \<and> tk_usedAt r = None \<and> now env \<le> tk_expiresAt r \<and>
      bc_compare (ad_bcrypt D) plain (tk_tokenHash r) \<and> password_replaced D env (tk_userId r) new s s2" by blast
qed

theorem password_change_ends_sessions_witness:
  "filter (owned_live ''u1'' StudentAccount) (au_refresh (snd (changePassword demo_deps (auth_env 500) ''u1'' ''old'' ''new'' demo_auth))) = []"
proof -
  let ?run = "changePassword demo_deps (auth_env 500) ''u1'' ''old'' ''new'' demo_auth"
  have "bcrypt_ok (ad_bcrypt demo_deps)" by (simp add: bcrypt_ok_def demo_deps_def)
  moreover have "\<exists>m. fst ?run = Inr m"
    by (simp add: changePassword_def demo_auth_def demo_user_def find_one_def demo_deps_def)
  then obtain m where "?run = (Inr m, snd ?run)" by (metis prod.collapse)
  ultimately have "\<forall>x \<in> set (au_refresh (snd ?run)). \<not> owned_live ''u1'' StudentAccount x"
    using password_change_ends_sessions [OF demo_auth_inv, of demo_deps] unfolding password_replaced_def by blast
  then show ?thesis by (simp add: filter_empty_conv)
qed

lemma set_password_hash:
  "\<forall>u \<in> set (au_users (revokeAllRefreshTokens t uid a (set_password D env uid new s))).
     pk u = uid \<longrightarrow> u_passwordHash u = bc_hash (ad_bcrypt D) (salt env) 12 new"
proof -
  have "u_passwordHash x = bc_hash (ad_bcrypt D) (salt env) 12 new"
    if "x \<in> set (update_rows (\<lambda>u. pk u = uid) (\<lambda>u. (touch (now env) u)\<lparr>u_passwordHash :=
          bc_hash (ad_bcrypt D) (salt env) BCRYPT_PASSWORD_COST new\<rparr>) rows)" "pk x = uid" for x rows
  proof -
    from that(1) obtain a where "a \<in> set rows" and a: "x = (if pk a = uid then (touch (now env) a)\<lparr>u_passwordHash :=
        bc_hash (ad_bcrypt D) (salt env) BCRYPT_PASSWORD_COST new\<rparr> else a)" by (auto simp: update_rows_def)
    show ?thesis
    proof (cases "pk a = uid")
      case False
      with a that(2) show ?thesis by simp
    qed (simp add: a BCRYPT_PASSWORD_COST_def)
  qed
  note hashed = this [of _ "au_users s"]
  show ?thesis by (intro ballI impI, rule hashed) (simp_all add: revokeAllRefreshTokens_def set_password_def)
qed

text \<open>A reset succeeds only with a reset token that is unused and unexpired and matches; the token is used
  from then on, the owner's password hash is the hash of the new password, and no refresh token of the
  owner stays live.\<close>

theorem reset_uses_one_token:
  assumes "auth_inv s" and "resetPassword D env plain new s = (Inr msg, s')"
  shows "\<exists>r. r \<in> set (au_tokens s) \<and> tk_purpose r = PASSWORD_RESET \<and> tk_usedAt r = None \<and> now env \<le> tk_expiresAt r \<and>
    bc_compare (ad_bcrypt D) plain (tk_tokenHash r) \<and> spent s' (Inr (serial r)) \<and>
    (\<forall>u \<in> set (au_users s'). pk u = tk_userId r \<longrightarrow> u_passwordHash u = bc_hash (ad_bcrypt D) (salt env) 12 new) \<and>
    (\<forall>x \<in> set (au_refresh s'). \<not> owned_live (tk_userId r) StudentAccount x)"
proof -
  from assms(2) obtain uid s1 where c: "consumeAuthToken D (now env) plain PASSWORD_RESET s = (Inr uid, s1)"
    and s': "s' = revokeAllRefreshTokens (now env) uid StudentAccount (set_password D env uid new s1)"
    by (auto simp: resetPassword_def bind_op_eq_ok_iff)
  from consume_okD [OF c] obtain r where r: "r \<in> set (au_tokens s)" "tk_userId r = uid" "tk_purpose r = PASSWORD_RESET"
    "tk_usedAt r = None" "now env \<le> tk_expiresAt r" "bc_compare (ad_bcrypt D) plain (tk_tokenHash r)"
    and s1: "s1 = s\<lparr>au_tokens := update_rows (unused_token (serial r)) (use_token (now env)) (au_tokens s)\<rparr>" by blast
  have "use_token (now env) r \<in> set (au_tokens s')"
    using r(1,4) by (auto simp: s' s1 revokeAllRefreshTokens_def set_password_def set_update_rows unused_token_def)
  moreover have "serial (use_token (now env) r) = serial r \<and> tk_usedAt (use_token (now env) r) \<noteq> None" by simp
  ultimately have "spent s' (Inr (serial r))" unfolding spent_def sum.case by (rule bexI [rotated])
  moreover have "\<forall>u \<in> set (au_users s'). pk u = uid \<longrightarrow> u_passwordHash u = bc_hash (ad_bcrypt D) (salt env) 12 new"
    unfolding s' by (rule set_password_hash)
  moreover have "\<forall>x \<in> set (au_refresh s'). \<not> owned_live uid StudentAccount x"
    using revokeAll_none_live unfolding s' by blast
  ultimately show ?thesis using r by blast
qed

theorem reset_uses_one_token_witness:
  "let s = snd (forgotPassword demo_deps (auth_env 500) ''Jane@x.org '' demo_auth);
       s' = snd (resetPassword demo_deps (auth_env 600) ''01ab'' ''new'' s)
   in spent s' (Inr 1) \<and> map u_passwordHash (au_users s') = [''new'']"
proof -
  let ?s = "snd (forgotPassword demo_deps (auth_env 500) ''Jane@x.org '' demo_auth)"
  let ?run = "resetPassword demo_deps (auth_env 600) ''01ab'' ''new'' ?s"
  have inv: "auth_inv ?s" by (rule follows_inv [OF follows_passwords(1) demo_auth_inv]) (rule demo_auth_inv)
  have "fst ?run = Inr ''Password reset successful. Please log in.''" by code_simp
  then have r: "?run = (Inr ''Password reset successful. Please log in.'', snd ?run)" by (metis prod.collapse)
  have t: "map serial (au_tokens ?s) = [1]" by code_simp
  have p: "map u_passwordHash (au_users (snd ?run)) = [''new'']" by code_simp
  from reset_uses_one_token [OF inv r] t p show ?thesis by (auto simp: Let_def)
qed

text \<open>The answer to a forgotten-password request is the same for every email: known or unknown, active or
  not, whether or not the mail can be sent.\<close>

theorem forgot_password_tells_nothing:
  assumes "auth_inv s"
  shows "fst (forgotPassword D env email s) = Inr FORGOT_MESSAGE"
  using sendMail_state
  by (auto simp: forgotPassword_def bind_op_def issueAuthToken_inv [OF assms] split: option.split prod.splits sum.splits)
    (metis Inl_Inr_False prod.inject)+

theorem forgot_password_tells_nothing_witness:
  "fst (forgotPassword demo_deps (auth_env 1) ''jane@x.org'' demo_auth) = fst (forgotPassword demo_deps (auth_env 1) ''nobody@x.org'' demo_auth)"
  by (simp add: forgot_password_tells_nothing [OF demo_auth_inv])

text \<open>A student logs in only with an active account whose email, compared after trimming and lower-casing,
  is verified and whose password hash matches; unknown email, inactive account and wrong password give
  the same error.\<close>

theorem login_needs_verified_account:
  "(\<forall>r s'. loginStudent D env email password s = (Inr r, s') \<longrightarrow>
      (\<exists>u \<in> set (au_users s). u_email u = normalise_email email \<and> u_active u \<and> u_emailVerified u \<and>
         bc_compare (ad_bcrypt D) password (u_passwordHash u) \<and> ar_id (lr_user (fst r)) = pk u)) \<and>
   ((\<forall>u \<in> set (au_users s). u_email u = normalise_email email \<longrightarrow>
        \<not> u_active u \<or> \<not> bc_compare (ad_bcrypt D) password (u_passwordHash u)) \<longrightarrow>
      loginStudent D env email password s = (Inl (UnauthorizedException ''Invalid credentials''), s))"
proof (intro conjI allI impI)
  fix r s'
  assume "loginStudent D env email password s = (Inr r, s')"
  then obtain u where "find_one (\<lambda>u. u_email u = normalise_email email) (au_users s) = Some u" "u_active u" "u_emailVerified u"
    "bc_compare (ad_bcrypt D) password (u_passwordHash u)" "issueStudentSession D env u s = (Inr r, s')"
    by (auto simp: loginStudent_def split: option.splits if_splits)
  then show "\<exists>u \<in> set (au_users s). u_email u = normalise_email email \<and> u_active u \<and> u_emailVerified u \<and>
         bc_compare (ad_bcrypt D) password (u_passwordHash u) \<and> ar_id (lr_user (fst r)) = pk u"
    by (auto simp: issueStudentSession_def Let_def bind_op_eq_ok_iff dest!: find_one_SomeD)
next
  assume "\<forall>u \<in> set (au_users s). u_email u = normalise_email email \<longrightarrow>
        \<not> u_active u \<or> \<not> bc_compare (ad_bcrypt D) password (u_passwordHash u)"
  then show "loginStudent D env email password s = (Inl (UnauthorizedException ''Invalid credentials''), s)"
    by (auto simp: loginStudent_def split: option.split dest!: find_one_SomeD)
qed

theorem login_needs_verified_account_witness:
  "loginStudent demo_deps (auth_env 1) ''jane@x.org'' ''wrong'' demo_auth = (Inl (UnauthorizedException ''Invalid credentials''), demo_auth)"
  using login_needs_verified_account [of demo_deps "auth_env 1" "''jane@x.org''" "''wrong''" demo_auth]
  by (simp add: demo_auth_def demo_user_def demo_deps_def)

definition crowded_row :: "nat \<Rightarrow> auth_token" where
  "crowded_row i = \<lparr>serial = i, int_createdAt = 0, int_updatedAt = 0, tk_userId = ''u1'', tk_purpose = EMAIL_VERIFICATION,
     tk_tokenHash = (if i = 1 then ''mine'' else ''other''), tk_expiresAt = 1000, tk_usedAt = None\<rparr>"

definition crowded_auth :: auth_state where
  "crowded_auth = demo_auth\<lparr>au_tokens := map crowded_row [1..<52]\<rparr>"

text \<open>A token is looked up only among the 50 newest unused tokens of its purpose, of all accounts and
  expired ones included: once 50 newer unused tokens exist that do not match, an unused, unexpired
  token is refused.\<close>

theorem older_tokens_are_not_found:
  assumes "50 \<le> card (serial ` {x \<in> set (au_tokens s). tk_purpose x = p \<and> tk_usedAt x = None \<and> n < serial x})"
    and "\<And>x. x \<in> set (au_tokens s) \<Longrightarrow> bc_compare (ad_bcrypt D) plain (tk_tokenHash x) \<Longrightarrow> serial x \<le> n"
  shows "consumeAuthToken D t plain p s = (Inl (BadRequestException ''Token invalid or expired''), s)"
proof (cases "first_token D t plain (token_candidates p (au_tokens s))")
  case (Some r)
  from first_token_SomeD [OF this] have c: "r \<in> set (token_candidates p (au_tokens s))"
    and m: "bc_compare (ad_bcrypt D) plain (tk_tokenHash r)" by auto
  from c have "r \<in> set (au_tokens s)" by (auto simp: token_candidates_def find_rows_def dest!: in_set_takeD)
  with assms(2) m have "serial r \<le> n" by blast
  then have "card (serial ` {x \<in> set (au_tokens s). tk_purpose x = p \<and> tk_usedAt x = None \<and> n < serial x}) \<le>
      card (serial ` {x \<in> set (au_tokens s). tk_purpose x = p \<and> tk_usedAt x = None \<and> serial r < serial x})"
    by (intro card_mono image_mono) auto
  with candidates_newest [OF c] assms(1) show ?thesis by simp
qed (simp add: consumeAuthToken_def)

theorem older_tokens_are_not_found_witness:
  "fst (consumeAuthToken demo_deps 500 ''mine'' EMAIL_VERIFICATION crowded_auth) = Inl (BadRequestException ''Token invalid or expired'')"
proof -
  let ?newer = "{x \<in> set (au_tokens crowded_auth). tk_purpose x = EMAIL_VERIFICATION \<and> tk_usedAt x = None \<and> 1 < serial x}"
  have "serial ` (crowded_row ` {2..<52}) \<subseteq> serial ` ?newer"
    by (rule image_mono) (auto simp: crowded_auth_def crowded_row_def)
  then have "{2..<52} \<subseteq> serial ` ?newer" by (simp add: image_image crowded_row_def)
  then have "card {2..<52 :: nat} \<le> card (serial ` ?newer)" by (rule card_mono [rotated]) simp
  moreover have "serial x \<le> 1" if "x \<in> set (au_tokens crowded_auth)" "bc_compare (ad_bcrypt demo_deps) ''mine'' (tk_tokenHash x)" for x
    using that by (auto simp: crowded_auth_def crowded_row_def demo_deps_def split: if_splits)
  ultimately show ?thesis by (simp add: older_tokens_are_not_found)
qed

subsection \<open>Profiles\<close>

text \<open>What a student can change about the account. A successful update writes the caller's row only: the fields of the
  request that were given are set (\<open>null\<close> clears an optional one), the others stay, and email, password hash,
  verification, activity and all other users and tables are untouched. The row is touched even when the body
  is empty, because the fields of the body are own properties.\<close>

theorem profile_update_frame:
  assumes "controller_updateMe True t user d s = (Inr r, s')"
  shows "\<exists>i u u'. requireStudent user = Inr i \<and> find_user i s = Some u \<and> find_user i s' = Some u' \<and> r = toResponseDto u' \<and>
    s' = s\<lparr>au_users := update_rows (\<lambda>x. pk x = i) (patch_user t (profile_fields d)) (au_users s)\<rparr> \<and>
    u_firstName u' = or_default (up_firstName d) (u_firstName u) \<and> u_phone u' = patched (up_phone d) (u_phone u) \<and>
    u_locale u' = or_default (up_locale d) (u_locale u) \<and> u_avatarUrl u' = patched (up_avatarUrl d) (u_avatarUrl u) \<and>
    u_email u' = u_email u \<and> u_passwordHash u' = u_passwordHash u \<and> u_emailVerified u' = u_emailVerified u \<and>
    u_active u' = u_active u \<and> updatedAt u' = t \<and> (\<forall>j. j = i \<or> find_user j s' = find_user j s)"
proof -
  obtain i where i: "requireStudent user = Inr i" and up: "updateProfile True t i d s = (Inr r, s')"
    using assms by (auto simp: controller_updateMe_def split: sum.splits)
  obtain u where u: "find_user i s = Some u" using up by (auto simp: updateProfile_def split: option.splits)
  let ?p = "profile_fields d"
  have c: "collect_patch True fs = fs" for fs by (induction fs) auto
  have ne: "?p \<noteq> []" by (simp add: profile_fields_def)
  have f: "find_user i (s\<lparr>au_users := update_rows (\<lambda>x. pk x = i) (patch_user t ?p) (au_users s)\<rparr>) = Some (patch_user t ?p u)"
    using u by (simp add: find_user_def find_one_update)
  have s': "s' = s\<lparr>au_users := update_rows (\<lambda>x. pk x = i) (patch_user t ?p) (au_users s)\<rparr>"
    and r: "r = toResponseDto (patch_user t ?p u)"
    using up by (auto simp: updateProfile_def u c ne Let_def f split: option.splits)
  have "find_user j s' = find_user j s" if "j \<noteq> i" for j
    using that by (simp add: s' find_user_def find_one_update_other)
  then show ?thesis
    using i u f patch_user_frame [of t ?p u]
    by (intro exI [of _ i] exI [of _ u] exI [of _ "patch_user t ?p u"])
      (auto simp: s' r patch_user_def profile_values touch_def)
qed

definition clear_phone :: update_profile_dto where
  "clear_phone = \<lparr>up_firstName = Value ''New'', up_lastName = Undefined, up_phone = Null, up_locale = Value ''tr'',
     up_country = Undefined, up_city = Undefined, up_street = Undefined, up_address = Undefined,
     up_postalCode = Undefined, up_occupation = Undefined, up_position = Undefined, up_company = Undefined,
     up_avatarUrl = Undefined\<rparr>"

theorem profile_update_frame_witness:
  "\<exists>u'. find_user (pk demo_user) (snd (controller_updateMe True 77
      (Some \<lparr>us_id = Some (pk demo_user), us_adminId = None, us_type = Some ''student'', us_role = None,
         us_email = None, us_locale = None\<rparr>) clear_phone demo_auth)) = Some u' \<and>
     u_firstName u' = ''New'' \<and> u_phone u' = None \<and> u_email u' = u_email demo_user"
proof -
  let ?me = "Some \<lparr>us_id = Some (pk demo_user), us_adminId = None, us_type = Some ''student'', us_role = None,
         us_email = None, us_locale = None\<rparr>"
  define res where "res = controller_updateMe True 77 ?me clear_phone demo_auth"
  have f: "find_user (pk demo_user) demo_auth = Some demo_user"
    by (simp add: find_user_def find_one_def demo_auth_def)
  have "\<exists>r. fst res = Inr r"
    by (simp add: res_def controller_updateMe_def requireStudent_def falsy_def demo_user_def updateProfile_def
        Let_def profile_fields_def user_update_error_def patch_value_simps clear_phone_def demo_auth_def
        locale_check_def find_user_def find_one_def update_rows_def)
  then obtain r where "controller_updateMe True 77 ?me clear_phone demo_auth = (Inr r, snd res)"
    by (metis res_def prod.collapse)
  from profile_update_frame [OF this] f show ?thesis
    by (auto simp: res_def clear_phone_def requireStudent_def falsy_def demo_user_def)
qed

end
