(* ===== verification/AuthController.thy ===== *)
theory AuthController
  imports AuthProperties
begin

section \<open>The authentication endpoints (auth.controller.ts, auth-admin.controller.ts)\<close>

text \<open>
  The two controllers over \<open>AuthService\<close>: the student one with registration, verification and
  passwords, the admin one with login, rotation and logout. Both keep the refresh token out of the
  response body: it travels in a cookie that scripts cannot read and that only the auth routes get.
  \<open>verify\<close> is passport-jwt with the refresh secret.
\<close>

definition REFRESH_COOKIE_NAME :: string where
  "REFRESH_COOKIE_NAME = ''refreshToken''"

definition REFRESH_COOKIE_PATH :: string where
  "REFRESH_COOKIE_PATH = ''/api/v1/auth''"

definition REFRESH_COOKIE_MAX_AGE_MS :: int where
  "REFRESH_COOKIE_MAX_AGE_MS = 7 * 24 * 60 * 60 * 1000"

record cookie =
  ck_name :: string
  ck_value :: string
  ck_httpOnly :: bool
  ck_secure :: bool
  ck_sameSite :: string
  ck_path :: string
  ck_maxAge :: int

datatype cookie_op = SetCookie cookie | ClearCookie string string

definition setRefreshCookie :: "string option \<Rightarrow> string \<Rightarrow> cookie_op" where
  "setRefreshCookie nodeEnv token = SetCookie \<lparr>ck_name = REFRESH_COOKIE_NAME, ck_value = token, ck_httpOnly = True,
     ck_secure = (nodeEnv = Some ''production'' \<or> nodeEnv = Some ''staging''), ck_sameSite = ''lax'',
     ck_path = REFRESH_COOKIE_PATH, ck_maxAge = REFRESH_COOKIE_MAX_AGE_MS\<rparr>"

definition clearRefreshCookie :: cookie_op where
  "clearRefreshCookie = ClearCookie REFRESH_COOKIE_NAME REFRESH_COOKIE_PATH"

text \<open>A browser's jar of refresh cookies after a response.\<close>

definition after_response :: "cookie_op option \<Rightarrow> string option \<Rightarrow> string option" where
  "after_response op jar = (case op of
      Some (SetCookie c) \<Rightarrow> if ck_name c = REFRESH_COOKIE_NAME then Some (ck_value c) else jar
    | Some (ClearCookie n p) \<Rightarrow> if n = REFRESH_COOKIE_NAME \<and> p = REFRESH_COOKIE_PATH then None else jar
    | None \<Rightarrow> jar)"

definition payload_of :: "jwt_claims \<Rightarrow> refresh_payload" where
  "payload_of c = \<lparr>rp_sub = the (jc_sub c), rp_type = (if jc_type c = Some ''admin'' then AdminAccount else StudentAccount),
     rp_jti = the (jc_jti c)\<rparr>"

datatype auth_body = RegisteredBody uuid string | MessageBody string | LoginBody login_response

type_synonym auth_reply = "(auth_state, auth_body \<times> cookie_op option) op"

definition say :: "(auth_state, string) op \<Rightarrow> cookie_op option \<Rightarrow> auth_reply" where
  "say m c = bind_op m (\<lambda>text. return_op (MessageBody text, c))"

definition with_cookie :: "string option \<Rightarrow> (auth_state, login_response \<times> string) op \<Rightarrow> auth_reply" where
  "with_cookie nodeEnv m =
     bind_op m (\<lambda>(login, refreshToken). return_op (LoginBody login, Some (setRefreshCookie nodeEnv refreshToken)))"

text \<open>\<open>@UseGuards(JwtRefreshGuard)\<close> in front of a handler.\<close>

definition with_refresh_context ::
  "(string \<Rightarrow> jwt_claims option) \<Rightarrow> string option \<Rightarrow> (jwt_claims \<times> string \<Rightarrow> auth_reply) \<Rightarrow> auth_reply" where
  "with_refresh_context verify cookie handler s = (case jwt_refresh_guard verify cookie of
      Inl e \<Rightarrow> (throw e, s)
    | Inr ctx \<Rightarrow> handler ctx s)"

definition endpoint_refresh ::
  "auth_deps \<Rightarrow> (string \<Rightarrow> jwt_claims option) \<Rightarrow> string option \<Rightarrow> request_env \<Rightarrow> string option \<Rightarrow> auth_reply" where
  "endpoint_refresh D verify nodeEnv env cookie = with_refresh_context verify cookie
     (\<lambda>(claims, raw). with_cookie nodeEnv (refresh D env (payload_of claims) raw))"

definition endpoint_logout :: "(string \<Rightarrow> jwt_claims option) \<Rightarrow> instant \<Rightarrow> string option \<Rightarrow> auth_reply" where
  "endpoint_logout verify t cookie = with_refresh_context verify cookie
     (\<lambda>(claims, raw). say (logout t (payload_of claims)) (Some clearRefreshCookie))"

datatype auth_request =
    Register register_dto
  | VerifyEmail string
  | Login string string
  | Refresh
  | Logout
  | ForgotPassword string
  | ResetPassword string string

fun auth_controller ::
  "auth_deps \<Rightarrow> (string \<Rightarrow> jwt_claims option) \<Rightarrow> string option \<Rightarrow> request_env \<Rightarrow> string option \<Rightarrow> auth_request \<Rightarrow> auth_reply" where
  "auth_controller D verify nodeEnv env cookie (Register d) =
     bind_op (register D env d) (\<lambda>(uid, message). return_op (RegisteredBody uid message, None))"
| "auth_controller D verify nodeEnv env cookie (VerifyEmail token) = say (verifyEmail D (now env) token) None"
| "auth_controller D verify nodeEnv env cookie (Login email password) =
     with_cookie nodeEnv (loginStudent D env email password)"
| "auth_controller D verify nodeEnv env cookie Refresh = endpoint_refresh D verify nodeEnv env cookie"
| "auth_controller D verify nodeEnv env cookie Logout = endpoint_logout verify (now env) cookie"
| "auth_controller D verify nodeEnv env cookie (ForgotPassword email) = say (forgotPassword D env email) None"
| "auth_controller D verify nodeEnv env cookie (ResetPassword token newPassword) =
     say (resetPassword D env token newPassword) None"

datatype admin_auth_request = AdminLogin string string | AdminRefresh | AdminLogout

fun auth_admin_controller ::
  "auth_deps \<Rightarrow> (string \<Rightarrow> jwt_claims option) \<Rightarrow> string option \<Rightarrow> request_env \<Rightarrow> string option \<Rightarrow> admin_auth_request \<Rightarrow> auth_reply" where
  "auth_admin_controller D verify nodeEnv env cookie (AdminLogin email password) =
     with_cookie nodeEnv (loginAdmin D env email password)"
| "auth_admin_controller D verify nodeEnv env cookie AdminRefresh = endpoint_refresh D verify nodeEnv env cookie"
| "auth_admin_controller D verify nodeEnv env cookie AdminLogout = endpoint_logout verify (now env) cookie"

subsection \<open>From login to refresh to logout\<close>

text \<open>What jsonwebtoken and passport-jwt document. The times in a token are whole seconds: \<open>iat\<close> is the
  time of signing rounded down, \<open>exp\<close> is \<open>iat\<close> plus the time to live, and a token verifies, as the
  claims that were signed, while the time of the verification rounded down is before \<open>exp\<close>. So a token
  signed late in a second ends up to a second earlier than the row stored beside it.\<close>

definition unix_seconds :: "instant \<Rightarrow> int" where
  "unix_seconds t = t div 1000"

definition type_text :: "account_type \<Rightarrow> string" where
  "type_text t = (if t = AdminAccount then ''admin'' else ''student'')"

definition claims_of :: "refresh_payload \<Rightarrow> jwt_claims" where
  "claims_of p = \<lparr>jc_sub = Some (rp_sub p), jc_type = Some (type_text (rp_type p)), jc_email = None,
     jc_locale = None, jc_role = None, jc_jti = Some (rp_jti p)\<rparr>"

definition verifies :: "auth_deps \<Rightarrow> (instant \<Rightarrow> string \<Rightarrow> jwt_claims option) \<Rightarrow> bool" where
  "verifies D verify \<longleftrightarrow> (\<forall>p t u.
     jwt_sign_refresh (ad_jwt D) (ad_jwtRefreshSecret D) p (ad_refreshTtlSec D) t \<noteq> '''' \<and>
     (t \<le> u \<and> unix_seconds u < unix_seconds t + ad_refreshTtlSec D \<longrightarrow>
       verify u (jwt_sign_refresh (ad_jwt D) (ad_jwtRefreshSecret D) p (ad_refreshTtlSec D) t) = Some (claims_of p)))"

lemma payload_claims [simp]: "payload_of (claims_of p) = p"
  by (cases p; cases "rp_type p") (simp_all add: payload_of_def claims_of_def type_text_def)

lemma refresh_context_of_cookie:
  assumes "verify token = Some (claims_of p)" and "token \<noteq> ''''" and "rp_sub p \<noteq> ''''"
  shows "jwt_refresh_guard verify (Some token) = Inr (claims_of p, token)"
  using assms by (simp add: jwt_refresh_guard_def jwt_refresh_validate_def claims_of_def falsy_def type_text_def)

definition refresh_text :: "auth_deps \<Rightarrow> instant \<Rightarrow> refresh_payload \<Rightarrow> string" where
  "refresh_text D t p = jwt_sign_refresh (ad_jwt D) (ad_jwtRefreshSecret D) p (ad_refreshTtlSec D) t"

lemma issueStudentSession_token:
  assumes "auth_inv s"
  shows "\<exists>login. issueStudentSession D env u s =
    (Inr (login, refresh_text D (now env) \<lparr>rp_sub = pk u, rp_type = StudentAccount, rp_jti = au_nextRefresh s\<rparr>),
     s\<lparr>au_refresh := au_refresh s @ [issued_row D env (pk u) StudentAccount (au_nextRefresh s)],
       au_nextRefresh := au_nextRefresh s + 1\<rparr>) \<and> ar_id (lr_user login) = pk u"
  using issueRefreshToken_inv [OF assms] by (simp add: issueStudentSession_def Let_def bind_op_def refresh_text_def)

lemma loginStudent_okD:
  assumes "loginStudent D env e p s = (Inr r, s1)"
  shows "\<exists>u \<in> set (au_users s). u_active u \<and> issueStudentSession D env u s = (Inr r, s1)"
  using assms by (auto simp: loginStudent_def split: option.splits if_splits dest!: find_one_SomeD)

text \<open>A live row for a token that verifies is rotated for its active owner.\<close>

lemma refresh_accepts:
  assumes inv: "auth_inv s" and b: "bcrypt_ok (ad_bcrypt D)"
    and u: "u \<in> set (au_users s)" "u_active u"
    and r: "issued_row D env (pk u) StudentAccount n \<in> set (au_refresh s)"
    and t: "now env2 \<le> now env + ad_refreshTtlSec D * 1000"
  shows "\<exists>login token s2. refresh D env2 \<lparr>rp_sub = pk u, rp_type = StudentAccount, rp_jti = n\<rparr>
      (refresh_text D (now env) \<lparr>rp_sub = pk u, rp_type = StudentAccount, rp_jti = n\<rparr>) s = (Inr (login, token), s2) \<and>
    ar_id (lr_user login) = pk u \<and>
    revoke (now env2) (issued_row D env (pk u) StudentAccount n) \<in> set (au_refresh s2) \<and> auth_inv s2"
proof -
  let ?p = "\<lparr>rp_sub = pk u, rp_type = StudentAccount, rp_jti = n\<rparr>" and ?row = "issued_row D env (pk u) StudentAccount n"
  have f: "find_one (\<lambda>r. serial r = n) (au_refresh s) = Some ?row"
    using find_one_key_unique [of serial "au_refresh s" ?row] inv r by (simp add: auth_inv_def)
  have g: "refresh_guard D (now env2) ?p (refresh_text D (now env) ?p) s = ClaimRow ?row"
    using b t by (simp add: refresh_guard_def f bcrypt_ok_def) (simp add: issued_row_def refresh_text_def)
  define rows where "rows = snd (claim_rows live_refresh (revoke (now env2)) n (au_refresh s))"
  have l: "live_refresh n ?row" by (simp add: live_refresh_def)
  with r have c: "claim_rows live_refresh (revoke (now env2)) n (au_refresh s) = (True, rows)"
    using refresh_claims.claim_open [of "now env2" n "au_refresh s"] by (auto simp: rows_def prod_eq_iff)
  have inv2: "auth_inv (s\<lparr>au_refresh := rows\<rparr>)" unfolding rows_def by (rule inv_claim_refresh [OF inv])
  have fu: "find_one (\<lambda>x. pk x = pk u) (au_users s) = Some u"
    using find_one_key_unique [of pk "au_users s" u] inv u(1) by (simp add: auth_inv_def)
  have "revoke (now env2) ?row \<in> set rows"
    using r l by (force simp: rows_def claim_rows_def set_update_rows)
  with issueStudentSession_inv [OF inv2, of D env2 u] inv_issueStudentSession [OF inv2, of D env2 u] show ?thesis
    by (auto simp: refresh_def g c reissue_def fu u(2))
qed


definition tally_token :: "refresh_payload \<Rightarrow> string" where
  "tally_token p = (if rp_type p = AdminAccount then CHR ''a'' else CHR ''s'') #
     replicate (rp_jti p) CHR ''x'' @ CHR ''.'' # rp_sub p"

definition tally_verify :: "string \<Rightarrow> jwt_claims option" where
  "tally_verify token = (case token of [] \<Rightarrow> None | c # r \<Rightarrow>
     let n = length (takeWhile (\<lambda>x. x = CHR ''x'') r) in
     Some (claims_of \<lparr>rp_sub = drop (Suc n) r, rp_type = (if c = CHR ''a'' then AdminAccount else StudentAccount), rp_jti = n\<rparr>))"

definition tally_deps :: auth_deps where
  "tally_deps = demo_deps\<lparr>ad_jwt := \<lparr>jwt_sign_access = (\<lambda>_ p _ _. ap_sub p), jwt_sign_refresh = (\<lambda>_ p _ _. tally_token p)\<rparr>\<rparr>"

lemma tally_verifies: "verifies tally_deps (\<lambda>_. tally_verify)"
proof -
  have "tally_verify (tally_token p) = Some (claims_of p)" for p
    by (cases p; cases "rp_type p") (simp_all add: tally_verify_def tally_token_def takeWhile_append Let_def)
  then show ?thesis by (simp add: verifies_def tally_deps_def) (simp add: tally_token_def)
qed


end
