(* ===== verification/WebPages.thy ===== *)
theory WebPages
  imports AuthController
begin

section \<open>Validation of auth requests, and the HTML pages (modules/auth/dto, modules/web)\<close>

text \<open>
  The validators of the bodies that carry a password or a one-time token, and \<open>WebController\<close>, which serves
  the pages behind the links in the mails. Checking an email address (\<open>@IsEmail\<close>) is an argument. A page
  is its status and its HTML; \<open>load\<close> reads the page files.
\<close>

subsection \<open>The bodies of auth requests\<close>

text \<open>\<open>/^(?=.*[a-z])(?=.*[A-Z])(?=.*\d)(?=.*[^A-Za-z0-9]).{8,}$/\<close>; a dot matches no line terminator.\<close>

definition is_numeral :: "char \<Rightarrow> bool" where
  "is_numeral c \<longleftrightarrow> 48 \<le> code_of c \<and> code_of c \<le> 57"

definition password_pattern :: "string \<Rightarrow> bool" where
  "password_pattern s \<longleftrightarrow> list_all (\<lambda>c. code_of c \<notin> {10, 13}) s \<and> 8 \<le> length s \<and> list_ex small s \<and>
     list_ex capital s \<and> list_ex is_numeral s \<and> list_ex (\<lambda>c. \<not> small c \<and> \<not> capital c \<and> \<not> is_numeral c) s"

definition new_password_valid :: "string \<Rightarrow> bool" where
  "new_password_valid s \<longleftrightarrow> 8 \<le> length s \<and> length s \<le> 128 \<and> password_pattern s"

definition one_time_token_valid :: "string \<Rightarrow> bool" where
  "one_time_token_valid token \<longleftrightarrow> 32 \<le> length token \<and> length token \<le> 128"

definition some_password_valid :: "string \<Rightarrow> bool" where
  "some_password_valid s \<longleftrightarrow> 1 \<le> length s \<and> length s \<le> 128"

definition email_valid :: "(string \<Rightarrow> bool) \<Rightarrow> string \<Rightarrow> bool" where
  "email_valid isEmail e \<longleftrightarrow> isEmail e \<and> length e \<le> 255"

definition register_password_valid :: "register_dto \<Rightarrow> bool" where
  "register_password_valid d \<longleftrightarrow> new_password_valid (rd_password d)"

definition update_password_valid :: "string \<Rightarrow> string \<Rightarrow> bool" where
  "update_password_valid currentPassword newPassword \<longleftrightarrow>
     some_password_valid currentPassword \<and> new_password_valid newPassword"

text \<open>The validation pipe in front of the JSON endpoints.\<close>

fun auth_body_valid :: "(string \<Rightarrow> bool) \<Rightarrow> auth_request \<Rightarrow> bool" where
  "auth_body_valid isEmail (Register d) = (email_valid isEmail (rd_email d) \<and> register_password_valid d)"
| "auth_body_valid isEmail (VerifyEmail token) = one_time_token_valid token"
| "auth_body_valid isEmail (Login email password) = (email_valid isEmail email \<and> some_password_valid password)"
| "auth_body_valid isEmail Refresh = True"
| "auth_body_valid isEmail Logout = True"
| "auth_body_valid isEmail (ForgotPassword email) = email_valid isEmail email"
| "auth_body_valid isEmail (ResetPassword token newPassword) =
     (one_time_token_valid token \<and> new_password_valid newPassword)"

definition auth_api ::
  "(string \<Rightarrow> bool) \<Rightarrow> auth_deps \<Rightarrow> (string \<Rightarrow> jwt_claims option) \<Rightarrow> string option \<Rightarrow> request_env \<Rightarrow> string option \<Rightarrow>
    auth_request \<Rightarrow> auth_reply" where
  "auth_api isEmail D verify nodeEnv env jar req s =
     (if auth_body_valid isEmail req then auth_controller D verify nodeEnv env jar req s
      else (throw (BadRequestException ''Validation failed''), s))"

subsection \<open>web.controller.ts\<close>

record page =
  pg_status :: nat
  pg_html :: string

record web_config =
  wc_appBaseUrl :: string
  wc_load :: "string \<Rightarrow> string"
  wc_year :: int

definition new_WebController :: "string option \<Rightarrow> (string \<Rightarrow> string) \<Rightarrow> int \<Rightarrow> web_config result" where
  "new_WebController appBase load year = (case appBase of
      None \<Rightarrow> throw (PlainError ''Configuration key APP_BASE_URL does not exist'')
    | Some b \<Rightarrow> ok \<lparr>wc_appBaseUrl = strip_slashes b, wc_load = load, wc_year = year\<rparr>)"

definition sendHtml :: "web_config \<Rightarrow> nat \<Rightarrow> string \<Rightarrow> template_vars \<Rightarrow> page" where
  "sendHtml W status template vars =
     \<lparr>pg_status = status, pg_html = renderHtml (wc_load W) (wc_year W) template vars\<rparr>"

definition login_url :: "web_config \<Rightarrow> string \<times> template_value" where
  "login_url W = (''loginUrl'', TStr (wc_appBaseUrl W @ ''/api/docs''))"

definition web_verifyEmail :: "web_config \<Rightarrow> auth_deps \<Rightarrow> instant \<Rightarrow> string option \<Rightarrow> auth_state \<Rightarrow> page \<times> auth_state" where
  "web_verifyEmail W D t token s =
     (if falsy token
      then (sendHtml W 400 ''verify-error'' [(''title'', TStr ''Missing token''),
          (''message'', TStr ''This verification link is incomplete. Use the link from the email exactly as it was sent.''),
          login_url W], s)
      else (case verifyEmail D t (the token) s of
          (Inr _, s1) \<Rightarrow> (sendHtml W 200 ''verify-success'' [login_url W], s1)
        | (Inl _, s1) \<Rightarrow> (sendHtml W 400 ''verify-error'' [(''title'', TStr ''Link is no longer valid''),
            (''message'', TStr ''This verification link is invalid, expired, or has already been used. If your account is still unverified, request a new link.''),
            login_url W], s1)))"

definition web_resetPasswordForm :: "web_config \<Rightarrow> string option \<Rightarrow> page" where
  "web_resetPasswordForm W token =
     (if falsy token
      then sendHtml W 400 ''reset-error'' [(''title'', TStr ''Missing token''),
        (''message'', TStr ''This reset link is incomplete. Use the link from the email exactly as it was sent.''),
        login_url W]
      else sendHtml W 200 ''reset-form'' [(''token'', TStr (the token))])"

definition error_text :: "exc \<Rightarrow> string" where
  "error_text e = (case e of
      BadRequestException m \<Rightarrow> m | UnauthorizedException m \<Rightarrow> m | ForbiddenException m \<Rightarrow> m | NotFoundException m \<Rightarrow> m
    | ConflictException m \<Rightarrow> m | UnprocessableEntityException m \<Rightarrow> m | InternalServerErrorException m \<Rightarrow> m
    | DatabaseError m \<Rightarrow> m | RedisError m \<Rightarrow> m | WsException m \<Rightarrow> m | PlainError m \<Rightarrow> m)"

definition web_resetPasswordSubmit ::
  "web_config \<Rightarrow> auth_deps \<Rightarrow> request_env \<Rightarrow> string option \<Rightarrow> string option \<Rightarrow> string option \<Rightarrow> auth_state \<Rightarrow> page \<times> auth_state" where
  "web_resetPasswordSubmit W D env token newPassword confirmPassword s =
     (if falsy token \<or> falsy newPassword
      then (sendHtml W 400 ''reset-error'' [(''title'', TStr ''Missing fields''),
        (''message'', TStr ''Both the token and a new password are required.''), login_url W], s)
      else if confirmPassword \<noteq> None \<and> confirmPassword \<noteq> newPassword
      then (sendHtml W 400 ''reset-form'' [(''token'', TStr (the token)), (''error'', TStr ''Passwords do not match.'')], s)
      else (case resetPassword D env (the token) (the newPassword) s of
          (Inr _, s1) \<Rightarrow> (sendHtml W 200 ''reset-success'' [login_url W], s1)
        | (Inl e, s1) \<Rightarrow> (sendHtml W 400 ''reset-form'' [(''token'', TStr (the token)),
            (''error'', TStr (if error_text e \<noteq> '''' then error_text e else ''This reset link is invalid or expired.''))], s1)))"

subsection \<open>The two ways to reset a password\<close>

lemma resetPassword_any:
  assumes "resetPassword D env token p s = (Inr m, s1)"
  shows "\<exists>s2. resetPassword D env token q s = (Inr m, s2)"
  using assms by (auto simp: resetPassword_def bind_op_def split: prod.splits sum.splits)

text \<open>The form behind the mailed link applies no password policy. With a token that the JSON endpoint would accept,
  the form sets any non-empty password: it answers 200 and the owner's hash is the hash of that password, while
  the JSON endpoint refuses every password that breaks the rules.\<close>

theorem web_reset_skips_policy:
  assumes "resetPassword D env token p s = (Inr m, s1)" and "token \<noteq> ''''" and "q \<noteq> ''''" and "\<not> new_password_valid q"
  shows "(\<exists>page u s2. web_resetPasswordSubmit W D env (Some token) (Some q) None s = (page, s2) \<and> pg_status page = 200 \<and>
      fst (consumeAuthToken D (now env) token PASSWORD_RESET s) = Inr u \<and>
      (\<forall>x \<in> set (au_users s2). pk x \<noteq> u \<or> u_passwordHash x = bc_hash (ad_bcrypt D) (salt env) BCRYPT_PASSWORD_COST q)) \<and>
    auth_api isEmail D verify ne env jar (ResetPassword token q) s = (Inl (BadRequestException ''Validation failed''), s)"
proof -
  obtain u s0 where c: "consumeAuthToken D (now env) token PASSWORD_RESET s = (Inr u, s0)"
    using assms(1) by (auto simp: resetPassword_def bind_op_eq_ok_iff)
  then have r: "resetPassword D env token q s = (Inr ''Password reset successful. Please log in.'',
      revokeAllRefreshTokens (now env) u StudentAccount (set_password D env u q s0))"
    by (simp add: resetPassword_def bind_op_def)
  let ?s2 = "revokeAllRefreshTokens (now env) u StudentAccount (set_password D env u q s0)"
  have h: "\<forall>x \<in> set (au_users ?s2). pk x \<noteq> u \<or> u_passwordHash x = bc_hash (ad_bcrypt D) (salt env) BCRYPT_PASSWORD_COST q"
    using set_password_hash [of "now env" u StudentAccount D env q s0] by (auto simp: BCRYPT_PASSWORD_COST_def)
  have "\<not> (falsy (Some token) \<or> falsy (Some q))" using assms(2,3) by (simp add: falsy_def)
  then have w: "web_resetPasswordSubmit W D env (Some token) (Some q) None s = (sendHtml W 200 ''reset-success'' [login_url W], ?s2)"
    by (simp only: web_resetPasswordSubmit_def if_False simp_thms option.sel r prod.case sum.case)
  have "pg_status (sendHtml W 200 ''reset-success'' [login_url W]) = 200" by (simp add: sendHtml_def)
  moreover have "fst (consumeAuthToken D (now env) token PASSWORD_RESET s) = Inr u" by (simp add: c)
  moreover have "auth_api isEmail D verify ne env jar (ResetPassword token q) s = (Inl (BadRequestException ''Validation failed''), s)"
    using assms(4) by (simp add: auth_api_def)
  ultimately show ?thesis using w h by blast
qed

theorem web_reset_skips_policy_witness:
  "\<exists>page u s2. web_resetPasswordSubmit \<lparr>wc_appBaseUrl = ''x'', wc_load = (\<lambda>_. ''''), wc_year = 2026\<rparr> demo_deps (auth_env 600)
     (Some ''01ab'') (Some ''weak'') None (snd (forgotPassword demo_deps (auth_env 500) ''Jane@x.org '' demo_auth)) = (page, s2) \<and>
     pg_status page = 200"
proof -
  let ?run = "resetPassword demo_deps (auth_env 600) ''01ab'' ''new'' (snd (forgotPassword demo_deps (auth_env 500) ''Jane@x.org '' demo_auth))"
  have "fst ?run = Inr ''Password reset successful. Please log in.''" by code_simp
  then have "?run = (Inr ''Password reset successful. Please log in.'', snd ?run)" by (metis prod.collapse)
  from web_reset_skips_policy [OF this, of "''weak''"] show ?thesis by (simp add: new_password_valid_def) blast
qed

end
