(* ===== verification/Keyset.thy ===== *)
theory Keyset
  imports Main
begin

section \<open>Keyset pagination\<close>

text \<open>
  A client of a paged list follows the cursor of each page to the next one. \<open>pages\<close> is that loop,
  as the list operation serves it: one row more than the limit is fetched to see whether there is a
  next page, whose cursor is the key of the last row handed out. The locale states what the query
  behind the pages promises: without a cursor it yields the beginning of the list, with the cursor of
  a row the rows behind that row. Then the loop ends and hands out every row once, in order.
\<close>

fun pages :: "('s \<Rightarrow> 'k option \<Rightarrow> nat \<Rightarrow> 'r list) \<Rightarrow> ('r \<Rightarrow> 'k) \<Rightarrow> nat \<Rightarrow> 's \<Rightarrow> nat \<Rightarrow> 'k option \<Rightarrow> 'r list" where
  "pages fetch key lim s 0 c = []"
| "pages fetch key lim s (Suc n) c =
     (let rows = fetch s c (lim + 1); page = take lim rows
      in page @ (if lim < length rows \<and> page \<noteq> [] then pages fetch key lim s n (Some (key (last page))) else []))"

locale keyset =
  fixes table :: "'s \<Rightarrow> 'r list"
    and fetch :: "'s \<Rightarrow> 'k option \<Rightarrow> nat \<Rightarrow> 'r list"
    and key :: "'r \<Rightarrow> 'k"
    and valid :: "'s \<Rightarrow> bool"
  assumes first_page: "valid s \<Longrightarrow> fetch s None n = take n (table s)"
    and next_page: "valid s \<Longrightarrow> table s = xs @ x # ys \<Longrightarrow> fetch s (Some (key x)) n = take n ys"
begin

lemma pages_suffix:
  assumes "valid s" and "0 < lim"
  shows "table s = xs @ ys \<Longrightarrow> (\<And>n. fetch s c n = take n ys) \<Longrightarrow> length ys < fuel \<Longrightarrow>
    pages fetch key lim s fuel c = ys"
proof (induction fuel arbitrary: xs ys c)
  case (Suc fuel)
  show ?case
  proof (cases "lim < length ys")
    case True
    let ?p = "take lim ys"
    have p: "?p \<noteq> []" using True assms(2) by auto
    then have p': "?p = butlast ?p @ [last ?p]" by (rule append_butlast_last_id [symmetric])
    have "ys = butlast ?p @ last ?p # drop lim ys"
      using p' append_take_drop_id [of lim ys] by (metis append.assoc append_Cons append_Nil)
    then have t: "table s = (xs @ butlast ?p) @ last ?p # drop lim ys" using Suc.prems(1) by simp
    have "fetch s (Some (key (last ?p))) n = take n (drop lim ys)" for n
      by (rule next_page [OF assms(1) t])
    moreover have "table s = (xs @ ?p) @ drop lim ys" using Suc.prems(1) by simp
    moreover have "length (drop lim ys) < fuel" using Suc.prems(3) assms(2) True by simp
    ultimately have "pages fetch key lim s fuel (Some (key (last ?p))) = drop lim ys" using Suc.IH by blast
    moreover have "take lim (fetch s c (lim + 1)) = ?p" using Suc.prems(2) by (simp add: min_def)
    ultimately show ?thesis using True p Suc.prems(2) by (simp add: Let_def)
  qed (use Suc.prems(2) in \<open>auto simp: Let_def\<close>)
qed simp

theorem pages_are_the_table:
  assumes "valid s" "0 < lim" "length (table s) < fuel"
  shows "pages fetch key lim s fuel None = table s"
  by (rule pages_suffix [OF assms(1,2), of "[]"]) (simp_all add: assms first_page)

end

end
