(* ===== verification/Catalog.thy ===== *)
theory Catalog
  imports I18n JsObject Keyset "HOL-Library.List_Lexorder" "HOL-Library.Product_Lexorder"
begin

section \<open>The catalogue (modules/catalog)\<close>

text \<open>
  \<open>CatalogService\<close> over the table of certificates. \<open>created_at\<close> is a \<open>timestamptz\<close> with
  microseconds (\<open>c_createdUs\<close>), of which the entity's \<open>createdAt\<close>, a JavaScript \<open>Date\<close>, keeps the
  milliseconds: the list orders and compares by the column, its cursors carry the date.

  The WHERE clause of the list is composed by the query builder of TypeORM and read by PostgreSQL. The
  model keeps the calls of \<open>andWhere\<close> with the conditions in their texts; which rows the composed clause
  selects is a field of the record \<open>catalog_library\<close>, beside the encodings of the cursor.
\<close>

subsection \<open>State and requests\<close>

record cert_row = certificate +
  c_createdUs :: int

record catalog_state =
  cs_certs :: "cert_row list"

record catalog_query =
  cq_search :: "string option"
  cq_program_code :: "string option"
  cq_active :: "bool option"
  cq_cursor :: "string option"
  cq_limit :: "nat option"
  cq_sort :: "string option"

record catalog_item =
  ci_id :: uuid
  ci_programCode :: string
  ci_title :: string
  ci_description :: "string option"
  ci_price :: string
  ci_currency :: string
  ci_thumbnailUrl :: "string option"
  ci_active :: bool
  ci_locale :: string
  ci_direction :: string
  ci_fallbackUsed :: bool
  ci_createdAt :: instant
  ci_updatedAt :: instant

record catalog_detail = catalog_item +
  cd_translations :: "localized option"

record catalog_list_response =
  cl_data :: "catalog_item list"
  cl_locale :: string
  cl_limit :: nat
  cl_nextCursor :: "string option"
  cl_hasMore :: bool

record create_certificate_dto =
  cc_title :: string
  cc_programCode :: string
  cc_priceCents :: int
  cc_currency :: "string option"
  cc_description :: "string option"
  cc_thumbnailUrl :: "string option"
  cc_active :: "bool option"
  cc_translations :: "(string \<times> locale_block) list option"

record update_certificate_dto =
  uc_title :: "string js_field"
  uc_programCode :: "string js_field"
  uc_priceCents :: "int js_field"
  uc_currency :: "string js_field"
  uc_description :: "string js_field"
  uc_thumbnailUrl :: "string js_field"
  uc_active :: "bool js_field"
  uc_translations :: "(string \<times> locale_block) list js_field"

definition DEFAULT_LIMIT :: nat where
  "DEFAULT_LIMIT = 20"

definition MAX_LIMIT :: nat where
  "MAX_LIMIT = 100"

subsection \<open>Cursors\<close>

text \<open>
  The codecs of the cursor: \<open>toISOString\<close>, Postgres reading the text of a timestamp (in
  microseconds), and JSON in base64url. Decoding yields the two fields when the text parses. And the
  rows that a query selects after the given calls \<open>qb.andWhere(text)\<close>, each for a text that is the OR of
  some conditions.
\<close>

type_synonym 'r where_call = "('r \<Rightarrow> bool) list"

record catalog_library =
  co_iso :: "instant \<Rightarrow> string"
  co_pg_time :: "string \<Rightarrow> int option"
  co_encode :: "string \<times> string \<Rightarrow> string"
  co_parse :: "string \<Rightarrow> (string option \<times> string option) option"
  co_where :: "cert_row where_call list \<Rightarrow> cert_row \<Rightarrow> bool"

definition codec_ok :: "catalog_library \<Rightarrow> bool" where
  "codec_ok K \<longleftrightarrow>
     (\<forall>t. co_iso K t \<noteq> '''' \<and> co_pg_time K (co_iso K t) = Some (t * 1000)) \<and>
     (\<forall>ts i. co_encode K (ts, i) \<noteq> '''' \<and> co_parse K (co_encode K (ts, i)) = Some (Some ts, Some i))"

text \<open>The documented meaning of \<open>andWhere\<close>, for texts without an OR: the rows that meet every condition.\<close>

definition where_ok :: "catalog_library \<Rightarrow> bool" where
  "where_ok K \<longleftrightarrow> (\<forall>W r. (\<forall>ds \<in> set W. length ds = 1) \<longrightarrow> co_where K W r = (\<forall>ds \<in> set W. \<forall>d \<in> set ds. d r))"

definition encodeCursor :: "catalog_library \<Rightarrow> string \<times> string \<Rightarrow> string" where
  "encodeCursor K c = co_encode K c"

definition decodeCursor :: "catalog_library \<Rightarrow> string \<Rightarrow> (string \<times> string) result" where
  "decodeCursor K raw = (case co_parse K raw of
      Some (Some ts, Some i) \<Rightarrow>
        if ts = '''' \<or> i = '''' then throw (BadRequestException ''Invalid cursor'') else ok (ts, i)
    | _ \<Rightarrow> throw (BadRequestException ''Invalid cursor''))"

subsection \<open>Resolving a row for a reader\<close>

definition two_digits :: "int \<Rightarrow> string" where
  "two_digits n = (if n < 10 then ''0'' @ int_text n else int_text n)"

text \<open>\<open>n.toFixed(2)\<close> of a \<open>numeric(10,2)\<close> given in hundredths.\<close>

definition formatPrice :: "int \<Rightarrow> string" where
  "formatPrice cents = (if cents < 0 then ''-'' else '''') @ int_text (\<bar>cents\<bar> div 100) @ ''.'' @ two_digits (\<bar>cents\<bar> mod 100)"

definition or_else :: "'a option \<Rightarrow> 'a option \<Rightarrow> 'a option" where
  "or_else x y = (case x of Some v \<Rightarrow> Some v | None \<Rightarrow> y)"

definition toItemDto :: "'a certificate_scheme \<Rightarrow> string \<Rightarrow> catalog_item" where
  "toItemDto c locale =
     (let titleRes = resolveTranslation (Some (c_translations c)) ''title'' locale;
          descRes = resolveTranslation (Some (c_translations c)) ''description'' locale
      in \<lparr>ci_id = pk c, ci_programCode = c_programCode c,
          ci_title = (case tr_value titleRes of Some v \<Rightarrow> v | None \<Rightarrow> c_title c),
          ci_description = or_else (tr_value descRes) (c_description c),
          ci_price = formatPrice (c_priceCents c), ci_currency = c_currency c,
          ci_thumbnailUrl = c_thumbnailUrl c, ci_active = c_active c, ci_locale = locale,
          ci_direction = directionFor locale,
          ci_fallbackUsed = (tr_fallbackUsed titleRes \<or> tr_fallbackUsed descRes),
          ci_createdAt = createdAt c, ci_updatedAt = updatedAt c\<rparr>)"

definition toDetailDto :: "'a certificate_scheme \<Rightarrow> string \<Rightarrow> bool \<Rightarrow> catalog_detail" where
  "toDetailDto c locale adminView =
     catalog_item.extend (toItemDto c locale)
       (catalog_detail.fields (if adminView then Some (c_translations c) else None))"

subsection \<open>The list query\<close>

text \<open>SQL's LIKE: \<open>%\<close> is any text, \<open>_\<close> any character, a backslash takes the next character literally.\<close>

fun like :: "string \<Rightarrow> string \<Rightarrow> bool" where
  "like [] s = (s = [])"
| "like (p # ps) [] = (p = CHR ''%'' \<and> like ps [])"
| "like (p # ps) (c # s) =
     (if p = CHR ''%'' then like ps (c # s) \<or> like (p # ps) s
      else if p = CHR ''_'' then like ps s
      else if p = CHR 0x5C then (case ps of q # qs \<Rightarrow> q = c \<and> like qs s | [] \<Rightarrow> False)
      else p = c \<and> like ps s)"

definition ilike :: "string option \<Rightarrow> string \<Rightarrow> bool" where
  "ilike column p = (case column of None \<Rightarrow> False | Some s \<Rightarrow> like (toLowerCase p) (toLowerCase s))"

definition active_condition :: "bool \<Rightarrow> catalog_query \<Rightarrow> cert_row where_call list" where
  "active_condition adminView q =
     (if adminView then (case cq_active q of Some a \<Rightarrow> [[\<lambda>c. c_active c = a]] | None \<Rightarrow> [])
      else [[\<lambda>c. c_active c = (case cq_active q of Some a \<Rightarrow> a | None \<Rightarrow> True)]])"

definition truthy :: "string option \<Rightarrow> string option" where
  "truthy s = (case s of Some x \<Rightarrow> if x = '''' then None else Some x | None \<Rightarrow> None)"

definition en_title :: "'a certificate_scheme \<Rightarrow> string option" where
  "en_title c = (case c_translations c ''en'' of None \<Rightarrow> None | Some b \<Rightarrow> b ''title'')"

definition search_conditions :: "string \<Rightarrow> cert_row where_call" where
  "search_conditions q = (let s = ''%'' @ q @ ''%'' in [\<lambda>c. ilike (en_title c) s, \<lambda>c. ilike (Some (c_title c)) s])"

text \<open>The row comparison \<open>(created_at, id) < (ts, id)\<close>, or \<open>>\<close> when ascending.\<close>

definition beyond :: "bool \<Rightarrow> int \<times> string \<Rightarrow> cert_row \<Rightarrow> bool" where
  "beyond asc k c = (if asc then k < (c_createdUs c, pk c) else (c_createdUs c, pk c) < k)"

definition filter_conditions :: "bool \<Rightarrow> catalog_query \<Rightarrow> cert_row where_call list" where
  "filter_conditions adminView q =
     active_condition adminView q @
     (case truthy (cq_program_code q) of Some pc \<Rightarrow> [[\<lambda>c. c_programCode c = pc]] | None \<Rightarrow> []) @
     (case truthy (cq_search q) of Some s \<Rightarrow> [search_conditions s] | None \<Rightarrow> [])"

text \<open>ORDER BY created_at, id in the direction of the query.\<close>

definition ascending :: "catalog_query \<Rightarrow> bool" where
  "ascending q \<longleftrightarrow> \<not> prefix ''-'' (case cq_sort q of Some s \<Rightarrow> s | None \<Rightarrow> ''-created_at'')"

definition ordered :: "bool \<Rightarrow> cert_row list \<Rightarrow> cert_row list" where
  "ordered asc rows = (let up = sort_key (\<lambda>c. (c_createdUs c, pk c)) rows in if asc then up else rev up)"

definition page_limit :: "catalog_query \<Rightarrow> nat" where
  "page_limit q = min (case cq_limit q of Some n \<Rightarrow> n | None \<Rightarrow> DEFAULT_LIMIT) MAX_LIMIT"

definition row_cursor :: "catalog_library \<Rightarrow> cert_row \<Rightarrow> string" where
  "row_cursor K c = encodeCursor K (co_iso K (createdAt c), pk c)"

text \<open>The condition of the cursor; Postgres rejects a text that is no timestamp.\<close>

definition cursor_conditions ::
  "catalog_library \<Rightarrow> catalog_query \<Rightarrow> cert_row where_call list \<Rightarrow> cert_row where_call list result" where
  "cursor_conditions K q W = (case truthy (cq_cursor q) of
      None \<Rightarrow> ok W
    | Some raw \<Rightarrow>
        (case decodeCursor K raw of
           Inl e \<Rightarrow> throw e
         | Inr (ts, i) \<Rightarrow>
             (case co_pg_time K ts of
                None \<Rightarrow> throw (DatabaseError ''invalid input syntax for type timestamp with time zone'')
              | Some us \<Rightarrow> ok (W @ [[beyond (ascending q) (us, i)]]))))"

definition list_page :: "catalog_library \<Rightarrow> string \<Rightarrow> catalog_query \<Rightarrow> cert_row list \<Rightarrow> catalog_list_response" where
  "list_page K locale q rows =
     (let limit = page_limit q;
          hasMore = limit < length rows;
          page = (if hasMore then take limit rows else rows)
      in \<lparr>cl_data = map (\<lambda>c. toItemDto c locale) page, cl_locale = locale, cl_limit = limit,
          cl_nextCursor = (if hasMore \<and> page \<noteq> [] then Some (row_cursor K (last page)) else None),
          cl_hasMore = hasMore\<rparr>)"

definition catalog_list ::
  "catalog_library \<Rightarrow> string option \<Rightarrow> catalog_query \<Rightarrow> bool \<Rightarrow> catalog_state \<Rightarrow> catalog_list_response result" where
  "catalog_list K ctxLang q adminView s =
     (let locale = resolveLocale ctxLang in
      case cursor_conditions K q (filter_conditions adminView q) of
        Inl e \<Rightarrow> throw e
      | Inr W \<Rightarrow> ok (list_page K locale q
          (take (page_limit q + 1) (ordered (ascending q) (filter (co_where K W) (cs_certs s))))))"

subsection \<open>Reading one certificate\<close>

definition find_cert :: "uuid \<Rightarrow> catalog_state \<Rightarrow> cert_row option" where
  "find_cert certId s = find_one (\<lambda>c. pk c = certId) (cs_certs s)"

definition catalog_getById ::
  "string option \<Rightarrow> uuid \<Rightarrow> bool \<Rightarrow> catalog_state \<Rightarrow> (catalog_detail \<times> string) result" where
  "catalog_getById ctxLang certId adminView s =
     (case find_cert certId s of
        None \<Rightarrow> throw (NotFoundException ''Certificate not found'')
      | Some c \<Rightarrow>
          if \<not> adminView \<and> \<not> c_active c then throw (NotFoundException ''Certificate not found'')
          else let locale = resolveLocale ctxLang in ok (toDetailDto c locale adminView, locale))"

subsection \<open>Writing\<close>

text \<open>\<open>buildTranslations\<close> of the catalogue; the column drops an undefined description.\<close>

definition mirror_block :: "string \<Rightarrow> string option \<Rightarrow> locale_block" where
  "mirror_block title description = (\<lambda>k. if k = ''title'' then Some title
     else if k = ''description'' then description else None)"

definition catalog_buildTranslations ::
  "localized \<Rightarrow> (string \<times> locale_block) list option \<Rightarrow> string \<Rightarrow> string option \<Rightarrow> localized" where
  "catalog_buildTranslations existing dtoTranslations canonicalTitle canonicalDescription =
     (let dtoT = (case dtoTranslations of Some es \<Rightarrow> es | None \<Rightarrow> []);
          explicitEn = ''en'' \<in> fst ` set dtoT;
          merged = assign_entries dtoT existing
      in if explicitEn then merged else merged(''en'' \<mapsto> mirror_block canonicalTitle canonicalDescription))"

definition code_taken :: "string \<Rightarrow> string" where
  "code_taken code = ''A certificate with program code '' @ [CHR 0x27] @ code @ [CHR 0x27] @ '' already exists''"

text \<open>\<open>us\<close> is the database's clock, \<open>newId\<close> the generated key.\<close>

definition catalog_create ::
  "string option \<Rightarrow> int \<Rightarrow> uuid \<Rightarrow> create_certificate_dto \<Rightarrow> (catalog_state, catalog_detail) op" where
  "catalog_create ctxLang us newKey d s =
     (case find_one (\<lambda>c. c_programCode c = cc_programCode d) (cs_certs s) of
        Some _ \<Rightarrow> (throw (ConflictException (code_taken (cc_programCode d))), s)
      | None \<Rightarrow>
          let T = catalog_buildTranslations Map.empty (cc_translations d) (cc_title d) (cc_description d);
              row = \<lparr>pk = newKey, createdAt = us div 1000, updatedAt = us div 1000, c_title = cc_title d,
                     c_programCode = cc_programCode d, c_description = cc_description d, c_translations = T,
                     c_priceCents = cc_priceCents d,
                     c_currency = (case cc_currency d of Some x \<Rightarrow> x | None \<Rightarrow> ''USD''),
                     c_active = (case cc_active d of Some x \<Rightarrow> x | None \<Rightarrow> True),
                     c_thumbnailUrl = cc_thumbnailUrl d, c_badgeImageUrl = None, c_track = None, c_level = None,
                     c_durationHours = None, c_syllabusUrl = None, c_createdUs = us\<rparr>
          in case insert_row pk row (cs_certs s) of
               Inl e \<Rightarrow> (throw e, s)
             | Inr rows \<Rightarrow> (ok (toDetailDto row (resolveLocale ctxLang) True), s\<lparr>cs_certs := rows\<rparr>))"

text \<open>The patch of an update, applied to a row; a null for a column that is NOT NULL is refused.\<close>

definition violates_not_null :: "update_certificate_dto \<Rightarrow> bool" where
  "violates_not_null d \<longleftrightarrow> uc_title d = Null \<or> uc_programCode d = Null \<or> uc_priceCents d = Null \<or>
     uc_currency d = Null \<or> uc_active d = Null"

definition patch_translations :: "update_certificate_dto \<Rightarrow> 'a certificate_scheme \<Rightarrow> localized option" where
  "patch_translations d cert =
     (if defined (uc_title d) \<or> defined (uc_description d) \<or> defined (uc_translations d)
      then Some (catalog_buildTranslations (c_translations cert) (or_null (uc_translations d))
        (or_default (uc_title d) (c_title cert)) (patched (uc_description d) (c_description cert)))
      else None)"

definition patch_empty :: "update_certificate_dto \<Rightarrow> bool" where
  "patch_empty d \<longleftrightarrow> \<not> defined (uc_title d) \<and> \<not> defined (uc_programCode d) \<and> \<not> defined (uc_priceCents d) \<and>
     \<not> defined (uc_currency d) \<and> \<not> defined (uc_description d) \<and> \<not> defined (uc_thumbnailUrl d) \<and>
     \<not> defined (uc_active d) \<and> \<not> defined (uc_translations d)"

definition apply_patch :: "instant \<Rightarrow> update_certificate_dto \<Rightarrow> localized option \<Rightarrow> 'a certificate_scheme \<Rightarrow> 'a certificate_scheme" where
  "apply_patch t d T c = (touch t c)\<lparr>
     c_title := or_default (uc_title d) (c_title c),
     c_programCode := or_default (uc_programCode d) (c_programCode c),
     c_priceCents := or_default (uc_priceCents d) (c_priceCents c),
     c_currency := or_default (uc_currency d) (c_currency c),
     c_description := patched (uc_description d) (c_description c),
     c_thumbnailUrl := patched (uc_thumbnailUrl d) (c_thumbnailUrl c),
     c_active := or_default (uc_active d) (c_active c),
     c_translations := (case T of Some x \<Rightarrow> x | None \<Rightarrow> c_translations c)\<rparr>"

text \<open>\<open>findOneOrFail\<close> after the write, for the admin.\<close>

definition refreshed :: "string option \<Rightarrow> uuid \<Rightarrow> (catalog_state, catalog_detail) op" where
  "refreshed ctxLang certId s = (case find_cert certId s of
      None \<Rightarrow> (throw (DatabaseError ''EntityNotFoundError''), s)
    | Some c \<Rightarrow> (ok (toDetailDto c (resolveLocale ctxLang) True), s))"

definition write_cert :: "uuid \<Rightarrow> (cert_row \<Rightarrow> cert_row) \<Rightarrow> catalog_state \<Rightarrow> catalog_state" where
  "write_cert certId f s = s\<lparr>cs_certs := update_rows (\<lambda>c. pk c = certId) f (cs_certs s)\<rparr>"

definition code_clash :: "uuid \<Rightarrow> update_certificate_dto \<Rightarrow> cert_row \<Rightarrow> catalog_state \<Rightarrow> bool" where
  "code_clash certId d cert s = (case uc_programCode d of
      Value code \<Rightarrow> code \<noteq> '''' \<and> code \<noteq> c_programCode cert \<and>
        (case find_one (\<lambda>c. c_programCode c = code) (cs_certs s) of Some c \<Rightarrow> pk c \<noteq> certId | None \<Rightarrow> False)
    | _ \<Rightarrow> False)"

definition catalog_update ::
  "string option \<Rightarrow> instant \<Rightarrow> uuid \<Rightarrow> update_certificate_dto \<Rightarrow> (catalog_state, catalog_detail) op" where
  "catalog_update ctxLang t certId d s =
     (case find_cert certId s of
        None \<Rightarrow> (throw (NotFoundException ''Certificate not found''), s)
      | Some cert \<Rightarrow>
          if code_clash certId d cert s
          then (throw (ConflictException (code_taken (or_default (uc_programCode d) ''''))), s)
          else if patch_empty d then refreshed ctxLang certId s
          else if violates_not_null d then (throw (DatabaseError ''violates not-null constraint''), s)
          else refreshed ctxLang certId (write_cert certId (apply_patch t d (patch_translations d cert)) s))"

definition catalog_updateTranslations ::
  "string option \<Rightarrow> instant \<Rightarrow> uuid \<Rightarrow> (string \<times> locale_block) list \<Rightarrow> (catalog_state, catalog_detail) op" where
  "catalog_updateTranslations ctxLang t certId incoming s =
     (case find_cert certId s of
        None \<Rightarrow> (throw (NotFoundException ''Certificate not found''), s)
      | Some cert \<Rightarrow>
          (case find_one (\<lambda>(k, _). \<not> isLocale k) incoming of
             Some (k, _) \<Rightarrow> (throw (BadRequestException (''Unsupported locale: '' @ [CHR 0x27] @ k @ [CHR 0x27])), s)
           | None \<Rightarrow>
               let merged = assign_entries incoming (c_translations cert);
                   enTitle = truthy (case merged ''en'' of None \<Rightarrow> None | Some b \<Rightarrow> b ''title'');
                   write = (case enTitle of
                       Some v \<Rightarrow> if v \<noteq> c_title cert
                         then (\<lambda>c. (touch t c)\<lparr>c_title := v, c_translations := merged\<rparr>)
                         else (\<lambda>c. (touch t c)\<lparr>c_translations := merged\<rparr>)
                     | None \<Rightarrow> (\<lambda>c. (touch t c)\<lparr>c_translations := merged\<rparr>))
               in refreshed ctxLang certId (write_cert certId write s)))"

definition catalog_softDelete :: "instant \<Rightarrow> uuid \<Rightarrow> (catalog_state, uuid \<times> bool) op" where
  "catalog_softDelete t certId s =
     (case find_cert certId s of
        None \<Rightarrow> (throw (NotFoundException ''Certificate not found''), s)
      | Some _ \<Rightarrow> (ok (certId, False), write_cert certId (\<lambda>c. (touch t c)\<lparr>c_active := False\<rparr>) s))"

end
