(* ===== verification/CatalogFacts.thy ===== *)
theory CatalogFacts
  imports Catalog Contracts
begin

section \<open>Facts about the catalogue\<close>

text \<open>
  The invariant of the table of certificates and that every write keeps it, the rows no write removes,
  the WHERE text of a query without a search, and the list query as a provider of keyset pages.
\<close>

subsection \<open>The invariant\<close>

definition catalog_inv :: "catalog_state \<Rightarrow> bool" where
  "catalog_inv s \<longleftrightarrow> distinct (map pk (cs_certs s)) \<and> distinct (map c_programCode (cs_certs s)) \<and>
     (\<forall>r \<in> set (cs_certs s). createdAt r = c_createdUs r div 1000)"

text \<open>A certificate and its place in the list.\<close>

definition listed :: "catalog_state \<Rightarrow> uuid \<times> int \<Rightarrow> bool" where
  "listed s k \<longleftrightarrow> k \<in> (\<lambda>r. (pk r, c_createdUs r)) ` set (cs_certs s)"

inductive catalog_step :: "catalog_state \<Rightarrow> catalog_state \<Rightarrow> bool" where
  create: "catalog_step s (snd (catalog_create l us n d s))"
| update: "uc_programCode d \<noteq> Value '''' \<Longrightarrow> catalog_step s (snd (catalog_update l t i d s))"
| translate: "catalog_step s (snd (catalog_updateTranslations l t i es s))"
| soft_delete: "catalog_step s (snd (catalog_softDelete t i s))"

lemma touch_createdUs [simp]: "c_createdUs (touch t r) = c_createdUs r" "c_programCode (touch t r) = c_programCode r"
  by (simp_all add: touch_def)

lemma refreshed_state [simp]: "snd (refreshed l i s) = s"
  by (simp add: refreshed_def split: option.split)

lemma distinct_after_update:
  assumes "distinct (map pk t)" and "r \<in> set t" and "distinct (map g t)" and "pk r = i"
    and "\<And>x. x \<in> set t \<Longrightarrow> pk x \<noteq> i \<Longrightarrow> g x \<noteq> g (f r)"
  shows "distinct (map g (update_rows (\<lambda>c. pk c = i) f t))"
proof -
  obtain xs ys where t: "t = xs @ r # ys" and o: "\<And>x. x \<in> set xs \<union> set ys \<Longrightarrow> pk x \<noteq> pk r"
    and u: "\<And>f. update_rows (\<lambda>c. pk c = i) f t = xs @ f r # ys"
    by (rule update_key_split [OF assms(1,2), of "\<lambda>c. pk c = i"]) (use assms(4) in auto)
  have "g (f r) \<noteq> g x" if "x \<in> set xs \<union> set ys" for x
    using assms(5) [of x] o [OF that] that assms(4) by (auto simp: t)
  then have "g (f r) \<notin> g ` (set xs \<union> set ys)" by blast
  then show ?thesis unfolding u using assms(3) by (auto simp: t image_Un)
qed

lemma write_cert_inv:
  assumes "catalog_inv s" and "find_cert i s = Some c"
    and "\<And>r. pk (f r) = pk r" "\<And>r. createdAt (f r) = createdAt r" "\<And>r. c_createdUs (f r) = c_createdUs r"
    and "\<And>x. x \<in> set (cs_certs s) \<Longrightarrow> pk x \<noteq> i \<Longrightarrow> c_programCode x \<noteq> c_programCode (f c)"
  shows "catalog_inv (write_cert i f s)"
proof -
  have c: "c \<in> set (cs_certs s)" "pk c = i" using find_one_SomeD [OF assms(2) [unfolded find_cert_def]] by simp_all
  have "distinct (map c_programCode (update_rows (\<lambda>c. pk c = i) f (cs_certs s)))"
    by (rule distinct_after_update [where r = c, OF _ c(1) _ c(2)])
      (use assms(1,6) in \<open>simp_all add: catalog_inv_def\<close>)
  with assms(1,3-5) show ?thesis by (auto simp: catalog_inv_def write_cert_def set_update_rows)
qed

lemma same_code_ok:
  assumes "catalog_inv s" and "find_cert i s = Some c" and "x \<in> set (cs_certs s)" and "pk x \<noteq> i"
  shows "c_programCode x \<noteq> c_programCode c"
proof
  have c: "c \<in> set (cs_certs s)" "pk c = i" using find_one_SomeD [OF assms(2) [unfolded find_cert_def]] by simp_all
  assume "c_programCode x = c_programCode c"
  with distinct_key_eq [of c_programCode "cs_certs s" x c] assms(1,3) c(1) have "x = c" by (simp add: catalog_inv_def)
  with c(2) assms(4) show False by simp
qed

lemma listed_write [simp]:
  assumes "\<And>r. pk (f r) = pk r" "\<And>r. c_createdUs (f r) = c_createdUs r"
  shows "listed (write_cert i f s) k = listed s k"
  using assms by (simp add: listed_def write_cert_def flip: set_map)

lemma apply_patch_simps [simp]:
  "pk (apply_patch t d T r) = pk r" "createdAt (apply_patch t d T r) = createdAt r"
  "c_createdUs (apply_patch t d T r) = c_createdUs r"
  "c_programCode (apply_patch t d T r) = or_default (uc_programCode d) (c_programCode r)"
  by (simp_all add: apply_patch_def)

lemma create_keeps:
  assumes "catalog_inv s"
  shows "catalog_inv (snd (catalog_create l us n d s)) \<and> (\<forall>k. listed s k \<longrightarrow> listed (snd (catalog_create l us n d s)) k)"
  using assms
  by (auto simp: catalog_create_def catalog_inv_def listed_def find_one_None_iff Let_def insert_row_def split: option.split)

lemma update_keeps:
  assumes inv: "catalog_inv s" and d: "uc_programCode d \<noteq> Value ''''"
  shows "catalog_inv (snd (catalog_update l t i d s)) \<and> (\<forall>k. listed s k \<longrightarrow> listed (snd (catalog_update l t i d s)) k)"
proof (cases "find_cert i s")
  case (Some c)
  have "catalog_inv (write_cert i (apply_patch t d T) s)" if n: "\<not> code_clash i d c s" for T
  proof (rule write_cert_inv [OF inv Some])
    fix x assume x: "x \<in> set (cs_certs s)" "pk x \<noteq> i"
    note c = same_code_ok [OF inv Some x]
    show "c_programCode x \<noteq> c_programCode (apply_patch t d T c)"
    proof (cases "uc_programCode d")
      case (Value code)
      show ?thesis
      proof
        assume "c_programCode x = c_programCode (apply_patch t d T c)"
        then have e: "c_programCode x = code" using Value by simp
        with x(1) inv have "find_one (\<lambda>r. c_programCode r = code) (cs_certs s) = Some x"
          using find_one_key_unique [of c_programCode "cs_certs s" x] by (auto simp: catalog_inv_def)
        with n Value d c e x(2) show False by (auto simp: code_clash_def)
      qed
    qed (use c in simp_all)
  qed simp_all
  then show ?thesis using inv by (simp add: catalog_update_def Some)
qed (use inv in \<open>simp add: catalog_update_def\<close>)

lemma translate_keeps:
  assumes inv: "catalog_inv s"
  shows "catalog_inv (snd (catalog_updateTranslations l t i es s)) \<and>
    (\<forall>k. listed s k \<longrightarrow> listed (snd (catalog_updateTranslations l t i es s)) k)"
proof (cases "find_cert i s")
  case (Some c)
  have "catalog_inv (write_cert i (\<lambda>c. (touch t c)\<lparr>c_title := v, c_translations := T\<rparr>) s)"
    "catalog_inv (write_cert i (\<lambda>c. (touch t c)\<lparr>c_translations := T\<rparr>) s)" for v T
    by (rule write_cert_inv [OF inv Some]; use same_code_ok [OF inv Some] in simp)+
  then show ?thesis using inv by (auto simp: catalog_updateTranslations_def Some Let_def split: option.split)
qed (use inv in \<open>simp add: catalog_updateTranslations_def\<close>)

lemma soft_delete_keeps:
  assumes inv: "catalog_inv s"
  shows "catalog_inv (snd (catalog_softDelete t i s)) \<and> (\<forall>k. listed s k \<longrightarrow> listed (snd (catalog_softDelete t i s)) k)"
proof (cases "find_cert i s")
  case (Some c)
  have "catalog_inv (write_cert i (\<lambda>c. (touch t c)\<lparr>c_active := False\<rparr>) s)"
    by (rule write_cert_inv [OF inv Some]; use same_code_ok [OF inv Some] in simp)
  then show ?thesis by (simp add: catalog_softDelete_def Some)
qed (use inv in \<open>simp add: catalog_softDelete_def\<close>)

lemma catalog_step_keeps:
  assumes "catalog_step s t" and "catalog_inv s"
  shows "catalog_inv t \<and> (\<forall>k. listed s k \<longrightarrow> listed t k)"
  using assms
proof (induction rule: catalog_step.induct)
  case create
  then show ?case by (rule create_keeps)
next
  case update
  then show ?case by (intro update_keeps)
next
  case translate
  then show ?case by (rule translate_keeps)
next
  case soft_delete
  then show ?case by (rule soft_delete_keeps)
qed

interpretation catalog: monotone_system catalog_inv catalog_step listed
  by unfold_locales (use catalog_step_keeps in blast)+


subsection \<open>The rows of the list\<close>

text \<open>The rows that a list without a search is about.\<close>

definition wanted :: "bool \<Rightarrow> catalog_query \<Rightarrow> cert_row \<Rightarrow> bool" where
  "wanted adminView q r \<longleftrightarrow>
    (case cq_active q of Some b \<Rightarrow> c_active r = b | None \<Rightarrow> adminView \<or> c_active r) \<and>
    (case truthy (cq_program_code q) of Some pc \<Rightarrow> c_programCode r = pc | None \<Rightarrow> True)"

lemma single_conditions:
  "truthy (cq_search q) = None \<Longrightarrow> \<forall>ds \<in> set (filter_conditions a q). length ds = 1"
  by (auto simp: filter_conditions_def active_condition_def split: option.splits if_splits)

lemma wanted_conditions:
  "truthy (cq_search q) = None \<Longrightarrow> (\<forall>ds \<in> set (filter_conditions a q). \<forall>d \<in> set ds. d r) = wanted a q r"
  by (auto simp: filter_conditions_def active_condition_def wanted_def split: option.split)

lemma where_wanted:
  assumes "where_ok K" and "truthy (cq_search q) = None"
  shows "co_where K (filter_conditions a q) = wanted a q"
    and "co_where K (filter_conditions a q @ [[d]]) = (\<lambda>r. wanted a q r \<and> d r)"
proof -
  note w = assms(1) [unfolded where_ok_def, rule_format]
  note s = single_conditions [OF assms(2), of a]
  show "co_where K (filter_conditions a q) = wanted a q"
    by (rule ext, subst w) (simp_all add: s [rule_format] wanted_conditions [OF assms(2)])
  show "co_where K (filter_conditions a q @ [[d]]) = (\<lambda>r. wanted a q r \<and> d r)"
  proof
    fix r
    have "co_where K (filter_conditions a q @ [[d]]) r =
        (\<forall>ds \<in> set (filter_conditions a q @ [[d]]). \<forall>d \<in> set ds. d r)"
      by (rule w) (use s in auto)
    then show "co_where K (filter_conditions a q @ [[d]]) r = (wanted a q r \<and> d r)"
      using wanted_conditions [OF assms(2), of a r] by auto
  qed
qed

lemma set_ordered [simp]: "set (ordered asc rows) = set rows"
  by (simp add: ordered_def Let_def)

text \<open>The list is strictly ordered when the keys of the table are distinct.\<close>

definition place :: "cert_row \<Rightarrow> int \<times> string" where
  "place r = (c_createdUs r, pk r)"

lemma beyond_place: "beyond asc k r = (if asc then k < place r else place r < k)"
  by (simp add: beyond_def place_def)

lemma ordered_place: "ordered asc rows = (if asc then sort_key place rows else rev (sort_key place rows))"
  by (simp add: ordered_def place_def [abs_def] Let_def)

lemma ordered_filter: "ordered asc (filter P rows) = filter P (ordered asc rows)"
  by (simp add: ordered_place filter_sort flip: rev_filter)

lemma strict_places:
  assumes "distinct (map pk rows)"
  shows "sorted_wrt (<) (map place (sort_key place rows))"
proof -
  have "distinct (map place rows)"
    using assms by (auto simp: place_def distinct_map inj_on_def)
  then have "distinct (map place (sort_key place rows))"
    by (simp add: distinct_map)
  then show ?thesis using sorted_sort_key [of place rows] by (simp only: strict_sorted_iff simp_thms)
qed

lemma rows_beyond:
  assumes d: "distinct (map pk rows)" and s: "ordered asc rows = xs @ x # ys"
  shows "filter (beyond asc (place x)) (ordered asc rows) = ys"
proof -
  have "sorted_wrt (\<lambda>a b. beyond asc (place a) b) (ordered asc rows)"
    using strict_places [OF d] by (auto simp: ordered_place beyond_place sorted_wrt_map sorted_wrt_rev)
  then have w: "sorted_wrt (\<lambda>a b. beyond asc (place a) b) (xs @ x # ys)" by (simp only: s)
  have "\<not> beyond asc (place x) z" if "z \<in> insert x (set xs)" for z
    using w that by (auto simp: sorted_wrt_append beyond_place split: if_splits)
  moreover have "beyond asc (place x) z" if "z \<in> set ys" for z
    using w that by (simp add: sorted_wrt_append)
  ultimately show ?thesis unfolding s by (simp add: filter_id_conv)
qed

text \<open>The query behind a page.\<close>

definition page_rows :: "bool \<Rightarrow> (cert_row \<Rightarrow> bool) \<Rightarrow> catalog_state \<Rightarrow> (int \<times> string) option \<Rightarrow> nat \<Rightarrow> cert_row list" where
  "page_rows asc P s k n = take n (ordered asc (filter
     (\<lambda>r. P r \<and> (case k of None \<Rightarrow> True | Some p \<Rightarrow> beyond asc p r)) (cs_certs s)))"

definition aligned :: "catalog_state \<Rightarrow> bool" where
  "aligned s \<longleftrightarrow> distinct (map pk (cs_certs s)) \<and> (\<forall>r \<in> set (cs_certs s). c_createdUs r = createdAt r * 1000)"

definition cursor_place :: "cert_row \<Rightarrow> int \<times> string" where
  "cursor_place r = (createdAt r * 1000, pk r)"

interpretation catalog_pages: keyset "\<lambda>s. ordered asc (filter P (cs_certs s))" "page_rows asc P" cursor_place aligned
  for asc P
proof (unfold_locales, goal_cases)
  case (1 s n)
  show ?case by (simp add: page_rows_def)
next
  case (2 s xs x ys n)
  have "x \<in> set (ordered asc (filter P (cs_certs s)))" using 2(2) by simp
  then have p: "cursor_place x = place x"
    using 2(1) by (simp add: aligned_def cursor_place_def place_def)
  have d: "distinct (map pk (filter P (cs_certs s)))"
    using 2(1) by (simp add: aligned_def distinct_map_filter)
  have "filter (\<lambda>r. P r \<and> beyond asc (place x) r) (cs_certs s) =
    filter (beyond asc (place x)) (filter P (cs_certs s))"
    by (simp add: conj_commute)
  then show ?case
    by (simp only: page_rows_def p option.case ordered_filter [of _ "beyond asc (place x)"] rows_beyond [OF d 2(2)])
qed


subsection \<open>A client that follows the cursors\<close>

fun catalog_walk ::
  "catalog_library \<Rightarrow> string option \<Rightarrow> catalog_query \<Rightarrow> bool \<Rightarrow> catalog_state \<Rightarrow> nat \<Rightarrow> catalog_item list result" where
  "catalog_walk K l q a s 0 = ok []"
| "catalog_walk K l q a s (Suc n) =
     (case catalog_list K l q a s of
        Inl e \<Rightarrow> throw e
      | Inr resp \<Rightarrow>
          (case cl_nextCursor resp of
             None \<Rightarrow> ok (cl_data resp)
           | Some c \<Rightarrow>
               (case catalog_walk K l (q\<lparr>cq_cursor := Some c\<rparr>) a s n of
                  Inl e \<Rightarrow> throw e
                | Inr rest \<Rightarrow> ok (cl_data resp @ rest))))"

definition cursor_text :: "catalog_library \<Rightarrow> cert_row option \<Rightarrow> string option" where
  "cursor_text K c = map_option (row_cursor K) c"

lemma list_params_cursor [simp]:
  "filter_conditions a (q\<lparr>cq_cursor := c\<rparr>) = filter_conditions a q" "wanted a (q\<lparr>cq_cursor := c\<rparr>) = wanted a q"
  "ascending (q\<lparr>cq_cursor := c\<rparr>) = ascending q" "page_limit (q\<lparr>cq_cursor := c\<rparr>) = page_limit q"
  by (simp_all add: filter_conditions_def active_condition_def wanted_def [abs_def] ascending_def page_limit_def)

lemma decode_row_cursor:
  assumes "codec_ok K" and "pk r \<noteq> ''''"
  shows "decodeCursor K (row_cursor K r) = ok (co_iso K (createdAt r), pk r)"
  using assms by (simp add: codec_ok_def decodeCursor_def row_cursor_def encodeCursor_def)

lemma cursor_conditions_row:
  assumes "codec_ok K" and "pk r \<noteq> ''''"
  shows "cursor_conditions K (q\<lparr>cq_cursor := Some (row_cursor K r)\<rparr>) W =
    ok (W @ [[beyond (ascending q) (cursor_place r)]])"
proof -
  have "row_cursor K r \<noteq> ''''" using assms(1) by (simp add: codec_ok_def row_cursor_def encodeCursor_def)
  moreover have "co_pg_time K (co_iso K t) = Some (t * 1000)" for t using assms(1) by (simp add: codec_ok_def)
  ultimately show ?thesis
    by (simp add: cursor_conditions_def truthy_def decode_row_cursor [OF assms] cursor_place_def)
qed

lemma catalog_list_rows:
  assumes "codec_ok K" and "where_ok K" and "truthy (cq_search q) = None" and "\<And>r. c = Some r \<Longrightarrow> pk r \<noteq> ''''"
  shows "catalog_list K l (q\<lparr>cq_cursor := cursor_text K c\<rparr>) a s =
    ok (list_page K (resolveLocale l) (q\<lparr>cq_cursor := cursor_text K c\<rparr>)
      (page_rows (ascending q) (wanted a q) s (map_option cursor_place c) (page_limit q + 1)))"
proof (cases c)
  case None
  then show ?thesis
    using where_wanted(1) [OF assms(2,3), of a]
    by (simp add: catalog_list_def cursor_conditions_def truthy_def cursor_text_def page_rows_def Let_def eta_contract_eq)
next
  case (Some r)
  show ?thesis
    using cursor_conditions_row [OF assms(1) assms(4) [OF Some]] where_wanted(2) [OF assms(2,3), of a]
    by (simp add: catalog_list_def cursor_text_def page_rows_def Let_def Some)
qed

lemma list_page_rows:
  "cl_data (list_page K l q rows) = map (\<lambda>c. toItemDto c l) (take (page_limit q) rows)"
  "cl_nextCursor (list_page K l q rows) =
     (if page_limit q < length rows \<and> take (page_limit q) rows \<noteq> []
      then Some (row_cursor K (last (take (page_limit q) rows))) else None)"
  by (auto simp: list_page_def Let_def)

lemma page_rows_set: "set (page_rows asc P s k n) \<subseteq> set (cs_certs s)"
proof -
  have "set (page_rows asc P s k n) \<subseteq>
    set (ordered asc (filter (\<lambda>r. P r \<and> (case k of None \<Rightarrow> True | Some p \<Rightarrow> beyond asc p r)) (cs_certs s)))"
    unfolding page_rows_def by (rule set_take_subset)
  then show ?thesis by auto
qed

lemma catalog_walk_pages:
  assumes "codec_ok K" and "where_ok K" and "truthy (cq_search q) = None" and "\<And>r. r \<in> set (cs_certs s) \<Longrightarrow> pk r \<noteq> ''''"
    and "\<And>r. c = Some r \<Longrightarrow> pk r \<noteq> ''''"
  shows "catalog_walk K l (q\<lparr>cq_cursor := cursor_text K c\<rparr>) a s n =
    ok (map (\<lambda>r. toItemDto r (resolveLocale l))
      (pages (page_rows (ascending q) (wanted a q)) cursor_place (page_limit q) s n
        (map_option cursor_place c)))"
  using assms(5)
proof (induction n arbitrary: c)
  case (Suc n)
  let ?rows = "page_rows (ascending q) (wanted a q) s (map_option cursor_place c) (page_limit q + 1)"
  let ?page = "take (page_limit q) ?rows"
  have IH: "catalog_walk K l (q\<lparr>cq_cursor := Some (row_cursor K r)\<rparr>) a s n =
    ok (map (\<lambda>r. toItemDto r (resolveLocale l))
      (pages (page_rows (ascending q) (wanted a q)) cursor_place (page_limit q) s n
        (Some (cursor_place r))))" if "pk r \<noteq> ''''" for r
    using Suc.IH [of "Some r"] that by (simp add: cursor_text_def)
  have "last ?page \<in> set (cs_certs s)" if "?page \<noteq> []"
    using last_in_set [OF that] set_take_subset page_rows_set by (metis subsetD)
  then have "pk (last ?page) \<noteq> ''''" if "?page \<noteq> []" using assms(4) that by blast
  with IH have "catalog_walk K l (q\<lparr>cq_cursor := Some (row_cursor K (last ?page))\<rparr>) a s n =
    ok (map (\<lambda>r. toItemDto r (resolveLocale l))
      (pages (page_rows (ascending q) (wanted a q)) cursor_place (page_limit q) s n
        (Some (cursor_place (last ?page)))))" if "?page \<noteq> []" using that by blast
  then show ?case
    by (simp only: catalog_walk.simps pages.simps catalog_list_rows [OF assms(1,2,3) Suc.prems] Let_def
        list_page_rows list_params_cursor sum.case option.case if_split catalog_query.simps) auto
qed simp

end
