(* ===== verification/CatalogProperties.thy ===== *)
theory CatalogProperties
  imports CatalogFacts
begin

section \<open>Properties of the catalogue\<close>

text \<open>
  What readers and administrators of the catalogue get: a client that follows the cursors sees the
  whole list once, program codes stay unique, public readers get neither hidden certificates by their id
  nor the raw translations, and an update touches the
  fields it names. The examples run on a table of three rows and a codec that keeps lengths.
\<close>

subsection \<open>A codec and a table to compute with\<close>

definition tally_iso :: "int \<Rightarrow> string" where
  "tally_iso t = (if t < 0 then CHR ''-'' else CHR ''+'') # replicate (nat \<bar>t\<bar>) CHR ''1''"

definition tally_time :: "string \<Rightarrow> int option" where
  "tally_time s = (case s of [] \<Rightarrow> None | c # r \<Rightarrow> Some ((if c = CHR ''-'' then - int (length r) else int (length r)) * 1000))"

definition pair_text :: "string \<times> string \<Rightarrow> string" where
  "pair_text p = replicate (length (fst p)) CHR ''x'' @ CHR ''|'' # fst p @ snd p"

definition pair_parse :: "string \<Rightarrow> (string option \<times> string option) option" where
  "pair_parse s = (let n = length (takeWhile (\<lambda>c. c = CHR ''x'') s); r = drop (Suc n) s
     in Some (Some (take n r), Some (drop n r)))"

text \<open>SQL's reading of the texts joined by AND without parentheses: a disjunction of conjunctions, which an OR inside a
  text splits.\<close>

fun sql_clause :: "'r where_call list \<Rightarrow> ('r \<Rightarrow> bool) list list" where
  "sql_clause [] = []"
| "sql_clause [ds] = map (\<lambda>d. [d]) ds"
| "sql_clause (ds # W) = (case sql_clause W of
      [] \<Rightarrow> map (\<lambda>d. [d]) ds
    | g # gs \<Rightarrow> map (\<lambda>d. [d]) (butlast ds) @ (last ds # g) # gs)"

definition sql_where :: "'r where_call list \<Rightarrow> 'r \<Rightarrow> bool" where
  "sql_where W r \<longleftrightarrow> W = [] \<or> list_ex (list_all (\<lambda>d. d r)) (sql_clause W)"

definition tally_library :: catalog_library where
  "tally_library = \<lparr>co_iso = tally_iso, co_pg_time = tally_time, co_encode = pair_text, co_parse = pair_parse,
     co_where = sql_where\<rparr>"

lemma sql_clause_single:
  "W \<noteq> [] \<Longrightarrow> \<forall>ds \<in> set W. length ds = 1 \<Longrightarrow> sql_clause W = [map hd W]"
proof (induction W rule: sql_clause.induct)
  case (2 ds)
  then show ?case by (cases ds) auto
next
  case (3 ds w W)
  then show ?case by (cases ds) auto
qed simp

lemma tally_where_ok: "where_ok tally_library"
proof -
  have "sql_where W r = (\<forall>ds \<in> set W. \<forall>d \<in> set ds. d r)" if "\<forall>ds \<in> set W. length ds = 1" for W :: "'r where_call list" and r
  proof (cases "W = []")
    case False
    have "(\<forall>d \<in> set ds. d r) = hd ds r" if "length ds = 1" for ds :: "'r where_call" using that by (cases ds) auto
    then show ?thesis using that by (simp add: sql_where_def sql_clause_single [OF False that] False list_all_iff)
  qed (simp add: sql_where_def)
  then show ?thesis unfolding where_ok_def tally_library_def by (intro allI impI) (simp del: One_nat_def)
qed

lemma pair_parse_text: "pair_parse (pair_text (a, b)) = Some (Some a, Some b)"
  by (simp add: pair_parse_def pair_text_def Let_def takeWhile_append)

lemma tally_library_ok: "codec_ok tally_library"
  by (auto simp: codec_ok_def tally_library_def pair_parse_text tally_iso_def tally_time_def)
    (simp add: pair_text_def)

definition sample_cert :: "string \<Rightarrow> int \<Rightarrow> bool \<Rightarrow> cert_row" where
  "sample_cert code ms active = \<lparr>pk = code @ ''-id'', createdAt = ms, updatedAt = ms, c_title = ''Title '' @ code,
     c_programCode = code, c_description = None, c_translations = Map.empty, c_priceCents = 4999,
     c_currency = ''USD'', c_active = active, c_thumbnailUrl = None, c_badgeImageUrl = None, c_track = None,
     c_level = None, c_durationHours = None, c_syllabusUrl = None, c_createdUs = ms * 1000\<rparr>"

definition sample_catalog :: catalog_state where
  "sample_catalog = \<lparr>cs_certs = [sample_cert ''A'' 1 True, sample_cert ''B'' 3 False, sample_cert ''C'' 2 True]\<rparr>"

definition plain_query :: catalog_query where
  "plain_query = \<lparr>cq_search = None, cq_program_code = None, cq_active = None, cq_cursor = None,
     cq_limit = Some 1, cq_sort = None\<rparr>"

lemma sample_aligned: "aligned sample_catalog"
  by (simp add: aligned_def sample_catalog_def sample_cert_def)

lemma sample_inv: "catalog_inv sample_catalog"
  by (simp add: catalog_inv_def sample_catalog_def sample_cert_def)

lemma sample_pks: "\<forall>r \<in> set (cs_certs sample_catalog). pk r \<noteq> ''''"
  by (simp add: sample_catalog_def sample_cert_def)

subsection \<open>Paging\<close>

text \<open>C4: Paging without a search and with a limit of at least 1. When no two times fall into one millisecond's
  fraction, that is when every \<open>created_at\<close> is a whole millisecond, a client that starts without a cursor and
  follows \<open>nextCursor\<close> of each response until there is none gets, in both directions, exactly the certificates
  that have the state and the program code asked for (active ones for the public), once each and in the order of
  the list, and it stops. A list with a search is left out: the OR of its text also lets rows around the condition
  of the cursor.\<close>

theorem catalog_pages_complete:
  assumes "codec_ok K" and "where_ok K" and "aligned s" and "\<forall>r \<in> set (cs_certs s). pk r \<noteq> ''''"
    and "truthy (cq_search q) = None" and "cq_cursor q = None" and "cq_limit q \<noteq> Some 0"
    and "length (cs_certs s) < fuel"
  shows "catalog_walk K l q a s fuel =
    Inr (map (\<lambda>r. toItemDto r (resolveLocale l)) (ordered (ascending q) (filter (wanted a q) (cs_certs s))))"
proof -
  have q: "q\<lparr>cq_cursor := cursor_text K None\<rparr> = q" using assms(6) by (simp add: cursor_text_def)
  have "0 < page_limit q" using assms(7) by (auto simp: page_limit_def DEFAULT_LIMIT_def MAX_LIMIT_def split: option.split)
  moreover have "length (ordered (ascending q) (filter (wanted a q) (cs_certs s))) < fuel"
    using assms(8) le_less_trans [OF length_filter_le] by (auto simp: ordered_def Let_def)
  ultimately show ?thesis
    using catalog_walk_pages [OF assms(1,2,5), of s None l a fuel] assms(4)
      catalog_pages.pages_are_the_table [OF assms(3), of "page_limit q" "ascending q" "wanted a q" fuel]
    by (simp add: q)
qed

theorem catalog_pages_complete_witness:
  "catalog_walk tally_library (Some ''tr'') plain_query True sample_catalog 4 =
    Inr (map (\<lambda>r. toItemDto r (resolveLocale (Some ''tr'')))
      [sample_cert ''B'' 3 False, sample_cert ''C'' 2 True, sample_cert ''A'' 1 True])"
proof -
  have "ordered (ascending plain_query) (filter (wanted True plain_query) (cs_certs sample_catalog))
    = [sample_cert ''B'' 3 False, sample_cert ''C'' 2 True, sample_cert ''A'' 1 True]"
    by (simp add: ordered_def ascending_def plain_query_def wanted_def truthy_def sample_catalog_def sample_cert_def)
  then show ?thesis
    using catalog_pages_complete [OF tally_library_ok tally_where_ok sample_aligned sample_pks, of plain_query 4 "Some ''tr''" True]
    by (simp add: plain_query_def truthy_def sample_catalog_def)
qed

subsection \<open>What public readers see\<close>

text \<open>An example of a search, with SQL's reading of the joined texts: the public list returns a certificate that is not active,
  because its canonical title matches.\<close>

lemma search_returns_inactive:
  "sql_where (filter_conditions False (plain_query\<lparr>cq_search := Some ''e b''\<rparr>)) (sample_cert ''B'' 3 False)"
proof -
  have "ilike (Some (c_title (sample_cert ''B'' 3 False))) (''%'' @ ''e b'' @ ''%'')" by code_simp
  then show ?thesis
    by (simp add: sql_where_def filter_conditions_def active_condition_def search_conditions_def plain_query_def truthy_def Let_def)
qed

text \<open>A public list without a search and without the \<open>active\<close> parameter hands out active certificates only,
  at most as many as the limit, and promises a next page by \<open>hasMore\<close> exactly when it gives a cursor.\<close>

theorem public_list_hides_inactive:
  assumes "where_ok K" and "catalog_list K l q False s = Inr resp" and "truthy (cq_search q) = None" and "cq_active q = None"
    and "cq_limit q \<noteq> Some 0"
  shows "(\<forall>i \<in> set (cl_data resp). ci_active i) \<and> length (cl_data resp) \<le> page_limit q \<and> page_limit q \<le> 100 \<and>
    (cl_hasMore resp \<longleftrightarrow> cl_nextCursor resp \<noteq> None)"
proof -
  obtain W where W: "cursor_conditions K q (filter_conditions False q) = Inr W"
    and resp: "resp = list_page K (resolveLocale l) q
      (take (page_limit q + 1) (ordered (ascending q) (filter (co_where K W) (cs_certs s))))"
    using assms(2) by (auto simp: catalog_list_def split: sum.splits)
  have "c_active r" if "co_where K W r" for r
  proof -
    from W have "W = filter_conditions False q \<or> (\<exists>d. W = filter_conditions False q @ [[d]])"
      by (auto simp: cursor_conditions_def split: option.splits sum.splits prod.splits)
    with that have "wanted False q r" using where_wanted [OF assms(1,3), of False] by auto
    with assms(4) show ?thesis by (simp add: wanted_def)
  qed
  moreover have "ci_active (toItemDto r m) = c_active r" for r :: cert_row and m by (simp add: toItemDto_def Let_def)
  moreover have "0 < page_limit q"
    using assms(5) by (auto simp: page_limit_def DEFAULT_LIMIT_def MAX_LIMIT_def split: option.split)
  moreover have "page_limit q \<le> 100" by (simp add: page_limit_def MAX_LIMIT_def)
  ultimately show ?thesis
    unfolding resp by (auto simp: list_page_def Let_def dest!: in_set_takeD)
qed

theorem public_list_hides_inactive_witness:
  "\<exists>resp. catalog_list tally_library None plain_query False sample_catalog = Inr resp \<and>
     map ci_programCode (cl_data resp) = [''C''] \<and> list_all ci_active (cl_data resp) \<and> cl_hasMore resp"
proof -
  define resp where "resp = list_page tally_library (resolveLocale None) plain_query
    [sample_cert ''C'' 2 True, sample_cert ''A'' 1 True]"
  have "take (page_limit plain_query + 1) (ordered (ascending plain_query)
      (filter (wanted False plain_query) (cs_certs sample_catalog)))
    = [sample_cert ''C'' 2 True, sample_cert ''A'' 1 True]"
    by (simp add: ordered_def ascending_def plain_query_def wanted_def
        truthy_def sample_catalog_def sample_cert_def page_limit_def MAX_LIMIT_def)
  then have r: "catalog_list tally_library None plain_query False sample_catalog = Inr resp"
    using where_wanted(1) [OF tally_where_ok, of plain_query False]
    by (simp add: catalog_list_def cursor_conditions_def truthy_def plain_query_def resp_def)
  note facts = public_list_hides_inactive [OF tally_where_ok r]
  have "map ci_programCode (cl_data resp) = [''C'']" "cl_hasMore resp"
    by (simp_all add: resp_def list_page_def plain_query_def page_limit_def MAX_LIMIT_def toItemDto_def Let_def
        sample_cert_def)
  moreover have "\<forall>i \<in> set (cl_data resp). ci_active i"
    using facts by (simp add: plain_query_def truthy_def)
  ultimately show ?thesis using r by (auto simp: list_all_iff)
qed

text \<open>Reading one certificate: a public reader is told 404 for a hidden certificate as for one that does not
  exist, and never gets the raw translations; an administrator gets every certificate with its translations.\<close>

theorem public_detail_hides:
  "case find_cert i s of
     None \<Rightarrow> catalog_getById l i a s = Inl (NotFoundException ''Certificate not found'')
   | Some c \<Rightarrow>
       catalog_getById l i True s = Inr (toDetailDto c (resolveLocale l) True, resolveLocale l) \<and>
       cd_translations (toDetailDto c (resolveLocale l) True) = Some (c_translations c) \<and>
       catalog_getById l i False s =
         (if c_active c then Inr (toDetailDto c (resolveLocale l) False, resolveLocale l)
          else Inl (NotFoundException ''Certificate not found'')) \<and>
       cd_translations (toDetailDto c (resolveLocale l) False) = None"
  by (simp add: catalog_getById_def toDetailDto_def Let_def catalog_item.defs catalog_detail.defs split: option.split)


subsection \<open>Writing\<close>

text \<open>C31: Starting from a catalogue whose ids and program codes are unique, after any number of creates,
  updates that do not set the code to the empty text, translation updates and deletions the ids and program
  codes are unique, and every certificate there was is there still, at its place of the list: a deletion hides.\<close>

theorem program_codes_stay_unique:
  assumes "reachable_from catalog_step s t" and "catalog_inv s"
  shows "distinct (map pk (cs_certs t)) \<and> distinct (map c_programCode (cs_certs t)) \<and>
    (\<forall>r \<in> set (cs_certs s). \<exists>r' \<in> set (cs_certs t). pk r' = pk r \<and> c_createdUs r' = c_createdUs r)"
proof -
  have "listed t (pk r, c_createdUs r)" if "r \<in> set (cs_certs s)" for r
    by (rule catalog.reachable_closed [OF assms]) (use that in \<open>force simp: listed_def\<close>)
  moreover have "catalog_inv t" by (rule catalog.reachable_invar [OF assms])
  ultimately show ?thesis by (auto simp: catalog_inv_def listed_def image_iff) metis
qed

theorem program_codes_stay_unique_witness:
  "distinct (map c_programCode (cs_certs (snd (catalog_softDelete 9 ''A-id'' sample_catalog))))"
proof -
  have "reachable_from catalog_step sample_catalog (snd (catalog_softDelete 9 ''A-id'' sample_catalog))"
    by (rule reachable_from.extend [where t = sample_catalog]) (rule reachable_from.start catalog_step.soft_delete)+
  from program_codes_stay_unique [OF this sample_inv] show ?thesis by (rule conjunct1 [OF conjunct2])
qed

text \<open>An update that changes the title, the description or the translations without naming an English
  block of its own leaves the English block equal to the title and description of the row, so that English
  readers see what the administrator wrote; the blocks it names replace those of their locales, the others
  and all other certificates stay.\<close>

theorem update_mirrors_english:
  assumes "find_cert i s = Some c" and "fst (catalog_update l t i d s) = Inr resp"
    and "defined (uc_title d) \<or> defined (uc_description d) \<or> defined (uc_translations d)"
    and "es = (case or_null (uc_translations d) of Some x \<Rightarrow> x | None \<Rightarrow> [])"
    and "distinct (map fst es)" and "''en'' \<notin> fst ` set es"
  shows "\<exists>c'. find_cert i (snd (catalog_update l t i d s)) = Some c' \<and>
    c_title c' = or_default (uc_title d) (c_title c) \<and> ci_title (toItemDto c' ''en'') = c_title c' \<and>
    c_description c' = patched (uc_description d) (c_description c) \<and>
    ci_description (toItemDto c' ''en'') = c_description c' \<and>
    (\<forall>m. c_translations c' m = (if m = ''en'' then Some (mirror_block (c_title c') (c_description c'))
      else case map_of es m of Some b \<Rightarrow> Some b | None \<Rightarrow> c_translations c m)) \<and>
    (\<forall>j. j = i \<or> find_cert j (snd (catalog_update l t i d s)) = find_cert j s)"
proof -
  define c' where "c' = apply_patch t d (patch_translations d c) c"
  have nc: "\<not> code_clash i d c s" and nn: "\<not> violates_not_null d"
    using assms(2,3) by (auto simp: catalog_update_def assms(1) patch_empty_def split: if_splits)
  then have s': "snd (catalog_update l t i d s) = write_cert i (apply_patch t d (patch_translations d c)) s"
    using assms(3) by (auto simp: catalog_update_def assms(1) patch_empty_def)
  have T: "c_translations c' m = (if m = ''en'' then Some (mirror_block (c_title c') (c_description c'))
      else case map_of es m of Some b \<Rightarrow> Some b | None \<Rightarrow> c_translations c m)" for m
    using assms(3,6) unfolding c'_def
    by (auto simp: apply_patch_def patch_translations_def catalog_buildTranslations_def Let_def
        assign_entries_distinct [OF assms(5)] map_add_def simp flip: assms(4) split: option.split)
  have "ci_title (toItemDto c' ''en'') = c_title c'" "ci_description (toItemDto c' ''en'') = c_description c'"
    by (simp_all add: toItemDto_def Let_def resolveTranslation_cases filled_def T mirror_block_def or_else_def
        split: option.split)
  moreover have "find_cert i (snd (catalog_update l t i d s)) = Some c'"
    unfolding s' by (simp add: find_cert_def write_cert_def find_one_update assms(1) [unfolded find_cert_def] c'_def)
  moreover have "find_cert j (snd (catalog_update l t i d s)) = find_cert j s" if "j \<noteq> i" for j
    unfolding s' using that by (simp add: find_cert_def write_cert_def find_one_update_other)
  moreover have "c_title c' = or_default (uc_title d) (c_title c)"
    "c_description c' = patched (uc_description d) (c_description c)"
    by (simp_all add: c'_def apply_patch_def)
  ultimately show ?thesis using T by blast
qed

definition sample_update :: update_certificate_dto where
  "sample_update = \<lparr>uc_title = Value ''New'', uc_programCode = Undefined, uc_priceCents = Undefined,
     uc_currency = Undefined, uc_description = Null, uc_thumbnailUrl = Undefined, uc_active = Undefined,
     uc_translations = Value [(''tr'', [''title'' \<mapsto> ''Yeni''])]\<rparr>"

theorem update_mirrors_english_witness:
  "\<exists>c'. find_cert ''A-id'' (snd (catalog_update None 9 ''A-id'' sample_update sample_catalog)) = Some c' \<and>
     ci_title (toItemDto c' ''en'') = ''New'' \<and> c_translations c' ''tr'' = Some [''title'' \<mapsto> ''Yeni'']"
proof -
  have f: "find_cert ''A-id'' sample_catalog = Some (sample_cert ''A'' 1 True)"
    by (simp add: find_cert_def find_one_def sample_catalog_def sample_cert_def)
  moreover have "\<exists>resp. fst (catalog_update None 9 ''A-id'' sample_update sample_catalog) = Inr resp"
    by (simp add: catalog_update_def f code_clash_def sample_update_def patch_empty_def violates_not_null_def
        refreshed_def find_cert_def write_cert_def find_one_update f [unfolded find_cert_def] split: option.split)
  ultimately show ?thesis
    using update_mirrors_english [of "''A-id''" sample_catalog "sample_cert ''A'' 1 True" None 9 sample_update _
        "[(''tr'', [''title'' \<mapsto> ''Yeni''])]"]
    by (fastforce simp: sample_update_def)
qed

end
