(* ===== verification/Storage.thy ===== *)
theory Storage
  imports Prelude JsString
begin

section \<open>Object storage (modules/storage)\<close>

text \<open>
  \<open>StorageService\<close> over an S3 client, which is an argument: \<open>s3_send\<close> runs a command against the state
  of the remote store, \<open>s3_presign\<close> signs one. URLs are the http and https URLs in the normal form
  that \<open>URL.toString\<close> writes (lower-case host name without user information, no default port, a path).
\<close>

subsection \<open>Slashes\<close>

definition slash :: char where
  "slash = CHR 0x2F"

text \<open>\<open>key.replace(/^\/+/, '')\<close>, \<open>.replace(/\/+$/, '')\<close> and both.\<close>

definition normalizeKey :: "string \<Rightarrow> string" where
  "normalizeKey key = dropWhile (\<lambda>c. c = slash) key"

definition strip_end :: "string \<Rightarrow> string" where
  "strip_end s = rev (dropWhile (\<lambda>c. c = slash) (rev s))"

definition trim_slashes :: "string \<Rightarrow> string" where
  "trim_slashes s = strip_end (normalizeKey s)"

definition buildKey :: "string list \<Rightarrow> string result" where
  "buildKey parts =
     (if parts = [] then throw (PlainError ''buildKey requires at least one segment'')
      else ok (join_with [slash] (filter (\<lambda>p. p \<noteq> '''') (map trim_slashes parts))))"

subsection \<open>URLs\<close>

record url =
  url_scheme :: string
  url_hostname :: string
  url_port :: "nat option"
  url_tail :: string

definition default_port :: "string \<Rightarrow> nat" where
  "default_port scheme = (if scheme = ''https'' then 443 else 80)"

definition is_digit :: "char \<Rightarrow> bool" where
  "is_digit c \<longleftrightarrow> 48 \<le> code_of c \<and> code_of c \<le> 57"

definition digits_value :: "string \<Rightarrow> nat option" where
  "digits_value s = (if s = '''' \<or> \<not> list_all is_digit s then None
     else Some (foldl (\<lambda>n c. 10 * n + (code_of c - 48)) 0 s))"

definition ends_authority :: "char \<Rightarrow> bool" where
  "ends_authority c \<longleftrightarrow> c \<in> {slash, CHR ''?'', CHR 0x23}"

definition parse_authority :: "string \<Rightarrow> string \<Rightarrow> url option" where
  "parse_authority scheme rest =
     (let authority = takeWhile (\<lambda>c. \<not> ends_authority c) rest;
          t = dropWhile (\<lambda>c. \<not> ends_authority c) rest;
          tail = (if prefix [slash] t then t else slash # t)
      in case split_on CHR '':'' authority of
           [h] \<Rightarrow> if h = '''' then None
             else Some \<lparr>url_scheme = scheme, url_hostname = h, url_port = None, url_tail = tail\<rparr>
         | [h, p] \<Rightarrow> if h = '''' then None
             else if p = '''' then Some \<lparr>url_scheme = scheme, url_hostname = h, url_port = None, url_tail = tail\<rparr>
             else (case digits_value p of
                 Some n \<Rightarrow> if 65535 < n then None
                   else Some \<lparr>url_scheme = scheme, url_hostname = h,
                     url_port = (if n = default_port scheme then None else Some n), url_tail = tail\<rparr>
               | None \<Rightarrow> None)
         | _ \<Rightarrow> None)"

definition parse_url :: "string \<Rightarrow> url option" where
  "parse_url s =
     (if prefix ''http://'' s then parse_authority ''http'' (drop 7 s)
      else if prefix ''https://'' s then parse_authority ''https'' (drop 8 s) else None)"

definition port_text :: "nat option \<Rightarrow> string" where
  "port_text p = (case p of None \<Rightarrow> '''' | Some n \<Rightarrow> CHR '':'' # nat_text n)"

definition href :: "url \<Rightarrow> string" where
  "href u = url_scheme u @ ''://'' @ url_hostname u @ port_text (url_port u) @ url_tail u"

text \<open>The setters \<open>u.protocol = ...\<close> and \<open>u.host = ...\<close>: the first drops a port that has become the default
  one, the second leaves the port as it is when the text it is given has none.\<close>

definition set_protocol :: "string \<Rightarrow> url \<Rightarrow> url" where
  "set_protocol scheme u = u\<lparr>url_scheme := scheme,
     url_port := (if url_port u = Some (default_port scheme) then None else url_port u)\<rparr>"

definition set_host :: "string \<Rightarrow> nat option \<Rightarrow> url \<Rightarrow> url" where
  "set_host h p u = u\<lparr>url_hostname := h, url_port := (case p of None \<Rightarrow> url_port u
     | Some n \<Rightarrow> if n = default_port (url_scheme u) then None else Some n)\<rparr>"

subsection \<open>The S3 client (argument)\<close>

datatype bucket_kind = CERTIFICATES | MEDIA | VIDEOS

definition bucket_kinds :: "bucket_kind list" where
  "bucket_kinds = [CERTIFICATES, MEDIA, VIDEOS]"

record upload_options =
  uo_contentType :: "string option"
  uo_cacheControl :: "string option"
  uo_contentDisposition :: "string option"
  uo_metadata :: "(string \<times> string) list option"

datatype s3_command =
    PutObject string string "nat list option" upload_options
  | GetObject string string "string option"
  | DeleteObject string string
  | HeadObject string string
  | HeadBucket string

record s3_error =
  s3_status :: "nat option"
  s3_name :: "string option"
  s3_message :: string

record 'x s3_client =
  s3_send :: "s3_command \<Rightarrow> 'x \<Rightarrow> (s3_error + string option) \<times> 'x"
  s3_presign :: "s3_command \<Rightarrow> nat \<Rightarrow> s3_error + string"

datatype storage_error = S3Failure s3_error | PlainFailure string

type_synonym ('x, 'a) storage_op = "'x \<Rightarrow> (storage_error + 'a) \<times> 'x"

subsection \<open>StorageService\<close>

record storage_config =
  so_endpoint :: string
  so_publicBaseUrl :: string
  so_buckets :: "bucket_kind \<Rightarrow> string"
  so_keyPrefix :: string

definition getOrThrow :: "(string \<rightharpoonup> string) \<Rightarrow> string \<Rightarrow> string result" where
  "getOrThrow env key = (case env key of
      None \<Rightarrow> throw (PlainError (''Configuration key '' @ [CHR 0x22] @ key @ [CHR 0x22] @ '' does not exist''))
    | Some v \<Rightarrow> ok v)"

fun getAllOrThrow :: "(string \<rightharpoonup> string) \<Rightarrow> string list \<Rightarrow> string list result" where
  "getAllOrThrow env [] = ok []"
| "getAllOrThrow env (k # ks) = (case getOrThrow env k of Inl e \<Rightarrow> throw e
     | Inr v \<Rightarrow> (case getAllOrThrow env ks of Inl e \<Rightarrow> throw e | Inr vs \<Rightarrow> ok (v # vs)))"

text \<open>The constructor reads the settings in this order.\<close>

definition new_StorageService :: "(string \<rightharpoonup> string) \<Rightarrow> storage_config result" where
  "new_StorageService env =
     (case getAllOrThrow env [''DO_SPACES_ENDPOINT'', ''DO_SPACES_PUBLIC_URL'', ''DO_SPACES_BUCKET_CERTIFICATES'',
        ''DO_SPACES_BUCKET_MEDIA'', ''DO_SPACES_BUCKET_VIDEOS'', ''DO_SPACES_KEY'', ''DO_SPACES_SECRET''] of
        Inr [endpoint, pub, certs, media, videos, _, _] \<Rightarrow>
          ok \<lparr>so_endpoint = endpoint, so_publicBaseUrl = strip_end pub,
              so_buckets = (\<lambda>k. case k of CERTIFICATES \<Rightarrow> certs | MEDIA \<Rightarrow> media | VIDEOS \<Rightarrow> videos),
              so_keyPrefix = trim_slashes (case env ''STORAGE_KEY_PREFIX'' of Some p \<Rightarrow> p | None \<Rightarrow> '''')\<rparr>
      | Inr _ \<Rightarrow> throw (PlainError '''')
      | Inl e \<Rightarrow> throw e)"

definition applyPrefix :: "storage_config \<Rightarrow> string \<Rightarrow> string" where
  "applyPrefix c key = (let normalised = normalizeKey key in
     if so_keyPrefix c \<noteq> '''' then so_keyPrefix c @ [slash] @ normalised else normalised)"

definition rewriteToPublicBase :: "storage_config \<Rightarrow> string \<Rightarrow> string" where
  "rewriteToPublicBase c signedUrl =
     (if so_endpoint c = so_publicBaseUrl c then signedUrl
      else case (parse_url signedUrl, parse_url (so_publicBaseUrl c)) of
          (Some u, Some pub) \<Rightarrow>
            href (set_host (url_hostname pub) (url_port pub) (set_protocol (url_scheme pub) u))
        | _ \<Rightarrow> signedUrl)"

definition kind_text :: "bucket_kind \<Rightarrow> string" where
  "kind_text k = (case k of CERTIFICATES \<Rightarrow> ''certificates'' | MEDIA \<Rightarrow> ''media'' | VIDEOS \<Rightarrow> ''videos'')"

definition getPublicUrl :: "storage_config \<Rightarrow> bucket_kind \<Rightarrow> string \<Rightarrow> storage_error + string" where
  "getPublicUrl c kind key =
     (if kind \<noteq> CERTIFICATES
      then Inl (PlainFailure (''Bucket '' @ [CHR 0x27] @ kind_text kind @ [CHR 0x27] @
        '' is not public-read; use getSignedUrl() to mint a signed URL.''))
      else Inr (so_publicBaseUrl c @ [slash] @ so_buckets c kind @ [slash] @ applyPrefix c key))"

definition signed :: "storage_config \<Rightarrow> 'x s3_client \<Rightarrow> s3_command \<Rightarrow> nat \<Rightarrow> storage_error + string" where
  "signed c S cmd expiresIn = (case s3_presign S cmd expiresIn of
      Inl e \<Rightarrow> Inl (S3Failure e)
    | Inr u \<Rightarrow> Inr (rewriteToPublicBase c u))"

definition getSignedUrl ::
  "storage_config \<Rightarrow> 'x s3_client \<Rightarrow> bucket_kind \<Rightarrow> string \<Rightarrow> nat \<Rightarrow> string option \<Rightarrow> storage_error + string" where
  "getSignedUrl c S kind key expiresIn disposition =
     signed c S (GetObject (so_buckets c kind) (applyPrefix c key) disposition) expiresIn"

definition getSignedUploadUrl ::
  "storage_config \<Rightarrow> 'x s3_client \<Rightarrow> bucket_kind \<Rightarrow> string \<Rightarrow> nat \<Rightarrow> string option \<Rightarrow> storage_error + string" where
  "getSignedUploadUrl c S kind key expiresIn contentType =
     signed c S (PutObject (so_buckets c kind) (applyPrefix c key) None
       \<lparr>uo_contentType = contentType, uo_cacheControl = None, uo_contentDisposition = None, uo_metadata = None\<rparr>)
       expiresIn"

definition DEFAULT_SIGNED_URL_TTL :: nat where
  "DEFAULT_SIGNED_URL_TTL = 3600"

record upload_result =
  ur_bucket :: string
  ur_key :: string
  ur_url :: string
  ur_etag :: "string option"

definition uploadObject ::
  "storage_config \<Rightarrow> 'x s3_client \<Rightarrow> bucket_kind \<Rightarrow> string \<Rightarrow> nat list \<Rightarrow> upload_options \<Rightarrow> ('x, upload_result) storage_op" where
  "uploadObject c S kind key body opts x =
     (let bucket = so_buckets c kind in
      case s3_send S (PutObject bucket (applyPrefix c key) (Some body) opts) x of
        (Inl e, x1) \<Rightarrow> (Inl (S3Failure e), x1)
      | (Inr etag, x1) \<Rightarrow>
          (case (if kind = CERTIFICATES then getPublicUrl c kind key
                 else getSignedUrl c S kind key DEFAULT_SIGNED_URL_TTL None) of
             Inl e \<Rightarrow> (Inl e, x1)
           | Inr u \<Rightarrow> (Inr \<lparr>ur_bucket = bucket, ur_key = key, ur_url = u, ur_etag = etag\<rparr>, x1)))"

definition deleteObject :: "storage_config \<Rightarrow> 'x s3_client \<Rightarrow> bucket_kind \<Rightarrow> string \<Rightarrow> ('x, unit) storage_op" where
  "deleteObject c S kind key x =
     (case s3_send S (DeleteObject (so_buckets c kind) (applyPrefix c key)) x of
        (Inl e, x1) \<Rightarrow> (Inl (S3Failure e), x1)
      | (Inr _, x1) \<Rightarrow> (Inr (), x1))"

definition is_missing :: "s3_error \<Rightarrow> bool" where
  "is_missing e \<longleftrightarrow> s3_status e = Some 404 \<or> s3_name e = Some ''NotFound'' \<or> s3_name e = Some ''NoSuchKey''"

definition objectExists :: "storage_config \<Rightarrow> 'x s3_client \<Rightarrow> bucket_kind \<Rightarrow> string \<Rightarrow> ('x, bool) storage_op" where
  "objectExists c S kind key x =
     (case s3_send S (HeadObject (so_buckets c kind) (applyPrefix c key)) x of
        (Inr _, x1) \<Rightarrow> (Inr True, x1)
      | (Inl e, x1) \<Rightarrow> if is_missing e then (Inr False, x1) else (Inl (S3Failure e), x1))"

text \<open>The probe of every bucket, at boot (where it decides the log line) and for \<open>/health/full\<close>.\<close>

fun probe_buckets :: "storage_config \<Rightarrow> 'x s3_client \<Rightarrow> bucket_kind list \<Rightarrow> 'x \<Rightarrow> (bucket_kind \<times> s3_error option) list \<times> 'x" where
  "probe_buckets c S [] x = ([], x)"
| "probe_buckets c S (k # ks) x =
     (case s3_send S (HeadBucket (so_buckets c k)) x of (r, x1) \<Rightarrow>
        case probe_buckets c S ks x1 of (rs, x2) \<Rightarrow>
          ((k, case r of Inr _ \<Rightarrow> None | Inl e \<Rightarrow> Some e) # rs, x2))"

text \<open>A log line: its level, the bucket and its kind, and the message of the error.\<close>

type_synonym probe_log = "string \<times> string \<times> string \<times> string option"

definition storage_onModuleInit :: "storage_config \<Rightarrow> 'x s3_client \<Rightarrow> 'x \<Rightarrow> probe_log list \<times> 'x" where
  "storage_onModuleInit c S x = (case probe_buckets c S bucket_kinds x of (rs, x1) \<Rightarrow>
     (map (\<lambda>(k, e). (case e of None \<Rightarrow> ''log'' | Some _ \<Rightarrow> ''warn'', so_buckets c k, kind_text k, map_option s3_message e)) rs,
      x1))"

definition storage_healthCheck :: "storage_config \<Rightarrow> 'x s3_client \<Rightarrow> 'x \<Rightarrow> (bucket_kind \<rightharpoonup> bool) \<times> 'x" where
  "storage_healthCheck c S x = (case probe_buckets c S bucket_kinds x of (rs, x1) \<Rightarrow>
     (map_of (map (\<lambda>(k, e). (k, e = None)) rs), x1))"

definition bucketFor :: "storage_config \<Rightarrow> bucket_kind \<Rightarrow> string" where
  "bucketFor c kind = so_buckets c kind"

end
