(* ===== verification/Learning.thy ===== *)
theory Learning
  imports I18n JsObject RowSecurity Storage "HOL-Library.Product_Lexorder"
begin

section \<open>Modules, lessons and progress (modules/learning)\<close>

text \<open>
  \<open>LearningService\<close> over the tables it reads and writes. The purchase gate reads \<open>student_purchases\<close>
  through the row policy of \<open>RowSecurity\<close>: on the runner of the request, which carries
  \<open>app.current_user_id\<close>, or on a pooled connection, where the variable is not set. Positions and
  durations are \<open>integer\<close> columns of 32 bits. The order of modules and lessons is by position and then by
  creation time, read here to the millisecond.
\<close>

subsection \<open>State and requests\<close>

record learning_state =
  ln_certs :: "certificate list"
  ln_modules :: "learning_module list"
  ln_lessons :: "lesson list"
  ln_progress :: "student_progress list"
  ln_purchases :: "student_purchase list"
  ln_users :: "uuid list"

record create_module_dto =
  cm_certId :: uuid
  cm_title :: string
  cm_description :: "string option"
  cm_position :: "int option"
  cm_active :: "bool option"
  cm_translations :: "(string \<times> locale_block) list option"

record update_module_dto =
  um_title :: "string js_field"
  um_description :: "string js_field"
  um_position :: "int js_field"
  um_active :: "bool js_field"
  um_translations :: "(string \<times> locale_block) list js_field"

record create_lesson_dto =
  cn_moduleId :: uuid
  cn_title :: string
  cn_contentText :: "string option"
  cn_videoUrl :: "string option"
  cn_position :: "int option"
  cn_durationSeconds :: "int option"
  cn_active :: "bool option"
  cn_translations :: "(string \<times> locale_block) list option"

record update_lesson_dto =
  un_title :: "string js_field"
  un_contentText :: "string js_field"
  un_videoUrl :: "string js_field"
  un_position :: "int js_field"
  un_durationSeconds :: "int js_field"
  un_active :: "bool js_field"
  un_translations :: "(string \<times> locale_block) list js_field"

definition int4 :: "int \<Rightarrow> bool" where
  "int4 n \<longleftrightarrow> - (2 ^ 31) \<le> n \<and> n < 2 ^ 31"

definition int4_field :: "int js_field \<Rightarrow> bool" where
  "int4_field f = (case f of Value n \<Rightarrow> int4 n | _ \<Rightarrow> True)"

definition out_of_range :: exc where
  "out_of_range = DatabaseError ''value out of range for type integer''"

definition not_null :: exc where
  "not_null = DatabaseError ''violates not-null constraint''"

subsection \<open>Administration of modules\<close>

definition find_module :: "uuid \<Rightarrow> learning_state \<Rightarrow> learning_module option" where
  "find_module mid s = find_one (\<lambda>m. pk m = mid) (ln_modules s)"

definition write_module :: "uuid \<Rightarrow> (learning_module \<Rightarrow> learning_module) \<Rightarrow> learning_state \<Rightarrow> learning_state" where
  "write_module mid f s = s\<lparr>ln_modules := update_rows (\<lambda>m. pk m = mid) f (ln_modules s)\<rparr>"

text \<open>\<open>findOneOrFail\<close> after a write.\<close>

definition module_or_fail :: "uuid \<Rightarrow> (learning_state, learning_module) op" where
  "module_or_fail mid s = (case find_module mid s of
      None \<Rightarrow> (throw (DatabaseError ''EntityNotFoundError''), s) | Some m \<Rightarrow> (ok m, s))"

definition createModule :: "instant \<Rightarrow> uuid \<Rightarrow> create_module_dto \<Rightarrow> (learning_state, learning_module) op" where
  "createModule t newKey d s =
     (case find_one (\<lambda>c. pk c = cm_certId d) (ln_certs s) of
        None \<Rightarrow> (throw (NotFoundException ''Parent certificate not found''), s)
      | Some _ \<Rightarrow>
          let T = buildTranslations Map.empty (cm_translations d) (cm_title d) (cm_description d) ''description'';
              position = (case cm_position d of Some p \<Rightarrow> p | None \<Rightarrow> 0);
              row = \<lparr>pk = newKey, createdAt = t, updatedAt = t, m_certId = cm_certId d, m_title = cm_title d,
                     m_description = cm_description d, m_translations = T, m_position = position,
                     m_active = (case cm_active d of Some a \<Rightarrow> a | None \<Rightarrow> True)\<rparr>
          in if \<not> int4 position then (throw out_of_range, s)
             else case insert_row pk row (ln_modules s) of
                 Inl e \<Rightarrow> (throw e, s)
               | Inr rows \<Rightarrow> (ok row, s\<lparr>ln_modules := rows\<rparr>))"

definition module_patch_empty :: "update_module_dto \<Rightarrow> bool" where
  "module_patch_empty d \<longleftrightarrow> \<not> defined (um_title d) \<and> \<not> defined (um_description d) \<and> \<not> defined (um_position d) \<and>
     \<not> defined (um_active d) \<and> \<not> defined (um_translations d)"

definition module_patch_translations :: "update_module_dto \<Rightarrow> learning_module \<Rightarrow> localized" where
  "module_patch_translations d m =
     (if defined (um_title d) \<or> defined (um_description d) \<or> defined (um_translations d)
      then buildTranslations (m_translations m) (or_null (um_translations d)) (or_default (um_title d) (m_title m))
        (patched (um_description d) (m_description m)) ''description''
      else m_translations m)"

definition patch_module :: "instant \<Rightarrow> update_module_dto \<Rightarrow> localized \<Rightarrow> learning_module \<Rightarrow> learning_module" where
  "patch_module t d T m = (touch t m)\<lparr>
     m_title := or_default (um_title d) (m_title m), m_description := patched (um_description d) (m_description m),
     m_position := or_default (um_position d) (m_position m), m_active := or_default (um_active d) (m_active m),
     m_translations := T\<rparr>"

definition updateModule :: "instant \<Rightarrow> uuid \<Rightarrow> update_module_dto \<Rightarrow> (learning_state, learning_module) op" where
  "updateModule t mid d s =
     (case find_module mid s of
        None \<Rightarrow> (throw (NotFoundException ''Module not found''), s)
      | Some m \<Rightarrow>
          if module_patch_empty d then module_or_fail mid s
          else if um_title d = Null \<or> um_position d = Null \<or> um_active d = Null then (throw not_null, s)
          else if \<not> int4_field (um_position d) then (throw out_of_range, s)
          else module_or_fail mid (write_module mid (patch_module t d (module_patch_translations d m)) s))"

definition softDeleteModule :: "instant \<Rightarrow> uuid \<Rightarrow> (learning_state, uuid \<times> bool) op" where
  "softDeleteModule t mid s =
     (case find_module mid s of
        None \<Rightarrow> (throw (NotFoundException ''Module not found''), s)
      | Some _ \<Rightarrow> (ok (mid, False), write_module mid (\<lambda>m. (touch t m)\<lparr>m_active := False\<rparr>) s))"

subsection \<open>Administration of lessons\<close>

definition find_lesson :: "uuid \<Rightarrow> learning_state \<Rightarrow> lesson option" where
  "find_lesson lid s = find_one (\<lambda>l. pk l = lid) (ln_lessons s)"

definition write_lesson :: "uuid \<Rightarrow> (lesson \<Rightarrow> lesson) \<Rightarrow> learning_state \<Rightarrow> learning_state" where
  "write_lesson lid f s = s\<lparr>ln_lessons := update_rows (\<lambda>l. pk l = lid) f (ln_lessons s)\<rparr>"

definition lesson_or_fail :: "uuid \<Rightarrow> (learning_state, lesson) op" where
  "lesson_or_fail lid s = (case find_lesson lid s of
      None \<Rightarrow> (throw (DatabaseError ''EntityNotFoundError''), s) | Some l \<Rightarrow> (ok l, s))"

definition createLesson :: "instant \<Rightarrow> uuid \<Rightarrow> create_lesson_dto \<Rightarrow> (learning_state, lesson) op" where
  "createLesson t newKey d s =
     (case find_module (cn_moduleId d) s of
        None \<Rightarrow> (throw (NotFoundException ''Parent module not found''), s)
      | Some _ \<Rightarrow>
          let T = buildTranslations Map.empty (cn_translations d) (cn_title d) (cn_contentText d) ''content_html'';
              position = (case cn_position d of Some p \<Rightarrow> p | None \<Rightarrow> 0);
              row = \<lparr>pk = newKey, createdAt = t, updatedAt = t, l_moduleId = cn_moduleId d, l_title = cn_title d,
                     l_videoUrl = cn_videoUrl d, l_contentText = cn_contentText d, l_translations = T,
                     l_position = position, l_durationSeconds = cn_durationSeconds d,
                     l_active = (case cn_active d of Some a \<Rightarrow> a | None \<Rightarrow> True)\<rparr>
          in if \<not> int4 position \<or> (case cn_durationSeconds d of Some n \<Rightarrow> \<not> int4 n | None \<Rightarrow> False)
             then (throw out_of_range, s)
             else case insert_row pk row (ln_lessons s) of
                 Inl e \<Rightarrow> (throw e, s)
               | Inr rows \<Rightarrow> (ok row, s\<lparr>ln_lessons := rows\<rparr>))"

definition lesson_patch_empty :: "update_lesson_dto \<Rightarrow> bool" where
  "lesson_patch_empty d \<longleftrightarrow> \<not> defined (un_title d) \<and> \<not> defined (un_contentText d) \<and> \<not> defined (un_videoUrl d) \<and>
     \<not> defined (un_position d) \<and> \<not> defined (un_durationSeconds d) \<and> \<not> defined (un_active d) \<and>
     \<not> defined (un_translations d)"

definition lesson_patch_translations :: "update_lesson_dto \<Rightarrow> lesson \<Rightarrow> localized" where
  "lesson_patch_translations d l =
     (if defined (un_title d) \<or> defined (un_contentText d) \<or> defined (un_translations d)
      then buildTranslations (l_translations l) (or_null (un_translations d)) (or_default (un_title d) (l_title l))
        (patched (un_contentText d) (l_contentText l)) ''content_html''
      else l_translations l)"

definition patch_lesson :: "instant \<Rightarrow> update_lesson_dto \<Rightarrow> localized \<Rightarrow> lesson \<Rightarrow> lesson" where
  "patch_lesson t d T l = (touch t l)\<lparr>
     l_title := or_default (un_title d) (l_title l), l_contentText := patched (un_contentText d) (l_contentText l),
     l_videoUrl := patched (un_videoUrl d) (l_videoUrl l), l_position := or_default (un_position d) (l_position l),
     l_durationSeconds := patched (un_durationSeconds d) (l_durationSeconds l),
     l_active := or_default (un_active d) (l_active l), l_translations := T\<rparr>"

definition updateLesson :: "instant \<Rightarrow> uuid \<Rightarrow> update_lesson_dto \<Rightarrow> (learning_state, lesson) op" where
  "updateLesson t lid d s =
     (case find_lesson lid s of
        None \<Rightarrow> (throw (NotFoundException ''Lesson not found''), s)
      | Some l \<Rightarrow>
          if lesson_patch_empty d then lesson_or_fail lid s
          else if un_title d = Null \<or> un_position d = Null \<or> un_active d = Null then (throw not_null, s)
          else if \<not> int4_field (un_position d) \<or> \<not> int4_field (un_durationSeconds d) then (throw out_of_range, s)
          else lesson_or_fail lid (write_lesson lid (patch_lesson t d (lesson_patch_translations d l)) s))"

definition softDeleteLesson :: "instant \<Rightarrow> uuid \<Rightarrow> (learning_state, uuid \<times> bool) op" where
  "softDeleteLesson t lid s =
     (case find_lesson lid s of
        None \<Rightarrow> (throw (NotFoundException ''Lesson not found''), s)
      | Some _ \<Rightarrow> (ok (lid, False), write_lesson lid (\<lambda>l. (touch t l)\<lparr>l_active := False\<rparr>) s))"

subsection \<open>The purchase gate\<close>

text \<open>The rows a connection sees; \<open>Some v\<close> is the runner of a request whose session variable has the value \<open>v\<close>.\<close>

definition visible_purchases :: "string option option \<Rightarrow> learning_state \<Rightarrow> student_purchase list" where
  "visible_purchases runner s = filter (student_purchases_isolation
     (case runner of Some v \<Rightarrow> v | None \<Rightarrow> None)) (ln_purchases s)"

definition findPurchases :: "uuid \<Rightarrow> string option option \<Rightarrow> learning_state \<Rightarrow> student_purchase list" where
  "findPurchases userId runner s = find_rows (\<lambda>p. sp_userId p = userId) (visible_purchases runner s)"

definition assertPurchased :: "uuid \<Rightarrow> uuid \<Rightarrow> string option option \<Rightarrow> learning_state \<Rightarrow> unit result" where
  "assertPurchased userId certId runner s =
     (let rows = take 1 (find_rows (\<lambda>p. sp_userId p = userId \<and> sp_certId p = certId) (visible_purchases runner s))
      in if rows = [] then throw (ForbiddenException ''You have not enrolled in this certificate'') else ok ())"


subsection \<open>Curriculum\<close>

definition title_for :: "string \<Rightarrow> localized \<Rightarrow> string \<Rightarrow> string" where
  "title_for locale T canonical =
     (case tr_value (resolveTranslation (Some T) ''title'' locale) of Some v \<Rightarrow> v | None \<Rightarrow> canonical)"

text \<open>\<open>order: { position: 'ASC', createdAt: 'ASC' }\<close>\<close>

definition active_modules :: "uuid list \<Rightarrow> learning_state \<Rightarrow> learning_module list" where
  "active_modules certIds s = find_rows (\<lambda>m. m_certId m \<in> set certIds \<and> m_active m) (ln_modules s)"

definition active_lessons :: "uuid list \<Rightarrow> learning_state \<Rightarrow> lesson list" where
  "active_lessons moduleIds s = (if moduleIds = [] then []
     else find_rows (\<lambda>l. l_moduleId l \<in> set moduleIds \<and> l_active l) (ln_lessons s))"

definition completed_ids :: "uuid \<Rightarrow> learning_state \<Rightarrow> uuid list" where
  "completed_ids userId s = map pr_lessonId (find_rows (\<lambda>p. pr_userId p = userId) (ln_progress s))"

record curriculum_lesson =
  ul_id :: uuid
  ul_title :: string
  ul_position :: int
  ul_durationSeconds :: "int option"
  ul_hasVideo :: bool
  ul_completed :: bool

record curriculum_module =
  ud_id :: uuid
  ud_title :: string
  ud_position :: int
  ud_lessons :: "curriculum_lesson list"

record curriculum =
  cu_certId :: uuid
  cu_programCode :: string
  cu_title :: string
  cu_modules :: "curriculum_module list"
  cu_locale :: string
  cu_direction :: string

definition curriculum_lesson_of :: "string \<Rightarrow> uuid list \<Rightarrow> lesson \<Rightarrow> curriculum_lesson" where
  "curriculum_lesson_of locale done l = \<lparr>ul_id = pk l, ul_title = title_for locale (l_translations l) (l_title l),
     ul_position = l_position l, ul_durationSeconds = l_durationSeconds l,
     ul_hasVideo = (case l_videoUrl l of Some v \<Rightarrow> v \<noteq> '''' | None \<Rightarrow> False), ul_completed = (pk l \<in> set done)\<rparr>"

definition curriculum_module_of :: "string \<Rightarrow> uuid list \<Rightarrow> lesson list \<Rightarrow> learning_module \<Rightarrow> curriculum_module" where
  "curriculum_module_of locale done lessons m = \<lparr>ud_id = pk m, ud_title = title_for locale (m_translations m) (m_title m),
     ud_position = m_position m,
     ud_lessons = map (curriculum_lesson_of locale done) (filter (\<lambda>l. l_moduleId l = pk m) lessons)\<rparr>"

definition getCurriculum ::
  "string option \<Rightarrow> uuid \<Rightarrow> uuid \<Rightarrow> string option option \<Rightarrow> learning_state \<Rightarrow> curriculum result" where
  "getCurriculum ctxLang userId certId runner s =
     (case find_one (\<lambda>c. pk c = certId) (ln_certs s) of
        None \<Rightarrow> throw (NotFoundException ''Certificate not found'')
      | Some cert \<Rightarrow>
          if \<not> c_active cert then throw (NotFoundException ''Certificate not found'')
          else (case assertPurchased userId certId runner s of
              Inl e \<Rightarrow> throw e
            | Inr _ \<Rightarrow>
                let modules = sort_key (\<lambda>m. (m_position m, createdAt m)) (active_modules [certId] s);
                    lessons = sort_key (\<lambda>l. (l_position l, createdAt l)) (active_lessons (map pk modules) s);
                    done = completed_ids userId s;
                    locale = resolveLocale ctxLang
                in ok \<lparr>cu_certId = pk cert, cu_programCode = c_programCode cert,
                       cu_title = title_for locale (c_translations cert) (c_title cert),
                       cu_modules = map (curriculum_module_of locale done lessons) modules,
                       cu_locale = locale, cu_direction = directionFor locale\<rparr>))"

subsection \<open>Serving a lesson\<close>

definition VIDEO_SIGNED_URL_TTL_SEC :: nat where
  "VIDEO_SIGNED_URL_TTL_SEC = 60 * 60"

record served_lesson =
  sv_id :: uuid
  sv_moduleId :: uuid
  sv_title :: string
  sv_contentHtml :: "string option"
  sv_videoUrl :: "string option"
  sv_durationSeconds :: "int option"
  sv_position :: int
  sv_completed :: bool
  sv_completedAt :: "instant option"
  sv_locale :: string
  sv_direction :: string
  sv_fallbackUsed :: bool
  sv_videoUrlExpiresInSeconds :: "nat option"

text \<open>The lesson and its module, as \<open>serveLesson\<close> and \<open>markComplete\<close> load them.\<close>

definition open_lesson :: "uuid \<Rightarrow> uuid \<Rightarrow> string option option \<Rightarrow> learning_state \<Rightarrow> lesson result" where
  "open_lesson userId lessonId runner s =
     (case find_lesson lessonId s of
        None \<Rightarrow> throw (NotFoundException ''Lesson not found'')
      | Some l \<Rightarrow>
          if \<not> l_active l then throw (NotFoundException ''Lesson not found'')
          else (case find_module (l_moduleId l) s of
              None \<Rightarrow> throw (NotFoundException ''Lesson not found'')
            | Some m \<Rightarrow>
                (case assertPurchased userId (m_certId m) runner s of Inl e \<Rightarrow> throw e | Inr _ \<Rightarrow> ok l)))"

definition find_progress :: "uuid \<Rightarrow> uuid \<Rightarrow> learning_state \<Rightarrow> student_progress option" where
  "find_progress userId lessonId s = find_one (\<lambda>p. pr_userId p = userId \<and> pr_lessonId p = lessonId) (ln_progress s)"

definition video_url :: "storage_config \<Rightarrow> 'x s3_client \<Rightarrow> lesson \<Rightarrow> string option result" where
  "video_url c S l = (case l_videoUrl l of
      None \<Rightarrow> ok None
    | Some key \<Rightarrow>
        if key = '''' then ok None
        else (case getSignedUrl c S VIDEOS key VIDEO_SIGNED_URL_TTL_SEC None of
            Inl (S3Failure e) \<Rightarrow> throw (PlainError (s3_message e))
          | Inl (PlainFailure m) \<Rightarrow> throw (PlainError m)
          | Inr u \<Rightarrow> ok (Some u)))"

definition serveLesson ::
  "storage_config \<Rightarrow> 'x s3_client \<Rightarrow> string option \<Rightarrow> uuid \<Rightarrow> uuid \<Rightarrow> string option option \<Rightarrow> learning_state \<Rightarrow>
    served_lesson result" where
  "serveLesson c S ctxLang userId lessonId runner s =
     (case open_lesson userId lessonId runner s of
        Inl e \<Rightarrow> throw e
      | Inr l \<Rightarrow>
          let completed = find_progress userId lessonId s;
              locale = resolveLocale ctxLang;
              titleRes = resolveTranslation (Some (l_translations l)) ''title'' locale;
              bodyRes = resolveTranslation (Some (l_translations l)) ''content_html'' locale
          in (case video_url c S l of
              Inl e \<Rightarrow> throw e
            | Inr signedVideoUrl \<Rightarrow>
                ok \<lparr>sv_id = pk l, sv_moduleId = l_moduleId l,
                    sv_title = (case tr_value titleRes of Some v \<Rightarrow> v | None \<Rightarrow> l_title l),
                    sv_contentHtml = (case tr_value bodyRes of Some v \<Rightarrow> Some v | None \<Rightarrow> l_contentText l),
                    sv_videoUrl = signedVideoUrl, sv_durationSeconds = l_durationSeconds l, sv_position = l_position l,
                    sv_completed = (completed \<noteq> None), sv_completedAt = map_option pr_completedAt completed,
                    sv_locale = locale, sv_direction = directionFor locale,
                    sv_fallbackUsed = (tr_fallbackUsed titleRes \<or> tr_fallbackUsed bodyRes),
                    sv_videoUrlExpiresInSeconds = (case signedVideoUrl of
                        Some u \<Rightarrow> if u = '''' then None else Some VIDEO_SIGNED_URL_TTL_SEC | None \<Rightarrow> None)\<rparr>))"

subsection \<open>Progress\<close>

record completion =
  co_lessonId :: uuid
  co_completedAt :: instant
  co_alreadyCompleted :: bool

text \<open>INSERT into \<open>student_progress\<close>: its foreign keys and the unique pair of user and lesson.\<close>

definition insert_progress :: "student_progress \<Rightarrow> learning_state \<Rightarrow> learning_state result" where
  "insert_progress r s =
     (if pr_userId r \<notin> set (ln_users s) \<or> find_lesson (pr_lessonId r) s = None
      then throw (DatabaseError ''violates foreign key constraint'')
      else if find_progress (pr_userId r) (pr_lessonId r) s \<noteq> None
      then throw (DatabaseError ''duplicate key value violates unique constraint'')
      else case insert_row pk r (ln_progress s) of
          Inl e \<Rightarrow> throw e | Inr rows \<Rightarrow> ok (s\<lparr>ln_progress := rows\<rparr>))"

text \<open>The two database steps of \<open>markComplete\<close>; between them other requests may run.\<close>

definition mark_lookup ::
  "uuid \<Rightarrow> uuid \<Rightarrow> string option option \<Rightarrow> learning_state \<Rightarrow> student_progress option result" where
  "mark_lookup userId lessonId runner s = (case open_lesson userId lessonId runner s of
      Inl e \<Rightarrow> throw e | Inr _ \<Rightarrow> ok (find_progress userId lessonId s))"

definition mark_save :: "instant \<Rightarrow> uuid \<Rightarrow> uuid \<Rightarrow> uuid \<Rightarrow> (learning_state, completion) op" where
  "mark_save t newKey userId lessonId s =
     (case insert_progress \<lparr>pk = newKey, createdAt = t, updatedAt = t, pr_userId = userId, pr_lessonId = lessonId,
         pr_completedAt = t\<rparr> s of
        Inl e \<Rightarrow> (throw e, s)
      | Inr s1 \<Rightarrow> (ok \<lparr>co_lessonId = lessonId, co_completedAt = t, co_alreadyCompleted = False\<rparr>, s1))"

definition markComplete ::
  "instant \<Rightarrow> uuid \<Rightarrow> uuid \<Rightarrow> uuid \<Rightarrow> string option option \<Rightarrow> (learning_state, completion) op" where
  "markComplete t newKey userId lessonId runner s =
     (case mark_lookup userId lessonId runner s of
        Inl e \<Rightarrow> (throw e, s)
      | Inr (Some p) \<Rightarrow>
          (ok \<lparr>co_lessonId = lessonId, co_completedAt = pr_completedAt p, co_alreadyCompleted = True\<rparr>, s)
      | Inr None \<Rightarrow> mark_save t newKey userId lessonId s)"

record progress_row =
  pw_certId :: uuid
  pw_programCode :: string
  pw_title :: string
  pw_totalLessons :: nat
  pw_completedLessons :: nat
  pw_percentComplete :: int

definition percent_complete :: "nat \<Rightarrow> nat \<Rightarrow> int" where
  "percent_complete done all = (if all = 0 then 0 else js_round (js_percent (of_nat done) (of_nat all)))"

definition progress_row_of ::
  "string \<Rightarrow> learning_module list \<Rightarrow> lesson list \<Rightarrow> uuid list \<Rightarrow> certificate \<Rightarrow> progress_row" where
  "progress_row_of locale modules lessons done cert =
     (let certModuleIds = map pk (filter (\<lambda>m. m_certId m = pk cert) modules);
          certLessons = filter (\<lambda>l. l_moduleId l \<in> set certModuleIds) lessons;
          completedCount = length (filter (\<lambda>l. pk l \<in> set done) certLessons)
      in \<lparr>pw_certId = pk cert, pw_programCode = c_programCode cert,
          pw_title = title_for locale (c_translations cert) (c_title cert), pw_totalLessons = length certLessons,
          pw_completedLessons = completedCount,
          pw_percentComplete = percent_complete completedCount (length certLessons)\<rparr>)"

definition getProgressSummary ::
  "string option \<Rightarrow> uuid \<Rightarrow> string option option \<Rightarrow> learning_state \<Rightarrow> progress_row list \<times> string" where
  "getProgressSummary ctxLang userId runner s =
     (let purchases = findPurchases userId runner s; locale = resolveLocale ctxLang in
      if purchases = [] then ([], locale)
      else let certIds = map sp_certId purchases;
               certs = find_rows (\<lambda>c. pk c \<in> set certIds) (ln_certs s);
               modules = active_modules certIds s;
               lessons = active_lessons (map pk modules) s
           in (map (progress_row_of locale modules lessons (completed_ids userId s)) certs, locale))"

end
