(* ===== verification/LearningProperties.thy ===== *)
theory LearningProperties
  imports Learning Contracts
begin

section \<open>Properties of the learning service\<close>

text \<open>
  The invariant of modules, lessons and progress under every operation, the purchase gate in front of
  lessons, completion as a write that happens once, the percentage of the summary, and the agreement
  of the two views of a student's progress.
\<close>

subsection \<open>The invariant\<close>

definition progress_key :: "student_progress \<Rightarrow> uuid \<times> uuid" where
  "progress_key p = (pr_userId p, pr_lessonId p)"

definition learning_inv :: "learning_state \<Rightarrow> bool" where
  "learning_inv s \<longleftrightarrow>
     distinct (map pk (ln_modules s)) \<and> distinct (map pk (ln_lessons s)) \<and>
     distinct (map pk (ln_progress s)) \<and> distinct (map progress_key (ln_progress s)) \<and>
     m_certId ` set (ln_modules s) \<subseteq> pk ` set (ln_certs s) \<and>
     l_moduleId ` set (ln_lessons s) \<subseteq> pk ` set (ln_modules s) \<and>
     pr_lessonId ` set (ln_progress s) \<subseteq> pk ` set (ln_lessons s) \<and>
     pr_userId ` set (ln_progress s) \<subseteq> set (ln_users s)"

definition completion_at :: "learning_state \<Rightarrow> uuid \<times> uuid \<times> instant \<Rightarrow> bool" where
  "completion_at s k \<longleftrightarrow> k \<in> (\<lambda>p. (pr_userId p, pr_lessonId p, pr_completedAt p)) ` set (ln_progress s)"

text \<open>The writes of the service, the two steps of \<open>markComplete\<close> apart.\<close>

inductive learning_step :: "learning_state \<Rightarrow> learning_state \<Rightarrow> bool" where
  create_module: "learning_step s (snd (createModule t n d s))"
| update_module: "learning_step s (snd (updateModule t i ud s))"
| delete_module: "learning_step s (snd (softDeleteModule t i s))"
| create_lesson: "learning_step s (snd (createLesson t n cd s))"
| update_lesson: "learning_step s (snd (updateLesson t i ld s))"
| delete_lesson: "learning_step s (snd (softDeleteLesson t i s))"
| save_progress: "learning_step s (snd (mark_save t n u l s))"

lemma module_or_fail_state [simp]: "snd (module_or_fail i s) = s"
  by (simp add: module_or_fail_def split: option.split)

lemma lesson_or_fail_state [simp]: "snd (lesson_or_fail i s) = s"
  by (simp add: lesson_or_fail_def split: option.split)

lemma find_module_pk: "find_module i s = Some m \<Longrightarrow> m \<in> set (ln_modules s) \<and> pk m = i"
  unfolding find_module_def by (drule find_one_SomeD) simp

lemma find_lesson_pk: "find_lesson i s = Some l \<Longrightarrow> l \<in> set (ln_lessons s) \<and> pk l = i"
  unfolding find_lesson_def by (drule find_one_SomeD) simp

lemma found_key: "find_one (\<lambda>r. pk r = i) t = Some r \<Longrightarrow> i \<in> pk ` set t"
  by (auto dest!: find_one_SomeD)

lemma write_module_keeps:
  assumes "learning_inv s" and "\<And>m. pk (f m) = pk m" and "\<And>m. m_certId (f m) = m_certId m"
  shows "learning_inv (write_module i f s) \<and> (\<forall>k. completion_at s k \<longrightarrow> completion_at (write_module i f s) k)"
  using assms by (simp add: learning_inv_def write_module_def completion_at_def flip: set_map)

lemma write_lesson_keeps:
  assumes "learning_inv s" and "\<And>l. pk (f l) = pk l" and "\<And>l. l_moduleId (f l) = l_moduleId l"
  shows "learning_inv (write_lesson i f s) \<and> (\<forall>k. completion_at s k \<longrightarrow> completion_at (write_lesson i f s) k)"
  using assms by (simp add: learning_inv_def write_lesson_def completion_at_def flip: set_map)

lemma touch_keys [simp]: "m_certId (touch t m) = m_certId m" "l_moduleId (touch t l) = l_moduleId l"
  by (simp_all add: touch_def)

lemma patch_module_keys [simp]: "pk (patch_module t d T m) = pk m" "m_certId (patch_module t d T m) = m_certId m"
  by (simp_all add: patch_module_def)

lemma patch_lesson_keys [simp]: "pk (patch_lesson t d T l) = pk l" "l_moduleId (patch_lesson t d T l) = l_moduleId l"
  by (simp_all add: patch_lesson_def)

lemma create_module_keeps:
  "learning_inv s \<Longrightarrow> learning_inv (snd (createModule t n d s)) \<and> ln_progress (snd (createModule t n d s)) = ln_progress s"
  by (auto simp: createModule_def Let_def insert_row_def learning_inv_def split: option.split dest: found_key)

lemma create_lesson_keeps:
  "learning_inv s \<Longrightarrow> learning_inv (snd (createLesson t n d s)) \<and> ln_progress (snd (createLesson t n d s)) = ln_progress s"
  by (auto simp: createLesson_def Let_def insert_row_def learning_inv_def find_module_def split: option.split dest: found_key)

lemma insert_progress_ok:
  assumes "insert_progress r s = Inr s'"
  shows "s' = s\<lparr>ln_progress := ln_progress s @ [r]\<rparr> \<and> pr_userId r \<in> set (ln_users s) \<and>
    pr_lessonId r \<in> pk ` set (ln_lessons s) \<and> pk r \<notin> pk ` set (ln_progress s) \<and>
    progress_key r \<notin> progress_key ` set (ln_progress s)"
proof -
  from assms have f: "find_lesson (pr_lessonId r) s \<noteq> None" "find_progress (pr_userId r) (pr_lessonId r) s = None"
    "pr_userId r \<in> set (ln_users s)" and i: "insert_row pk r (ln_progress s) = Inr (ln_progress s')" "s' = s\<lparr>ln_progress := ln_progress s'\<rparr>"
    by (auto simp: insert_progress_def split: if_splits sum.splits)
  then have "pr_lessonId r \<in> pk ` set (ln_lessons s)" by (auto simp: find_lesson_def dest: found_key)
  moreover have "progress_key r \<notin> progress_key ` set (ln_progress s)"
    using f(2) by (auto simp: find_progress_def find_one_None_iff progress_key_def)
  ultimately show ?thesis using f(3) i by (simp add: insert_row_ok_iff)
qed

lemma mark_save_keeps:
  assumes "learning_inv s"
  shows "learning_inv (snd (mark_save t n u l s)) \<and>
    (\<forall>k. completion_at s k \<longrightarrow> completion_at (snd (mark_save t n u l s)) k)"
proof (cases "insert_progress \<lparr>pk = n, createdAt = t, updatedAt = t, pr_userId = u, pr_lessonId = l, pr_completedAt = t\<rparr> s")
  case (Inr s')
  from insert_progress_ok [OF this] assms show ?thesis
    by (auto simp: mark_save_def Inr learning_inv_def completion_at_def)
qed (use assms in \<open>simp add: mark_save_def\<close>)

lemma learning_step_keeps:
  assumes "learning_step s s'" and "learning_inv s"
  shows "learning_inv s' \<and> (\<forall>k. completion_at s k \<longrightarrow> completion_at s' k)"
  using assms
proof (induction rule: learning_step.induct)
  case create_module
  then show ?case using create_module_keeps by (simp add: completion_at_def)
next
  case create_lesson
  then show ?case using create_lesson_keeps by (simp add: completion_at_def)
next
  case (update_module s t i d)
  then show ?case by (simp add: updateModule_def write_module_keeps split: option.split)
next
  case (update_lesson s t i d)
  then show ?case by (simp add: updateLesson_def write_lesson_keeps split: option.split)
next
  case (delete_module s t i)
  then show ?case by (simp add: softDeleteModule_def write_module_keeps split: option.split)
next
  case (delete_lesson s t i)
  then show ?case by (simp add: softDeleteLesson_def write_lesson_keeps split: option.split)
next
  case save_progress
  then show ?case by (rule mark_save_keeps)
qed

interpretation learning: monotone_system learning_inv learning_step completion_at
  by unfold_locales (use learning_step_keeps in blast)+

subsection \<open>Counting\<close>

lemma percent_complete_bounds:
  assumes "k \<le> n"
  shows "0 \<le> percent_complete k n \<and> percent_complete k n \<le> 100"
proof (cases "n = 0")
  case False
  with assms have "0 \<le> js_percent (of_nat k) (of_nat n)" "js_percent (of_nat k) (of_nat n) \<le> 100"
    by (auto intro: js_percent_range)
  with False show ?thesis
    using js_round_ge [of 0 "js_percent (of_nat k) (of_nat n)"] js_round_le [of "js_percent (of_nat k) (of_nat n)" 100]
    by (simp add: percent_complete_def)
qed (simp add: percent_complete_def)

lemma percent_complete_all: "0 < n \<Longrightarrow> percent_complete n n = 100"
  by (simp add: percent_complete_def js_round_def floor_eq_iff)

lemma percent_complete_short:
  assumes "k < n" and "n < 200"
  shows "percent_complete k n < 100"
proof -
  have "100 * of_nat k / of_nat n \<le> (100 - 100 / 199 :: rat)"
  proof -
    have "(of_nat k + 1 :: rat) \<le> of_nat n" using assms(1) by (metis of_nat_Suc of_nat_le_iff Suc_leI add.commute)
    moreover have "(of_nat n :: rat) \<le> 199" using assms(2) of_nat_le_iff [of n 199, where 'a = rat] by simp
    ultimately show ?thesis using assms by (simp add: field_simps)
  qed
  moreover have "\<bar>js_percent (of_nat k) (of_nat n) - 100 * of_nat k / of_nat n\<bar> \<le> 1 / 10 ^ 12"
    using assms by (intro js_percent_near) auto
  moreover have "(1 :: rat) / 10 ^ 12 < 1 / 1000" by simp
  ultimately have "js_percent (of_nat k) (of_nat n) < 99 + 1 / 2" by linarith
  then show ?thesis using js_round_le [of "js_percent (of_nat k) (of_nat n)" 99] assms by (simp add: percent_complete_def)
qed

lemma percent_complete_long:
  assumes "k < n" and "201 * (n - k) \<le> n"
  shows "percent_complete k n = 100"
proof -
  have "(201 * (of_nat n - of_nat k) :: rat) \<le> of_nat n"
    using assms of_nat_le_iff [of "201 * (n - k)" n, where 'a = rat] by (simp add: of_nat_diff)
  then have "100 - 100 / 201 \<le> (100 * of_nat k / of_nat n :: rat)" using assms(1) by (simp add: field_simps)
  moreover have "\<bar>js_percent (of_nat k) (of_nat n) - 100 * of_nat k / of_nat n\<bar> \<le> 1 / 10 ^ 12"
    using assms by (intro js_percent_near) auto
  moreover have "(1 :: rat) / 10 ^ 12 < 1 / 1000" by simp
  ultimately have "100 - 1 / 2 \<le> js_percent (of_nat k) (of_nat n)" by linarith
  then show ?thesis using js_round_ge [of 100] percent_complete_bounds [of k n] assms(1)
    by (fastforce simp: percent_complete_def)
qed


subsection \<open>A state to compute with\<close>

definition sample_learning :: learning_state where
  "sample_learning =
     (let cert = \<lparr>pk = ''c'', createdAt = 0, updatedAt = 0, c_title = ''C'', c_programCode = ''PSM'', c_description = None,
            c_translations = Map.empty, c_priceCents = 0, c_currency = ''USD'', c_active = True, c_thumbnailUrl = None,
            c_badgeImageUrl = None, c_track = None, c_level = None, c_durationHours = None, c_syllabusUrl = None\<rparr>;
          m = \<lparr>pk = ''m'', createdAt = 0, updatedAt = 0, m_certId = ''c'', m_title = ''M'', m_description = None,
            m_translations = Map.empty, m_position = 0, m_active = True\<rparr>;
          l = \<lparr>pk = ''l'', createdAt = 0, updatedAt = 0, l_moduleId = ''m'', l_title = ''L'', l_videoUrl = None,
            l_contentText = None, l_translations = Map.empty, l_position = 0, l_durationSeconds = None, l_active = True\<rparr>
      in \<lparr>ln_certs = [cert], ln_modules = [m], ln_lessons = [l], ln_progress = [],
          ln_purchases = [\<lparr>pk = ''p'', createdAt = 0, updatedAt = 0, sp_userId = ''u'', sp_certId = ''c'',
            sp_paymentIntentId = None, sp_paymentType = ENROLLMENT, sp_preExamConfirmed = False, sp_examCompleted = False\<rparr>],
          ln_users = [''u'', ''v'']\<rparr>)"

lemma sample_learning_inv: "learning_inv sample_learning"
  by (simp add: sample_learning_def learning_inv_def)

lemma sample_open_lesson:
  "(case open_lesson ''u'' ''l'' (Some (Some ''u'')) sample_learning of Inr l \<Rightarrow> pk l = ''l'' | Inl _ \<Rightarrow> False)"
  by (simp add: open_lesson_def sample_learning_def find_lesson_def find_module_def assertPurchased_def
      visible_purchases_def student_purchases_isolation_def find_rows_def find_one_def Let_def)

subsection \<open>The purchase gate\<close>

lemma open_lesson_iff:
  "open_lesson u lid r s = Inr l \<longleftrightarrow> find_lesson lid s = Some l \<and> l_active l \<and>
     (\<exists>m. find_module (l_moduleId l) s = Some m \<and> assertPurchased u (m_certId m) r s = Inr ())"
  by (auto simp: open_lesson_def split: option.splits sum.splits)

lemma assertPurchased_iff:
  "assertPurchased u cid r s = Inr () \<longleftrightarrow>
     (\<exists>p \<in> set (visible_purchases r s). sp_userId p = u \<and> sp_certId p = cid)"
  by (auto simp: assertPurchased_def find_rows_def filter_empty_conv)

lemma visible_purchases_simps:
  "u \<noteq> '''' \<Longrightarrow> set (visible_purchases (Some (Some u)) s) = {p \<in> set (ln_purchases s). sp_userId p = u}"
  "visible_purchases None s = []"
  by (auto simp: visible_purchases_def student_purchases_isolation_def current_setting_or_null_def filter_empty_conv)

text \<open>C8: The gate in front of lessons, for the runner that carries the caller's id. A lesson opens exactly when it
  exists, is active, its module exists and the caller has a purchase of the module's certificate; no other
  student's purchase helps, and without a runner the row policy hides every purchase, so nobody gets in.\<close>

theorem lesson_gate:
  assumes "u \<noteq> ''''"
  shows "((\<exists>l. open_lesson u lid (Some (Some u)) s = Inr l) \<longleftrightarrow>
      (\<exists>l m. find_lesson lid s = Some l \<and> l_active l \<and> find_module (l_moduleId l) s = Some m \<and>
        (\<exists>p \<in> set (ln_purchases s). sp_userId p = u \<and> sp_certId p = m_certId m))) \<and>
    (\<exists>e. open_lesson u lid None s = Inl e)"
proof -
  have "open_lesson u lid None s \<noteq> Inr l" for l
    by (simp add: open_lesson_iff assertPurchased_iff visible_purchases_simps)
  then have "\<exists>e. open_lesson u lid None s = Inl e" by (cases "open_lesson u lid None s") blast+
  then show ?thesis
    by (auto simp: open_lesson_iff assertPurchased_iff visible_purchases_simps assms)
qed

theorem lesson_gate_witness:
  "(\<exists>l. open_lesson ''u'' ''l'' (Some (Some ''u'')) sample_learning = Inr l) \<and>
   (\<exists>e. open_lesson ''u'' ''l'' None sample_learning = Inl e)"
  using lesson_gate [of "''u''" "''l''" sample_learning] sample_open_lesson by (auto split: sum.splits)

subsection \<open>Completion\<close>

text \<open>C24: Completion is written once. However the operations of students and administrators interleave, also with other
  requests between the look-up and the save of one \<open>markComplete\<close>, a student has at most one completion
  of a lesson, and a completion keeps its time for ever.\<close>

theorem completions_are_unique:
  assumes "reachable_from learning_step s t" and "learning_inv s"
  shows "distinct (map (\<lambda>p. (pr_userId p, pr_lessonId p)) (ln_progress t)) \<and>
    (\<forall>p \<in> set (ln_progress s). \<exists>q \<in> set (ln_progress t).
      pr_userId q = pr_userId p \<and> pr_lessonId q = pr_lessonId p \<and> pr_completedAt q = pr_completedAt p)"
proof -
  have "learning_inv t" by (rule learning.reachable_invar [OF assms])
  moreover have "completion_at t (pr_userId p, pr_lessonId p, pr_completedAt p)" if "p \<in> set (ln_progress s)" for p
    by (rule learning.reachable_closed [OF assms]) (use that in \<open>force simp: completion_at_def\<close>)
  ultimately show ?thesis
    by (auto simp: learning_inv_def completion_at_def image_iff progress_key_def [abs_def]) metis
qed

theorem completions_are_unique_witness:
  "distinct (map (\<lambda>p. (pr_userId p, pr_lessonId p))
     (ln_progress (snd (mark_save 6 ''q'' ''u'' ''l'' (snd (mark_save 5 ''r'' ''u'' ''l'' sample_learning))))))"
proof -
  let ?s1 = "snd (mark_save 5 ''r'' ''u'' ''l'' sample_learning)"
  have "reachable_from learning_step sample_learning ?s1"
    by (rule reachable_from.extend [where t = sample_learning]) (rule reachable_from.start learning_step.save_progress)+
  then have "reachable_from learning_step sample_learning (snd (mark_save 6 ''q'' ''u'' ''l'' ?s1))"
    by (rule reachable_from.extend) (rule learning_step.save_progress)
  from completions_are_unique [OF this sample_learning_inv] show ?thesis by (rule conjunct1)
qed

text \<open>Marking a lesson complete again is a no-op: when the first request succeeds, every later one, by the same
  runner, answers with the time of the first, says that it was complete, and writes nothing; the served
  lesson shows that time.\<close>

theorem mark_complete_idempotent:
  assumes "markComplete t n u lid r s = (Inr c, s')" and "serveLesson cfg S lang u lid r s' = Inr v"
  shows "markComplete t' n' u lid r s' = (Inr (c\<lparr>co_alreadyCompleted := True\<rparr>), s') \<and>
    sv_completed v \<and> sv_completedAt v = Some (co_completedAt c)"
proof -
  obtain l where o: "open_lesson u lid r s' = Inr l"
    using assms(2) by (auto simp: serveLesson_def split: sum.splits)
  have "\<exists>p. find_progress u lid s' = Some p \<and> pr_completedAt p = co_completedAt c \<and> co_lessonId c = lid"
  proof (cases "mark_lookup u lid r s")
    case (Inr f)
    show ?thesis
    proof (cases f)
      case None
      let ?row = "\<lparr>pk = n, createdAt = t, updatedAt = t, pr_userId = u, pr_lessonId = lid, pr_completedAt = t\<rparr>"
      have i: "insert_progress ?row s = Inr s'" and c: "c = \<lparr>co_lessonId = lid, co_completedAt = t, co_alreadyCompleted = False\<rparr>"
        using assms(1) by (auto simp: markComplete_def Inr None mark_save_def split: sum.splits)
      have "find_progress u lid s = None"
        using Inr None by (auto simp: mark_lookup_def split: sum.splits)
      then have "find_progress u lid s' = Some ?row"
        using insert_progress_ok [OF i] by (simp add: find_progress_def find_one_append) (simp add: find_one_def)
      then show ?thesis by (simp add: c)
    qed (use assms(1) Inr in \<open>auto simp: markComplete_def mark_lookup_def split: sum.splits\<close>)
  qed (use assms(1) in \<open>simp add: markComplete_def\<close>)
  with o assms(2) show ?thesis
    by (auto simp: markComplete_def mark_lookup_def serveLesson_def Let_def split: sum.splits)
qed

theorem mark_complete_idempotent_witness:
  "\<exists>c s'. markComplete 5 ''r'' ''u'' ''l'' (Some (Some ''u'')) sample_learning = (Inr c, s') \<and> co_completedAt c = 5 \<and>
     markComplete 9 ''q'' ''u'' ''l'' (Some (Some ''u'')) s' = (Inr (c\<lparr>co_alreadyCompleted := True\<rparr>), s')"
proof -
  let ?S = "\<lparr>s3_send = \<lambda>cmd x. (Inr None, x), s3_presign = \<lambda>cmd n. Inr ''''\<rparr>"
  let ?cfg = "\<lparr>so_endpoint = '''', so_publicBaseUrl = '''', so_buckets = \<lambda>k. '''', so_keyPrefix = ''''\<rparr>"
  define s' where "s' = snd (markComplete 5 ''r'' ''u'' ''l'' (Some (Some ''u'')) sample_learning)"
  define c where "c = \<lparr>co_lessonId = ''l'', co_completedAt = 5, co_alreadyCompleted = False\<rparr>"
  have m: "markComplete 5 ''r'' ''u'' ''l'' (Some (Some ''u'')) sample_learning = (Inr c, s')"
    by (simp add: s'_def c_def markComplete_def mark_lookup_def mark_save_def insert_progress_def insert_row_def
        open_lesson_def sample_learning_def find_lesson_def find_module_def assertPurchased_def find_progress_def
        visible_purchases_def student_purchases_isolation_def find_rows_def find_one_def Let_def)
  have "\<exists>v. serveLesson ?cfg ?S None ''u'' ''l'' (Some (Some ''u'')) s' = Inr v"
    by (simp add: s'_def markComplete_def mark_lookup_def mark_save_def insert_progress_def insert_row_def
        serveLesson_def video_url_def
        open_lesson_def sample_learning_def find_lesson_def find_module_def assertPurchased_def find_progress_def
        visible_purchases_def student_purchases_isolation_def find_rows_def find_one_def Let_def)
  then obtain v where "serveLesson ?cfg ?S None ''u'' ''l'' (Some (Some ''u'')) s' = Inr v" by blast
  from mark_complete_idempotent [OF m this, of 9 "''q''"] m show ?thesis by (auto simp: c_def)
qed

subsection \<open>The summary\<close>

text \<open>The percentage of the summary, computed in double precision and rounded: it lies between 0 and 100, is 100 for
  a finished certificate, and for fewer than 200 lessons is 100 only then. With more lessons it is 100
  already while at most one lesson in 201 is missing.\<close>

theorem percent_complete_reading:
  assumes "k \<le> n" and "0 < n"
  shows "0 \<le> percent_complete k n \<and> percent_complete k n \<le> 100 \<and>
    (n < 200 \<longrightarrow> (percent_complete k n = 100 \<longleftrightarrow> k = n)) \<and> (201 * (n - k) \<le> n \<longrightarrow> percent_complete k n = 100)"
  using percent_complete_bounds [OF assms(1)] percent_complete_all [OF assms(2)] percent_complete_short [of k n]
    percent_complete_long [of k n] assms(1)
  by (cases "k = n") auto

theorem percent_complete_reading_witness: "percent_complete 300 301 = 100 \<and> percent_complete 198 199 < 100"
  using percent_complete_reading [of 300 301] percent_complete_reading [of 198 199] by auto

lemma sum_list_partition:
  assumes "distinct xs"
  shows "sum_list (map (\<lambda>m. length (filter (\<lambda>l. f l = m) ls)) xs) = length (filter (\<lambda>l. f l \<in> set xs) ls)"
  using assms
proof (induction ls)
  case (Cons l ls)
  have "sum_list (map (\<lambda>m. if f l = m then 1 else 0) xs) = (if f l \<in> set xs then 1 else (0 :: nat))"
    using Cons.prems by (induction xs) auto
  moreover have "sum_list (map (\<lambda>m. length (filter (\<lambda>x. f x = m) (l # ls))) xs) =
      sum_list (map (\<lambda>m. if f l = m then 1 else 0) xs) + sum_list (map (\<lambda>m. length (filter (\<lambda>x. f x = m) ls)) xs)"
    unfolding sum_list_addf [symmetric] by (rule arg_cong [where f = sum_list]) auto
  ultimately show ?case using Cons by simp
qed simp
lemma active_lessons_eq:
  "active_lessons ids s = filter (\<lambda>l. l_moduleId l \<in> set ids \<and> l_active l) (ln_lessons s)"
  by (simp add: active_lessons_def find_rows_def)

lemma active_modules_of:
  "cid \<in> set cs \<Longrightarrow> filter (\<lambda>m. m_certId m = cid) (active_modules cs s) = active_modules [cid] s"
  by (auto simp: active_modules_def find_rows_def intro: filter_cong)

lemma length_filter_sort: "length (filter P (sort_key f xs)) = length (filter P xs)"
  by (metis filter_sort length_sort)

lemma curriculum_count:
  assumes "learning_inv s" and modules_def: "modules = sort_key (\<lambda>m. (m_position m, createdAt m)) (active_modules [cid] s)"
  shows "sum_list (map (\<lambda>m. length (filter P (filter (\<lambda>l. l_moduleId l = pk m)
      (sort_key (\<lambda>l. (l_position l, createdAt l)) (active_lessons (map pk modules) s))))) modules) =
    length (filter P (filter (\<lambda>l. l_moduleId l \<in> pk ` set (active_modules [cid] s) \<and> l_active l) (ln_lessons s)))"
proof -
  let ?ls = "sort_key (\<lambda>l. (l_position l, createdAt l)) (active_lessons (map pk modules) s)"
  have "distinct (map pk (active_modules [cid] s))"
    using assms(1) by (simp add: learning_inv_def active_modules_def find_rows_def distinct_map_filter)
  then have d: "distinct (map pk modules)" by (simp add: modules_def distinct_map)
  have "sum_list (map (\<lambda>m. length (filter P (filter (\<lambda>l. l_moduleId l = pk m) ?ls))) modules) =
      sum_list (map (\<lambda>i. length (filter (\<lambda>l. l_moduleId l = i) (filter P ?ls))) (map pk modules))"
    by (simp add: comp_def conj_commute)
  also have "\<dots> = length (filter (\<lambda>l. l_moduleId l \<in> set (map pk modules)) (filter P ?ls))"
    by (rule sum_list_partition [OF d])
  also have "\<dots> = length (filter P (filter (\<lambda>l. l_moduleId l \<in> set (map pk modules)) (active_lessons (map pk modules) s)))"
    by (simp only: filter_filter length_filter_sort conj_commute)
  also have "\<dots> = length (filter P (filter (\<lambda>l. l_moduleId l \<in> pk ` set (active_modules [cid] s) \<and> l_active l) (ln_lessons s)))"
    by (simp add: active_lessons_eq modules_def conj_assoc) (meson)
  finally show ?thesis .
qed

text \<open>C32: The two views of a student's progress agree: for every certificate the student has bought and that is
  active, the curriculum opens and its lessons are as many as the summary counts, of which as many are
  marked complete as the summary says.\<close>

theorem curriculum_agrees_with_summary:
  assumes "learning_inv s" and "find_one (\<lambda>c. pk c = cid) (ln_certs s) = Some cert" and "c_active cert" and "u \<noteq> ''''"
    and "p \<in> set (ln_purchases s)" and "sp_userId p = u" and "sp_certId p = cid"
  shows "\<exists>cu row. getCurriculum lang u cid (Some (Some u)) s = Inr cu \<and>
    row \<in> set (fst (getProgressSummary lang u (Some (Some u)) s)) \<and> pw_certId row = cid \<and>
    pw_totalLessons row = sum_list (map (\<lambda>m. length (ud_lessons m)) (cu_modules cu)) \<and>
    pw_completedLessons row = sum_list (map (\<lambda>m. length (filter ul_completed (ud_lessons m))) (cu_modules cu))"
proof -
  define modules where "modules = sort_key (\<lambda>m. (m_position m, createdAt m)) (active_modules [cid] s)"
  define lessons where "lessons = sort_key (\<lambda>l. (l_position l, createdAt l)) (active_lessons (map pk modules) s)"
  define certIds where "certIds = map sp_certId (findPurchases u (Some (Some u)) s)"
  let ?done = "completed_ids u s" and ?mods = "active_modules certIds s" and ?lang = "resolveLocale lang"
  let ?row = "progress_row_of ?lang ?mods (active_lessons (map pk ?mods) s) ?done cert"
  have v: "p \<in> set (visible_purchases (Some (Some u)) s)"
    using assms(4-6) by (simp add: visible_purchases_def student_purchases_isolation_def)
  then have "find_rows (\<lambda>x. sp_userId x = u \<and> sp_certId x = cid) (visible_purchases (Some (Some u)) s) \<noteq> []"
    using assms(6,7) by (auto simp: find_rows_def filter_empty_conv)
  then have a: "assertPurchased u cid (Some (Some u)) s = Inr ()" by (simp add: assertPurchased_def)
  have c: "cert \<in> set (ln_certs s)" "pk cert = cid" using find_one_SomeD [OF assms(2)] by simp_all
  have cid: "cid \<in> set certIds" using v assms(6,7) by (auto simp: certIds_def findPurchases_def find_rows_def)
  then have "findPurchases u (Some (Some u)) s \<noteq> []" by (auto simp: certIds_def)
  with cid have row: "?row \<in> set (fst (getProgressSummary lang u (Some (Some u)) s))"
    using c by (auto simp: getProgressSummary_def Let_def find_rows_def simp flip: certIds_def)
  have "map pk (filter (\<lambda>m. m_certId m = pk cert) ?mods) = map pk (active_modules [cid] s)"
    by (simp add: active_modules_of [OF cid] c(2))
  moreover have "pk ` set (active_modules [cid] s) \<subseteq> pk ` set ?mods"
    using cid by (auto simp: active_modules_def find_rows_def)
  ultimately have n: "filter (\<lambda>l. l_moduleId l \<in> set (map pk (filter (\<lambda>m. m_certId m = pk cert) ?mods)))
      (active_lessons (map pk ?mods) s) =
    filter (\<lambda>l. l_moduleId l \<in> pk ` set (active_modules [cid] s) \<and> l_active l) (ln_lessons s)"
    by (auto simp: active_lessons_eq intro!: filter_cong)
  obtain cu where cu: "getCurriculum lang u cid (Some (Some u)) s = Inr cu"
    and m: "cu_modules cu = map (curriculum_module_of ?lang ?done lessons) modules"
    using assms(2,3) a by (simp add: getCurriculum_def Let_def modules_def lessons_def)
  have l: "length (filter ul_completed (map (curriculum_lesson_of ?lang ?done) ls)) = length (filter (\<lambda>l. pk l \<in> set ?done) ls)" for ls
    by (simp add: filter_map comp_def curriculum_lesson_of_def)
  have "pw_totalLessons ?row = sum_list (map (\<lambda>m. length (ud_lessons m)) (cu_modules cu))"
    using curriculum_count [OF assms(1) modules_def, where P = "\<lambda>_. True"]
    by (simp only: m n progress_row_of_def Let_def progress_row.simps map_map comp_def curriculum_module_of_def
        curriculum_module.simps length_map filter_True ball_triv simp_thms lessons_def modules_def)
  moreover have "pw_completedLessons ?row = sum_list (map (\<lambda>m. length (filter ul_completed (ud_lessons m))) (cu_modules cu))"
    using curriculum_count [OF assms(1) modules_def, where P = "\<lambda>l. pk l \<in> set ?done"]
    by (simp only: m n progress_row_of_def Let_def progress_row.simps map_map comp_def curriculum_module_of_def
        curriculum_module.simps l lessons_def modules_def)
  moreover have "pw_certId ?row = cid" by (simp add: progress_row_of_def Let_def c(2))
  ultimately show ?thesis using cu row by blast
qed

theorem curriculum_agrees_with_summary_witness:
  "\<exists>row. row \<in> set (fst (getProgressSummary None ''u'' (Some (Some ''u'')) sample_learning)) \<and> pw_certId row = ''c''"
proof -
  obtain cert where c: "find_one (\<lambda>c. pk c = ''c'') (ln_certs sample_learning) = Some cert" "c_active cert"
    by (simp add: sample_learning_def find_one_def Let_def)
  obtain p where p: "p \<in> set (ln_purchases sample_learning)" "sp_userId p = ''u''" "sp_certId p = ''c''"
    by (simp add: sample_learning_def Let_def)
  show ?thesis using curriculum_agrees_with_summary [OF sample_learning_inv c _ p, of None] by auto
qed

end
