(* ===== verification/Endpoints.thy ===== *)
theory Endpoints
  imports AccessControl CatalogFacts LearningProperties
begin

section \<open>Catalogue and learning endpoints with their guards\<close>

text \<open>
  The controllers of the catalogue and of the learning service: the metadata of each route, the pipe that
  parses ids, the guards in front, and the handler. \<open>ParseUUIDPipe\<close> of Nest is the argument \<open>isUuid\<close>, the
  language of the request's i18n context \<open>lang\<close>.
\<close>

subsection \<open>Guards in front of a handler\<close>

definition guarded ::
  "(string \<Rightarrow> jwt_claims option) \<Rightarrow> route \<Rightarrow> string option \<Rightarrow> (authenticated_user option \<Rightarrow> ('s, 'a) op) \<Rightarrow> ('s, 'a) op" where
  "guarded verify r bearer handler s = (case jwt_guard verify r bearer of
      Inl e \<Rightarrow> (throw e, s)
    | Inr user \<Rightarrow> (case roles_guard r user of Inl e \<Rightarrow> (throw e, s) | Inr _ \<Rightarrow> handler user s))"

text \<open>\<open>@Param('id', new ParseUUIDPipe())\<close>\<close>

definition parse_uuid :: "(string \<Rightarrow> bool) \<Rightarrow> string \<Rightarrow> ('s, 'a) op \<Rightarrow> ('s, 'a) op" where
  "parse_uuid isUuid i handler s =
     (if isUuid i then handler s else (throw (BadRequestException ''Validation failed (uuid is expected)''), s))"

definition read_only :: "('s \<Rightarrow> 'a result) \<Rightarrow> ('s, 'a) op" where
  "read_only f s = (f s, s)"

definition public_route :: route where
  "public_route = \<lparr>ro_public = (Some True, None), ro_roles = (None, None)\<rparr>"

definition student_route :: route where
  "student_route = \<lparr>ro_public = (None, None), ro_roles = (None, None)\<rparr>"

definition staff_route :: "string list \<Rightarrow> route" where
  "staff_route roles = \<lparr>ro_public = (None, None), ro_roles = (Some roles, None)\<rparr>"

subsection \<open>catalog.controller.ts\<close>

datatype catalog_body =
    ListBody catalog_list_response
  | DetailBody catalog_detail
  | DeletedBody uuid bool

datatype catalog_request = PublicList catalog_query | PublicGet uuid

fun catalog_handle ::
  "catalog_library \<Rightarrow> (string \<Rightarrow> bool) \<Rightarrow> string option \<Rightarrow> catalog_request \<Rightarrow> (catalog_state, catalog_body) op" where
  "catalog_handle K isUuid lang (PublicList q) =
     read_only (\<lambda>s. case catalog_list K lang q False s of Inl e \<Rightarrow> throw e | Inr r \<Rightarrow> ok (ListBody r))"
| "catalog_handle K isUuid lang (PublicGet i) = parse_uuid isUuid i
     (read_only (\<lambda>s. case catalog_getById lang i False s of Inl e \<Rightarrow> throw e | Inr (d, _) \<Rightarrow> ok (DetailBody d)))"

definition catalog_api ::
  "catalog_library \<Rightarrow> (string \<Rightarrow> bool) \<Rightarrow> (string \<Rightarrow> jwt_claims option) \<Rightarrow> string option \<Rightarrow> string option \<Rightarrow> catalog_request \<Rightarrow>
    (catalog_state, catalog_body) op" where
  "catalog_api K isUuid verify lang bearer req = guarded verify public_route bearer (\<lambda>_. catalog_handle K isUuid lang req)"

subsection \<open>catalog-admin.controller.ts\<close>

datatype catalog_admin_request =
    AdminList catalog_query
  | AdminGet uuid
  | AdminCreate create_certificate_dto
  | AdminUpdate uuid update_certificate_dto
  | AdminUpdateTranslations uuid "(string \<times> locale_block) list"
  | AdminDelete uuid

fun catalog_admin_roles :: "catalog_admin_request \<Rightarrow> string list" where
  "catalog_admin_roles (AdminDelete i) = [role_text LEARNING_ADMIN]"
| "catalog_admin_roles _ = [role_text CONTENT_CREATOR, role_text LEARNING_ADMIN]"

definition detail_op :: "(catalog_state, catalog_detail) op \<Rightarrow> (catalog_state, catalog_body) op" where
  "detail_op m = bind_op m (\<lambda>d. return_op (DetailBody d))"

fun catalog_admin_handle ::
  "catalog_library \<Rightarrow> (string \<Rightarrow> bool) \<Rightarrow> string option \<Rightarrow> int \<Rightarrow> uuid \<Rightarrow> catalog_admin_request \<Rightarrow> (catalog_state, catalog_body) op" where
  "catalog_admin_handle K isUuid lang us newKey (AdminList q) =
     read_only (\<lambda>s. case catalog_list K lang q True s of Inl e \<Rightarrow> throw e | Inr r \<Rightarrow> ok (ListBody r))"
| "catalog_admin_handle K isUuid lang us newKey (AdminGet i) = parse_uuid isUuid i
     (read_only (\<lambda>s. case catalog_getById lang i True s of Inl e \<Rightarrow> throw e | Inr (d, _) \<Rightarrow> ok (DetailBody d)))"
| "catalog_admin_handle K isUuid lang us newKey (AdminCreate d) = detail_op (catalog_create lang us newKey d)"
| "catalog_admin_handle K isUuid lang us newKey (AdminUpdate i d) =
     parse_uuid isUuid i (detail_op (catalog_update lang (us div 1000) i d))"
| "catalog_admin_handle K isUuid lang us newKey (AdminUpdateTranslations i es) =
     parse_uuid isUuid i (detail_op (catalog_updateTranslations lang (us div 1000) i es))"
| "catalog_admin_handle K isUuid lang us newKey (AdminDelete i) =
     parse_uuid isUuid i (bind_op (catalog_softDelete (us div 1000) i) (\<lambda>(i, a). return_op (DeletedBody i a)))"

definition catalog_admin_api ::
  "catalog_library \<Rightarrow> (string \<Rightarrow> bool) \<Rightarrow> (string \<Rightarrow> jwt_claims option) \<Rightarrow> string option \<Rightarrow> int \<Rightarrow> uuid \<Rightarrow> string option \<Rightarrow>
    catalog_admin_request \<Rightarrow> (catalog_state, catalog_body) op" where
  "catalog_admin_api K isUuid verify lang us newKey bearer req =
     guarded verify (staff_route (catalog_admin_roles req)) bearer (\<lambda>_. catalog_admin_handle K isUuid lang us newKey req)"

subsection \<open>learning-admin.controller.ts\<close>

datatype learning_admin_request =
    CreateModule create_module_dto
  | UpdateModule uuid update_module_dto
  | DeleteModule uuid
  | CreateLesson create_lesson_dto
  | UpdateLesson uuid update_lesson_dto
  | DeleteLesson uuid

datatype learning_admin_body = ModuleBody learning_module | LessonBody lesson | RemovedBody uuid bool

fun learning_admin_roles :: "learning_admin_request \<Rightarrow> string list" where
  "learning_admin_roles (DeleteModule i) = [role_text LEARNING_ADMIN]"
| "learning_admin_roles (DeleteLesson i) = [role_text LEARNING_ADMIN]"
| "learning_admin_roles _ = [role_text CONTENT_CREATOR, role_text LEARNING_ADMIN]"

fun learning_admin_handle ::
  "(string \<Rightarrow> bool) \<Rightarrow> instant \<Rightarrow> uuid \<Rightarrow> learning_admin_request \<Rightarrow> (learning_state, learning_admin_body) op" where
  "learning_admin_handle isUuid t newKey (CreateModule d) = bind_op (createModule t newKey d) (\<lambda>m. return_op (ModuleBody m))"
| "learning_admin_handle isUuid t newKey (UpdateModule i d) =
     parse_uuid isUuid i (bind_op (updateModule t i d) (\<lambda>m. return_op (ModuleBody m)))"
| "learning_admin_handle isUuid t newKey (DeleteModule i) =
     parse_uuid isUuid i (bind_op (softDeleteModule t i) (\<lambda>(i, a). return_op (RemovedBody i a)))"
| "learning_admin_handle isUuid t newKey (CreateLesson d) = bind_op (createLesson t newKey d) (\<lambda>l. return_op (LessonBody l))"
| "learning_admin_handle isUuid t newKey (UpdateLesson i d) =
     parse_uuid isUuid i (bind_op (updateLesson t i d) (\<lambda>l. return_op (LessonBody l)))"
| "learning_admin_handle isUuid t newKey (DeleteLesson i) =
     parse_uuid isUuid i (bind_op (softDeleteLesson t i) (\<lambda>(i, a). return_op (RemovedBody i a)))"

definition learning_admin_api ::
  "(string \<Rightarrow> bool) \<Rightarrow> (string \<Rightarrow> jwt_claims option) \<Rightarrow> instant \<Rightarrow> uuid \<Rightarrow> string option \<Rightarrow> learning_admin_request \<Rightarrow>
    (learning_state, learning_admin_body) op" where
  "learning_admin_api isUuid verify t newKey bearer req =
     guarded verify (staff_route (learning_admin_roles req)) bearer (\<lambda>_. learning_admin_handle isUuid t newKey req)"

subsection \<open>learning.controller.ts\<close>

datatype learning_request = GetCurriculum uuid | GetLesson uuid | CompleteLesson uuid | GetProgress

datatype learning_body =
    CurriculumBody curriculum
  | ServedBody served_lesson
  | CompletionBody completion
  | ProgressBody "progress_row list" string

definition for_student :: "authenticated_user option \<Rightarrow> (uuid \<Rightarrow> ('s, 'a) op) \<Rightarrow> ('s, 'a) op" where
  "for_student user handler s = (case requireStudent user of Inl e \<Rightarrow> (throw e, s) | Inr i \<Rightarrow> handler i s)"

fun learning_handle ::
  "storage_config \<Rightarrow> 'x s3_client \<Rightarrow> (string \<Rightarrow> bool) \<Rightarrow> string option \<Rightarrow> instant \<Rightarrow> uuid \<Rightarrow> authenticated_user option \<Rightarrow>
    learning_request \<Rightarrow> (learning_state, learning_body) op" where
  "learning_handle cfg S isUuid lang t newKey user (GetCurriculum c) = parse_uuid isUuid c (for_student user (\<lambda>u.
     read_only (\<lambda>s. case getCurriculum lang u c (rls_runner user) s of Inl e \<Rightarrow> throw e | Inr r \<Rightarrow> ok (CurriculumBody r))))"
| "learning_handle cfg S isUuid lang t newKey user (GetLesson l) = parse_uuid isUuid l (for_student user (\<lambda>u.
     read_only (\<lambda>s. case serveLesson cfg S lang u l (rls_runner user) s of Inl e \<Rightarrow> throw e | Inr r \<Rightarrow> ok (ServedBody r))))"
| "learning_handle cfg S isUuid lang t newKey user (CompleteLesson l) = parse_uuid isUuid l (for_student user (\<lambda>u.
     bind_op (markComplete t newKey u l (rls_runner user)) (\<lambda>c. return_op (CompletionBody c))))"
| "learning_handle cfg S isUuid lang t newKey user GetProgress = for_student user (\<lambda>u.
     read_only (\<lambda>s. case getProgressSummary lang u (rls_runner user) s of (rows, l) \<Rightarrow> ok (ProgressBody rows l)))"

definition learning_api ::
  "storage_config \<Rightarrow> 'x s3_client \<Rightarrow> (string \<Rightarrow> bool) \<Rightarrow> (string \<Rightarrow> jwt_claims option) \<Rightarrow> string option \<Rightarrow> instant \<Rightarrow> uuid \<Rightarrow>
    string option \<Rightarrow> learning_request \<Rightarrow> (learning_state, learning_body) op" where
  "learning_api cfg S isUuid verify lang t newKey bearer req =
     guarded verify student_route bearer (\<lambda>user. learning_handle cfg S isUuid lang t newKey user req)"

end
