(* ===== verification/EndpointProperties.thy ===== *)
theory EndpointProperties
  imports Endpoints
begin

section \<open>Properties of the guarded endpoints\<close>

text \<open>
  Staff routes need a staff token of a listed role, students read and write their own progress behind
  the purchase gate, and the transaction of a request is committed exactly for a handler that succeeded.
\<close>

subsection \<open>Staff routes\<close>

definition staff_token :: "(string \<Rightarrow> jwt_claims option) \<Rightarrow> string option \<Rightarrow> string list \<Rightarrow> bool" where
  "staff_token verify bearer roles \<longleftrightarrow> (\<exists>token claims role. bearer = Some token \<and> verify token = Some claims \<and>
     jc_type claims = Some ''admin'' \<and> jc_role claims = Some role \<and> (role = ''super_admin'' \<or> role \<in> set roles))"

lemma guarded_staff:
  assumes "roles \<noteq> []" and "\<not> staff_token verify bearer roles"
  shows "\<exists>e. guarded verify (staff_route roles) bearer h s = (Inl e, s)"
proof (cases "jwt_guard verify (staff_route roles) bearer")
  case (Inr user)
  have "\<exists>e. roles_guard (staff_route roles) user = Inl e"
  proof (rule ccontr)
    assume "\<nexists>e. roles_guard (staff_route roles) user = Inl e"
    then obtain x where "roles_guard (staff_route roles) user = Inr x" by (meson sumE)
    from roles_guard_ok [OF this _ assms(1)] obtain u role where u: "user = Some u" "us_role u = Some role"
      "role = ''super_admin'' \<or> role \<in> set roles"
      by (auto simp: staff_route_def getAllAndOverride_def)
    from jwt_guard_ok [OF Inr] u(1) obtain token claims where
      "bearer = Some token" "verify token = Some claims" "jwt_validate claims = Inr u" by auto
    with u assms(2) jwt_validate_ok [of claims u] show False
      by (auto simp: staff_token_def jwt_validate_def split: if_splits)
  qed
  then show ?thesis by (auto simp: guarded_def Inr)
qed (simp add: guarded_def)

lemma guarded_staff_or:
  "roles \<noteq> [] \<Longrightarrow> staff_token verify bearer roles \<or> (\<exists>e. guarded verify (staff_route roles) bearer h s = (Inl e, s))"
  using guarded_staff [of roles verify bearer h s] by blast

text \<open>C21: Every staff request of the catalogue and of the learning service is refused and changes nothing unless it
  carries a verified token of an administrator with one of the roles for it: learning admin or super admin for
  deleting a certificate, a module or a lesson, and beside them content creator for every other request. Roles
  match exactly, so that a finance admin passes none of them.\<close>

theorem staff_routes_need_roles:
  "(staff_token verify bearer
       (case creq of AdminDelete _ \<Rightarrow> [''learning_admin''] | _ \<Rightarrow> [''content_creator'', ''learning_admin'']) \<or>
     (\<exists>e. catalog_admin_api K isUuid verify lang us newKey bearer creq cs = (Inl e, cs))) \<and>
   (staff_token verify bearer
       (case lreq of DeleteModule _ \<Rightarrow> [''learning_admin''] | DeleteLesson _ \<Rightarrow> [''learning_admin'']
        | _ \<Rightarrow> [''content_creator'', ''learning_admin'']) \<or>
     (\<exists>e. learning_admin_api isUuid verify t newKey bearer lreq ls = (Inl e, ls)))"
proof -
  have c: "(case creq of AdminDelete _ \<Rightarrow> [''learning_admin''] | _ \<Rightarrow> [''content_creator'', ''learning_admin'']) =
      catalog_admin_roles creq" "catalog_admin_roles creq \<noteq> []"
    by (cases creq; simp add: role_text_def)+
  have l: "(case lreq of DeleteModule _ \<Rightarrow> [''learning_admin''] | DeleteLesson _ \<Rightarrow> [''learning_admin'']
      | _ \<Rightarrow> [''content_creator'', ''learning_admin'']) = learning_admin_roles lreq" "learning_admin_roles lreq \<noteq> []"
    by (cases lreq; simp add: role_text_def)+
  show ?thesis
    unfolding c(1) l(1) catalog_admin_api_def learning_admin_api_def
    by (intro conjI; rule guarded_staff_or) (rule c(2) l(2))+
qed

subsection \<open>Student routes\<close>

lemma learning_api_okD:
  assumes "learning_api cfg S isUuid verify lang t n bearer req s = (Inr b, s')"
  shows "\<exists>token claims u user. bearer = Some token \<and> verify token = Some claims \<and> jc_sub claims = Some u \<and> u \<noteq> '''' \<and>
    jc_type claims \<noteq> Some ''admin'' \<and> requireStudent user = Inr u \<and> rls_runner user = Some (Some u) \<and>
    learning_handle cfg S isUuid lang t n user req s = (Inr b, s')"
proof -
  obtain user where g: "jwt_guard verify student_route bearer = Inr user"
    and h: "learning_handle cfg S isUuid lang t n user req s = (Inr b, s')"
    using assms by (auto simp: learning_api_def guarded_def split: sum.splits)
  then obtain u where u: "requireStudent user = Inr u"
    by (cases req) (auto simp: parse_uuid_def for_student_def split: if_splits sum.splits)
  from jwt_guard_ok [OF g] requireStudent_ok [OF u] obtain token claims au where
    c: "bearer = Some token" "verify token = Some claims" "jwt_validate claims = Inr au" "user = Some au"
    by (auto simp: student_route_def getAllAndOverride_def)
  with requireStudent_ok [OF u] jwt_validate_ok [OF c(3)] have "jc_sub claims = Some u" "u \<noteq> ''''"
    "jc_type claims \<noteq> Some ''admin''"
    by (auto simp: jwt_validate_def split: if_splits)
  with c(1,2) u h rls_runner_student [OF u] show ?thesis by blast
qed

lemma open_lesson_purchased:
  assumes "open_lesson u lid (Some (Some u)) s = Inr l"
  shows "\<exists>m p. find_module (l_moduleId l) s = Some m \<and> p \<in> set (ln_purchases s) \<and> sp_userId p = u \<and> sp_certId p = m_certId m \<and>
    find_lesson lid s = Some l"
  using assms
  by (auto simp: open_lesson_def assertPurchased_def visible_purchases_def find_rows_def filter_empty_conv
      split: option.splits if_splits sum.splits)

lemma markComplete_writes:
  assumes "markComplete t n u lid r s = (Inr c, s')"
  shows "\<exists>new. s' = s\<lparr>ln_progress := ln_progress s @ new\<rparr> \<and> (\<forall>p \<in> set new. pr_userId p = u \<and> pr_lessonId p = lid) \<and>
    (\<exists>l. open_lesson u lid r s = Inr l)"
proof -
  obtain l f where op: "open_lesson u lid r s = Inr l" and f: "mark_lookup u lid r s = Inr f"
    using assms by (auto simp: markComplete_def mark_lookup_def split: sum.splits)
  show ?thesis
  proof (cases f)
    case None
    let ?row = "\<lparr>pk = n, createdAt = t, updatedAt = t, pr_userId = u, pr_lessonId = lid, pr_completedAt = t\<rparr>"
    have "insert_progress ?row s = Inr s'"
      using assms f None by (auto simp: markComplete_def mark_save_def split: sum.splits)
    from insert_progress_ok [OF this] op show ?thesis by (intro exI [of _ "[?row]"]) simp
  next
    case (Some p)
    then show ?thesis using assms f op by (intro exI [of _ "[]"]) (simp add: markComplete_def)
  qed
qed

text \<open>C25: What one student can do. A learning request that succeeds carries a verified token of a student; a lesson is served
  or completed only when that student has bought the certificate of its module, whatever others have bought;
  and all it can write are completions of the student's own, everything else stays.\<close>

theorem student_requests_stay_own:
  assumes "learning_api cfg S isUuid verify lang t n bearer req s = (Inr b, s')"
  shows "\<exists>token claims u new. bearer = Some token \<and> verify token = Some claims \<and> jc_sub claims = Some u \<and>
    jc_type claims \<noteq> Some ''admin'' \<and> s' = s\<lparr>ln_progress := ln_progress s @ new\<rparr> \<and> (\<forall>p \<in> set new. pr_userId p = u) \<and>
    (\<forall>lid. req \<in> {GetLesson lid, CompleteLesson lid} \<longrightarrow> (\<exists>l m p. find_lesson lid s = Some l \<and>
      find_module (l_moduleId l) s = Some m \<and> p \<in> set (ln_purchases s) \<and> sp_userId p = u \<and> sp_certId p = m_certId m))"
proof -
  obtain token claims u user where a: "bearer = Some token" "verify token = Some claims" "jc_sub claims = Some u"
    "jc_type claims \<noteq> Some ''admin''" and user: "requireStudent user = Inr u" "rls_runner user = Some (Some u)"
    and h: "learning_handle cfg S isUuid lang t n user req s = (Inr b, s')"
    using learning_api_okD [OF assms] by blast
  have "\<exists>new. s' = s\<lparr>ln_progress := ln_progress s @ new\<rparr> \<and> (\<forall>p \<in> set new. pr_userId p = u) \<and>
    (\<forall>lid. req \<in> {GetLesson lid, CompleteLesson lid} \<longrightarrow> (\<exists>l. open_lesson u lid (Some (Some u)) s = Inr l))"
  proof (cases req)
    case (CompleteLesson lid)
    then obtain c where "markComplete t n u lid (Some (Some u)) s = (Inr c, s')"
      using h user by (auto simp: parse_uuid_def for_student_def bind_op_eq_ok_iff split: if_splits)
    from markComplete_writes [OF this] CompleteLesson show ?thesis by fastforce
  next
    case (GetLesson lid)
    then have "s' = s" "\<exists>l. open_lesson u lid (Some (Some u)) s = Inr l"
      using h user by (auto simp: parse_uuid_def for_student_def read_only_def serveLesson_def split: if_splits sum.splits)
    with GetLesson show ?thesis by (intro exI [of _ "[]"]) simp
  qed (use h user in \<open>auto simp: parse_uuid_def for_student_def read_only_def intro!: exI [of _ "[]"] split: if_splits prod.splits\<close>)
  then obtain new where new: "s' = s\<lparr>ln_progress := ln_progress s @ new\<rparr>" "\<forall>p \<in> set new. pr_userId p = u"
    and o1: "\<And>lid. req \<in> {GetLesson lid, CompleteLesson lid} \<Longrightarrow> \<exists>l. open_lesson u lid (Some (Some u)) s = Inr l" by blast
  have "\<exists>l m p. find_lesson lid s = Some l \<and> find_module (l_moduleId l) s = Some m \<and> p \<in> set (ln_purchases s) \<and>
      sp_userId p = u \<and> sp_certId p = m_certId m" if "req \<in> {GetLesson lid, CompleteLesson lid}" for lid
    using o1 [OF that] open_lesson_purchased [of u lid s] by blast
  with a new show ?thesis by (intro exI [of _ token] exI [of _ claims] exI [of _ u] exI [of _ new]) blast
qed

definition student_claims :: "uuid \<Rightarrow> jwt_claims" where
  "student_claims u = \<lparr>jc_sub = Some u, jc_type = Some ''student'', jc_email = None, jc_locale = None, jc_role = None,
     jc_jti = None\<rparr>"

definition idle_store :: "unit s3_client" where
  "idle_store = \<lparr>s3_send = (\<lambda>_ x. (Inr None, x)), s3_presign = (\<lambda>_ _. Inr '''')\<rparr>"

definition blank_storage :: storage_config where
  "blank_storage = \<lparr>so_endpoint = '''', so_publicBaseUrl = '''', so_buckets = (\<lambda>_. ''''), so_keyPrefix = ''''\<rparr>"

theorem student_requests_stay_own_witness:
  "\<exists>b s' p. learning_api blank_storage idle_store (\<lambda>_. True) (\<lambda>token. Some (student_claims token)) None 5 ''r'' (Some ''u'')
     (CompleteLesson ''l'') sample_learning = (Inr b, s') \<and>
     p \<in> set (ln_purchases sample_learning) \<and> sp_userId p = ''u''"
proof -
  define res where "res = learning_api blank_storage idle_store (\<lambda>_. True) (\<lambda>token. Some (student_claims token)) None 5 ''r''
    (Some ''u'') (CompleteLesson ''l'') sample_learning"
  have "\<exists>b. fst res = Inr b"
    by (simp add: res_def learning_api_def guarded_def jwt_guard_def student_route_def getAllAndOverride_def student_claims_def
        jwt_validate_def falsy_def roles_guard_def parse_uuid_def for_student_def requireStudent_def rls_runner_def bind_op_def
        markComplete_def mark_lookup_def mark_save_def insert_progress_def insert_row_def
        open_lesson_def sample_learning_def find_lesson_def find_module_def assertPurchased_def find_progress_def
        visible_purchases_def student_purchases_isolation_def find_rows_def find_one_def Let_def)
  then obtain b where b: "learning_api blank_storage idle_store (\<lambda>_. True) (\<lambda>token. Some (student_claims token)) None 5 ''r''
    (Some ''u'') (CompleteLesson ''l'') sample_learning = (Inr b, snd res)" by (metis res_def prod.collapse)
  from student_requests_stay_own [OF b] b show ?thesis by (fastforce simp: student_claims_def)
qed


subsection \<open>The transaction of a request\<close>

lemma run_calls_ok: "fst (run_calls fails cs) = None \<longleftrightarrow> (\<forall>c \<in> set cs. fails c = None)"
  by (induction cs) (auto split: option.split prod.split)

lemma run_calls_all: "fst (run_calls fails cs) = None \<Longrightarrow> snd (run_calls fails cs) = cs"
  by (induction cs) (auto split: option.splits prod.splits)

lemma run_calls_subset: "set (snd (run_calls fails cs)) \<subseteq> set cs"
  by (induction cs) (auto split: option.split prod.split)

lemma rls_settings_only: "c \<in> set (rls_settings u ip) \<Longrightarrow> \<exists>k v. c = SetConfig k v"
  by (auto simp: rls_settings_def split: option.splits if_splits)

lemma rls_try_calls:
  assumes "rls_try fails u ip handled = (r, calls)"
  shows "Release \<notin> set calls \<and> Rollback \<notin> set calls \<and>
    ((\<exists>v. r = Inr v) \<longleftrightarrow>
      (\<exists>v. handled = Inr v) \<and> (\<forall>c \<in> set (rls_settings u ip). fails c = None) \<and> fails Commit = None) \<and>
    ((\<exists>v. r = Inr v) \<longrightarrow> r = handled \<and> calls = rls_settings u ip @ [Handle, Commit])"
proof -
  obtain x cs where run: "run_calls fails (rls_settings u ip) = (x, cs)" by (cases "run_calls fails (rls_settings u ip)")
  have "set cs \<subseteq> set (rls_settings u ip)" using run_calls_subset [of fails "rls_settings u ip"] by (simp add: run)
  then have n: "Release \<notin> set cs" "Rollback \<notin> set cs" using rls_settings_only by fastforce+
  have ok: "x = None \<longleftrightarrow> (\<forall>c \<in> set (rls_settings u ip). fails c = None)"
    using run_calls_ok [of fails "rls_settings u ip"] by (simp add: run)
  have all: "x = None \<Longrightarrow> cs = rls_settings u ip" using run_calls_all [of fails "rls_settings u ip"] by (simp add: run)
  show ?thesis
  proof (cases x)
    case None
    then show ?thesis
      using assms n ok all by (cases handled; cases "fails Commit") (auto simp: rls_try_def run)
  next
    case (Some e)
    then show ?thesis using assms n ok by (auto simp: rls_try_def run)
  qed
qed

text \<open>The transaction of an authenticated request. Once a connection is there and the transaction has begun, the
  runner is released exactly once and as the last call, whatever fails; the handler's result is delivered
  exactly when the session variables were set before it, it succeeded and the commit did, and in every
  other case there is a rollback. When \<open>startTransaction\<close> fails, the connected runner is never released.\<close>

theorem rls_runner_lifecycle:
  assumes "runWithRlsContext fails u ip handled = (r, calls)" and "fails Release = None" and "fails Connect = None"
  shows "if fails StartTransaction = None
    then count_list calls Release = 1 \<and> last calls = Release \<and> (Rollback \<in> set calls \<longleftrightarrow> \<not> (\<exists>v. r = Inr v)) \<and>
      ((\<exists>v. r = Inr v) \<longleftrightarrow>
        (\<exists>v. handled = Inr v) \<and> (\<forall>c \<in> set (rls_settings u ip). fails c = None) \<and> fails Commit = None) \<and>
      (r \<noteq> handled \<or> calls = [Connect, StartTransaction] @ rls_settings u ip @ [Handle, Commit, Release] \<or> \<not> (\<exists>v. r = Inr v))
    else calls = [Connect, StartTransaction] \<and> \<not> (\<exists>v. r = Inr v)"
proof (cases "fails StartTransaction")
  case None
  obtain r1 tried where t: "rls_try fails u ip handled = (r1, tried)" by (cases "rls_try fails u ip handled")
  note f = rls_try_calls [OF t]
  then have "count_list tried Release = 0" by (simp add: count_list_0_iff)
  with f None assms t show ?thesis
    by (cases r1; cases "fails Rollback") (auto simp: runWithRlsContext_def)
qed (use assms in \<open>auto simp: runWithRlsContext_def\<close>)

theorem rls_runner_lifecycle_witness:
  "runWithRlsContext (\<lambda>_. None) \<lparr>us_id = Some ''u'', us_adminId = None, us_type = Some ''student'', us_role = None,
      us_email = None, us_locale = None\<rparr> ''::1'' (Inr ''done'') =
    (Inr ''done'', [Connect, StartTransaction, SetConfig ''app.current_user_id'' ''u'', SetConfig ''app.current_ip'' ''::1'',
      Handle, Commit, Release])"
proof -
  let ?u = "\<lparr>us_id = Some ''u'', us_adminId = None, us_type = Some ''student'', us_role = None, us_email = None, us_locale = None\<rparr>"
  obtain r calls where rc: "runWithRlsContext (\<lambda>_. None) ?u ''::1'' (Inr ''done'') = (r, calls)"
    by (cases "runWithRlsContext (\<lambda>_. None) ?u ''::1'' (Inr ''done'')")
  have "r = Inr ''done''" using rc by (simp add: runWithRlsContext_def rls_try_def rls_settings_def)
  with rls_runner_lifecycle [OF rc] show ?thesis unfolding rc by (simp add: rls_settings_def)
qed

end
