(* ===== verification/StorageProperties.thy ===== *)
theory StorageProperties
  imports Storage
begin

section \<open>Properties of object storage\<close>

text \<open>
  Keys are canonical however they are assembled, an upload can be found and deleted through the same
  service while keys of other environments stay apart, and what rewriting a signed URL does to its
  origin. Facts about stripping slashes, joining segments and parsing URLs come first.
\<close>

subsection \<open>Slashes and segments\<close>

lemma normalizeKey_idem [simp]: "normalizeKey (normalizeKey k) = normalizeKey k"
  by (simp add: normalizeKey_def dropWhile_idem)

lemma strip_end_append: "t \<noteq> '''' \<Longrightarrow> last t \<noteq> slash \<Longrightarrow> strip_end (s @ t) = s @ t"
  by (cases t rule: rev_cases) (simp_all add: strip_end_def)

lemma clean_iff: "trim_slashes s = s \<longleftrightarrow> s = '''' \<or> hd s \<noteq> slash \<and> last s \<noteq> slash"
proof (cases s)
  case (Cons a t)
  show ?thesis
  proof (cases "a = slash")
    case True
    have "length (trim_slashes s) < length s"
      using length_dropWhile_le [of "\<lambda>c. c = slash" t]
        length_dropWhile_le [of "\<lambda>c. c = slash" "rev (dropWhile (\<lambda>c. c = slash) t)"] True
      by (simp add: trim_slashes_def strip_end_def normalizeKey_def Cons)
    then show ?thesis using True Cons by auto
  next
    case False
    then have "trim_slashes s = strip_end s" by (simp add: trim_slashes_def normalizeKey_def Cons)
    moreover obtain u b where u: "s = u @ [b]" using Cons by (metis append_butlast_last_id list.distinct(1))
    moreover have "strip_end (u @ [slash]) \<noteq> u @ [slash]"
      using length_dropWhile_le [of "\<lambda>c. c = slash" "rev u"] by (auto simp: strip_end_def dest: arg_cong [of _ _ length])
    moreover have "b \<noteq> slash \<Longrightarrow> strip_end (u @ [b]) = u @ [b]" by (simp add: strip_end_append)
    ultimately show ?thesis using False Cons by (metis last_snoc list.sel(1) neq_Nil_conv)
  qed
qed (simp add: trim_slashes_def strip_end_def normalizeKey_def)

lemma trim_slashes_idem [simp]: "trim_slashes (trim_slashes s) = trim_slashes s"
proof -
  let ?n = "normalizeKey s"
  have n: "?n = '''' \<or> hd ?n \<noteq> slash" using hd_dropWhile [of "\<lambda>c. c = slash" s] by (auto simp: normalizeKey_def)
  obtain z where z: "?n = strip_end ?n @ z"
    using takeWhile_dropWhile_id [of "\<lambda>c. c = slash" "rev ?n"] by (metis strip_end_def rev_append rev_rev_ident)
  have "strip_end ?n = '''' \<or> last (strip_end ?n) \<noteq> slash"
    using hd_dropWhile [of "\<lambda>c. c = slash" "rev ?n"] by (auto simp: strip_end_def last_rev)
  moreover have "strip_end ?n = '''' \<or> hd (strip_end ?n) \<noteq> slash" using n z by (metis append_is_Nil_conv hd_append2)
  ultimately show ?thesis using clean_iff [of "trim_slashes s"] by (auto simp: trim_slashes_def)
qed

definition segments :: "string list \<Rightarrow> string list" where
  "segments parts = filter (\<lambda>p. p \<noteq> '''') (map trim_slashes parts)"

definition clean_segments :: "string list \<Rightarrow> bool" where
  "clean_segments ws \<longleftrightarrow> (\<forall>w \<in> set ws. w \<noteq> '''' \<and> trim_slashes w = w)"

lemma segments_clean: "clean_segments (segments parts)"
  by (auto simp: clean_segments_def segments_def)

lemma buildKey_segments: "parts \<noteq> [] \<Longrightarrow> buildKey parts = Inr (join_with [slash] (segments parts))"
  by (simp add: buildKey_def segments_def)

lemma join_ends:
  assumes "clean_segments ws" "ws \<noteq> []"
  shows "join_with [slash] ws \<noteq> '''' \<and> hd (join_with [slash] ws) \<noteq> slash \<and> last (join_with [slash] ws) \<noteq> slash"
  using assms
proof (induction ws)
  case (Cons w ws)
  have w: "w \<noteq> ''''" "hd w \<noteq> slash" "last w \<noteq> slash" and ws: "clean_segments ws"
    using Cons.prems(1) by (auto simp: clean_segments_def clean_iff)
  then show ?case using Cons.IH by (cases ws) auto
qed simp

lemma join_clean: "clean_segments ws \<Longrightarrow> trim_slashes (join_with [slash] ws) = join_with [slash] ws"
  using join_ends [of ws] by (cases "ws = []") (auto simp: clean_iff)

lemma join_append: "us \<noteq> [] \<Longrightarrow> vs \<noteq> [] \<Longrightarrow> join_with sep (us @ vs) = join_with sep us @ sep @ join_with sep vs"
proof (induction us)
  case (Cons u us)
  then show ?case by (cases us; cases vs) auto
qed simp

subsection \<open>Numbers and URLs as text\<close>

lemma digit_char: "n < 10 \<Longrightarrow> is_digit (char_of (n + 48)) \<and> code_of (char_of (n + 48) :: char) = n + 48"
  by (simp add: is_digit_def)

lemma nat_text_digits: "list_all is_digit (nat_text n) \<and> nat_text n \<noteq> [] \<and>
  foldl (\<lambda>n c. 10 * n + (code_of c - 48)) 0 (nat_text n) = n"
proof (induction n rule: nat_text.induct)
  case (1 n)
  show ?case
  proof (cases "n < 10")
    case True
    then show ?thesis using digit_char [OF True] by (subst (1 2 3) nat_text.simps) (simp add: of_char_of)
  next
    case False
    have "n mod 10 < 10" by simp
    note d = digit_char [OF this]
    with 1 [OF False] False show ?thesis by (subst (1 2 3) nat_text.simps) (simp add: of_char_of)
  qed
qed

lemma digits_value_text: "digits_value (nat_text n) = Some n"
  using nat_text_digits [of n] by (simp add: digits_value_def)

lemma digit_no_delimiter: "is_digit c \<Longrightarrow> c \<noteq> CHR '':'' \<and> \<not> ends_authority c"
  by (auto simp: is_digit_def ends_authority_def slash_def)

lemma split_on_none: "c \<notin> set s \<Longrightarrow> split_on c s = [s]"
  by (induction s) auto

lemma split_on_one: "c \<notin> set s \<Longrightarrow> split_on c (s @ c # t) = s # split_on c t"
  by (induction s) auto

lemma split_on_parts: "w \<in> set (split_on c s) \<Longrightarrow> c \<notin> set w \<and> set w \<subseteq> set s"
proof (induction s arbitrary: w)
  case (Cons x s)
  obtain a ws where s: "split_on c s = a # ws" by (cases "split_on c s") auto
  have "\<forall>w \<in> set (a # ws). c \<notin> set w \<and> set w \<subseteq> set s" using Cons.IH by (simp add: s)
  with Cons.prems show ?case by (auto simp: s split: if_splits)
qed simp

lemma nat_text_no_colon: "CHR '':'' \<notin> set (nat_text n)"
  using nat_text_digits [of n] digit_no_delimiter by (auto simp: list_all_iff)

definition normal_url :: "url \<Rightarrow> bool" where
  "normal_url u \<longleftrightarrow> url_scheme u \<in> {''http'', ''https''} \<and> url_hostname u \<noteq> '''' \<and>
     (\<forall>c \<in> set (url_hostname u). c \<noteq> CHR '':'' \<and> \<not> ends_authority c) \<and>
     (case url_port u of None \<Rightarrow> True | Some n \<Rightarrow> n \<le> 65535 \<and> n \<noteq> default_port (url_scheme u)) \<and>
     prefix [slash] (url_tail u)"

lemma parse_authority_href:
  assumes "normal_url u"
  shows "parse_authority (url_scheme u) (url_hostname u @ port_text (url_port u) @ url_tail u) = Some u"
proof -
  let ?a = "url_hostname u @ port_text (url_port u)"
  obtain t where t: "url_tail u = slash # t" using assms by (auto simp: normal_url_def prefix_def)
  have p: "\<forall>c \<in> set (port_text (url_port u)). \<not> ends_authority c"
    using nat_text_digits digit_no_delimiter
    by (auto simp: port_text_def list_all_iff ends_authority_def slash_def split: option.split)
  with assms have a: "\<forall>c \<in> set ?a. \<not> ends_authority c" by (auto simp: normal_url_def)
  have "takeWhile (\<lambda>c. \<not> ends_authority c) (?a @ url_tail u) = ?a"
    "dropWhile (\<lambda>c. \<not> ends_authority c) (?a @ url_tail u) = url_tail u"
    using a by (simp_all add: t ends_authority_def takeWhile_append dropWhile_append)
  moreover have h: "CHR '':'' \<notin> set (url_hostname u)" "url_hostname u \<noteq> ''''" using assms by (auto simp: normal_url_def)
  moreover have "split_on CHR '':'' ?a = (case url_port u of None \<Rightarrow> [url_hostname u] | Some n \<Rightarrow> [url_hostname u, nat_text n])"
    using h by (simp add: port_text_def split_on_none split_on_one nat_text_no_colon split: option.split)
  ultimately show ?thesis
    using assms nat_text_digits
    by (cases "url_port u") (auto simp: parse_authority_def Let_def digits_value_text normal_url_def t)
qed

lemma parse_url_schemes:
  "parse_url (''http://'' @ r) = parse_authority ''http'' r" "parse_url (''https://'' @ r) = parse_authority ''https'' r"
  by (simp_all add: parse_url_def)

lemma parse_href: "normal_url u \<Longrightarrow> parse_url (href u) = Some u"
proof -
  assume n: "normal_url u"
  then have "href u = ''http://'' @ url_hostname u @ port_text (url_port u) @ url_tail u \<and> url_scheme u = ''http'' \<or>
    href u = ''https://'' @ url_hostname u @ port_text (url_port u) @ url_tail u \<and> url_scheme u = ''https''"
    by (simp add: href_def normal_url_def)
  with parse_authority_href [OF n] show ?thesis by (metis parse_url_schemes)
qed

lemma parse_authority_cases:
  assumes "parse_authority scheme rest = Some u"
  shows "url_scheme u = scheme \<and> url_hostname u \<noteq> '''' \<and>
    url_hostname u \<in> set (split_on CHR '':'' (takeWhile (\<lambda>c. \<not> ends_authority c) rest)) \<and>
    (case url_port u of None \<Rightarrow> True | Some n \<Rightarrow> n \<le> 65535 \<and> n \<noteq> default_port scheme) \<and> prefix [slash] (url_tail u)"
  using assms unfolding parse_authority_def Let_def by (simp split: list.splits if_splits option.splits) auto

lemma parse_authority_normal:
  assumes "parse_authority scheme rest = Some u" and "scheme \<in> {''http'', ''https''}"
  shows "normal_url u"
proof -
  note c = parse_authority_cases [OF assms(1)]
  have "c \<noteq> CHR '':'' \<and> \<not> ends_authority c" if "c \<in> set (url_hostname u)" for c
    using split_on_parts [OF c [THEN conjunct2, THEN conjunct2, THEN conjunct1]] that by (auto dest!: subsetD set_takeWhileD)
  with c assms(2) show ?thesis by (auto simp: normal_url_def split: option.splits)
qed

lemma parse_url_normal: "parse_url s = Some u \<Longrightarrow> normal_url u"
proof -
  assume "parse_url s = Some u"
  then have "(\<exists>r. parse_authority ''http'' r = Some u) \<or> (\<exists>r. parse_authority ''https'' r = Some u)"
    unfolding parse_url_def by (meson option.distinct(1))
  then show ?thesis by (blast intro: parse_authority_normal)
qed


subsection \<open>Properties\<close>

text \<open>Keys are canonical. A key that \<open>buildKey\<close> assembles starts and ends with no slash, building a key from
  it alone changes nothing, and assembling in two steps gives the key that one step gives: prefixes of keys
  can be built beforehand.\<close>

theorem keys_are_canonical:
  assumes "buildKey (p # ps) = Inr k" and "buildKey (q # qs) = Inr m"
  shows "trim_slashes k = k \<and> buildKey [k] = Inr k \<and> buildKey (p # ps @ q # qs) = buildKey [k, m]"
proof -
  have k: "k = join_with [slash] (segments (p # ps))" and m: "m = join_with [slash] (segments (q # qs))"
    using assms by (simp_all add: buildKey_segments)
  have c: "trim_slashes k = k" "trim_slashes m = m" unfolding k m by (rule join_clean [OF segments_clean])+
  have e: "(join_with [slash] (segments us) = '''') = (segments us = [])" for us
    using join_ends [OF segments_clean] by (cases "segments us = []") auto
  have "segments (p # ps @ q # qs) = segments (p # ps) @ segments (q # qs)" by (simp add: segments_def)
  then have "buildKey (p # ps @ q # qs) = Inr (join_with [slash] (segments (p # ps) @ segments (q # qs)))"
    by (simp add: buildKey_segments)
  moreover have "buildKey [k, m] = Inr (join_with [slash] (segments (p # ps) @ segments (q # qs)))"
    using e [of "p # ps"] e [of "q # qs"]
    by (cases "segments (p # ps) = []"; cases "segments (q # qs) = []")
      (simp_all add: buildKey_def c, simp_all add: k m join_append)
  ultimately show ?thesis using c by (simp add: buildKey_def)
qed

theorem keys_are_canonical_witness:
  "buildKey [''avatars'', ''users'', ''9ae3'', ''avatar.jpg''] = Inr ''avatars/users/9ae3/avatar.jpg'' \<and>
   buildKey [''avatars/users'', ''9ae3/avatar.jpg''] = Inr ''avatars/users/9ae3/avatar.jpg''"
proof -
  have "buildKey [''/avatars/'', ''users''] = Inr ''avatars/users''" "buildKey [''9ae3'', ''avatar.jpg''] = Inr ''9ae3/avatar.jpg''"
    "buildKey [''avatars'', ''users'', ''9ae3'', ''avatar.jpg''] = Inr ''avatars/users/9ae3/avatar.jpg''"
    "buildKey [''/avatars/'', ''users'', ''9ae3'', ''avatar.jpg''] = Inr ''avatars/users/9ae3/avatar.jpg''"
    by (simp_all add: buildKey_def trim_slashes_def strip_end_def normalizeKey_def slash_def)
  with keys_are_canonical [OF this(1,2)] show ?thesis by simp
qed

text \<open>What S3 documents of the commands on objects: \<open>stored\<close> are the objects of a state of the store. A command
  that succeeds does its work, HEAD changes nothing and tells an object from a missing one.\<close>

definition s3_ok :: "'x s3_client \<Rightarrow> ('x \<Rightarrow> (string \<times> string) set) \<Rightarrow> bool" where
  "s3_ok S stored \<longleftrightarrow>
     (\<forall>x b k body opts. case s3_send S (PutObject b k (Some body) opts) x of
        (Inr _, y) \<Rightarrow> stored y = insert (b, k) (stored x) | (Inl _, y) \<Rightarrow> True) \<and>
     (\<forall>x b k. case s3_send S (DeleteObject b k) x of
        (Inr _, y) \<Rightarrow> stored y = stored x - {(b, k)} | (Inl _, y) \<Rightarrow> True) \<and>
     (\<forall>x b k. case s3_send S (HeadObject b k) x of
        (Inr _, y) \<Rightarrow> stored y = stored x \<and> (b, k) \<in> stored x
      | (Inl e, y) \<Rightarrow> stored y = stored x \<and> (is_missing e \<longrightarrow> (b, k) \<notin> stored x))"

text \<open>Two services on the same buckets, each with a key of its caller. With two prefixes, neither lies below the other,
  whatever the keys; when one service runs without a prefix, as in production, its key does not lie below the prefix of the
  other. Two services without a prefix are the same environment.\<close>

definition below :: "string \<Rightarrow> string \<Rightarrow> bool" where
  "below p key \<longleftrightarrow> prefix (p @ [slash]) key"

definition apart :: "storage_config \<Rightarrow> string \<Rightarrow> storage_config \<Rightarrow> string \<Rightarrow> bool" where
  "apart c key d key' \<longleftrightarrow> (let p = so_keyPrefix c; q = so_keyPrefix d in
     if p = '''' then q \<noteq> '''' \<and> \<not> below q (normalizeKey key)
     else if q = '''' then \<not> below p (normalizeKey key')
     else \<not> below p (q @ [slash]) \<and> \<not> below q (p @ [slash]))"

lemma applyPrefix_apart: "apart c k d l \<Longrightarrow> applyPrefix c k \<noteq> applyPrefix d l"
proof
  assume a: "apart c k d l" and e: "applyPrefix c k = applyPrefix d l"
  show False
  proof (cases "so_keyPrefix c = '''' \<or> so_keyPrefix d = ''''")
    case True
    have below: "below p (p @ slash # t)" for p t by (simp add: below_def prefix_def)
    from True a e show False
      using below [of "so_keyPrefix c" "normalizeKey k"] below [of "so_keyPrefix d" "normalizeKey l"]
      by (auto simp: apart_def applyPrefix_def Let_def split: if_splits)
  next
    case False
    then have "(so_keyPrefix c @ [slash]) @ normalizeKey k = (so_keyPrefix d @ [slash]) @ normalizeKey l"
      using e by (simp add: applyPrefix_def Let_def)
    with a False show False unfolding apart_def below_def Let_def by (metis prefixI prefix_same_cases)
  qed
qed

lemma objectExists_view:
  assumes "s3_ok S stored" and "objectExists c S kind key x = (Inr b, y)"
  shows "stored y = stored x \<and> b = ((so_buckets c kind, applyPrefix c key) \<in> stored x)"
proof -
  have "case s3_send S (HeadObject (so_buckets c kind) (applyPrefix c key)) x of
      (Inr _, y) \<Rightarrow> stored y = stored x \<and> (so_buckets c kind, applyPrefix c key) \<in> stored x
    | (Inl e, y) \<Rightarrow> stored y = stored x \<and> (is_missing e \<longrightarrow> (so_buckets c kind, applyPrefix c key) \<notin> stored x)"
    by (rule assms(1) [unfolded s3_ok_def, THEN conjunct2, THEN conjunct2, THEN spec, THEN spec, THEN spec])
  with assms(2) show ?thesis by (auto simp: objectExists_def split: prod.splits sum.splits if_splits)
qed

lemma uploadObject_view:
  assumes "s3_ok S stored" and "uploadObject c S kind key body opts x = (Inr r, y)"
  shows "stored y = insert (so_buckets c kind, applyPrefix c key) (stored x) \<and> ur_key r = key"
proof -
  have "case s3_send S (PutObject (so_buckets c kind) (applyPrefix c key) (Some body) opts) x of
      (Inr _, y) \<Rightarrow> stored y = insert (so_buckets c kind, applyPrefix c key) (stored x) | (Inl _, y) \<Rightarrow> True"
    by (rule assms(1) [unfolded s3_ok_def, THEN conjunct1, THEN spec, THEN spec, THEN spec, THEN spec, THEN spec])
  with assms(2) show ?thesis by (auto simp: uploadObject_def Let_def split: prod.splits sum.splits if_splits)
qed

lemma deleteObject_view:
  assumes "s3_ok S stored" and "deleteObject c S kind key x = (Inr u, y)"
  shows "stored y = stored x - {(so_buckets c kind, applyPrefix c key)}"
proof -
  have "case s3_send S (DeleteObject (so_buckets c kind) (applyPrefix c key)) x of
      (Inr _, y) \<Rightarrow> stored y = stored x - {(so_buckets c kind, applyPrefix c key)} | (Inl _, y) \<Rightarrow> True"
    by (rule assms(1) [unfolded s3_ok_def, THEN conjunct2, THEN conjunct1, THEN spec, THEN spec, THEN spec])
  with assms(2) show ?thesis by (auto simp: deleteObject_def split: prod.splits sum.splits)
qed

text \<open>C34: An object that was uploaded exists, after deleting it by the same key it does not, and the key handed
  back is the caller's. What a service of another environment finds in the same buckets under one of its keys is the same
  before the upload, after it and after the delete, when no prefix lies below the other, or when one
  of the two runs without a prefix and its key does not begin with the prefix of the other.\<close>

theorem upload_delete_round_trip:
  assumes "s3_ok S stored" and "uploadObject c S kind key body opts x = (Inr r, x1)"
    and "objectExists c S kind key x1 = (Inr b, x2)" and "deleteObject c S kind key x2 = (Inr u, x3)"
    and "objectExists c S kind key x3 = (Inr b', x4)"
    and "apart c key d key'" and "objectExists d S kind' key' x = (Inr e, y)" and "objectExists d S kind' key' x1 = (Inr e', y')"
    and "objectExists d S kind' key' x3 = (Inr e'', y'')"
  shows "b \<and> \<not> b' \<and> e' = e \<and> e'' = e \<and> ur_key r = key"
proof -
  note up = uploadObject_view [OF assms(1,2)] and del = deleteObject_view [OF assms(1,4)]
  note ex = assms(3,5,7,8,9) [THEN objectExists_view [OF assms(1)]]
  show ?thesis using up del ex applyPrefix_apart [OF assms(6)] by auto
qed

definition map_store :: "(string \<times> string) list s3_client" where
  "map_store = \<lparr>s3_send = (\<lambda>cmd x. case cmd of
       PutObject b k _ _ \<Rightarrow> (Inr None, (b, k) # x)
     | GetObject b k _ \<Rightarrow> (Inr None, x)
     | DeleteObject b k \<Rightarrow> (Inr None, filter (\<lambda>obj. obj \<noteq> (b, k)) x)
     | HeadObject b k \<Rightarrow> (if (b, k) \<in> set x then Inr None
         else Inl \<lparr>s3_status = Some 404, s3_name = None, s3_message = ''NotFound''\<rparr>, x)
     | HeadBucket b \<Rightarrow> (Inr None, x)),
   s3_presign = (\<lambda>cmd n. Inr ''http://minio:9000/b/k?X-Amz-Signature=1'')\<rparr>"

lemma map_store_ok: "s3_ok map_store set"
  by (auto simp: s3_ok_def map_store_def is_missing_def)

definition sample_storage :: "string \<Rightarrow> storage_config" where
  "sample_storage p = \<lparr>so_endpoint = ''http://minio:9000'', so_publicBaseUrl = ''http://localhost:9000'',
     so_buckets = (\<lambda>k. kind_text k), so_keyPrefix = p\<rparr>"

definition no_options :: upload_options where
  "no_options = \<lparr>uo_contentType = None, uo_cacheControl = None, uo_contentDisposition = None, uo_metadata = None\<rparr>"

text \<open>Production, without a prefix, has an object of the same key; development uploads and deletes its own.\<close>

theorem upload_delete_round_trip_witness:
  "\<exists>r x1. uploadObject (sample_storage ''dev'') map_store MEDIA ''a.jpg'' [1] no_options [(''media'', ''a.jpg'')] = (Inr r, x1) \<and>
     ur_key r = ''a.jpg''"
proof -
  let ?c = "sample_storage ''dev''" and ?d = "sample_storage ''''"
  let ?x = "[(''media'', ''a.jpg'')]" and ?y = "[(''media'', ''dev/a.jpg''), (''media'', ''a.jpg'')]"
  obtain r where u: "uploadObject ?c map_store MEDIA ''a.jpg'' [1] no_options ?x = (Inr r, ?y)"
    by (simp add: uploadObject_def map_store_def getSignedUrl_def signed_def sample_storage_def kind_text_def
        applyPrefix_def normalizeKey_def slash_def Let_def)
  have "apart ?c ''a.jpg'' ?d ''a.jpg''"
    by (simp add: apart_def below_def sample_storage_def normalizeKey_def slash_def)
  moreover have "objectExists ?c map_store MEDIA ''a.jpg'' ?y = (Inr True, ?y)"
    "deleteObject ?c map_store MEDIA ''a.jpg'' ?y = (Inr (), ?x)"
    "objectExists ?c map_store MEDIA ''a.jpg'' ?x = (Inr False, ?x)"
    "objectExists ?d map_store MEDIA ''a.jpg'' ?x = (Inr True, ?x)"
    "objectExists ?d map_store MEDIA ''a.jpg'' ?y = (Inr True, ?y)"
    by (simp_all add: objectExists_def deleteObject_def map_store_def sample_storage_def kind_text_def is_missing_def
        applyPrefix_def normalizeKey_def slash_def Let_def)
  ultimately show ?thesis using upload_delete_round_trip [OF map_store_ok u] u by blast
qed

text \<open>Rewriting a signed URL to the public base: path and query stay, scheme and host name become the public
  ones. The port becomes the public one exactly when the public base names a port, or the endpoint has
  none that is foreign to the public scheme: \<open>u.host = pub.host\<close> keeps the port of the endpoint otherwise.\<close>

theorem rewritten_origin:
  assumes "so_endpoint c \<noteq> so_publicBaseUrl c" and "parse_url s = Some u" and "parse_url (so_publicBaseUrl c) = Some p"
  shows "\<exists>v. parse_url (rewriteToPublicBase c s) = Some v \<and> url_tail v = url_tail u \<and>
    url_scheme v = url_scheme p \<and> url_hostname v = url_hostname p \<and>
    (url_port v = url_port p \<longleftrightarrow>
      url_port p \<noteq> None \<or> url_port u = None \<or> url_port u = Some (default_port (url_scheme p)))"
proof -
  define v where "v = set_host (url_hostname p) (url_port p) (set_protocol (url_scheme p) u)"
  note n = parse_url_normal [OF assms(2)] parse_url_normal [OF assms(3)]
  have "normal_url v"
    using n by (auto simp: v_def normal_url_def set_host_def set_protocol_def split: option.splits)
  then have "parse_url (rewriteToPublicBase c s) = Some v"
    using assms by (simp add: rewriteToPublicBase_def v_def parse_href)
  moreover have "url_port v = url_port p \<longleftrightarrow>
      url_port p \<noteq> None \<or> url_port u = None \<or> url_port u = Some (default_port (url_scheme p))"
    using n(2) by (auto simp: v_def set_host_def set_protocol_def normal_url_def split: option.splits)
  ultimately show ?thesis by (auto simp: v_def set_host_def set_protocol_def)
qed

theorem rewritten_origin_witness:
  "\<exists>v. parse_url (rewriteToPublicBase (sample_storage '''') ''http://minio:9000/videos/a.mp4?sig=1'') = Some v \<and>
     url_hostname v = ''localhost'' \<and> url_port v = Some 9000 \<and> url_tail v = ''/videos/a.mp4?sig=1''"
proof -
  have "parse_url ''http://minio:9000/videos/a.mp4?sig=1'' = Some \<lparr>url_scheme = ''http'', url_hostname = ''minio'',
      url_port = Some 9000, url_tail = ''/videos/a.mp4?sig=1''\<rparr>"
    "parse_url (so_publicBaseUrl (sample_storage '''')) = Some \<lparr>url_scheme = ''http'', url_hostname = ''localhost'',
      url_port = Some 9000, url_tail = ''/''\<rparr>"
    by (simp_all add: sample_storage_def parse_url_def parse_authority_def ends_authority_def slash_def digits_value_def
        is_digit_def default_port_def Let_def)
  from rewritten_origin [OF _ this] show ?thesis by (force simp: sample_storage_def)
qed

end
