(* ===== verification/MailProperties.thy ===== *)
theory MailProperties
  imports Mail
begin

section \<open>Properties of rendered mails and pages\<close>

text \<open>
  The characters that can form tags or end attributes in a rendered mail or page come from its template:
  values are escaped when they replace a token and are not scanned again, and beside that they only decide
  which conditional parts of the template stay.
\<close>

definition markup :: "string \<Rightarrow> string" where
  "markup s = filter (\<lambda>c. c \<in> {CHR 0x3C, CHR 0x3E, CHR 0x22, CHR 0x27}) s"

lemma markup_append: "markup (x @ y) = markup x @ markup y"
  by (simp add: markup_def)

lemma markup_escaped: "markup (escapeHtml s) = []"
  using escapeHtml_no_markup [of _ s] by (auto simp: markup_def filter_empty_conv)

lemma markup_token: "markup (token_text vars True k) = []"
  using markup_escaped by (cases "lookup_var vars k") (auto simp: token_text_def markup_def)

lemma markup_replace_tokens:
  assumes "\<And>k. markup (f k) = []"
  shows "markup (replace_tokens f s) = markup (replace_tokens (\<lambda>_. '''') s)"
  using assms
proof (induction f s rule: replace_tokens.induct)
  case (1 f s)
  note step = replace_tokens.simps [of _ s]
  show ?case
  proof (cases "match_token s")
    case None
    show ?thesis
    proof (cases s)
      case Nil
      then show ?thesis using None by (simp add: step)
    next
      case (Cons c cs)
      have m: "markup (c # x) = markup [c] @ markup x" for x using markup_append [of "[c]" x] by simp
      have "replace_tokens g s = c # replace_tokens g cs" for g
        unfolding step None option.case by (simp add: Cons)
      then show ?thesis using 1(1) [OF None Cons 1(3)] m [of "replace_tokens f cs"] m [of "replace_tokens (\<lambda>_. '''') cs"] by simp
    qed
  next
    case (Some kr)
    obtain k r where kr: "kr = (k, r)" by (cases kr)
    from 1(2) [OF Some kr [symmetric] 1(3)] have "markup (replace_tokens f r) = markup (replace_tokens (\<lambda>_. '''') r)" by simp
    moreover have "replace_tokens g s = g k @ replace_tokens g r" for g
      unfolding step Some option.case kr prod.case ..
    ultimately show ?thesis using 1(3) [of k] by (simp add: markup_append)
  qed
qed

text \<open>The values of two renderings of a template: for the same keys, in the same order, and alike for the conditionals.\<close>

definition same_choices :: "template_vars \<Rightarrow> template_vars \<Rightarrow> bool" where
  "same_choices vars vars' \<longleftrightarrow> map fst vars = map fst vars' \<and> map (isTruthy \<circ> snd) vars = map (isTruthy \<circ> snd) vars'"

lemma same_choices_lookup:
  assumes "same_choices vars vars'"
  shows "isTruthy (lookup_var vars k) = isTruthy (lookup_var vars' k)"
proof -
  have "map_option isTruthy (map_of us k) = map_option isTruthy (map_of ws k)"
    if "map fst us = map fst ws" "map (isTruthy \<circ> snd) us = map (isTruthy \<circ> snd) ws" for us ws
    using that
  proof (induction us arbitrary: ws)
    case (Cons u us)
    then obtain w ws' where "ws = w # ws'" by (cases ws) simp_all
    with Cons show ?case by (cases u; cases w) simp
  qed simp
  from this [of "rev vars" "rev vars'"] assms
  have "map_option isTruthy (map_of (rev vars) k) = map_option isTruthy (map_of (rev vars') k)"
    by (simp add: same_choices_def rev_map [symmetric] del: map_map)
  then show ?thesis by (auto simp: lookup_var_def split: option.splits)
qed

lemma rendered_markup:
  assumes "same_choices vars vars'"
  shows "markup (renderTokens (renderConditionals t vars) vars True) = markup (renderTokens (renderConditionals t vars') vars' True)"
proof -
  have "renderConditionals t vars = renderConditionals t vars'"
    unfolding renderConditionals_def using same_choices_lookup [OF assms] by simp
  moreover have "markup (renderTokens u vs True) = markup (replace_tokens (\<lambda>_. '''') u)" for u vs
    unfolding renderTokens_def by (rule markup_replace_tokens [OF markup_token])
  ultimately show ?thesis by simp
qed

text \<open>C40: Values never add markup. Whatever the template files hold, two renderings of the same HTML mail or page with the
  same keys, whose values agree only in which of them are truthy, have the same characters that can form tags or end
  attributes, in the same order: what a student types into a name can choose a conditional part of the template by being
  empty or not, and cannot do more to the markup.\<close>

theorem values_never_add_markup:
  assumes "same_choices vars vars'"
  shows "markup (renderHtml load year name vars) = markup (renderHtml load year name vars') \<and>
    markup (fst (renderTemplate files year name vars)) = markup (fst (renderTemplate files year name vars'))"
proof
  have same: "same_choices (x # vars) (x # vars')" for x using assms by (simp add: same_choices_def)
  note m = rendered_markup [OF same]
  show "markup (renderHtml load year name vars) = markup (renderHtml load year name vars')"
    using m by (simp add: renderHtml_def Let_def)
  show "markup (fst (renderTemplate files year name vars)) = markup (fst (renderTemplate files year name vars'))"
    using m by (simp add: renderTemplate_def Let_def split: prod.split)
qed

text \<open>A page with a style sheet, a conditional and a name that tries to add a script.\<close>

definition sample_page :: string where
  "sample_page = ''<style>p { top: 0; }</style>{{#if name}}<p title='' @ [CHR 0x22] @ ''{{name}}'' @ [CHR 0x22] @ ''>{{/if}}''"

theorem values_never_add_markup_witness:
  "markup (renderHtml (\<lambda>_. sample_page) 2026 ''welcome'' [(''name'', TStr ([CHR 0x22] @ ''><script>''))]) =
   markup (''<style></style><p title='' @ [CHR 0x22, CHR 0x22] @ ''>'')"
proof -
  have "same_choices [(''name'', TStr ([CHR 0x22] @ ''><script>''))] [(''name'', TStr ''Jane'')]"
    by (simp add: same_choices_def)
  from values_never_add_markup [OF this, of "\<lambda>_. sample_page" 2026 "''welcome''", THEN conjunct1]
  have "markup (renderHtml (\<lambda>_. sample_page) 2026 ''welcome'' [(''name'', TStr ([CHR 0x22] @ ''><script>''))]) =
      markup (renderHtml (\<lambda>_. sample_page) 2026 ''welcome'' [(''name'', TStr ''Jane'')])" .
  also have "\<dots> = markup (''<style></style><p title='' @ [CHR 0x22, CHR 0x22] @ ''>'')" by code_simp
  finally show ?thesis .
qed

end
