(* ===== verification/ErrorFilter.thy ===== *)
theory ErrorFilter
  imports Prelude JsString
begin

section \<open>Errors as problem documents (common/filters, common/errors)\<close>

text \<open>
  \<open>GlobalExceptionFilter\<close> turns whatever a handler throws into one RFC 7807 body: the exceptions of
  the registry, the built-in HTTP exceptions of Nest with their response body, the output of the
  validation pipe, and everything else. The texts of nestjs-i18n and the stacks of exceptions are arguments.
\<close>

subsection \<open>error-codes.ts, app-exception.ts\<close>

definition ErrorCodes :: "string list" where
  "ErrorCodes = [''VALIDATION_FAILED'', ''INVALID_LOCALE'', ''INVALID_CREDENTIALS'', ''JWT_EXPIRED'', ''JWT_INVALID'',
     ''REFRESH_TOKEN_REUSED'', ''REFRESH_TOKEN_INVALID'', ''EMAIL_NOT_VERIFIED'', ''ACCOUNT_DISABLED'',
     ''INSUFFICIENT_ROLE'', ''OWNERSHIP_VIOLATION'', ''RESOURCE_NOT_FOUND'', ''RESOURCE_ALREADY_EXISTS'',
     ''EMAIL_ALREADY_REGISTERED'', ''RATE_LIMITED'', ''INTERNAL'']"

definition codeToSlug :: "string \<Rightarrow> string" where
  "codeToSlug code = map (\<lambda>c. if c = CHR ''_'' then CHR ''-'' else c) (toLowerCase code)"

record validation_item =
  vi_field :: string
  vi_code :: string
  vi_message :: string
  vi_constraints :: "(string \<times> string) list option"

record app_exception =
  ae_status :: nat
  ae_code :: string
  ae_i18nKey :: string
  ae_i18nArgs :: "(string \<times> string) list"
  ae_errors :: "validation_item list option"

definition app_error :: "nat \<Rightarrow> string \<Rightarrow> string \<Rightarrow> (string \<times> string) list \<Rightarrow> validation_item list option \<Rightarrow> app_exception" where
  "app_error status code key args errs =
     \<lparr>ae_status = status, ae_code = code, ae_i18nKey = key, ae_i18nArgs = args, ae_errors = errs\<rparr>"

subsection \<open>errors/codes\<close>

definition InvalidCredentialsException :: app_exception where
  "InvalidCredentialsException = app_error 401 ''INVALID_CREDENTIALS'' ''errors.auth.invalid_credentials'' [] None"

definition JwtExpiredException :: app_exception where
  "JwtExpiredException = app_error 401 ''JWT_EXPIRED'' ''errors.auth.jwt_expired'' [] None"

definition JwtInvalidException :: app_exception where
  "JwtInvalidException = app_error 401 ''JWT_INVALID'' ''errors.auth.jwt_invalid'' [] None"

definition RefreshTokenReusedException :: app_exception where
  "RefreshTokenReusedException = app_error 401 ''REFRESH_TOKEN_REUSED'' ''errors.auth.refresh_token_reused'' [] None"

definition RefreshTokenInvalidException :: app_exception where
  "RefreshTokenInvalidException = app_error 401 ''REFRESH_TOKEN_INVALID'' ''errors.auth.refresh_token_invalid'' [] None"

definition EmailNotVerifiedException :: app_exception where
  "EmailNotVerifiedException = app_error 401 ''EMAIL_NOT_VERIFIED'' ''errors.auth.email_not_verified'' [] None"

definition AccountDisabledException :: app_exception where
  "AccountDisabledException = app_error 401 ''ACCOUNT_DISABLED'' ''errors.auth.account_disabled'' [] None"

definition InsufficientRoleException :: "string list \<Rightarrow> app_exception" where
  "InsufficientRoleException required =
     app_error 403 ''INSUFFICIENT_ROLE'' ''errors.auth.insufficient_role'' [(''required'', join_with '', '' required)] None"

definition OwnershipViolationException :: "string \<Rightarrow> app_exception" where
  "OwnershipViolationException resource =
     app_error 403 ''OWNERSHIP_VIOLATION'' ''errors.auth.ownership_violation'' [(''resource'', resource)] None"

definition ResourceNotFoundException :: "string \<Rightarrow> string option \<Rightarrow> app_exception" where
  "ResourceNotFoundException resource identifier =
     app_error 404 ''RESOURCE_NOT_FOUND'' ''errors.domain.resource_not_found''
       [(''resource'', resource), (''identifier'', case identifier of Some i \<Rightarrow> i | None \<Rightarrow> '''')] None"

definition ResourceAlreadyExistsException :: "string \<Rightarrow> app_exception" where
  "ResourceAlreadyExistsException resource =
     app_error 409 ''RESOURCE_ALREADY_EXISTS'' ''errors.domain.resource_already_exists'' [(''resource'', resource)] None"

definition EmailAlreadyRegisteredException :: app_exception where
  "EmailAlreadyRegisteredException =
     app_error 409 ''EMAIL_ALREADY_REGISTERED'' ''errors.domain.email_already_registered'' [] None"

definition RateLimitedException :: "nat \<Rightarrow> app_exception" where
  "RateLimitedException retryAfterSeconds =
     app_error 429 ''RATE_LIMITED'' ''errors.infrastructure.rate_limited''
       [(''retryAfterSeconds'', nat_text retryAfterSeconds)] None"

definition InternalServerException :: app_exception where
  "InternalServerException = app_error 500 ''INTERNAL'' ''errors.infrastructure.internal'' [] None"

definition ValidationFailedException :: "validation_item list \<Rightarrow> app_exception" where
  "ValidationFailedException errs = app_error 400 ''VALIDATION_FAILED'' ''errors.validation.failed'' [] (Some errs)"

definition InvalidLocaleException :: "string \<Rightarrow> app_exception" where
  "InvalidLocaleException requested =
     app_error 400 ''INVALID_LOCALE'' ''errors.validation.invalid_locale'' [(''requested'', requested)] None"

subsection \<open>What can be thrown\<close>

text \<open>An entry of a validator's message list, a message property, and the response of an \<open>HttpException\<close>: a
  text, or an object with the properties \<open>message\<close> and \<open>errors\<close>.\<close>

datatype message_entry = EntryText string | EntryObject "string option" "(string \<times> string) list option"

datatype message_field = NoMessage | MessageText string | MessageArray "message_entry list"

datatype http_response = ResponseText string | ResponseObject message_field message_field

datatype thrown =
    AppError app_exception
  | BadRequest http_response string
  | HttpError nat http_response string
  | OtherError string
  | NotAnError string

text \<open>\<open>OtherError\<close> is any other \<open>Error\<close> with its message, \<open>NotAnError\<close> any other value with its text \<open>String(exception)\<close>.\<close>

subsection \<open>resolve\<close>

record resolved =
  re_status :: nat
  re_code :: string
  re_i18nKey :: string
  re_i18nArgs :: "(string \<times> string) list"
  re_rawDetail :: "string option"
  re_errors :: "validation_item list option"

definition entry_join_text :: "message_entry \<Rightarrow> string" where
  "entry_join_text e = (case e of EntryText s \<Rightarrow> s | EntryObject _ _ \<Rightarrow> ''[object Object]'')"

definition extractRawMessage :: "http_response \<Rightarrow> string \<Rightarrow> string" where
  "extractRawMessage response fallback = (case response of
      ResponseText s \<Rightarrow> s
    | ResponseObject message _ \<Rightarrow>
        (case message of
           MessageText s \<Rightarrow> s
         | MessageArray es \<Rightarrow> join_with ''; '' (map entry_join_text es)
         | NoMessage \<Rightarrow> fallback))"

definition invalid_item :: "string \<Rightarrow> validation_item" where
  "invalid_item m = \<lparr>vi_field = ''_root'', vi_code = ''INVALID'', vi_message = m, vi_constraints = None\<rparr>"

definition flatten_entry :: "message_entry \<Rightarrow> validation_item" where
  "flatten_entry e = (case e of
      EntryText s \<Rightarrow> invalid_item s
    | EntryObject property constraints \<Rightarrow>
        let firstConstraint = (case constraints of Some (c # _) \<Rightarrow> Some c | _ \<Rightarrow> None) in
        \<lparr>vi_field = (case property of Some p \<Rightarrow> p | None \<Rightarrow> ''_root''),
         vi_code = (case firstConstraint of Some (k, _) \<Rightarrow> toUpperCase k | None \<Rightarrow> ''INVALID''),
         vi_message = (case firstConstraint of Some (_, m) \<Rightarrow> m | None \<Rightarrow> ''Invalid''),
         vi_constraints = constraints\<rparr>)"

definition flattenValidatorMessages :: "http_response \<Rightarrow> validation_item list" where
  "flattenValidatorMessages body = (case body of
      ResponseText s \<Rightarrow> [invalid_item s]
    | ResponseObject message errs \<Rightarrow>
        (case (case message of NoMessage \<Rightarrow> errs | m \<Rightarrow> m) of
           MessageText s \<Rightarrow> [invalid_item s]
         | MessageArray es \<Rightarrow> map flatten_entry es
         | NoMessage \<Rightarrow> [invalid_item ''Validation failed'']))"

definition statusToCode :: "nat \<Rightarrow> string" where
  "statusToCode status =
     (if status = 401 then ''JWT_INVALID'' else if status = 403 then ''INSUFFICIENT_ROLE''
      else if status = 404 then ''RESOURCE_NOT_FOUND'' else if status = 409 then ''RESOURCE_ALREADY_EXISTS''
      else if status = 429 then ''RATE_LIMITED'' else if status = 422 \<or> status = 400 then ''VALIDATION_FAILED''
      else ''INTERNAL'')"

definition statusToI18nKey :: "nat \<Rightarrow> string" where
  "statusToI18nKey status =
     (if status = 401 then ''errors.auth.jwt_invalid'' else if status = 403 then ''errors.auth.insufficient_role''
      else if status = 404 then ''errors.domain.resource_not_found''
      else if status = 409 then ''errors.domain.resource_already_exists''
      else if status = 429 then ''errors.infrastructure.rate_limited''
      else if status = 422 \<or> status = 400 then ''errors.validation.failed''
      else ''errors.infrastructure.internal'')"

definition resolve :: "thrown \<Rightarrow> resolved" where
  "resolve exception = (case exception of
      AppError e \<Rightarrow>
        \<lparr>re_status = ae_status e, re_code = ae_code e, re_i18nKey = ae_i18nKey e, re_i18nArgs = ae_i18nArgs e,
         re_rawDetail = None, re_errors = ae_errors e\<rparr>
    | BadRequest resp message \<Rightarrow>
        (case resp of
           ResponseObject (MessageArray _) _ \<Rightarrow>
             \<lparr>re_status = 400, re_code = ''VALIDATION_FAILED'', re_i18nKey = ''errors.validation.failed'', re_i18nArgs = [],
              re_rawDetail = None, re_errors = Some (flattenValidatorMessages resp)\<rparr>
         | _ \<Rightarrow>
             \<lparr>re_status = 400, re_code = ''VALIDATION_FAILED'', re_i18nKey = ''errors.validation.failed'', re_i18nArgs = [],
              re_rawDetail = Some (extractRawMessage resp message), re_errors = None\<rparr>)
    | HttpError status resp message \<Rightarrow>
        \<lparr>re_status = status, re_code = statusToCode status, re_i18nKey = statusToI18nKey status, re_i18nArgs = [],
         re_rawDetail = Some (extractRawMessage resp message), re_errors = None\<rparr>
    | _ \<Rightarrow>
        \<lparr>re_status = 500, re_code = ''INTERNAL'', re_i18nKey = ''errors.infrastructure.internal'', re_i18nArgs = [],
         re_rawDetail = None, re_errors = None\<rparr>)"

subsection \<open>catch and log\<close>

record http_request =
  hr_method :: string
  hr_originalUrl :: "string option"
  hr_url :: string
  hr_requestId :: "string option"

record problem =
  pb_type :: string
  pb_title :: string
  pb_status :: nat
  pb_detail :: string
  pb_instance :: string
  pb_code :: string
  pb_request_id :: string
  pb_errors :: "validation_item list option"
  pb_timestamp :: instant

datatype log_level = LogError | LogWarn | LogDebug

definition request_path :: "http_request \<Rightarrow> string" where
  "request_path r = (case hr_originalUrl r of Some u \<Rightarrow> u | None \<Rightarrow> hr_url r)"

text \<open>A log entry: its level, its line, and the second argument of \<open>logger.error\<close>, the stack of an \<open>Error\<close> (which the
  engine makes: the argument \<open>stack\<close>, \<open>None\<close> for \<open>undefined\<close>) or the text of any other value.\<close>

record log_entry =
  le_level :: log_level
  le_line :: string
  le_cause :: "string option"

definition error_cause :: "(thrown \<Rightarrow> string option) \<Rightarrow> thrown \<Rightarrow> string option" where
  "error_cause stack exception = (case exception of NotAnError text \<Rightarrow> Some text | _ \<Rightarrow> stack exception)"

definition log_line :: "(thrown \<Rightarrow> string option) \<Rightarrow> resolved \<Rightarrow> http_request \<Rightarrow> string \<Rightarrow> thrown \<Rightarrow> log_entry" where
  "log_line stack r req requestId exception =
     (let bracket = ''['' @ re_code r @ ''] '' in
      if 500 \<le> re_status r
      then \<lparr>le_level = LogError, le_line = bracket @ hr_method req @ '' '' @ request_path req @ '' (req '' @ requestId @ '')'',
            le_cause = error_cause stack exception\<rparr>
      else if re_code r = ''REFRESH_TOKEN_REUSED''
      then \<lparr>le_level = LogWarn, le_line = bracket @ ''suspicious refresh on '' @ request_path req @ '' (req '' @ requestId @ '')'',
            le_cause = None\<rparr>
      else if 400 \<le> re_status r \<and> re_code r \<noteq> ''VALIDATION_FAILED''
      then \<lparr>le_level = LogWarn, le_line = bracket @ hr_method req @ '' '' @ request_path req, le_cause = None\<rparr>
      else \<lparr>le_level = LogDebug, le_line = bracket @ hr_method req @ '' '' @ request_path req, le_cause = None\<rparr>)"

text \<open>\<open>i18n key lang args\<close> is \<open>i18n.t\<close>; \<open>lang\<close> the language of the context and \<open>envLocale\<close> the environment's
  \<open>DEFAULT_LOCALE\<close>; \<open>uuid\<close> is drawn for a request that brings no id.\<close>

definition catch_exception ::
  "(thrown \<Rightarrow> string option) \<Rightarrow> (string \<Rightarrow> string \<Rightarrow> (string \<times> string) list \<Rightarrow> string) \<Rightarrow> string option \<Rightarrow> string option \<Rightarrow> uuid \<Rightarrow> instant \<Rightarrow> http_request \<Rightarrow>
    thrown \<Rightarrow> problem \<times> log_entry" where
  "catch_exception stack i18n ctxLang envLocale fresh t req exception =
     (let lang = (case ctxLang of Some l \<Rightarrow> l | None \<Rightarrow> (case envLocale of Some l \<Rightarrow> l | None \<Rightarrow> ''en''));
          r = resolve exception;
          requestId = (case hr_requestId req of Some i \<Rightarrow> i | None \<Rightarrow> fresh)
      in (\<lparr>pb_type = ''https://ios-lms.com/errors/'' @ codeToSlug (re_code r),
           pb_title = i18n (re_i18nKey r @ ''.title'') lang (re_i18nArgs r), pb_status = re_status r,
           pb_detail = (case re_rawDetail r of Some d \<Rightarrow> d | None \<Rightarrow> i18n (re_i18nKey r @ ''.detail'') lang (re_i18nArgs r)),
           pb_instance = request_path req, pb_code = re_code r, pb_request_id = requestId, pb_errors = re_errors r,
           pb_timestamp = t\<rparr>,
          log_line stack r req requestId exception))"

subsection \<open>The exceptions of the services\<close>

text \<open>A built-in exception carries \<open>{ message, error, statusCode }\<close>; the errors of the drivers, of the socket layer and
  \<open>new Error(...)\<close> are no HTTP exceptions.\<close>

fun thrown_of :: "exc \<Rightarrow> thrown" where
  "thrown_of (BadRequestException m) = BadRequest (ResponseObject (MessageText m) NoMessage) m"
| "thrown_of (UnauthorizedException m) = HttpError 401 (ResponseObject (MessageText m) NoMessage) m"
| "thrown_of (ForbiddenException m) = HttpError 403 (ResponseObject (MessageText m) NoMessage) m"
| "thrown_of (NotFoundException m) = HttpError 404 (ResponseObject (MessageText m) NoMessage) m"
| "thrown_of (ConflictException m) = HttpError 409 (ResponseObject (MessageText m) NoMessage) m"
| "thrown_of (UnprocessableEntityException m) = HttpError 422 (ResponseObject (MessageText m) NoMessage) m"
| "thrown_of (InternalServerErrorException m) = HttpError 500 (ResponseObject (MessageText m) NoMessage) m"
| "thrown_of (DatabaseError m) = OtherError m"
| "thrown_of (RedisError m) = OtherError m"
| "thrown_of (WsException m) = OtherError m"
| "thrown_of (PlainError m) = OtherError m"

fun status_of :: "exc \<Rightarrow> nat" where
  "status_of (BadRequestException m) = 400"
| "status_of (UnauthorizedException m) = 401"
| "status_of (ForbiddenException m) = 403"
| "status_of (NotFoundException m) = 404"
| "status_of (ConflictException m) = 409"
| "status_of (UnprocessableEntityException m) = 422"
| "status_of e = 500"

fun is_internal :: "exc \<Rightarrow> bool" where
  "is_internal (DatabaseError m) = True"
| "is_internal (RedisError m) = True"
| "is_internal (WsException m) = True"
| "is_internal (PlainError m) = True"
| "is_internal e = False"

fun exc_message :: "exc \<Rightarrow> string" where
  "exc_message (BadRequestException m) = m"
| "exc_message (UnauthorizedException m) = m"
| "exc_message (ForbiddenException m) = m"
| "exc_message (NotFoundException m) = m"
| "exc_message (ConflictException m) = m"
| "exc_message (UnprocessableEntityException m) = m"
| "exc_message (InternalServerErrorException m) = m"
| "exc_message (DatabaseError m) = m"
| "exc_message (RedisError m) = m"
| "exc_message (WsException m) = m"
| "exc_message (PlainError m) = m"

text \<open>C30: Every exception of the services becomes a problem document with the status of its class, a code of the
  registry and the request's id. The texts of the services' own exceptions reach the client verbatim. The answer to an error
  of a driver or of the platform is one and the same document, with nothing of its message; the message goes to the log
  only: exactly the answers with status 500 are logged as errors, under the request's id, with the stack of the
  exception, and no other answer logs a cause.\<close>

theorem service_errors_as_problems:
  "pb_status (fst (catch_exception stack i18n lang env fresh t req (thrown_of e))) = status_of e \<and>
   pb_code (fst (catch_exception stack i18n lang env fresh t req (thrown_of e))) \<in> set ErrorCodes \<and>
   (if is_internal e
    then fst (catch_exception stack i18n lang env fresh t req (thrown_of e)) =
      fst (catch_exception stack i18n lang env fresh t req (OtherError ''''))
    else pb_detail (fst (catch_exception stack i18n lang env fresh t req (thrown_of e))) = exc_message e) \<and>
   pb_request_id (fst (catch_exception stack i18n lang env fresh t req (thrown_of e))) =
     (case hr_requestId req of Some i \<Rightarrow> i | None \<Rightarrow> fresh) \<and>
   (le_level (snd (catch_exception stack i18n lang env fresh t req (thrown_of e))) = LogError \<longleftrightarrow> status_of e = 500) \<and>
   le_cause (snd (catch_exception stack i18n lang env fresh t req (thrown_of e))) =
     (if status_of e = 500 then stack (thrown_of e) else None) \<and>
   (status_of e = 500 \<longrightarrow> le_line (snd (catch_exception stack i18n lang env fresh t req (thrown_of e))) =
     ''[INTERNAL] '' @ hr_method req @ '' '' @ request_path req @ '' (req '' @
       (case hr_requestId req of Some i \<Rightarrow> i | None \<Rightarrow> fresh) @ '')'')"
  by (cases e) (simp_all add: catch_exception_def Let_def resolve_def ErrorCodes_def statusToCode_def extractRawMessage_def
      log_line_def error_cause_def)

theorem service_errors_as_problems_witness:
  "le_line (snd (catch_exception (\<lambda>_. None) (\<lambda>_ _ _. '''') None None ''r7'' 0
     \<lparr>hr_method = ''GET'', hr_originalUrl = Some ''/api/health'', hr_url = ''/'', hr_requestId = None\<rparr> (thrown_of (RedisError ''down'')))) =
   ''[INTERNAL] GET /api/health (req r7)''"
  using service_errors_as_problems [of "\<lambda>_. None" "\<lambda>_ _ _. ''''" None None "''r7''" 0
     "\<lparr>hr_method = ''GET'', hr_originalUrl = Some ''/api/health'', hr_url = ''/'', hr_requestId = None\<rparr>" "RedisError ''down''"]
  by (simp add: request_path_def)

text \<open>The codes and their slugs name the same errors: no two codes of the registry share a slug.\<close>

lemma slugs_distinct: "distinct (map codeToSlug ErrorCodes)"
  by code_simp

end
