(* ===== verification/Ddl.thy ===== *)
theory Ddl
  imports Prelude JsString
begin

section \<open>Data definition\<close>

text \<open>
  The statements the migrations send, as data, and what they do to a schema in PostgreSQL: an object must
  not exist before it is created, what it refers to must, and nothing that is still in use is dropped
  without CASCADE. Sequences that back SERIAL columns belong to their tables and are left out.
\<close>

subsection \<open>Schemas\<close>

datatype sql_type =
    Uuid
  | UuidArray
  | Varchar nat
  | Textual
  | Boolean
  | Integer
  | Serial
  | Numeric nat nat
  | Timestamptz
  | Jsonb
  | Inet
  | EnumType string

record column =
  col_name :: string
  col_type :: sql_type
  col_nullable :: bool
  col_default :: "string option"

datatype on_delete = NoAction | Cascade | SetNull

datatype table_constraint =
    PrimaryKey string
  | Unique "string list"
  | ForeignKey string string on_delete
  | Check "string option" "string list" string

record table =
  tb_columns :: "column list"
  tb_constraints :: "table_constraint list"
  tb_rls :: bool
  tb_forced :: bool

record index =
  ix_table :: string
  ix_unique :: bool
  ix_method :: string
  ix_columns :: "string list"

datatype command = ForAll | ForSelect | ForInsert

record policy =
  po_table :: string
  po_command :: command
  po_using :: "string option"
  po_check :: "string option"

record trigger =
  tg_table :: string
  tg_events :: string
  tg_function :: string

record schema =
  sc_extensions :: "string list"
  sc_enums :: "(string \<times> string list) list"
  sc_tables :: "(string \<times> table) list"
  sc_indexes :: "(string \<times> index) list"
  sc_policies :: "(string \<times> policy) list"
  sc_sequences :: "string list"
  sc_functions :: "string list"
  sc_triggers :: "(string \<times> trigger) list"

definition empty_schema :: schema where
  "empty_schema = \<lparr>sc_extensions = [], sc_enums = [], sc_tables = [], sc_indexes = [], sc_policies = [],
     sc_sequences = [], sc_functions = [], sc_triggers = []\<rparr>"

subsection \<open>Statements\<close>

datatype ddl =
    CreateExtension string
  | CreateEnum string "string list"
  | CreateTable string "column list" "table_constraint list"
  | CreateIndex bool string index
  | EnableRls string
  | ForceRls string
  | CreatePolicy string policy
  | CreateSequence string
  | CreateFunction string
  | CreateTrigger string trigger
  | AddColumn bool string column
  | AddCheck string string "string list" string
  | DropColumn bool string string
  | DropCheck string string
  | DropIndex string
  | DropTrigger string string
  | DropFunction string
  | DropSequence string
  | DropTable string
  | DropEnum bool string

subsection \<open>What the statements need\<close>

definition has_table :: "string \<Rightarrow> schema \<Rightarrow> bool" where
  "has_table t s \<longleftrightarrow> map_of (sc_tables s) t \<noteq> None"

definition column_names :: "table \<Rightarrow> string list" where
  "column_names tb = map col_name (tb_columns tb)"

text \<open>Tables, indexes and sequences share their names.\<close>

definition relation_exists :: "string \<Rightarrow> schema \<Rightarrow> bool" where
  "relation_exists n s \<longleftrightarrow> has_table n s \<or> map_of (sc_indexes s) n \<noteq> None \<or> n \<in> set (sc_sequences s)"

text \<open>All the columns of the list belong to the table.\<close>

definition has_columns :: "string \<Rightarrow> string list \<Rightarrow> schema \<Rightarrow> bool" where
  "has_columns t cs s = (case map_of (sc_tables s) t of
      None \<Rightarrow> False
    | Some tb \<Rightarrow> list_all (\<lambda>c. c \<in> set (column_names tb)) cs)"

definition type_exists :: "schema \<Rightarrow> sql_type \<Rightarrow> bool" where
  "type_exists s ty = (case ty of EnumType e \<Rightarrow> map_of (sc_enums s) e \<noteq> None | _ \<Rightarrow> True)"

text \<open>A foreign key refers to the primary key of a table that exists, or of the table that is being created.\<close>

definition constraint_ok :: "string \<Rightarrow> string list \<Rightarrow> schema \<Rightarrow> table_constraint \<Rightarrow> bool" where
  "constraint_ok t cols s c = (case c of
      PrimaryKey k \<Rightarrow> k \<in> set cols
    | Unique ks \<Rightarrow> list_all (\<lambda>k. k \<in> set cols) ks
    | ForeignKey k t' _ \<Rightarrow> k \<in> set cols \<and> (t' = t \<or> (case map_of (sc_tables s) t' of
        None \<Rightarrow> False | Some tb \<Rightarrow> (PrimaryKey ''id'') \<in> set (tb_constraints tb)))
    | Check _ ks _ \<Rightarrow> list_all (\<lambda>k. k \<in> set cols) ks)"

definition mentions :: "string \<Rightarrow> table_constraint \<Rightarrow> bool" where
  "mentions k c = (case c of
      PrimaryKey k' \<Rightarrow> k' = k | Unique ks \<Rightarrow> k \<in> set ks | ForeignKey k' _ _ \<Rightarrow> k' = k | Check _ ks _ \<Rightarrow> k \<in> set ks)"

definition refers_to :: "string \<Rightarrow> table_constraint \<Rightarrow> bool" where
  "refers_to t c = (case c of ForeignKey _ t' _ \<Rightarrow> t' = t | _ \<Rightarrow> False)"

definition is_check :: "string \<Rightarrow> table_constraint \<Rightarrow> bool" where
  "is_check n c = (case c of Check m _ _ \<Rightarrow> m = Some n | _ \<Rightarrow> False)"

definition enum_in_use :: "string \<Rightarrow> schema \<Rightarrow> bool" where
  "enum_in_use e s \<longleftrightarrow> list_ex (\<lambda>(_, tb). list_ex (\<lambda>c. col_type c = EnumType e) (tb_columns tb)) (sc_tables s)"

subsection \<open>Execution\<close>

fun change_table :: "string \<Rightarrow> (table \<Rightarrow> table) \<Rightarrow> (string \<times> table) list \<Rightarrow> (string \<times> table) list" where
  "change_table t f [] = []"
| "change_table t f ((n, tb) # r) = (if n = t then (n, f tb) # r else (n, tb) # change_table t f r)"

definition on_table :: "string \<Rightarrow> (table \<Rightarrow> table) \<Rightarrow> schema \<Rightarrow> schema" where
  "on_table t f s = s\<lparr>sc_tables := change_table t f (sc_tables s)\<rparr>"

definition refuse :: "string \<Rightarrow> 'a result" where
  "refuse m = throw (DatabaseError m)"

text \<open>\<open>DROP TABLE ... CASCADE\<close> takes the table's indexes, policies and triggers with it, and the foreign keys of other
  tables that refer to it.\<close>

definition drop_table :: "string \<Rightarrow> schema \<Rightarrow> schema" where
  "drop_table t s = s\<lparr>
     sc_tables := map (\<lambda>(n, tb). (n, tb\<lparr>tb_constraints := filter (\<lambda>c. \<not> refers_to t c) (tb_constraints tb)\<rparr>))
       (filter (\<lambda>(n, _). n \<noteq> t) (sc_tables s)),
     sc_indexes := filter (\<lambda>(_, i). ix_table i \<noteq> t) (sc_indexes s),
     sc_policies := filter (\<lambda>(_, p). po_table p \<noteq> t) (sc_policies s),
     sc_triggers := filter (\<lambda>(_, g). tg_table g \<noteq> t) (sc_triggers s)\<rparr>"

text \<open>Dropping a column takes the constraints and indexes that mention it.\<close>

definition drop_column :: "string \<Rightarrow> string \<Rightarrow> schema \<Rightarrow> schema" where
  "drop_column t k s = (on_table t (\<lambda>tb. tb\<lparr>
       tb_columns := filter (\<lambda>c. col_name c \<noteq> k) (tb_columns tb),
       tb_constraints := filter (\<lambda>c. \<not> mentions k c) (tb_constraints tb)\<rparr>) s)\<lparr>
     sc_indexes := filter (\<lambda>(_, i). \<not> (ix_table i = t \<and> k \<in> set (ix_columns i))) (sc_indexes s)\<rparr>"

fun exec :: "ddl \<Rightarrow> schema \<Rightarrow> schema result" where
  "exec (CreateExtension e) s = ok (if e \<in> set (sc_extensions s) then s else s\<lparr>sc_extensions := sc_extensions s @ [e]\<rparr>)"
| "exec (CreateEnum e vs) s =
     (if map_of (sc_enums s) e \<noteq> None then refuse ''type already exists'' else ok (s\<lparr>sc_enums := sc_enums s @ [(e, vs)]\<rparr>))"
| "exec (CreateTable t cols cs) s =
     (if relation_exists t s then refuse ''relation already exists''
      else if \<not> distinct (map col_name cols) then refuse ''column specified more than once''
      else if \<not> list_all (\<lambda>c. type_exists s (col_type c)) cols then refuse ''type does not exist''
      else if \<not> list_all (constraint_ok t (map col_name cols) s) cs then refuse ''relation or column does not exist''
      else ok (s\<lparr>sc_tables := sc_tables s @
        [(t, \<lparr>tb_columns = cols, tb_constraints = cs, tb_rls = False, tb_forced = False\<rparr>)]\<rparr>))"
| "exec (CreateIndex ifNotExists n i) s =
     (if relation_exists n s then (if ifNotExists then ok s else refuse ''relation already exists'')
      else if \<not> has_columns (ix_table i) (ix_columns i) s then refuse ''relation or column does not exist''
      else ok (s\<lparr>sc_indexes := sc_indexes s @ [(n, i)]\<rparr>))"
| "exec (EnableRls t) s =
     (if has_table t s then ok (on_table t (\<lambda>tb. tb\<lparr>tb_rls := True\<rparr>) s) else refuse ''relation does not exist'')"
| "exec (ForceRls t) s =
     (if has_table t s then ok (on_table t (\<lambda>tb. tb\<lparr>tb_forced := True\<rparr>) s) else refuse ''relation does not exist'')"
| "exec (CreatePolicy n p) s =
     (if \<not> has_table (po_table p) s then refuse ''relation does not exist''
      else if list_ex (\<lambda>(n', p'). n' = n \<and> po_table p' = po_table p) (sc_policies s) then refuse ''policy already exists''
      else ok (s\<lparr>sc_policies := sc_policies s @ [(n, p)]\<rparr>))"
| "exec (CreateSequence q) s = ok (if relation_exists q s then s else s\<lparr>sc_sequences := sc_sequences s @ [q]\<rparr>)"
| "exec (CreateFunction f) s = ok (if f \<in> set (sc_functions s) then s else s\<lparr>sc_functions := sc_functions s @ [f]\<rparr>)"
| "exec (CreateTrigger n g) s =
     (if \<not> has_table (tg_table g) s then refuse ''relation does not exist''
      else if \<not> (tg_function g) \<in> set (sc_functions s) then refuse ''function does not exist''
      else if list_ex (\<lambda>(n', g'). n' = n \<and> tg_table g' = tg_table g) (sc_triggers s) then refuse ''trigger already exists''
      else ok (s\<lparr>sc_triggers := sc_triggers s @ [(n, g)]\<rparr>))"
| "exec (AddColumn ifNotExists t c) s =
     (if \<not> has_table t s then refuse ''relation does not exist''
      else if has_columns t [col_name c] s then (if ifNotExists then ok s else refuse ''column already exists'')
      else if \<not> type_exists s (col_type c) then refuse ''type does not exist''
      else ok (on_table t (\<lambda>tb. tb\<lparr>tb_columns := tb_columns tb @ [c]\<rparr>) s))"
| "exec (AddCheck t n ks e) s =
     (case map_of (sc_tables s) t of
        None \<Rightarrow> refuse ''relation does not exist''
      | Some tb \<Rightarrow>
          if list_ex (is_check n) (tb_constraints tb) then refuse ''constraint already exists''
          else if \<not> has_columns t ks s then refuse ''column does not exist''
          else ok (on_table t (\<lambda>tb. tb\<lparr>tb_constraints := tb_constraints tb @ [Check (Some n) ks e]\<rparr>) s))"
| "exec (DropColumn ifExists t k) s =
     (if \<not> has_table t s then refuse ''relation does not exist''
      else if \<not> has_columns t [k] s then (if ifExists then ok s else refuse ''column does not exist'')
      else ok (drop_column t k s))"
| "exec (DropCheck t n) s =
     (if \<not> has_table t s then refuse ''relation does not exist''
      else ok (on_table t (\<lambda>tb. tb\<lparr>tb_constraints := filter (\<lambda>c. \<not> is_check n c) (tb_constraints tb)\<rparr>) s))"
| "exec (DropIndex n) s = ok (s\<lparr>sc_indexes := filter (\<lambda>(n', _). n' \<noteq> n) (sc_indexes s)\<rparr>)"
| "exec (DropTrigger n t) s =
     (if \<not> has_table t s then ok s
      else ok (s\<lparr>sc_triggers := filter (\<lambda>(n', g). \<not> (n' = n \<and> tg_table g = t)) (sc_triggers s)\<rparr>))"
| "exec (DropFunction f) s =
     (if list_ex (\<lambda>(_, g). tg_function g = f) (sc_triggers s) then refuse ''other objects depend on it''
      else ok (s\<lparr>sc_functions := filter (\<lambda>f'. f' \<noteq> f) (sc_functions s)\<rparr>))"
| "exec (DropSequence q) s = ok (s\<lparr>sc_sequences := filter (\<lambda>q'. q' \<noteq> q) (sc_sequences s)\<rparr>)"
| "exec (DropTable t) s = ok (if has_table t s then drop_table t s else s)"
| "exec (DropEnum ifExists e) s =
     (if map_of (sc_enums s) e = None then (if ifExists then ok s else refuse ''type does not exist'')
      else if enum_in_use e s then refuse ''other objects depend on it''
      else ok (s\<lparr>sc_enums := filter (\<lambda>(e', _). e' \<noteq> e) (sc_enums s)\<rparr>))"

fun exec_all :: "ddl list \<Rightarrow> schema \<Rightarrow> schema result" where
  "exec_all [] s = ok s"
| "exec_all (d # ds) s = (case exec d s of Inl e \<Rightarrow> throw e | Inr s1 \<Rightarrow> exec_all ds s1)"

lemma exec_all_append:
  "exec_all (xs @ ys) s = (case exec_all xs s of Inl e \<Rightarrow> throw e | Inr s1 \<Rightarrow> exec_all ys s1)"
  by (induction xs arbitrary: s) (auto split: sum.split)

lemma exec_all_then: "exec_all xs s = ok s1 \<Longrightarrow> exec_all ys s1 = r \<Longrightarrow> exec_all (xs @ ys) s = r"
  by (simp add: exec_all_append)

end
