(* ===== verification/Migrations.thy ===== *)
theory Migrations
  imports Ddl
begin

section \<open>The migrations\<close>

text \<open>
  The four migrations as the lists of statements their \<open>up\<close> and \<open>down\<close> send, in order. Function bodies are
  in \<open>SchemaRules\<close>; the comparison of a policy is kept as its text.
\<close>

subsection \<open>Columns and indexes\<close>

abbreviation opt :: "string \<Rightarrow> sql_type \<Rightarrow> column" where
  "opt n ty \<equiv> \<lparr>col_name = n, col_type = ty, col_nullable = True, col_default = None\<rparr>"

abbreviation req :: "string \<Rightarrow> sql_type \<Rightarrow> column" where
  "req n ty \<equiv> \<lparr>col_name = n, col_type = ty, col_nullable = False, col_default = None\<rparr>"

abbreviation dflt :: "string \<Rightarrow> sql_type \<Rightarrow> string \<Rightarrow> column" where
  "dflt n ty d \<equiv> \<lparr>col_name = n, col_type = ty, col_nullable = False, col_default = Some d\<rparr>"

abbreviation uuid_id :: column where
  "uuid_id \<equiv> dflt ''id'' Uuid ''gen_random_uuid()''"

abbreviation serial_id :: column where
  "serial_id \<equiv> req ''id'' Serial"

definition stamps :: "column list" where
  "stamps = [dflt ''created_at'' Timestamptz ''NOW()'', dflt ''updated_at'' Timestamptz ''NOW()'']"

abbreviation plain_index :: "string \<Rightarrow> string \<Rightarrow> string list \<Rightarrow> ddl" where
  "plain_index n t cs \<equiv> CreateIndex False n \<lparr>ix_table = t, ix_unique = False, ix_method = ''btree'', ix_columns = cs\<rparr>"

abbreviation unique_index :: "string \<Rightarrow> string \<Rightarrow> string list \<Rightarrow> ddl" where
  "unique_index n t cs \<equiv> CreateIndex False n \<lparr>ix_table = t, ix_unique = True, ix_method = ''btree'', ix_columns = cs\<rparr>"

subsection \<open>1747000000000-InitialSchema.ts\<close>

definition initial_enums :: "ddl list" where
  "initial_enums = [
     CreateEnum ''admin_role_enum'' [''super_admin'', ''learning_admin'', ''content_creator'', ''finance_admin'', ''support_admin''],
     CreateEnum ''exam_status_enum'' [''draft'', ''published''],
     CreateEnum ''question_type_enum'' [''mcq'', ''true_false''],
     CreateEnum ''attempt_status_enum'' [''submitted'', ''auto_submitted''],
     CreateEnum ''test_session_status_enum'' [''active'', ''submitted'', ''expired'', ''auto_submitted''],
     CreateEnum ''payment_type_enum'' [''enrollment'', ''retake''],
     CreateEnum ''transaction_status_enum'' [''pending'', ''completed'', ''failed'', ''refunded''],
     CreateEnum ''discount_type_enum'' [''percentage'', ''full_waiver''],
     CreateEnum ''notification_status_enum'' [''pending'', ''sent'', ''failed''],
     CreateEnum ''token_owner_type_enum'' [''user'', ''admin''],
     CreateEnum ''blog_status_enum'' [''draft'', ''published'', ''archived''],
     CreateEnum ''auth_token_purpose_enum'' [''email_verification'', ''password_reset'']]"

definition account_tables :: "ddl list" where
  "account_tables = [
     CreateTable ''users''
       ([uuid_id, req ''email'' (Varchar 255), req ''password_hash'' (Varchar 255), req ''first_name'' (Varchar 100),
         req ''last_name'' (Varchar 100), opt ''phone'' (Varchar 50), opt ''avatar_url'' (Varchar 500),
         opt ''country'' (Varchar 100), opt ''city'' (Varchar 100), opt ''street'' (Varchar 255),
         opt ''address'' (Varchar 255), opt ''postal_code'' (Varchar 20), opt ''occupation'' (Varchar 255),
         opt ''position'' (Varchar 255), opt ''company'' (Varchar 255), dflt ''locale'' (Varchar 10) ''en'',
         dflt ''email_verified'' Boolean ''FALSE'', opt ''email_verified_at'' Timestamptz,
         dflt ''active'' Boolean ''TRUE''] @ stamps)
       [PrimaryKey ''id''],
     unique_index ''idx_users_email'' ''users'' [''email''],
     CreateTable ''admin_users''
       ([uuid_id, req ''email'' (Varchar 255), req ''password_hash'' (Varchar 255), req ''first_name'' (Varchar 100),
         req ''last_name'' (Varchar 100), req ''role'' (EnumType ''admin_role_enum''),
         dflt ''active'' Boolean ''TRUE'', opt ''created_by_id'' Uuid] @ stamps)
       [PrimaryKey ''id'', ForeignKey ''created_by_id'' ''admin_users'' SetNull],
     unique_index ''idx_admin_users_email'' ''admin_users'' [''email'']]"

definition catalogue_tables :: "ddl list" where
  "catalogue_tables = [
     CreateTable ''certificates''
       ([uuid_id, req ''title'' (Varchar 255), req ''program_code'' (Varchar 50), opt ''description'' Textual,
         req ''price'' (Numeric 10 2), dflt ''currency'' (Varchar 3) ''USD'', dflt ''active'' Boolean ''TRUE'',
         opt ''thumbnail_url'' (Varchar 500)] @ stamps)
       [PrimaryKey ''id''],
     plain_index ''idx_certificates_program_code'' ''certificates'' [''program_code''],
     plain_index ''idx_certificates_title'' ''certificates'' [''title''],
     CreateTable ''learning_modules''
       ([uuid_id, req ''cert_id'' Uuid, req ''title'' (Varchar 255), opt ''description'' Textual,
         dflt ''position'' Integer ''0'', dflt ''active'' Boolean ''TRUE''] @ stamps)
       [PrimaryKey ''id'', ForeignKey ''cert_id'' ''certificates'' Cascade],
     plain_index ''idx_learning_modules_cert_id'' ''learning_modules'' [''cert_id''],
     CreateTable ''lessons''
       ([uuid_id, req ''module_id'' Uuid, req ''title'' (Varchar 255), opt ''video_url'' (Varchar 500),
         opt ''content_text'' Textual, dflt ''position'' Integer ''0'', opt ''duration_seconds'' Integer,
         dflt ''active'' Boolean ''TRUE''] @ stamps)
       [PrimaryKey ''id'', ForeignKey ''module_id'' ''learning_modules'' Cascade],
     plain_index ''idx_lessons_module_id'' ''lessons'' [''module_id''],
     CreateTable ''lesson_quizzes''
       ([uuid_id, req ''lesson_id'' Uuid, req ''title'' (Varchar 255), dflt ''active'' Boolean ''TRUE''] @ stamps)
       [PrimaryKey ''id'', ForeignKey ''lesson_id'' ''lessons'' Cascade],
     plain_index ''idx_lesson_quizzes_lesson_id'' ''lesson_quizzes'' [''lesson_id''],
     CreateTable ''quiz_questions''
       ([uuid_id, req ''quiz_id'' Uuid, req ''question_text'' Textual, req ''correct_answer'' Textual, opt ''options'' Jsonb,
         dflt ''position'' Integer ''0''] @ stamps)
       [PrimaryKey ''id'', ForeignKey ''quiz_id'' ''lesson_quizzes'' Cascade],
     plain_index ''idx_quiz_questions_quiz_id'' ''quiz_questions'' [''quiz_id'']]"

definition exam_tables :: "ddl list" where
  "exam_tables = [
     CreateTable ''exams''
       ([uuid_id, req ''cert_id'' Uuid, req ''title'' (Varchar 255), req ''exam_order'' Integer,
         dflt ''status'' (EnumType ''exam_status_enum'') ''draft'', dflt ''passing_score'' Integer ''80'',
         req ''duration_minutes'' Integer, opt ''created_by_id'' Uuid] @ stamps)
       [PrimaryKey ''id'', ForeignKey ''cert_id'' ''certificates'' Cascade,
        Check None [''exam_order''] ''exam_order BETWEEN 1 AND 6'',
        Check None [''passing_score''] ''passing_score BETWEEN 1 AND 100'', Unique [''cert_id'', ''exam_order'']],
     plain_index ''idx_exams_cert_id'' ''exams'' [''cert_id''],
     CreateTable ''exam_questions''
       ([uuid_id, req ''exam_id'' Uuid, req ''question_text'' Textual,
         dflt ''question_type'' (EnumType ''question_type_enum'') ''mcq'', dflt ''position'' Integer ''0'',
         dflt ''marks'' Integer ''1''] @ stamps)
       [PrimaryKey ''id'', ForeignKey ''exam_id'' ''exams'' Cascade],
     plain_index ''idx_exam_questions_exam_id'' ''exam_questions'' [''exam_id''],
     CreateTable ''exam_question_options''
       ([uuid_id, req ''question_id'' Uuid, req ''option_text'' Textual, dflt ''is_correct'' Boolean ''FALSE''] @ stamps)
       [PrimaryKey ''id'', ForeignKey ''question_id'' ''exam_questions'' Cascade],
     plain_index ''idx_exam_question_options_question_id'' ''exam_question_options'' [''question_id''],
     CreateTable ''exam_access_codes''
       ([uuid_id, req ''user_id'' Uuid, req ''exam_id'' Uuid, req ''cert_id'' Uuid, req ''token_hash'' (Varchar 255),
         req ''expires_at'' Timestamptz, opt ''used_at'' Timestamptz] @ stamps)
       [PrimaryKey ''id'', ForeignKey ''user_id'' ''users'' Cascade, ForeignKey ''exam_id'' ''exams'' Cascade,
        ForeignKey ''cert_id'' ''certificates'' Cascade],
     plain_index ''idx_exam_access_codes_user_id'' ''exam_access_codes'' [''user_id''],
     plain_index ''idx_exam_access_codes_exam_id'' ''exam_access_codes'' [''exam_id''],
     CreateTable ''exam_attempts''
       ([uuid_id, req ''user_id'' Uuid, req ''exam_id'' Uuid, req ''cert_id'' Uuid, req ''score'' (Numeric 5 2),
         req ''passed'' Boolean, req ''answers'' Jsonb, opt ''duration_seconds'' Integer,
         req ''started_at'' Timestamptz, req ''submitted_at'' Timestamptz,
         dflt ''status'' (EnumType ''attempt_status_enum'') ''submitted'', dflt ''late_flag'' Boolean ''FALSE''] @ stamps)
       [PrimaryKey ''id'', ForeignKey ''user_id'' ''users'' Cascade, ForeignKey ''exam_id'' ''exams'' Cascade,
        ForeignKey ''cert_id'' ''certificates'' Cascade, Check None [''score''] ''score BETWEEN 0 AND 100''],
     plain_index ''idx_exam_attempts_user_id'' ''exam_attempts'' [''user_id''],
     plain_index ''idx_exam_attempts_exam_id'' ''exam_attempts'' [''exam_id''],
     plain_index ''idx_exam_attempts_cert_id'' ''exam_attempts'' [''cert_id''],
     CreateTable ''test_sessions''
       ([uuid_id, req ''user_id'' Uuid, req ''exam_id'' Uuid, req ''session_token'' Textual, req ''started_at'' Timestamptz,
         req ''duration_seconds'' Integer, req ''expires_at'' Timestamptz,
         dflt ''status'' (EnumType ''test_session_status_enum'') ''active'', opt ''submitted_at'' Timestamptz,
         opt ''snapshot'' Jsonb] @ stamps)
       [PrimaryKey ''id'', ForeignKey ''user_id'' ''users'' Cascade, ForeignKey ''exam_id'' ''exams'' Cascade],
     plain_index ''idx_test_sessions_user_id'' ''test_sessions'' [''user_id''],
     plain_index ''idx_test_sessions_exam_id'' ''test_sessions'' [''exam_id'']]"

definition commerce_tables :: "ddl list" where
  "commerce_tables = [
     CreateTable ''student_purchases''
       ([uuid_id, req ''user_id'' Uuid, req ''cert_id'' Uuid, opt ''payment_intent_id'' (Varchar 255),
         dflt ''payment_type'' (EnumType ''payment_type_enum'') ''enrollment'',
         dflt ''pre_exam_confirmed'' Boolean ''FALSE'', dflt ''exam_completed'' Boolean ''FALSE''] @ stamps)
       [PrimaryKey ''id'', ForeignKey ''user_id'' ''users'' Cascade, ForeignKey ''cert_id'' ''certificates'' Cascade,
        Unique [''user_id'', ''cert_id'']],
     plain_index ''idx_student_purchases_user_id'' ''student_purchases'' [''user_id''],
     plain_index ''idx_student_purchases_cert_id'' ''student_purchases'' [''cert_id''],
     CreateTable ''student_progress''
       ([uuid_id, req ''user_id'' Uuid, req ''lesson_id'' Uuid, req ''completed_at'' Timestamptz] @ stamps)
       [PrimaryKey ''id'', ForeignKey ''user_id'' ''users'' Cascade, ForeignKey ''lesson_id'' ''lessons'' Cascade,
        Unique [''user_id'', ''lesson_id'']],
     plain_index ''idx_student_progress_user_id'' ''student_progress'' [''user_id''],
     plain_index ''idx_student_progress_lesson_id'' ''student_progress'' [''lesson_id''],
     CreateTable ''promo_codes''
       ([uuid_id, req ''code'' (Varchar 100), req ''discount_type'' (EnumType ''discount_type_enum''),
         opt ''discount_value'' (Numeric 5 2), opt ''applicable_cert_ids'' UuidArray, opt ''max_uses'' Integer,
         dflt ''usage_count'' Integer ''0'', opt ''expires_at'' Timestamptz, opt ''created_by_id'' Uuid] @ stamps)
       [PrimaryKey ''id'', ForeignKey ''created_by_id'' ''admin_users'' SetNull],
     unique_index ''idx_promo_codes_code'' ''promo_codes'' [''code''],
     CreateTable ''transactions''
       ([uuid_id, req ''user_id'' Uuid, req ''cert_id'' Uuid, req ''stripe_session_id'' (Varchar 255),
         req ''amount'' (Numeric 10 2), dflt ''currency'' (Varchar 3) ''USD'',
         dflt ''status'' (EnumType ''transaction_status_enum'') ''pending'', opt ''promo_code_id'' Uuid] @ stamps)
       [PrimaryKey ''id'', ForeignKey ''user_id'' ''users'' Cascade, ForeignKey ''cert_id'' ''certificates'' Cascade,
        ForeignKey ''promo_code_id'' ''promo_codes'' SetNull],
     unique_index ''idx_transactions_stripe_session_id'' ''transactions'' [''stripe_session_id''],
     plain_index ''idx_transactions_user_id'' ''transactions'' [''user_id''],
     CreateTable ''issued_certificates''
       ([uuid_id, opt ''cert_id'' (Varchar 50), req ''user_id'' Uuid, req ''certificate_id'' Uuid,
         req ''exam_attempt_id'' Uuid, opt ''s3_url'' (Varchar 500), opt ''qr_url'' (Varchar 500),
         dflt ''is_active'' Boolean ''TRUE'', req ''issued_at'' Timestamptz] @ stamps)
       [PrimaryKey ''id'', ForeignKey ''user_id'' ''users'' Cascade, ForeignKey ''certificate_id'' ''certificates'' Cascade,
        ForeignKey ''exam_attempt_id'' ''exam_attempts'' Cascade],
     unique_index ''idx_issued_certificates_cert_id'' ''issued_certificates'' [''cert_id''],
     plain_index ''idx_issued_certificates_user_id'' ''issued_certificates'' [''user_id'']]"

definition internal_tables :: "ddl list" where
  "internal_tables = [
     CreateTable ''processed_webhooks''
       ([serial_id, req ''event_id'' (Varchar 255), req ''event_type'' (Varchar 100), req ''processed_at'' Timestamptz] @ stamps)
       [PrimaryKey ''id''],
     unique_index ''idx_processed_webhooks_event_id'' ''processed_webhooks'' [''event_id''],
     CreateTable ''admin_audit_logs''
       ([serial_id, req ''actor_id'' Uuid, req ''action'' (Varchar 100), req ''table_name'' (Varchar 100),
         opt ''record_id'' (Varchar 100), opt ''old_data'' Jsonb, opt ''new_data'' Jsonb, opt ''ip_address'' Inet] @ stamps)
       [PrimaryKey ''id'', ForeignKey ''actor_id'' ''admin_users'' Cascade],
     plain_index ''idx_admin_audit_logs_actor_id'' ''admin_audit_logs'' [''actor_id''],
     plain_index ''idx_admin_audit_logs_table_name'' ''admin_audit_logs'' [''table_name''],
     plain_index ''idx_admin_audit_logs_created_at'' ''admin_audit_logs'' [''created_at''],
     CreateTable ''notification_templates''
       ([serial_id, req ''type'' (Varchar 100), dflt ''locale'' (Varchar 10) ''en'', req ''subject'' (Varchar 255),
         req ''html_body'' Textual, req ''text_body'' Textual] @ stamps)
       [PrimaryKey ''id'', Unique [''type'', ''locale'']],
     CreateTable ''notification_queue''
       ([serial_id, req ''user_id'' Uuid, req ''template_type'' (Varchar 100), req ''payload'' Jsonb,
         dflt ''status'' (EnumType ''notification_status_enum'') ''pending'', opt ''scheduled_at'' Timestamptz,
         opt ''sent_at'' Timestamptz, dflt ''retry_count'' Integer ''0''] @ stamps)
       [PrimaryKey ''id'', ForeignKey ''user_id'' ''users'' Cascade],
     plain_index ''idx_notification_queue_user_id'' ''notification_queue'' [''user_id''],
     plain_index ''idx_notification_queue_status'' ''notification_queue'' [''status''],
     CreateTable ''refresh_tokens''
       ([serial_id, opt ''user_id'' Uuid, opt ''admin_id'' Uuid, req ''owner_type'' (EnumType ''token_owner_type_enum''),
         req ''token_hash'' (Varchar 255), req ''expires_at'' Timestamptz, opt ''revoked_at'' Timestamptz] @ stamps)
       [PrimaryKey ''id'', ForeignKey ''user_id'' ''users'' Cascade, ForeignKey ''admin_id'' ''admin_users'' Cascade],
     plain_index ''idx_refresh_tokens_user_id'' ''refresh_tokens'' [''user_id''],
     plain_index ''idx_refresh_tokens_admin_id'' ''refresh_tokens'' [''admin_id''],
     CreateTable ''rate_limit_blocks''
       ([serial_id, req ''ip_address'' Inet, req ''endpoint'' (Varchar 100), req ''blocked_until'' Timestamptz] @ stamps)
       [PrimaryKey ''id''],
     plain_index ''idx_rate_limit_blocks_ip_endpoint'' ''rate_limit_blocks'' [''ip_address'', ''endpoint''],
     CreateTable ''blog_articles''
       ([uuid_id, req ''title'' (Varchar 255), req ''slug'' (Varchar 255), req ''content_html'' Textual,
         dflt ''status'' (EnumType ''blog_status_enum'') ''draft'', opt ''author_id'' Uuid,
         opt ''meta_description'' Textual, opt ''published_at'' Timestamptz] @ stamps)
       [PrimaryKey ''id'', ForeignKey ''author_id'' ''admin_users'' SetNull],
     unique_index ''idx_blog_articles_slug'' ''blog_articles'' [''slug''],
     CreateTable ''auth_tokens''
       ([serial_id, req ''user_id'' Uuid, req ''purpose'' (EnumType ''auth_token_purpose_enum''),
         req ''token_hash'' (Varchar 255), req ''expires_at'' Timestamptz, opt ''used_at'' Timestamptz] @ stamps)
       [PrimaryKey ''id'', ForeignKey ''user_id'' ''users'' Cascade],
     plain_index ''idx_auth_tokens_user_id'' ''auth_tokens'' [''user_id''],
     plain_index ''idx_auth_tokens_purpose_expires'' ''auth_tokens'' [''purpose'', ''expires_at'']]"

text \<open>Row level security: the comparison of the isolation policies is on \<open>user_id\<close>.\<close>

definition rls_tables :: "string list" where
  "rls_tables = [''student_purchases'', ''exam_attempts'', ''issued_certificates'', ''transactions'', ''admin_audit_logs'']"

definition own_rows :: string where
  "own_rows = ''user_id::text = NULLIF(current_setting(app.current_user_id, TRUE), )''"

definition isolation :: "string \<Rightarrow> string \<Rightarrow> ddl" where
  "isolation n t = CreatePolicy n \<lparr>po_table = t, po_command = ForAll, po_using = Some own_rows, po_check = None\<rparr>"

definition initial_rls :: "ddl list" where
  "initial_rls = concat (map (\<lambda>t. [EnableRls t, ForceRls t]) rls_tables) @ [
     isolation ''student_purchases_isolation'' ''student_purchases'',
     isolation ''exam_attempts_isolation'' ''exam_attempts'',
     isolation ''issued_certificates_isolation'' ''issued_certificates'',
     isolation ''transactions_isolation'' ''transactions'',
     CreatePolicy ''admin_audit_logs_deny_select''
       \<lparr>po_table = ''admin_audit_logs'', po_command = ForSelect, po_using = Some ''FALSE'', po_check = None\<rparr>,
     CreatePolicy ''admin_audit_logs_allow_insert''
       \<lparr>po_table = ''admin_audit_logs'', po_command = ForInsert, po_using = None, po_check = Some ''TRUE''\<rparr>]"

text \<open>The programs that get a sequence of certificate numbers.\<close>

definition programCodes :: "string list" where
  "programCodes = [''PSM'', ''PSPO'', ''PSD'', ''PAL'', ''SPS'', ''PMP'']"

definition initial_sequences :: "ddl list" where
  "initial_sequences = map (\<lambda>code. CreateSequence (''cert_seq_'' @ toLowerCase code)) programCodes"

definition row_trigger :: "string \<Rightarrow> string \<Rightarrow> string \<Rightarrow> string \<Rightarrow> ddl" where
  "row_trigger n events t f = CreateTrigger n \<lparr>tg_table = t, tg_events = events, tg_function = f\<rparr>"

definition initial_functions :: "ddl list" where
  "initial_functions = [
     CreateFunction ''check_rate_limit'',
     CreateFunction ''protect_super_admin_role'',
     row_trigger ''trg_protect_super_admin'' ''BEFORE DELETE OR UPDATE'' ''admin_users'' ''protect_super_admin_role'',
     CreateFunction ''update_promo_usage_count'',
     row_trigger ''trg_update_promo_usage_count'' ''AFTER INSERT'' ''transactions'' ''update_promo_usage_count'',
     CreateFunction ''audit_admin_action''] @
     map (\<lambda>t. row_trigger (''trg_audit_'' @ t) ''AFTER INSERT OR UPDATE OR DELETE'' t ''audit_admin_action'')
       [''certificates'', ''exams'', ''admin_users''] @
     [CreateFunction ''set_cert_sequence'',
      row_trigger ''trg_set_cert_sequence'' ''BEFORE INSERT'' ''issued_certificates'' ''set_cert_sequence'']"

definition initial_up :: "ddl list" where
  "initial_up = [CreateExtension ''pgcrypto''] @ initial_enums @ account_tables @ catalogue_tables @ exam_tables @
     commerce_tables @ internal_tables @ initial_rls @ initial_sequences @ initial_functions"

definition initial_down :: "ddl list" where
  "initial_down = [
     DropTrigger ''trg_set_cert_sequence'' ''issued_certificates'',
     DropTrigger ''trg_audit_admin_users'' ''admin_users'',
     DropTrigger ''trg_audit_exams'' ''exams'',
     DropTrigger ''trg_audit_certificates'' ''certificates'',
     DropTrigger ''trg_update_promo_usage_count'' ''transactions'',
     DropTrigger ''trg_protect_super_admin'' ''admin_users'',
     DropFunction ''set_cert_sequence'', DropFunction ''audit_admin_action'', DropFunction ''update_promo_usage_count'',
     DropFunction ''protect_super_admin_role'', DropFunction ''check_rate_limit''] @
     map (\<lambda>code. DropSequence (''cert_seq_'' @ code)) [''psm'', ''pspo'', ''psd'', ''pal'', ''sps'', ''pmp''] @
     map DropTable [''auth_tokens'', ''blog_articles'', ''rate_limit_blocks'', ''refresh_tokens'', ''notification_queue'',
       ''notification_templates'', ''admin_audit_logs'', ''processed_webhooks'', ''issued_certificates'',
       ''transactions'', ''student_progress'', ''student_purchases'', ''test_sessions'', ''exam_attempts'',
       ''exam_access_codes'', ''exam_question_options'', ''exam_questions'', ''exams'', ''quiz_questions'',
       ''lesson_quizzes'', ''lessons'', ''learning_modules'', ''promo_codes'', ''certificates'', ''admin_users'',
       ''users''] @
     map (DropEnum True) [''auth_token_purpose_enum'', ''admin_role_enum'', ''exam_status_enum'', ''question_type_enum'',
       ''attempt_status_enum'', ''test_session_status_enum'', ''payment_type_enum'', ''transaction_status_enum'',
       ''discount_type_enum'', ''notification_status_enum'', ''token_owner_type_enum'', ''blog_status_enum'']"

subsection \<open>1748000000000-AddI18nSupport.ts\<close>

definition translations_column :: column where
  "translations_column = dflt ''translations'' Jsonb ''{}''"

definition english_title_index :: "string \<Rightarrow> string \<Rightarrow> ddl" where
  "english_title_index n t = CreateIndex False n
     \<lparr>ix_table = t, ix_unique = False, ix_method = ''gin'', ix_columns = [''translations'']\<rparr>"

definition i18n_up :: "ddl list" where
  "i18n_up = [CreateExtension ''pg_trgm''] @
     map (\<lambda>t. AddColumn False t translations_column)
       [''certificates'', ''learning_modules'', ''lessons'', ''exams'', ''blog_articles''] @
     [AddColumn False ''admin_users'' (dflt ''locale'' (Varchar 10) ''en''),
      AddCheck ''users'' ''chk_users_locale_supported'' [''locale''] ''locale IN (en, tr, fr, es, ar, de)'',
      AddCheck ''admin_users'' ''chk_admin_users_locale_supported'' [''locale''] ''locale IN (en, tr, fr, es, ar, de)'',
      english_title_index ''idx_certificates_title_en_trgm'' ''certificates'',
      english_title_index ''idx_learning_modules_title_en_trgm'' ''learning_modules'',
      english_title_index ''idx_lessons_title_en_trgm'' ''lessons'',
      english_title_index ''idx_blog_articles_title_en_trgm'' ''blog_articles'']"

definition i18n_down :: "ddl list" where
  "i18n_down = [
     DropIndex ''idx_blog_articles_title_en_trgm'', DropIndex ''idx_lessons_title_en_trgm'',
     DropIndex ''idx_learning_modules_title_en_trgm'', DropIndex ''idx_certificates_title_en_trgm'',
     DropCheck ''admin_users'' ''chk_admin_users_locale_supported'', DropCheck ''users'' ''chk_users_locale_supported'',
     DropColumn True ''admin_users'' ''locale''] @
     map (\<lambda>t. DropColumn True t ''translations'')
       [''blog_articles'', ''exams'', ''lessons'', ''learning_modules'', ''certificates'']"

subsection \<open>1749000000000-AddCertIdToTestSessions.ts\<close>

definition cert_id_up :: "ddl list" where
  "cert_id_up = [
     AddColumn True ''test_sessions'' (opt ''cert_id'' Uuid),
     CreateIndex True ''idx_test_sessions_cert_id''
       \<lparr>ix_table = ''test_sessions'', ix_unique = False, ix_method = ''btree'', ix_columns = [''cert_id'']\<rparr>]"

definition cert_id_down :: "ddl list" where
  "cert_id_down = [DropIndex ''idx_test_sessions_cert_id'', DropColumn True ''test_sessions'' ''cert_id'']"

subsection \<open>1749100000000-AddCertCatalogFields.ts\<close>

definition catalog_fields_up :: "ddl list" where
  "catalog_fields_up = [
     CreateEnum ''certificates_level_enum'' [''foundation'', ''practitioner'', ''authority''],
     AddColumn False ''certificates'' (opt ''badge_image_url'' (Varchar 500)),
     AddColumn False ''certificates'' (opt ''track'' (Varchar 100)),
     AddColumn False ''certificates'' (opt ''level'' (EnumType ''certificates_level_enum'')),
     AddColumn False ''certificates'' (opt ''duration_hours'' Integer),
     AddColumn False ''certificates'' (opt ''syllabus_url'' (Varchar 500))]"

definition catalog_fields_down :: "ddl list" where
  "catalog_fields_down = [
     DropColumn False ''certificates'' ''syllabus_url'', DropColumn False ''certificates'' ''duration_hours'',
     DropColumn False ''certificates'' ''level'', DropColumn False ''certificates'' ''track'',
     DropColumn False ''certificates'' ''badge_image_url'', DropEnum False ''certificates_level_enum'']"

subsection \<open>The chain\<close>

definition migrations :: "(ddl list \<times> ddl list) list" where
  "migrations = [(initial_up, initial_down), (i18n_up, i18n_down), (cert_id_up, cert_id_down),
     (catalog_fields_up, catalog_fields_down)]"

text \<open>The state after the first \<open>n\<close> migrations.\<close>

definition migrated :: "nat \<Rightarrow> schema result" where
  "migrated n = exec_all (concat (map fst (take n migrations))) empty_schema"

end
