(* ===== verification/SchemaRules.thy ===== *)
theory SchemaRules
  imports Entities JsString Contracts Migrations
begin

section \<open>Functions and triggers of the schema, and the bootstrap of the first administrator\<close>

text \<open>
  The functions and triggers of \<open>1747000000000-InitialSchema.ts\<close> in PL/pgSQL: the rate limit check, the
  protection of super administrators, the usage count of promo codes, the audit log and the numbers of
  issued certificates; and \<open>SeederService\<close>, which inserts a super administrator at start-up and so meets
  the protection. A row before or after a write is given to a trigger as an option.
\<close>

subsection \<open>check\_rate\_limit\<close>

record rate_limit_block =
  rb_ip :: string
  rb_endpoint :: string
  rb_blockedUntil :: instant

definition check_rate_limit :: "instant \<Rightarrow> string \<Rightarrow> string \<Rightarrow> rate_limit_block list \<Rightarrow> bool" where
  "check_rate_limit t ip endpoint blocks \<longleftrightarrow>
     \<not> (\<exists>b \<in> set blocks. rb_ip b = ip \<and> rb_endpoint b = endpoint \<and> t < rb_blockedUntil b)"

subsection \<open>protect\_super\_admin\_role\<close>

text \<open>BEFORE UPDATE OR DELETE: \<open>new\<close> is None for a DELETE. The result is the row that is written or deleted.\<close>

definition protect_super_admin_role :: "admin_user \<Rightarrow> admin_user option \<Rightarrow> admin_user result" where
  "protect_super_admin_role old new =
     (if a_role old = SUPER_ADMIN then throw (DatabaseError ''super_admin account cannot be modified or deleted'')
      else ok (case new of None \<Rightarrow> old | Some r \<Rightarrow> r))"

text \<open>The trigger runs for each row of an UPDATE or DELETE statement; when it raises, the statement is undone.\<close>

fun trigger_rows :: "(admin_user \<Rightarrow> bool) \<Rightarrow> (admin_user \<Rightarrow> admin_user) \<Rightarrow> admin_user list \<Rightarrow> admin_user list result" where
  "trigger_rows P f [] = ok []"
| "trigger_rows P f (r # rs) =
     (case (if P r then protect_super_admin_role r (Some (f r)) else ok r) of
        Inl e \<Rightarrow> throw e
      | Inr r' \<Rightarrow> (case trigger_rows P f rs of Inl e \<Rightarrow> throw e | Inr rs' \<Rightarrow> ok (r' # rs')))"

definition update_admins ::
  "(admin_user \<Rightarrow> bool) \<Rightarrow> (admin_user \<Rightarrow> admin_user) \<Rightarrow> admin_user list \<Rightarrow> unit result \<times> admin_user list" where
  "update_admins P f rows = (case trigger_rows P f rows of Inl e \<Rightarrow> (throw e, rows) | Inr rows' \<Rightarrow> (ok (), rows'))"

fun trigger_deletes :: "(admin_user \<Rightarrow> bool) \<Rightarrow> admin_user list \<Rightarrow> admin_user list result" where
  "trigger_deletes P [] = ok []"
| "trigger_deletes P (r # rs) =
     (case (if P r then protect_super_admin_role r None else ok r) of
        Inl e \<Rightarrow> throw e
      | Inr _ \<Rightarrow> (case trigger_deletes P rs of Inl e \<Rightarrow> throw e | Inr rs' \<Rightarrow> ok (if P r then rs' else r # rs')))"

definition delete_admins :: "(admin_user \<Rightarrow> bool) \<Rightarrow> admin_user list \<Rightarrow> unit result \<times> admin_user list" where
  "delete_admins P rows = (case trigger_deletes P rows of Inl e \<Rightarrow> (throw e, rows) | Inr rows' \<Rightarrow> (ok (), rows'))"

subsection \<open>update\_promo\_usage\_count\<close>

record promo_code =
  pc_id :: uuid
  pc_usageCount :: int
  pc_updatedAt :: instant

definition update_promo_usage_count :: "instant \<Rightarrow> uuid option \<Rightarrow> 'a promo_code_scheme list \<Rightarrow> 'a promo_code_scheme list" where
  "update_promo_usage_count t promoCodeId codes = (case promoCodeId of
      None \<Rightarrow> codes
    | Some i \<Rightarrow> update_rows (\<lambda>c. pc_id c = i) (\<lambda>c. c\<lparr>pc_usageCount := pc_usageCount c + 1, pc_updatedAt := t\<rparr>) codes)"

subsection \<open>audit\_admin\_action\<close>

datatype trigger_op = OpInsert | OpUpdate | OpDelete

record 'row audit_log =
  al_actorId :: uuid
  al_action :: trigger_op
  al_tableName :: string
  al_recordId :: uuid
  al_oldData :: "'row option"
  al_newData :: "'row option"
  al_ip :: "string option"
  al_createdAt :: instant

definition setting_or_null :: "string option \<Rightarrow> string option" where
  "setting_or_null v = (case v of Some x \<Rightarrow> if x = '''' then None else Some x | None \<Rightarrow> None)"

text \<open>\<open>adminId\<close> and \<open>ip\<close> are the settings \<open>app.current_admin_id\<close> and \<open>app.current_ip\<close> of the connection that writes.\<close>

definition audit_admin_action ::
  "instant \<Rightarrow> string option \<Rightarrow> string option \<Rightarrow> string \<Rightarrow> ('row \<Rightarrow> uuid) \<Rightarrow> trigger_op \<Rightarrow> 'row option \<Rightarrow> 'row option \<Rightarrow>
    'row audit_log list \<Rightarrow> 'row audit_log list" where
  "audit_admin_action t adminId ip tableName key op old new logs =
     (case setting_or_null adminId of
        None \<Rightarrow> logs
      | Some actor \<Rightarrow> logs @ [\<lparr>al_actorId = actor, al_action = op, al_tableName = tableName,
          al_recordId = key (the (if op = OpDelete then old else new)),
          al_oldData = (if op \<in> {OpUpdate, OpDelete} then old else None),
          al_newData = (if op \<in> {OpInsert, OpUpdate} then new else None), al_ip = setting_or_null ip,
          al_createdAt = t\<rparr>])"

subsection \<open>set\_cert\_sequence\<close>

text \<open>\<open>LPAD(text, n, '0')\<close> cuts a text that is longer.\<close>

definition lpad_zero :: "nat \<Rightarrow> string \<Rightarrow> string" where
  "lpad_zero n s = (if n \<le> length s then take n s else replicate (n - length s) CHR ''0'' @ s)"

definition cert_number :: "string \<Rightarrow> string \<Rightarrow> nat \<Rightarrow> string" where
  "cert_number programCode year seq = ''IOS-'' @ programCode @ ''-'' @ year @ ''-'' @ lpad_zero 6 (nat_text seq)"

text \<open>The sequences by name with their next value: the migration creates one for each of six programs.\<close>

definition cert_sequences :: "string \<rightharpoonup> nat" where
  "cert_sequences = map_of (map (\<lambda>code. (''cert_seq_'' @ toLowerCase code, 1)) programCodes)"

text \<open>
  BEFORE INSERT on \<open>issued_certificates\<close>: the value of \<open>NEW.cert_id\<close>, drawn from the sequence of the certificate's program. Without
  such a certificate all the texts are NULL, and so is the number (the foreign key then refuses the row). The column holds
  50 characters; a drawn value is not put back.
\<close>

definition set_cert_sequence ::
  "string \<Rightarrow> (uuid \<rightharpoonup> string) \<Rightarrow> uuid \<Rightarrow> (string \<rightharpoonup> nat, string option) op" where
  "set_cert_sequence year programCode certificateId seqs = (case programCode certificateId of
      None \<Rightarrow> (ok None, seqs)
    | Some code \<Rightarrow>
        (let seqName = ''cert_seq_'' @ toLowerCase code
         in case seqs seqName of
              None \<Rightarrow> (throw (DatabaseError ''relation does not exist''), seqs)
            | Some n \<Rightarrow>
                (if length (cert_number code year n) \<le> 50 then ok (Some (cert_number code year n))
                 else throw (DatabaseError ''value too long for type character varying(50)''), seqs(seqName \<mapsto> n + 1))))"

subsection \<open>SeederService\<close>

record seed_credentials =
  sc_email :: string
  sc_password :: string
  sc_firstName :: string
  sc_lastName :: string

definition DEV_DEFAULTS :: seed_credentials where
  "DEV_DEFAULTS = \<lparr>sc_email = ''admin@ios.local'', sc_password = ''DevAdmin@123!'', sc_firstName = ''IOS'', sc_lastName = ''Admin''\<rparr>"

definition unset :: "string option \<Rightarrow> bool" where
  "unset v \<longleftrightarrow> v = None \<or> v = Some ''''"

definition or_dev :: "string option \<Rightarrow> string \<Rightarrow> string" where
  "or_dev v d = (case v of Some x \<Rightarrow> x | None \<Rightarrow> d)"

definition resolveCredentials :: "(string \<rightharpoonup> string) \<Rightarrow> string \<Rightarrow> seed_credentials result" where
  "resolveCredentials config env =
     (let email = config ''BOOTSTRAP_SUPER_ADMIN_EMAIL''; password = config ''BOOTSTRAP_SUPER_ADMIN_PASSWORD'';
          firstName = config ''BOOTSTRAP_SUPER_ADMIN_FIRST_NAME''; lastName = config ''BOOTSTRAP_SUPER_ADMIN_LAST_NAME''
      in if env = ''staging'' \<or> env = ''production''
         then if unset email \<or> unset password
              then throw (InternalServerErrorException (''Refusing to bootstrap super_admin on '' @ env @ '' without '' @
                ''BOOTSTRAP_SUPER_ADMIN_EMAIL and BOOTSTRAP_SUPER_ADMIN_PASSWORD env vars.''))
              else if unset firstName \<or> unset lastName
              then throw (InternalServerErrorException (''Refusing to bootstrap super_admin on '' @ env @ '' without '' @
                ''BOOTSTRAP_SUPER_ADMIN_FIRST_NAME and BOOTSTRAP_SUPER_ADMIN_LAST_NAME env vars.''))
              else ok \<lparr>sc_email = the email, sc_password = the password, sc_firstName = the firstName, sc_lastName = the lastName\<rparr>
         else ok \<lparr>sc_email = or_dev email (sc_email DEV_DEFAULTS), sc_password = or_dev password (sc_password DEV_DEFAULTS),
                  sc_firstName = or_dev firstName (sc_firstName DEV_DEFAULTS), sc_lastName = or_dev lastName (sc_lastName DEV_DEFAULTS)\<rparr>)"

text \<open>\<open>INSERT ... ON CONFLICT DO NOTHING\<close>: the unique columns are the key and the email.\<close>

definition insert_admin_or_ignore :: "admin_user \<Rightarrow> admin_user list \<Rightarrow> bool \<times> admin_user list" where
  "insert_admin_or_ignore a rows =
     (if pk a \<in> pk ` set rows \<or> a_email a \<in> a_email ` set rows then (False, rows) else (True, rows @ [a]))"

datatype bootstrap_outcome = Skipped | AlreadyThere nat | Bootstrapped string | Raced

definition seed_gate :: "(string \<rightharpoonup> string) \<Rightarrow> bool" where
  "seed_gate config \<longleftrightarrow> or_dev (config ''NODE_ENV'') ''development'' = ''production'' \<and>
     config ''BOOTSTRAP_SUPER_ADMIN'' \<noteq> Some ''true''"

text \<open>The row that is inserted; \<open>hash\<close> is bcrypt with cost 12 and the salt drawn for it.\<close>

definition seed_row :: "(string \<Rightarrow> string) \<Rightarrow> instant \<Rightarrow> uuid \<Rightarrow> seed_credentials \<Rightarrow> admin_user" where
  "seed_row hash t newKey c = \<lparr>pk = newKey, createdAt = t, updatedAt = t, a_email = sc_email c,
     a_passwordHash = hash (sc_password c), a_firstName = sc_firstName c, a_lastName = sc_lastName c,
     a_role = SUPER_ADMIN, a_locale = ''en'', a_active = True, a_createdById = None\<rparr>"

definition count_supers :: "admin_user list \<Rightarrow> nat" where
  "count_supers rows = affected (\<lambda>a. a_role a = SUPER_ADMIN) rows"

definition onApplicationBootstrap ::
  "(string \<rightharpoonup> string) \<Rightarrow> (string \<Rightarrow> string) \<Rightarrow> instant \<Rightarrow> uuid \<Rightarrow> (admin_user list, bootstrap_outcome) op" where
  "onApplicationBootstrap config hash t newKey rows =
     (if seed_gate config then (ok Skipped, rows)
      else if 0 < count_supers rows then (ok (AlreadyThere (count_supers rows)), rows)
      else case resolveCredentials config (or_dev (config ''NODE_ENV'') ''development'') of
          Inl e \<Rightarrow> (throw e, rows)
        | Inr c \<Rightarrow>
            (case insert_admin_or_ignore (seed_row hash t newKey c) rows of
               (inserted, rows') \<Rightarrow> (ok (if inserted then Bootstrapped (sc_email c) else Raced), rows')))"

end
