(* ===== verification/SchemaProperties.thy ===== *)
theory SchemaProperties
  imports SchemaRules StorageProperties
begin

section \<open>Properties of the schema and of the bootstrap\<close>

text \<open>
  A super administrator, once there, can be neither changed nor removed through the table, however many
  workers start; and the numbers of issued certificates are distinct as long as they fit six digits.
\<close>

subsection \<open>Super administrators\<close>

lemma trigger_rows_keeps:
  "trigger_rows P f rows = Inr rows' \<Longrightarrow> a \<in> set rows \<Longrightarrow> a_role a = SUPER_ADMIN \<Longrightarrow> a \<in> set rows' \<and> \<not> P a"
proof (induction rows arbitrary: rows')
  case (Cons r rs)
  then show ?case by (auto simp: protect_super_admin_role_def split: sum.splits if_splits)
qed simp

lemma trigger_deletes_keeps:
  "trigger_deletes P rows = Inr rows' \<Longrightarrow> a \<in> set rows \<Longrightarrow> a_role a = SUPER_ADMIN \<Longrightarrow> a \<in> set rows' \<and> \<not> P a"
proof (induction rows arbitrary: rows')
  case (Cons r rs)
  then show ?case by (auto simp: protect_super_admin_role_def split: sum.splits if_splits)
qed simp

inductive admin_step :: "admin_user list \<Rightarrow> admin_user list \<Rightarrow> bool" where
  update: "admin_step rows (snd (update_admins P f rows))"
| delete: "admin_step rows (snd (delete_admins P rows))"
| insert: "admin_step rows (snd (insert_admin_or_ignore a rows))"
| bootstrap: "admin_step rows (snd (onApplicationBootstrap config hash t k rows))"

definition holds_super :: "admin_user list \<Rightarrow> admin_user \<Rightarrow> bool" where
  "holds_super rows a \<longleftrightarrow> a \<in> set rows \<and> a_role a = SUPER_ADMIN"

lemma update_admins_keeps: "holds_super rows a \<Longrightarrow> holds_super (snd (update_admins P f rows)) a"
  by (auto simp: update_admins_def holds_super_def dest: trigger_rows_keeps split: sum.split)

lemma delete_admins_keeps: "holds_super rows a \<Longrightarrow> holds_super (snd (delete_admins P rows)) a"
  by (auto simp: delete_admins_def holds_super_def dest: trigger_deletes_keeps split: sum.split)

lemma insert_admin_keeps: "holds_super rows a \<Longrightarrow> holds_super (snd (insert_admin_or_ignore b rows)) a"
  by (simp add: insert_admin_or_ignore_def holds_super_def)

lemma bootstrap_keeps: "holds_super rows a \<Longrightarrow> holds_super (snd (onApplicationBootstrap config hash t k rows)) a"
  using insert_admin_keeps [of rows a]
  by (auto simp: onApplicationBootstrap_def split: sum.split prod.split) (metis snd_conv)+

lemma admin_step_keeps: "admin_step s t \<Longrightarrow> holds_super s a \<Longrightarrow> holds_super t a"
  by (induction rule: admin_step.induct)
    (auto intro: update_admins_keeps delete_admins_keeps insert_admin_keeps bootstrap_keeps)

interpretation admins: monotone_system "\<lambda>_. True" admin_step holds_super
  by unfold_locales (auto intro: admin_step_keeps)

text \<open>C33: A super administrator is frozen: in every state reached by updates, deletions, inserts and bootstraps of any
  number of workers the row is there as it was first written, password hash included, and every statement that
  would touch it is refused as a whole. The advice that the bootstrap logs, to change the password at once,
  cannot be followed.\<close>

theorem super_admin_is_frozen:
  assumes "reachable_from admin_step rows rows'" and "a \<in> set rows" and "a_role a = SUPER_ADMIN"
  shows "a \<in> set rows' \<and>
    (\<not> P a \<or> (\<exists>e. update_admins P f rows' = (Inl e, rows')) \<and> (\<exists>e. delete_admins P rows' = (Inl e, rows')))"
proof -
  have a: "a \<in> set rows'" using admins.reachable_closed [OF assms(1) TrueI, of a] assms(2,3) by (simp add: holds_super_def)
  have "\<exists>e. update_admins P f rows' = (Inl e, rows')" if "P a"
    using trigger_rows_keeps [of P f rows' _ a] a assms(3) that
    by (cases "trigger_rows P f rows'") (auto simp: update_admins_def)
  moreover have "\<exists>e. delete_admins P rows' = (Inl e, rows')" if "P a"
    using trigger_deletes_keeps [of P rows' _ a] a assms(3) that
    by (cases "trigger_deletes P rows'") (auto simp: delete_admins_def)
  ultimately show ?thesis using a by blast
qed

definition first_admin :: "admin_user list" where
  "first_admin = snd (onApplicationBootstrap Map.empty (\<lambda>p. p) 0 ''k'' [])"

theorem super_admin_is_frozen_witness:
  "\<exists>a e. first_admin = [a] \<and> a_passwordHash a = ''DevAdmin@123!'' \<and>
     update_admins (\<lambda>x. True) (\<lambda>x. x\<lparr>a_passwordHash := ''new''\<rparr>) first_admin = (Inl e, first_admin)"
proof -
  obtain a where a: "first_admin = [a]" "a_role a = SUPER_ADMIN" "a_passwordHash a = ''DevAdmin@123!''"
    by (simp add: first_admin_def onApplicationBootstrap_def seed_gate_def or_dev_def count_supers_def affected_def
        resolveCredentials_def DEV_DEFAULTS_def insert_admin_or_ignore_def seed_row_def Let_def)
  have m: "a \<in> set first_admin" by (simp only: a(1) list.set_intros)
  show ?thesis using a super_admin_is_frozen [OF reachable_from.start m a(2), where P = "\<lambda>x. True" and
      f = "\<lambda>x. x\<lparr>a_passwordHash := ''new''\<rparr>"] by blast
qed

subsection \<open>Racing workers\<close>

text \<open>However many workers boot at once, with the same settings and after each of them has found no super
  administrator, one insert at most takes effect: the unique email makes the others do nothing.\<close>

theorem one_bootstrap_row:
  assumes "count_supers rows = 0"
  shows "count_supers (fold (\<lambda>(t, k) rs. snd (insert_admin_or_ignore (seed_row hash t k c) rs)) workers rows) \<le> 1"
proof -
  have "count_supers rs \<le> 1 \<and> (count_supers rs = 0 \<or> sc_email c \<in> a_email ` set rs) \<Longrightarrow>
    count_supers (fold (\<lambda>(t, k) rs. snd (insert_admin_or_ignore (seed_row hash t k c) rs)) workers rs) \<le> 1" for rs
  proof (induction workers arbitrary: rs)
    case (Cons w workers)
    obtain t k where w: "w = (t, k)" by (cases w)
    let ?rs = "snd (insert_admin_or_ignore (seed_row hash t k c) rs)"
    have "count_supers ?rs \<le> 1 \<and> (count_supers ?rs = 0 \<or> sc_email c \<in> a_email ` set ?rs)"
      using Cons.prems by (auto simp: insert_admin_or_ignore_def seed_row_def count_supers_def affected_def)
    from Cons.IH [OF this] show ?case by (simp add: w)
  qed simp
  with assms show ?thesis by simp
qed

theorem one_bootstrap_row_witness:
  "count_supers (fold (\<lambda>(t, k) rs. snd (insert_admin_or_ignore (seed_row (\<lambda>p. p) t k DEV_DEFAULTS) rs))
     [(0, ''k1''), (5, ''k2''), (7, ''k3'')] []) \<le> 1"
  by (rule one_bootstrap_row) (simp add: count_supers_def affected_def)

subsection \<open>Certificate numbers\<close>

lemma nat_text_length: "n < 10 ^ k \<Longrightarrow> 0 < k \<Longrightarrow> length (nat_text n) \<le> k"
proof (induction n arbitrary: k rule: nat_text.induct)
  case (1 n)
  show ?case
  proof (cases "n < 10")
    case False
    obtain j where k: "k = Suc j" using "1.prems"(2) by (cases k) auto
    have j: "0 < j" using False "1.prems"(1) k by (cases j) auto
    have "n div 10 < 10 ^ j" using "1.prems" k by (simp add: less_mult_imp_div_less mult.commute)
    with 1(1) [OF False this j] False k show ?thesis by (subst nat_text.simps) simp
  qed (use 1 in \<open>subst nat_text.simps, simp\<close>)
qed

definition decimal :: "string \<Rightarrow> nat" where
  "decimal s = foldl (\<lambda>n c. 10 * n + (code_of c - 48)) 0 s"

lemma decimal_padded: "decimal (replicate k CHR ''0'' @ s) = decimal s"
  by (induction k) (simp_all add: decimal_def)

lemma decimal_nat_text: "decimal (nat_text n) = n"
  using nat_text_digits [of n] by (simp add: decimal_def)

lemma lpad_decimal: "n < 10 ^ 6 \<Longrightarrow> decimal (lpad_zero 6 (nat_text n)) = n \<and> length (lpad_zero 6 (nat_text n)) = 6"
  using nat_text_length [of n 6] by (auto simp: lpad_zero_def decimal_padded decimal_nat_text)

lemma nat_text_times_ten: "0 < n \<Longrightarrow> nat_text (10 * n) = nat_text n @ [char_of (48 :: nat)]"
  by (subst nat_text.simps) simp

lemma nat_text_power: "length (nat_text (10 ^ k)) = Suc k"
proof (induction k)
  case (Suc k)
  then show ?case using nat_text_times_ten [of "10 ^ k"] by simp
qed (simp add: nat_text.simps [of "Suc 0"])

lemma lpad_cut: "lpad_zero 6 (nat_text (10 * 10 ^ 5)) = lpad_zero 6 (nat_text (10 ^ 5))"
  using nat_text_power [of 5] by (simp only: nat_text_times_ten zero_less_power zero_less_numeral) (simp add: lpad_zero_def)

lemma million: "(1000000 :: nat) = 10 * 10 ^ 5" "(100000 :: nat) = 10 ^ 5"
  by simp_all

lemma cert_sequences_list:
  "map (\<lambda>code. (''cert_seq_'' @ toLowerCase code, 1 :: nat)) programCodes =
    [(''cert_seq_psm'', 1), (''cert_seq_pspo'', 1), (''cert_seq_psd'', 1), (''cert_seq_pal'', 1), (''cert_seq_sps'', 1),
     (''cert_seq_pmp'', 1)]"
  by code_simp

lemma cert_sequences_none:
  "s \<notin> {''psm'', ''pspo'', ''psd'', ''pal'', ''sps'', ''pmp''} \<Longrightarrow> cert_sequences (''cert_seq_'' @ s) = None"
  unfolding cert_sequences_def cert_sequences_list by simp

text \<open>Certificates of one program issued in one year have different numbers of six digits as long as the sequence is
  below a million; the millionth is cut to six digits and repeats an earlier number, so its insert is refused
  by the unique index.\<close>

theorem certificate_numbers_distinct:
  assumes "m < 10 ^ 6" and "n < 10 ^ 6"
  shows "(cert_number code year m = cert_number code year n \<longleftrightarrow> m = n) \<and>
    length (cert_number code year n) = length code + length year + 12 \<and>
    cert_number code year 1000000 = cert_number code year 100000"
proof -
  have "lpad_zero 6 (nat_text m) = lpad_zero 6 (nat_text n) \<longleftrightarrow> m = n"
    using lpad_decimal [OF assms(1)] lpad_decimal [OF assms(2)] by metis
  then show ?thesis using lpad_decimal [OF assms(2)] by (simp only: cert_number_def lpad_cut million) simp
qed

theorem certificate_numbers_distinct_witness:
  "cert_number ''PSM'' ''2026'' 41 \<noteq> cert_number ''PSM'' ''2026'' 42 \<and> length (cert_number ''PSM'' ''2026'' 42) = 19"
  using certificate_numbers_distinct [of 41 42 "''PSM''" "''2026''"] by simp

text \<open>Only the six programs of the migration can issue: for a certificate of any other program every insert fails, whatever was
  drawn before, because nothing creates its sequence.\<close>

theorem unknown_program_cannot_issue:
  assumes "set_cert_sequence year programs c seqs = (r, seqs')" and "programs c = Some code"
    and "\<forall>p. seqs p \<noteq> None \<longrightarrow> cert_sequences p \<noteq> None"
    and "toLowerCase code \<notin> {''psm'', ''pspo'', ''psd'', ''pal'', ''sps'', ''pmp''}"
  shows "(\<exists>e. r = throw e) \<and> seqs' = seqs"
proof -
  have "seqs (''cert_seq_'' @ toLowerCase code) = None"
    using assms(3) cert_sequences_none [OF assms(4)] by blast
  then show ?thesis using assms(1,2) by (auto simp: set_cert_sequence_def Let_def)
qed

theorem unknown_program_cannot_issue_witness:
  "set_cert_sequence ''2026'' [''c'' \<mapsto> ''CSM''] ''c'' cert_sequences =
    (throw (DatabaseError ''relation does not exist''), cert_sequences) \<and>
   (\<exists>e. fst (set_cert_sequence ''2026'' [''c'' \<mapsto> ''CSM''] ''c'' cert_sequences) = throw e)"
proof -
  have l: "toLowerCase ''CSM'' = ''csm''" by code_simp
  have r: "set_cert_sequence ''2026'' [''c'' \<mapsto> ''CSM''] ''c'' cert_sequences =
      (throw (DatabaseError ''relation does not exist''), cert_sequences)"
    using cert_sequences_none [of "''csm''"] by (simp add: set_cert_sequence_def l)
  show ?thesis using unknown_program_cannot_issue [OF r, of "''CSM''"] r by (simp add: l)
qed

end
