(* ===== verification/MigrationFacts.thy ===== *)
theory MigrationFacts
  imports Migrations
begin

section \<open>How scripts act on a schema\<close>

text \<open>
  A script that only creates types, tables and indexes is checked statically, against the names it has made
  so far, and then appends what it makes. A statement that added something is undone by the statement that
  drops it, as long as the schema has no dangling reference; a script is undone by the reversed list.
\<close>

subsection \<open>What a script makes\<close>

fun enums_made :: "ddl list \<Rightarrow> (string \<times> string list) list" where
  "enums_made [] = []"
| "enums_made (CreateEnum e vs # ds) = (e, vs) # enums_made ds"
| "enums_made (_ # ds) = enums_made ds"

fun tables_made :: "ddl list \<Rightarrow> (string \<times> table) list" where
  "tables_made [] = []"
| "tables_made (CreateTable t cols cs # ds) =
     (t, \<lparr>tb_columns = cols, tb_constraints = cs, tb_rls = False, tb_forced = False\<rparr>) # tables_made ds"
| "tables_made (_ # ds) = tables_made ds"

fun indexes_made :: "ddl list \<Rightarrow> (string \<times> index) list" where
  "indexes_made [] = []"
| "indexes_made (CreateIndex _ n i # ds) = (n, i) # indexes_made ds"
| "indexes_made (_ # ds) = indexes_made ds"

fun policies_made :: "ddl list \<Rightarrow> (string \<times> policy) list" where
  "policies_made [] = []"
| "policies_made (CreatePolicy n p # ds) = (n, p) # policies_made ds"
| "policies_made (_ # ds) = policies_made ds"

fun functions_made :: "ddl list \<Rightarrow> string list" where
  "functions_made [] = []"
| "functions_made (CreateFunction f # ds) = f # functions_made ds"
| "functions_made (_ # ds) = functions_made ds"

fun triggers_made :: "ddl list \<Rightarrow> (string \<times> trigger) list" where
  "triggers_made [] = []"
| "triggers_made (CreateTrigger n g # ds) = (n, g) # triggers_made ds"
| "triggers_made (_ # ds) = triggers_made ds"

definition relations_made :: "ddl list \<Rightarrow> string list" where
  "relations_made ds = map fst (tables_made ds) @ map fst (indexes_made ds)"

definition extended :: "ddl list \<Rightarrow> schema \<Rightarrow> schema" where
  "extended ds s = s\<lparr>sc_enums := sc_enums s @ enums_made ds, sc_tables := sc_tables s @ tables_made ds,
     sc_indexes := sc_indexes s @ indexes_made ds\<rparr>"

subsection \<open>The static check\<close>

definition knows_columns :: "(string \<times> string list) list \<Rightarrow> string \<Rightarrow> string list \<Rightarrow> bool" where
  "knows_columns T t ks = list_ex (\<lambda>(t', cs). t' = t \<and> list_all (\<lambda>k. k \<in> set cs) ks) T"

definition type_resolved :: "string list \<Rightarrow> sql_type \<Rightarrow> bool" where
  "type_resolved E ty = (case ty of EnumType e \<Rightarrow> e \<in> set E | _ \<Rightarrow> True)"

definition constraint_resolved :: "(string \<times> string list) list \<Rightarrow> string \<Rightarrow> string list \<Rightarrow> table_constraint \<Rightarrow> bool" where
  "constraint_resolved T t cols c = (case c of
      PrimaryKey k \<Rightarrow> k \<in> set cols
    | Unique ks \<Rightarrow> list_all (\<lambda>k. k \<in> set cols) ks
    | ForeignKey k t' _ \<Rightarrow> k \<in> set cols \<and> (t' = t \<or> list_ex (\<lambda>(u, _). u = t') T)
    | Check _ ks _ \<Rightarrow> list_all (\<lambda>k. k \<in> set cols) ks)"

fun script_resolved :: "(string \<times> string list) list \<Rightarrow> string list \<Rightarrow> ddl list \<Rightarrow> bool" where
  "script_resolved T E [] = True"
| "script_resolved T E (CreateEnum e _ # ds) = script_resolved T (e # E) ds"
| "script_resolved T E (CreateTable t cols cs # ds) = (distinct (map col_name cols) \<and>
     list_all (\<lambda>c. type_resolved E (col_type c)) cols \<and> (PrimaryKey ''id'') \<in> set cs \<and>
     list_all (constraint_resolved T t (map col_name cols)) cs \<and> script_resolved ((t, map col_name cols) # T) E ds)"
| "script_resolved T E (CreateIndex _ _ i # ds) = (knows_columns T (ix_table i) (ix_columns i) \<and> script_resolved T E ds)"
| "script_resolved T E (_ # ds) = False"


definition knows :: "(string \<times> string list) list \<Rightarrow> string list \<Rightarrow> schema \<Rightarrow> bool" where
  "knows T E s \<longleftrightarrow>
     (\<forall>(t, cs) \<in> set T. \<exists>tb. map_of (sc_tables s) t = Some tb \<and> set cs \<subseteq> set (column_names tb) \<and>
        PrimaryKey ''id'' \<in> set (tb_constraints tb)) \<and>
     (\<forall>e \<in> set E. map_of (sc_enums s) e \<noteq> None)"

text \<open>No statement of the script makes a name that the schema or an earlier statement has.\<close>

definition unused_names :: "ddl list \<Rightarrow> schema \<Rightarrow> bool" where
  "unused_names ds s \<longleftrightarrow> distinct (relations_made ds) \<and> (\<forall>n \<in> set (relations_made ds). \<not> relation_exists n s) \<and>
     distinct (map fst (enums_made ds)) \<and> (\<forall>e \<in> set (map fst (enums_made ds)). map_of (sc_enums s) e = None)"

lemma knows_columnsD:
  assumes "knows T E s" "knows_columns T t ks"
  shows "has_columns t ks s"
  using assms unfolding knows_def knows_columns_def has_columns_def list_ex_iff list_all_iff
  by (fastforce split: option.split)

lemma type_resolvedD:
  assumes "knows T E s" "type_resolved E ty"
  shows "type_exists s ty"
  using assms unfolding knows_def type_resolved_def type_exists_def by (cases ty) auto

lemma constraint_resolvedD:
  assumes "knows T E s" "constraint_resolved T t cols c"
  shows "constraint_ok t cols s c"
  using assms unfolding knows_def constraint_resolved_def constraint_ok_def
  by (cases c) (fastforce simp: list_ex_iff split: option.split)+

lemma map_of_snoc: "map_of (xs @ [(k, v)]) j = (case map_of xs j of None \<Rightarrow> if j = k then Some v else None | Some w \<Rightarrow> Some w)"
  by (simp add: map_add_def map_of_append split: option.split)

lemma knows_table:
  assumes "knows T E s" "map_of (sc_tables s) t = None" "PrimaryKey ''id'' \<in> set (tb_constraints tb)"
  shows "knows ((t, column_names tb) # T) E (s\<lparr>sc_tables := sc_tables s @ [(t, tb)]\<rparr>)"
proof -
  have "\<exists>tb'. map_of (sc_tables s @ [(t, tb)]) u = Some tb' \<and> set cs \<subseteq> set (column_names tb') \<and>
      PrimaryKey ''id'' \<in> set (tb_constraints tb')" if "(u, cs) \<in> set T" for u cs
    using assms(1) that unfolding knows_def by (fastforce simp: map_of_snoc)
  moreover have "map_of (sc_tables s @ [(t, tb)]) t = Some tb" using assms(2) by (simp add: map_add_def)
  ultimately show ?thesis using assms(1,3) by (auto simp: knows_def)
qed

lemma knows_enum:
  assumes "knows T E s"
  shows "knows T (e # E) (s\<lparr>sc_enums := sc_enums s @ [(e, vs)]\<rparr>)"
  using assms by (auto simp: knows_def map_of_snoc split: option.split)

lemmas unused_names_defs = unused_names_def relations_made_def relation_exists_def has_table_def map_of_snoc

theorem creations_run:
  assumes "knows T E s" "script_resolved T E ds" "unused_names ds s"
  shows "exec_all ds s = ok (extended ds s)"
  using assms
proof (induction T E ds arbitrary: s rule: script_resolved.induct)
  case (1 T E)
  show ?case by (simp add: extended_def)
next
  case (2 T E e vs ds)
  let ?s = "s\<lparr>sc_enums := sc_enums s @ [(e, vs)]\<rparr>"
  have "exec (CreateEnum e vs) s = ok ?s" using 2(4) by (simp add: unused_names_def)
  moreover have "unused_names ds ?s"
    using 2(4) by (auto simp: unused_names_defs split: option.split)
  then have "exec_all ds ?s = ok (extended ds ?s)"
    using 2(1)[of ?s] 2(2,3) by (simp add: knows_enum)
  ultimately show ?case by (simp add: extended_def)
next
  case (3 T E t cols cs ds)
  let ?tb = "\<lparr>tb_columns = cols, tb_constraints = cs, tb_rls = False, tb_forced = False\<rparr>"
  let ?s = "s\<lparr>sc_tables := sc_tables s @ [(t, ?tb)]\<rparr>"
  have un: "\<not> relation_exists t s" using 3(4) by (simp add: unused_names_def relations_made_def)
  then have new: "map_of (sc_tables s) t = None" by (simp add: relation_exists_def has_table_def)
  have "list_all (\<lambda>c. type_exists s (col_type c)) cols" "list_all (constraint_ok t (map col_name cols) s) cs"
    using 3(2,3) by (auto simp: list_all_iff intro: type_resolvedD constraint_resolvedD)
  then have "exec (CreateTable t cols cs) s = ok ?s"
    using 3(3) un by simp
  moreover have "knows ((t, map col_name cols) # T) E ?s"
    using knows_table[OF 3(2) new, of ?tb] 3(3) by (simp add: column_names_def)
  moreover have "unused_names ds ?s"
    using 3(4) by (auto simp: unused_names_defs split: option.split)
  ultimately have "exec_all ds ?s = ok (extended ds ?s)"
    using 3(1)[of ?s] 3(3) by simp
  with \<open>exec (CreateTable t cols cs) s = ok ?s\<close> show ?case by (simp add: extended_def)
next
  case (4 T E b n i ds)
  let ?s = "s\<lparr>sc_indexes := sc_indexes s @ [(n, i)]\<rparr>"
  have "exec (CreateIndex b n i) s = ok ?s"
    using 4(3,4) knows_columnsD[OF 4(2)] by (simp add: unused_names_def relations_made_def)
  moreover have "knows T E ?s" using 4(2) by (simp add: knows_def)
  moreover have "unused_names ds ?s"
    using 4(4) by (auto simp: unused_names_defs split: option.split)
  ultimately show ?case using 4(1)[of ?s] 4(3) by (simp add: extended_def)
qed simp_all

subsection \<open>Policies and sequences\<close>

lemma fst_change_table [simp]: "map fst (change_table t f xs) = map fst xs"
  by (induction xs) auto

lemma map_of_change_table [simp]:
  "map_of (change_table t f xs) u = (if u = t then map_option f (map_of xs t) else map_of xs u)"
  by (induction xs) auto

lemma change_table_same:
  assumes "\<And>tb. map_of xs t = Some tb \<Longrightarrow> f tb = tb"
  shows "change_table t f xs = xs"
  using assms by (induction xs) auto

lemma has_table_on_table [simp]: "has_table u (on_table t f s) = has_table u s"
  by (simp add: has_table_def on_table_def)

definition protected :: "string \<Rightarrow> schema \<Rightarrow> schema" where
  "protected t = on_table t (\<lambda>tb. tb\<lparr>tb_rls := True, tb_forced := True\<rparr>)"

lemma change_table_twice [simp]: "change_table t g (change_table t f xs) = change_table t (\<lambda>tb. g (f tb)) xs"
  by (induction xs) auto

lemma rls_run:
  assumes "\<forall>t \<in> set ts. has_table t s"
  shows "exec_all (concat (map (\<lambda>t. [EnableRls t, ForceRls t]) ts)) s = ok (fold protected ts s)"
  using assms
proof (induction ts arbitrary: s)
  case (Cons t ts)
  then show ?case by (simp add: protected_def) (simp add: on_table_def)
qed simp

lemma policies_run:
  assumes "\<forall>(n, p) \<in> set ps. has_table (po_table p) s" "distinct (map (\<lambda>(n, p). (n, po_table p)) (sc_policies s @ ps))"
  shows "exec_all (map (\<lambda>(n, p). CreatePolicy n p) ps) s = ok (s\<lparr>sc_policies := sc_policies s @ ps\<rparr>)"
  using assms
proof (induction ps arbitrary: s)
  case (Cons q ps)
  obtain n p where q: "q = (n, p)" by (cases q)
  let ?s = "s\<lparr>sc_policies := sc_policies s @ [(n, p)]\<rparr>"
  have "(n, po_table p) \<notin> (\<lambda>(n, p). (n, po_table p)) ` set (sc_policies s)" using Cons.prems(2) q by auto
  then have "\<not> list_ex (\<lambda>(n', p'). n' = n \<and> po_table p' = po_table p) (sc_policies s)"
    unfolding list_ex_iff by force
  then have "exec (CreatePolicy n p) s = ok ?s" using Cons.prems(1) q by simp
  moreover have "exec_all (map (\<lambda>(n, p). CreatePolicy n p) ps) ?s = ok (?s\<lparr>sc_policies := sc_policies ?s @ ps\<rparr>)"
    using Cons.prems q by (intro Cons.IH) (simp_all add: has_table_def)
  ultimately show ?case using q by simp
qed simp

lemma sequences_run:
  assumes "distinct qs" "\<forall>q \<in> set qs. \<not> relation_exists q s"
  shows "exec_all (map CreateSequence qs) s = ok (s\<lparr>sc_sequences := sc_sequences s @ qs\<rparr>)"
  using assms
proof (induction qs arbitrary: s)
  case (Cons q qs)
  let ?s = "s\<lparr>sc_sequences := sc_sequences s @ [q]\<rparr>"
  have "exec_all (map CreateSequence qs) ?s = ok (?s\<lparr>sc_sequences := sc_sequences ?s @ qs\<rparr>)"
    using Cons.prems by (intro Cons.IH) (auto simp: relation_exists_def has_table_def)
  then show ?case using Cons.prems by simp
qed simp

subsection \<open>No dangling references\<close>

definition table_tidy :: "schema \<Rightarrow> table \<Rightarrow> bool" where
  "table_tidy s tb \<longleftrightarrow>
     (\<forall>c \<in> set (tb_constraints tb). (\<forall>k. mentions k c \<longrightarrow> k \<in> set (column_names tb)) \<and> (\<forall>u. refers_to u c \<longrightarrow> has_table u s)) \<and>
     (\<forall>c \<in> set (tb_columns tb). type_exists s (col_type c))"

definition tidy :: "schema \<Rightarrow> bool" where
  "tidy s \<longleftrightarrow> distinct (map fst (sc_tables s)) \<and>
     (\<forall>t tb. map_of (sc_tables s) t = Some tb \<longrightarrow> table_tidy s tb) \<and>
     (\<forall>(_, i) \<in> set (sc_indexes s). has_columns (ix_table i) (ix_columns i) s) \<and>
     (\<forall>(_, p) \<in> set (sc_policies s). has_table (po_table p) s) \<and>
     (\<forall>(_, g) \<in> set (sc_triggers s). has_table (tg_table g) s \<and> tg_function g \<in> set (sc_functions s))"

lemma constraint_okD:
  assumes "constraint_ok t cols s c"
  shows "mentions k c \<Longrightarrow> k \<in> set cols" "refers_to u c \<Longrightarrow> u = t \<or> has_table u s"
  using assms
  by (cases c; auto simp: constraint_ok_def mentions_def refers_to_def list_all_iff has_table_def split: option.splits)+


lemma tidy_on_table:
  assumes "tidy s" "\<And>tb. map_of (sc_tables s) t = Some tb \<Longrightarrow> table_tidy s (f tb)"
    "\<And>tb. set (column_names tb) \<subseteq> set (column_names (f tb))"
  shows "tidy (on_table t f s)"
proof -
  have "has_columns u ks (on_table t f s)" if "has_columns u ks s" for u ks
    using that assms(3) unfolding has_columns_def on_table_def
    by (fastforce simp: list_all_iff split: option.splits)
  moreover have "type_exists (on_table t f s) ty = type_exists s ty" for ty
    by (simp add: type_exists_def on_table_def split: sql_type.split)
  then have "table_tidy (on_table t f s) tb = table_tidy s tb" for tb
    by (simp add: table_tidy_def)
  ultimately show ?thesis using assms(1,2)
    by (fastforce simp: tidy_def on_table_def has_table_def)
qed

lemma tidy_grow:
  assumes "tidy s" "sc_tables s1 = sc_tables s" "set (sc_functions s) \<subseteq> set (sc_functions s1)"
    "\<And>e. map_of (sc_enums s) e \<noteq> None \<Longrightarrow> map_of (sc_enums s1) e \<noteq> None"
    "\<And>n i. (n, i) \<in> set (sc_indexes s1) \<Longrightarrow> has_columns (ix_table i) (ix_columns i) s"
    "\<And>n p. (n, p) \<in> set (sc_policies s1) \<Longrightarrow> has_table (po_table p) s"
    "\<And>n g. (n, g) \<in> set (sc_triggers s1) \<Longrightarrow> has_table (tg_table g) s \<and> tg_function g \<in> set (sc_functions s1)"
  shows "tidy s1"
proof -
  have "type_exists s1 ty" if "type_exists s ty" for ty
    using that assms(4) by (auto simp: type_exists_def split: sql_type.splits)
  then have "table_tidy s1 tb" if "table_tidy s tb" for tb
    using that assms(2) by (auto simp: table_tidy_def has_table_def)
  then show ?thesis using assms(1-3,5-7) by (fastforce simp: tidy_def has_columns_def has_table_def)
qed


lemma map_of_without:
  "map_of (map (\<lambda>(n, x). (n, f x)) (filter (\<lambda>(n, _). n \<noteq> t) xs)) u = (if u = t then None else map_option f (map_of xs u))"
  by (induction xs) auto

lemma fst_without:
  "map fst (map (\<lambda>(n, x). (n, f x)) (filter (\<lambda>(n, _). n \<noteq> t) xs)) = filter (\<lambda>u. u \<noteq> t) (map fst xs)"
  by (induction xs) auto

lemma tidy_drop_table:
  assumes "tidy s"
  shows "tidy (drop_table t s)"
proof -
  let ?cut = "\<lambda>tb. tb\<lparr>tb_constraints := filter (\<lambda>c. \<not> refers_to t c) (tb_constraints tb)\<rparr>"
  have look: "map_of (sc_tables (drop_table t s)) u = (if u = t then None else map_option ?cut (map_of (sc_tables s) u))" for u
    by (simp add: drop_table_def map_of_without)
  have names: "distinct (map fst (sc_tables (drop_table t s)))"
    using assms fst_without[of ?cut t "sc_tables s"] by (simp add: drop_table_def tidy_def)
  have has: "has_table u (drop_table t s) \<longleftrightarrow> u \<noteq> t \<and> has_table u s" for u
    by (simp add: has_table_def look)
  have "has_columns u ks (drop_table t s) \<longleftrightarrow> u \<noteq> t \<and> has_columns u ks s" for u ks
    by (simp add: has_columns_def look column_names_def split: option.split)
  moreover have ty: "type_exists (drop_table t s) ty = type_exists s ty" for ty
    by (simp add: type_exists_def drop_table_def split: sql_type.split)
  have "table_tidy (drop_table t s) (?cut tb)" if "table_tidy s tb" for tb
    using that by (auto simp: table_tidy_def ty has column_names_def)
  ultimately show ?thesis using assms names unfolding tidy_def has
    by (fastforce simp: look simp del: map_map simp: drop_table_def)
qed

lemma tidy_drop_column:
  assumes "tidy s"
  shows "tidy (drop_column t k s)"
proof -
  let ?cut = "\<lambda>tb. tb\<lparr>tb_columns := filter (\<lambda>c. col_name c \<noteq> k) (tb_columns tb),
    tb_constraints := filter (\<lambda>c. \<not> mentions k c) (tb_constraints tb)\<rparr>"
  have look: "map_of (sc_tables (drop_column t k s)) u =
      (if u = t then map_option ?cut (map_of (sc_tables s) t) else map_of (sc_tables s) u)" for u
    by (simp add: drop_column_def on_table_def)
  have has: "has_table u (drop_column t k s) \<longleftrightarrow> has_table u s" for u
    by (simp add: has_table_def look)
  have "has_columns u ks (drop_column t k s)" if "has_columns u ks s" "u \<noteq> t \<or> k \<notin> set ks" for u ks
    using that unfolding has_columns_def look column_names_def by (fastforce simp: list_all_iff split: option.splits)
  moreover have ty: "type_exists (drop_column t k s) ty = type_exists s ty" for ty
    by (simp add: type_exists_def drop_column_def on_table_def split: sql_type.split)
  have "table_tidy (drop_column t k s) tb" "table_tidy (drop_column t k s) (?cut tb)" if "table_tidy s tb" for tb
    using that by (auto simp: table_tidy_def ty has column_names_def)
  moreover have "sc_indexes (drop_column t k s) = filter (\<lambda>(_, i). \<not> (ix_table i = t \<and> k \<in> set (ix_columns i))) (sc_indexes s)"
    "sc_policies (drop_column t k s) = sc_policies s" "sc_triggers (drop_column t k s) = sc_triggers s"
    "sc_functions (drop_column t k s) = sc_functions s"
    "map fst (sc_tables (drop_column t k s)) = map fst (sc_tables s)"
    by (simp_all add: drop_column_def on_table_def)
  moreover have "table_tidy (drop_column t k s) tb" if "map_of (sc_tables (drop_column t k s)) u = Some tb" for u tb
    using that assms \<open>\<And>tb. table_tidy s tb \<Longrightarrow> table_tidy (drop_column t k s) tb\<close>
      \<open>\<And>tb. table_tidy s tb \<Longrightarrow> table_tidy (drop_column t k s) (?cut tb)\<close>
    unfolding tidy_def look by (auto split: if_splits)
  ultimately show ?thesis using assms unfolding tidy_def has by fastforce
qed

lemma tidy_enum_dropped:
  assumes "tidy s" "\<not> enum_in_use e s"
  shows "tidy (s\<lparr>sc_enums := filter (\<lambda>(e', _). e' \<noteq> e) (sc_enums s)\<rparr>)"
proof -
  let ?s = "s\<lparr>sc_enums := filter (\<lambda>(e', _). e' \<noteq> e) (sc_enums s)\<rparr>"
  have other: "map_of (filter (\<lambda>(e', _). e' \<noteq> e) xs) e2 = (if e2 = e then None else map_of xs e2)" for xs :: "(string \<times> string list) list" and e2
    by (induction xs) auto
  have "table_tidy ?s tb" if "map_of (sc_tables s) t = Some tb" "table_tidy s tb" for t tb
    using that assms(2) map_of_SomeD[OF that(1)]
    by (fastforce simp: table_tidy_def type_exists_def enum_in_use_def list_ex_iff has_table_def other split: sql_type.splits)
  then show ?thesis using assms(1) by (fastforce simp: tidy_def has_columns_def has_table_def)
qed

lemma tidyD:
  assumes "tidy s"
  shows "(n, i) \<in> set (sc_indexes s) \<Longrightarrow> has_columns (ix_table i) (ix_columns i) s"
    "(n, p) \<in> set (sc_policies s) \<Longrightarrow> has_table (po_table p) s"
    "(n, g) \<in> set (sc_triggers s) \<Longrightarrow> has_table (tg_table g) s"
    "(n, g) \<in> set (sc_triggers s) \<Longrightarrow> tg_function g \<in> set (sc_functions s)"
    "map_of (sc_tables s) t = Some tb \<Longrightarrow> table_tidy s tb"
  using assms unfolding tidy_def by blast+

lemma tidy_new_table:
  assumes "tidy s" "map_of (sc_tables s) t = None" "list_all (\<lambda>c. type_exists s (col_type c)) (tb_columns tb)"
    "list_all (constraint_ok t (column_names tb) s) (tb_constraints tb)"
  shows "tidy (s\<lparr>sc_tables := sc_tables s @ [(t, tb)]\<rparr>)"
proof -
  let ?s = "s\<lparr>sc_tables := sc_tables s @ [(t, tb)]\<rparr>"
  have look: "map_of (sc_tables ?s) u = (if u = t then Some tb else map_of (sc_tables s) u)" for u
    using assms(2) by (auto simp: map_add_def split: option.split)
  have has: "has_table u ?s \<longleftrightarrow> u = t \<or> has_table u s" for u by (simp add: has_table_def look)
  have ty: "type_exists ?s ty = type_exists s ty" for ty by (simp add: type_exists_def split: sql_type.split)
  have "table_tidy ?s tb" using assms(3,4) constraint_okD[of t "column_names tb" s]
    unfolding table_tidy_def list_all_iff has ty by blast
  moreover have "table_tidy ?s tb'" if "table_tidy s tb'" for tb' using that by (auto simp: table_tidy_def has ty)
  moreover have "has_columns u ks ?s" if "has_columns u ks s" for u ks
    using that assms(2) by (auto simp: has_columns_def look split: option.splits)
  moreover have "distinct (map fst (sc_tables ?s))"
    using assms(1,2) by (simp add: tidy_def map_of_eq_None_iff)
  moreover have "\<forall>(n, i) \<in> set (sc_indexes s). has_columns (ix_table i) (ix_columns i) ?s"
    using calculation(3) tidyD(1)[OF assms(1)] by blast
  moreover have "\<forall>(n, p) \<in> set (sc_policies s). has_table (po_table p) ?s"
    using tidyD(2)[OF assms(1)] has by blast
  moreover have "\<forall>(n, g) \<in> set (sc_triggers s). has_table (tg_table g) ?s \<and> tg_function g \<in> set (sc_functions s)"
    using tidyD(3,4)[OF assms(1)] has by blast
  moreover have "table_tidy ?s tb'" if "map_of (sc_tables ?s) u = Some tb'" for u tb'
    using that calculation(1,2) tidyD(5)[OF assms(1)] unfolding look by (auto split: if_splits)
  ultimately show ?thesis unfolding tidy_def by simp
qed

theorem exec_tidy:
  assumes "tidy s" "exec d s = ok s1"
  shows "tidy s1"
proof (cases d)
  case (CreateExtension e)
  then show ?thesis using assms by (auto intro!: tidy_grow[OF assms(1)] dest: tidyD[OF assms(1)] split: if_splits)
next
  case (CreateEnum e vs)
  then show ?thesis using assms by (auto intro!: tidy_grow[OF assms(1)] dest: tidyD[OF assms(1)] simp: refuse_def split: if_splits)
next
  case (CreateTable t cols cs)
  then show ?thesis using assms
    by (auto intro!: tidy_new_table simp: refuse_def relation_exists_def has_table_def column_names_def split: if_splits)
next
  case (CreateIndex b n i)
  then show ?thesis using assms by (auto intro!: tidy_grow[OF assms(1)] dest: tidyD[OF assms(1)] simp: refuse_def split: if_splits)
next
  case (EnableRls t)
  then show ?thesis using assms
    by (auto intro!: tidy_on_table dest!: tidyD(5)[OF assms(1)] simp: refuse_def table_tidy_def column_names_def split: if_splits)
next
  case (ForceRls t)
  then show ?thesis using assms
    by (auto intro!: tidy_on_table dest!: tidyD(5)[OF assms(1)] simp: refuse_def table_tidy_def column_names_def split: if_splits)
next
  case (CreatePolicy n p)
  then show ?thesis using assms by (auto intro!: tidy_grow[OF assms(1)] dest: tidyD[OF assms(1)] simp: refuse_def split: if_splits)
next
  case (CreateSequence q)
  then show ?thesis using assms by (auto intro!: tidy_grow[OF assms(1)] dest: tidyD[OF assms(1)] split: if_splits)
next
  case (CreateFunction f)
  then show ?thesis using assms by (auto intro!: tidy_grow[OF assms(1)] dest: tidyD[OF assms(1)] split: if_splits)
next
  case (CreateTrigger n g)
  then show ?thesis using assms
    by (auto intro!: tidy_grow[OF assms(1)] dest: tidyD[OF assms(1)] simp: refuse_def split: if_splits)
next
  case (AddColumn b t c)
  then show ?thesis using assms
    by (auto intro!: tidy_on_table dest!: tidyD(5)[OF assms(1)] simp: refuse_def table_tidy_def column_names_def split: if_splits)
next
  case (AddCheck t n ks e)
  let ?f = "\<lambda>tb. tb\<lparr>tb_constraints := tb_constraints tb @ [Check (Some n) ks e]\<rparr>"
  obtain tb where tb: "map_of (sc_tables s) t = Some tb" "has_columns t ks s" "s1 = on_table t ?f s"
    using assms(2) AddCheck by (auto simp: refuse_def split: if_splits option.splits)
  then have "table_tidy s (?f tb)"
    using tidyD(5)[OF assms(1)]
    by (auto simp: table_tidy_def column_names_def has_columns_def list_all_iff mentions_def refers_to_def)
  then show ?thesis using tb by (auto intro!: tidy_on_table[OF assms(1)] simp: column_names_def)
next
  case (DropColumn b t k)
  then show ?thesis using assms by (auto intro: tidy_drop_column simp: refuse_def split: if_splits)
next
  case (DropCheck t n)
  then show ?thesis using assms
    by (auto intro!: tidy_on_table dest!: tidyD(5)[OF assms(1)] simp: refuse_def table_tidy_def column_names_def split: if_splits)
next
  case (DropIndex n)
  then show ?thesis using assms by (auto intro!: tidy_grow[OF assms(1)] dest: tidyD[OF assms(1)])
next
  case (DropTrigger n t)
  then show ?thesis using assms by (auto intro!: tidy_grow[OF assms(1)] dest: tidyD[OF assms(1)] split: if_splits)
next
  case (DropFunction f)
  then have "s1 = s\<lparr>sc_functions := filter (\<lambda>f'. f' \<noteq> f) (sc_functions s)\<rparr>" "\<forall>(_, g) \<in> set (sc_triggers s). tg_function g \<noteq> f"
    using assms(2) by (auto simp: refuse_def list_ex_iff split: if_splits)
  then show ?thesis using assms(1)
    by (fastforce simp: tidy_def has_table_def has_columns_def table_tidy_def type_exists_def split: sql_type.splits)
next
  case (DropSequence q)
  then show ?thesis using assms by (auto intro!: tidy_grow[OF assms(1)] dest: tidyD[OF assms(1)])
next
  case (DropTable t)
  then show ?thesis using assms by (auto intro: tidy_drop_table split: if_splits)
next
  case (DropEnum b e)
  then show ?thesis using assms by (auto intro: tidy_enum_dropped simp: refuse_def split: if_splits)
qed

lemma exec_all_tidy: "tidy s \<Longrightarrow> exec_all ds s = ok s1 \<Longrightarrow> tidy s1"
  by (induction ds arbitrary: s) (auto split: sum.splits intro: exec_tidy)

lemma tidy_empty [simp]: "tidy empty_schema"
  by (simp add: tidy_def empty_schema_def)

subsection \<open>Undoing\<close>

text \<open>The first statement drops what the second one makes.\<close>

definition undoes :: "ddl \<Rightarrow> ddl \<Rightarrow> bool" where
  "undoes u d = (case d of
      CreateEnum e _ \<Rightarrow> (\<exists>b \<in> {True, False}. u = DropEnum b e)
    | CreateIndex _ n _ \<Rightarrow> u = DropIndex n
    | AddColumn _ t c \<Rightarrow> (\<exists>b \<in> {True, False}. u = DropColumn b t (col_name c))
    | AddCheck t n _ _ \<Rightarrow> u = DropCheck t n
    | _ \<Rightarrow> False)"

text \<open>Whether IF NOT EXISTS skips nothing.\<close>

fun adds :: "ddl \<Rightarrow> schema \<Rightarrow> bool" where
  "adds (CreateIndex _ n _) s \<longleftrightarrow> \<not> relation_exists n s"
| "adds (AddColumn _ t c) s \<longleftrightarrow> \<not> has_columns t [col_name c] s"
| "adds _ s \<longleftrightarrow> True"

fun all_add :: "ddl list \<Rightarrow> schema \<Rightarrow> bool" where
  "all_add [] s \<longleftrightarrow> True"
| "all_add (d # ds) s \<longleftrightarrow> adds d s \<and> (case exec d s of Inl _ \<Rightarrow> True | Inr s1 \<Rightarrow> all_add ds s1)"

lemma filter_fresh: "map_of xs n = None \<Longrightarrow> filter (\<lambda>(n', _). n' \<noteq> n) xs = xs"
  by (induction xs) (auto split: if_splits)

lemma column_undone:
  assumes "tidy s" "has_table t s" "\<not> has_columns t [col_name c] s"
  shows "drop_column t (col_name c) (on_table t (\<lambda>tb. tb\<lparr>tb_columns := tb_columns tb @ [c]\<rparr>) s) = s"
proof -
  let ?cut = "\<lambda>tb. tb\<lparr>tb_columns := filter (\<lambda>d. col_name d \<noteq> col_name c) (tb_columns tb @ [c]),
      tb_constraints := filter (\<lambda>d. \<not> mentions (col_name c) d) (tb_constraints tb)\<rparr>"
  have "?cut tb = tb" if "map_of (sc_tables s) t = Some tb" for tb
  proof -
    have "col_name c \<notin> set (column_names tb)" using that assms(3) by (simp add: has_columns_def)
    moreover have "\<forall>d \<in> set (tb_constraints tb). \<not> mentions (col_name c) d"
      using calculation tidyD(5)[OF assms(1) that] unfolding table_tidy_def by blast
    moreover have "\<forall>d \<in> set (tb_columns tb). col_name d \<noteq> col_name c"
      using calculation(1) unfolding column_names_def by (metis image_eqI set_map)
    ultimately have "filter (\<lambda>d. col_name d \<noteq> col_name c) (tb_columns tb) = tb_columns tb"
      "filter (\<lambda>d. \<not> mentions (col_name c) d) (tb_constraints tb) = tb_constraints tb"
      by (simp_all add: filter_id_conv)
    then show ?thesis by simp
  qed
  then have "change_table t ?cut (sc_tables s) = sc_tables s" by (rule change_table_same)
  moreover have "\<not> (ix_table i = t \<and> (col_name c) \<in> set (ix_columns i))" if "(n, i) \<in> set (sc_indexes s)" for n i
    using tidyD(1)[OF assms(1) that] assms(3) by (auto simp: has_columns_def list_all_iff split: option.splits)
  then have "filter (\<lambda>(_, i). \<not> (ix_table i = t \<and> (col_name c) \<in> set (ix_columns i))) (sc_indexes s) = sc_indexes s"
    by (auto simp: filter_id_conv)
  ultimately show ?thesis by (simp add: drop_column_def on_table_def)
qed

lemma step_undone:
  assumes "tidy s" "adds d s" "exec d s = ok s1" "undoes u d"
  shows "exec u s1 = ok s"
proof (cases d)
  case (CreateEnum e vs)
  then have new: "map_of (sc_enums s) e = None" "s1 = s\<lparr>sc_enums := sc_enums s @ [(e, vs)]\<rparr>"
    using assms(3) by (auto simp: refuse_def split: if_splits)
  have "\<not> enum_in_use e s"
    using assms(1) new(1) unfolding tidy_def table_tidy_def enum_in_use_def list_ex_iff
    by (fastforce simp: type_exists_def)
  then show ?thesis using new assms(4) CreateEnum by (auto simp: undoes_def enum_in_use_def filter_fresh map_add_def)
next
  case (CreateIndex b n i)
  then show ?thesis using assms(2-4) by (auto simp: undoes_def refuse_def relation_exists_def filter_fresh split: if_splits)
next
  case (AddColumn b t c)
  then have new: "has_table t s" "\<not> has_columns t [col_name c] s"
    "s1 = on_table t (\<lambda>tb. tb\<lparr>tb_columns := tb_columns tb @ [c]\<rparr>) s"
    using assms(2,3) by (auto simp: refuse_def split: if_splits)
  moreover have "has_columns t [col_name c] s1"
    using new by (auto simp: has_columns_def has_table_def on_table_def column_names_def)
  ultimately show ?thesis using column_undone[OF assms(1) new(1,2)] assms(4) AddColumn by (auto simp: undoes_def)
next
  case (AddCheck t n ks e)
  then obtain tb where new: "map_of (sc_tables s) t = Some tb" "\<not> list_ex (is_check n) (tb_constraints tb)"
    "s1 = on_table t (\<lambda>tb. tb\<lparr>tb_constraints := tb_constraints tb @ [Check (Some n) ks e]\<rparr>) s"
    using assms(3) by (auto simp: refuse_def split: if_splits option.splits)
  have "filter (\<lambda>c. \<not> is_check n c) (tb_constraints tb @ [Check (Some n) ks e]) = tb_constraints tb"
    using new(2) by (auto simp: filter_id_conv list_ex_iff is_check_def)
  then have "change_table t (\<lambda>tb. tb\<lparr>tb_constraints := filter (\<lambda>c. \<not> is_check n c) (tb_constraints tb @ [Check (Some n) ks e])\<rparr>)
      (sc_tables s) = sc_tables s"
    using new(1) by (intro change_table_same) auto
  then show ?thesis using new assms(4) AddCheck by (simp add: undoes_def on_table_def has_table_def)
qed (use assms(4) in \<open>simp_all add: undoes_def\<close>)

theorem script_undone:
  assumes "tidy s" "all_add ds s" "exec_all ds s = ok s1" "list_all2 undoes us (rev ds)"
  shows "exec_all us s1 = ok s"
  using assms
proof (induction ds arbitrary: s us)
  case (Cons d ds)
  then obtain s2 where s2: "exec d s = ok s2" "exec_all ds s2 = ok s1" by (auto split: sum.splits)
  obtain vs u where us: "us = vs @ [u]" "list_all2 undoes vs (rev ds)" "undoes u d"
    using Cons.prems(4) by (auto simp: list_all2_append2 list_all2_Cons2)
  have "exec_all vs s1 = ok s2"
    using Cons.IH[OF exec_tidy[OF Cons.prems(1) s2(1)] _ s2(2) us(2)] Cons.prems(2) s2(1) by simp
  then show ?case
    using step_undone[OF Cons.prems(1) _ s2(1) us(3)] Cons.prems(2) us(1) by (simp add: exec_all_append)
qed simp

subsection \<open>Scripts that alter tables\<close>

text \<open>The check for a script that adds columns, named checks, types and indexes to the tables of \<open>T\<close>: \<open>C\<close> holds the
  names of checks, \<open>R\<close> those of relations and \<open>E\<close> those of types.\<close>

fun alters :: "(string \<times> string list) list \<Rightarrow> (string \<times> string) list \<Rightarrow> string list \<Rightarrow> string list \<Rightarrow> ddl list \<Rightarrow> bool" where
  "alters T C R E [] = True"
| "alters T C R E (CreateExtension e # ds) = alters T C R E ds"
| "alters T C R E (CreateEnum e _ # ds) = (\<not> e \<in> set E \<and> alters T C R (e # E) ds)"
| "alters T C R E (CreateIndex _ n i # ds) = (n \<notin> set R \<and>
     (case map_of T (ix_table i) of None \<Rightarrow> False | Some cs \<Rightarrow> list_all (\<lambda>k. k \<in> set cs) (ix_columns i)) \<and> alters T C (n # R) E ds)"
| "alters T C R E (AddColumn _ t c # ds) = (case map_of T t of
     None \<Rightarrow> False
   | Some cs \<Rightarrow> \<not> (col_name c) \<in> set cs \<and> type_resolved E (col_type c) \<and> alters ((t, col_name c # cs) # T) C R E ds)"
| "alters T C R E (AddCheck t n ks _ # ds) = (case map_of T t of
     None \<Rightarrow> False
   | Some cs \<Rightarrow> list_all (\<lambda>k. k \<in> set cs) ks \<and> \<not> (t, n) \<in> set C \<and> alters T ((t, n) # C) R E ds)"
| "alters T C R E (_ # ds) = False"

definition described :: "(string \<times> string list) list \<Rightarrow> (string \<times> string) list \<Rightarrow> string list \<Rightarrow> string list \<Rightarrow> schema \<Rightarrow> bool" where
  "described T C R E s \<longleftrightarrow>
     (\<forall>t cs. map_of T t = Some cs \<longrightarrow> (\<exists>tb. map_of (sc_tables s) t = Some tb \<and> set (column_names tb) = set cs \<and>
        (\<forall>n. list_ex (is_check n) (tb_constraints tb) \<longrightarrow> (t, n) \<in> set C))) \<and>
     (\<forall>n. relation_exists n s \<longrightarrow> n \<in> set R) \<and>
     (\<forall>e. map_of (sc_enums s) e \<noteq> None \<longleftrightarrow> e \<in> set E)"

lemma describedD:
  assumes "described T C R E s" "map_of T t = Some cs"
  obtains tb where "map_of (sc_tables s) t = Some tb" "set (column_names tb) = set cs"
    "\<And>n. list_ex (is_check n) (tb_constraints tb) \<Longrightarrow> (t, n) \<in> set C"
  using assms unfolding described_def by blast

lemma relation_exists_on_table [simp]: "relation_exists n (on_table t f s) = relation_exists n s"
  by (simp add: relation_exists_def) (simp add: on_table_def)

lemma described_on_table:
  assumes "described T C R E s" "map_of (sc_tables s) t = Some tb" "set cs = set (column_names (f tb))"
    "\<And>n. list_ex (is_check n) (tb_constraints (f tb)) \<Longrightarrow> (t, n) \<in> set C'" "set C \<subseteq> set C'"
  shows "described ((t, cs) # T) C' R E (on_table t f s)"
proof -
  have "\<exists>tb'. map_of (sc_tables (on_table t f s)) u = Some tb' \<and> set (column_names tb') = set ds \<and>
      (\<forall>n. list_ex (is_check n) (tb_constraints tb') \<longrightarrow> (u, n) \<in> set C')"
    if "map_of ((t, cs) # T) u = Some ds" for u ds
  proof (cases "u = t")
    case True
    then show ?thesis using that assms(2-4) by (auto simp: on_table_def)
  next
    case False
    then have "map_of T u = Some ds" using that by simp
    then obtain tb' where "map_of (sc_tables s) u = Some tb'" "set (column_names tb') = set ds"
        "\<And>n. list_ex (is_check n) (tb_constraints tb') \<Longrightarrow> (u, n) \<in> set C"
      using describedD[OF assms(1)] by blast
    then show ?thesis using False assms(5) by (auto simp: on_table_def)
  qed
  then show ?thesis using assms(1) by (simp add: described_def) (simp add: on_table_def)
qed

lemma described_cong: "map_of T = map_of T' \<Longrightarrow> described T C R E s = described T' C R E s"
  by (simp add: described_def)

theorem alterations_run:
  assumes "described T C R E s" "alters T C R E ds"
  shows "\<exists>s1. exec_all ds s = ok s1 \<and> all_add ds s"
  using assms
proof (induction T C R E ds arbitrary: s rule: alters.induct)
  case (2 T C R E e ds)
  have "described T C R E (s\<lparr>sc_extensions := sc_extensions s @ [e]\<rparr>)"
    using 2(2) by (simp add: described_def relation_exists_def has_table_def)
  then show ?case using 2(1)[of s] 2(1)[of "s\<lparr>sc_extensions := sc_extensions s @ [e]\<rparr>"] 2(2,3) by auto
next
  case (3 T C R E e vs ds)
  let ?s = "s\<lparr>sc_enums := sc_enums s @ [(e, vs)]\<rparr>"
  have "map_of (sc_enums s) e = None" using 3(2,3) by (auto simp: described_def)
  moreover have "map_of (sc_enums s) e2 \<noteq> None \<longleftrightarrow> e2 \<in> set E" for e2
    using 3(2) unfolding described_def by blast
  from this[of e2 for e2] have "map_of (sc_enums ?s) e2 \<noteq> None \<longleftrightarrow> e2 \<in> set (e # E)" for e2
    by (cases "e2 \<in> set E") (auto simp: map_add_def split: option.split)
  then have "described T C R (e # E) ?s"
    using 3(2) unfolding described_def by (simp add: relation_exists_def has_table_def)
  ultimately show ?case using 3(1)[of ?s] 3(3) by auto
next
  case (4 T C R E b n i ds)
  let ?s = "s\<lparr>sc_indexes := sc_indexes s @ [(n, i)]\<rparr>"
  have new: "\<not> relation_exists n s" using 4(2,3) by (auto simp: described_def)
  obtain cs where cs: "map_of T (ix_table i) = Some cs" "list_all (\<lambda>k. k \<in> set cs) (ix_columns i)" "alters T C (n # R) E ds"
    using 4(3) by (auto split: option.splits)
  obtain tb where "map_of (sc_tables s) (ix_table i) = Some tb" "set (column_names tb) = set cs"
      "\<And>m. list_ex (is_check m) (tb_constraints tb) \<Longrightarrow> (ix_table i, m) \<in> set C"
    using describedD[OF 4(2) cs(1)] by blast
  then have "has_columns (ix_table i) (ix_columns i) s"
    using cs(2) by (auto simp: has_columns_def list_all_iff)
  moreover have "relation_exists m ?s \<longleftrightarrow> relation_exists m s \<or> m = n" for m
    by (auto simp: relation_exists_def has_table_def map_add_def split: option.split)
  then have "described T C (n # R) E ?s"
    using 4(2) unfolding described_def by simp
  ultimately show ?case using 4(1)[of ?s] new cs(3) by auto
next
  case (5 T C R E b t c ds)
  let ?f = "\<lambda>tb. tb\<lparr>tb_columns := tb_columns tb @ [c]\<rparr>"
  obtain cs where cs: "map_of T t = Some cs" "\<not> (col_name c) \<in> set cs" "type_resolved E (col_type c)"
      "alters ((t, col_name c # cs) # T) C R E ds"
    using 5(3) by (auto split: option.splits)
  obtain tb where tb: "map_of (sc_tables s) t = Some tb" "set (column_names tb) = set cs"
      "\<And>n. list_ex (is_check n) (tb_constraints tb) \<Longrightarrow> (t, n) \<in> set C"
    using describedD[OF 5(2) cs(1)] by blast
  have "has_table t s" "\<not> has_columns t [col_name c] s" using tb(1,2) cs(2) by (simp_all add: has_table_def has_columns_def)
  moreover have "type_exists s (col_type c)"
    using cs(3) 5(2) by (cases "col_type c") (auto simp: type_exists_def type_resolved_def described_def)
  moreover have "described ((t, col_name c # cs) # T) C R E (on_table t ?f s)"
    using described_on_table[OF 5(2) tb(1), of "col_name c # cs" ?f C] tb(2,3) by (auto simp: column_names_def)
  ultimately show ?case using 5(1)[OF cs(1), of "on_table t ?f s"] cs(4) by auto
next
  case (6 T C R E t n ks e ds)
  let ?f = "\<lambda>tb. tb\<lparr>tb_constraints := tb_constraints tb @ [Check (Some n) ks e]\<rparr>"
  obtain cs where cs: "map_of T t = Some cs" "list_all (\<lambda>k. k \<in> set cs) ks" "\<not> (t, n) \<in> set C"
      "alters T ((t, n) # C) R E ds"
    using 6(3) by (auto split: option.splits)
  obtain tb where tb: "map_of (sc_tables s) t = Some tb" "set (column_names tb) = set cs"
      "\<And>n. list_ex (is_check n) (tb_constraints tb) \<Longrightarrow> (t, n) \<in> set C"
    using describedD[OF 6(2) cs(1)] by blast
  have new: "\<not> list_ex (is_check n) (tb_constraints tb)" "has_columns t ks s"
    using tb cs(2,3) by (auto simp: has_columns_def list_all_iff)
  have "described ((t, cs) # T) ((t, n) # C) R E (on_table t ?f s)"
    using described_on_table[OF 6(2) tb(1), of cs ?f "(t, n) # C"] tb(2,3)
    by (auto simp: column_names_def is_check_def)
  then have "described T ((t, n) # C) R E (on_table t ?f s)"
    by (rule described_cong[THEN iffD1, rotated]) (use cs(1) in \<open>simp add: fun_upd_idem\<close>)
  then show ?case using 6(1)[OF cs(1), of "on_table t ?f s"] cs(4) tb(1) new by auto
qed simp_all

end
