(* ===== verification/MigrationProperties.thy ===== *)
theory MigrationProperties
  imports MigrationFacts
begin

section \<open>The migrations apply and are reversed\<close>

text \<open>
  The tables, indexes and types of the initial schema pass the static check; its security policies,
  sequences, functions and triggers are added to them. The later migrations alter that schema, and
  the down scripts lead back.
\<close>

subsection \<open>The initial schema\<close>

definition initial_creation :: "ddl list" where
  "initial_creation = initial_enums @ account_tables @ catalogue_tables @ exam_tables @ commerce_tables @ internal_tables"

definition created :: schema where
  "created = extended initial_creation (empty_schema\<lparr>sc_extensions := [''pgcrypto'']\<rparr>)"

lemma initial_resolved: "script_resolved [] [] initial_creation"
  by code_simp

lemma initial_relations: "distinct (relations_made initial_creation)"
  by code_simp

lemma initial_types:
  "map fst (enums_made initial_creation) = [''admin_role_enum'', ''exam_status_enum'', ''question_type_enum'',
     ''attempt_status_enum'', ''test_session_status_enum'', ''payment_type_enum'', ''transaction_status_enum'',
     ''discount_type_enum'', ''notification_status_enum'', ''token_owner_type_enum'', ''blog_status_enum'',
     ''auth_token_purpose_enum'']"
  by code_simp

lemma initial_names:
  "map fst (tables_made initial_creation) = [''users'', ''admin_users'', ''certificates'', ''learning_modules'', ''lessons'',
     ''lesson_quizzes'', ''quiz_questions'', ''exams'', ''exam_questions'', ''exam_question_options'',
     ''exam_access_codes'', ''exam_attempts'', ''test_sessions'', ''student_purchases'', ''student_progress'',
     ''promo_codes'', ''transactions'', ''issued_certificates'', ''processed_webhooks'', ''admin_audit_logs'',
     ''notification_templates'', ''notification_queue'', ''refresh_tokens'', ''rate_limit_blocks'',
     ''blog_articles'', ''auth_tokens'']"
  by code_simp

lemma creation_runs: "exec_all (CreateExtension ''pgcrypto'' # initial_creation) empty_schema = ok created"
proof -
  have "unused_names initial_creation (empty_schema\<lparr>sc_extensions := [''pgcrypto'']\<rparr>)"
    using initial_relations unfolding unused_names_def initial_types
    by (simp add: relation_exists_def has_table_def empty_schema_def)
  then have "exec_all initial_creation (empty_schema\<lparr>sc_extensions := [''pgcrypto'']\<rparr>) = ok created"
    unfolding created_def using initial_resolved by (intro creations_run) (auto simp: knows_def)
  then show ?thesis by (simp add: empty_schema_def)
qed

lemma has_table_names: "has_table t s \<longleftrightarrow> t \<in> set (map fst (sc_tables s))"
  by (simp add: has_table_def map_of_eq_None_iff)

lemma created_tables: "has_table t created \<longleftrightarrow> t \<in> set (map fst (tables_made initial_creation))"
  by (simp add: has_table_names created_def extended_def empty_schema_def)

lemma functions_run:
  assumes "has_table ''certificates'' s" "has_table ''exams'' s" "has_table ''admin_users'' s"
    "has_table ''transactions'' s" "has_table ''issued_certificates'' s"
    "sc_triggers s = []" "sc_functions s = []"
  shows "exec_all initial_functions s =
    ok (s\<lparr>sc_functions := functions_made initial_functions, sc_triggers := triggers_made initial_functions\<rparr>)"
  using assms unfolding initial_functions_def row_trigger_def
  by (simp add: has_table_def)

definition initial_schema :: schema where
  "initial_schema = (fold protected rls_tables created)\<lparr>sc_policies := policies_made initial_rls,
     sc_sequences := map (\<lambda>code. ''cert_seq_'' @ toLowerCase code) programCodes,
     sc_functions := functions_made initial_functions, sc_triggers := triggers_made initial_functions\<rparr>"

lemma protected_fields [simp]:
  "sc_indexes (fold protected ts s) = sc_indexes s" "sc_policies (fold protected ts s) = sc_policies s"
  "sc_triggers (fold protected ts s) = sc_triggers s" "sc_functions (fold protected ts s) = sc_functions s"
  "sc_sequences (fold protected ts s) = sc_sequences s" "sc_enums (fold protected ts s) = sc_enums s"
  "sc_extensions (fold protected ts s) = sc_extensions s"
  "map fst (sc_tables (fold protected ts s)) = map fst (sc_tables s)"
  by (induction ts arbitrary: s) (simp_all add: protected_def on_table_def)

lemma protected_tables [simp]: "has_table t (fold protected ts s) = has_table t s"
  by (simp only: has_table_names protected_fields)

lemma protected_relations [simp]: "relation_exists n (fold protected ts s) = relation_exists n s"
  by (simp add: relation_exists_def)

lemma relation_exists_policies: "relation_exists n (s\<lparr>sc_policies := p\<rparr>) = relation_exists n s"
  by (simp add: relation_exists_def has_table_def)

lemma created_fields [simp]:
  "sc_policies created = []" "sc_triggers created = []" "sc_functions created = []" "sc_sequences created = []"
  "sc_extensions created = [''pgcrypto'']" "sc_tables created = tables_made initial_creation"
  "sc_indexes created = indexes_made initial_creation" "sc_enums created = enums_made initial_creation"
  by (simp_all add: created_def extended_def empty_schema_def)

lemma initial_rls_split: "initial_rls = concat (map (\<lambda>t. [EnableRls t, ForceRls t]) rls_tables) @
    map (\<lambda>(n, p). CreatePolicy n p) (policies_made initial_rls)"
  by (simp add: initial_rls_def rls_tables_def isolation_def)

lemma policies_distinct: "distinct (map (\<lambda>(n, p). (n, po_table p)) (policies_made initial_rls))"
  by code_simp

lemma policy_tables: "(n, p) \<in> set (policies_made initial_rls) \<Longrightarrow> po_table p \<in> set rls_tables"
  by (auto simp: initial_rls_def rls_tables_def isolation_def)

lemma sequences_fresh:
  "list_all (\<lambda>q. \<not> q \<in> set (relations_made initial_creation)) (map (\<lambda>code. ''cert_seq_'' @ toLowerCase code) programCodes)"
  by code_simp

lemma sequences_distinct: "distinct (map (\<lambda>code. ''cert_seq_'' @ toLowerCase code) programCodes)"
  by code_simp

lemma created_relations: "relation_exists n created \<longleftrightarrow> n \<in> set (relations_made initial_creation)"
  by (simp add: relation_exists_def has_table_def relations_made_def map_of_eq_None_iff)

lemma rls_tables_created: "t \<in> set rls_tables \<Longrightarrow> has_table t created"
  unfolding created_tables initial_names by (auto simp: rls_tables_def)

theorem initial_up_runs: "exec_all initial_up empty_schema = ok initial_schema"
proof -
  let ?s1 = "fold protected rls_tables created"
  let ?s2 = "?s1\<lparr>sc_policies := policies_made initial_rls\<rparr>"
  let ?qs = "map (\<lambda>code. ''cert_seq_'' @ toLowerCase code) programCodes"
  let ?s3 = "?s2\<lparr>sc_sequences := ?qs\<rparr>"
  have rls: "exec_all initial_rls created = ok ?s2"
    using rls_run[of rls_tables created] policies_run[of "policies_made initial_rls" ?s1] policies_distinct
      policy_tables rls_tables_created
    by (subst initial_rls_split) (fastforce simp: exec_all_append)
  have "\<forall>q \<in> set ?qs. \<not> relation_exists q ?s2"
    using sequences_fresh by (simp only: relation_exists_policies protected_relations created_relations list_all_iff)
  then have seqs: "exec_all initial_sequences ?s2 = ok ?s3"
    using sequences_run[OF sequences_distinct, of ?s2] by (simp add: initial_sequences_def o_def)
  have tables: "has_table t ?s3" if "t \<in> set (map fst (tables_made initial_creation))" for t
    using that created_tables[of t] by (simp add: has_table_names)
  have last: "exec_all initial_functions ?s3 = ok initial_schema"
    using functions_run[of ?s3] tables unfolding initial_names by (simp add: initial_schema_def)
  have "initial_up = (CreateExtension ''pgcrypto'' # initial_creation) @ initial_rls @ initial_sequences @ initial_functions"
    by (simp add: initial_up_def initial_creation_def)
  moreover have "exec_all ((CreateExtension ''pgcrypto'' # initial_creation) @ initial_rls @ initial_sequences @ initial_functions)
      empty_schema = ok initial_schema"
    by (rule exec_all_then[OF creation_runs exec_all_then[OF rls exec_all_then[OF seqs last]]])
  ultimately show ?thesis by simp
qed

lemma initial_tidy: "tidy initial_schema"
  using exec_all_tidy[OF tidy_empty initial_up_runs] .

subsection \<open>The later migrations\<close>

definition outline :: "(string \<times> table) list \<Rightarrow> (string \<times> string list) list" where
  "outline ts = map (\<lambda>(t, tb). (t, column_names tb)) ts"

definition unnamed :: "table_constraint \<Rightarrow> bool" where
  "unnamed c = (case c of Check (Some _) _ _ \<Rightarrow> False | _ \<Rightarrow> True)"

definition initial_relations_all :: "string list" where
  "initial_relations_all = relations_made initial_creation @ map (\<lambda>code. ''cert_seq_'' @ toLowerCase code) programCodes"

lemma initial_checks_unnamed: "list_all (\<lambda>(t, tb). list_all unnamed (tb_constraints tb)) (tables_made initial_creation)"
  by code_simp

lemma later_alters:
  "alters (outline (tables_made initial_creation)) [] initial_relations_all (map fst (enums_made initial_creation))
     (i18n_up @ cert_id_up @ catalog_fields_up)"
  by code_simp

lemma map_of_outline: "map_of (outline ts) t = map_option column_names (map_of ts t)"
  by (induction ts) (auto simp: outline_def)

lemma map_of_protected:
  "map_of (sc_tables (fold protected ts s)) t =
     map_option (\<lambda>tb. if t \<in> set ts then tb\<lparr>tb_rls := True, tb_forced := True\<rparr> else tb) (map_of (sc_tables s) t)"
proof (induction ts arbitrary: s)
  case (Cons u ts)
  then show ?case by (cases "map_of (sc_tables s) t") (auto simp: protected_def on_table_def)
qed (simp add: option.map_ident)

lemma unnamed_no_check: "unnamed c \<Longrightarrow> \<not> is_check n c"
  by (auto simp: unnamed_def is_check_def split: table_constraint.splits)

lemma initial_described:
  "described (outline (tables_made initial_creation)) [] initial_relations_all (map fst (enums_made initial_creation)) initial_schema"
proof -
  have "\<not> list_ex (is_check n) (tb_constraints tb)" if "map_of (tables_made initial_creation) t = Some tb" for t tb n
    using initial_checks_unnamed map_of_SomeD[OF that] unnamed_no_check
    unfolding list_all_iff list_ex_iff by blast
  moreover have "relation_exists n initial_schema \<Longrightarrow> n \<in> set initial_relations_all" for n
    using created_relations[of n] by (auto simp: initial_schema_def initial_relations_all_def relation_exists_def has_table_def map_of_protected)
  moreover have "(map_of (sc_enums initial_schema) e \<noteq> None) = (e \<in> set (map fst (enums_made initial_creation)))" for e
    by (simp only: map_of_eq_None_iff set_map initial_schema_def) (simp add: initial_schema_def)
  moreover have "\<exists>tb. map_of (sc_tables initial_schema) t = Some tb \<and> set (column_names tb) = set cs \<and>
      (\<forall>n. list_ex (is_check n) (tb_constraints tb) \<longrightarrow> (t, n) \<in> set [])"
    if "map_of (outline (tables_made initial_creation)) t = Some cs" for t cs
  proof -
    from that obtain tb where tb: "map_of (tables_made initial_creation) t = Some tb" "cs = column_names tb"
      by (auto simp: map_of_outline)
    then show ?thesis using calculation(1)[OF tb(1)]
      by (simp add: initial_schema_def map_of_protected column_names_def)
  qed
  ultimately show ?thesis unfolding described_def by blast
qed

theorem later_migrations_run:
  "\<exists>s4. exec_all (i18n_up @ cert_id_up @ catalog_fields_up) initial_schema = ok s4 \<and>
     all_add (i18n_up @ cert_id_up @ catalog_fields_up) initial_schema"
  by (rule alterations_run[OF initial_described later_alters])

subsection \<open>Dropping everything\<close>

lemma drop_tables_run:
  "\<exists>s1. exec_all (map DropTable ts) s = ok s1 \<and> set (map fst (sc_tables s1)) = set (map fst (sc_tables s)) - set ts \<and>
     sc_enums s1 = sc_enums s \<and> sc_extensions s1 = sc_extensions s \<and> sc_sequences s1 = sc_sequences s \<and>
     sc_functions s1 = sc_functions s"
proof (induction ts arbitrary: s)
  case (Cons t ts)
  define s2 where "s2 = (if has_table t s then drop_table t s else s)"
  have "map fst (sc_tables (drop_table t s)) = filter (\<lambda>u. u \<noteq> t) (map fst (sc_tables s))"
    unfolding drop_table_def fst_without[symmetric, of _ _ "\<lambda>tb. tb\<lparr>tb_constraints := filter (\<lambda>c. \<not> refers_to t c) (tb_constraints tb)\<rparr>"]
    by simp
  then have "set (map fst (sc_tables s2)) = set (map fst (sc_tables s)) - {t}"
    using has_table_names[of t s] by (simp only: s2_def set_filter split: if_split) blast
  moreover have "sc_enums s2 = sc_enums s" "sc_extensions s2 = sc_extensions s" "sc_sequences s2 = sc_sequences s"
    "sc_functions s2 = sc_functions s"
    by (auto simp: s2_def drop_table_def)
  moreover have "exec (DropTable t) s = ok s2" by (simp add: s2_def)
  ultimately show ?case using Cons.IH[of s2] by auto
qed simp

lemma drop_types_run:
  assumes "sc_tables s = []"
  shows "exec_all (map (DropEnum True) es) s = ok (s\<lparr>sc_enums := filter (\<lambda>(e, _). e \<notin> set es) (sc_enums s)\<rparr>)"
  using assms
proof (induction es arbitrary: s)
  case (Cons e es)
  have "filter (\<lambda>(e', _). e' \<noteq> e) (sc_enums s) = sc_enums s" if "map_of (sc_enums s) e = None"
    using filter_fresh[OF that] .
  then have "exec (DropEnum True e) s = ok (s\<lparr>sc_enums := filter (\<lambda>(e', _). e' \<noteq> e) (sc_enums s)\<rparr>)"
    using Cons.prems by (simp add: enum_in_use_def)
  moreover have "filter (\<lambda>(e', _). e' \<notin> set es) (filter (\<lambda>(e', _). e' \<noteq> e) xs) = filter (\<lambda>(e', _). e' \<notin> set (e # es)) xs"
    for xs :: "(string \<times> string list) list"
    by (induction xs) auto
  ultimately show ?case using Cons.prems Cons.IH[of "s\<lparr>sc_enums := filter (\<lambda>(e', _). e' \<noteq> e) (sc_enums s)\<rparr>"] by simp
qed (simp add: case_prod_beta')

lemma drop_sequences_run:
  "exec_all (map DropSequence qs) s = ok (s\<lparr>sc_sequences := filter (\<lambda>q. q \<notin> set qs) (sc_sequences s)\<rparr>)"
proof (induction qs arbitrary: s)
  case (Cons q qs)
  have "filter (\<lambda>q'. q' \<notin> set qs) (filter (\<lambda>q'. q' \<noteq> q) xs) = filter (\<lambda>q'. q' \<notin> set (q # qs)) xs" for xs :: "string list"
    by (induction xs) auto
  then show ?case using Cons.IH by simp
qed simp

definition initial_drops :: "ddl list" where
  "initial_drops = take 11 initial_down"

lemma initial_triggers: "map (\<lambda>(n, g). (n, tg_table g)) (triggers_made initial_functions) =
    [(''trg_protect_super_admin'', ''admin_users''), (''trg_update_promo_usage_count'', ''transactions''),
     (''trg_audit_certificates'', ''certificates''), (''trg_audit_exams'', ''exams''), (''trg_audit_admin_users'', ''admin_users''),
     (''trg_set_cert_sequence'', ''issued_certificates'')]"
  by code_simp

lemma drops_run:
  assumes "has_table ''certificates'' s" "has_table ''exams'' s" "has_table ''admin_users'' s"
    "has_table ''transactions'' s" "has_table ''issued_certificates'' s"
    "sc_triggers s = triggers_made initial_functions" "sc_functions s = functions_made initial_functions"
  shows "exec_all initial_drops s = ok (s\<lparr>sc_triggers := [], sc_functions := []\<rparr>)"
  using assms unfolding initial_drops_def initial_down_def initial_functions_def row_trigger_def
  by (simp add: has_table_def)

lemma tidy_empty_tables:
  assumes "tidy s" "sc_tables s = []"
  shows "sc_indexes s = []" "sc_policies s = []" "sc_triggers s = []"
proof -
  have none: "\<not> has_table t s" "\<not> has_columns t ks s" for t ks using assms(2) by (simp_all add: has_table_def has_columns_def)
  show "sc_indexes s = []" using tidyD(1)[OF assms(1)] none by (cases "sc_indexes s") force+
  show "sc_policies s = []" using tidyD(2)[OF assms(1)] none by (cases "sc_policies s") force+
  show "sc_triggers s = []" using tidyD(3)[OF assms(1)] none by (cases "sc_triggers s") force+
qed

definition dropped_tables :: "string list" where
  "dropped_tables = [''auth_tokens'', ''blog_articles'', ''rate_limit_blocks'', ''refresh_tokens'', ''notification_queue'',
     ''notification_templates'', ''admin_audit_logs'', ''processed_webhooks'', ''issued_certificates'', ''transactions'',
     ''student_progress'', ''student_purchases'', ''test_sessions'', ''exam_attempts'', ''exam_access_codes'',
     ''exam_question_options'', ''exam_questions'', ''exams'', ''quiz_questions'', ''lesson_quizzes'', ''lessons'',
     ''learning_modules'', ''promo_codes'', ''certificates'', ''admin_users'', ''users'']"

definition dropped_types :: "string list" where
  "dropped_types = [''auth_token_purpose_enum'', ''admin_role_enum'', ''exam_status_enum'', ''question_type_enum'',
     ''attempt_status_enum'', ''test_session_status_enum'', ''payment_type_enum'', ''transaction_status_enum'',
     ''discount_type_enum'', ''notification_status_enum'', ''token_owner_type_enum'', ''blog_status_enum'']"

lemma initial_down_split:
  "initial_down = initial_drops @ map DropSequence (map (\<lambda>code. ''cert_seq_'' @ toLowerCase code) programCodes) @
     map DropTable dropped_tables @ map (DropEnum True) dropped_types"
  by code_simp

lemma all_dropped:
  "set (map fst (tables_made initial_creation)) \<subseteq> set dropped_tables"
  "set (map fst (enums_made initial_creation)) \<subseteq> set dropped_types"
  unfolding initial_names initial_types by (simp_all add: dropped_tables_def dropped_types_def)

theorem initial_down_runs:
  "exec_all initial_down (initial_schema\<lparr>sc_extensions := xs\<rparr>) = ok (empty_schema\<lparr>sc_extensions := xs\<rparr>)"
proof -
  let ?s = "initial_schema\<lparr>sc_extensions := xs\<rparr>"
  let ?s1 = "?s\<lparr>sc_triggers := [], sc_functions := []\<rparr>"
  let ?s2 = "?s1\<lparr>sc_sequences := []\<rparr>"
  have names: "map fst (sc_tables initial_schema) = map fst (tables_made initial_creation)"
    by (simp add: initial_schema_def)
  have tables: "has_table t ?s" if "t \<in> set (map fst (tables_made initial_creation))" for t
    using that names by (simp add: has_table_names)
  have drops: "exec_all initial_drops ?s = ok ?s1"
    using tables unfolding initial_names by (intro drops_run) (simp_all add: initial_schema_def)
  have seqs: "exec_all (map DropSequence (map (\<lambda>code. ''cert_seq_'' @ toLowerCase code) programCodes)) ?s1 = ok ?s2"
    unfolding drop_sequences_run by (simp add: initial_schema_def)
  obtain s3 where s3: "exec_all (map DropTable dropped_tables) ?s2 = ok s3"
      "set (map fst (sc_tables s3)) = set (map fst (sc_tables ?s2)) - set dropped_tables"
      "sc_enums s3 = sc_enums ?s2" "sc_extensions s3 = sc_extensions ?s2" "sc_sequences s3 = sc_sequences ?s2"
      "sc_functions s3 = sc_functions ?s2"
    using drop_tables_run by blast
  have "set (map fst (sc_tables ?s2)) = set (map fst (tables_made initial_creation))" using names by simp
  then have none: "sc_tables s3 = []" using s3(2) all_dropped(1) by (metis Diff_eq_empty_iff list.map_disc_iff set_empty)
  have "tidy ?s" using initial_tidy by (auto intro!: tidy_grow[OF initial_tidy] dest: tidyD[OF initial_tidy])
  then have "tidy s3" using exec_all_tidy drops seqs s3(1) by blast
  note rest = tidy_empty_tables[OF this none]
  have "filter (\<lambda>(e, _). e \<notin> set dropped_types) (sc_enums s3) = []"
    using all_dropped(2) s3(3) by (auto simp: filter_empty_conv initial_schema_def)
  then have "s3\<lparr>sc_enums := filter (\<lambda>(e, _). e \<notin> set dropped_types) (sc_enums s3)\<rparr> = empty_schema\<lparr>sc_extensions := xs\<rparr>"
    using none rest s3(4-6) by (simp add: empty_schema_def initial_schema_def)
  then have types: "exec_all (map (DropEnum True) dropped_types) s3 = ok (empty_schema\<lparr>sc_extensions := xs\<rparr>)"
    using drop_types_run[OF none, of dropped_types] by simp
  show ?thesis unfolding initial_down_split
    by (rule exec_all_then[OF drops exec_all_then[OF seqs exec_all_then[OF s3(1) types]]])
qed

subsection \<open>The chain\<close>

lemma migrated_Suc:
  assumes "n < length migrations" "migrated n = ok s"
  shows "migrated (Suc n) = exec_all (fst (migrations ! n)) s"
  using assms by (simp add: migrated_def take_Suc_conv_app_nth exec_all_append)

lemma all_add_append:
  assumes "exec_all xs s = ok s1"
  shows "all_add (xs @ ys) s \<longleftrightarrow> all_add xs s \<and> all_add ys s1"
  using assms by (induction xs arbitrary: s) (auto split: sum.splits)

lemma migration_steps:
  obtains s2 s3 s4 where "migrated 0 = ok empty_schema" "migrated 1 = ok initial_schema"
    "exec_all i18n_up initial_schema = ok s2" "all_add i18n_up initial_schema" "migrated 2 = ok s2"
    "exec_all cert_id_up s2 = ok s3" "all_add cert_id_up s2" "migrated 3 = ok s3"
    "exec_all catalog_fields_up s3 = ok s4" "all_add catalog_fields_up s3" "migrated 4 = ok s4"
proof -
  obtain s4 where run: "exec_all (i18n_up @ cert_id_up @ catalog_fields_up) initial_schema = ok s4"
      "all_add (i18n_up @ cert_id_up @ catalog_fields_up) initial_schema"
    using later_migrations_run by blast
  then obtain s2 s3 where steps: "exec_all i18n_up initial_schema = ok s2" "exec_all cert_id_up s2 = ok s3"
      "exec_all catalog_fields_up s3 = ok s4"
    by (auto simp: exec_all_append split: sum.splits)
  have adds: "all_add i18n_up initial_schema" "all_add cert_id_up s2" "all_add catalog_fields_up s3"
    using run(2) all_add_append[OF steps(1)] all_add_append[OF steps(2)] by blast+
  have m0: "migrated 0 = ok empty_schema" by (simp add: migrated_def)
  have m1: "migrated 1 = ok initial_schema"
    using migrated_Suc[OF _ m0] initial_up_runs by (simp add: migrations_def)
  have m2: "migrated 2 = ok s2" using migrated_Suc[OF _ m1] steps(1) by (simp add: migrations_def numeral_2_eq_2)
  have m3: "migrated 3 = ok s3" using migrated_Suc[OF _ m2] steps(2) by (simp add: migrations_def numeral_3_eq_3)
  have m4: "migrated 4 = ok s4" using migrated_Suc[OF _ m3] steps(3) by (simp add: migrations_def eval_nat_numeral)
  show ?thesis by (rule that[OF m0 m1 steps(1) adds(1) m2 steps(2) adds(2) m3 steps(3) adds(3) m4])
qed

lemma migrated_tidy: "migrated n = ok s \<Longrightarrow> tidy s"
  unfolding migrated_def by (rule exec_all_tidy[OF tidy_empty])

lemma i18n_undoes: "list_all2 undoes i18n_down (rev (tl i18n_up))"
  by code_simp

lemma cert_id_undoes: "list_all2 undoes cert_id_down (rev cert_id_up)"
  by code_simp

lemma catalog_fields_undoes: "list_all2 undoes catalog_fields_down (rev catalog_fields_up)"
  by code_simp

definition makes_extension :: "ddl \<Rightarrow> bool" where
  "makes_extension d = (case d of CreateExtension _ \<Rightarrow> True | _ \<Rightarrow> False)"

lemma exec_extensions:
  assumes "exec d s = ok s1" "\<not> makes_extension d"
  shows "sc_extensions s1 = sc_extensions s"
  using assms
  by (cases d) (auto simp: makes_extension_def refuse_def on_table_def drop_table_def drop_column_def
      split: if_splits option.splits)

lemma exec_all_extensions:
  "exec_all ds s = ok s1 \<Longrightarrow> list_all (\<lambda>d. \<not> makes_extension d) ds \<Longrightarrow> sc_extensions s1 = sc_extensions s"
  by (induction ds arbitrary: s) (auto split: sum.splits dest: exec_extensions)

lemma undone_up_to_extensions:
  assumes "migrated n = ok s" "all_add ds s" "exec_all ds s = ok s1" "list_all2 undoes us (rev ds)"
    "list_all (\<lambda>d. \<not> makes_extension d) ds"
  shows "exec_all us s1 = ok (s\<lparr>sc_extensions := sc_extensions s1\<rparr>)"
  using script_undone[OF migrated_tidy[OF assms(1)] assms(2-4)] exec_all_extensions[OF assms(3,5)] by simp

lemma i18n_reversed:
  assumes "exec_all i18n_up initial_schema = ok s2" "all_add i18n_up initial_schema"
  shows "exec_all i18n_down s2 = ok (initial_schema\<lparr>sc_extensions := sc_extensions s2\<rparr>)"
proof -
  let ?s = "initial_schema\<lparr>sc_extensions := [''pgcrypto'', ''pg_trgm'']\<rparr>"
  have up: "i18n_up = CreateExtension ''pg_trgm'' # tl i18n_up" by (simp add: i18n_up_def)
  have one: "exec (CreateExtension ''pg_trgm'') initial_schema = ok ?s" by (simp add: initial_schema_def)
  have "exec_all (CreateExtension ''pg_trgm'' # tl i18n_up) initial_schema = ok s2"
    "all_add (CreateExtension ''pg_trgm'' # tl i18n_up) initial_schema"
    using assms up by simp_all
  then have run: "exec_all (tl i18n_up) ?s = ok s2" "all_add (tl i18n_up) ?s"
    using one by (simp_all del: exec.simps)
  have "tidy ?s" by (auto intro!: tidy_grow[OF initial_tidy] dest: tidyD[OF initial_tidy])
  from script_undone[OF this run(2,1) i18n_undoes] have "exec_all i18n_down s2 = ok ?s" .
  moreover have "sc_extensions s2 = sc_extensions ?s"
    by (rule exec_all_extensions[OF run(1)]) (simp add: i18n_up_def makes_extension_def english_title_index_def)
  ultimately show ?thesis by simp
qed

text \<open>C16: Every migration applies to the schema its predecessors leave, and its down script, run on the
  result, restores that schema; only the extensions stay.\<close>

theorem migrations_reverse:
  assumes "n < 4"
  shows "\<exists>s s'. migrated n = ok s \<and> migrated (Suc n) = ok s' \<and>
    exec_all (snd (migrations ! n)) s' = ok (s\<lparr>sc_extensions := sc_extensions s'\<rparr>)"
proof -
  obtain s2 s3 s4 where st: "migrated 0 = ok empty_schema" "migrated 1 = ok initial_schema"
    "exec_all i18n_up initial_schema = ok s2" "all_add i18n_up initial_schema" "migrated 2 = ok s2"
    "exec_all cert_id_up s2 = ok s3" "all_add cert_id_up s2" "migrated 3 = ok s3"
    "exec_all catalog_fields_up s3 = ok s4" "all_add catalog_fields_up s3" "migrated 4 = ok s4"
    using migration_steps by blast
  have d0: "exec_all initial_down initial_schema = ok (empty_schema\<lparr>sc_extensions := sc_extensions initial_schema\<rparr>)"
    using initial_down_runs[of "sc_extensions initial_schema"] by simp
  have d2: "exec_all cert_id_down s3 = ok (s2\<lparr>sc_extensions := sc_extensions s3\<rparr>)"
    by (rule undone_up_to_extensions[OF st(5,7,6) cert_id_undoes]) (simp add: cert_id_up_def makes_extension_def)
  have d3: "exec_all catalog_fields_down s4 = ok (s3\<lparr>sc_extensions := sc_extensions s4\<rparr>)"
    by (rule undone_up_to_extensions[OF st(8,10,9) catalog_fields_undoes]) (simp add: catalog_fields_up_def makes_extension_def)
  consider "n = 0" | "n = 1" | "n = 2" | "n = 3" using assms by linarith
  then show ?thesis
    using st(1,2,5,8,11) d0 i18n_reversed[OF st(3,4)] d2 d3
    by cases (simp_all add: migrations_def eval_nat_numeral)
qed

theorem migrations_reverse_witness:
  "\<exists>s s'. migrated 3 = ok s \<and> migrated 4 = ok s' \<and> exec_all catalog_fields_down s' = ok (s\<lparr>sc_extensions := sc_extensions s'\<rparr>)"
  using migrations_reverse[of 3] by (simp add: migrations_def eval_nat_numeral)

end
