(* ===== verification/EntityMetadata.thy ===== *)
theory EntityMetadata
  imports Ddl
begin

section \<open>What the entity classes declare\<close>

text \<open>
  The decorators of the entity classes as data: the table, the columns with their types, nullability,
  defaults and indexes, the relations by their join column, and the unique and check constraints.
  Property names become column names through the naming strategy of the data source, a library
  function, given as the argument \<open>snake\<close>.
\<close>

subsection \<open>Declarations\<close>

datatype field_type =
    Sql sql_type
  | OneOf "string list"
  | GeneratedUuid
  | GeneratedSerial
  | CreateOrUpdateDate

datatype js_default =
    JsFlag bool
  | JsInt nat
  | JsText string
  | SqlText string

record field =
  fd_property :: string
  fd_type :: field_type
  fd_nullable :: bool
  fd_default :: "js_default option"
  fd_index :: "bool option"

record entity =
  en_table :: string
  en_fields :: "field list"
  en_relations :: "(string \<times> string \<times> on_delete) list"
  en_uniques :: "string list list"
  en_checks :: "string list"

abbreviation fld :: "string \<Rightarrow> field_type \<Rightarrow> bool \<Rightarrow> js_default option \<Rightarrow> bool option \<Rightarrow> field" where
  "fld p ty n d i \<equiv> \<lparr>fd_property = p, fd_type = ty, fd_nullable = n, fd_default = d, fd_index = i\<rparr>"

definition uuid_key :: field where
  "uuid_key = fld ''id'' GeneratedUuid False None None"

definition serial_key :: field where
  "serial_key = fld ''id'' GeneratedSerial False None None"

definition stamped :: "field list" where
  "stamped = [fld ''createdAt'' CreateOrUpdateDate False None None, fld ''updatedAt'' CreateOrUpdateDate False None None]"

subsection \<open>The classes\<close>

definition user_entity :: entity where
  "user_entity = \<lparr>en_table = ''users'',
     en_fields = [uuid_key, fld ''email'' (Sql (Varchar 255)) False None (Some True),
                  fld ''passwordHash'' (Sql (Varchar 255)) False None None,
                  fld ''firstName'' (Sql (Varchar 100)) False None None,
                  fld ''lastName'' (Sql (Varchar 100)) False None None,
                  fld ''phone'' (Sql (Varchar 50)) True None None,
                  fld ''avatarUrl'' (Sql (Varchar 500)) True None None,
                  fld ''country'' (Sql (Varchar 100)) True None None,
                  fld ''city'' (Sql (Varchar 100)) True None None,
                  fld ''street'' (Sql (Varchar 255)) True None None,
                  fld ''address'' (Sql (Varchar 255)) True None None,
                  fld ''postalCode'' (Sql (Varchar 20)) True None None,
                  fld ''occupation'' (Sql (Varchar 255)) True None None,
                  fld ''position'' (Sql (Varchar 255)) True None None,
                  fld ''company'' (Sql (Varchar 255)) True None None,
                  fld ''locale'' (Sql (Varchar 10)) False (Some (JsText ''en'')) None,
                  fld ''emailVerified'' (Sql Boolean) False (Some (JsFlag False)) None,
                  fld ''emailVerifiedAt'' (Sql Timestamptz) True None None,
                  fld ''active'' (Sql Boolean) False (Some (JsFlag True)) None] @ stamped,
     en_relations = [],
     en_uniques = [], en_checks = []\<rparr>"

definition admin_user_entity :: entity where
  "admin_user_entity = \<lparr>en_table = ''admin_users'',
     en_fields = [uuid_key, fld ''email'' (Sql (Varchar 255)) False None (Some True),
                  fld ''passwordHash'' (Sql (Varchar 255)) False None None,
                  fld ''firstName'' (Sql (Varchar 100)) False None None,
                  fld ''lastName'' (Sql (Varchar 100)) False None None,
                  fld ''role'' (OneOf [''super_admin'', ''learning_admin'', ''content_creator'', ''finance_admin'', ''support_admin'']) False None None,
                  fld ''locale'' (Sql (Varchar 10)) False (Some (JsText ''en'')) None,
                  fld ''active'' (Sql Boolean) False (Some (JsFlag True)) None,
                  fld ''createdById'' (Sql Uuid) True None None] @ stamped,
     en_relations = [(''created_by_id'', ''admin_users'', SetNull)],
     en_uniques = [], en_checks = []\<rparr>"

definition certificate_entity :: entity where
  "certificate_entity = \<lparr>en_table = ''certificates'',
     en_fields = [uuid_key, fld ''title'' (Sql (Varchar 255)) False None None,
                  fld ''programCode'' (Sql (Varchar 50)) False None (Some False),
                  fld ''description'' (Sql Textual) True None None,
                  fld ''translations'' (Sql Jsonb) False (Some (SqlText ''{}'')) None,
                  fld ''price'' (Sql (Numeric 10 2)) False None None,
                  fld ''currency'' (Sql (Varchar 3)) False (Some (JsText ''USD'')) None,
                  fld ''active'' (Sql Boolean) False (Some (JsFlag True)) None,
                  fld ''thumbnailUrl'' (Sql (Varchar 500)) True None None,
                  fld ''badgeImageUrl'' (Sql (Varchar 500)) True None None,
                  fld ''track'' (Sql (Varchar 100)) True None None,
                  fld ''level'' (OneOf [''foundation'', ''practitioner'', ''authority'']) True None None,
                  fld ''durationHours'' (Sql Integer) True None None,
                  fld ''syllabusUrl'' (Sql (Varchar 500)) True None None] @ stamped,
     en_relations = [],
     en_uniques = [], en_checks = []\<rparr>"

definition learning_module_entity :: entity where
  "learning_module_entity = \<lparr>en_table = ''learning_modules'',
     en_fields = [uuid_key, fld ''certId'' (Sql Uuid) False None (Some False),
                  fld ''title'' (Sql (Varchar 255)) False None None,
                  fld ''description'' (Sql Textual) True None None,
                  fld ''translations'' (Sql Jsonb) False (Some (SqlText ''{}'')) None,
                  fld ''position'' (Sql Integer) False (Some (JsInt 0)) None,
                  fld ''active'' (Sql Boolean) False (Some (JsFlag True)) None] @ stamped,
     en_relations = [(''cert_id'', ''certificates'', Cascade)],
     en_uniques = [], en_checks = []\<rparr>"

definition lesson_entity :: entity where
  "lesson_entity = \<lparr>en_table = ''lessons'',
     en_fields = [uuid_key, fld ''moduleId'' (Sql Uuid) False None (Some False),
                  fld ''title'' (Sql (Varchar 255)) False None None,
                  fld ''videoUrl'' (Sql (Varchar 500)) True None None,
                  fld ''contentText'' (Sql Textual) True None None,
                  fld ''translations'' (Sql Jsonb) False (Some (SqlText ''{}'')) None,
                  fld ''position'' (Sql Integer) False (Some (JsInt 0)) None,
                  fld ''durationSeconds'' (Sql Integer) True None None,
                  fld ''active'' (Sql Boolean) False (Some (JsFlag True)) None] @ stamped,
     en_relations = [(''module_id'', ''learning_modules'', Cascade)],
     en_uniques = [], en_checks = []\<rparr>"

definition lesson_quiz_entity :: entity where
  "lesson_quiz_entity = \<lparr>en_table = ''lesson_quizzes'',
     en_fields = [uuid_key, fld ''lessonId'' (Sql Uuid) False None (Some False),
                  fld ''title'' (Sql (Varchar 255)) False None None,
                  fld ''active'' (Sql Boolean) False (Some (JsFlag True)) None] @ stamped,
     en_relations = [(''lesson_id'', ''lessons'', Cascade)],
     en_uniques = [], en_checks = []\<rparr>"

definition quiz_question_entity :: entity where
  "quiz_question_entity = \<lparr>en_table = ''quiz_questions'',
     en_fields = [uuid_key, fld ''quizId'' (Sql Uuid) False None (Some False),
                  fld ''questionText'' (Sql Textual) False None None,
                  fld ''correctAnswer'' (Sql Textual) False None None,
                  fld ''options'' (Sql Jsonb) True None None,
                  fld ''position'' (Sql Integer) False (Some (JsInt 0)) None] @ stamped,
     en_relations = [(''quiz_id'', ''lesson_quizzes'', Cascade)],
     en_uniques = [], en_checks = []\<rparr>"

definition exam_entity :: entity where
  "exam_entity = \<lparr>en_table = ''exams'',
     en_fields = [uuid_key, fld ''certId'' (Sql Uuid) False None (Some False),
                  fld ''title'' (Sql (Varchar 255)) False None None,
                  fld ''examOrder'' (Sql Integer) False None None,
                  fld ''status'' (OneOf [''draft'', ''published'']) False (Some (JsText ''draft'')) None,
                  fld ''passingScore'' (Sql Integer) False (Some (JsInt 80)) None,
                  fld ''durationMinutes'' (Sql Integer) False None None,
                  fld ''createdById'' (Sql Uuid) True None None,
                  fld ''translations'' (Sql Jsonb) False (Some (SqlText ''{}'')) None] @ stamped,
     en_relations = [(''cert_id'', ''certificates'', Cascade)],
     en_uniques = [], en_checks = [''exam_order BETWEEN 1 AND 6'', ''passing_score BETWEEN 1 AND 100'']\<rparr>"

definition exam_question_entity :: entity where
  "exam_question_entity = \<lparr>en_table = ''exam_questions'',
     en_fields = [uuid_key, fld ''examId'' (Sql Uuid) False None (Some False),
                  fld ''questionText'' (Sql Textual) False None None,
                  fld ''questionType'' (OneOf [''mcq'', ''true_false'']) False (Some (JsText ''mcq'')) None,
                  fld ''position'' (Sql Integer) False (Some (JsInt 0)) None,
                  fld ''marks'' (Sql Integer) False (Some (JsInt 1)) None] @ stamped,
     en_relations = [(''exam_id'', ''exams'', Cascade)],
     en_uniques = [], en_checks = []\<rparr>"

definition exam_question_option_entity :: entity where
  "exam_question_option_entity = \<lparr>en_table = ''exam_question_options'',
     en_fields = [uuid_key, fld ''questionId'' (Sql Uuid) False None (Some False),
                  fld ''optionText'' (Sql Textual) False None None,
                  fld ''isCorrect'' (Sql Boolean) False (Some (JsFlag False)) None] @ stamped,
     en_relations = [(''question_id'', ''exam_questions'', Cascade)],
     en_uniques = [], en_checks = []\<rparr>"

definition exam_access_code_entity :: entity where
  "exam_access_code_entity = \<lparr>en_table = ''exam_access_codes'',
     en_fields = [uuid_key, fld ''userId'' (Sql Uuid) False None (Some False),
                  fld ''examId'' (Sql Uuid) False None (Some False), fld ''certId'' (Sql Uuid) False None None,
                  fld ''tokenHash'' (Sql (Varchar 255)) False None None,
                  fld ''expiresAt'' (Sql Timestamptz) False None None,
                  fld ''usedAt'' (Sql Timestamptz) True None None] @ stamped,
     en_relations = [(''user_id'', ''users'', Cascade), (''exam_id'', ''exams'', Cascade),
                     (''cert_id'', ''certificates'', Cascade)],
     en_uniques = [], en_checks = []\<rparr>"

definition exam_attempt_entity :: entity where
  "exam_attempt_entity = \<lparr>en_table = ''exam_attempts'',
     en_fields = [uuid_key, fld ''userId'' (Sql Uuid) False None (Some False),
                  fld ''examId'' (Sql Uuid) False None (Some False), fld ''certId'' (Sql Uuid) False None None,
                  fld ''score'' (Sql (Numeric 5 2)) False None None,
                  fld ''passed'' (Sql Boolean) False None None, fld ''answers'' (Sql Jsonb) False None None,
                  fld ''durationSeconds'' (Sql Integer) True None None,
                  fld ''startedAt'' (Sql Timestamptz) False None None,
                  fld ''submittedAt'' (Sql Timestamptz) False None None,
                  fld ''status'' (OneOf [''submitted'', ''auto_submitted'']) False (Some (JsText ''submitted'')) None,
                  fld ''lateFlag'' (Sql Boolean) False (Some (JsFlag False)) None] @ stamped,
     en_relations = [(''user_id'', ''users'', Cascade), (''exam_id'', ''exams'', Cascade),
                     (''cert_id'', ''certificates'', Cascade)],
     en_uniques = [], en_checks = [''score BETWEEN 0 AND 100'']\<rparr>"

definition test_session_entity :: entity where
  "test_session_entity = \<lparr>en_table = ''test_sessions'',
     en_fields = [uuid_key, fld ''userId'' (Sql Uuid) False None (Some False),
                  fld ''examId'' (Sql Uuid) False None (Some False),
                  fld ''certId'' (Sql Uuid) True None (Some False),
                  fld ''sessionToken'' (Sql Textual) False None None,
                  fld ''startedAt'' (Sql Timestamptz) False None None,
                  fld ''durationSeconds'' (Sql Integer) False None None,
                  fld ''expiresAt'' (Sql Timestamptz) False None None,
                  fld ''status'' (OneOf [''active'', ''submitted'', ''expired'', ''auto_submitted'']) False (Some (JsText ''active'')) None,
                  fld ''submittedAt'' (Sql Timestamptz) True None None,
                  fld ''snapshot'' (Sql Jsonb) True None None] @ stamped,
     en_relations = [(''user_id'', ''users'', Cascade), (''exam_id'', ''exams'', Cascade)],
     en_uniques = [], en_checks = []\<rparr>"

definition student_purchase_entity :: entity where
  "student_purchase_entity = \<lparr>en_table = ''student_purchases'',
     en_fields = [uuid_key, fld ''userId'' (Sql Uuid) False None (Some False),
                  fld ''certId'' (Sql Uuid) False None (Some False),
                  fld ''paymentIntentId'' (Sql (Varchar 255)) True None None,
                  fld ''paymentType'' (OneOf [''enrollment'', ''retake'']) False (Some (JsText ''enrollment'')) None,
                  fld ''preExamConfirmed'' (Sql Boolean) False (Some (JsFlag False)) None,
                  fld ''examCompleted'' (Sql Boolean) False (Some (JsFlag False)) None] @ stamped,
     en_relations = [(''user_id'', ''users'', Cascade), (''cert_id'', ''certificates'', Cascade)],
     en_uniques = [[''userId'', ''certId'']], en_checks = []\<rparr>"

definition student_progress_entity :: entity where
  "student_progress_entity = \<lparr>en_table = ''student_progress'',
     en_fields = [uuid_key, fld ''userId'' (Sql Uuid) False None (Some False),
                  fld ''lessonId'' (Sql Uuid) False None (Some False),
                  fld ''completedAt'' (Sql Timestamptz) False None None] @ stamped,
     en_relations = [(''user_id'', ''users'', Cascade), (''lesson_id'', ''lessons'', Cascade)],
     en_uniques = [[''userId'', ''lessonId'']], en_checks = []\<rparr>"

definition issued_certificate_entity :: entity where
  "issued_certificate_entity = \<lparr>en_table = ''issued_certificates'',
     en_fields = [uuid_key, fld ''certId'' (Sql (Varchar 50)) True None (Some True),
                  fld ''userId'' (Sql Uuid) False None (Some False),
                  fld ''certificateId'' (Sql Uuid) False None None,
                  fld ''examAttemptId'' (Sql Uuid) False None None,
                  fld ''s3Url'' (Sql (Varchar 500)) True None None,
                  fld ''qrUrl'' (Sql (Varchar 500)) True None None,
                  fld ''isActive'' (Sql Boolean) False (Some (JsFlag True)) None,
                  fld ''issuedAt'' (Sql Timestamptz) False None None] @ stamped,
     en_relations = [(''user_id'', ''users'', Cascade), (''certificate_id'', ''certificates'', Cascade),
                     (''exam_attempt_id'', ''exam_attempts'', Cascade)],
     en_uniques = [], en_checks = []\<rparr>"

definition transaction_entity :: entity where
  "transaction_entity = \<lparr>en_table = ''transactions'',
     en_fields = [uuid_key, fld ''userId'' (Sql Uuid) False None (Some False),
                  fld ''certId'' (Sql Uuid) False None None,
                  fld ''stripeSessionId'' (Sql (Varchar 255)) False None (Some True),
                  fld ''amount'' (Sql (Numeric 10 2)) False None None,
                  fld ''currency'' (Sql (Varchar 3)) False (Some (JsText ''USD'')) None,
                  fld ''status'' (OneOf [''pending'', ''completed'', ''failed'', ''refunded'']) False (Some (JsText ''pending'')) None,
                  fld ''promoCodeId'' (Sql Uuid) True None None] @ stamped,
     en_relations = [(''user_id'', ''users'', Cascade), (''cert_id'', ''certificates'', Cascade),
                     (''promo_code_id'', ''promo_codes'', SetNull)],
     en_uniques = [], en_checks = []\<rparr>"

definition promo_code_entity :: entity where
  "promo_code_entity = \<lparr>en_table = ''promo_codes'',
     en_fields = [uuid_key, fld ''code'' (Sql (Varchar 100)) False None (Some True),
                  fld ''discountType'' (OneOf [''percentage'', ''full_waiver'']) False None None,
                  fld ''discountValue'' (Sql (Numeric 5 2)) True None None,
                  fld ''applicableCertIds'' (Sql UuidArray) True None None,
                  fld ''maxUses'' (Sql Integer) True None None,
                  fld ''usageCount'' (Sql Integer) False (Some (JsInt 0)) None,
                  fld ''expiresAt'' (Sql Timestamptz) True None None,
                  fld ''createdById'' (Sql Uuid) True None None] @ stamped,
     en_relations = [(''created_by_id'', ''admin_users'', SetNull)],
     en_uniques = [], en_checks = []\<rparr>"

definition processed_webhook_entity :: entity where
  "processed_webhook_entity = \<lparr>en_table = ''processed_webhooks'',
     en_fields = [serial_key, fld ''eventId'' (Sql (Varchar 255)) False None (Some True),
                  fld ''eventType'' (Sql (Varchar 100)) False None None,
                  fld ''processedAt'' (Sql Timestamptz) False None None] @ stamped,
     en_relations = [],
     en_uniques = [], en_checks = []\<rparr>"

definition admin_audit_log_entity :: entity where
  "admin_audit_log_entity = \<lparr>en_table = ''admin_audit_logs'',
     en_fields = [serial_key, fld ''actorId'' (Sql Uuid) False None (Some False),
                  fld ''action'' (Sql (Varchar 100)) False None None,
                  fld ''tableName'' (Sql (Varchar 100)) False None None,
                  fld ''recordId'' (Sql (Varchar 100)) True None None,
                  fld ''oldData'' (Sql Jsonb) True None None, fld ''newData'' (Sql Jsonb) True None None,
                  fld ''ipAddress'' (Sql Inet) True None None] @ stamped,
     en_relations = [(''actor_id'', ''admin_users'', Cascade)],
     en_uniques = [], en_checks = []\<rparr>"

definition notification_template_entity :: entity where
  "notification_template_entity = \<lparr>en_table = ''notification_templates'',
     en_fields = [serial_key, fld ''type'' (Sql (Varchar 100)) False None None,
                  fld ''locale'' (Sql (Varchar 10)) False (Some (JsText ''en'')) None,
                  fld ''subject'' (Sql (Varchar 255)) False None None,
                  fld ''htmlBody'' (Sql Textual) False None None, fld ''textBody'' (Sql Textual) False None None] @ stamped,
     en_relations = [],
     en_uniques = [], en_checks = []\<rparr>"

definition notification_queue_entity :: entity where
  "notification_queue_entity = \<lparr>en_table = ''notification_queue'',
     en_fields = [serial_key, fld ''userId'' (Sql Uuid) False None (Some False),
                  fld ''templateType'' (Sql (Varchar 100)) False None None,
                  fld ''payload'' (Sql Jsonb) False None None,
                  fld ''status'' (OneOf [''pending'', ''sent'', ''failed'']) False (Some (JsText ''pending'')) None,
                  fld ''scheduledAt'' (Sql Timestamptz) True None None,
                  fld ''sentAt'' (Sql Timestamptz) True None None,
                  fld ''retryCount'' (Sql Integer) False (Some (JsInt 0)) None] @ stamped,
     en_relations = [(''user_id'', ''users'', Cascade)],
     en_uniques = [], en_checks = []\<rparr>"

definition refresh_token_entity :: entity where
  "refresh_token_entity = \<lparr>en_table = ''refresh_tokens'',
     en_fields = [serial_key, fld ''userId'' (Sql Uuid) True None (Some False),
                  fld ''adminId'' (Sql Uuid) True None (Some False),
                  fld ''ownerType'' (OneOf [''user'', ''admin'']) False None None,
                  fld ''tokenHash'' (Sql (Varchar 255)) False None None,
                  fld ''expiresAt'' (Sql Timestamptz) False None None,
                  fld ''revokedAt'' (Sql Timestamptz) True None None] @ stamped,
     en_relations = [(''user_id'', ''users'', Cascade), (''admin_id'', ''admin_users'', Cascade)],
     en_uniques = [], en_checks = []\<rparr>"

definition rate_limit_block_entity :: entity where
  "rate_limit_block_entity = \<lparr>en_table = ''rate_limit_blocks'',
     en_fields = [serial_key, fld ''ipAddress'' (Sql Inet) False None (Some False),
                  fld ''endpoint'' (Sql (Varchar 100)) False None None,
                  fld ''blockedUntil'' (Sql Timestamptz) False None None] @ stamped,
     en_relations = [],
     en_uniques = [], en_checks = []\<rparr>"

definition blog_article_entity :: entity where
  "blog_article_entity = \<lparr>en_table = ''blog_articles'',
     en_fields = [uuid_key, fld ''title'' (Sql (Varchar 255)) False None None,
                  fld ''slug'' (Sql (Varchar 255)) False None (Some True),
                  fld ''contentHtml'' (Sql Textual) False None None,
                  fld ''status'' (OneOf [''draft'', ''published'', ''archived'']) False (Some (JsText ''draft'')) None,
                  fld ''authorId'' (Sql Uuid) True None None,
                  fld ''metaDescription'' (Sql Textual) True None None,
                  fld ''publishedAt'' (Sql Timestamptz) True None None,
                  fld ''translations'' (Sql Jsonb) False (Some (SqlText ''{}'')) None] @ stamped,
     en_relations = [(''author_id'', ''admin_users'', SetNull)],
     en_uniques = [], en_checks = []\<rparr>"

definition auth_token_entity :: entity where
  "auth_token_entity = \<lparr>en_table = ''auth_tokens'',
     en_fields = [serial_key, fld ''userId'' (Sql Uuid) False None (Some False),
                  fld ''purpose'' (OneOf [''email_verification'', ''password_reset'']) False None None,
                  fld ''tokenHash'' (Sql (Varchar 255)) False None None,
                  fld ''expiresAt'' (Sql Timestamptz) False None None,
                  fld ''usedAt'' (Sql Timestamptz) True None None] @ stamped,
     en_relations = [(''user_id'', ''users'', Cascade)],
     en_uniques = [], en_checks = []\<rparr>"

text \<open>\<open>ALL_ENTITIES\<close>, which the data source registers.\<close>

definition ALL_ENTITIES :: "entity list" where
  "ALL_ENTITIES = [user_entity, admin_user_entity, certificate_entity, learning_module_entity, lesson_entity,
     lesson_quiz_entity, quiz_question_entity, exam_entity, exam_question_entity,
     exam_question_option_entity, exam_access_code_entity, exam_attempt_entity, test_session_entity,
     student_purchase_entity, student_progress_entity, issued_certificate_entity, transaction_entity,
     promo_code_entity, processed_webhook_entity, admin_audit_log_entity, notification_template_entity,
     notification_queue_entity, refresh_token_entity, rate_limit_block_entity, blog_article_entity,
     auth_token_entity]"

end
