(* ===== verification/SchemaAgreement.thy ===== *)
theory SchemaAgreement
  imports EntityMetadata MigrationProperties
begin

section \<open>The entity classes and the migrated schema agree\<close>

text \<open>
  The data source never synchronises the schema, so the classes and the migrations must be kept
  together by hand. This theory follows the later migrations statically (which columns and checks they
  add to which table) and compares the classes with the tables that result.
\<close>

subsection \<open>Alterations, followed statically\<close>

fun columns_added :: "string \<Rightarrow> ddl list \<Rightarrow> column list" where
  "columns_added t [] = []"
| "columns_added t (AddColumn _ t' c # ds) = (if t' = t then c # columns_added t ds else columns_added t ds)"
| "columns_added t (_ # ds) = columns_added t ds"

fun checks_added :: "string \<Rightarrow> ddl list \<Rightarrow> table_constraint list" where
  "checks_added t [] = []"
| "checks_added t (AddCheck t' n ks e # ds) = (if t' = t then Check (Some n) ks e # checks_added t ds else checks_added t ds)"
| "checks_added t (_ # ds) = checks_added t ds"

definition altered :: "ddl list \<Rightarrow> string \<Rightarrow> table \<Rightarrow> table" where
  "altered ds t tb = tb\<lparr>tb_columns := tb_columns tb @ columns_added t ds, tb_constraints := tb_constraints tb @ checks_added t ds\<rparr>"

text \<open>Statements that a later migration may send.\<close>

definition alteration :: "ddl \<Rightarrow> bool" where
  "alteration d = (case d of CreateExtension _ \<Rightarrow> True | CreateEnum _ _ \<Rightarrow> True | CreateIndex _ _ _ \<Rightarrow> True
     | AddColumn _ _ _ \<Rightarrow> True | AddCheck _ _ _ _ \<Rightarrow> True | _ \<Rightarrow> False)"

lemma altered_nothing: "columns_added t ds = [] \<Longrightarrow> checks_added t ds = [] \<Longrightarrow> map_option (altered ds t) m = m"
  by (cases m) (simp_all add: altered_def)

lemma alteration_step:
  assumes "alteration d" "adds d s" "exec d s = ok s1"
  shows "map_of (sc_tables s1) t = map_option (altered [d] t) (map_of (sc_tables s) t) \<and>
    sc_enums s1 = sc_enums s @ enums_made [d] \<and> sc_indexes s1 = sc_indexes s @ indexes_made [d]"
proof (cases d)
  case (CreateExtension e)
  then show ?thesis using assms(3) by (auto simp: altered_nothing split: if_splits)
next
  case (CreateEnum e vs)
  then show ?thesis using assms(3) by (auto simp: altered_nothing refuse_def split: if_splits)
next
  case (CreateIndex b n i)
  then show ?thesis using assms(2,3) by (auto simp: altered_nothing refuse_def split: if_splits)
next
  case (AddColumn b t' c)
  then have "s1 = on_table t' (\<lambda>tb. tb\<lparr>tb_columns := tb_columns tb @ [c]\<rparr>) s"
    using assms(2,3) by (auto simp: refuse_def split: if_splits)
  then show ?thesis using AddColumn
    by (cases "map_of (sc_tables s) t") (auto simp: on_table_def altered_def)
next
  case (AddCheck t' n ks e)
  then have "s1 = on_table t' (\<lambda>tb. tb\<lparr>tb_constraints := tb_constraints tb @ [Check (Some n) ks e]\<rparr>) s"
    using assms(3) by (auto simp: refuse_def split: if_splits option.splits)
  then show ?thesis using AddCheck
    by (cases "map_of (sc_tables s) t") (auto simp: on_table_def altered_def)
qed (use assms(1) in \<open>simp_all add: alteration_def\<close>)

lemma alterations_followed:
  assumes "list_all alteration ds" "all_add ds s" "exec_all ds s = ok s1"
  shows "map_of (sc_tables s1) t = map_option (altered ds t) (map_of (sc_tables s) t) \<and>
    sc_enums s1 = sc_enums s @ enums_made ds \<and> sc_indexes s1 = sc_indexes s @ indexes_made ds"
  using assms
proof (induction ds arbitrary: s)
  case (Cons d ds)
  then obtain s2 where s2: "exec d s = ok s2" "exec_all ds s2 = ok s1" by (auto split: sum.splits)
  have one: "alteration d" "adds d s" using Cons.prems by simp_all
  have later: "list_all alteration ds" "all_add ds s2" using Cons.prems s2 by simp_all
  have "altered (d # ds) t tb = altered ds t (altered [d] t tb)" for tb
    by (cases d) (simp_all add: altered_def)
  moreover have "enums_made (d # ds) = enums_made [d] @ enums_made ds" "indexes_made (d # ds) = indexes_made [d] @ indexes_made ds"
    by (cases d; simp)+
  ultimately show ?case
    using alteration_step[OF one s2(1)] Cons.IH[OF later s2(2)] by (simp add: option.map_comp o_def)
qed (simp add: altered_nothing)

subsection \<open>Agreement\<close>

text \<open>Column names: an underscore before every capital, in lower case. The library does this for names of letters and digits
  that begin with a small letter and in which every capital starts a word, that is, is followed by a small letter; what it
  does with other names, such as those with an underscore, is left open.\<close>

fun words_joined :: "string \<Rightarrow> string" where
  "words_joined [] = []"
| "words_joined (c # s) = (if capital c then CHR ''_'' # lower_char c # words_joined s else c # words_joined s)"

fun capitals_start_words :: "string \<Rightarrow> bool" where
  "capitals_start_words [] = True"
| "capitals_start_words [c] = (\<not> capital c)"
| "capitals_start_words (c # d # s) = ((capital c \<longrightarrow> small d) \<and> capitals_start_words (d # s))"

definition alphanumeric :: "char \<Rightarrow> bool" where
  "alphanumeric c \<longleftrightarrow> capital c \<or> small c \<or> c \<in> set ''0123456789''"

definition camelCase :: "string \<Rightarrow> bool" where
  "camelCase s \<longleftrightarrow> s \<noteq> [] \<and> list_all alphanumeric s \<and> small (hd s) \<and> capitals_start_words s"

definition snake_case :: "(string \<Rightarrow> string) \<Rightarrow> bool" where
  "snake_case snake \<longleftrightarrow> (\<forall>p. camelCase p \<longrightarrow> snake p = words_joined p)"

definition default_text :: "js_default \<Rightarrow> string" where
  "default_text d = (case d of
      JsFlag b \<Rightarrow> (if b then ''TRUE'' else ''FALSE'') | JsInt n \<Rightarrow> nat_text n | JsText t \<Rightarrow> t | SqlText t \<Rightarrow> t)"

text \<open>The column holds what the class writes: the same type (an enumerated type with the same values in the same order), the
  same nullability and the same default; what the database generates has a default.\<close>

definition type_agrees :: "(string \<times> string list) list \<Rightarrow> field_type \<Rightarrow> sql_type \<Rightarrow> bool" where
  "type_agrees enums ft ty = (case ft of
      Sql ty' \<Rightarrow> ty' = ty
    | OneOf vs \<Rightarrow> (case ty of EnumType e \<Rightarrow> map_of enums e = Some vs | _ \<Rightarrow> False)
    | GeneratedUuid \<Rightarrow> ty = Uuid
    | GeneratedSerial \<Rightarrow> ty = Serial
    | CreateOrUpdateDate \<Rightarrow> ty = Timestamptz)"

definition default_agrees :: "field \<Rightarrow> string option \<Rightarrow> bool" where
  "default_agrees f d = (case fd_type f of
      GeneratedUuid \<Rightarrow> d = Some ''gen_random_uuid()''
    | CreateOrUpdateDate \<Rightarrow> d = Some ''NOW()''
    | _ \<Rightarrow> d = map_option default_text (fd_default f))"

definition field_agrees :: "(string \<times> string list) list \<Rightarrow> string \<times> field \<Rightarrow> column \<Rightarrow> bool" where
  "field_agrees enums nf c = (case nf of (n, f) \<Rightarrow> col_name c = n \<and> type_agrees enums (fd_type f) (col_type c) \<and>
     col_nullable c = fd_nullable f \<and> default_agrees f (col_default c))"

definition foreign_keys :: "table \<Rightarrow> (string \<times> string \<times> on_delete) list" where
  "foreign_keys tb = concat (map (\<lambda>c. case c of ForeignKey k t d \<Rightarrow> [(k, t, d)] | _ \<Rightarrow> []) (tb_constraints tb))"

text \<open>A declared index is one on the property's column alone, unique if it is declared so. For one property the migrations
  have none: \<open>RateLimitBlock.ipAddress\<close> is only the first column of an index on the address and the endpoint.\<close>

definition index_gaps :: "(string \<times> string) list" where
  "index_gaps = [(''rate_limit_blocks'', ''ip_address'')]"

definition index_on :: "string \<Rightarrow> string list \<Rightarrow> bool \<Rightarrow> string \<times> index \<Rightarrow> bool" where
  "index_on t cols u ni \<longleftrightarrow> ix_table (snd ni) = t \<and> ix_columns (snd ni) = cols \<and> ix_unique (snd ni) = u"

definition index_agrees :: "string \<Rightarrow> (string \<times> index) list \<Rightarrow> string \<times> field \<Rightarrow> bool" where
  "index_agrees t ixs nf = (case nf of (n, f) \<Rightarrow> (case fd_index f of
      None \<Rightarrow> True
    | Some u \<Rightarrow> list_ex (index_on t [n] u) ixs \<or> (t, n) \<in> set index_gaps))"

definition is_check_of :: "string \<Rightarrow> table_constraint \<Rightarrow> bool" where
  "is_check_of txt c = (case c of Check _ _ txt' \<Rightarrow> txt' = txt | _ \<Rightarrow> False)"

definition table_agrees :: "(string \<times> string list) list \<Rightarrow> (string \<times> index) list \<Rightarrow> entity \<Rightarrow> (string \<times> field) list \<Rightarrow> string list list \<Rightarrow> table \<Rightarrow> bool" where
  "table_agrees enums ixs e named uniques tb \<longleftrightarrow>
     length named = length (tb_columns tb) \<and> distinct (map fst named) \<and>
     list_all (\<lambda>nf. list_ex (field_agrees enums nf) (tb_columns tb)) named \<and>
     list_all (index_agrees (en_table e) ixs) named \<and>
     set (en_relations e) = set (foreign_keys tb) \<and>
     list_all (\<lambda>ks. Unique ks \<in> set (tb_constraints tb)) uniques \<and>
     list_all (\<lambda>txt. list_ex (is_check_of txt) (tb_constraints tb)) (en_checks e)"

text \<open>The columns of the class are those of the table, each as declared; the foreign keys are the relations; the declared
  indexes, unique and check constraints exist.\<close>

definition entity_agrees :: "(string \<Rightarrow> string) \<Rightarrow> (string \<times> string list) list \<Rightarrow> (string \<times> index) list \<Rightarrow> entity \<Rightarrow> table \<Rightarrow> bool" where
  "entity_agrees snake enums ixs e tb =
     table_agrees enums ixs e (map (\<lambda>f. (snake (fd_property f), f)) (en_fields e)) (map (map snake) (en_uniques e)) tb"

definition properties_of :: "entity \<Rightarrow> string list" where
  "properties_of e = map fd_property (en_fields e) @ concat (en_uniques e)"

lemma entity_agrees_cong:
  assumes "\<forall>p \<in> set (properties_of e). snake p = snake' p"
  shows "entity_agrees snake enums ixs e tb = entity_agrees snake' enums ixs e tb"
proof -
  have "map (\<lambda>f. (snake (fd_property f), f)) (en_fields e) = map (\<lambda>f. (snake' (fd_property f), f)) (en_fields e)"
    using assms by (simp add: properties_of_def)
  moreover have "map (map snake) (en_uniques e) = map (map snake') (en_uniques e)"
    using assms by (auto simp: properties_of_def)
  ultimately show ?thesis unfolding entity_agrees_def by (simp only:)
qed

definition later_up :: "ddl list" where
  "later_up = i18n_up @ cert_id_up @ catalog_fields_up"

fun all_agree :: "(string \<times> table) list \<Rightarrow> (string \<times> string list) list \<Rightarrow> (string \<times> index) list \<Rightarrow> ddl list \<Rightarrow> entity list \<Rightarrow> bool" where
  "all_agree T enums ixs ds [] = True"
| "all_agree T enums ixs ds (e # es) = ((case map_of T (en_table e) of
       None \<Rightarrow> False
     | Some tb \<Rightarrow> entity_agrees words_joined enums ixs e (altered ds (en_table e) tb)) \<and> all_agree T enums ixs ds es)"

lemma camelCase_properties: "list_all (\<lambda>e. list_all camelCase (properties_of e)) ALL_ENTITIES"
  by code_simp

lemma entities_agree_first:
  "all_agree (tables_made initial_creation) (enums_made initial_creation @ enums_made later_up)
     (indexes_made initial_creation @ indexes_made later_up) later_up (take 9 ALL_ENTITIES)"
  by code_simp

lemma entities_agree_middle:
  "all_agree (tables_made initial_creation) (enums_made initial_creation @ enums_made later_up)
     (indexes_made initial_creation @ indexes_made later_up) later_up (take 9 (drop 9 ALL_ENTITIES))"
  by code_simp

lemma entities_agree_last:
  "all_agree (tables_made initial_creation) (enums_made initial_creation @ enums_made later_up)
     (indexes_made initial_creation @ indexes_made later_up) later_up (drop 18 ALL_ENTITIES)"
  by code_simp

lemma all_agree_append: "all_agree T enums ixs ds (xs @ ys) \<longleftrightarrow> all_agree T enums ixs ds xs \<and> all_agree T enums ixs ds ys"
  by (induction xs) auto

lemma entities_agree_initially:
  "all_agree (tables_made initial_creation) (enums_made initial_creation @ enums_made later_up)
     (indexes_made initial_creation @ indexes_made later_up) later_up ALL_ENTITIES"
proof -
  have "ALL_ENTITIES = take 9 ALL_ENTITIES @ take 9 (drop 9 ALL_ENTITIES) @ drop 18 ALL_ENTITIES"
    by (simp add: ALL_ENTITIES_def)
  then show ?thesis
    using entities_agree_first entities_agree_middle entities_agree_last by (metis all_agree_append)
qed

lemma all_agreeD:
  assumes "all_agree T enums ixs ds es" "e \<in> set es"
  obtains tb where "map_of T (en_table e) = Some tb" "entity_agrees words_joined enums ixs e (altered ds (en_table e) tb)"
  using assms by (induction es) (auto split: option.splits)

lemma snake_properties:
  assumes "snake_case snake" "e \<in> set ALL_ENTITIES" "p \<in> set (properties_of e)"
  shows "snake p = words_joined p"
  using assms camelCase_properties by (simp add: snake_case_def list_all_iff)

lemma agreement_ignores_flags:
  "entity_agrees snake enums ixs e (altered ds t (tb\<lparr>tb_rls := b, tb_forced := c\<rparr>)) = entity_agrees snake enums ixs e (altered ds t tb)"
  by (simp add: entity_agrees_def table_agrees_def altered_def foreign_keys_def)

lemma entity_tables: "set (map en_table ALL_ENTITIES) = set (map fst (tables_made initial_creation))"
proof -
  have "map en_table ALL_ENTITIES = [''users'', ''admin_users'', ''certificates'', ''learning_modules'', ''lessons'',
     ''lesson_quizzes'', ''quiz_questions'', ''exams'', ''exam_questions'', ''exam_question_options'',
     ''exam_access_codes'', ''exam_attempts'', ''test_sessions'', ''student_purchases'', ''student_progress'',
     ''issued_certificates'', ''transactions'', ''promo_codes'', ''processed_webhooks'', ''admin_audit_logs'',
     ''notification_templates'', ''notification_queue'', ''refresh_tokens'', ''rate_limit_blocks'',
     ''blog_articles'', ''auth_tokens'']"
    by code_simp
  then show ?thesis unfolding initial_names by (simp only:) auto
qed

lemma migrated_agreement:
  assumes "snake_case snake"
  shows "\<exists>s. migrated 4 = ok s \<and> set (map fst (sc_tables s)) = set (map en_table ALL_ENTITIES) \<and>
    list_all (\<lambda>e. case map_of (sc_tables s) (en_table e) of None \<Rightarrow> False
      | Some tb \<Rightarrow> entity_agrees snake (sc_enums s) (sc_indexes s) e tb) ALL_ENTITIES"
proof -
  obtain s where run: "exec_all later_up initial_schema = ok s" "all_add later_up initial_schema"
    using later_migrations_run unfolding later_up_def by blast
  have "migrated 4 = ok s"
  proof -
    have "concat (map fst (take 4 migrations)) = initial_up @ later_up" by (simp add: migrations_def later_up_def)
    then show ?thesis using exec_all_then[OF initial_up_runs run(1)] by (simp add: migrated_def)
  qed
  moreover have "list_all alteration later_up"
    by (simp add: later_up_def i18n_up_def cert_id_up_def catalog_fields_up_def english_title_index_def alteration_def)
  note followed = alterations_followed[OF this run(2,1)]
  have enums: "sc_enums s = enums_made initial_creation @ enums_made later_up"
    and ixs: "sc_indexes s = indexes_made initial_creation @ indexes_made later_up"
    using followed by (simp_all add: initial_schema_def)
  have look: "map_of (sc_tables s) t = map_option (altered later_up t) (map_option (\<lambda>tb. if t \<in> set rls_tables
      then tb\<lparr>tb_rls := True, tb_forced := True\<rparr> else tb) (map_of (tables_made initial_creation) t))" for t
    using followed[of t] by (simp add: initial_schema_def map_of_protected)
  have "has_table t s \<longleftrightarrow> t \<in> set (map fst (tables_made initial_creation))" for t
    unfolding has_table_def look by (simp add: map_of_eq_None_iff)
  then have "set (map fst (sc_tables s)) = set (map en_table ALL_ENTITIES)"
    unfolding entity_tables has_table_names by blast
  moreover have "case map_of (sc_tables s) (en_table e) of None \<Rightarrow> False
      | Some tb \<Rightarrow> entity_agrees snake (sc_enums s) (sc_indexes s) e tb" if e: "e \<in> set ALL_ENTITIES" for e
  proof -
    obtain tb where tb: "map_of (tables_made initial_creation) (en_table e) = Some tb"
        "entity_agrees words_joined (sc_enums s) (sc_indexes s) e (altered later_up (en_table e) tb)"
      using all_agreeD[OF entities_agree_initially e] unfolding enums ixs by blast
    have "entity_agrees snake (sc_enums s) (sc_indexes s) e (altered later_up (en_table e) tb)"
      using tb(2) entity_agrees_cong[of e snake words_joined] snake_properties[OF assms e] by simp
    then show ?thesis using look[of "en_table e"] tb(1) by (simp add: agreement_ignores_flags)
  qed
  ultimately show ?thesis unfolding list_all_iff by blast
qed

definition gap_confirmed :: "(string \<times> index) list \<Rightarrow> string \<times> string \<Rightarrow> bool" where
  "gap_confirmed ixs tc = (case tc of (t, c) \<Rightarrow>
     list_all (\<lambda>(_, i). ix_table i = t \<longrightarrow> ix_columns i \<noteq> [c]) ixs \<and>
     list_ex (\<lambda>(_, i). ix_table i = t \<and> take 1 (ix_columns i) = [c]) ixs)"

lemma gaps_confirmed:
  "list_all (gap_confirmed (indexes_made initial_creation @ indexes_made later_up)) index_gaps"
  by code_simp

lemma migrated_indexes:
  assumes "migrated 4 = ok s"
  shows "sc_indexes s = indexes_made initial_creation @ indexes_made later_up"
proof -
  obtain s' where run: "exec_all later_up initial_schema = ok s'" "all_add later_up initial_schema"
    using later_migrations_run unfolding later_up_def by blast
  have "concat (map fst (take 4 migrations)) = initial_up @ later_up" by (simp add: migrations_def later_up_def)
  then have "migrated 4 = ok s'" using exec_all_then[OF initial_up_runs run(1)] by (simp add: migrated_def)
  with assms have "s' = s" by simp
  moreover have "list_all alteration later_up"
    by (simp add: later_up_def i18n_up_def cert_id_up_def catalog_fields_up_def english_title_index_def alteration_def)
  ultimately show ?thesis using alterations_followed[OF _ run(2,1)] by (simp add: initial_schema_def)
qed

text \<open>C17: 
  Whatever function the library uses for the column names, as long as it treats camel case names as documented: the migrations
  leave exactly the tables of the registered classes, and every class agrees with its table in the names,
  types, enumerated values, nullability and defaults of the columns, in the foreign keys and what happens on
  delete, and its declared indexes, unique and check constraints exist. The one exception is the index
  on \<open>RateLimitBlock.ipAddress\<close>: no migration creates it, there is only an index that begins with that column.\<close>

theorem entities_match_schema:
  assumes "snake_case snake"
  shows "\<exists>s. migrated 4 = ok s \<and> set (map fst (sc_tables s)) = set (map en_table ALL_ENTITIES) \<and>
    list_all (\<lambda>e. case map_of (sc_tables s) (en_table e) of None \<Rightarrow> False
      | Some tb \<Rightarrow> entity_agrees snake (sc_enums s) (sc_indexes s) e tb) ALL_ENTITIES \<and>
    list_all (gap_confirmed (sc_indexes s)) index_gaps"
  using migrated_agreement [OF assms] migrated_indexes gaps_confirmed by auto

theorem entities_match_schema_witness:
  "\<exists>s. migrated 4 = ok s \<and> set (map fst (sc_tables s)) = set (map en_table ALL_ENTITIES) \<and>
    list_all (\<lambda>e. case map_of (sc_tables s) (en_table e) of None \<Rightarrow> False
      | Some tb \<Rightarrow> entity_agrees words_joined (sc_enums s) (sc_indexes s) e tb) ALL_ENTITIES \<and>
    list_all (gap_confirmed (sc_indexes s)) index_gaps"
  using entities_match_schema[of words_joined] by (simp add: snake_case_def)

end
