(* ===== verification/RequestBodies.thy ===== *)
theory RequestBodies
  imports I18n JsNumber
begin

section \<open>The validators of request bodies\<close>

text \<open>
  The class-validator decorators of the DTO classes as data, and the global \<open>ValidationPipe\<close>: the library
  builds an instance of the class (with the conversions of \<open>@Type\<close>, \<open>@Transform\<close> and the implicit ones),
  unknown properties are refused, and every property must satisfy its rules unless it is optional and
  missing or \<open>null\<close>. What a rule accepts is decided by the library and an argument here.
\<close>

subsection \<open>Values and rules\<close>

datatype js_value =
    JsNull
  | JsBool bool
  | JsNumber number
  | JsString string
  | JsArray "js_value list"
  | JsObject "(string \<times> js_value) list"

datatype rule =
    IsString
  | IsEmail
  | IsUUID
  | IsBoolean
  | IsInt
  | IsNumber nat
  | IsObject
  | IsNotEmpty
  | IsIn "string list"
  | MinLength nat
  | MaxLength nat
  | LengthBetween nat nat
  | Min int
  | Max int
  | MatchesPassword

text \<open>Per property: its name, whether it is \<open>@IsOptional()\<close>, and its rules.\<close>

type_synonym body_rules = "(string \<times> bool \<times> rule list) list"

subsection \<open>The classes\<close>

definition register_rules :: body_rules where
  "register_rules = [
     (''email'', False, [IsEmail, MaxLength 255]),
     (''password'', False, [IsString, MinLength 8, MaxLength 128, MatchesPassword]),
     (''firstName'', False, [IsString, MinLength 1, MaxLength 100]),
     (''lastName'', False, [IsString, MinLength 1, MaxLength 100]),
     (''phone'', True, [IsString, MaxLength 50]),
     (''locale'', True, [IsString, MaxLength 10]),
     (''country'', True, [IsString, MaxLength 100]),
     (''city'', True, [IsString, MaxLength 100]),
     (''street'', True, [IsString, MaxLength 255]),
     (''address'', True, [IsString, MaxLength 255]),
     (''postalCode'', True, [IsString, MaxLength 20]),
     (''occupation'', True, [IsString, MaxLength 255]),
     (''position'', True, [IsString, MaxLength 255]),
     (''company'', True, [IsString, MaxLength 255])]"

definition login_rules :: body_rules where
  "login_rules = [
     (''email'', False, [IsEmail, MaxLength 255]),
     (''password'', False, [IsString, MinLength 1, MaxLength 128])]"

definition verify_email_rules :: body_rules where
  "verify_email_rules = [
     (''token'', False, [IsString, MinLength 32, MaxLength 128])]"

definition forgot_password_rules :: body_rules where
  "forgot_password_rules = [
     (''email'', False, [IsEmail, MaxLength 255])]"

definition reset_password_rules :: body_rules where
  "reset_password_rules = [
     (''token'', False, [IsString, MinLength 32, MaxLength 128]),
     (''newPassword'', False, [IsString, MinLength 8, MaxLength 128, MatchesPassword])]"

definition update_profile_rules :: body_rules where
  "update_profile_rules = [
     (''firstName'', True, [IsString, MinLength 1, MaxLength 100]),
     (''lastName'', True, [IsString, MinLength 1, MaxLength 100]),
     (''phone'', True, [IsString, MaxLength 50]),
     (''locale'', True, [IsIn SUPPORTED_LOCALES]),
     (''country'', True, [IsString, MaxLength 100]),
     (''city'', True, [IsString, MaxLength 100]),
     (''street'', True, [IsString, MaxLength 255]),
     (''address'', True, [IsString, MaxLength 255]),
     (''postalCode'', True, [IsString, MaxLength 20]),
     (''occupation'', True, [IsString, MaxLength 255]),
     (''position'', True, [IsString, MaxLength 255]),
     (''company'', True, [IsString, MaxLength 255]),
     (''avatarUrl'', True, [IsString, MaxLength 500])]"

definition update_password_rules :: body_rules where
  "update_password_rules = [
     (''currentPassword'', False, [IsString, MinLength 1, MaxLength 128]),
     (''newPassword'', False, [IsString, MinLength 8, MaxLength 128, MatchesPassword])]"

definition catalog_query_rules :: body_rules where
  "catalog_query_rules = [
     (''search'', True, [IsString, MaxLength 200]),
     (''program_code'', True, [IsString, MaxLength 50]),
     (''active'', True, [IsBoolean]),
     (''cursor'', True, [IsString, MaxLength 500]),
     (''limit'', True, [IsInt, Min 1, Max 100]),
     (''sort'', True, [IsIn [''-created_at'', ''created_at'']])]"

definition certificate_locale_rules :: body_rules where
  "certificate_locale_rules = [
     (''title'', True, [IsString, MaxLength 255]),
     (''description'', True, [IsString, MaxLength 5000])]"

definition create_certificate_rules :: body_rules where
  "create_certificate_rules = [
     (''title'', False, [IsString, LengthBetween 1 255]),
     (''programCode'', False, [IsString, LengthBetween 1 50]),
     (''price'', False, [IsNumber 2, Min 0]),
     (''currency'', True, [IsString, LengthBetween 3 3]),
     (''description'', True, [IsString, MaxLength 5000]),
     (''thumbnailUrl'', True, [IsString, MaxLength 500]),
     (''active'', True, [IsBoolean]),
     (''translations'', True, [IsObject])]"

definition update_certificate_rules :: body_rules where
  "update_certificate_rules = [
     (''title'', True, [IsString, LengthBetween 1 255]),
     (''programCode'', True, [IsString, LengthBetween 1 50]),
     (''price'', True, [IsNumber 2, Min 0]),
     (''currency'', True, [IsString, LengthBetween 3 3]),
     (''description'', True, [IsString, MaxLength 5000]),
     (''thumbnailUrl'', True, [IsString, MaxLength 500]),
     (''active'', True, [IsBoolean]),
     (''translations'', True, [IsObject])]"

definition update_translations_rules :: body_rules where
  "update_translations_rules = [
     (''translations'', False, [IsObject])]"

definition module_locale_rules :: body_rules where
  "module_locale_rules = [
     (''title'', True, [IsString, MaxLength 255]),
     (''description'', True, [IsString, MaxLength 5000])]"

definition create_module_rules :: body_rules where
  "create_module_rules = [
     (''certId'', False, [IsUUID]),
     (''title'', False, [IsString, LengthBetween 1 255]),
     (''description'', True, [IsString, MaxLength 5000]),
     (''position'', True, [IsInt, Min 0]),
     (''active'', True, [IsBoolean]),
     (''translations'', True, [IsObject])]"

definition update_module_rules :: body_rules where
  "update_module_rules = [
     (''title'', True, [IsString, LengthBetween 1 255]),
     (''description'', True, [IsString, MaxLength 5000]),
     (''position'', True, [IsInt, Min 0]),
     (''active'', True, [IsBoolean]),
     (''translations'', True, [IsObject])]"

definition lesson_locale_rules :: body_rules where
  "lesson_locale_rules = [
     (''title'', True, [IsString, MaxLength 255]),
     (''content_html'', True, [IsString, MaxLength 50000])]"

definition create_lesson_rules :: body_rules where
  "create_lesson_rules = [
     (''moduleId'', False, [IsUUID]),
     (''title'', False, [IsString, LengthBetween 1 255]),
     (''contentText'', True, [IsString, MaxLength 50000]),
     (''videoUrl'', True, [IsString, MaxLength 500]),
     (''position'', True, [IsInt, Min 0]),
     (''durationSeconds'', True, [IsInt, Min 0]),
     (''active'', True, [IsBoolean]),
     (''translations'', True, [IsObject])]"

definition update_lesson_rules :: body_rules where
  "update_lesson_rules = [
     (''title'', True, [IsString, LengthBetween 1 255]),
     (''contentText'', True, [IsString, MaxLength 50000]),
     (''videoUrl'', True, [IsString, MaxLength 500]),
     (''position'', True, [IsInt, Min 0]),
     (''durationSeconds'', True, [IsInt, Min 0]),
     (''active'', True, [IsBoolean]),
     (''translations'', True, [IsObject])]"

definition validate_access_rules :: body_rules where
  "validate_access_rules = [
     (''code'', False, [IsString, IsNotEmpty]),
     (''examId'', False, [IsUUID])]"

definition start_exam_rules :: body_rules where
  "start_exam_rules = [
     (''code'', False, [IsString, IsNotEmpty]),
     (''examId'', False, [IsUUID])]"

definition autosave_rules :: body_rules where
  "autosave_rules = [
     (''answers'', False, [IsObject])]"

definition submit_exam_rules :: body_rules where
  "submit_exam_rules = [
     (''answers'', False, [IsObject])]"

definition assign_exam_rules :: body_rules where
  "assign_exam_rules = [
     (''userId'', False, [IsUUID]),
     (''certId'', False, [IsUUID]),
     (''examId'', True, [IsUUID])]"

subsection \<open>The pipe\<close>

text \<open>\<open>body\<close> holds the properties of the instance that are not \<open>undefined\<close>; \<open>V\<close> is the library's decision for one rule.\<close>

definition property_accepted :: "(rule \<Rightarrow> js_value \<Rightarrow> bool) \<Rightarrow> (string \<times> js_value) list \<Rightarrow> string \<times> bool \<times> rule list \<Rightarrow> bool" where
  "property_accepted V body p = (case p of (n, optional, rules) \<Rightarrow> (case map_of body n of
      None \<Rightarrow> optional
    | Some v \<Rightarrow> optional \<and> v = JsNull \<or> list_all (\<lambda>r. V r v) rules))"

definition accepts :: "(rule \<Rightarrow> js_value \<Rightarrow> bool) \<Rightarrow> body_rules \<Rightarrow> (string \<times> js_value) list \<Rightarrow> bool" where
  "accepts V d body \<longleftrightarrow> list_all (\<lambda>(n, _). n \<in> set (map fst d)) body \<and> list_all (property_accepted V body) d"

text \<open>The text of a UUID: 32 hexadecimal digits in groups of 8, 4, 4, 4 and 12, joined by hyphens.\<close>

definition uuid_text :: "string \<Rightarrow> bool" where
  "uuid_text s \<longleftrightarrow> length s = 36 \<and> list_all (\<lambda>i. if i \<in> {8, 13, 18, 23} then s ! i = CHR ''-''
     else s ! i \<in> set ''0123456789abcdefABCDEF'') [0..<36]"

text \<open>What the documentation of the library says about accepted values.\<close>

definition documented :: "(rule \<Rightarrow> js_value \<Rightarrow> bool) \<Rightarrow> bool" where
  "documented V \<longleftrightarrow> (\<forall>r v. V r v \<longrightarrow> (case r of
      IsString \<Rightarrow> (\<exists>s. v = JsString s)
    | IsEmail \<Rightarrow> (\<exists>s. v = JsString s)
    | IsUUID \<Rightarrow> (\<exists>s. v = JsString s \<and> uuid_text s)
    | IsBoolean \<Rightarrow> (\<exists>b. v = JsBool b)
    | IsInt \<Rightarrow> (\<exists>i. v = JsNumber (of_int i))
    | IsNumber _ \<Rightarrow> (\<exists>x. v = JsNumber x)
    | IsObject \<Rightarrow> (\<exists>m. v = JsObject m)
    | IsNotEmpty \<Rightarrow> v \<noteq> JsNull \<and> v \<noteq> JsString ''''
    | IsIn ss \<Rightarrow> (\<exists>s \<in> set ss. v = JsString s)
    | MinLength n \<Rightarrow> (\<exists>s. v = JsString s \<and> n \<le> length s)
    | MaxLength n \<Rightarrow> (\<exists>s. v = JsString s \<and> length s \<le> n)
    | LengthBetween m n \<Rightarrow> (\<exists>s. v = JsString s \<and> m \<le> length s \<and> length s \<le> n)
    | Min i \<Rightarrow> (\<exists>x. v = JsNumber x \<and> of_int i \<le> x)
    | Max i \<Rightarrow> (\<exists>x. v = JsNumber x \<and> x \<le> of_int i)
    | MatchesPassword \<Rightarrow> (\<exists>s. v = JsString s)))"

text \<open>A decision that follows the documentation, for the rules that need no further library.\<close>

definition plain_rules :: "rule \<Rightarrow> js_value \<Rightarrow> bool" where
  "plain_rules r v = (case (r, v) of
      (IsNotEmpty, JsNull) \<Rightarrow> False
    | (IsNotEmpty, v) \<Rightarrow> v \<noteq> JsString ''''
    | (IsString, JsString _) \<Rightarrow> True
    | (IsEmail, JsString s) \<Rightarrow> CHR ''@'' \<in> set s
    | (IsUUID, JsString s) \<Rightarrow> uuid_text s
    | (IsBoolean, JsBool _) \<Rightarrow> True
    | (IsInt, JsNumber x) \<Rightarrow> of_int \<lfloor>x\<rfloor> = x
    | (IsNumber _, JsNumber _) \<Rightarrow> True
    | (IsObject, JsObject _) \<Rightarrow> True
    | (IsIn ss, JsString s) \<Rightarrow> s \<in> set ss
    | (MinLength n, JsString s) \<Rightarrow> n \<le> length s
    | (MaxLength n, JsString s) \<Rightarrow> length s \<le> n
    | (LengthBetween m n, JsString s) \<Rightarrow> m \<le> length s \<and> length s \<le> n
    | (Min i, JsNumber x) \<Rightarrow> of_int i \<le> x
    | (Max i, JsNumber x) \<Rightarrow> x \<le> of_int i
    | (MatchesPassword, JsString s) \<Rightarrow> 8 \<le> length s
    | _ \<Rightarrow> False)"

lemma plain_rules_documented: "documented plain_rules"
  unfolding documented_def plain_rules_def
  by (intro allI impI) (auto split: rule.splits js_value.splits intro: exI[of _ "\<lfloor>x\<rfloor>" for x])

end
