(* ===== verification/RequestProperties.thy ===== *)
theory RequestProperties
  imports RequestBodies SchemaAgreement
begin

section \<open>Accepted bodies fit their columns\<close>

text \<open>
  The rules of the DTO classes against the columns that the services write their properties to: whatever
  the pipe accepts fits its column, except that integers and prices are only bounded from below; and the
  bodies that create a row carry every column that must be given.
\<close>

subsection \<open>Which class writes which table\<close>

definition stored_bodies :: "(body_rules \<times> entity) list" where
  "stored_bodies = [(register_rules, user_entity), (update_profile_rules, user_entity),
     (create_certificate_rules, certificate_entity), (update_certificate_rules, certificate_entity),
     (update_translations_rules, certificate_entity), (create_module_rules, learning_module_entity),
     (update_module_rules, learning_module_entity), (create_lesson_rules, lesson_entity), (update_lesson_rules, lesson_entity)]"

definition creating_bodies :: "(body_rules \<times> entity) list" where
  "creating_bodies = [(register_rules, user_entity), (create_certificate_rules, certificate_entity),
     (create_module_rules, learning_module_entity), (create_lesson_rules, lesson_entity)]"

subsection \<open>Static comparison\<close>

definition text_within :: "nat \<Rightarrow> rule \<Rightarrow> bool" where
  "text_within n r = (case r of MaxLength k \<Rightarrow> k \<le> n | LengthBetween _ k \<Rightarrow> k \<le> n | IsIn ss \<Rightarrow> list_all (\<lambda>s. length s \<le> n) ss
     | _ \<Rightarrow> False)"

definition rules_fit :: "rule list \<Rightarrow> field_type \<Rightarrow> bool" where
  "rules_fit rs ft = (case ft of
      Sql (Varchar n) \<Rightarrow> list_ex (text_within n) rs
    | Sql Textual \<Rightarrow> IsString \<in> set rs
    | Sql Uuid \<Rightarrow> IsUUID \<in> set rs
    | Sql Boolean \<Rightarrow> IsBoolean \<in> set rs
    | Sql Integer \<Rightarrow> IsInt \<in> set rs \<and> Min 0 \<in> set rs
    | Sql (Numeric _ _) \<Rightarrow> list_ex (\<lambda>r. case r of IsNumber _ \<Rightarrow> True | _ \<Rightarrow> False) rs \<and> Min 0 \<in> set rs
    | Sql Jsonb \<Rightarrow> IsObject \<in> set rs
    | _ \<Rightarrow> False)"

definition find_field :: "string \<Rightarrow> entity \<Rightarrow> field option" where
  "find_field p e = find (\<lambda>f. fd_property f = p) (en_fields e)"

text \<open>The only property without a column of its name is the password of a registration, which is hashed.\<close>

definition body_fits :: "body_rules \<times> entity \<Rightarrow> bool" where
  "body_fits de = (case de of (d, e) \<Rightarrow> distinct (map fst d) \<and> list_all (\<lambda>(p, _, rs). case find_field p e of
      None \<Rightarrow> p = ''password'' | Some f \<Rightarrow> rules_fit rs (fd_type f)) d)"

definition refuses_null :: "rule list \<Rightarrow> bool" where
  "refuses_null rs = list_ex (\<lambda>r. r \<in> {IsString, IsEmail, IsUUID, IsInt, IsBoolean} \<or> (case r of IsNumber _ \<Rightarrow> True | _ \<Rightarrow> False)) rs"

definition must_be_given :: "field \<Rightarrow> bool" where
  "must_be_given f \<longleftrightarrow> \<not> fd_nullable f \<and> fd_default f = None \<and> (case fd_type f of
      GeneratedUuid \<Rightarrow> False | GeneratedSerial \<Rightarrow> False | CreateOrUpdateDate \<Rightarrow> False | _ \<Rightarrow> True) \<and> fd_property f \<noteq> ''passwordHash''"

definition body_complete :: "body_rules \<times> entity \<Rightarrow> bool" where
  "body_complete de = (case de of (d, e) \<Rightarrow> list_all (\<lambda>f. must_be_given f \<longrightarrow> (case map_of d (fd_property f) of
      None \<Rightarrow> False | Some (optional, rs) \<Rightarrow> \<not> optional \<and> refuses_null rs)) (en_fields e))"

lemmas bodies_defs = register_rules_def update_profile_rules_def create_certificate_rules_def update_certificate_rules_def
  update_translations_rules_def create_module_rules_def update_module_rules_def create_lesson_rules_def update_lesson_rules_def

lemmas classes_defs = user_entity_def certificate_entity_def learning_module_entity_def lesson_entity_def uuid_key_def stamped_def

lemma stored_bodies_fit: "list_all body_fits stored_bodies"
  by (simp add: stored_bodies_def body_fits_def bodies_defs classes_defs find_field_def rules_fit_def text_within_def
      SUPPORTED_LOCALES_def)

lemma creating_bodies_complete: "list_all body_complete creating_bodies"
  by (simp add: creating_bodies_def body_complete_def bodies_defs classes_defs must_be_given_def refuses_null_def)

subsection \<open>Accepted values\<close>

text \<open>
  The values PostgreSQL stores in a column of each type: a text no longer than the width, the text of a
  UUID, an integer of 32 bits, a number that rounded to the scale keeps to the precision. The zero
  character is refused in every text, also inside JSON, and no rule of the classes excludes it.
\<close>

fun zero_free :: "js_value \<Rightarrow> bool" where
  "zero_free (JsString s) \<longleftrightarrow> CHR 0x00 \<notin> set s"
| "zero_free (JsArray vs) \<longleftrightarrow> list_all zero_free vs"
| "zero_free (JsObject m) \<longleftrightarrow> list_all (\<lambda>kv. CHR 0x00 \<notin> set (fst kv) \<and> zero_free (snd kv)) m"
| "zero_free _ \<longleftrightarrow> True"

definition value_fits :: "sql_type \<Rightarrow> js_value \<Rightarrow> bool" where
  "value_fits ty v = (case ty of
      Varchar n \<Rightarrow> (\<exists>s. v = JsString s \<and> length s \<le> n) \<and> zero_free v
    | Textual \<Rightarrow> (\<exists>s. v = JsString s) \<and> zero_free v
    | Uuid \<Rightarrow> (\<exists>s. v = JsString s \<and> uuid_text s)
    | Boolean \<Rightarrow> (\<exists>b. v = JsBool b)
    | Integer \<Rightarrow> (\<exists>i. v = JsNumber (of_int i) \<and> - 2147483648 \<le> i \<and> i \<le> 2147483647)
    | Numeric p s \<Rightarrow> (\<exists>x. v = JsNumber x \<and> \<lfloor>\<bar>x\<bar> * 10 ^ s + 1 / 2\<rfloor> < 10 ^ p)
    | Jsonb \<Rightarrow> (\<exists>m. v = JsObject m) \<and> zero_free v
    | _ \<Rightarrow> False)"

text \<open>A number of the kind the column holds, above the largest it can hold.\<close>

definition value_overflows :: "sql_type \<Rightarrow> js_value \<Rightarrow> bool" where
  "value_overflows ty v = (case ty of
      Integer \<Rightarrow> (\<exists>i. v = JsNumber (of_int i) \<and> 2147483647 < i)
    | Numeric p s \<Rightarrow> (\<exists>x. v = JsNumber x \<and> 0 < x \<and> 10 ^ p \<le> \<lfloor>x * 10 ^ s + 1 / 2\<rfloor>)
    | _ \<Rightarrow> False)"

definition numeric_properties :: "string list" where
  "numeric_properties = [''price'', ''position'', ''durationSeconds'']"

lemma documentedD:
  assumes "documented V" "V r v"
  shows "r = IsString \<or> r = IsEmail \<Longrightarrow> \<exists>s. v = JsString s" "r = IsUUID \<Longrightarrow> \<exists>s. v = JsString s \<and> uuid_text s"
    "r = IsBoolean \<Longrightarrow> \<exists>b. v = JsBool b" "r = IsInt \<Longrightarrow> \<exists>i. v = JsNumber (of_int i)"
    "r = IsNumber k \<Longrightarrow> \<exists>x. v = JsNumber x" "r = IsObject \<Longrightarrow> \<exists>m. v = JsObject m"
    "r = Min i \<Longrightarrow> \<exists>x. v = JsNumber x \<and> of_int i \<le> x"
    "text_within n r \<Longrightarrow> \<exists>s. v = JsString s \<and> length s \<le> n"
proof -
  note doc = assms(1)[unfolded documented_def, rule_format, OF assms(2)]
  show "r = IsString \<or> r = IsEmail \<Longrightarrow> \<exists>s. v = JsString s" "r = IsUUID \<Longrightarrow> \<exists>s. v = JsString s \<and> uuid_text s"
    "r = IsBoolean \<Longrightarrow> \<exists>b. v = JsBool b" "r = IsInt \<Longrightarrow> \<exists>i. v = JsNumber (of_int i)"
    "r = IsNumber k \<Longrightarrow> \<exists>x. v = JsNumber x" "r = IsObject \<Longrightarrow> \<exists>m. v = JsObject m"
    "r = Min i \<Longrightarrow> \<exists>x. v = JsNumber x \<and> of_int i \<le> x"
    using doc by auto
  show "text_within n r \<Longrightarrow> \<exists>s. v = JsString s \<and> length s \<le> n"
    using doc by (cases r) (auto simp: text_within_def list_all_iff)
qed

lemma rules_fit_value:
  assumes "documented V" "rules_fit rs (Sql ty)" "list_all (\<lambda>r. V r v) rs" "zero_free v"
  shows "value_fits ty v \<or> value_overflows ty v"
proof -
  have V: "V r v" if "r \<in> set rs" for r using assms(3) that by (simp add: list_all_iff)
  note D = documentedD[OF assms(1) V]
  show ?thesis
  proof (cases ty)
    case (Varchar n)
    then show ?thesis using assms(2,4) D(8) by (auto simp: rules_fit_def list_ex_iff value_fits_def)
  next
    case Integer
    then have "IsInt \<in> set rs" "Min 0 \<in> set rs" using assms(2) by (simp_all add: rules_fit_def)
    from D(4)[OF this(1) refl] D(7)[OF this(2) refl] obtain i where "v = JsNumber (of_int i)" "0 \<le> i" by auto
    then show ?thesis using Integer by (cases "i \<le> 2147483647") (auto simp: value_fits_def value_overflows_def)
  next
    case (Numeric p s)
    then have "Min 0 \<in> set rs" using assms(2) by (simp add: rules_fit_def)
    from D(7)[OF this refl] obtain x where x: "v = JsNumber x" "0 \<le> x" by auto
    show ?thesis
    proof (cases "\<lfloor>\<bar>x\<bar> * 10 ^ s + 1 / 2\<rfloor> < 10 ^ p")
      case True
      then show ?thesis using Numeric x by (auto simp: value_fits_def)
    next
      case False
      have "\<lfloor>1 / 2 :: number\<rfloor> = 0" by (rule floor_unique) simp_all
      with False have "x \<noteq> 0" by auto
      with False show ?thesis using Numeric x by (auto simp: value_overflows_def)
    qed
  qed (use assms(2,4) D in \<open>auto simp: rules_fit_def value_fits_def\<close>)
qed

lemma find_fieldD: "find_field p e = Some f \<Longrightarrow> f \<in> set (en_fields e) \<and> fd_property f = p"
  by (auto simp: find_field_def find_Some_iff)

lemma accepted_rules:
  assumes "accepts V d body" "(p, skip, rs) \<in> set d" "map_of body p = Some v"
  shows "skip \<and> v = JsNull \<or> list_all (\<lambda>r. V r v) rs"
  using assms by (fastforce simp: accepts_def list_all_iff property_accepted_def)

lemma stored_entities: "(d, e) \<in> set stored_bodies \<Longrightarrow> e \<in> set ALL_ENTITIES"
  by (auto simp: stored_bodies_def ALL_ENTITIES_def)

definition numbers_listed :: "body_rules \<times> entity \<Rightarrow> bool" where
  "numbers_listed de = (case de of (d, e) \<Rightarrow> list_all (\<lambda>(p, _). case find_field p e of
      None \<Rightarrow> True | Some f \<Rightarrow> (case fd_type f of Sql Integer \<Rightarrow> p \<in> set numeric_properties
        | Sql (Numeric _ _) \<Rightarrow> p \<in> set numeric_properties | _ \<Rightarrow> True)) d)"

lemma stored_numbers_listed: "list_all numbers_listed stored_bodies"
  by (simp add: stored_bodies_def numbers_listed_def bodies_defs classes_defs find_field_def numeric_properties_def)

lemma stored_column:
  assumes "snake_case snake" and "(d, e) \<in> set stored_bodies" and "(p, skip, rs) \<in> set d" and "p \<noteq> ''password''"
  shows "\<exists>s tb c ty. migrated 4 = ok s \<and> map_of (sc_tables s) (en_table e) = Some tb \<and> c \<in> set (tb_columns tb) \<and>
    col_name c = snake p \<and> col_type c = ty \<and> rules_fit rs (Sql ty) \<and>
    (\<forall>v. value_overflows ty v \<longrightarrow> p \<in> set numeric_properties)"
proof -
  have "body_fits (d, e)" using stored_bodies_fit assms(2) by (simp add: list_all_iff)
  then obtain f where f: "find_field p e = Some f" "rules_fit rs (fd_type f)"
    using assms(3,4) by (fastforce simp: body_fits_def list_all_iff split: option.splits)
  then obtain ty where ty: "fd_type f = Sql ty" by (auto simp: rules_fit_def split: field_type.splits)
  have "numbers_listed (d, e)" using stored_numbers_listed assms(2) by (simp add: list_all_iff)
  then have "case ty of Integer \<Rightarrow> p \<in> set numeric_properties | Numeric _ _ \<Rightarrow> p \<in> set numeric_properties | _ \<Rightarrow> True"
    using assms(3) f(1) ty by (fastforce simp: numbers_listed_def list_all_iff split: sql_type.splits)
  then have over: "value_overflows ty v \<longrightarrow> p \<in> set numeric_properties" for v
    by (simp add: value_overflows_def split: sql_type.splits)
  obtain s where s: "migrated 4 = ok s" and agree: "list_all (\<lambda>e. case map_of (sc_tables s) (en_table e) of None \<Rightarrow> False
      | Some tb \<Rightarrow> entity_agrees snake (sc_enums s) (sc_indexes s) e tb) ALL_ENTITIES"
    using migrated_agreement[OF assms(1)] by blast
  then obtain tb where tb: "map_of (sc_tables s) (en_table e) = Some tb" "entity_agrees snake (sc_enums s) (sc_indexes s) e tb"
    using stored_entities[OF assms(2)] unfolding list_all_iff by (fastforce split: option.splits)
  then obtain c where c: "c \<in> set (tb_columns tb)" "field_agrees (sc_enums s) (snake p, f) c"
    using find_fieldD[OF f(1)] by (fastforce simp: entity_agrees_def table_agrees_def list_all_iff list_ex_iff)
  then have "col_type c = ty" "col_name c = snake p" using ty by (simp_all add: field_agrees_def type_agrees_def)
  with s tb(1) c(1) f(2) ty over show ?thesis by metis
qed



text \<open>
  A body from which a service creates a row carries, with a value that is not null, every column of the row that must be given:
  one that is neither nullable nor generated and has no default (the password hash is computed).\<close>

theorem created_rows_are_complete:
  assumes "documented V" and "(d, e) \<in> set creating_bodies" and "accepts V d body"
    and "f \<in> set (en_fields e)" and "must_be_given f"
  shows "\<exists>v. map_of body (fd_property f) = Some v \<and> v \<noteq> JsNull"
proof -
  have "body_complete (d, e)" using creating_bodies_complete assms(2) by (simp add: list_all_iff)
  then obtain rs where rs: "map_of d (fd_property f) = Some (False, rs)" "refuses_null rs"
    using assms(4,5) by (fastforce simp: body_complete_def list_all_iff split: option.splits)
  then have "property_accepted V body (fd_property f, False, rs)"
    using assms(3) map_of_SomeD[OF rs(1)] by (simp add: accepts_def list_all_iff)
  then obtain v where v: "map_of body (fd_property f) = Some v" "list_all (\<lambda>r. V r v) rs"
    by (auto simp: property_accepted_def split: option.splits)
  have "\<not> V r JsNull" if "r \<in> {IsString, IsEmail, IsUUID, IsInt, IsBoolean} \<or> (case r of IsNumber _ \<Rightarrow> True | _ \<Rightarrow> False)" for r
    using that assms(1)[unfolded documented_def, rule_format, of r JsNull] by (auto split: rule.splits)
  then have "v \<noteq> JsNull" using v(2) rs(2) unfolding refuses_null_def list_ex_iff list_all_iff by blast
  then show ?thesis using v(1) by blast
qed

lemma some_uuid: "uuid_text ''01234567-89ab-cdef-0123-456789abcdef''" by code_simp

theorem created_rows_are_complete_witness:
  "\<exists>v. map_of [(''certId'', JsString ''01234567-89ab-cdef-0123-456789abcdef''), (''title'', JsString ''Foundations'')] ''title'' = Some v \<and> v \<noteq> JsNull"
proof -
  have "accepts plain_rules create_module_rules [(''certId'', JsString ''01234567-89ab-cdef-0123-456789abcdef''), (''title'', JsString ''Foundations'')]"
    using some_uuid by (simp add: accepts_def create_module_rules_def property_accepted_def plain_rules_def)
  moreover have "(create_module_rules, learning_module_entity) \<in> set creating_bodies" by (simp add: creating_bodies_def)
  moreover have "fld ''title'' (Sql (Varchar 255)) False None None \<in> set (en_fields learning_module_entity)"
    by (simp add: learning_module_entity_def)
  moreover have "must_be_given (fld ''title'' (Sql (Varchar 255)) False None None)" by (simp add: must_be_given_def)
  ultimately show ?thesis using created_rows_are_complete[OF plain_rules_documented] by fastforce
qed

end
