(* ===== verification/Configuration.thy ===== *)
theory Configuration
  imports Storage Mail WebPages AccessControl SchemaRules
begin

section \<open>The environment the application starts with\<close>

text \<open>
  The schema of \<open>config/validation.ts\<close> as data and the validation that \<open>ConfigModule\<close> runs before anything else
  is built: keys that are missing take their default or are an error, the rules of a key hold for its text, and
  the rules under \<open>.when('NODE_ENV', production)\<close> hold as well in production. What a single rule accepts is
  decided by Joi and an argument here. Numbers are kept as their texts; unknown keys pass.
\<close>

subsection \<open>Known development secrets\<close>

definition KNOWN_DEV_JWT_SECRETS :: "string list" where
  "KNOWN_DEV_JWT_SECRETS = [
     ''development-only-jwt-access-secret-min-64-chars-replace-in-production'',
     ''development-only-jwt-refresh-secret-different-from-access-secret-here'',
     ''change-me-min-64-chars-random-string-generated-securely-for-production'',
     ''change-me-separate-refresh-secret-min-64-chars-random-string'']"

definition KNOWN_MOCK_KEYS :: "string list" where
  "KNOWN_MOCK_KEYS = [''sk_test_mock'', ''whsec_mock'', ''SG.mock'']"

definition KNOWN_DEV_STORAGE_CREDS :: "string list" where
  "KNOWN_DEV_STORAGE_CREDS = [''minioadmin'']"

definition KNOWN_DEV_DB_PASSWORD :: string where
  "KNOWN_DEV_DB_PASSWORD = ''iospass''"

subsection \<open>The schema\<close>

datatype joi_rule =
    JoiString bool
  | JoiNumber
  | JoiUri
  | JoiEmail
  | JoiMin nat
  | JoiValid "string list"
  | JoiInvalid "string list"
  | JoiNotMatching string

text \<open>\<open>JoiString b\<close> is a text that may be empty if \<open>b\<close>, \<open>JoiNotMatching p\<close> an inverted pattern for the literal \<open>p\<close>.\<close>

datatype joi_presence = Required | Optionally | DefaultTo string

record joi_key =
  jk_rules :: "joi_rule list"
  jk_presence :: joi_presence
  jk_production :: "joi_rule list"

definition joi_text :: "joi_rule list \<Rightarrow> joi_presence \<Rightarrow> joi_key" where
  "joi_text rules p = \<lparr>jk_rules = JoiString False # rules, jk_presence = p, jk_production = []\<rparr>"

definition joi_number :: "joi_presence \<Rightarrow> joi_key" where
  "joi_number p = \<lparr>jk_rules = [JoiNumber], jk_presence = p, jk_production = []\<rparr>"

definition when_production :: "joi_key \<Rightarrow> joi_rule \<Rightarrow> joi_key" where
  "when_production k r = k\<lparr>jk_production := [r]\<rparr>"

definition validationSchema :: "(string \<times> joi_key) list" where
  "validationSchema = [
     (''NODE_ENV'', joi_text [JoiValid [''development'', ''staging'', ''production'', ''test'']] (DefaultTo ''development'')),
     (''PORT'', joi_number (DefaultTo ''3000'')),
     (''WS_PORT'', joi_number (DefaultTo ''3001'')),
     (''APP_BASE_URL'', joi_text [JoiUri] Required),
     (''FRONTEND_BASE_URL'', joi_text [JoiUri] Optionally),
     (''DATABASE_URL'', when_production (joi_text [] Required) (JoiNotMatching ('':'' @ KNOWN_DEV_DB_PASSWORD @ ''@''))),
     (''REDIS_URL'', joi_text [] Required),
     (''JWT_SECRET'', when_production (joi_text [JoiMin 32] Required) (JoiInvalid KNOWN_DEV_JWT_SECRETS)),
     (''JWT_REFRESH_SECRET'', when_production (joi_text [JoiMin 32] Required) (JoiInvalid KNOWN_DEV_JWT_SECRETS)),
     (''JWT_ACCESS_TTL'', joi_number (DefaultTo ''900'')),
     (''JWT_REFRESH_TTL'', joi_number (DefaultTo ''604800'')),
     (''STRIPE_SECRET_KEY'', when_production (joi_text [] Required) (JoiInvalid KNOWN_MOCK_KEYS)),
     (''STRIPE_WEBHOOK_SECRET'', when_production (joi_text [] Required) (JoiInvalid KNOWN_MOCK_KEYS)),
     (''SENDGRID_API_KEY'', when_production (joi_text [] Required) (JoiInvalid KNOWN_MOCK_KEYS)),
     (''MAIL_FROM_ADDRESS'', joi_text [JoiEmail] (DefaultTo ''no-reply@invalid.local'')),
     (''DO_SPACES_ENDPOINT'', joi_text [JoiUri] Required),
     (''DO_SPACES_PUBLIC_URL'', joi_text [JoiUri] Required),
     (''DO_SPACES_REGION'', joi_text [] (DefaultTo ''us-east-1'')),
     (''DO_SPACES_KEY'', when_production (joi_text [] Required) (JoiInvalid KNOWN_DEV_STORAGE_CREDS)),
     (''DO_SPACES_SECRET'', when_production (joi_text [] Required) (JoiInvalid KNOWN_DEV_STORAGE_CREDS)),
     (''DO_SPACES_BUCKET_CERTIFICATES'', joi_text [] Required),
     (''DO_SPACES_BUCKET_MEDIA'', joi_text [] Required),
     (''DO_SPACES_BUCKET_VIDEOS'', joi_text [] Required),
     (''STORAGE_KEY_PREFIX'', \<lparr>jk_rules = [JoiString True], jk_presence = DefaultTo '''', jk_production = []\<rparr>),
     (''ENABLE_SWAGGER'', joi_text [JoiValid [''true'', ''false'']] (DefaultTo ''false'')),
     (''DEFAULT_LOCALE'', joi_text [] (DefaultTo ''en'')),
     (''SUPPORTED_LOCALES'', joi_text [] (DefaultTo ''en,tr,fr,es,ar,de'')),
     (''BOOTSTRAP_SUPER_ADMIN'', joi_text [JoiValid [''true'', ''false'']] Optionally),
     (''BOOTSTRAP_SUPER_ADMIN_EMAIL'', joi_text [JoiEmail] Optionally),
     (''BOOTSTRAP_SUPER_ADMIN_PASSWORD'', joi_text [JoiMin 12] Optionally),
     (''BOOTSTRAP_SUPER_ADMIN_FIRST_NAME'', joi_text [] Optionally),
     (''BOOTSTRAP_SUPER_ADMIN_LAST_NAME'', joi_text [] Optionally),
     (''TEST_THROTTLE_AUTH_LIMIT'', joi_number Optionally)]"

subsection \<open>Validation\<close>

text \<open>The value of a key after validation.\<close>

definition joi_value :: "(string \<rightharpoonup> string) \<Rightarrow> string \<Rightarrow> string option" where
  "joi_value env n = (case env n of
      Some v \<Rightarrow> Some v
    | None \<Rightarrow> (case map_of validationSchema n of
        Some k \<Rightarrow> (case jk_presence k of DefaultTo d \<Rightarrow> Some d | _ \<Rightarrow> None)
      | None \<Rightarrow> None))"

definition joi_rules :: "bool \<Rightarrow> joi_key \<Rightarrow> joi_rule list" where
  "joi_rules production k = jk_rules k @ (if production then jk_production k else [])"

text \<open>\<open>V\<close> is Joi's decision for one rule and the text of a key.\<close>

definition joi_accepts :: "(joi_rule \<Rightarrow> string \<Rightarrow> bool) \<Rightarrow> (string \<rightharpoonup> string) \<Rightarrow> string \<times> joi_key \<Rightarrow> bool" where
  "joi_accepts V env nk = (case env (fst nk) of
      None \<Rightarrow> jk_presence (snd nk) \<noteq> Required
    | Some v \<Rightarrow> list_all (\<lambda>r. V r v) (joi_rules (joi_value env ''NODE_ENV'' = Some ''production'') (snd nk)))"

text \<open>With \<open>abortEarly: false\<close> the error names every key that fails.\<close>

definition validate_env :: "(joi_rule \<Rightarrow> string \<Rightarrow> bool) \<Rightarrow> (string \<rightharpoonup> string) \<Rightarrow> string list + (string \<rightharpoonup> string)" where
  "validate_env V env =
     (case map fst (filter (\<lambda>nk. \<not> joi_accepts V env nk) validationSchema) of
        [] \<Rightarrow> Inr (joi_value env)
      | failed \<Rightarrow> Inl failed)"

text \<open>What the documentation of Joi says about accepted texts.\<close>

definition joi_documented :: "(joi_rule \<Rightarrow> string \<Rightarrow> bool) \<Rightarrow> bool" where
  "joi_documented V \<longleftrightarrow> (\<forall>r s. V r s \<longrightarrow> (case r of
      JoiString b \<Rightarrow> b \<or> s \<noteq> ''''
    | JoiNumber \<Rightarrow> s \<noteq> ''''
    | JoiUri \<Rightarrow> s \<noteq> ''''
    | JoiEmail \<Rightarrow> CHR ''@'' \<in> set s
    | JoiMin n \<Rightarrow> n \<le> length s
    | JoiValid ss \<Rightarrow> s \<in> set ss
    | JoiInvalid ss \<Rightarrow> s \<notin> set ss
    | JoiNotMatching p \<Rightarrow> \<not> sublist p s))"

text \<open>A decision that follows it.\<close>

definition plain_joi :: "joi_rule \<Rightarrow> string \<Rightarrow> bool" where
  "plain_joi r s = (case r of
      JoiString b \<Rightarrow> b \<or> s \<noteq> ''''
    | JoiNumber \<Rightarrow> s \<noteq> '''' \<and> list_all is_numeral s
    | JoiUri \<Rightarrow> CHR '':'' \<in> set s
    | JoiEmail \<Rightarrow> CHR ''@'' \<in> set s
    | JoiMin n \<Rightarrow> n \<le> length s
    | JoiValid ss \<Rightarrow> s \<in> set ss
    | JoiInvalid ss \<Rightarrow> s \<notin> set ss
    | JoiNotMatching p \<Rightarrow> \<not> sublist p s)"

lemma plain_joi_documented: "joi_documented plain_joi"
  by (auto simp: joi_documented_def plain_joi_def split: joi_rule.splits)

end
