(* ===== verification/DemoCatalogue.thy ===== *)
theory DemoCatalogue
  imports Entities JsString
begin

section \<open>The catalogue of the demo data\<close>

text \<open>
  The constants of \<open>database/seeds/demo-seed.ts\<close>: the namespace of demo keys and the specification of six
  certificates with their modules, lessons and numbers of exams. Characters beyond ASCII are the bytes of
  their UTF-8 encoding. \<open>demoId\<close> is injective, so a key tells its kind and its number.
\<close>

subsection \<open>Keys\<close>

datatype demo_block =
    BAdmin | BUser | BCert | BModule | BLesson | BExam | BQuestion | BOption | BPromo | BAttempt | BTransaction
  | BAccessCode | BIssued | BPurchase

definition BLOCK :: "demo_block \<Rightarrow> nat" where
  "BLOCK b = (case b of BAdmin \<Rightarrow> 1 | BUser \<Rightarrow> 2 | BCert \<Rightarrow> 3 | BModule \<Rightarrow> 4 | BLesson \<Rightarrow> 5 | BExam \<Rightarrow> 6 | BQuestion \<Rightarrow> 7
     | BOption \<Rightarrow> 8 | BPromo \<Rightarrow> 9 | BAttempt \<Rightarrow> 10 | BTransaction \<Rightarrow> 11 | BAccessCode \<Rightarrow> 12 | BIssued \<Rightarrow> 13 | BPurchase \<Rightarrow> 14)"

text \<open>\<open>n.toString(16)\<close> and \<open>s.padStart(k, '0')\<close>\<close>

fun hex_text :: "nat \<Rightarrow> string" where
  "hex_text n = (if n < 16 then [hex_digit n] else hex_text (n div 16) @ [hex_digit (n mod 16)])"

declare hex_text.simps [simp del]

definition pad_zero :: "nat \<Rightarrow> string \<Rightarrow> string" where
  "pad_zero k s = replicate (k - length s) CHR ''0'' @ s"

definition demoId :: "demo_block \<Rightarrow> nat \<Rightarrow> uuid" where
  "demoId b n = ''dd'' @ pad_zero 6 (hex_text (BLOCK b)) @ ''-0000-4000-a000-'' @ pad_zero 12 (hex_text n)"

definition DEMO_PASSWORD :: string where
  "DEMO_PASSWORD = ''Demo@123!''"

definition DEMO_ACCESS_CODE :: string where
  "DEMO_ACCESS_CODE = concat (replicate 32 ''ab'')"

definition QUESTION_MARKS :: "int list" where
  "QUESTION_MARKS = [3, 2, 2, 2, 1]"

subsection \<open>Certificates\<close>

definition utf8 :: "nat list \<Rightarrow> string" where
  "utf8 = map char_of"

record cert_spec =
  cp_n :: nat
  cp_code :: string
  cp_title :: string
  cp_track :: string
  cp_level :: cert_level
  cp_price :: int
  cp_hours :: int
  cp_description :: string
  cp_tr :: string
  cp_ar :: string
  cp_publishedExams :: nat
  cp_draftExams :: "nat option"
  cp_modules :: "(string \<times> string list) list"

definition cert_psm :: cert_spec where
  "cert_psm = \<lparr>cp_n = 1, cp_code = ''PSM'', cp_title = ''Professional Scrum Master I'',
     cp_track = ''Scrum Master'', cp_level = FOUNDATION, cp_price = 149, cp_hours = 20,
     cp_description = ''Demonstrate a fundamental understanding of Scrum and the role of the Scrum Master.'',
     cp_tr = ''Profesyonel Scrum Master I'',
     cp_ar = (utf8 [217, 133, 216, 167, 216, 179, 216, 170, 216, 177, 32, 216, 179, 217, 131, 216, 177, 216, 167, 217, 133,
       32, 216, 167, 217, 132, 217, 133, 216, 173, 216, 170, 216, 177, 217, 129, 32, 216, 167, 217, 132, 216, 163,
       217, 136, 217, 132]),
     cp_publishedExams = 3, cp_draftExams = None,
     cp_modules = [
       (''Scrum Foundations'', [''What is empirical process control?'',
          ''The Scrum pillars: transparency, inspection, adaptation'',
          ''Scrum values in practice'',
          ''Reading the Scrum Guide critically'']),
       (''The Scrum Team'', [''Accountabilities: Scrum Master, Product Owner, Developers'',
          ''Self-management and cross-functionality'',
          ''Common anti-patterns and how to name them'',
          ''Scaling considerations for a single team'']),
       (''Events and Artifacts'', [''Sprint mechanics and the Sprint Goal'',
          ''Backlog refinement that actually works'',
          ''Definition of Done vs acceptance criteria'',
          ''Mock exam walkthrough''])]\<rparr>"

definition cert_pspo :: cert_spec where
  "cert_pspo = \<lparr>cp_n = 2, cp_code = ''PSPO'', cp_title = ''Professional Scrum Product Owner I'',
     cp_track = ''Product Owner'', cp_level = FOUNDATION, cp_price = 149, cp_hours = 18,
     cp_description = ''Validate your knowledge of value-driven product ownership in Scrum.'',
     cp_tr = (''Profesyonel Scrum '' @ utf8 [195, 156] @ ''r'' @ utf8 [195, 188] @ ''n Sahibi I''),
     cp_ar = (utf8 [217, 133, 216, 167, 217, 132, 217, 131, 32, 216, 167, 217, 132, 217, 133, 217, 134, 216, 170, 216, 172,
       32, 216, 167, 217, 132, 217, 133, 216, 173, 216, 170, 216, 177, 217, 129, 32, 217, 129, 217, 138, 32, 216, 179,
       217, 131, 216, 177, 216, 167, 217, 133, 32, 216, 167, 217, 132, 216, 163, 217, 136, 217, 132]),
     cp_publishedExams = 2, cp_draftExams = None,
     cp_modules = [
       (''Product Value'', [''Outcomes over outputs'',
          ''Evidence-based management basics'',
          ''Stakeholders vs customers'']),
       (''Backlog Mastery'', [''Ordering, not prioritising'',
          ''Writing items the team can act on'',
          ''Forecasting and release planning'']),
       (''Working with the Team'', [''The PO at the Sprint Review'',
          ''Saying no without losing trust'',
          ''Mock exam walkthrough''])]\<rparr>"

definition cert_psd :: cert_spec where
  "cert_psd = \<lparr>cp_n = 3, cp_code = ''PSD'', cp_title = ''Professional Scrum Developer I'',
     cp_track = ''Developer'', cp_level = FOUNDATION, cp_price = 129, cp_hours = 16,
     cp_description = ''Prove your ability to build complex software within a Scrum team.'',
     cp_tr = (''Profesyonel Scrum Geli'' @ utf8 [197, 159] @ ''tiricisi I''),
     cp_ar = (utf8 [217, 133, 216, 183, 217, 136, 216, 177, 32, 216, 179, 217, 131, 216, 177, 216, 167, 217, 133, 32, 216,
       167, 217, 132, 217, 133, 216, 173, 216, 170, 216, 177, 217, 129, 32, 216, 167, 217, 132, 216, 163, 217, 136,
       217, 132]),
     cp_publishedExams = 2, cp_draftExams = None,
     cp_modules = [
       ((''Module 1 '' @ utf8 [226, 128, 148] @ '' Engineering in Sprints''), [''1.1 Slicing work vertically'',
          ''1.2 Test-first development'',
          ''1.3 Continuous integration discipline'']),
       ((''Module 2 '' @ utf8 [226, 128, 148] @ '' Quality and Done''), [''2.1 Technical debt economics'',
          ''2.2 Definition of Done as an engineering contract'',
          ''2.3 Mock exam walkthrough''])]\<rparr>"

definition cert_pal :: cert_spec where
  "cert_pal = \<lparr>cp_n = 4, cp_code = ''PAL'', cp_title = ''Professional Agile Leadership'',
     cp_track = ''Leadership'', cp_level = PRACTITIONER, cp_price = 199, cp_hours = 14,
     cp_description = ''For leaders who support and enable agile teams across an organisation.'',
     cp_tr = (''Profesyonel '' @ utf8 [195, 135] @ ''evik Liderlik''),
     cp_ar = (utf8 [216, 167, 217, 132, 217, 130, 217, 138, 216, 167, 216, 175, 216, 169, 32, 216, 167, 217, 132, 216, 177,
       216, 180, 217, 138, 217, 130, 216, 169, 32, 216, 167, 217, 132, 217, 133, 216, 173, 216, 170, 216, 177, 217,
       129, 216, 169]),
     cp_publishedExams = 1, cp_draftExams = None,
     cp_modules = [
       ((''Module 1 '' @ utf8 [226, 128, 148] @ '' Leading Agility''), [(''1.1 The leader'' @ utf8 [226, 128, 153] @ ''s role in an empirical organisation''),
          ''1.2 Goals, measures, and anti-metrics'',
          ''1.3 Growing teams without controlling them'']),
       ((''Module 2 '' @ utf8 [226, 128, 148] @ '' Organisational Design''), [''2.1 Structures that help value flow'',
          ''2.2 Funding models and governance'',
          ''2.3 Mock exam walkthrough''])]\<rparr>"

definition cert_sps :: cert_spec where
  "cert_sps = \<lparr>cp_n = 5, cp_code = ''SPS'', cp_title = ''Scaled Professional Scrum'',
     cp_track = ''Scaling'', cp_level = PRACTITIONER, cp_price = 249, cp_hours = 22,
     cp_description = ''Validate your knowledge of scaling Scrum with the Nexus framework.'',
     cp_tr = (utf8 [195, 150, 108, 195, 167, 101, 107, 108, 101, 110, 109, 105, 197, 159, 32, 80, 114, 111, 102, 101, 115,
       121, 111, 110, 101, 108, 32, 83, 99, 114, 117, 109]),
     cp_ar = (utf8 [216, 179, 217, 131, 216, 177, 216, 167, 217, 133, 32, 216, 167, 217, 132, 217, 133, 216, 173, 216, 170,
       216, 177, 217, 129, 32, 216, 167, 217, 132, 217, 133, 217, 136, 216, 179, 216, 185]),
     cp_publishedExams = 1, cp_draftExams = None,
     cp_modules = [
       ((''Module 1 '' @ utf8 [226, 128, 148] @ '' Nexus Essentials''), [''1.1 The Nexus framework'',
          ''1.2 Cross-team dependencies'']),
       ((''Module 2 '' @ utf8 [226, 128, 148] @ '' Integration''), [''2.1 The integrated increment'',
          ''2.2 Mock exam walkthrough''])]\<rparr>"

definition cert_pmp :: cert_spec where
  "cert_pmp = \<lparr>cp_n = 6, cp_code = ''PMP'', cp_title = ''Project Management Professional Bridge'',
     cp_track = ''Project Management'', cp_level = AUTHORITY, cp_price = 299, cp_hours = 30,
     cp_description = ''Bridge course for PMP holders transitioning to empirical product delivery.'',
     cp_tr = (utf8 [80, 114, 111, 106, 101, 32, 89, 195, 182, 110, 101, 116, 105, 109, 105, 32, 80, 114, 111, 102, 101,
       115, 121, 111, 110, 101, 108, 105, 32, 75, 195, 182, 112, 114, 195, 188, 32, 80, 114, 111, 103, 114, 97, 109,
       196, 177]),
     cp_ar = (utf8 [216, 172, 216, 179, 216, 177, 32, 217, 133, 216, 173, 216, 170, 216, 177, 217, 129, 32, 216, 165, 216,
       175, 216, 167, 216, 177, 216, 169, 32, 216, 167, 217, 132, 217, 133, 216, 180, 216, 167, 216, 177, 217, 138,
       216, 185]),
     cp_publishedExams = 1, cp_draftExams = Some 1,
     cp_modules = [
       ((''Module 1 '' @ utf8 [226, 128, 148] @ '' From Plans to Empiricism''), [''1.1 Predictive vs adaptive'',
          ''1.2 Risk as a backlog concern'']),
       ((''Module 2 '' @ utf8 [226, 128, 148] @ '' Delivery''), [''2.1 Milestones vs Sprint Goals'',
          ''2.2 Mock exam walkthrough''])]\<rparr>"

definition CERTS :: "cert_spec list" where
  "CERTS = [cert_psm, cert_pspo, cert_psd, cert_pal, cert_sps, cert_pmp]"

subsection \<open>Keys are distinct\<close>

definition hex_value :: "char \<Rightarrow> nat" where
  "hex_value c = (if code_of c < 58 then code_of c - 48 else code_of c - 87)"

definition hex_number :: "string \<Rightarrow> nat" where
  "hex_number s = foldl (\<lambda>v c. 16 * v + hex_value c) 0 s"

lemma hex_value_digit: "n < 16 \<Longrightarrow> hex_value (hex_digit n) = n"
  by (simp add: hex_value_def hex_digit_def)

lemma hex_number_text [simp]: "hex_number (hex_text n) = n"
proof (induction n rule: hex_text.induct)
  case (1 n)
  show ?case
  proof (cases "n < 16")
    case True
    then show ?thesis by (simp add: hex_text.simps [of n] hex_number_def hex_value_digit)
  next
    case False
    then show ?thesis using 1 by (simp add: hex_text.simps [of n] hex_number_def hex_value_digit)
  qed
qed

lemma hex_number_zeros: "foldl (\<lambda>v c. 16 * v + hex_value c) 0 (replicate k CHR ''0'') = 0"
  by (induction k) (simp_all add: hex_value_def)

lemma hex_number_pad [simp]: "hex_number (pad_zero k s) = hex_number s"
  by (simp add: pad_zero_def hex_number_def hex_number_zeros)

lemma pad_hex_inj: "pad_zero k (hex_text m) = pad_zero k (hex_text n) \<longleftrightarrow> m = n"
  by (metis hex_number_pad hex_number_text)

lemma block_width: "length (pad_zero 6 (hex_text (BLOCK b))) = 6"
  by (cases b) (simp_all add: BLOCK_def hex_text.simps pad_zero_def)

lemma BLOCK_inj: "BLOCK b = BLOCK c \<longleftrightarrow> b = c"
  by (cases b; cases c) (simp_all add: BLOCK_def)

lemma demoId_inj [simp]: "demoId b m = demoId c n \<longleftrightarrow> b = c \<and> m = n"
  by (simp add: demoId_def block_width pad_hex_inj BLOCK_inj)

lemma demoId_nonempty [simp]: "demoId b n \<noteq> ''''" "'''' \<noteq> demoId b n"
  by (simp_all add: demoId_def)

lemma CERTS_n: "map cp_n CERTS = [1, 2, 3, 4, 5, 6]"
  by (simp add: CERTS_def cert_psm_def cert_pspo_def cert_psd_def cert_pal_def cert_sps_def cert_pmp_def)

end
