(* ===== verification/DemoSeed.thy ===== *)
theory DemoSeed
  imports DemoCatalogue SchemaRules RowSecurity ExamScoring Externals "HOL-Library.AList" "HOL-Library.Product_Lexorder"
begin

section \<open>The demo seeder\<close>

text \<open>
  \<open>database/seeds/demo-seed.ts\<close> over the tables it writes: the removal of the previous demo rows with the
  referential actions of the schema, and the sections that insert the catalogue, the exams, the accounts and
  the stories of five students. An insert meets the row policy, the unique keys and the foreign keys of its
  table; \<open>repository.save\<close> of a row with a key updates the row of that key when there is one. Questions and options
  are tables of their own here and joined by \<open>loaded_exams\<close>. Quizzes, notifications, audit logs and articles, which
  the script does not write, are left out.
\<close>

subsection \<open>The database\<close>

datatype transaction_status = TX_PENDING | TX_COMPLETED | TX_FAILED | TX_REFUNDED
datatype discount_type = PERCENTAGE | FULL_WAIVER

text \<open>\<open>amount\<close> and \<open>discount_value\<close> in hundredths.\<close>

record transaction = uuid_entity +
  tx_userId :: uuid
  tx_certId :: uuid
  tx_stripeSessionId :: string
  tx_amountCents :: int
  tx_currency :: string
  tx_status :: transaction_status
  tx_promoCodeId :: "uuid option"

record issued_certificate = uuid_entity +
  iss_certId :: "string option"
  iss_userId :: uuid
  iss_certificateId :: uuid
  iss_examAttemptId :: uuid
  iss_isActive :: bool
  iss_issuedAt :: instant

record promo_row = promo_code +
  pc_createdAt :: instant
  pc_code :: string
  pc_discountType :: discount_type
  pc_discountCents :: "int option"
  pc_applicableCertIds :: "uuid list option"
  pc_maxUses :: "int option"
  pc_expiresAt :: "instant option"
  pc_createdById :: "uuid option"

record seed_db =
  db_users :: "user list"
  db_admins :: "admin_user list"
  db_certs :: "certificate list"
  db_modules :: "learning_module list"
  db_lessons :: "lesson list"
  db_exams :: "exam list"
  db_questions :: "exam_question list"
  db_options :: "exam_question_option list"
  db_codes :: "exam_access_code list"
  db_attempts :: "exam_attempt list"
  db_sessions :: "test_session list"
  db_purchases :: "student_purchase list"
  db_progress :: "student_progress list"
  db_transactions :: "transaction list"
  db_issued :: "issued_certificate list"
  db_promos :: "promo_row list"
  db_refresh :: "refresh_token list"
  db_tokens :: "auth_token list"
  db_seqs :: "string \<rightharpoonup> nat"

text \<open>Exams with their questions and options.\<close>

definition loaded_question :: "seed_db \<Rightarrow> exam_question \<Rightarrow> exam_question" where
  "loaded_question s q = q\<lparr>q_options := filter (\<lambda>x. o_questionId x = pk q) (db_options s)\<rparr>"

definition loaded_exam :: "seed_db \<Rightarrow> exam \<Rightarrow> exam" where
  "loaded_exam s e = e\<lparr>e_questions := map (loaded_question s) (filter (\<lambda>q. q_examId q = pk e) (db_questions s))\<rparr>"

definition loaded_exams :: "seed_db \<Rightarrow> exam list" where
  "loaded_exams s = map (loaded_exam s) (db_exams s)"

text \<open>What a run draws from outside: the time, the year of \<open>TO_CHAR(NOW(), 'YYYY')\<close>, bcrypt with a salt, and
  \<open>gen_random_uuid()\<close> for the progress row of a user and a lesson.\<close>

record seed_env =
  sd_now :: instant
  sd_year :: string
  sd_bcrypt :: bcrypt_lib
  sd_salt :: string
  sd_uuid :: "uuid \<Rightarrow> uuid \<Rightarrow> uuid"

type_synonym 'a seeding = "seed_db \<Rightarrow> 'a result \<times> seed_db"

definition duplicate_key :: exc where
  "duplicate_key = DatabaseError ''duplicate key value violates unique constraint''"

definition foreign_key :: exc where
  "foreign_key = DatabaseError ''violates foreign key constraint''"

definition row_policy :: exc where
  "row_policy = DatabaseError ''new row violates row-level security policy''"

definition check_violation :: exc where
  "check_violation = DatabaseError ''violates check constraint''"

text \<open>Awaiting a body for each element.\<close>

fun each :: "('x \<Rightarrow> ('s, unit) op) \<Rightarrow> 'x list \<Rightarrow> ('s, unit) op" where
  "each f [] = return_op ()"
| "each f (x # xs) = bind_op (f x) (\<lambda>_. each f xs)"

subsection \<open>Deleting with referential actions\<close>

definition without :: "('r \<Rightarrow> 'k) \<Rightarrow> 'k set \<Rightarrow> 'r list \<Rightarrow> 'r list" where
  "without key gone t = filter (\<lambda>r. key r \<notin> gone) t"

text \<open>ON DELETE CASCADE of the schema, table by table.\<close>

definition drop_attempts :: "uuid set \<Rightarrow> seed_db \<Rightarrow> seed_db" where
  "drop_attempts gone s = s\<lparr>db_attempts := without pk gone (db_attempts s),
     db_issued := without iss_examAttemptId gone (db_issued s)\<rparr>"

definition drop_lessons :: "uuid set \<Rightarrow> seed_db \<Rightarrow> seed_db" where
  "drop_lessons gone s = s\<lparr>db_lessons := without pk gone (db_lessons s),
     db_progress := without pr_lessonId gone (db_progress s)\<rparr>"

definition drop_modules :: "uuid set \<Rightarrow> seed_db \<Rightarrow> seed_db" where
  "drop_modules gone s = (drop_lessons (pk ` set (filter (\<lambda>l. l_moduleId l \<in> gone) (db_lessons s))) s)\<lparr>
     db_modules := without pk gone (db_modules s)\<rparr>"

definition drop_exams :: "uuid set \<Rightarrow> seed_db \<Rightarrow> seed_db" where
  "drop_exams gone s =
     (let qs = pk ` set (filter (\<lambda>q. q_examId q \<in> gone) (db_questions s));
          attempts = pk ` set (filter (\<lambda>a. at_examId a \<in> gone) (db_attempts s))
      in (drop_attempts attempts s)\<lparr>
        db_exams := without pk gone (db_exams s),
        db_questions := without q_examId gone (db_questions s),
        db_options := without o_questionId qs (db_options s),
        db_codes := without ac_examId gone (db_codes s),
        db_sessions := without ts_examId gone (db_sessions s)\<rparr>)"

definition delete_users :: "uuid list \<Rightarrow> seed_db \<Rightarrow> seed_db" where
  "delete_users ids s =
     (let gone = set ids; attempts = pk ` set (filter (\<lambda>a. at_userId a \<in> gone) (db_attempts s))
      in (drop_attempts attempts s)\<lparr>
        db_users := without pk gone (db_users s),
        db_codes := without ac_userId gone (db_codes s),
        db_sessions := without ts_userId gone (db_sessions s),
        db_purchases := without sp_userId gone (db_purchases s),
        db_progress := without pr_userId gone (db_progress s),
        db_transactions := without tx_userId gone (db_transactions s),
        db_issued := without iss_userId gone (db_issued (drop_attempts attempts s)),
        db_refresh := filter (\<lambda>r. case rt_userId r of None \<Rightarrow> True | Some u \<Rightarrow> u \<notin> gone) (db_refresh s),
        db_tokens := without tk_userId gone (db_tokens s)\<rparr>)"

text \<open>\<open>test_sessions.cert_id\<close> has no foreign key.\<close>

definition delete_certificates :: "uuid list \<Rightarrow> seed_db \<Rightarrow> seed_db" where
  "delete_certificates ids s =
     (let gone = set ids;
          modules = pk ` set (filter (\<lambda>m. m_certId m \<in> gone) (db_modules s));
          exams = pk ` set (filter (\<lambda>e. e_certId e \<in> gone) (db_exams s));
          attempts = pk ` set (filter (\<lambda>a. at_certId a \<in> gone) (db_attempts s));
          s1 = drop_attempts attempts (drop_exams exams (drop_modules modules s))
      in s1\<lparr>
        db_certs := without pk gone (db_certs s1),
        db_codes := without ac_certId gone (db_codes s1),
        db_purchases := without sp_certId gone (db_purchases s1),
        db_transactions := without tx_certId gone (db_transactions s1),
        db_issued := without iss_certificateId gone (db_issued s1)\<rparr>)"

text \<open>ON DELETE SET NULL is an UPDATE of the rows that refer to a deleted one, so the trigger of \<open>admin_users\<close> runs for it.\<close>

definition set_null :: "'k set \<Rightarrow> 'k option \<Rightarrow> 'k option" where
  "set_null gone v = (case v of Some k \<Rightarrow> if k \<in> gone then None else Some k | None \<Rightarrow> None)"

definition created_by :: "uuid set \<Rightarrow> admin_user \<Rightarrow> bool" where
  "created_by gone a \<longleftrightarrow> (case a_createdById a of Some k \<Rightarrow> k \<in> gone | None \<Rightarrow> False)"

definition delete_admin_users :: "uuid list \<Rightarrow> unit seeding" where
  "delete_admin_users ids s =
     (let gone = set ids in
      case delete_admins (\<lambda>a. pk a \<in> gone) (db_admins s) of
        (Inl e, _) \<Rightarrow> (throw e, s)
      | (Inr _, admins) \<Rightarrow>
          (case update_admins (created_by gone) (\<lambda>a. a\<lparr>a_createdById := None\<rparr>) admins of
             (Inl e, _) \<Rightarrow> (throw e, s)
           | (Inr _, admins') \<Rightarrow>
               (ok (), s\<lparr>db_admins := admins',
                  db_refresh := filter (\<lambda>r. case rt_adminId r of None \<Rightarrow> True | Some a \<Rightarrow> a \<notin> gone) (db_refresh s),
                  db_promos := map (\<lambda>p. p\<lparr>pc_createdById := set_null gone (pc_createdById p)\<rparr>) (db_promos s)\<rparr>)))"

definition delete_promos :: "uuid list \<Rightarrow> seed_db \<Rightarrow> seed_db" where
  "delete_promos ids s = s\<lparr>db_promos := without pc_id (set ids) (db_promos s),
     db_transactions := map (\<lambda>x. x\<lparr>tx_promoCodeId := set_null (set ids) (tx_promoCodeId x)\<rparr>) (db_transactions s)\<rparr>"

definition demo_ids :: "demo_block \<Rightarrow> nat \<Rightarrow> uuid list" where
  "demo_ids b n = map (\<lambda>i. demoId b (i + 1)) [0..<n]"

definition cleanup :: "unit seeding" where
  "cleanup s =
     (let userIds = demo_ids BUser 16; certIds = map (\<lambda>c. demoId BCert (cp_n c)) CERTS;
          adminIds = demo_ids BAdmin 8; promoIds = demo_ids BPromo 8
      in bind_op (delete_admin_users adminIds) (\<lambda>_ s2. (ok (), delete_promos promoIds s2))
           (delete_certificates certIds (delete_users userIds s)))"

subsection \<open>Inserting\<close>

text \<open>\<open>repository.save\<close>: \<open>merge x r\<close> is the row of the key \<open>pk r\<close> after the update with \<open>r\<close>.\<close>

definition save_row ::
  "bool \<Rightarrow> bool \<Rightarrow> ('r uuid_entity_scheme \<Rightarrow> 'r uuid_entity_scheme \<Rightarrow> 'r uuid_entity_scheme) \<Rightarrow>
    'r uuid_entity_scheme \<Rightarrow> 'r uuid_entity_scheme list \<Rightarrow> 'r uuid_entity_scheme list result" where
  "save_row clash refs merge r t =
     (if clash then throw duplicate_key
      else if \<not> refs then throw foreign_key
      else ok (if pk r \<in> pk ` set t then update_rows (\<lambda>x. pk x = pk r) (\<lambda>x. merge x r) t else t @ [r]))"

text \<open>A plain INSERT under the policy of its table.\<close>

definition sql_insert ::
  "bool \<Rightarrow> bool \<Rightarrow> bool \<Rightarrow> 'r uuid_entity_scheme \<Rightarrow> 'r uuid_entity_scheme list \<Rightarrow> 'r uuid_entity_scheme list result" where
  "sql_insert policy clash refs r t =
     (if \<not> policy then throw row_policy
      else if clash then throw duplicate_key
      else case insert_row pk r t of Inl e \<Rightarrow> throw e | Inr t' \<Rightarrow> if refs then ok t' else throw foreign_key)"

definition store :: "('r list \<Rightarrow> seed_db \<Rightarrow> seed_db) \<Rightarrow> 'r list result \<Rightarrow> unit seeding" where
  "store put rows s = (case rows of Inl e \<Rightarrow> (throw e, s) | Inr t \<Rightarrow> (ok (), put t s))"

definition keeping :: "'r uuid_entity_scheme \<Rightarrow> 'r uuid_entity_scheme \<Rightarrow> 'r uuid_entity_scheme" where
  "keeping x r = r\<lparr>createdAt := createdAt x\<rparr>"

definition save_admin :: "admin_user \<Rightarrow> unit seeding" where
  "save_admin a s = store (\<lambda>t s. s\<lparr>db_admins := t\<rparr>)
     (save_row (\<exists>x \<in> set (db_admins s). pk x \<noteq> pk a \<and> a_email x = a_email a) True
       (\<lambda>x r. (keeping x r)\<lparr>a_locale := a_locale x, a_createdById := a_createdById x\<rparr>) a (db_admins s)) s"

definition save_user :: "user \<Rightarrow> unit seeding" where
  "save_user u s = store (\<lambda>t s. s\<lparr>db_users := t\<rparr>)
     (save_row (\<exists>x \<in> set (db_users s). pk x \<noteq> pk u \<and> u_email x = u_email u) True keeping u (db_users s)) s"

definition save_certificate :: "certificate \<Rightarrow> unit seeding" where
  "save_certificate c s = store (\<lambda>t s. s\<lparr>db_certs := t\<rparr>)
     (save_row False True (\<lambda>x r. (keeping x r)\<lparr>c_thumbnailUrl := c_thumbnailUrl x, c_badgeImageUrl := c_badgeImageUrl x,
       c_syllabusUrl := c_syllabusUrl x\<rparr>) c (db_certs s)) s"

definition save_module :: "learning_module \<Rightarrow> unit seeding" where
  "save_module m s = store (\<lambda>t s. s\<lparr>db_modules := t\<rparr>)
     (save_row False (m_certId m \<in> pk ` set (db_certs s)) keeping m (db_modules s)) s"

definition save_lesson :: "lesson \<Rightarrow> unit seeding" where
  "save_lesson l s = store (\<lambda>t s. s\<lparr>db_lessons := t\<rparr>)
     (save_row False (l_moduleId l \<in> pk ` set (db_modules s)) keeping l (db_lessons s)) s"

definition save_exam :: "exam \<Rightarrow> unit seeding" where
  "save_exam e s =
     (if \<not> exam_check e then (throw check_violation, s)
      else store (\<lambda>t s. s\<lparr>db_exams := t\<rparr>)
        (save_row (\<exists>x \<in> set (db_exams s). pk x \<noteq> pk e \<and> e_certId x = e_certId e \<and> e_examOrder x = e_examOrder e)
          (e_certId e \<in> pk ` set (db_certs s)) (\<lambda>x r. (keeping x r)\<lparr>e_createdById := e_createdById x\<rparr>) e (db_exams s)) s)"

definition save_question :: "exam_question \<Rightarrow> unit seeding" where
  "save_question q s = store (\<lambda>t s. s\<lparr>db_questions := t\<rparr>)
     (save_row False (q_examId q \<in> pk ` set (db_exams s)) keeping q (db_questions s)) s"

definition save_option :: "exam_question_option \<Rightarrow> unit seeding" where
  "save_option x s = store (\<lambda>t s. s\<lparr>db_options := t\<rparr>)
     (save_row False (o_questionId x \<in> pk ` set (db_questions s)) keeping x (db_options s)) s"

definition save_code :: "exam_access_code \<Rightarrow> unit seeding" where
  "save_code c s = store (\<lambda>t s. s\<lparr>db_codes := t\<rparr>)
     (save_row False (ac_userId c \<in> pk ` set (db_users s) \<and> ac_examId c \<in> pk ` set (db_exams s) \<and>
        ac_certId c \<in> pk ` set (db_certs s)) keeping c (db_codes s)) s"

definition transactions_isolation :: "string option \<Rightarrow> transaction \<Rightarrow> bool" where
  "transactions_isolation guc x \<longleftrightarrow> current_setting_or_null guc = Some (tx_userId x)"

definition issued_certificates_isolation :: "string option \<Rightarrow> issued_certificate \<Rightarrow> bool" where
  "issued_certificates_isolation guc x \<longleftrightarrow> current_setting_or_null guc = Some (iss_userId x)"

definition insert_purchase :: "string option \<Rightarrow> student_purchase \<Rightarrow> unit seeding" where
  "insert_purchase guc p s = store (\<lambda>t s. s\<lparr>db_purchases := t\<rparr>)
     (sql_insert (student_purchases_isolation guc p)
       (\<exists>x \<in> set (db_purchases s). sp_userId x = sp_userId p \<and> sp_certId x = sp_certId p)
       (sp_userId p \<in> pk ` set (db_users s) \<and> sp_certId p \<in> pk ` set (db_certs s)) p (db_purchases s)) s"

text \<open>The trigger \<open>update_promo_usage_count\<close> runs after the insert.\<close>

definition insert_transaction :: "instant \<Rightarrow> string option \<Rightarrow> transaction \<Rightarrow> unit seeding" where
  "insert_transaction t guc x s = store (\<lambda>rows s. s\<lparr>db_transactions := rows,
       db_promos := update_promo_usage_count t (tx_promoCodeId x) (db_promos s)\<rparr>)
     (sql_insert (transactions_isolation guc x)
       (\<exists>y \<in> set (db_transactions s). tx_stripeSessionId y = tx_stripeSessionId x)
       (tx_userId x \<in> pk ` set (db_users s) \<and> tx_certId x \<in> pk ` set (db_certs s) \<and>
        (case tx_promoCodeId x of None \<Rightarrow> True | Some p \<Rightarrow> p \<in> pc_id ` set (db_promos s))) x (db_transactions s)) s"

definition insert_seed_progress :: "student_progress \<Rightarrow> unit seeding" where
  "insert_seed_progress p s = store (\<lambda>t s. s\<lparr>db_progress := t\<rparr>)
     (sql_insert True (\<exists>x \<in> set (db_progress s). pr_userId x = pr_userId p \<and> pr_lessonId x = pr_lessonId p)
       (pr_userId p \<in> pk ` set (db_users s) \<and> pr_lessonId p \<in> pk ` set (db_lessons s)) p (db_progress s)) s"

definition insert_attempt :: "string option \<Rightarrow> exam_attempt \<Rightarrow> unit seeding" where
  "insert_attempt guc a s =
     (if exam_attempts_isolation guc a \<and> \<not> attempt_score_check a then (throw check_violation, s)
      else store (\<lambda>t s. s\<lparr>db_attempts := t\<rparr>)
        (sql_insert (exam_attempts_isolation guc a) False
          (at_userId a \<in> pk ` set (db_users s) \<and> at_examId a \<in> pk ` set (db_exams s) \<and> at_certId a \<in> pk ` set (db_certs s))
          a (db_attempts s)) s)"

text \<open>The trigger \<open>set_cert_sequence\<close> runs before the insert and gives the row its public number.\<close>

definition program_of :: "seed_db \<Rightarrow> uuid \<rightharpoonup> string" where
  "program_of s i = map_option c_programCode (find_one (\<lambda>c. pk c = i) (db_certs s))"

definition insert_issued :: "string \<Rightarrow> string option \<Rightarrow> issued_certificate \<Rightarrow> unit seeding" where
  "insert_issued year guc r s =
     (case set_cert_sequence year (program_of s) (iss_certificateId r) (db_seqs s) of
        (Inl e, seqs) \<Rightarrow> (throw e, s\<lparr>db_seqs := seqs\<rparr>)
      | (Inr n, seqs) \<Rightarrow>
          (let s1 = s\<lparr>db_seqs := seqs\<rparr> in
           store (\<lambda>t s. s\<lparr>db_issued := t\<rparr>)
             (sql_insert (issued_certificates_isolation guc r) (n \<noteq> None \<and> (\<exists>x \<in> set (db_issued s). iss_certId x = n))
               (iss_userId r \<in> pk ` set (db_users s) \<and> iss_certificateId r \<in> pk ` set (db_certs s) \<and>
                iss_examAttemptId r \<in> pk ` set (db_attempts s)) (r\<lparr>iss_certId := n\<rparr>) (db_issued s)) s1))"

subsection \<open>Transactions of a user\<close>

text \<open>\<open>asUser\<close>: the body runs with \<open>app.current_user_id\<close> set inside a transaction, which is rolled back when it throws.
  Sequences are not rolled back.\<close>

definition asUser :: "uuid \<Rightarrow> (string option \<Rightarrow> 'a seeding) \<Rightarrow> 'a seeding" where
  "asUser u body s = (case body (Some u) s of
      (Inl e, s') \<Rightarrow> (throw e, s\<lparr>db_seqs := db_seqs s'\<rparr>)
    | (Inr x, s') \<Rightarrow> (ok x, s'))"

subsection \<open>Administrators\<close>

definition demo_admins :: "(nat \<times> string \<times> admin_role \<times> string \<times> string) list" where
  "demo_admins = [
     (1, ''demo-learning@ios.local'', LEARNING_ADMIN, ''Leila'', ''Hassan''),
     (2, ''demo-content@ios.local'', CONTENT_CREATOR, ''Carl'', ''Wright''),
     (3, ''demo-finance@ios.local'', FINANCE_ADMIN, ''Fatima'', ''Aziz''),
     (4, ''demo-support@ios.local'', SUPPORT_ADMIN, ''Sam'', ''Porter'')]"

definition admin_row :: "instant \<Rightarrow> string \<Rightarrow> nat \<times> string \<times> admin_role \<times> string \<times> string \<Rightarrow> admin_user" where
  "admin_row t passwordHash a = (case a of (n, email, role, firstName, lastName) \<Rightarrow>
     \<lparr>pk = demoId BAdmin n, createdAt = t, updatedAt = t, a_email = email, a_passwordHash = passwordHash,
      a_firstName = firstName, a_lastName = lastName, a_role = role, a_locale = ''en'', a_active = True,
      a_createdById = None\<rparr>)"

definition seedAdmins :: "instant \<Rightarrow> string \<Rightarrow> unit seeding" where
  "seedAdmins t passwordHash = each (\<lambda>a. save_admin (admin_row t passwordHash a)) demo_admins"

subsection \<open>Catalogue\<close>

definition demo_cert_row :: "instant \<Rightarrow> cert_spec \<Rightarrow> certificate" where
  "demo_cert_row t spec = \<lparr>pk = demoId BCert (cp_n spec), createdAt = t, updatedAt = t, c_title = cp_title spec,
     c_programCode = cp_code spec, c_description = Some (cp_description spec),
     c_translations = [''en'' \<mapsto> [''title'' \<mapsto> cp_title spec, ''description'' \<mapsto> cp_description spec],
       ''tr'' \<mapsto> [''title'' \<mapsto> cp_tr spec], ''ar'' \<mapsto> [''title'' \<mapsto> cp_ar spec]],
     c_priceCents = 100 * cp_price spec, c_currency = ''USD'', c_active = True, c_thumbnailUrl = None, c_badgeImageUrl = None,
     c_track = Some (cp_track spec), c_level = Some (cp_level spec), c_durationHours = Some (cp_hours spec),
     c_syllabusUrl = None\<rparr>"

definition module_row :: "instant \<Rightarrow> nat \<Rightarrow> nat \<Rightarrow> nat \<Rightarrow> string \<Rightarrow> learning_module" where
  "module_row t certN moduleSeq mi title = \<lparr>pk = demoId BModule moduleSeq, createdAt = t, updatedAt = t,
     m_certId = demoId BCert certN, m_title = title, m_description = None,
     m_translations = [''en'' \<mapsto> [''title'' \<mapsto> title]], m_position = int (mi + 1), m_active = True\<rparr>"

definition lesson_row :: "instant \<Rightarrow> nat \<Rightarrow> nat \<Rightarrow> nat \<Rightarrow> string \<Rightarrow> lesson" where
  "lesson_row t moduleSeq lessonSeq li title = \<lparr>pk = demoId BLesson lessonSeq, createdAt = t, updatedAt = t,
     l_moduleId = demoId BModule moduleSeq, l_title = title, l_videoUrl = None,
     l_contentText = Some (''Demo lesson content for '' @ [CHR 0x22] @ title @ [CHR 0x22] @ ''. Replace with real curriculum copy.''),
     l_translations = [''en'' \<mapsto> [''title'' \<mapsto> title]], l_position = int (li + 1),
     l_durationSeconds = Some (420 + int li * 120), l_active = True\<rparr>"

text \<open>The loops with their counters: each returns the counters it leaves.\<close>

fun seed_lessons :: "instant \<Rightarrow> nat \<Rightarrow> nat \<Rightarrow> string list \<Rightarrow> nat \<Rightarrow> nat seeding" where
  "seed_lessons t moduleSeq li [] lessonSeq = return_op lessonSeq"
| "seed_lessons t moduleSeq li (title # titles) lessonSeq =
     bind_op (save_lesson (lesson_row t moduleSeq (lessonSeq + 1) li title))
       (\<lambda>_. seed_lessons t moduleSeq (li + 1) titles (lessonSeq + 1))"

fun seed_modules :: "instant \<Rightarrow> nat \<Rightarrow> nat \<Rightarrow> (string \<times> string list) list \<Rightarrow> nat \<times> nat \<Rightarrow> (nat \<times> nat) seeding" where
  "seed_modules t certN mi [] seqs = return_op seqs"
| "seed_modules t certN mi ((title, lessons) # mods) (moduleSeq, lessonSeq) =
     bind_op (save_module (module_row t certN (moduleSeq + 1) mi title))
       (\<lambda>_. bind_op (seed_lessons t (moduleSeq + 1) 0 lessons lessonSeq)
         (\<lambda>lessonSeq'. seed_modules t certN (mi + 1) mods (moduleSeq + 1, lessonSeq')))"

fun seed_certs :: "instant \<Rightarrow> cert_spec list \<Rightarrow> nat \<times> nat \<Rightarrow> (nat \<times> nat) seeding" where
  "seed_certs t [] seqs = return_op seqs"
| "seed_certs t (spec # specs) seqs =
     bind_op (save_certificate (demo_cert_row t spec))
       (\<lambda>_. bind_op (seed_modules t (cp_n spec) 0 (cp_modules spec) seqs) (seed_certs t specs))"

definition seedCatalog :: "instant \<Rightarrow> unit seeding" where
  "seedCatalog t = bind_op (seed_certs t CERTS (0, 0)) (\<lambda>_. return_op ())"

subsection \<open>Exams\<close>

record seeded_question =
  se_id :: uuid
  se_correct :: uuid
  se_wrong :: uuid
  se_marks :: int

record seeded_exam =
  se_certN :: nat
  se_examId :: uuid
  se_order :: nat
  se_questions :: "seeded_question list"

definition exam_row :: "instant \<Rightarrow> cert_spec \<Rightarrow> nat \<Rightarrow> nat \<Rightarrow> bool \<Rightarrow> exam" where
  "exam_row t spec examSeq order isDraft = \<lparr>pk = demoId BExam examSeq, createdAt = t, updatedAt = t,
     e_certId = demoId BCert (cp_n spec),
     e_title = cp_code spec @ '' Assessment '' @ nat_text order @ (if isDraft then '' (draft)'' else ''''),
     e_examOrder = int order, e_status = (if isDraft then DRAFT else PUBLISHED), e_passingScore = 80,
     e_durationMinutes = 60, e_createdById = None,
     e_translations = [''en'' \<mapsto> [''title'' \<mapsto> cp_code spec @ '' Assessment '' @ nat_text order]], e_questions = []\<rparr>"

definition question_row :: "instant \<Rightarrow> cert_spec \<Rightarrow> nat \<Rightarrow> nat \<Rightarrow> nat \<Rightarrow> nat \<Rightarrow> int \<Rightarrow> exam_question" where
  "question_row t spec order examSeq questionSeq qi marks =
     (let isTrueFalse = 3 \<le> qi;
          what = nat_text (qi + 1) @ '' for '' @ cp_code spec @ '' assessment '' @ nat_text order
      in \<lparr>pk = demoId BQuestion questionSeq, createdAt = t, updatedAt = t, q_examId = demoId BExam examSeq,
        q_questionText = (if isTrueFalse
          then ''Demo T/F question '' @ what @ '': the Sprint may be cancelled only by the Product Owner.''
          else ''Demo question '' @ what @ '': which statement best reflects empirical process control?''),
        q_questionType = (if isTrueFalse then TRUE_FALSE else MCQ), q_position = int (qi + 1), q_marks = marks,
        q_options = []\<rparr>)"

definition option_row :: "instant \<Rightarrow> nat \<Rightarrow> nat \<Rightarrow> bool \<Rightarrow> nat \<Rightarrow> bool \<Rightarrow> exam_question_option" where
  "option_row t questionSeq optionSeq isTrueFalse oi isCorrect =
     \<lparr>pk = demoId BOption optionSeq, createdAt = t, updatedAt = t, o_questionId = demoId BQuestion questionSeq,
      o_optionText = (if isTrueFalse then (if oi = 0 then ''True'' else ''False'') else ''Option '' @ [char_of (65 + oi)]),
      o_isCorrect = isCorrect\<rparr>"

text \<open>The loop over the options of a question: \<open>correctId\<close> and \<open>wrongId\<close> start empty and the first wrong option stays.\<close>

fun seed_options ::
  "instant \<Rightarrow> nat \<Rightarrow> bool \<Rightarrow> nat \<Rightarrow> nat list \<Rightarrow> nat \<times> uuid \<times> uuid \<Rightarrow> (nat \<times> uuid \<times> uuid) seeding" where
  "seed_options t questionSeq isTrueFalse correctIndex [] acc = return_op acc"
| "seed_options t questionSeq isTrueFalse correctIndex (oi # ois) (optionSeq, correctId, wrongId) =
     (let optionId = demoId BOption (optionSeq + 1); isCorrect = (oi = correctIndex) in
      bind_op (save_option (option_row t questionSeq (optionSeq + 1) isTrueFalse oi isCorrect))
        (\<lambda>_. seed_options t questionSeq isTrueFalse correctIndex ois
          (optionSeq + 1, if isCorrect then optionId else correctId,
           if isCorrect then wrongId else if wrongId = '''' then optionId else wrongId)))"

fun seed_questions ::
  "instant \<Rightarrow> cert_spec \<Rightarrow> nat \<Rightarrow> nat \<Rightarrow> nat \<Rightarrow> int list \<Rightarrow> nat \<times> nat \<times> seeded_question list \<Rightarrow>
    (nat \<times> nat \<times> seeded_question list) seeding" where
  "seed_questions t spec order examSeq qi [] acc = return_op acc"
| "seed_questions t spec order examSeq qi (marks # rest) (questionSeq, optionSeq, entries) =
     (let isTrueFalse = 3 \<le> qi; optionCount = (if isTrueFalse then 2 else 4); correctIndex = qi mod optionCount in
      bind_op (save_question (question_row t spec order examSeq (questionSeq + 1) qi marks))
        (\<lambda>_. bind_op (seed_options t (questionSeq + 1) isTrueFalse correctIndex [0..<optionCount] (optionSeq, '''', ''''))
          (\<lambda>(optionSeq', correctId, wrongId). seed_questions t spec order examSeq (qi + 1) rest
             (questionSeq + 1, optionSeq', entries @ [\<lparr>se_id = demoId BQuestion (questionSeq + 1), se_correct = correctId,
               se_wrong = wrongId, se_marks = marks\<rparr>]))))"

type_synonym exam_seqs = "nat \<times> nat \<times> nat \<times> seeded_exam list"

fun seed_orders :: "instant \<Rightarrow> cert_spec \<Rightarrow> nat list \<Rightarrow> exam_seqs \<Rightarrow> exam_seqs seeding" where
  "seed_orders t spec [] acc = return_op acc"
| "seed_orders t spec (order # orders) (examSeq, questionSeq, optionSeq, seeded) =
     bind_op (save_exam (exam_row t spec (examSeq + 1) order (cp_publishedExams spec < order)))
       (\<lambda>_. bind_op (seed_questions t spec order (examSeq + 1) 0 QUESTION_MARKS (questionSeq, optionSeq, []))
         (\<lambda>(questionSeq', optionSeq', entries). seed_orders t spec orders (examSeq + 1, questionSeq', optionSeq',
            seeded @ [\<lparr>se_certN = cp_n spec, se_examId = demoId BExam (examSeq + 1), se_order = order, se_questions = entries\<rparr>])))"

definition exam_total :: "cert_spec \<Rightarrow> nat" where
  "exam_total spec = cp_publishedExams spec + (case cp_draftExams spec of Some d \<Rightarrow> d | None \<Rightarrow> 0)"

fun seed_exam_specs :: "instant \<Rightarrow> cert_spec list \<Rightarrow> exam_seqs \<Rightarrow> exam_seqs seeding" where
  "seed_exam_specs t [] acc = return_op acc"
| "seed_exam_specs t (spec # specs) acc =
     bind_op (seed_orders t spec [1..<exam_total spec + 1] acc) (seed_exam_specs t specs)"

definition seedExams :: "instant \<Rightarrow> seeded_exam list seeding" where
  "seedExams t = bind_op (seed_exam_specs t CERTS (0, 0, 0, [])) (\<lambda>(_, _, _, seeded). return_op seeded)"

subsection \<open>Students\<close>

record demo_student =
  ds_n :: nat
  ds_email :: string
  ds_firstName :: string
  ds_lastName :: string
  ds_verified :: bool
  ds_active :: bool
  ds_locale :: "string option"
  ds_company :: "string option"

definition demo_students :: "demo_student list" where
  "demo_students = [
     \<lparr>ds_n = 1, ds_email = ''demo+sara@ios.local'', ds_firstName = ''Sara'', ds_lastName = ''Demir'', ds_verified = True,
      ds_active = True, ds_locale = None, ds_company = Some ''Acme Corp''\<rparr>,
     \<lparr>ds_n = 2, ds_email = ''demo+omar@ios.local'', ds_firstName = ''Omar'', ds_lastName = ''Khalil'', ds_verified = True,
      ds_active = True, ds_locale = Some ''ar'', ds_company = None\<rparr>,
     \<lparr>ds_n = 3, ds_email = ''demo+lina@ios.local'', ds_firstName = ''Lina'', ds_lastName = ''Aydin'', ds_verified = True,
      ds_active = True, ds_locale = Some ''tr'', ds_company = None\<rparr>,
     \<lparr>ds_n = 4, ds_email = ''demo+yusuf@ios.local'', ds_firstName = ''Yusuf'', ds_lastName = ''Mansour'', ds_verified = True,
      ds_active = True, ds_locale = None, ds_company = None\<rparr>,
     \<lparr>ds_n = 5, ds_email = ''demo+mona@ios.local'', ds_firstName = ''Mona'', ds_lastName = ''Said'', ds_verified = True,
      ds_active = True, ds_locale = None, ds_company = Some ''Globex''\<rparr>,
     \<lparr>ds_n = 6, ds_email = ''demo+karim@ios.local'', ds_firstName = ''Karim'', ds_lastName = ''Naser'', ds_verified = True,
      ds_active = True, ds_locale = None, ds_company = None\<rparr>,
     \<lparr>ds_n = 7, ds_email = ''demo+aisha@ios.local'', ds_firstName = ''Aisha'', ds_lastName = ''Rahman'', ds_verified = False,
      ds_active = True, ds_locale = None, ds_company = None\<rparr>,
     \<lparr>ds_n = 8, ds_email = ''demo+tom@ios.local'', ds_firstName = ''Tom'', ds_lastName = ''Becker'', ds_verified = True,
      ds_active = False, ds_locale = None, ds_company = None\<rparr>]"

definition student_row :: "instant \<Rightarrow> string \<Rightarrow> demo_student \<Rightarrow> user" where
  "student_row t passwordHash d = \<lparr>pk = demoId BUser (ds_n d), createdAt = t, updatedAt = t, u_email = ds_email d,
     u_passwordHash = passwordHash, u_firstName = ds_firstName d, u_lastName = ds_lastName d, u_phone = None,
     u_avatarUrl = None, u_country = None, u_city = None, u_street = None, u_address = None, u_postalCode = None,
     u_occupation = None, u_position = None, u_company = ds_company d,
     u_locale = (case ds_locale d of Some l \<Rightarrow> l | None \<Rightarrow> ''en''), u_emailVerified = ds_verified d,
     u_emailVerifiedAt = (if ds_verified d then Some t else None), u_active = ds_active d\<rparr>"

definition seedStudents :: "instant \<Rightarrow> string \<Rightarrow> unit seeding" where
  "seedStudents t passwordHash = each (\<lambda>d. save_user (student_row t passwordHash d)) demo_students"

subsection \<open>Answers with an exact score\<close>

text \<open>One entry of \<open>correctMarks\<close> is consumed per question that is answered correctly.\<close>

fun answers_loop ::
  "seeded_question list \<Rightarrow> int list \<Rightarrow> answers \<times> int \<times> int \<Rightarrow> answers \<times> int \<times> int" where
  "answers_loop [] correctMarks acc = acc"
| "answers_loop (q # qs) correctMarks (a, earned, tot) =
     (if se_marks q \<in> set correctMarks
      then answers_loop qs (remove1 (se_marks q) correctMarks)
        (AList.update (se_id q) (se_correct q) a, earned + se_marks q, tot + se_marks q)
      else answers_loop qs correctMarks (AList.update (se_id q) (se_wrong q) a, earned, tot + se_marks q))"

text \<open>The total of a seeded exam is positive, so the quotient is defined.\<close>

definition buildAnswers :: "seeded_exam \<Rightarrow> int list \<Rightarrow> answers \<times> number" where
  "buildAnswers exam correctMarks =
     (case answers_loop (se_questions exam) correctMarks ([], 0, 0) of (a, earned, tot) \<Rightarrow>
        (a, parse_float (to_fixed2 (js_percent (of_int earned) (of_int tot)))))"

subsection \<open>Stories\<close>

text \<open>The counters of the helpers are state of the run.\<close>

record story_state =
  st_db :: seed_db
  st_purchaseSeq :: nat
  st_txSeq :: nat
  st_attemptSeq :: nat

type_synonym 'a story = "story_state \<Rightarrow> 'a result \<times> story_state"

definition on_db :: "'a seeding \<Rightarrow> 'a story" where
  "on_db m s = (case m (st_db s) of (x, d) \<Rightarrow> (x, s\<lparr>st_db := d\<rparr>))"

definition daysAgo :: "seed_env \<Rightarrow> int \<Rightarrow> instant" where
  "daysAgo E d = sd_now E - d * 86400000"

definition examsFor :: "seeded_exam list \<Rightarrow> nat \<Rightarrow> seeded_exam list" where
  "examsFor exams certN = sort_key se_order (filter (\<lambda>e. se_certN e = certN) exams)"

record purchase_opts =
  po_examCompleted :: "bool option"
  po_promoId :: "uuid option"
  po_amountCents :: int
  po_when :: int

definition purchase_row :: "seed_env \<Rightarrow> nat \<Rightarrow> nat \<Rightarrow> nat \<Rightarrow> purchase_opts \<Rightarrow> student_purchase" where
  "purchase_row E n uN cN p =
     (let completed = (case po_examCompleted p of Some b \<Rightarrow> b | None \<Rightarrow> False)
      in \<lparr>pk = demoId BPurchase n, createdAt = daysAgo E (po_when p), updatedAt = daysAgo E (po_when p),
          sp_userId = demoId BUser uN, sp_certId = demoId BCert cN, sp_paymentIntentId = Some (''pi_demo_'' @ nat_text n),
          sp_paymentType = ENROLLMENT, sp_preExamConfirmed = completed, sp_examCompleted = completed\<rparr>)"

definition transaction_row :: "seed_env \<Rightarrow> nat \<Rightarrow> nat \<Rightarrow> nat \<Rightarrow> purchase_opts \<Rightarrow> transaction" where
  "transaction_row E n uN cN p =
     \<lparr>pk = demoId BTransaction n, createdAt = daysAgo E (po_when p), updatedAt = daysAgo E (po_when p),
      tx_userId = demoId BUser uN, tx_certId = demoId BCert cN, tx_stripeSessionId = ''cs_demo_'' @ nat_text n,
      tx_amountCents = po_amountCents p, tx_currency = ''USD'', tx_status = TX_COMPLETED, tx_promoCodeId = po_promoId p\<rparr>"

definition demo_purchase :: "seed_env \<Rightarrow> nat \<Rightarrow> nat \<Rightarrow> purchase_opts \<Rightarrow> unit story" where
  "demo_purchase E uN cN p s =
     (let n = st_purchaseSeq s + 1; m = st_txSeq s + 1 in
      on_db (asUser (demoId BUser uN) (\<lambda>guc.
          bind_op (insert_purchase guc (purchase_row E n uN cN p))
            (\<lambda>_. insert_transaction (sd_now E) guc (transaction_row E m uN cN p))))
        (s\<lparr>st_purchaseSeq := n, st_txSeq := m\<rparr>))"

text \<open>The lessons of a certificate, by the positions of module and lesson.\<close>

definition lessons_of :: "seed_db \<Rightarrow> uuid \<Rightarrow> uuid list" where
  "lessons_of s certId = map (\<lambda>(m, l). pk l) (sort_key (\<lambda>(m, l). (m_position m, l_position l))
     (concat (map (\<lambda>l. map (\<lambda>m. (m, l)) (filter (\<lambda>m. pk m = l_moduleId l \<and> m_certId m = certId) (db_modules s))) (db_lessons s))))"

definition demo_progress_row :: "seed_env \<Rightarrow> nat \<Rightarrow> nat \<times> uuid \<Rightarrow> student_progress" where
  "demo_progress_row E uN r = (case r of (i, lessonId) \<Rightarrow>
     \<lparr>pk = sd_uuid E (demoId BUser uN) lessonId, createdAt = daysAgo E (20 - int i), updatedAt = daysAgo E (20 - int i),
      pr_userId = demoId BUser uN, pr_lessonId = lessonId, pr_completedAt = daysAgo E (20 - int i)\<rparr>)"

definition completeLessons :: "seed_env \<Rightarrow> nat \<Rightarrow> nat \<Rightarrow> nat \<Rightarrow> unit story" where
  "completeLessons E uN certN count s =
     (let rows = take count (lessons_of (st_db s) (demoId BCert certN)) in
      on_db (each (\<lambda>r. insert_seed_progress (demo_progress_row E uN r)) (enumerate 0 rows)) s)"

definition attempt_row :: "seed_env \<Rightarrow> nat \<Rightarrow> nat \<Rightarrow> seeded_exam \<Rightarrow> int list \<Rightarrow> int \<Rightarrow> exam_attempt" where
  "attempt_row E n uN exam correctMarks d = (case buildAnswers exam correctMarks of (a, score) \<Rightarrow>
     \<lparr>pk = demoId BAttempt n, createdAt = daysAgo E d + 2400000, updatedAt = daysAgo E d + 2400000,
      at_userId = demoId BUser uN, at_examId = se_examId exam, at_certId = demoId BCert (se_certN exam), at_score = score,
      at_passed = 80 \<le> score, at_answers = a, at_durationSeconds = Some 2400, at_startedAt = daysAgo E d,
      at_submittedAt = daysAgo E d + 2400000, at_status = ATTEMPT_SUBMITTED, at_lateFlag = False\<rparr>)"

text \<open>Reading a property of an array element that is not there throws.\<close>

definition demo_attempt :: "seed_env \<Rightarrow> nat \<Rightarrow> seeded_exam list \<Rightarrow> nat \<Rightarrow> int list \<Rightarrow> int \<Rightarrow> uuid story" where
  "demo_attempt E uN exams i correctMarks d s =
     (let n = st_attemptSeq s + 1; s1 = s\<lparr>st_attemptSeq := n\<rparr> in
      if length exams \<le> i then (throw (PlainError ''Cannot read properties of undefined''), s1)
      else bind_op (on_db (asUser (demoId BUser uN) (\<lambda>guc. insert_attempt guc (attempt_row E n uN (exams ! i) correctMarks d))))
        (\<lambda>_. return_op (demoId BAttempt n)) s1)"

definition demo_issued_row :: "seed_env \<Rightarrow> nat \<Rightarrow> nat \<Rightarrow> nat \<Rightarrow> uuid \<Rightarrow> int \<Rightarrow> issued_certificate" where
  "demo_issued_row E n uN certN attemptId d =
     \<lparr>pk = demoId BIssued n, createdAt = daysAgo E d, updatedAt = daysAgo E d, iss_certId = None,
      iss_userId = demoId BUser uN, iss_certificateId = demoId BCert certN, iss_examAttemptId = attemptId,
      iss_isActive = True, iss_issuedAt = daysAgo E d\<rparr>"

definition demo_issue :: "seed_env \<Rightarrow> nat \<Rightarrow> nat \<Rightarrow> nat \<Rightarrow> uuid \<Rightarrow> int \<Rightarrow> unit story" where
  "demo_issue E n uN certN attemptId d =
     on_db (asUser (demoId BUser uN) (\<lambda>guc. insert_issued (sd_year E) guc (demo_issued_row E n uN certN attemptId d)))"

definition story_sara :: "seed_env \<Rightarrow> seeded_exam list \<Rightarrow> unit story" where
  "story_sara E exams =
     bind_op (demo_purchase E 1 1 \<lparr>po_examCompleted = Some True, po_promoId = None, po_amountCents = 14900, po_when = 30\<rparr>)
       (\<lambda>_. bind_op (completeLessons E 1 1 12)
         (\<lambda>_. bind_op (demo_attempt E 1 (examsFor exams 1) 0 [3, 2, 2, 2] 21)
           (\<lambda>a. demo_issue E 1 1 1 a 21)))"

definition omar_code :: "seed_env \<Rightarrow> uuid \<Rightarrow> exam_access_code" where
  "omar_code E examId = \<lparr>pk = demoId BAccessCode 1, createdAt = sd_now E, updatedAt = sd_now E,
     ac_userId = demoId BUser 2, ac_examId = examId, ac_certId = demoId BCert 1,
     ac_tokenHash = bc_hash (sd_bcrypt E) (sd_salt E) 10 DEMO_ACCESS_CODE, ac_expiresAt = sd_now E + 24 * 3600000,
     ac_usedAt = None\<rparr>"

definition story_omar :: "seed_env \<Rightarrow> seeded_exam list \<Rightarrow> unit story" where
  "story_omar E exams =
     bind_op (demo_purchase E 2 1 \<lparr>po_examCompleted = None, po_promoId = None, po_amountCents = 14900, po_when = 25\<rparr>)
       (\<lambda>_. bind_op (completeLessons E 2 1 8)
         (\<lambda>_. bind_op (demo_attempt E 2 (examsFor exams 1) 0 [3, 2, 1] 14)
           (\<lambda>_. if length (examsFor exams 1) \<le> 1 then throw_op (PlainError ''Cannot read properties of undefined'')
             else on_db (save_code (omar_code E (se_examId (examsFor exams 1 ! 1)))))))"

definition story_lina :: "seed_env \<Rightarrow> unit story" where
  "story_lina E =
     bind_op (demo_purchase E 3 2 \<lparr>po_examCompleted = None, po_promoId = None, po_amountCents = 14900, po_when = 12\<rparr>)
       (\<lambda>_. completeLessons E 3 2 5)"

definition story_yusuf :: "seed_env \<Rightarrow> unit story" where
  "story_yusuf E =
     bind_op (demo_purchase E 4 3 \<lparr>po_examCompleted = None, po_promoId = Some (demoId BPromo 1), po_amountCents = 10320, po_when = 3\<rparr>)
       (\<lambda>_. completeLessons E 4 3 1)"

definition story_mona :: "seed_env \<Rightarrow> seeded_exam list \<Rightarrow> unit story" where
  "story_mona E exams =
     bind_op (demo_purchase E 5 4 \<lparr>po_examCompleted = Some True, po_promoId = None, po_amountCents = 19900, po_when = 45\<rparr>)
       (\<lambda>_. bind_op (completeLessons E 5 4 6)
         (\<lambda>_. bind_op (demo_attempt E 5 (examsFor exams 4) 0 [3, 2, 2, 2, 1] 40)
           (\<lambda>a. bind_op (demo_issue E 2 5 4 a 40)
             (\<lambda>_. demo_purchase E 5 1 \<lparr>po_examCompleted = None, po_promoId = None, po_amountCents = 14900, po_when = 2\<rparr>))))"

definition seedStories :: "seed_env \<Rightarrow> seeded_exam list \<Rightarrow> unit seeding" where
  "seedStories E exams d =
     (case bind_op (story_sara E exams) (\<lambda>_. bind_op (story_omar E exams) (\<lambda>_. bind_op (story_lina E)
         (\<lambda>_. bind_op (story_yusuf E) (\<lambda>_. story_mona E exams))))
         \<lparr>st_db = d, st_purchaseSeq = 0, st_txSeq = 0, st_attemptSeq = 0\<rparr> of
        (r, s) \<Rightarrow> (r, st_db s))"

subsection \<open>Promo codes\<close>

definition demo_promo :: "instant \<Rightarrow> nat \<Rightarrow> string \<Rightarrow> discount_type \<Rightarrow> int option \<Rightarrow> uuid list option \<Rightarrow> int option \<Rightarrow> instant \<Rightarrow> promo_row" where
  "demo_promo t n code kind cents certs uses expires =
     \<lparr>pc_id = demoId BPromo n, pc_usageCount = 0, pc_updatedAt = t, pc_createdAt = t, pc_code = code, pc_discountType = kind,
      pc_discountCents = cents, pc_applicableCertIds = certs, pc_maxUses = uses, pc_expiresAt = Some expires,
      pc_createdById = Some (demoId BAdmin 3)\<rparr>"

definition demo_promos :: "instant \<Rightarrow> promo_row list" where
  "demo_promos t = [
     demo_promo t 1 ''SCRUM20'' PERCENTAGE (Some 2000) None None (t + 90 * 86400000),
     demo_promo t 2 ''LAUNCH100'' FULL_WAIVER None (Some [demoId BCert 3]) (Some 5) (t + 30 * 86400000),
     demo_promo t 3 ''EXPIRED10'' PERCENTAGE (Some 1000) None None (t - 86400000)]"

text \<open>One INSERT of three rows: all of them or none.\<close>

definition seedPromoCodes :: "instant \<Rightarrow> unit seeding" where
  "seedPromoCodes t s =
     (if (\<exists>p \<in> set (demo_promos t). \<exists>x \<in> set (db_promos s). pc_id x = pc_id p \<or> pc_code x = pc_code p)
      then (throw duplicate_key, s)
      else if demoId BAdmin 3 \<notin> pk ` set (db_admins s) then (throw foreign_key, s)
      else (ok (), s\<lparr>db_promos := db_promos s @ demo_promos t\<rparr>))"

subsection \<open>The script\<close>

definition demo_main :: "string option \<Rightarrow> seed_env \<Rightarrow> unit seeding" where
  "demo_main nodeEnv E s =
     (if nodeEnv = Some ''production'' then (throw (PlainError ''Refusing to seed demo data with NODE_ENV=production.''), s)
      else
        (let passwordHash = bc_hash (sd_bcrypt E) (sd_salt E) 12 DEMO_PASSWORD; t = sd_now E in
         bind_op cleanup (\<lambda>_. bind_op (seedAdmins t passwordHash) (\<lambda>_. bind_op (seedCatalog t) (\<lambda>_. bind_op (seedExams t)
           (\<lambda>exams. bind_op (seedStudents t passwordHash) (\<lambda>_. bind_op (seedPromoCodes t) (\<lambda>_. seedStories E exams)))))) s))"

end
