(* ===== verification/DemoSeedFacts.thy ===== *)
theory DemoSeedFacts
  imports DemoSeed
begin

section \<open>What the sections of the demo seeder insert\<close>

text \<open>
  When the numbered keys from a counter on are unused, a loop of the seeder appends the rows of its
  specification, each to its table and in order, and leaves the counters advanced. The rows are given by
  recursive functions without a database, on which the later theories reason.
\<close>

subsection \<open>Unused keys\<close>

definition unused_from :: "demo_block \<Rightarrow> nat \<Rightarrow> 'r uuid_entity_scheme list \<Rightarrow> bool" where
  "unused_from b n t \<longleftrightarrow> (\<forall>k > n. demoId b k \<notin> pk ` set t)"

lemma unused_fromD: "unused_from b n t \<Longrightarrow> n < k \<Longrightarrow> demoId b k \<notin> pk ` set t"
  by (simp add: unused_from_def)

lemma unused_from_step: "unused_from b n t \<Longrightarrow> pk r = demoId b (Suc n) \<Longrightarrow> unused_from b (Suc n) (t @ [r])"
  by (auto simp: unused_from_def)

lemma keys_of_block: "map pk rows = map (demoId b) ks \<Longrightarrow> pk ` set rows = demoId b ` set ks"
  by (metis set_map)

lemma unused_from_append:
  assumes "unused_from b n t" and "map pk rows = map (demoId b) [Suc n..<Suc m]" and "n \<le> m"
  shows "unused_from b m (t @ rows)"
  using assms(1,3) unfolding unused_from_def set_append image_Un keys_of_block [OF assms(2)] by auto

lemma block_append: "i \<le> j \<Longrightarrow> map (demoId b) [Suc i..<Suc j] @ map (demoId b) [Suc j..<Suc (j + k)] = map (demoId b) [Suc i..<Suc (j + k)]"
  using upt_add_eq_append [of "Suc i" "Suc j" k] by (simp del: upt_Suc flip: map_append)

lemma block_Cons: "demoId b (Suc n) # map (demoId b) [Suc (Suc n)..<Suc (Suc n + k)] = map (demoId b) [Suc n..<Suc (n + Suc k)]"
  by (simp add: upt_conv_Cons del: upt_Suc)

lemma save_row_new [simp]: "pk r \<notin> pk ` set t \<Longrightarrow> save_row False True merge r t = Inr (t @ [r])"
  by (simp add: save_row_def)

lemma bind_op_Inr [simp]: "m s = (Inr x, s') \<Longrightarrow> bind_op m f s = f x s'"
  by (simp add: bind_op_def)

subsection \<open>The catalogue\<close>

fun lesson_rows :: "instant \<Rightarrow> nat \<Rightarrow> nat \<Rightarrow> string list \<Rightarrow> nat \<Rightarrow> lesson list" where
  "lesson_rows t ms li [] ls = []"
| "lesson_rows t ms li (title # titles) ls = lesson_row t ms (Suc ls) li title # lesson_rows t ms (Suc li) titles (Suc ls)"

fun module_rows :: "instant \<Rightarrow> nat \<Rightarrow> nat \<Rightarrow> (string \<times> string list) list \<Rightarrow> nat \<Rightarrow> learning_module list" where
  "module_rows t c mi [] ms = []"
| "module_rows t c mi ((title, _) # mods) ms = module_row t c (Suc ms) mi title # module_rows t c (Suc mi) mods (Suc ms)"

fun lessons_in :: "instant \<Rightarrow> (string \<times> string list) list \<Rightarrow> nat \<Rightarrow> nat \<Rightarrow> lesson list" where
  "lessons_in t [] ms ls = []"
| "lessons_in t ((_, titles) # mods) ms ls = lesson_rows t (Suc ms) 0 titles ls @ lessons_in t mods (Suc ms) (ls + length titles)"

definition lesson_count :: "(string \<times> string list) list \<Rightarrow> nat" where
  "lesson_count mods = sum_list (map (\<lambda>m. length (snd m)) mods)"

fun all_modules :: "instant \<Rightarrow> cert_spec list \<Rightarrow> nat \<Rightarrow> learning_module list" where
  "all_modules t [] ms = []"
| "all_modules t (c # cs) ms = module_rows t (cp_n c) 0 (cp_modules c) ms @ all_modules t cs (ms + length (cp_modules c))"

fun all_lessons :: "instant \<Rightarrow> cert_spec list \<Rightarrow> nat \<Rightarrow> nat \<Rightarrow> lesson list" where
  "all_lessons t [] ms ls = []"
| "all_lessons t (c # cs) ms ls = lessons_in t (cp_modules c) ms ls @
     all_lessons t cs (ms + length (cp_modules c)) (ls + lesson_count (cp_modules c))"

lemma lesson_rows_keys: "map pk (lesson_rows t ms li titles ls) = map (demoId BLesson) [Suc ls..<Suc (ls + length titles)]"
proof (induction titles arbitrary: li ls)
  case (Cons title titles)
  then show ?case
    using block_Cons [of BLesson ls "length titles"] by (simp add: lesson_row_def del: upt_Suc)
qed simp

lemma module_rows_keys: "map pk (module_rows t c mi mods ms) = map (demoId BModule) [Suc ms..<Suc (ms + length mods)]"
proof (induction mods arbitrary: mi ms)
  case (Cons md mods)
  then show ?case
    using block_Cons [of BModule ms "length mods"] by (cases md) (simp add: module_row_def del: upt_Suc)
qed simp

lemma lessons_in_keys: "map pk (lessons_in t mods ms ls) = map (demoId BLesson) [Suc ls..<Suc (ls + lesson_count mods)]"
proof (induction mods arbitrary: ms ls)
  case (Cons md mods)
  obtain title titles where m: "md = (title, titles)" by (cases md)
  have "map pk (lessons_in t (md # mods) ms ls) =
      map (demoId BLesson) [Suc ls..<Suc (ls + length titles)] @
      map (demoId BLesson) [Suc (ls + length titles)..<Suc (ls + length titles + lesson_count mods)]"
    by (simp add: m Cons.IH lesson_rows_keys del: upt_Suc)
  also have "\<dots> = map (demoId BLesson) [Suc ls..<Suc (ls + length titles + lesson_count mods)]"
    by (rule block_append) simp
  finally show ?case by (simp add: m lesson_count_def add.assoc del: upt_Suc)
qed (simp add: lesson_count_def)

lemma seed_lessons_run:
  "unused_from BLesson ls (db_lessons s) \<Longrightarrow> demoId BModule ms \<in> pk ` set (db_modules s) \<Longrightarrow>
   seed_lessons t ms li titles ls s =
     (Inr (ls + length titles), s\<lparr>db_lessons := db_lessons s @ lesson_rows t ms li titles ls\<rparr>)"
proof (induction titles arbitrary: li ls s)
  case (Cons title titles)
  let ?r = "lesson_row t ms (Suc ls) li title"
  let ?s = "s\<lparr>db_lessons := db_lessons s @ [?r]\<rparr>"
  have k: "pk ?r = demoId BLesson (Suc ls)" "l_moduleId ?r = demoId BModule ms" by (simp_all add: lesson_row_def)
  have "save_lesson ?r s = (Inr (), ?s)"
    using Cons.prems unused_fromD [OF Cons.prems(1), of "Suc ls"] by (simp add: save_lesson_def k store_def)
  moreover have "seed_lessons t ms (Suc li) titles (Suc ls) ?s =
      (Inr (Suc ls + length titles), ?s\<lparr>db_lessons := db_lessons ?s @ lesson_rows t ms (Suc li) titles (Suc ls)\<rparr>)"
    using Cons.prems by (intro Cons.IH) (simp_all add: unused_from_step k)
  ultimately show ?case by simp
qed simp

lemma seed_modules_run:
  "unused_from BModule ms (db_modules s) \<Longrightarrow> unused_from BLesson ls (db_lessons s) \<Longrightarrow> demoId BCert c \<in> pk ` set (db_certs s) \<Longrightarrow>
   seed_modules t c mi mods (ms, ls) s =
     (Inr (ms + length mods, ls + lesson_count mods),
      s\<lparr>db_modules := db_modules s @ module_rows t c mi mods ms, db_lessons := db_lessons s @ lessons_in t mods ms ls\<rparr>)"
proof (induction mods arbitrary: mi ms ls s)
  case (Cons md mods)
  obtain title titles where m: "md = (title, titles)" by (cases md)
  let ?r = "module_row t c (Suc ms) mi title"
  let ?s = "s\<lparr>db_modules := db_modules s @ [?r]\<rparr>"
  let ?s2 = "?s\<lparr>db_lessons := db_lessons s @ lesson_rows t (Suc ms) 0 titles ls\<rparr>"
  have k: "pk ?r = demoId BModule (Suc ms)" "m_certId ?r = demoId BCert c" by (simp_all add: module_row_def)
  have 1: "save_module ?r s = (Inr (), ?s)"
    using Cons.prems unused_fromD [OF Cons.prems(1), of "Suc ms"] by (simp add: save_module_def k store_def)
  have 2: "seed_lessons t (Suc ms) 0 titles ls ?s = (Inr (ls + length titles), ?s2)"
    using seed_lessons_run [of ls ?s "Suc ms" t 0 titles] Cons.prems by (simp add: k)
  have "unused_from BLesson (ls + length titles) (db_lessons ?s2)"
    using unused_from_append [OF Cons.prems(2) lesson_rows_keys] by simp
  then have "seed_modules t c (Suc mi) mods (Suc ms, ls + length titles) ?s2 =
      (Inr (Suc ms + length mods, ls + length titles + lesson_count mods),
       ?s2\<lparr>db_modules := db_modules ?s2 @ module_rows t c (Suc mi) mods (Suc ms),
         db_lessons := db_lessons ?s2 @ lessons_in t mods (Suc ms) (ls + length titles)\<rparr>)"
    using Cons.prems by (intro Cons.IH) (simp_all add: unused_from_step k)
  with 1 2 show ?case by (simp add: m lesson_count_def)
qed (simp add: lesson_count_def)

definition module_total :: "cert_spec list \<Rightarrow> nat" where
  "module_total specs = sum_list (map (\<lambda>c. length (cp_modules c)) specs)"

definition lesson_total :: "cert_spec list \<Rightarrow> nat" where
  "lesson_total specs = sum_list (map (\<lambda>c. lesson_count (cp_modules c)) specs)"

lemma seed_certs_run:
  "distinct (map cp_n specs) \<Longrightarrow> (\<forall>c \<in> set specs. demoId BCert (cp_n c) \<notin> pk ` set (db_certs s)) \<Longrightarrow>
   unused_from BModule ms (db_modules s) \<Longrightarrow> unused_from BLesson ls (db_lessons s) \<Longrightarrow>
   seed_certs t specs (ms, ls) s =
     (Inr (ms + module_total specs, ls + lesson_total specs), s\<lparr>db_certs := db_certs s @ map (demo_cert_row t) specs, db_modules := db_modules s @ all_modules t specs ms,
        db_lessons := db_lessons s @ all_lessons t specs ms ls\<rparr>)"
proof (induction specs arbitrary: ms ls s)
  case (Cons c specs)
  let ?r = "demo_cert_row t c"
  let ?ms = "ms + length (cp_modules c)" and ?ls = "ls + lesson_count (cp_modules c)"
  let ?s = "s\<lparr>db_certs := db_certs s @ [?r]\<rparr>"
  let ?s2 = "?s\<lparr>db_modules := db_modules s @ module_rows t (cp_n c) 0 (cp_modules c) ms,
    db_lessons := db_lessons s @ lessons_in t (cp_modules c) ms ls\<rparr>"
  have k: "pk ?r = demoId BCert (cp_n c)" by (simp add: demo_cert_row_def)
  have 1: "save_certificate ?r s = (Inr (), ?s)" using Cons.prems(2) by (simp add: save_certificate_def k store_def)
  have 2: "seed_modules t (cp_n c) 0 (cp_modules c) (ms, ls) ?s = (Inr (?ms, ?ls), ?s2)"
    using seed_modules_run [of ms ?s ls "cp_n c" t 0 "cp_modules c"] Cons.prems by (simp add: k)
  have "unused_from BModule ?ms (db_modules ?s2)"
    using unused_from_append [OF Cons.prems(3) module_rows_keys] by simp
  moreover have "unused_from BLesson ?ls (db_lessons ?s2)"
    using unused_from_append [OF Cons.prems(4) lessons_in_keys] by simp
  moreover have "\<forall>d \<in> set specs. cp_n d \<noteq> cp_n c" using Cons.prems(1) by (auto simp: image_iff)
  ultimately have "seed_certs t specs (?ms, ?ls) ?s2 =
     (Inr (?ms + module_total specs, ?ls + lesson_total specs), ?s2\<lparr>db_certs := db_certs ?s2 @ map (demo_cert_row t) specs, db_modules := db_modules ?s2 @ all_modules t specs ?ms,
        db_lessons := db_lessons ?s2 @ all_lessons t specs ?ms ?ls\<rparr>)"
    using Cons.IH [of ?s2 ?ms ?ls] Cons.prems(1,2) by (auto simp: k)
  with 1 2 show ?case by (simp add: module_total_def lesson_total_def)
qed (simp add: module_total_def lesson_total_def)

lemma seedCatalog_run:
  assumes "\<forall>c \<in> set CERTS. demoId BCert (cp_n c) \<notin> pk ` set (db_certs s)"
    and "unused_from BModule 0 (db_modules s)" and "unused_from BLesson 0 (db_lessons s)"
  shows "seedCatalog t s = (Inr (), s\<lparr>db_certs := db_certs s @ map (demo_cert_row t) CERTS,
    db_modules := db_modules s @ all_modules t CERTS 0, db_lessons := db_lessons s @ all_lessons t CERTS 0 0\<rparr>)"
proof -
  have "distinct (map cp_n CERTS)" by (simp add: CERTS_n)
  from seed_certs_run [OF this assms] show ?thesis by (simp add: seedCatalog_def)
qed

end
