(* ===== verification/DemoExams.thy ===== *)
theory DemoExams
  imports DemoSeedFacts
begin

section \<open>The seeded exams and the scores of seeded answers\<close>

text \<open>
  The rows the exam section appends, the entries it returns for the stories, and that an entry describes
  the stored exam: the same questions, with an option that is correct and one that is not. For such an entry the
  answers built for a list of marks have the score that the exam engine computes.
\<close>

subsection \<open>Rows and entries without a database\<close>

fun option_rows :: "instant \<Rightarrow> nat \<Rightarrow> bool \<Rightarrow> nat \<Rightarrow> nat list \<Rightarrow> nat \<Rightarrow> exam_question_option list" where
  "option_rows t qs tf ci [] k = []"
| "option_rows t qs tf ci (oi # ois) k = option_row t qs (Suc k) tf oi (oi = ci) # option_rows t qs tf ci ois (Suc k)"

fun option_pick :: "nat \<Rightarrow> nat list \<Rightarrow> nat \<times> uuid \<times> uuid \<Rightarrow> nat \<times> uuid \<times> uuid" where
  "option_pick ci [] acc = acc"
| "option_pick ci (oi # ois) (k, c, w) = option_pick ci ois (Suc k, if oi = ci then demoId BOption (Suc k) else c,
     if oi = ci then w else if w = '''' then demoId BOption (Suc k) else w)"

definition option_count :: "nat \<Rightarrow> nat" where
  "option_count qi = (if 3 \<le> qi then 2 else 4)"

definition correct_index :: "nat \<Rightarrow> nat" where
  "correct_index qi = qi mod option_count qi"

fun question_rows :: "instant \<Rightarrow> cert_spec \<Rightarrow> nat \<Rightarrow> nat \<Rightarrow> nat \<Rightarrow> int list \<Rightarrow> nat \<Rightarrow> exam_question list" where
  "question_rows t spec order e qi [] q = []"
| "question_rows t spec order e qi (m # ms) q =
     question_row t spec order e (Suc q) qi m # question_rows t spec order e (Suc qi) ms (Suc q)"

fun exam_options :: "instant \<Rightarrow> nat \<Rightarrow> int list \<Rightarrow> nat \<Rightarrow> nat \<Rightarrow> exam_question_option list" where
  "exam_options t qi [] q k = []"
| "exam_options t qi (m # ms) q k = option_rows t (Suc q) (3 \<le> qi) (correct_index qi) [0..<option_count qi] k @
     exam_options t (Suc qi) ms (Suc q) (k + option_count qi)"

fun exam_entries :: "nat \<Rightarrow> int list \<Rightarrow> nat \<Rightarrow> nat \<Rightarrow> seeded_question list" where
  "exam_entries qi [] q k = []"
| "exam_entries qi (m # ms) q k = (case option_pick (correct_index qi) [0..<option_count qi] (k, '''', '''') of
     (_, c, w) \<Rightarrow> \<lparr>se_id = demoId BQuestion (Suc q), se_correct = c, se_wrong = w, se_marks = m\<rparr> #
       exam_entries (Suc qi) ms (Suc q) (k + option_count qi))"

text \<open>Every exam has five questions and sixteen options: the exam after \<open>e\<close> others starts at the questions after \<open>5 e\<close> and the
  options after \<open>16 e\<close>.\<close>

fun order_exams :: "instant \<Rightarrow> cert_spec \<Rightarrow> nat list \<Rightarrow> nat \<Rightarrow> exam list" where
  "order_exams t spec [] e = []"
| "order_exams t spec (n # ns) e = exam_row t spec (Suc e) n (cp_publishedExams spec < n) # order_exams t spec ns (Suc e)"

fun order_questions :: "instant \<Rightarrow> cert_spec \<Rightarrow> nat list \<Rightarrow> nat \<Rightarrow> exam_question list" where
  "order_questions t spec [] e = []"
| "order_questions t spec (n # ns) e =
     question_rows t spec n (Suc e) 0 QUESTION_MARKS (5 * e) @ order_questions t spec ns (Suc e)"

fun order_options :: "instant \<Rightarrow> nat list \<Rightarrow> nat \<Rightarrow> exam_question_option list" where
  "order_options t [] e = []"
| "order_options t (n # ns) e = exam_options t 0 QUESTION_MARKS (5 * e) (16 * e) @ order_options t ns (Suc e)"

fun order_entries :: "cert_spec \<Rightarrow> nat list \<Rightarrow> nat \<Rightarrow> seeded_exam list" where
  "order_entries spec [] e = []"
| "order_entries spec (n # ns) e = \<lparr>se_certN = cp_n spec, se_examId = demoId BExam (Suc e), se_order = n,
     se_questions = exam_entries 0 QUESTION_MARKS (5 * e) (16 * e)\<rparr> # order_entries spec ns (Suc e)"

definition orders :: "cert_spec \<Rightarrow> nat list" where
  "orders spec = [1..<exam_total spec + 1]"

fun all_exams :: "instant \<Rightarrow> cert_spec list \<Rightarrow> nat \<Rightarrow> exam list" where
  "all_exams t [] e = []"
| "all_exams t (c # cs) e = order_exams t c (orders c) e @ all_exams t cs (e + exam_total c)"

fun all_questions :: "instant \<Rightarrow> cert_spec list \<Rightarrow> nat \<Rightarrow> exam_question list" where
  "all_questions t [] e = []"
| "all_questions t (c # cs) e = order_questions t c (orders c) e @ all_questions t cs (e + exam_total c)"

fun all_options :: "instant \<Rightarrow> cert_spec list \<Rightarrow> nat \<Rightarrow> exam_question_option list" where
  "all_options t [] e = []"
| "all_options t (c # cs) e = order_options t (orders c) e @ all_options t cs (e + exam_total c)"

fun all_entries :: "cert_spec list \<Rightarrow> nat \<Rightarrow> seeded_exam list" where
  "all_entries [] e = []"
| "all_entries (c # cs) e = order_entries c (orders c) e @ all_entries cs (e + exam_total c)"

lemma length_orders [simp]: "length (orders c) = exam_total c"
  by (simp add: orders_def)

subsection \<open>The loops append these rows\<close>

lemma option_rows_keys: "map pk (option_rows t qs tf ci ois k) = map (demoId BOption) [Suc k..<Suc (k + length ois)]"
proof (induction ois arbitrary: k)
  case (Cons oi ois)
  then show ?case using block_Cons [of BOption k "length ois"] by (simp add: option_row_def del: upt_Suc)
qed simp

lemma option_pick_count: "fst (option_pick ci ois (k, c, w)) = k + length ois"
  by (induction ois arbitrary: k c w) simp_all

lemma seed_options_run:
  "unused_from BOption k (db_options s) \<Longrightarrow> demoId BQuestion qs \<in> pk ` set (db_questions s) \<Longrightarrow>
   seed_options t qs tf ci ois (k, c, w) s =
     (Inr (option_pick ci ois (k, c, w)), s\<lparr>db_options := db_options s @ option_rows t qs tf ci ois k\<rparr>)"
proof (induction ois arbitrary: k c w s)
  case (Cons oi ois)
  let ?r = "option_row t qs (Suc k) tf oi (oi = ci)"
  let ?s = "s\<lparr>db_options := db_options s @ [?r]\<rparr>"
  have k: "pk ?r = demoId BOption (Suc k)" "o_questionId ?r = demoId BQuestion qs" by (simp_all add: option_row_def)
  have 1: "save_option ?r s = (Inr (), ?s)"
    using Cons.prems unused_fromD [OF Cons.prems(1), of "Suc k"] by (simp add: save_option_def k store_def)
  have "seed_options t qs tf ci ois (Suc k, c', w') ?s =
      (Inr (option_pick ci ois (Suc k, c', w')), ?s\<lparr>db_options := db_options ?s @ option_rows t qs tf ci ois (Suc k)\<rparr>)" for c' w'
    using Cons.prems by (intro Cons.IH) (simp_all add: unused_from_step k)
  with 1 show ?case by (simp add: Let_def)
qed simp

lemma exam_options_keys:
  "map pk (exam_options t qi ms q k) = map (demoId BOption) [Suc k..<Suc (k + sum_list (map option_count [qi..<qi + length ms]))]"
proof (induction ms arbitrary: qi q k)
  case (Cons m ms)
  let ?n = "sum_list (map option_count [Suc qi..<Suc qi + length ms])"
  have "map pk (exam_options t qi (m # ms) q k) =
      map (demoId BOption) [Suc k..<Suc (k + option_count qi)] @
      map (demoId BOption) [Suc (k + option_count qi)..<Suc (k + option_count qi + ?n)]"
    by (simp add: Cons.IH option_rows_keys del: upt_Suc)
  also have "\<dots> = map (demoId BOption) [Suc k..<Suc (k + option_count qi + ?n)]" by (rule block_append) simp
  finally show ?case by (simp add: upt_conv_Cons add.assoc del: upt_Suc)
qed simp

lemma question_rows_keys:
  "map pk (question_rows t spec order e qi ms q) = map (demoId BQuestion) [Suc q..<Suc (q + length ms)]"
proof (induction ms arbitrary: qi q)
  case (Cons m ms)
  then show ?case using block_Cons [of BQuestion q "length ms"] by (simp add: question_row_def Let_def del: upt_Suc)
qed simp

lemma seed_questions_run:
  "unused_from BQuestion q (db_questions s) \<Longrightarrow> unused_from BOption k (db_options s) \<Longrightarrow>
   demoId BExam e \<in> pk ` set (db_exams s) \<Longrightarrow>
   seed_questions t spec order e qi ms (q, k, entries) s =
     (Inr (q + length ms, k + sum_list (map option_count [qi..<qi + length ms]), entries @ exam_entries qi ms q k),
      s\<lparr>db_questions := db_questions s @ question_rows t spec order e qi ms q,
        db_options := db_options s @ exam_options t qi ms q k\<rparr>)"
proof (induction ms arbitrary: qi q k entries s)
  case (Cons m ms)
  let ?r = "question_row t spec order e (Suc q) qi m"
  let ?s = "s\<lparr>db_questions := db_questions s @ [?r]\<rparr>"
  let ?os = "option_rows t (Suc q) (3 \<le> qi) (correct_index qi) [0..<option_count qi] k"
  let ?s2 = "?s\<lparr>db_options := db_options s @ ?os\<rparr>"
  obtain c w where p: "option_pick (correct_index qi) [0..<option_count qi] (k, '''', '''') = (k + option_count qi, c, w)"
    using option_pick_count [of "correct_index qi" "[0..<option_count qi]" k "''''" "''''"]
    by (cases "option_pick (correct_index qi) [0..<option_count qi] (k, '''', '''')") auto
  have key: "pk ?r = demoId BQuestion (Suc q)" "q_examId ?r = demoId BExam e" by (simp_all add: question_row_def Let_def)
  have 1: "save_question ?r s = (Inr (), ?s)"
    using Cons.prems unused_fromD [OF Cons.prems(1), of "Suc q"] by (simp add: save_question_def key store_def)
  have 2: "seed_options t (Suc q) (3 \<le> qi) (correct_index qi) [0..<option_count qi] (k, '''', '''') ?s =
      (Inr (k + option_count qi, c, w), ?s2)"
    using seed_options_run [of k ?s "Suc q" t "3 \<le> qi" "correct_index qi" "[0..<option_count qi]" "''''" "''''"] Cons.prems
    by (simp add: key p)
  have "unused_from BOption (k + option_count qi) (db_options ?s2)"
    using unused_from_append [OF Cons.prems(2) option_rows_keys [of t "Suc q" "3 \<le> qi" "correct_index qi" "[0..<option_count qi]" k]]
    by simp
  then have 3: "seed_questions t spec order e (Suc qi) ms (Suc q, k + option_count qi, es) ?s2 =
     (Inr (Suc q + length ms, k + option_count qi + sum_list (map option_count [Suc qi..<Suc qi + length ms]),
        es @ exam_entries (Suc qi) ms (Suc q) (k + option_count qi)),
      ?s2\<lparr>db_questions := db_questions ?s2 @ question_rows t spec order e (Suc qi) ms (Suc q),
        db_options := db_options ?s2 @ exam_options t (Suc qi) ms (Suc q) (k + option_count qi)\<rparr>)" for es
    using Cons.prems by (intro Cons.IH) (simp_all add: unused_from_step key)
  have u: "[qi..<qi + length (m # ms)] = qi # [Suc qi..<Suc qi + length ms]" by (simp add: upt_conv_Cons del: upt_Suc)
  show ?case
    using 1 2 3 unfolding u by (simp add: p Let_def flip: option_count_def correct_index_def del: upt_Suc)
qed simp

lemma exam_block: "sum_list (map option_count [0..<0 + length QUESTION_MARKS]) = 16" "length QUESTION_MARKS = 5"
    "sum_list (map option_count [0..<0 + 5]) = 16" "sum_list (map option_count [0..<5]) = 16"
  by (simp_all add: QUESTION_MARKS_def option_count_def upt_rec)

lemma seed_orders_run:
  "unused_from BExam e (db_exams s) \<Longrightarrow> unused_from BQuestion (5 * e) (db_questions s) \<Longrightarrow> unused_from BOption (16 * e) (db_options s) \<Longrightarrow>
   demoId BCert (cp_n spec) \<in> pk ` set (db_certs s) \<Longrightarrow> distinct ns \<Longrightarrow> (\<forall>n \<in> set ns. 1 \<le> n \<and> n \<le> 6) \<Longrightarrow>
   (\<forall>x \<in> set (db_exams s). e_certId x = demoId BCert (cp_n spec) \<longrightarrow> e_examOrder x \<notin> int ` set ns) \<Longrightarrow>
   seed_orders t spec ns (e, 5 * e, 16 * e, acc) s =
     (Inr (e + length ns, 5 * (e + length ns), 16 * (e + length ns), acc @ order_entries spec ns e),
      s\<lparr>db_exams := db_exams s @ order_exams t spec ns e, db_questions := db_questions s @ order_questions t spec ns e,
        db_options := db_options s @ order_options t ns e\<rparr>)"
proof (induction ns arbitrary: e s acc)
  case (Cons n ns)
  let ?r = "exam_row t spec (Suc e) n (cp_publishedExams spec < n)"
  let ?s = "s\<lparr>db_exams := db_exams s @ [?r]\<rparr>"
  let ?qs = "question_rows t spec n (Suc e) 0 QUESTION_MARKS (5 * e)" and ?os = "exam_options t 0 QUESTION_MARKS (5 * e) (16 * e)"
  let ?s2 = "?s\<lparr>db_questions := db_questions s @ ?qs, db_options := db_options s @ ?os\<rparr>"
  have key: "pk ?r = demoId BExam (Suc e)" "e_certId ?r = demoId BCert (cp_n spec)" "e_examOrder ?r = int n"
    by (simp_all add: exam_row_def)
  have n: "1 \<le> n" "n \<le> 6" using Cons.prems(6) by auto
  have "exam_check ?r" using n by (simp add: exam_check_def exam_row_def)
  moreover have "\<not> (\<exists>x \<in> set (db_exams s). pk x \<noteq> pk ?r \<and> e_certId x = e_certId ?r \<and> e_examOrder x = e_examOrder ?r)"
    using Cons.prems(7) by (auto simp: key)
  moreover have "pk ?r \<notin> pk ` set (db_exams s)" unfolding key using unused_fromD [OF Cons.prems(1)] by blast
  ultimately have 1: "save_exam ?r s = (Inr (), ?s)"
    using Cons.prems(4) by (simp add: save_exam_def save_row_def store_def key)
  have 2: "seed_questions t spec n (Suc e) 0 QUESTION_MARKS (5 * e, 16 * e, []) ?s =
      (Inr (5 * e + 5, 16 * e + 16, exam_entries 0 QUESTION_MARKS (5 * e) (16 * e)), ?s2)"
    using seed_questions_run [of "5 * e" ?s "16 * e" "Suc e" t spec n 0 QUESTION_MARKS "[]"] Cons.prems
    unfolding exam_block by (simp add: key)
  have "unused_from BQuestion (5 * Suc e) (db_questions ?s2)"
    using unused_from_append [OF Cons.prems(2) question_rows_keys [of t spec n "Suc e" 0 QUESTION_MARKS "5 * e"]]
    unfolding exam_block by (simp add: algebra_simps)
  moreover have "unused_from BOption (16 * Suc e) (db_options ?s2)"
    using unused_from_append [OF Cons.prems(3) exam_options_keys [of t 0 QUESTION_MARKS "5 * e" "16 * e"]]
    unfolding exam_block by (simp add: algebra_simps)
  moreover have "unused_from BExam (Suc e) (db_exams ?s2)" using Cons.prems(1) by (simp add: unused_from_step key)
  ultimately have 3: "seed_orders t spec ns (Suc e, 5 * Suc e, 16 * Suc e, acc') ?s2 =
     (Inr (Suc e + length ns, 5 * (Suc e + length ns), 16 * (Suc e + length ns), acc' @ order_entries spec ns (Suc e)),
      ?s2\<lparr>db_exams := db_exams ?s2 @ order_exams t spec ns (Suc e),
        db_questions := db_questions ?s2 @ order_questions t spec ns (Suc e),
        db_options := db_options ?s2 @ order_options t ns (Suc e)\<rparr>)" for acc'
    using Cons.prems(4-7) by (intro Cons.IH) (auto simp: key)
  have arith: "5 * e + 5 = 5 * Suc e" "16 * e + 16 = 16 * Suc e" by simp_all
  show ?case using 1 2 3 unfolding arith by simp
qed simp

lemma all_exams_certs: "x \<in> set (order_exams t spec ns e) \<Longrightarrow> e_certId x = demoId BCert (cp_n spec)"
  by (induction ns arbitrary: e) (auto simp: exam_row_def)

lemma order_exams_keys: "map pk (order_exams t spec ns e) = map (demoId BExam) [Suc e..<Suc (e + length ns)]"
proof (induction ns arbitrary: e)
  case (Cons n ns)
  then show ?case using block_Cons [of BExam e "length ns"] by (simp add: exam_row_def del: upt_Suc)
qed simp

lemma order_questions_keys:
  "map pk (order_questions t spec ns e) = map (demoId BQuestion) [Suc (5 * e)..<Suc (5 * (e + length ns))]"
proof (induction ns arbitrary: e)
  case (Cons n ns)
  have "map pk (order_questions t spec (n # ns) e) = map (demoId BQuestion) [Suc (5 * e)..<Suc (5 * e + 5)] @
      map (demoId BQuestion) [Suc (5 * e + 5)..<Suc (5 * e + 5 + 5 * length ns)]"
    using Cons.IH [of "Suc e"] question_rows_keys [of t spec n "Suc e" 0 QUESTION_MARKS "5 * e"] unfolding exam_block
    by (simp add: algebra_simps del: upt_Suc)
  also have "\<dots> = map (demoId BQuestion) [Suc (5 * e)..<Suc (5 * e + 5 + 5 * length ns)]" by (rule block_append) simp
  finally show ?case by (simp add: algebra_simps del: upt_Suc)
qed simp

lemma order_options_keys:
  "map pk (order_options t ns e) = map (demoId BOption) [Suc (16 * e)..<Suc (16 * (e + length ns))]"
proof (induction ns arbitrary: e)
  case (Cons n ns)
  have "map pk (order_options t (n # ns) e) = map (demoId BOption) [Suc (16 * e)..<Suc (16 * e + 16)] @
      map (demoId BOption) [Suc (16 * e + 16)..<Suc (16 * e + 16 + 16 * length ns)]"
    using Cons.IH [of "Suc e"] exam_options_keys [of t 0 QUESTION_MARKS "5 * e" "16 * e"] unfolding exam_block
    by (simp add: algebra_simps del: upt_Suc)
  also have "\<dots> = map (demoId BOption) [Suc (16 * e)..<Suc (16 * e + 16 + 16 * length ns)]" by (rule block_append) simp
  finally show ?case by (simp add: algebra_simps del: upt_Suc)
qed simp

definition exam_sum :: "cert_spec list \<Rightarrow> nat" where
  "exam_sum specs = sum_list (map exam_total specs)"

lemma seed_exam_specs_run:
  "unused_from BExam e (db_exams s) \<Longrightarrow> unused_from BQuestion (5 * e) (db_questions s) \<Longrightarrow> unused_from BOption (16 * e) (db_options s) \<Longrightarrow>
   (\<forall>c \<in> set specs. demoId BCert (cp_n c) \<in> pk ` set (db_certs s) \<and> exam_total c \<le> 6) \<Longrightarrow> distinct (map cp_n specs) \<Longrightarrow>
   (\<forall>x \<in> set (db_exams s). \<forall>c \<in> set specs. e_certId x \<noteq> demoId BCert (cp_n c)) \<Longrightarrow>
   seed_exam_specs t specs (e, 5 * e, 16 * e, acc) s =
     (Inr (e + exam_sum specs, 5 * (e + exam_sum specs), 16 * (e + exam_sum specs), acc @ all_entries specs e),
      s\<lparr>db_exams := db_exams s @ all_exams t specs e, db_questions := db_questions s @ all_questions t specs e,
        db_options := db_options s @ all_options t specs e\<rparr>)"
proof (induction specs arbitrary: e s acc)
  case (Cons c specs)
  let ?e = "e + exam_total c"
  let ?s = "s\<lparr>db_exams := db_exams s @ order_exams t c (orders c) e, db_questions := db_questions s @ order_questions t c (orders c) e,
        db_options := db_options s @ order_options t (orders c) e\<rparr>"
  have c6: "exam_total c \<le> 6" using Cons.prems(4) by simp
  have "seed_orders t c (orders c) (e, 5 * e, 16 * e, acc) s =
     (Inr (?e, 5 * ?e, 16 * ?e, acc @ order_entries c (orders c) e), ?s)"
    using seed_orders_run [of e s c "orders c" t acc] Cons.prems(1-4,6) c6 by (simp add: orders_def del: upt_Suc)
  then have 1: "seed_orders t c [1..<exam_total c + 1] (e, 5 * e, 16 * e, acc) s =
     (Inr (?e, 5 * ?e, 16 * ?e, acc @ order_entries c (orders c) e), ?s)" by (simp only: orders_def)
  have d: "\<forall>d \<in> set specs. cp_n c \<noteq> cp_n d" using Cons.prems(5) by (auto simp: image_iff)
  have "unused_from BExam ?e (db_exams ?s)"
    using unused_from_append [OF Cons.prems(1) order_exams_keys [of t c "orders c" e]] by simp
  moreover have "unused_from BQuestion (5 * ?e) (db_questions ?s)"
    using unused_from_append [OF Cons.prems(2) order_questions_keys [of t c "orders c" e]] by simp
  moreover have "unused_from BOption (16 * ?e) (db_options ?s)"
    using unused_from_append [OF Cons.prems(3) order_options_keys [of t "orders c" e]] by simp
  moreover have "\<forall>x \<in> set (db_exams ?s). \<forall>d \<in> set specs. e_certId x \<noteq> demoId BCert (cp_n d)"
    using Cons.prems(6) d all_exams_certs [of _ t c "orders c" e] by auto
  ultimately have 2: "seed_exam_specs t specs (?e, 5 * ?e, 16 * ?e, acc') ?s =
     (Inr (?e + exam_sum specs, 5 * (?e + exam_sum specs), 16 * (?e + exam_sum specs), acc' @ all_entries specs ?e),
      ?s\<lparr>db_exams := db_exams ?s @ all_exams t specs ?e, db_questions := db_questions ?s @ all_questions t specs ?e,
        db_options := db_options ?s @ all_options t specs ?e\<rparr>)" for acc'
    using Cons.prems(4,5) by (intro Cons.IH) simp_all
  have sum: "e + exam_sum (c # specs) = ?e + exam_sum specs" by (simp add: exam_sum_def)
  show ?case unfolding sum using 1 2 by (simp del: upt_Suc)
qed (simp add: exam_sum_def)

lemma CERTS_exams: "map exam_total CERTS = [3, 2, 2, 1, 1, 2]"
  by (simp add: CERTS_def exam_total_def cert_psm_def cert_pspo_def cert_psd_def cert_pal_def cert_sps_def cert_pmp_def)

lemma exam_total_le: "c \<in> set CERTS \<Longrightarrow> exam_total c \<le> 6"
proof -
  assume "c \<in> set CERTS"
  then have "exam_total c \<in> set (map exam_total CERTS)" by simp
  then show ?thesis unfolding CERTS_exams by auto
qed

lemma seedExams_run:
  assumes "unused_from BExam 0 (db_exams s)" "unused_from BQuestion 0 (db_questions s)" "unused_from BOption 0 (db_options s)"
    and "\<forall>c \<in> set CERTS. demoId BCert (cp_n c) \<in> pk ` set (db_certs s)"
    and "\<forall>x \<in> set (db_exams s). \<forall>c \<in> set CERTS. e_certId x \<noteq> demoId BCert (cp_n c)"
  shows "seedExams t s = (Inr (all_entries CERTS 0), s\<lparr>db_exams := db_exams s @ all_exams t CERTS 0,
    db_questions := db_questions s @ all_questions t CERTS 0, db_options := db_options s @ all_options t CERTS 0\<rparr>)"
proof -
  have "distinct (map cp_n CERTS)" by (simp add: CERTS_n)
  from seed_exam_specs_run [of 0 s CERTS t "[]", simplified, OF assms(1-3) _ this assms(5)] assms(4) exam_total_le
  show ?thesis by (simp add: seedExams_def)
qed

end
