(* ===== verification/DemoScores.thy ===== *)
theory DemoScores
  imports DemoExams
begin

section \<open>Seeded answers score as the engine scores\<close>

text \<open>
  A description of an exam's questions agrees with the stored questions when keys and marks are equal and the
  two recorded options are a correct and a wrong one. \<open>buildAnswers\<close> on such a description answers each question
  as it counts it, so that its score is the one \<open>scoreAnswers\<close> computes.
\<close>

subsection \<open>Descriptions that agree with questions\<close>

definition option_is :: "bool \<Rightarrow> uuid \<Rightarrow> exam_question \<Rightarrow> bool" where
  "option_is b i q \<longleftrightarrow> i \<noteq> '''' \<and> (case find_one (\<lambda>x. pk x = i) (q_options q) of None \<Rightarrow> False | Some x \<Rightarrow> o_isCorrect x = b)"

definition describes :: "seeded_question \<Rightarrow> exam_question \<Rightarrow> bool" where
  "describes d q \<longleftrightarrow> pk q = se_id d \<and> q_marks q = se_marks d \<and> option_is True (se_correct d) q \<and> option_is False (se_wrong d) q"

lemma answered_by:
  "map_of a (pk q) = Some i \<Longrightarrow> option_is b i q \<Longrightarrow> answered_correctly a q = b"
  by (auto simp: answered_correctly_def selected_option_def option_is_def split: option.splits)

lemma answers_loop_other:
  "k \<notin> se_id ` set ds \<Longrightarrow> map_of (fst (answers_loop ds cm (a, e, t))) k = map_of a k"
  by (induction ds arbitrary: cm a e t) (auto simp: update_conv)

lemma answers_loop_scores:
  "list_all2 describes ds qs \<Longrightarrow> distinct (map se_id ds) \<Longrightarrow> answers_loop ds cm (a, e, t) = (a', e', t') \<Longrightarrow>
   e' = e + earned_marks a' qs \<and> t' = t + total_marks qs"
proof (induction ds qs arbitrary: cm a e t rule: list_all2_induct)
  case Nil
  then show ?case by (simp add: earned_marks_def total_marks_def)
next
  case (Cons d ds q qs)
  have q: "pk q = se_id d" "q_marks q = se_marks d" "option_is True (se_correct d) q" "option_is False (se_wrong d) q"
    using Cons.hyps(1) by (simp_all add: describes_def)
  have fresh: "se_id d \<notin> se_id ` set ds" and ds: "distinct (map se_id ds)" using Cons.prems(1) by auto
  show ?case
  proof (cases "se_marks d \<in> set cm")
    case True
    with Cons.prems(2) have run: "answers_loop ds (remove1 (se_marks d) cm)
        (AList.update (se_id d) (se_correct d) a, e + se_marks d, t + se_marks d) = (a', e', t')" by simp
    have "map_of a' (pk q) = Some (se_correct d)"
      using answers_loop_other [OF fresh, of "remove1 (se_marks d) cm" "AList.update (se_id d) (se_correct d) a"
          "e + se_marks d" "t + se_marks d"] by (simp add: run q update_conv)
    from answered_by [OF this q(3)] Cons.IH [OF ds run] show ?thesis
      by (simp add: earned_marks_def total_marks_def q)
  next
    case False
    with Cons.prems(2) have run: "answers_loop ds cm
        (AList.update (se_id d) (se_wrong d) a, e, t + se_marks d) = (a', e', t')" by simp
    have "map_of a' (pk q) = Some (se_wrong d)"
      using answers_loop_other [OF fresh, of cm "AList.update (se_id d) (se_wrong d) a" e "t + se_marks d"]
      by (simp add: run q update_conv)
    from answered_by [OF this q(4)] Cons.IH [OF ds run] show ?thesis
      by (simp add: earned_marks_def total_marks_def q)
  qed
qed

lemma buildAnswers_score:
  assumes "list_all2 describes (se_questions en) (e_questions ex)" and "distinct (map se_id (se_questions en))"
    and "0 < total_marks (e_questions ex)" and "find_one (\<lambda>e. pk e = examId) exams = Some ex"
    and "buildAnswers en cm = (a, score)"
  shows "s_score (scoreAnswers exams examId a) = score \<and>
    s_passed (scoreAnswers exams examId a) = (of_int (e_passingScore ex) \<le> score)"
proof -
  obtain e t where run: "answers_loop (se_questions en) cm ([], 0, 0) = (a, e, t)"
    and score: "score = parse_float (to_fixed2 (js_percent (of_int e) (of_int t)))"
    using assms(5) by (cases "answers_loop (se_questions en) cm ([], 0, 0)") (auto simp: buildAnswers_def)
  have et: "e = earned_marks a (e_questions ex)" "t = total_marks (e_questions ex)"
    using answers_loop_scores [OF assms(1,2) run] by simp_all
  have "score = percent_score e t" using assms(3) by (simp add: score percent_score_def et)
  moreover have "e_questions ex \<noteq> []" using assms(3) by (auto simp: total_marks_def)
  ultimately show ?thesis using scoreAnswers_found [OF assms(4)] by (simp add: et)
qed

subsection \<open>Looking up the rows of one exam\<close>

lemma filter_none: "\<forall>x \<in> set xs. \<not> P x \<Longrightarrow> filter P xs = []"
  by (simp add: filter_empty_conv)

lemma question_rows_exam: "q \<in> set (question_rows t spec order e qi ms k) \<Longrightarrow> q_examId q = demoId BExam e"
  by (induction ms arbitrary: qi k) (auto simp: question_row_def Let_def)

lemma option_rows_question: "x \<in> set (option_rows t qs tf ci ois k) \<Longrightarrow> o_questionId x = demoId BQuestion qs"
  by (induction ois arbitrary: k) (auto simp: option_row_def)

lemma exam_options_question:
  "x \<in> set (exam_options t qi ms q k) \<Longrightarrow> \<exists>i. q < i \<and> i \<le> q + length ms \<and> o_questionId x = demoId BQuestion i"
proof (induction ms arbitrary: qi q k)
  case (Cons m ms)
  from Cons.prems consider "o_questionId x = demoId BQuestion (Suc q)"
    | "x \<in> set (exam_options t (Suc qi) ms (Suc q) (k + option_count qi))" by (auto dest: option_rows_question)
  then show ?case
  proof cases
    case 2
    from Cons.IH [OF this] obtain i where "Suc q < i" "i \<le> Suc q + length ms" "o_questionId x = demoId BQuestion i" by blast
    then show ?thesis by (intro exI [of _ i]) simp
  qed (intro exI [of _ "Suc q"], simp)
qed simp

definition of_exam :: "nat \<Rightarrow> exam_question \<Rightarrow> bool" where
  "of_exam j q \<longleftrightarrow> q_examId q = demoId BExam (Suc j)"

definition of_question :: "nat \<Rightarrow> exam_question_option \<Rightarrow> bool" where
  "of_question i x \<longleftrightarrow> o_questionId x = demoId BQuestion i"

definition in_exam :: "nat \<Rightarrow> nat \<Rightarrow> bool" where
  "in_exam j i \<longleftrightarrow> 5 * j < i \<and> i \<le> 5 * j + 5"

lemma exam_options_other: "in_exam j i \<Longrightarrow> e \<noteq> j \<Longrightarrow> filter (of_question i) (exam_options t 0 QUESTION_MARKS (5 * e) k) = []"
  unfolding filter_empty_conv
proof (intro ballI notI)
  fix x
  assume "in_exam j i" "e \<noteq> j" "x \<in> set (exam_options t 0 QUESTION_MARKS (5 * e) k)" "of_question i x"
  moreover from exam_options_question [OF this(3)] obtain i' where "5 * e < i'" "i' \<le> 5 * e + 5" "o_questionId x = demoId BQuestion i'"
    unfolding exam_block by blast
  ultimately show False by (simp add: in_exam_def of_question_def)
qed

lemma question_rows_other: "e \<noteq> j \<Longrightarrow> filter (of_exam j) (question_rows t spec n (Suc e) qi ms k) = []"
  by (auto simp: filter_empty_conv of_exam_def dest: question_rows_exam)

lemma question_rows_own: "filter (of_exam j) (question_rows t spec n (Suc j) qi ms k) = question_rows t spec n (Suc j) qi ms k"
  by (auto simp: filter_id_conv of_exam_def dest: question_rows_exam)

lemma order_options_other: "in_exam j i \<Longrightarrow> j < e \<or> e + length ns \<le> j \<Longrightarrow> filter (of_question i) (order_options t ns e) = []"
proof (induction ns arbitrary: e)
  case (Cons n ns)
  then have "e \<noteq> j" by auto
  from exam_options_other [OF Cons.prems(1) this] Cons.IH [of "Suc e"] Cons.prems show ?case by auto
qed simp

lemma order_options_own:
  "in_exam j i \<Longrightarrow> e \<le> j \<Longrightarrow> j < e + length ns \<Longrightarrow>
   filter (of_question i) (order_options t ns e) = filter (of_question i) (exam_options t 0 QUESTION_MARKS (5 * j) (16 * j))"
proof (induction ns arbitrary: e)
  case (Cons n ns)
  show ?case
  proof (cases "e = j")
    case True
    then show ?thesis using order_options_other [OF Cons.prems(1), of "Suc e" ns t] by simp
  next
    case False
    then show ?thesis using Cons exam_options_other [OF Cons.prems(1) False] by simp
  qed
qed simp

lemma all_options_other: "in_exam j i \<Longrightarrow> j < e \<Longrightarrow> filter (of_question i) (all_options t cs e) = []"
  by (induction cs arbitrary: e) (simp_all add: order_options_other)

lemma all_options_own:
  "in_exam j i \<Longrightarrow> e \<le> j \<Longrightarrow> j < e + exam_sum cs \<Longrightarrow>
   filter (of_question i) (all_options t cs e) = filter (of_question i) (exam_options t 0 QUESTION_MARKS (5 * j) (16 * j))"
proof (induction cs arbitrary: e)
  case (Cons c cs)
  show ?case
  proof (cases "j < e + exam_total c")
    case True
    then show ?thesis using order_options_own [OF Cons.prems(1,2), of "orders c" t] all_options_other [OF Cons.prems(1)]
      by simp
  next
    case False
    then have "filter (of_question i) (all_options t cs (e + exam_total c)) =
        filter (of_question i) (exam_options t 0 QUESTION_MARKS (5 * j) (16 * j))"
      using Cons.prems by (intro Cons.IH) (simp_all add: exam_sum_def)
    then show ?thesis using order_options_other [OF Cons.prems(1), of e "orders c" t] False by simp
  qed
qed (simp add: exam_sum_def)

lemma order_questions_other: "j < e \<or> e + length ns \<le> j \<Longrightarrow> filter (of_exam j) (order_questions t spec ns e) = []"
proof (induction ns arbitrary: e)
  case (Cons n ns)
  then have "e \<noteq> j" by auto
  from question_rows_other [OF this] Cons.IH [of "Suc e"] Cons.prems show ?case by auto
qed simp

lemma all_questions_other: "j < e \<Longrightarrow> filter (of_exam j) (all_questions t cs e) = []"
  by (induction cs arbitrary: e) (simp_all add: order_questions_other)

text \<open>The entry, the exam and the questions of the exam after \<open>j\<close> others.\<close>

definition entry :: "cert_spec \<Rightarrow> nat \<Rightarrow> nat \<Rightarrow> seeded_exam" where
  "entry spec n j = \<lparr>se_certN = cp_n spec, se_examId = demoId BExam (Suc j), se_order = n,
     se_questions = exam_entries 0 QUESTION_MARKS (5 * j) (16 * j)\<rparr>"

lemma order_entries_rows:
  "en \<in> set (order_entries spec ns e) \<Longrightarrow> \<exists>j n. e \<le> j \<and> j < e + length ns \<and> n \<in> set ns \<and> en = entry spec n j \<and>
    filter (of_exam j) (order_questions t spec ns e) = question_rows t spec n (Suc j) 0 QUESTION_MARKS (5 * j) \<and>
    exam_row t spec (Suc j) n (cp_publishedExams spec < n) \<in> set (order_exams t spec ns e)"
proof (induction ns arbitrary: e)
  case (Cons n ns)
  from Cons.prems consider "en = entry spec n e" | "en \<in> set (order_entries spec ns (Suc e))" by (auto simp: entry_def)
  then show ?case
  proof cases
    case 1
    then show ?thesis using order_questions_other [of e "Suc e" ns t spec]
      by (intro exI [of _ e] exI [of _ n]) (simp add: question_rows_own)
  next
    case 2
    from Cons.IH [OF this] obtain j m where "Suc e \<le> j" "j < Suc e + length ns" "m \<in> set ns" "en = entry spec m j"
      "filter (of_exam j) (order_questions t spec ns (Suc e)) = question_rows t spec m (Suc j) 0 QUESTION_MARKS (5 * j)"
      "exam_row t spec (Suc j) m (cp_publishedExams spec < m) \<in> set (order_exams t spec ns (Suc e))" by blast
    then show ?thesis by (intro exI [of _ j] exI [of _ m]) (simp add: question_rows_other)
  qed
qed simp

lemma all_entries_rows:
  "en \<in> set (all_entries cs e) \<Longrightarrow> \<exists>j spec n. e \<le> j \<and> j < e + exam_sum cs \<and> spec \<in> set cs \<and> n \<in> set (orders spec) \<and>
    en = entry spec n j \<and>
    filter (of_exam j) (all_questions t cs e) = question_rows t spec n (Suc j) 0 QUESTION_MARKS (5 * j) \<and>
    exam_row t spec (Suc j) n (cp_publishedExams spec < n) \<in> set (all_exams t cs e)"
proof (induction cs arbitrary: e)
  case (Cons c cs)
  from Cons.prems consider "en \<in> set (order_entries c (orders c) e)" | "en \<in> set (all_entries cs (e + exam_total c))" by auto
  then show ?case
  proof cases
    case 1
    from order_entries_rows [OF 1, of t] obtain j n where j: "e \<le> j" "j < e + exam_total c" "n \<in> set (orders c)" "en = entry c n j"
      "filter (of_exam j) (order_questions t c (orders c) e) = question_rows t c n (Suc j) 0 QUESTION_MARKS (5 * j)"
      "exam_row t c (Suc j) n (cp_publishedExams c < n) \<in> set (order_exams t c (orders c) e)" by auto
    then show ?thesis
      by (intro exI [of _ j] exI [of _ c] exI [of _ n]) (simp add: exam_sum_def all_questions_other)
  next
    case 2
    from Cons.IH [OF this] obtain j spec n where "e + exam_total c \<le> j" "j < e + exam_total c + exam_sum cs" "spec \<in> set cs"
      "n \<in> set (orders spec)" "en = entry spec n j"
      "filter (of_exam j) (all_questions t cs (e + exam_total c)) = question_rows t spec n (Suc j) 0 QUESTION_MARKS (5 * j)"
      "exam_row t spec (Suc j) n (cp_publishedExams spec < n) \<in> set (all_exams t cs (e + exam_total c))" by blast
    then show ?thesis
      by (intro exI [of _ j] exI [of _ spec] exI [of _ n]) (simp add: exam_sum_def order_questions_other)
  qed
qed simp

subsection \<open>The five questions of an exam\<close>

lemma exam_describes:
  "list_all2 describes (exam_entries 0 QUESTION_MARKS q k)
    (map (\<lambda>x. x\<lparr>q_options := filter (\<lambda>y. o_questionId y = pk x) (exam_options t 0 QUESTION_MARKS q k)\<rparr>)
      (question_rows t spec n e 0 QUESTION_MARKS q))"
  by (simp add: QUESTION_MARKS_def option_count_def correct_index_def upt_rec describes_def option_is_def find_one_def
      question_row_def option_row_def Let_def)

lemma exam_entries_distinct: "distinct (map se_id (exam_entries 0 QUESTION_MARKS q k))"
  by (simp add: QUESTION_MARKS_def option_count_def correct_index_def upt_rec)

lemma question_rows_total: "total_marks (map f (question_rows t spec n e 0 QUESTION_MARKS q)) = 10"
  if "\<And>x. q_marks (f x) = q_marks x"
  using that by (simp add: QUESTION_MARKS_def total_marks_def question_row_def Let_def)

lemma question_rows_in: "x \<in> set (question_rows t spec n (Suc j) 0 QUESTION_MARKS (5 * j)) \<Longrightarrow> \<exists>i. in_exam j i \<and> pk x = demoId BQuestion i"
proof -
  assume "x \<in> set (question_rows t spec n (Suc j) 0 QUESTION_MARKS (5 * j))"
  then have "pk x \<in> set (map (demoId BQuestion) [Suc (5 * j)..<Suc (5 * j + 5)])"
    using question_rows_keys [of t spec n "Suc j" 0 QUESTION_MARKS "5 * j"] unfolding exam_block
    by (metis image_eqI set_map)
  then show ?thesis by (force simp: in_exam_def simp del: upt_Suc)
qed

lemma all_exams_keys: "map pk (all_exams t cs e) = map (demoId BExam) [Suc e..<Suc (e + exam_sum cs)]"
proof (induction cs arbitrary: e)
  case (Cons c cs)
  have "map pk (all_exams t (c # cs) e) = map (demoId BExam) [Suc e..<Suc (e + exam_total c)] @
      map (demoId BExam) [Suc (e + exam_total c)..<Suc (e + exam_total c + exam_sum cs)]"
    by (simp add: Cons.IH order_exams_keys del: upt_Suc)
  also have "\<dots> = map (demoId BExam) [Suc e..<Suc (e + exam_total c + exam_sum cs)]" by (rule block_append) simp
  finally show ?case by (simp add: exam_sum_def add.assoc del: upt_Suc)
qed (simp add: exam_sum_def)

lemma distinct_block: "distinct (map (demoId b) [i..<j])"
  by (simp add: distinct_map inj_on_def)

text \<open>Rows that were there before and know nothing of the seeded exams.\<close>

definition exams_untouched :: "seed_db \<Rightarrow> bool" where
  "exams_untouched s \<longleftrightarrow> unused_from BExam 0 (db_exams s) \<and> unused_from BQuestion 0 (db_questions s) \<and>
     unused_from BOption 0 (db_options s) \<and> (\<forall>x \<in> set (db_exams s). \<forall>c \<in> set CERTS. e_certId x \<noteq> demoId BCert (cp_n c)) \<and>
     (\<forall>q \<in> set (db_questions s). q_examId q \<in> pk ` set (db_exams s)) \<and>
     (\<forall>x \<in> set (db_options s). o_questionId x \<in> pk ` set (db_questions s))"

lemma find_loaded_exam: "find_one (\<lambda>e. pk e = i) (loaded_exams s) = map_option (loaded_exam s) (find_one (\<lambda>e. pk e = i) (db_exams s))"
proof -
  have "find_one (\<lambda>e. pk e = i) (map (loaded_exam s) xs) = map_option (loaded_exam s) (find_one (\<lambda>e. pk e = i) xs)" for xs
    by (induction xs) (simp_all add: find_one_def loaded_exam_def)
  then show ?thesis by (simp add: loaded_exams_def)
qed

lemma loaded_seeded_exam:
  assumes "exams_untouched s" and "en \<in> set (all_entries CERTS 0)"
    and "s' = s\<lparr>db_exams := db_exams s @ all_exams t CERTS 0, db_questions := db_questions s @ all_questions t CERTS 0,
      db_options := db_options s @ all_options t CERTS 0\<rparr>"
  shows "\<exists>ex j spec n. find_one (\<lambda>e. pk e = se_examId en) (loaded_exams s') = Some ex \<and> e_passingScore ex = 80 \<and>
    list_all2 describes (se_questions en) (e_questions ex) \<and> total_marks (e_questions ex) = 10 \<and>
    distinct (map se_id (se_questions en)) \<and> spec \<in> set CERTS \<and> n \<in> set (orders spec) \<and> en = entry spec n j \<and>
    exam_row t spec (Suc j) n (cp_publishedExams spec < n) \<in> set (all_exams t CERTS 0)"
proof -
  obtain j spec n where j: "j < exam_sum CERTS" "en = entry spec n j" "spec \<in> set CERTS" "n \<in> set (orders spec)"
    and qs: "filter (of_exam j) (all_questions t CERTS 0) = question_rows t spec n (Suc j) 0 QUESTION_MARKS (5 * j)"
    and row: "exam_row t spec (Suc j) n (cp_publishedExams spec < n) \<in> set (all_exams t CERTS 0)"
    using all_entries_rows [OF assms(2), of t] by auto
  let ?r = "exam_row t spec (Suc j) n (cp_publishedExams spec < n)"
  let ?ex = "loaded_exam s' ?r"
  have id: "se_examId en = pk ?r" "pk ?r = demoId BExam (Suc j)" by (simp_all add: j(2) entry_def exam_row_def)
  note u = assms(1) [unfolded exams_untouched_def]
  have noexam: "demoId BExam (Suc i) \<notin> pk ` set (db_exams s)" for i using u unused_fromD by blast
  have noquestion: "in_exam i k \<Longrightarrow> demoId BQuestion k \<notin> pk ` set (db_questions s)" for i k
    using unused_fromD [of BQuestion 0 "db_questions s" k] u by (auto simp: in_exam_def)
  have "distinct (map pk (all_exams t CERTS 0))" unfolding all_exams_keys by (rule distinct_block)
  from find_one_key_unique [OF this row] have f: "find_one (\<lambda>x. pk x = pk ?r) (all_exams t CERTS 0) = Some ?r" .
  have "find_one (\<lambda>x. pk x = pk ?r) (db_exams s) = None" using noexam [of j] by (force simp: find_one_None_iff id)
  with f have "find_one (\<lambda>x. pk x = pk ?r) (db_exams s') = Some ?r" by (simp add: assms(3) find_one_append)
  then have found: "find_one (\<lambda>e. pk e = se_examId en) (loaded_exams s') = Some ?ex"
    by (simp add: id(1) find_loaded_exam)
  have "filter (of_exam j) (db_questions s) = []"
    using u noexam [of j] by (force simp: filter_empty_conv of_exam_def)
  with qs have q: "filter (\<lambda>q. q_examId q = pk ?r) (db_questions s') = question_rows t spec n (Suc j) 0 QUESTION_MARKS (5 * j)"
    unfolding id(2) by (simp add: assms(3) flip: of_exam_def)
  have o: "filter (\<lambda>y. o_questionId y = pk x) (db_options s') =
      filter (\<lambda>y. o_questionId y = pk x) (exam_options t 0 QUESTION_MARKS (5 * j) (16 * j))"
    if x: "x \<in> set (question_rows t spec n (Suc j) 0 QUESTION_MARKS (5 * j))" for x
  proof -
    obtain i where i: "in_exam j i" "pk x = demoId BQuestion i" using question_rows_in [OF x] by blast
    have "filter (of_question i) (db_options s) = []"
      using u noquestion [OF i(1)] by (force simp: filter_empty_conv of_question_def)
    then show ?thesis unfolding i(2)
      using all_options_own [OF i(1), of 0 CERTS t] j(1) by (simp add: assms(3) flip: of_question_def)
  qed
  have "e_questions ?ex = map (\<lambda>x. x\<lparr>q_options := filter (\<lambda>y. o_questionId y = pk x)
      (exam_options t 0 QUESTION_MARKS (5 * j) (16 * j))\<rparr>) (question_rows t spec n (Suc j) 0 QUESTION_MARKS (5 * j))"
    using o by (simp add: loaded_exam_def q loaded_question_def cong: map_cong)
  then show ?thesis using found exam_describes exam_entries_distinct row j(2-4) question_rows_total
    by (intro exI [of _ ?ex] exI [of _ j] exI [of _ spec] exI [of _ n])
      (simp add: entry_def loaded_exam_def exam_row_def)
qed

end
