(* ===== verification/DemoReferences.thy ===== *)
theory DemoReferences
  imports DemoSeed
begin

section \<open>The demo seeder keeps the references of the database\<close>

text \<open>
  Every foreign key of the tables in \<open>seed_db\<close> points to a row. Deleting with the referential actions and every
  insert of the seeder keep it so, whatever the database holds and wherever the script stops.
\<close>

subsection \<open>Referential integrity\<close>

definition refs :: "('r \<Rightarrow> uuid) \<Rightarrow> 'r list \<Rightarrow> 'p uuid_entity_scheme list \<Rightarrow> bool" where
  "refs f t parents \<longleftrightarrow> (\<forall>r \<in> set t. f r \<in> pk ` set parents)"

definition refs_opt :: "('r \<Rightarrow> uuid option) \<Rightarrow> 'r list \<Rightarrow> ('p \<Rightarrow> uuid) \<Rightarrow> 'p list \<Rightarrow> bool" where
  "refs_opt f t key parents \<longleftrightarrow> (\<forall>r \<in> set t. \<forall>k. f r = Some k \<longrightarrow> k \<in> key ` set parents)"

definition catalogue_refs :: "seed_db \<Rightarrow> bool" where
  "catalogue_refs s \<longleftrightarrow> refs m_certId (db_modules s) (db_certs s) \<and> refs l_moduleId (db_lessons s) (db_modules s) \<and>
     refs e_certId (db_exams s) (db_certs s) \<and> refs q_examId (db_questions s) (db_exams s) \<and>
     refs o_questionId (db_options s) (db_questions s)"

definition exam_refs :: "seed_db \<Rightarrow> bool" where
  "exam_refs s \<longleftrightarrow> refs ac_userId (db_codes s) (db_users s) \<and> refs ac_examId (db_codes s) (db_exams s) \<and>
     refs ac_certId (db_codes s) (db_certs s) \<and> refs at_userId (db_attempts s) (db_users s) \<and>
     refs at_examId (db_attempts s) (db_exams s) \<and> refs at_certId (db_attempts s) (db_certs s) \<and>
     refs ts_userId (db_sessions s) (db_users s) \<and> refs ts_examId (db_sessions s) (db_exams s)"

definition student_refs :: "seed_db \<Rightarrow> bool" where
  "student_refs s \<longleftrightarrow> refs sp_userId (db_purchases s) (db_users s) \<and> refs sp_certId (db_purchases s) (db_certs s) \<and>
     refs pr_userId (db_progress s) (db_users s) \<and> refs pr_lessonId (db_progress s) (db_lessons s) \<and>
     refs tx_userId (db_transactions s) (db_users s) \<and> refs tx_certId (db_transactions s) (db_certs s) \<and>
     refs_opt tx_promoCodeId (db_transactions s) pc_id (db_promos s) \<and>
     refs iss_userId (db_issued s) (db_users s) \<and> refs iss_certificateId (db_issued s) (db_certs s) \<and>
     refs iss_examAttemptId (db_issued s) (db_attempts s)"

definition account_refs :: "seed_db \<Rightarrow> bool" where
  "account_refs s \<longleftrightarrow> refs_opt rt_userId (db_refresh s) pk (db_users s) \<and> refs_opt rt_adminId (db_refresh s) pk (db_admins s) \<and>
     refs tk_userId (db_tokens s) (db_users s) \<and> refs_opt pc_createdById (db_promos s) pk (db_admins s) \<and>
     refs_opt a_createdById (db_admins s) pk (db_admins s)"

definition references :: "seed_db \<Rightarrow> bool" where
  "references s \<longleftrightarrow> catalogue_refs s \<and> exam_refs s \<and> student_refs s \<and> account_refs s"

lemmas reference_defs = references_def catalogue_refs_def exam_refs_def student_refs_def account_refs_def

subsection \<open>Deleting\<close>

lemma without_set [simp]: "set (without key gone t) = {r \<in> set t. key r \<notin> gone}"
  by (simp add: without_def)

lemma refs_without:
  "refs f t parents \<Longrightarrow> refs f (without key gone t) parents"
  "refs_opt g t pkey ps \<Longrightarrow> refs_opt g (without key gone t) pkey ps"
  by (auto simp: refs_def refs_opt_def)

lemma refs_parents:
  "refs f t parents \<Longrightarrow> \<forall>r \<in> set t. f r \<notin> gone \<Longrightarrow> refs f t (without pk gone parents)"
  by (force simp: refs_def)

lemma refs_cascade: "refs f t parents \<Longrightarrow> refs f (without f gone t) (without pk gone parents)"
  by (rule refs_parents) (simp_all add: refs_without)

lemma refs_cascade_more:
  "refs f t parents \<Longrightarrow> \<forall>r \<in> set t. f r \<in> gone \<longrightarrow> key r \<in> dropped \<Longrightarrow> refs f (without key dropped t) (without pk gone parents)"
  by (rule refs_parents) (auto simp: refs_without)

lemma refs_opt_filter:
  "refs_opt f t pk parents \<Longrightarrow>
   refs_opt f (filter (\<lambda>r. case f r of None \<Rightarrow> True | Some k \<Rightarrow> k \<notin> gone) t) pk (without pk gone parents)"
  unfolding refs_opt_def by (force split: option.splits)

lemma refs_opt_filtered: "refs_opt f t key parents \<Longrightarrow> refs_opt f (filter P t) key parents"
  by (auto simp: refs_opt_def)

lemma drop_attempts_refs: "references s \<Longrightarrow> references (drop_attempts gone s)"
  by (simp add: reference_defs drop_attempts_def refs_without refs_cascade)

lemma drop_lessons_refs: "references s \<Longrightarrow> references (drop_lessons gone s)"
  by (simp add: reference_defs drop_lessons_def refs_without refs_cascade)

lemma drop_modules_refs: "references s \<Longrightarrow> references (drop_modules gone s)"
proof -
  assume r: "references s"
  let ?ls = "pk ` set (filter (\<lambda>l. l_moduleId l \<in> gone) (db_lessons s))"
  have "references (drop_lessons ?ls s)" by (rule drop_lessons_refs [OF r])
  moreover have "refs l_moduleId (without pk ?ls (db_lessons s)) (without pk gone (db_modules s))"
    using r by (intro refs_cascade_more) (auto simp: reference_defs)
  ultimately show ?thesis
    by (simp add: drop_modules_def reference_defs drop_lessons_def refs_without)
qed

lemma drop_exams_refs: "references s \<Longrightarrow> references (drop_exams gone s)"
proof -
  assume r: "references s"
  let ?qs = "pk ` set (filter (\<lambda>q. q_examId q \<in> gone) (db_questions s))"
  let ?as = "pk ` set (filter (\<lambda>a. at_examId a \<in> gone) (db_attempts s))"
  have "references (drop_attempts ?as s)" by (rule drop_attempts_refs [OF r])
  moreover have "refs at_examId (without pk ?as (db_attempts s)) (without pk gone (db_exams s))"
    using r by (intro refs_cascade_more) (auto simp: reference_defs)
  moreover have "refs o_questionId (without o_questionId ?qs (db_options s)) (without q_examId gone (db_questions s))"
    using r by (fastforce simp: reference_defs refs_def)
  ultimately show ?thesis using r
    by (simp add: drop_exams_def Let_def reference_defs drop_attempts_def refs_without refs_cascade)
qed

lemma delete_users_refs: "references s \<Longrightarrow> references (delete_users ids s)"
proof -
  assume r: "references s"
  let ?as = "pk ` set (filter (\<lambda>a. at_userId a \<in> set ids) (db_attempts s))"
  have "references (drop_attempts ?as s)" by (rule drop_attempts_refs [OF r])
  moreover have "refs at_userId (without pk ?as (db_attempts s)) (without pk (set ids) (db_users s))"
    using r by (intro refs_cascade_more) (auto simp: reference_defs)
  ultimately show ?thesis using r
    by (simp add: delete_users_def Let_def reference_defs drop_attempts_def refs_without refs_cascade refs_opt_filter refs_opt_filtered)
qed

lemma delete_certificates_refs: "references s \<Longrightarrow> references (delete_certificates ids s)"
proof -
  assume r: "references s"
  let ?ms = "pk ` set (filter (\<lambda>m. m_certId m \<in> set ids) (db_modules s))"
  let ?es = "pk ` set (filter (\<lambda>e. e_certId e \<in> set ids) (db_exams s))"
  let ?as = "pk ` set (filter (\<lambda>a. at_certId a \<in> set ids) (db_attempts s))"
  let ?s1 = "drop_attempts ?as (drop_exams ?es (drop_modules ?ms s))"
  have 1: "references ?s1" by (intro drop_attempts_refs drop_exams_refs drop_modules_refs r)
  have frame: "db_certs ?s1 = db_certs s" "db_modules ?s1 = without pk ?ms (db_modules s)"
    "db_exams ?s1 = without pk ?es (db_exams s)" "set (db_attempts ?s1) \<subseteq> {a \<in> set (db_attempts s). pk a \<notin> ?as}"
    by (auto simp: drop_attempts_def drop_exams_def drop_modules_def drop_lessons_def Let_def)
  have "refs m_certId (db_modules ?s1) (without pk (set ids) (db_certs ?s1))"
    unfolding frame using r by (intro refs_cascade_more) (auto simp: reference_defs)
  moreover have "refs e_certId (db_exams ?s1) (without pk (set ids) (db_certs ?s1))"
    unfolding frame using r by (intro refs_cascade_more) (auto simp: reference_defs)
  moreover have "refs at_certId (db_attempts ?s1) (without pk (set ids) (db_certs ?s1))"
    using 1 frame(4) by (intro refs_parents) (auto simp: reference_defs)
  ultimately show ?thesis using 1
    by (simp add: delete_certificates_def Let_def reference_defs refs_without refs_cascade)
qed

lemma set_null_Some: "set_null gone v = Some k \<longleftrightarrow> v = Some k \<and> k \<notin> gone"
  by (cases v) (auto simp: set_null_def)

lemma refs_opt_set_null:
  "refs_opt f t key parents \<Longrightarrow> (\<And>r. f (g r) = set_null gone (f r)) \<Longrightarrow> refs_opt f (map g t) key (without key gone parents)"
  unfolding refs_opt_def by (fastforce simp: set_null_Some)

lemma refs_map: "refs f t parents \<Longrightarrow> (\<And>r. f (g r) = f r) \<Longrightarrow> refs f (map g t) parents"
  by (simp add: refs_def)

lemma delete_promos_refs: "references s \<Longrightarrow> references (delete_promos ids s)"
  by (simp add: delete_promos_def reference_defs refs_without refs_map refs_opt_set_null)

lemma trigger_deletes_rows: "trigger_deletes P rows = Inr rows' \<Longrightarrow> rows' = filter (\<lambda>r. \<not> P r) rows"
  by (induction rows arbitrary: rows') (auto split: sum.splits if_splits)

lemma trigger_rows_rows: "trigger_rows P f rows = Inr rows' \<Longrightarrow> rows' = update_rows P f rows"
  by (induction rows arbitrary: rows')
    (auto simp: update_rows_def protect_super_admin_role_def split: sum.splits if_splits)

lemma delete_admin_users_cases:
  "delete_admin_users ids s = (r, s') \<Longrightarrow> s' = s \<and> (\<exists>e. r = Inl e) \<or> r = Inr () \<and>
     s' = s\<lparr>db_admins := update_rows (created_by (set ids)) (\<lambda>a. a\<lparr>a_createdById := None\<rparr>) (without pk (set ids) (db_admins s)),
       db_refresh := filter (\<lambda>r. case rt_adminId r of None \<Rightarrow> True | Some a \<Rightarrow> a \<notin> set ids) (db_refresh s),
       db_promos := map (\<lambda>p. p\<lparr>pc_createdById := set_null (set ids) (pc_createdById p)\<rparr>) (db_promos s)\<rparr>"
  by (auto simp: delete_admin_users_def delete_admins_def update_admins_def Let_def without_def
      dest!: trigger_deletes_rows trigger_rows_rows split: sum.splits prod.splits)

lemma created_by_null: "update_rows (created_by gone) (\<lambda>a. a\<lparr>a_createdById := None\<rparr>) t =
    map (\<lambda>a. a\<lparr>a_createdById := set_null gone (a_createdById a)\<rparr>) t"
  by (auto simp: update_rows_def created_by_def set_null_def split: option.splits)

lemma refs_opt_map: "refs_opt f t key parents \<Longrightarrow> (\<And>r. key (g r) = key r) \<Longrightarrow> refs_opt f t key (map g parents)"
  by (simp add: refs_opt_def image_image)

lemma refs_opt_map_rows: "refs_opt f t key parents \<Longrightarrow> (\<And>r. f (g r) = f r) \<Longrightarrow> refs_opt f (map g t) key parents"
  by (simp add: refs_opt_def)

lemma delete_admin_users_refs: "references s \<Longrightarrow> references (snd (delete_admin_users ids s))"
proof -
  assume r: "references s"
  let ?g = "\<lambda>a. a\<lparr>a_createdById := set_null (set ids) (a_createdById a)\<rparr>"
  let ?kept = "without pk (set ids) (db_admins s)"
  have "refs_opt a_createdById (map ?g ?kept) pk (map ?g ?kept)"
    using r by (intro refs_opt_map refs_opt_set_null refs_without) (simp_all add: reference_defs)
  moreover have "refs_opt rt_adminId (filter (\<lambda>r. case rt_adminId r of None \<Rightarrow> True | Some a \<Rightarrow> a \<notin> set ids) (db_refresh s))
      pk (map ?g ?kept)"
    using r by (intro refs_opt_map refs_opt_filter) (simp_all add: reference_defs)
  moreover have "refs_opt pc_createdById (map (\<lambda>p. p\<lparr>pc_createdById := set_null (set ids) (pc_createdById p)\<rparr>) (db_promos s))
      pk (map ?g ?kept)"
    using r by (intro refs_opt_map refs_opt_set_null) (simp_all add: reference_defs)
  ultimately show ?thesis
    using r delete_admin_users_cases [of ids s "fst (delete_admin_users ids s)" "snd (delete_admin_users ids s)"]
    by (auto simp: reference_defs created_by_null refs_opt_filtered refs_opt_map)
qed

definition keeps_refs :: "'a seeding \<Rightarrow> bool" where
  "keeps_refs m \<longleftrightarrow> (\<forall>s. references s \<longrightarrow> references (snd (m s)))"

lemma keeps_refsD: "keeps_refs m \<Longrightarrow> references s \<Longrightarrow> references (snd (m s))"
  by (simp add: keeps_refs_def)

lemma keeps_return [simp]: "keeps_refs (return_op x)"
  by (simp add: keeps_refs_def)

lemma keeps_bind: "keeps_refs m \<Longrightarrow> (\<And>x. keeps_refs (f x)) \<Longrightarrow> keeps_refs (bind_op m f)"
  unfolding keeps_refs_def bind_op_def by (force split: prod.splits sum.splits)

lemma keeps_each: "(\<And>x. keeps_refs (f x)) \<Longrightarrow> keeps_refs (each f xs)"
  by (induction xs) (simp_all add: keeps_bind)

lemma keeps_cleanup: "keeps_refs cleanup"
proof -
  have "keeps_refs (\<lambda>s. (Inr (), delete_promos ids s))" for ids
    by (simp add: keeps_refs_def delete_promos_refs)
  then have "keeps_refs (bind_op (delete_admin_users a) (\<lambda>_ s2. (Inr (), delete_promos p s2)))" for a p
    by (intro keeps_bind) (simp_all add: keeps_refs_def delete_admin_users_refs)
  from keeps_refsD [OF this] show ?thesis
    unfolding keeps_refs_def cleanup_def Let_def by (simp add: delete_certificates_refs delete_users_refs)
qed

subsection \<open>Inserting\<close>

lemma save_row_refs:
  assumes "save_row clash P merge r t = Inr t'" and "refs f t ps" and "P \<Longrightarrow> f r \<in> pk ` set ps" and "\<And>x. f (merge x r) = f r"
  shows "refs f t' ps"
  using assms by (auto simp: save_row_def refs_def set_update_rows split: if_splits)

lemma save_row_refs_opt:
  assumes "save_row clash P merge r t = Inr t'" and "refs_opt f t key ps" and "f r = None" and "\<And>x. f (merge x r) = f x"
  shows "refs_opt f t' key ps"
proof -
  have "t' = update_rows (\<lambda>x. pk x = pk r) (\<lambda>x. merge x r) t \<or> t' = t @ [r]"
    using assms(1) by (simp add: save_row_def split: if_splits)
  then show ?thesis using assms(2-4) by (auto simp: refs_opt_def update_rows_def)
qed

lemma keys_update_rows: "(\<And>x. P x \<Longrightarrow> key (f x) = key x) \<Longrightarrow> key ` set (update_rows P f t) = key ` set t"
  unfolding set_update_rows image_image by (rule image_cong) simp_all

lemma save_row_keys:
  assumes "save_row clash P merge r t = Inr t'" and "\<And>x. pk (merge x r) = pk r"
  shows "pk ` set t \<subseteq> pk ` set t'"
proof (cases "pk r \<in> pk ` set t")
  case True
  then have "t' = update_rows (\<lambda>x. pk x = pk r) (\<lambda>x. merge x r) t" using assms(1) by (auto simp: save_row_def split: if_splits)
  then show ?thesis using keys_update_rows [of "\<lambda>x. pk x = pk r" pk "\<lambda>x. merge x r" t] assms(2) by simp
qed (use assms(1) in \<open>auto simp: save_row_def split: if_splits\<close>)

lemma sql_insert_ok: "sql_insert p c q r t = Inr t' \<longleftrightarrow> p \<and> \<not> c \<and> q \<and> pk r \<notin> pk ` set t \<and> t' = t @ [r]"
  by (auto simp: sql_insert_def insert_row_def split: if_splits sum.splits)

lemma refs_grow: "refs f t ps \<Longrightarrow> pk ` set ps \<subseteq> pk ` set ps' \<Longrightarrow> refs f t ps'"
  by (auto simp: refs_def)

lemma refs_opt_grow: "refs_opt f t key ps \<Longrightarrow> key ` set ps \<subseteq> key ` set ps' \<Longrightarrow> refs_opt f t key ps'"
  unfolding refs_opt_def by blast

lemma refs_append: "refs f (t @ [r]) ps \<longleftrightarrow> refs f t ps \<and> f r \<in> pk ` set ps"
  by (auto simp: refs_def)

lemma refs_opt_append: "refs_opt f (t @ [r]) key ps \<longleftrightarrow> refs_opt f t key ps \<and> (\<forall>k. f r = Some k \<longrightarrow> k \<in> key ` set ps)"
  by (auto simp: refs_opt_def)

lemma keeps_store:
  assumes "\<And>s t. references s \<Longrightarrow> rows s = Inr t \<Longrightarrow> references (put t s)"
  shows "keeps_refs (\<lambda>s. store put (rows s) s)"
  using assms by (auto simp: keeps_refs_def store_def split: sum.split)

lemma keeping_simps [simp]: "pk (keeping x r) = pk r"
  by (simp add: keeping_def)

lemma keeps_save_user: "keeps_refs (save_user u)"
  unfolding save_user_def
proof (rule keeps_store)
  fix s t
  assume r: "references s" and t: "save_row (\<exists>x\<in>set (db_users s). pk x \<noteq> pk u \<and> u_email x = u_email u) True keeping u (db_users s) = Inr t"
  have k: "pk ` set (db_users s) \<subseteq> pk ` set t" using save_row_keys [OF t] by simp
  from r show "references (s\<lparr>db_users := t\<rparr>)" by (simp add: reference_defs refs_grow [OF _ k] refs_opt_grow [OF _ k])
qed

lemma keeps_save_admin: "a_createdById a = None \<Longrightarrow> keeps_refs (save_admin a)"
  unfolding save_admin_def
proof (rule keeps_store)
  fix s t
  let ?m = "\<lambda>x r. (keeping x r)\<lparr>a_locale := a_locale x, a_createdById := a_createdById x\<rparr>"
  assume n: "a_createdById a = None" and r: "references s"
    and t: "save_row (\<exists>x\<in>set (db_admins s). pk x \<noteq> pk a \<and> a_email x = a_email a) True ?m a (db_admins s) = Inr t"
  have k: "pk ` set (db_admins s) \<subseteq> pk ` set t" using save_row_keys [OF t] by simp
  have "refs_opt a_createdById (db_admins s) pk (db_admins s)" using r by (simp add: reference_defs)
  from save_row_refs_opt [OF t this n] have "refs_opt a_createdById t pk (db_admins s)" by simp
  from refs_opt_grow [OF this k] r show "references (s\<lparr>db_admins := t\<rparr>)" by (simp add: reference_defs refs_opt_grow [OF _ k])
qed

lemma keeps_save_certificate: "keeps_refs (save_certificate c)"
  unfolding save_certificate_def
proof (rule keeps_store)
  fix s t
  assume r: "references s" and t: "save_row False True (\<lambda>x r. (keeping x r)\<lparr>c_thumbnailUrl := c_thumbnailUrl x,
      c_badgeImageUrl := c_badgeImageUrl x, c_syllabusUrl := c_syllabusUrl x\<rparr>) c (db_certs s) = Inr t"
  have k: "pk ` set (db_certs s) \<subseteq> pk ` set t" using save_row_keys [OF t] by simp
  from r show "references (s\<lparr>db_certs := t\<rparr>)" by (simp add: reference_defs refs_grow [OF _ k])
qed

lemma keeps_save_module: "keeps_refs (save_module m)"
  unfolding save_module_def
proof (rule keeps_store)
  fix s t
  assume r: "references s" and t: "save_row False (m_certId m \<in> pk ` set (db_certs s)) keeping m (db_modules s) = Inr t"
  have k: "pk ` set (db_modules s) \<subseteq> pk ` set t" using save_row_keys [OF t] by simp
  have "refs m_certId t (db_certs s)"
    using r by (intro save_row_refs [OF t]) (simp_all add: reference_defs keeping_def)
  then show "references (s\<lparr>db_modules := t\<rparr>)" using r by (simp add: reference_defs refs_grow [OF _ k])
qed

lemma keeps_save_lesson: "keeps_refs (save_lesson l)"
  unfolding save_lesson_def
proof (rule keeps_store)
  fix s t
  assume r: "references s" and t: "save_row False (l_moduleId l \<in> pk ` set (db_modules s)) keeping l (db_lessons s) = Inr t"
  have k: "pk ` set (db_lessons s) \<subseteq> pk ` set t" using save_row_keys [OF t] by simp
  have "refs l_moduleId t (db_modules s)"
    using r by (intro save_row_refs [OF t]) (simp_all add: reference_defs keeping_def)
  then show "references (s\<lparr>db_lessons := t\<rparr>)" using r by (simp add: reference_defs refs_grow [OF _ k])
qed

lemma keeps_save_exam: "keeps_refs (save_exam e)"
proof -
  let ?clash = "\<lambda>s. \<exists>x\<in>set (db_exams s). pk x \<noteq> pk e \<and> e_certId x = e_certId e \<and> e_examOrder x = e_examOrder e"
  let ?m = "\<lambda>x r. (keeping x r)\<lparr>e_createdById := e_createdById x\<rparr>"
  have "keeps_refs (\<lambda>s. store (\<lambda>t s. s\<lparr>db_exams := t\<rparr>) (save_row (?clash s) (e_certId e \<in> pk ` set (db_certs s)) ?m e (db_exams s)) s)"
  proof (rule keeps_store)
    fix s t
    assume r: "references s" and t: "save_row (?clash s) (e_certId e \<in> pk ` set (db_certs s)) ?m e (db_exams s) = Inr t"
    have k: "pk ` set (db_exams s) \<subseteq> pk ` set t" using save_row_keys [OF t] by simp
    have "refs e_certId t (db_certs s)"
      using r by (intro save_row_refs [OF t]) (simp_all add: reference_defs keeping_def)
    then show "references (s\<lparr>db_exams := t\<rparr>)" using r by (simp add: reference_defs refs_grow [OF _ k])
  qed
  then show ?thesis by (simp add: keeps_refs_def save_exam_def)
qed

lemma keeps_save_question: "keeps_refs (save_question q)"
  unfolding save_question_def
proof (rule keeps_store)
  fix s t
  assume r: "references s" and t: "save_row False (q_examId q \<in> pk ` set (db_exams s)) keeping q (db_questions s) = Inr t"
  have k: "pk ` set (db_questions s) \<subseteq> pk ` set t" using save_row_keys [OF t] by simp
  have "refs q_examId t (db_exams s)"
    using r by (intro save_row_refs [OF t]) (simp_all add: reference_defs keeping_def)
  then show "references (s\<lparr>db_questions := t\<rparr>)" using r by (simp add: reference_defs refs_grow [OF _ k])
qed

lemma keeps_save_option: "keeps_refs (save_option x)"
  unfolding save_option_def
proof (rule keeps_store)
  fix s t
  assume r: "references s" and t: "save_row False (o_questionId x \<in> pk ` set (db_questions s)) keeping x (db_options s) = Inr t"
  have "refs o_questionId t (db_questions s)"
    using r by (intro save_row_refs [OF t]) (simp_all add: reference_defs keeping_def)
  then show "references (s\<lparr>db_options := t\<rparr>)" using r by (simp add: reference_defs)
qed

lemma keeps_save_code: "keeps_refs (save_code c)"
  unfolding save_code_def
proof (rule keeps_store)
  fix s t
  assume r: "references s" and t: "save_row False (ac_userId c \<in> pk ` set (db_users s) \<and> ac_examId c \<in> pk ` set (db_exams s) \<and>
      ac_certId c \<in> pk ` set (db_certs s)) keeping c (db_codes s) = Inr t"
  have "refs ac_userId t (db_users s)" "refs ac_examId t (db_exams s)" "refs ac_certId t (db_certs s)"
    using r by (intro save_row_refs [OF t]; simp add: reference_defs keeping_def)+
  then show "references (s\<lparr>db_codes := t\<rparr>)" using r by (simp add: reference_defs)
qed

lemma keeps_insert_purchase: "keeps_refs (insert_purchase guc p)"
  unfolding insert_purchase_def
  by (rule keeps_store) (simp add: reference_defs sql_insert_ok refs_append)

lemma keeps_insert_progress: "keeps_refs (insert_seed_progress p)"
  unfolding insert_seed_progress_def
  by (rule keeps_store) (simp add: reference_defs sql_insert_ok refs_append)

lemma promo_keys: "pc_id ` set (update_promo_usage_count t i codes) = pc_id ` set codes"
  unfolding update_promo_usage_count_def by (cases i) (simp_all add: keys_update_rows)

lemma promo_creators: "refs_opt pc_createdById codes key ps \<Longrightarrow> refs_opt pc_createdById (update_promo_usage_count t i codes) key ps"
  unfolding update_promo_usage_count_def refs_opt_def by (cases i) (auto simp: set_update_rows)

lemma keeps_insert_transaction: "keeps_refs (insert_transaction t guc x)"
  unfolding insert_transaction_def
proof (rule keeps_store)
  fix s rows
  assume r: "references s" and "sql_insert (transactions_isolation guc x)
       (\<exists>y\<in>set (db_transactions s). tx_stripeSessionId y = tx_stripeSessionId x)
       (tx_userId x \<in> pk ` set (db_users s) \<and> tx_certId x \<in> pk ` set (db_certs s) \<and>
        (case tx_promoCodeId x of None \<Rightarrow> True | Some p \<Rightarrow> p \<in> pc_id ` set (db_promos s))) x (db_transactions s) = Inr rows"
  then have rows: "rows = db_transactions s @ [x]" "tx_userId x \<in> pk ` set (db_users s)" "tx_certId x \<in> pk ` set (db_certs s)"
    and p: "\<forall>k. tx_promoCodeId x = Some k \<longrightarrow> k \<in> pc_id ` set (db_promos s)"
    by (simp_all add: sql_insert_ok split: option.splits)
  have "refs_opt tx_promoCodeId (db_transactions s) pc_id (db_promos s)" using r by (simp add: reference_defs)
  then have "refs_opt tx_promoCodeId rows pc_id (update_promo_usage_count t (tx_promoCodeId x) (db_promos s))"
    using p by (simp add: rows(1) refs_opt_append) (simp add: refs_opt_def promo_keys)
  then show "references (s\<lparr>db_transactions := rows,
      db_promos := update_promo_usage_count t (tx_promoCodeId x) (db_promos s)\<rparr>)"
    using r rows(2,3) by (simp add: reference_defs promo_creators) (simp add: rows(1) refs_append)
qed

lemma keeps_insert_attempt: "keeps_refs (insert_attempt guc a)"
proof -
  have "keeps_refs (\<lambda>s. store (\<lambda>t s. s\<lparr>db_attempts := t\<rparr>)
        (sql_insert (exam_attempts_isolation guc a) False
          (at_userId a \<in> pk ` set (db_users s) \<and> at_examId a \<in> pk ` set (db_exams s) \<and> at_certId a \<in> pk ` set (db_certs s))
          a (db_attempts s)) s)"
  proof (rule keeps_store)
    fix s t
    assume r: "references s" and t: "sql_insert (exam_attempts_isolation guc a) False
          (at_userId a \<in> pk ` set (db_users s) \<and> at_examId a \<in> pk ` set (db_exams s) \<and> at_certId a \<in> pk ` set (db_certs s))
          a (db_attempts s) = Inr t"
    then have k: "pk ` set (db_attempts s) \<subseteq> pk ` set t" by (auto simp: sql_insert_ok)
    from t have "refs at_userId t (db_users s) \<and> refs at_examId t (db_exams s) \<and> refs at_certId t (db_certs s)"
      using r by (simp add: reference_defs sql_insert_ok refs_append)
    with r show "references (s\<lparr>db_attempts := t\<rparr>)" by (simp add: reference_defs refs_grow [OF _ k])
  qed
  then show ?thesis by (simp add: keeps_refs_def insert_attempt_def)
qed

lemma references_seqs [simp]: "references (s\<lparr>db_seqs := q\<rparr>) = references s"
  by (simp add: reference_defs)

lemma keeps_insert_issued: "keeps_refs (insert_issued year guc r)"
proof -
  have "keeps_refs (\<lambda>s. store (\<lambda>t s. s\<lparr>db_issued := t\<rparr>)
             (sql_insert (issued_certificates_isolation guc r) (n \<noteq> None \<and> (\<exists>x \<in> set (db_issued s). iss_certId x = n))
               (iss_userId r \<in> pk ` set (db_users s) \<and> iss_certificateId r \<in> pk ` set (db_certs s) \<and>
                iss_examAttemptId r \<in> pk ` set (db_attempts s)) (r\<lparr>iss_certId := n\<rparr>) (db_issued s)) s)" for n
    by (rule keeps_store) (simp add: reference_defs sql_insert_ok refs_append)
  from keeps_refsD [OF this, of "s\<lparr>db_seqs := q\<rparr>" for s q] show ?thesis
    by (auto simp: keeps_refs_def insert_issued_def Let_def split: prod.split sum.split)
qed

lemma keeps_asUser:
  assumes "\<And>guc. keeps_refs (body guc)"
  shows "keeps_refs (asUser u body)"
  unfolding keeps_refs_def
proof (intro allI impI)
  fix s assume r: "references s"
  obtain x s' where b: "body (Some u) s = (x, s')" by (cases "body (Some u) s")
  have "references s'" using keeps_refsD [OF assms r, of "Some u"] by (simp add: b)
  then show "references (snd (asUser u body s))" using r by (cases x) (simp_all add: asUser_def b)
qed

subsection \<open>The sections and the script\<close>

lemma keeps_seedAdmins: "keeps_refs (seedAdmins t h)"
  unfolding seedAdmins_def by (intro keeps_each keeps_save_admin) (simp add: admin_row_def split: prod.split)

lemma keeps_seedStudents: "keeps_refs (seedStudents t h)"
  unfolding seedStudents_def by (intro keeps_each keeps_save_user)

lemma keeps_seed_lessons: "keeps_refs (seed_lessons t ms li titles ls)"
  by (induction titles arbitrary: li ls) (simp_all add: keeps_bind keeps_save_lesson)

lemma keeps_seed_modules: "keeps_refs (seed_modules t c mi mods seqs)"
proof (induction mods arbitrary: mi seqs)
  case (Cons md mods)
  then show ?case by (cases md; cases seqs) (simp add: keeps_bind keeps_save_module keeps_seed_lessons)
qed simp

lemma keeps_seedCatalog: "keeps_refs (seedCatalog t)"
proof -
  have "keeps_refs (seed_certs t specs seqs)" for specs seqs
    by (induction specs arbitrary: seqs) (simp_all add: keeps_bind keeps_save_certificate keeps_seed_modules)
  then show ?thesis by (simp add: seedCatalog_def keeps_bind)
qed

lemma keeps_seed_options: "keeps_refs (seed_options t qs tf ci ois acc)"
proof (induction ois arbitrary: acc)
  case (Cons oi ois)
  then show ?case by (cases acc) (simp add: keeps_bind keeps_save_option Let_def)
qed simp

lemma keeps_seed_questions: "keeps_refs (seed_questions t spec order e qi ms acc)"
proof (induction ms arbitrary: qi acc)
  case (Cons m ms)
  obtain q k es where acc: "acc = (q, k, es)" by (cases acc)
  show ?case unfolding acc seed_questions.simps Let_def
    by (intro keeps_bind keeps_save_question) (auto intro!: keeps_bind keeps_seed_options Cons.IH split: prod.split)
qed simp

lemma keeps_seed_orders: "keeps_refs (seed_orders t spec ns acc)"
proof (induction ns arbitrary: acc)
  case (Cons n ns)
  obtain e q k es where acc: "acc = (e, q, k, es)" by (cases acc)
  show ?case unfolding acc seed_orders.simps
    by (intro keeps_bind keeps_save_exam) (auto intro!: keeps_bind keeps_seed_questions Cons.IH split: prod.split)
qed simp

lemma keeps_seedExams: "keeps_refs (seedExams t)"
proof -
  have "keeps_refs (seed_exam_specs t specs acc)" for specs acc
    by (induction specs arbitrary: acc) (simp_all add: keeps_bind keeps_seed_orders)
  then show ?thesis by (auto simp: seedExams_def intro!: keeps_bind split: prod.split)
qed

lemma keeps_seedPromoCodes: "keeps_refs (seedPromoCodes t)"
proof -
  have "references (s\<lparr>db_promos := db_promos s @ demo_promos t\<rparr>)"
    if r: "references s" and a: "demoId BAdmin 3 \<in> pk ` set (db_admins s)" for s
  proof -
    have "refs_opt pc_createdById (demo_promos t) pk (db_admins s)"
      using a by (simp add: refs_opt_def demo_promos_def demo_promo_def)
    then have "refs_opt pc_createdById (db_promos s @ demo_promos t) pk (db_admins s)"
      using r by (auto simp: reference_defs refs_opt_def)
    moreover have "refs_opt tx_promoCodeId (db_transactions s) pc_id (db_promos s)" using r by (simp add: reference_defs)
    then have "refs_opt tx_promoCodeId (db_transactions s) pc_id (db_promos s @ demo_promos t)"
      by (rule refs_opt_grow) auto
    ultimately show ?thesis using r by (simp add: reference_defs)
  qed
  then show ?thesis by (simp add: keeps_refs_def seedPromoCodes_def)
qed

text \<open>A story keeps the references of its database.\<close>

definition keeps_story :: "'a story \<Rightarrow> bool" where
  "keeps_story m \<longleftrightarrow> (\<forall>s. references (st_db s) \<longrightarrow> references (st_db (snd (m s))))"

lemma story_bind: "keeps_story m \<Longrightarrow> (\<And>x. keeps_story (f x)) \<Longrightarrow> keeps_story (bind_op m f)"
  unfolding keeps_story_def bind_op_def by (force split: prod.splits sum.splits)

lemma story_on_db: "keeps_refs m \<Longrightarrow> keeps_story (on_db m)"
  unfolding keeps_story_def keeps_refs_def on_db_def by (force split: prod.splits)

lemma story_on_db_at: "keeps_refs m \<Longrightarrow> references (st_db s) \<Longrightarrow> references (st_db (snd (on_db m s)))"
  using story_on_db [of m] by (simp add: keeps_story_def)

lemma story_purchase: "keeps_story (demo_purchase E uN cN p)"
  unfolding keeps_story_def demo_purchase_def Let_def
  by (intro allI impI story_on_db_at keeps_asUser keeps_bind keeps_insert_purchase keeps_insert_transaction) simp

lemma story_lessons: "keeps_story (completeLessons E uN cN n)"
  unfolding keeps_story_def completeLessons_def Let_def
  by (intro allI impI story_on_db_at keeps_each keeps_insert_progress)

lemma story_attempt: "keeps_story (demo_attempt E uN exams i cm d)"
proof -
  have "keeps_story (bind_op (on_db (asUser u (\<lambda>guc. insert_attempt guc a))) (\<lambda>_. return_op x))" for u a and x :: uuid
    by (intro story_bind story_on_db keeps_asUser keeps_insert_attempt) (simp add: keeps_story_def)
  then show ?thesis by (simp add: keeps_story_def demo_attempt_def Let_def)
qed

lemma story_issue: "keeps_story (demo_issue E n uN cN a d)"
  unfolding demo_issue_def by (intro story_on_db keeps_asUser keeps_insert_issued)

lemma story_throw: "keeps_story (throw_op e)"
  by (simp add: keeps_story_def)

lemma keeps_seedStories: "keeps_refs (seedStories E exams)"
proof -
  have "keeps_story (bind_op (story_sara E exams) (\<lambda>_. bind_op (story_omar E exams) (\<lambda>_. bind_op (story_lina E)
         (\<lambda>_. bind_op (story_yusuf E) (\<lambda>_. story_mona E exams)))))"
    unfolding story_sara_def story_omar_def story_lina_def story_yusuf_def story_mona_def
    by (auto intro!: story_bind story_purchase story_lessons story_attempt story_issue story_throw story_on_db keeps_save_code)
  then have "references (st_db (snd (bind_op (story_sara E exams) (\<lambda>_. bind_op (story_omar E exams) (\<lambda>_. bind_op (story_lina E)
         (\<lambda>_. bind_op (story_yusuf E) (\<lambda>_. story_mona E exams))))
         \<lparr>st_db = d, st_purchaseSeq = 0, st_txSeq = 0, st_attemptSeq = 0\<rparr>)))" if "references d" for d
    using that by (simp add: keeps_story_def)
  then show ?thesis by (simp add: keeps_refs_def seedStories_def prod.case_eq_if)
qed

lemma keeps_demo_main: "keeps_refs (demo_main nodeEnv E)"
proof -
  have "keeps_refs (bind_op cleanup (\<lambda>_. bind_op (seedAdmins t h) (\<lambda>_. bind_op (seedCatalog t) (\<lambda>_. bind_op (seedExams t)
      (\<lambda>exams. bind_op (seedStudents t h) (\<lambda>_. bind_op (seedPromoCodes t) (\<lambda>_. seedStories E exams)))))))" for t h
    by (intro keeps_bind keeps_cleanup keeps_seedAdmins keeps_seedCatalog keeps_seedExams keeps_seedStudents
        keeps_seedPromoCodes keeps_seedStories)
  then show ?thesis by (simp add: keeps_refs_def demo_main_def Let_def)
qed

end
