(* ===== verification/DemoRun.thy ===== *)
theory DemoRun
  imports DemoScores DemoReferences SchemaProperties "HOL-Library.Multiset"
begin

section \<open>A run of the demo seeder\<close>

text \<open>
  A database is vacant when it holds nothing under the names the seeder uses. On a vacant database every section
  succeeds and appends its rows, and the removal takes exactly these rows away again.
\<close>

subsection \<open>Vacant databases\<close>

definition demo_emails :: "string set" where
  "demo_emails = (\<lambda>(_, email, _). email) ` set demo_admins \<union> ds_email ` set demo_students"

definition accounts_vacant :: "seed_db \<Rightarrow> bool" where
  "accounts_vacant c \<longleftrightarrow> unused_from BAdmin 0 (db_admins c) \<and> unused_from BUser 0 (db_users c) \<and>
     (\<forall>x \<in> set (db_admins c). a_email x \<notin> demo_emails) \<and> (\<forall>x \<in> set (db_users c). u_email x \<notin> demo_emails) \<and>
     (\<forall>x \<in> set (db_promos c). pc_id x \<notin> range (demoId BPromo) \<and> pc_code x \<notin> {''SCRUM20'', ''LAUNCH100'', ''EXPIRED10''})"

definition catalogue_vacant :: "seed_db \<Rightarrow> bool" where
  "catalogue_vacant c \<longleftrightarrow> unused_from BCert 0 (db_certs c) \<and> unused_from BModule 0 (db_modules c) \<and>
     unused_from BLesson 0 (db_lessons c) \<and> unused_from BExam 0 (db_exams c) \<and> unused_from BQuestion 0 (db_questions c) \<and>
     unused_from BOption 0 (db_options c) \<and> distinct (map pk (db_modules c)) \<and> distinct (map pk (db_lessons c))"

definition rows_vacant :: "seed_env \<Rightarrow> seed_db \<Rightarrow> bool" where
  "rows_vacant E c \<longleftrightarrow> unused_from BPurchase 0 (db_purchases c) \<and> unused_from BTransaction 0 (db_transactions c) \<and>
     (\<forall>x \<in> set (db_transactions c). \<forall>k. tx_stripeSessionId x \<noteq> ''cs_demo_'' @ nat_text k) \<and>
     unused_from BAttempt 0 (db_attempts c) \<and> unused_from BIssued 0 (db_issued c) \<and> unused_from BAccessCode 0 (db_codes c) \<and>
     (\<forall>u l. sd_uuid E u l \<notin> pk ` set (db_progress c))"

text \<open>Two different pairs get two different keys, which \<open>gen_random_uuid()\<close> makes as good as certain.\<close>

definition uuids_differ :: "seed_env \<Rightarrow> bool" where
  "uuids_differ E \<longleftrightarrow> (\<forall>u l u' l'. sd_uuid E u l = sd_uuid E u' l' \<longrightarrow> u = u' \<and> l = l')"

text \<open>The sequence of a program goes on with numbers that are not given.\<close>

definition numbers_free :: "seed_env \<Rightarrow> string \<Rightarrow> seed_db \<Rightarrow> bool" where
  "numbers_free E code c \<longleftrightarrow> (case db_seqs c (''cert_seq_'' @ toLowerCase code) of None \<Rightarrow> False
     | Some n \<Rightarrow> \<forall>k \<ge> n. k < 10 ^ 6 \<longrightarrow> (\<forall>x \<in> set (db_issued c). iss_certId x \<noteq> Some (cert_number code (sd_year E) k)))"

definition number_at :: "string \<Rightarrow> seed_db \<Rightarrow> nat" where
  "number_at code c = (case db_seqs c (''cert_seq_'' @ toLowerCase code) of None \<Rightarrow> 0 | Some n \<Rightarrow> n)"

definition vacant :: "seed_env \<Rightarrow> seed_db \<Rightarrow> bool" where
  "vacant E c \<longleftrightarrow> accounts_vacant c \<and> catalogue_vacant c \<and> rows_vacant E c \<and> uuids_differ E \<and> length (sd_year E) = 4 \<and>
     numbers_free E ''PSM'' c \<and> numbers_free E ''PAL'' c \<and> number_at ''PSM'' c < 10 ^ 6 \<and> number_at ''PAL'' c < 10 ^ 6"

subsection \<open>The accounts\<close>

lemma each_map: "each (\<lambda>x. f (g x)) xs = each f (map g xs)"
  by (induction xs) simp_all

lemma each_save_admin:
  "distinct (map pk rows) \<Longrightarrow> distinct (map a_email rows) \<Longrightarrow> pk ` set rows \<inter> pk ` set (db_admins s) = {} \<Longrightarrow>
   a_email ` set rows \<inter> a_email ` set (db_admins s) = {} \<Longrightarrow>
   each save_admin rows s = (Inr (), s\<lparr>db_admins := db_admins s @ rows\<rparr>)"
proof (induction rows arbitrary: s)
  case (Cons r rows)
  let ?s = "s\<lparr>db_admins := db_admins s @ [r]\<rparr>"
  have "\<not> (\<exists>x \<in> set (db_admins s). pk x \<noteq> pk r \<and> a_email x = a_email r)" using Cons.prems(4) by (auto simp: image_iff)
  then have "save_admin r s = (Inr (), ?s)"
    using Cons.prems(3) by (simp add: save_admin_def save_row_def store_def)
  moreover have "each save_admin rows ?s = (Inr (), ?s\<lparr>db_admins := db_admins ?s @ rows\<rparr>)"
    using Cons.prems by (intro Cons.IH) (simp_all add: image_Un)
  ultimately show ?case by simp
qed simp

lemma each_save_user:
  "distinct (map pk rows) \<Longrightarrow> distinct (map u_email rows) \<Longrightarrow> pk ` set rows \<inter> pk ` set (db_users s) = {} \<Longrightarrow>
   u_email ` set rows \<inter> u_email ` set (db_users s) = {} \<Longrightarrow>
   each save_user rows s = (Inr (), s\<lparr>db_users := db_users s @ rows\<rparr>)"
proof (induction rows arbitrary: s)
  case (Cons r rows)
  let ?s = "s\<lparr>db_users := db_users s @ [r]\<rparr>"
  have "\<not> (\<exists>x \<in> set (db_users s). pk x \<noteq> pk r \<and> u_email x = u_email r)" using Cons.prems(4) by (auto simp: image_iff)
  then have "save_user r s = (Inr (), ?s)"
    using Cons.prems(3) by (simp add: save_user_def save_row_def store_def)
  moreover have "each save_user rows ?s = (Inr (), ?s\<lparr>db_users := db_users ?s @ rows\<rparr>)"
    using Cons.prems by (intro Cons.IH) (simp_all add: image_Un)
  ultimately show ?case by simp
qed simp

definition admin_rows :: "instant \<Rightarrow> string \<Rightarrow> admin_user list" where
  "admin_rows t h = map (admin_row t h) demo_admins"

definition student_rows :: "instant \<Rightarrow> string \<Rightarrow> user list" where
  "student_rows t h = map (student_row t h) demo_students"

lemma admin_rows_keys: "map pk (admin_rows t h) = map (demoId BAdmin) [1, 2, 3, 4]"
  by (simp add: admin_rows_def demo_admins_def admin_row_def)

lemma admin_rows_emails: "map a_email (admin_rows t h) = map (\<lambda>(_, email, _). email) demo_admins"
  by (simp add: admin_rows_def demo_admins_def admin_row_def)

lemma student_rows_keys: "map pk (student_rows t h) = map (demoId BUser) [1, 2, 3, 4, 5, 6, 7, 8]"
  by (simp add: student_rows_def demo_students_def student_row_def)

lemma student_rows_emails: "map u_email (student_rows t h) = map ds_email demo_students"
  by (simp add: student_rows_def student_row_def)

lemma unused_block: "unused_from b n t \<Longrightarrow> \<forall>k \<in> ks. n < k \<Longrightarrow> demoId b ` ks \<inter> pk ` set t = {}"
  using unused_fromD by fastforce

lemma no_common: "\<forall>x \<in> set t. f x \<notin> D \<Longrightarrow> A \<subseteq> D \<Longrightarrow> A \<inter> f ` set t = {}"
  by blast

lemma emails_of: "map f rows = es \<Longrightarrow> f ` set rows = set es"
  by (metis set_map)

lemma seedAdmins_run:
  assumes "unused_from BAdmin 0 (db_admins s)" "\<forall>x \<in> set (db_admins s). a_email x \<notin> demo_emails"
  shows "seedAdmins t h s = (Inr (), s\<lparr>db_admins := db_admins s @ admin_rows t h\<rparr>)"
  unfolding seedAdmins_def each_map admin_rows_def [symmetric]
proof (rule each_save_admin)
  show "distinct (map pk (admin_rows t h))" unfolding admin_rows_keys by simp
  show "distinct (map a_email (admin_rows t h))" unfolding admin_rows_emails by (simp add: demo_admins_def)
  show "pk ` set (admin_rows t h) \<inter> pk ` set (db_admins s) = {}"
    unfolding keys_of_block [OF admin_rows_keys] by (rule unused_block [OF assms(1)]) simp
  show "a_email ` set (admin_rows t h) \<inter> a_email ` set (db_admins s) = {}"
    unfolding emails_of [OF admin_rows_emails] by (rule no_common [OF assms(2)]) (simp add: demo_emails_def)
qed

lemma seedStudents_run:
  assumes "unused_from BUser 0 (db_users s)" "\<forall>x \<in> set (db_users s). u_email x \<notin> demo_emails"
  shows "seedStudents t h s = (Inr (), s\<lparr>db_users := db_users s @ student_rows t h\<rparr>)"
  unfolding seedStudents_def each_map student_rows_def [symmetric]
proof (rule each_save_user)
  show "distinct (map pk (student_rows t h))" unfolding student_rows_keys by simp
  show "distinct (map u_email (student_rows t h))" unfolding student_rows_emails by (simp add: demo_students_def)
  show "pk ` set (student_rows t h) \<inter> pk ` set (db_users s) = {}"
    unfolding keys_of_block [OF student_rows_keys] by (rule unused_block [OF assms(1)]) simp
  show "u_email ` set (student_rows t h) \<inter> u_email ` set (db_users s) = {}"
    unfolding emails_of [OF student_rows_emails] by (rule no_common [OF assms(2)]) (simp add: demo_emails_def)
qed

subsection \<open>The steps of a story\<close>

definition add_purchase :: "seed_env \<Rightarrow> nat \<Rightarrow> nat \<Rightarrow> nat \<Rightarrow> purchase_opts \<Rightarrow> seed_db \<Rightarrow> seed_db" where
  "add_purchase E n uN cN p d = d\<lparr>db_purchases := db_purchases d @ [purchase_row E n uN cN p],
     db_transactions := db_transactions d @ [transaction_row E n uN cN p],
     db_promos := update_promo_usage_count (sd_now E) (po_promoId p) (db_promos d)\<rparr>"

definition add_lessons :: "seed_env \<Rightarrow> nat \<Rightarrow> nat \<Rightarrow> nat \<Rightarrow> seed_db \<Rightarrow> seed_db" where
  "add_lessons E uN cN k d =
     d\<lparr>db_progress := db_progress d @ map (demo_progress_row E uN) (enumerate 0 (take k (lessons_of d (demoId BCert cN))))\<rparr>"

definition add_attempt :: "seed_env \<Rightarrow> nat \<Rightarrow> nat \<Rightarrow> seeded_exam \<Rightarrow> int list \<Rightarrow> int \<Rightarrow> seed_db \<Rightarrow> seed_db" where
  "add_attempt E n uN en marks w d = d\<lparr>db_attempts := db_attempts d @ [attempt_row E n uN en marks w]\<rparr>"

definition add_issued :: "seed_env \<Rightarrow> string \<Rightarrow> nat \<Rightarrow> nat \<Rightarrow> nat \<Rightarrow> uuid \<Rightarrow> int \<Rightarrow> seed_db \<Rightarrow> seed_db" where
  "add_issued E code n uN cN a w d = d\<lparr>
     db_issued := db_issued d @ [(demo_issued_row E n uN cN a w)\<lparr>iss_certId := Some (cert_number code (sd_year E) (number_at code d))\<rparr>],
     db_seqs := (db_seqs d)(''cert_seq_'' @ toLowerCase code \<mapsto> Suc (number_at code d))\<rparr>"

definition add_code :: "exam_access_code \<Rightarrow> seed_db \<Rightarrow> seed_db" where
  "add_code c d = d\<lparr>db_codes := db_codes d @ [c]\<rparr>"

lemmas step_defs = add_purchase_def add_lessons_def add_attempt_def add_issued_def add_code_def

definition bought :: "seed_db \<Rightarrow> (uuid \<times> uuid) set" where
  "bought d = (\<lambda>p. (sp_userId p, sp_certId p)) ` set (db_purchases d)"

definition stripe_free :: "nat \<Rightarrow> seed_db \<Rightarrow> bool" where
  "stripe_free n d \<longleftrightarrow> (\<forall>x \<in> set (db_transactions d). \<forall>k > n. tx_stripeSessionId x \<noteq> ''cs_demo_'' @ nat_text k)"

lemma asUser_run [simp]: "body (Some u) s = (Inr x, s') \<Longrightarrow> asUser u body s = (Inr x, s')"
  by (simp add: asUser_def)

lemma on_db_run [simp]: "m (st_db s) = (Inr x, d) \<Longrightarrow> on_db m s = (Inr x, s\<lparr>st_db := d\<rparr>)"
  by (simp add: on_db_def)

lemma sql_insert_run: "p \<Longrightarrow> \<not> c \<Longrightarrow> q \<Longrightarrow> pk r \<notin> pk ` set t \<Longrightarrow> sql_insert p c q r t = Inr (t @ [r])"
  by (simp add: sql_insert_ok)

lemma demo_purchase_run:
  assumes d: "st_db s = d" and n: "st_purchaseSeq s = n" "st_txSeq s = n"
    and "demoId BUser uN \<in> pk ` set (db_users d)" "demoId BCert cN \<in> pk ` set (db_certs d)"
    and "unused_from BPurchase n (db_purchases d)" "unused_from BTransaction n (db_transactions d)" "stripe_free n d"
    and new: "(demoId BUser uN, demoId BCert cN) \<notin> bought d" and promo: "set_option (po_promoId p) \<subseteq> pc_id ` set (db_promos d)"
  shows "demo_purchase E uN cN p s =
    (Inr (), s\<lparr>st_db := add_purchase E (Suc n) uN cN p d, st_purchaseSeq := Suc n, st_txSeq := Suc n\<rparr>)"
proof -
  let ?p = "purchase_row E (Suc n) uN cN p" and ?x = "transaction_row E (Suc n) uN cN p"
  let ?d1 = "d\<lparr>db_purchases := db_purchases d @ [?p]\<rparr>"
  have p: "pk ?p = demoId BPurchase (Suc n)" "sp_userId ?p = demoId BUser uN" "sp_certId ?p = demoId BCert cN"
    by (simp_all add: purchase_row_def Let_def)
  have x: "pk ?x = demoId BTransaction (Suc n)" "tx_userId ?x = demoId BUser uN" "tx_certId ?x = demoId BCert cN"
    "tx_stripeSessionId ?x = ''cs_demo_'' @ nat_text (Suc n)" "tx_promoCodeId ?x = po_promoId p"
    by (simp_all add: transaction_row_def)
  have clash: "\<not> (\<exists>y \<in> set (db_purchases d). sp_userId y = sp_userId ?p \<and> sp_certId y = sp_certId ?p)"
    using new unfolding bought_def p image_iff by (metis prod.inject)
  have 1: "insert_purchase (Some (demoId BUser uN)) ?p d = (Inr (), ?d1)"
    using assms(4,5) unused_fromD [OF assms(6), of "Suc n"] clash
    by (simp add: insert_purchase_def sql_insert_run student_purchases_isolation_def p store_def)
  have sclash: "\<not> (\<exists>y \<in> set (db_transactions d). tx_stripeSessionId y = tx_stripeSessionId ?x)"
    using assms(8) by (auto simp: stripe_free_def x)
  have 2: "insert_transaction (sd_now E) (Some (demoId BUser uN)) ?x ?d1 = (Inr (), add_purchase E (Suc n) uN cN p d)"
    using assms(4,5) unused_fromD [OF assms(7), of "Suc n"] sclash promo
    by (cases "po_promoId p") (simp_all add: insert_transaction_def sql_insert_run transactions_isolation_def x store_def add_purchase_def)
  show ?thesis using 1 2 by (simp add: demo_purchase_def Let_def n d)
qed

lemma demo_attempt_run:
  assumes d: "st_db s = d" and n: "st_attemptSeq s = n" and i: "i < length exams"
    and "demoId BUser uN \<in> pk ` set (db_users d)" "demoId BCert (se_certN (exams ! i)) \<in> pk ` set (db_certs d)"
    and "se_examId (exams ! i) \<in> pk ` set (db_exams d)" "unused_from BAttempt n (db_attempts d)"
    and "attempt_score_check (attempt_row E (Suc n) uN (exams ! i) marks w)"
  shows "demo_attempt E uN exams i marks w s =
    (Inr (demoId BAttempt (Suc n)), s\<lparr>st_db := add_attempt E (Suc n) uN (exams ! i) marks w d, st_attemptSeq := Suc n\<rparr>)"
proof -
  let ?a = "attempt_row E (Suc n) uN (exams ! i) marks w"
  have a: "pk ?a = demoId BAttempt (Suc n)" "at_userId ?a = demoId BUser uN"
    "at_certId ?a = demoId BCert (se_certN (exams ! i))" "at_examId ?a = se_examId (exams ! i)"
    by (simp_all add: attempt_row_def split: prod.split)
  have "insert_attempt (Some (demoId BUser uN)) ?a d = (Inr (), add_attempt E (Suc n) uN (exams ! i) marks w d)"
    using assms(4-6,8) unused_fromD [OF assms(7), of "Suc n"]
    by (simp add: insert_attempt_def sql_insert_run exam_attempts_isolation_def a store_def add_attempt_def)
  then show ?thesis using i by (simp add: demo_attempt_def Let_def n d)
qed

lemma lpad_length: "length (lpad_zero 6 s) = 6"
  by (simp add: lpad_zero_def)

lemma demo_issue_run:
  assumes d: "st_db s = d" and "demoId BUser uN \<in> pk ` set (db_users d)" "demoId BCert cN \<in> pk ` set (db_certs d)"
    and "a \<in> pk ` set (db_attempts d)" "demoId BIssued n \<notin> pk ` set (db_issued d)"
    and code: "program_of d (demoId BCert cN) = Some code" "length code \<le> 4" and year: "length (sd_year E) = 4"
    and free: "numbers_free E code d" "number_at code d < 10 ^ 6"
  shows "demo_issue E n uN cN a w s = (Inr (), s\<lparr>st_db := add_issued E code n uN cN a w d\<rparr>)"
proof -
  let ?r = "demo_issued_row E n uN cN a w" and ?no = "cert_number code (sd_year E) (number_at code d)"
  have r: "pk ?r = demoId BIssued n" "iss_userId ?r = demoId BUser uN" "iss_certificateId ?r = demoId BCert cN"
    "iss_examAttemptId ?r = a" by (simp_all add: demo_issued_row_def)
  have seq: "db_seqs d (''cert_seq_'' @ toLowerCase code) = Some (number_at code d)"
    using free(1) by (simp add: numbers_free_def number_at_def split: option.splits)
  have clash: "\<not> (\<exists>x \<in> set (db_issued d). iss_certId x = Some ?no)"
    using free seq by (simp add: numbers_free_def)
  have "length ?no \<le> 50" using code(2) year by (simp add: cert_number_def lpad_length)
  then have drawn: "set_cert_sequence (sd_year E) (program_of d) (demoId BCert cN) (db_seqs d) =
      (Inr (Some ?no), (db_seqs d)(''cert_seq_'' @ toLowerCase code \<mapsto> Suc (number_at code d)))"
    using code(1) seq by (simp add: set_cert_sequence_def Let_def)
  have "insert_issued (sd_year E) (Some (demoId BUser uN)) ?r d = (Inr (), add_issued E code n uN cN a w d)"
    using assms(2-5) clash
    by (simp add: insert_issued_def r drawn sql_insert_run issued_certificates_isolation_def store_def add_issued_def)
  then show ?thesis by (simp add: demo_issue_def d)
qed

subsection \<open>The lessons of a certificate\<close>

lemma filter_key_once: "distinct (map pk t) \<Longrightarrow> length (filter (\<lambda>m. pk m = k \<and> Q m) t) \<le> 1"
proof (induction t)
  case (Cons a t)
  show ?case
  proof (cases "pk a = k")
    case True
    have "\<forall>m \<in> set t. pk m \<noteq> k" using Cons.prems True by (metis distinct.simps(2) image_eqI list.simps(9) set_map)
    then have "filter (\<lambda>m. pk m = k \<and> Q m) t = []" by (intro filter_none) blast
    then show ?thesis by simp
  next
    case False
    then show ?thesis using Cons by simp
  qed
qed simp

lemma concat_at_most_once: "(\<And>x. n x \<le> 1) \<Longrightarrow> concat (map (\<lambda>x. replicate (n x) (g x)) xs) = map g (filter (\<lambda>x. n x = 1) xs)"
proof (induction xs)
  case (Cons x xs)
  have "n x = 0 \<or> n x = 1" using Cons.prems [of x] by linarith
  then show ?case using Cons by auto
qed simp

lemma distinct_map_sort: "distinct (map h xs) \<Longrightarrow> distinct (map h (sort_key k xs))"
proof -
  have "mset (map h (sort_key k xs)) = mset (map h xs)" by simp
  then show "distinct (map h xs) \<Longrightarrow> ?thesis" using mset_eq_imp_distinct_iff by blast
qed

lemma lessons_of_distinct:
  assumes "distinct (map pk (db_modules d))" "distinct (map pk (db_lessons d))"
  shows "distinct (lessons_of d i)" "set (lessons_of d i) \<subseteq> pk ` set (db_lessons d)"
proof -
  let ?ms = "\<lambda>l. filter (\<lambda>m. pk m = l_moduleId l \<and> m_certId m = i) (db_modules d)"
  let ?ps = "concat (map (\<lambda>l. map (\<lambda>m. (m, l)) (?ms l)) (db_lessons d))"
  have "map (\<lambda>(m, l). pk l) ?ps = concat (map (\<lambda>l. replicate (length (?ms l)) (pk l)) (db_lessons d))"
    by (simp add: map_concat map_replicate_const comp_def)
  also have "\<dots> = map pk (filter (\<lambda>l. length (?ms l) = 1) (db_lessons d))"
    by (rule concat_at_most_once) (rule filter_key_once [OF assms(1)])
  finally have "distinct (map (\<lambda>(m, l). pk l) ?ps)" using assms(2) by (simp add: distinct_map_filter)
  then show "distinct (lessons_of d i)" unfolding lessons_of_def by (rule distinct_map_sort)
  show "set (lessons_of d i) \<subseteq> pk ` set (db_lessons d)" by (auto simp: lessons_of_def)
qed

definition progress_free :: "seed_env \<Rightarrow> nat \<Rightarrow> seed_db \<Rightarrow> bool" where
  "progress_free E uN d \<longleftrightarrow> (\<forall>x \<in> set (db_progress d). pr_userId x \<noteq> demoId BUser uN) \<and>
     (\<forall>l. sd_uuid E (demoId BUser uN) l \<notin> pk ` set (db_progress d))"

lemma insert_progress_rows:
  "uuids_differ E \<Longrightarrow> distinct (map snd rs) \<Longrightarrow> demoId BUser uN \<in> pk ` set (db_users d) \<Longrightarrow>
   snd ` set rs \<subseteq> pk ` set (db_lessons d) \<Longrightarrow>
   \<forall>x \<in> set (db_progress d). pr_userId x = demoId BUser uN \<longrightarrow> pr_lessonId x \<notin> snd ` set rs \<Longrightarrow>
   \<forall>l \<in> snd ` set rs. sd_uuid E (demoId BUser uN) l \<notin> pk ` set (db_progress d) \<Longrightarrow>
   each (\<lambda>r. insert_seed_progress (demo_progress_row E uN r)) rs d =
     (Inr (), d\<lparr>db_progress := db_progress d @ map (demo_progress_row E uN) rs\<rparr>)"
proof (induction rs arbitrary: d)
  case (Cons r rs)
  obtain i l where r: "r = (i, l)" by (cases r)
  let ?p = "demo_progress_row E uN r"
  let ?d = "d\<lparr>db_progress := db_progress d @ [?p]\<rparr>"
  have p: "pk ?p = sd_uuid E (demoId BUser uN) l" "pr_userId ?p = demoId BUser uN" "pr_lessonId ?p = l"
    by (simp_all add: demo_progress_row_def r)
  have "sql_insert True (\<exists>x \<in> set (db_progress d). pr_userId x = pr_userId ?p \<and> pr_lessonId x = pr_lessonId ?p)
      (pr_userId ?p \<in> pk ` set (db_users d) \<and> pr_lessonId ?p \<in> pk ` set (db_lessons d)) ?p (db_progress d) =
      Inr (db_progress d @ [?p])"
  proof (rule sql_insert_run)
    show "\<not> (\<exists>x \<in> set (db_progress d). pr_userId x = pr_userId ?p \<and> pr_lessonId x = pr_lessonId ?p)"
      unfolding p using Cons.prems(5) by (auto simp: r)
    show "pk ?p \<notin> pk ` set (db_progress d)" unfolding p(1) using Cons.prems(6) by (simp add: r)
    show "pr_userId ?p \<in> pk ` set (db_users d) \<and> pr_lessonId ?p \<in> pk ` set (db_lessons d)"
      unfolding p using Cons.prems(3,4) by (simp add: r)
  qed simp
  then have "insert_seed_progress ?p d = (Inr (), ?d)" by (simp add: insert_seed_progress_def store_def)
  moreover have "each (\<lambda>r. insert_seed_progress (demo_progress_row E uN r)) rs ?d =
      (Inr (), ?d\<lparr>db_progress := db_progress ?d @ map (demo_progress_row E uN) rs\<rparr>)"
  proof (rule Cons.IH)
    have l: "l \<notin> snd ` set rs" using Cons.prems(2) by (simp add: r)
    show "\<forall>x \<in> set (db_progress ?d). pr_userId x = demoId BUser uN \<longrightarrow> pr_lessonId x \<notin> snd ` set rs"
    proof
      fix x assume "x \<in> set (db_progress ?d)"
      then consider "x \<in> set (db_progress d)" | "x = ?p" by auto
      then show "pr_userId x = demoId BUser uN \<longrightarrow> pr_lessonId x \<notin> snd ` set rs"
        using Cons.prems(5) l p(3) by cases auto
    qed
    have "sd_uuid E (demoId BUser uN) k \<noteq> sd_uuid E (demoId BUser uN) l" if "k \<in> snd ` set rs" for k
      using that l Cons.prems(1) unfolding uuids_differ_def by blast
    then show "\<forall>k \<in> snd ` set rs. sd_uuid E (demoId BUser uN) k \<notin> pk ` set (db_progress ?d)"
      using Cons.prems(6) by (simp add: p)
    show "distinct (map snd rs)" using Cons.prems(2) by simp
    show "demoId BUser uN \<in> pk ` set (db_users ?d)" using Cons.prems(3) by simp
    show "snd ` set rs \<subseteq> pk ` set (db_lessons ?d)" using Cons.prems(4) by simp
  qed (rule Cons.prems(1))
  ultimately show ?case by simp
qed simp

lemma completeLessons_run:
  assumes d: "st_db s = d" and "uuids_differ E" "demoId BUser uN \<in> pk ` set (db_users d)" "progress_free E uN d"
    and "distinct (map pk (db_modules d))" "distinct (map pk (db_lessons d))"
  shows "completeLessons E uN cN k s = (Inr (), s\<lparr>st_db := add_lessons E uN cN k d\<rparr>)"
proof -
  let ?rows = "take k (lessons_of d (demoId BCert cN))"
  have rows: "map snd (enumerate 0 ?rows) = ?rows" by simp
  have "distinct (map snd (enumerate 0 ?rows))" unfolding rows using lessons_of_distinct(1) [OF assms(5,6)] by simp
  moreover have "snd ` set (enumerate 0 ?rows) \<subseteq> pk ` set (db_lessons d)"
    using lessons_of_distinct(2) [OF assms(5,6)] rows set_take_subset by (metis set_map subset_trans)
  ultimately have "each (\<lambda>r. insert_seed_progress (demo_progress_row E uN r)) (enumerate 0 ?rows) d =
      (Inr (), add_lessons E uN cN k d)"
    unfolding add_lessons_def using assms(2-4) by (intro insert_progress_rows) (auto simp: progress_free_def)
  then show ?thesis by (simp add: completeLessons_def Let_def d)
qed

end
