(* ===== verification/DemoStories.thy ===== *)
theory DemoStories
  imports DemoRun
begin

section \<open>The stories on a seeded database\<close>

text \<open>
  The rows all sections leave, as a function of the database they found, and that the whole script succeeds
  and ends there when the database was vacant.
\<close>

subsection \<open>Before the stories\<close>

definition seeded_db :: "instant \<Rightarrow> string \<Rightarrow> seed_db \<Rightarrow> seed_db" where
  "seeded_db t h c = c\<lparr>db_users := db_users c @ student_rows t h, db_admins := db_admins c @ admin_rows t h,
     db_certs := db_certs c @ map (demo_cert_row t) CERTS, db_modules := db_modules c @ all_modules t CERTS 0,
     db_lessons := db_lessons c @ all_lessons t CERTS 0 0, db_exams := db_exams c @ all_exams t CERTS 0,
     db_questions := db_questions c @ all_questions t CERTS 0, db_options := db_options c @ all_options t CERTS 0,
     db_promos := db_promos c @ demo_promos t\<rparr>"

lemma CERTS_positive: "x \<in> set CERTS \<Longrightarrow> 0 < cp_n x"
proof -
  assume "x \<in> set CERTS"
  then have "cp_n x \<in> set (map cp_n CERTS)" by simp
  then show ?thesis unfolding CERTS_n by auto
qed

lemma demo_cert_row_key: "pk (demo_cert_row t x) = demoId BCert (cp_n x)"
  by (simp add: demo_cert_row_def)

lemma seeded_exams_untouched:
  assumes "references c" "catalogue_vacant c"
  shows "exams_untouched c"
proof -
  have "e_certId x \<noteq> demoId BCert (cp_n s)" if "x \<in> set (db_exams c)" "s \<in> set CERTS" for x s
  proof -
    have "e_certId x \<in> pk ` set (db_certs c)" using assms(1) that(1) by (simp add: reference_defs refs_def)
    then show ?thesis using assms(2) unused_fromD [of BCert 0 "db_certs c" "cp_n s"] CERTS_positive [OF that(2)]
      by (auto simp: catalogue_vacant_def)
  qed
  then show ?thesis using assms by (simp add: exams_untouched_def catalogue_vacant_def reference_defs refs_def)
qed

lemma CERTS_keys: "(\<lambda>c. demoId BCert (cp_n c)) ` set CERTS = demoId BCert ` {1, 2, 3, 4, 5, 6}"
  using arg_cong [OF CERTS_n, of set] by (metis image_image list.simps(15) list.set_map empty_set)

lemma sections_run:
  assumes "references c" "accounts_vacant c" "catalogue_vacant c"
  shows "bind_op (seedAdmins t h) (\<lambda>_. bind_op (seedCatalog t) (\<lambda>_. bind_op (seedExams t)
           (\<lambda>exams. bind_op (seedStudents t h) (\<lambda>_. bind_op (seedPromoCodes t) (\<lambda>_. f exams))))) c =
         f (all_entries CERTS 0) (seeded_db t h c)"
proof -
  note v = assms(2,3) [unfolded accounts_vacant_def catalogue_vacant_def]
  let ?c1 = "c\<lparr>db_admins := db_admins c @ admin_rows t h\<rparr>"
  let ?c2 = "?c1\<lparr>db_certs := db_certs c @ map (demo_cert_row t) CERTS, db_modules := db_modules c @ all_modules t CERTS 0,
    db_lessons := db_lessons c @ all_lessons t CERTS 0 0\<rparr>"
  let ?c3 = "?c2\<lparr>db_exams := db_exams c @ all_exams t CERTS 0, db_questions := db_questions c @ all_questions t CERTS 0,
    db_options := db_options c @ all_options t CERTS 0\<rparr>"
  let ?c4 = "?c3\<lparr>db_users := db_users c @ student_rows t h\<rparr>"
  have 1: "seedAdmins t h c = (Inr (), ?c1)" using v by (intro seedAdmins_run) simp_all
  have 2: "seedCatalog t ?c1 = (Inr (), ?c2)"
    using v CERTS_positive by (subst seedCatalog_run) (simp_all add: unused_from_def)
  have u: "exams_untouched c" using assms by (intro seeded_exams_untouched)
  have "\<forall>x \<in> set CERTS. demoId BCert (cp_n x) \<in> pk ` set (db_certs ?c2)"
    by (simp add: image_Un image_image demo_cert_row_key)
  then have 3: "seedExams t ?c2 = (Inr (all_entries CERTS 0), ?c3)"
    using v u by (subst seedExams_run) (simp_all add: exams_untouched_def)
  have 4: "seedStudents t h ?c3 = (Inr (), ?c4)" using v by (subst seedStudents_run) simp_all
  have a: "demoId BAdmin 3 \<in> pk ` set (db_admins ?c4)"
    using keys_of_block [OF admin_rows_keys, of t h] by (simp add: image_Un)
  have p: "\<not> (\<exists>p \<in> set (demo_promos t). \<exists>x \<in> set (db_promos ?c4). pc_id x = pc_id p \<or> pc_code x = pc_code p)"
    using v by (auto simp: demo_promos_def demo_promo_def)
  have 5: "seedPromoCodes t ?c4 = (Inr (), seeded_db t h c)"
    using a p by (simp add: seedPromoCodes_def seeded_db_def)
  show ?thesis by (simp only: bind_op_def 1 2 3 4 5 prod.case sum.case)
qed

subsection \<open>The exams the stories take\<close>

lemma entries: "all_entries CERTS 0 = [entry cert_psm 1 0, entry cert_psm 2 1, entry cert_psm 3 2, entry cert_pspo 1 3,
    entry cert_pspo 2 4, entry cert_psd 1 5, entry cert_psd 2 6, entry cert_pal 1 7, entry cert_sps 1 8, entry cert_pmp 1 9,
    entry cert_pmp 2 10]"
proof -
  have "orders cert_psm = [1, 2, 3]" "orders cert_pspo = [1, 2]" "orders cert_psd = [1, 2]" "orders cert_pal = [1]"
    "orders cert_sps = [1]" "orders cert_pmp = [1, 2]"
    using CERTS_exams by (simp_all add: orders_def CERTS_def upt_rec)
  moreover have "exam_total cert_psm = 3" "exam_total cert_pspo = 2" "exam_total cert_psd = 2" "exam_total cert_pal = 1"
    "exam_total cert_sps = 1" using CERTS_exams by (simp_all add: CERTS_def)
  ultimately show ?thesis by (simp add: CERTS_def entry_def)
qed

lemma cert_numbers: "cp_n cert_psm = 1" "cp_n cert_pspo = 2" "cp_n cert_psd = 3" "cp_n cert_pal = 4" "cp_n cert_sps = 5" "cp_n cert_pmp = 6"
  using CERTS_n by (simp_all add: CERTS_def)

lemma examsFor_psm: "examsFor (all_entries CERTS 0) 1 = [entry cert_psm 1 0, entry cert_psm 2 1, entry cert_psm 3 2]"
  unfolding entries by (simp add: examsFor_def entry_def cert_numbers)

lemma examsFor_pal: "examsFor (all_entries CERTS 0) 4 = [entry cert_pal 1 7]"
  unfolding entries by (simp add: examsFor_def entry_def cert_numbers)

subsection \<open>What the stories rely on\<close>

definition stage :: "seed_db \<Rightarrow> bool" where
  "stage d \<longleftrightarrow> demoId BUser ` {1, 2, 3, 4, 5} \<subseteq> pk ` set (db_users d) \<and> demoId BCert ` {1, 2, 3, 4} \<subseteq> pk ` set (db_certs d) \<and>
     demoId BExam ` {1, 2, 8} \<subseteq> pk ` set (db_exams d) \<and> demoId BPromo 1 \<in> pc_id ` set (db_promos d) \<and>
     distinct (map pk (db_modules d)) \<and> distinct (map pk (db_lessons d)) \<and>
     program_of d (demoId BCert 1) = Some ''PSM'' \<and> program_of d (demoId BCert 4) = Some ''PAL''"

text \<open>After \<open>p\<close> purchases and \<open>a\<close> attempts; the users of \<open>U\<close> have no progress and the pairs of \<open>B\<close> are bought.\<close>

definition fresh :: "seed_env \<Rightarrow> nat \<Rightarrow> nat \<Rightarrow> nat set \<Rightarrow> (nat \<times> nat) set \<Rightarrow> seed_db \<Rightarrow> bool" where
  "fresh E p a U B d \<longleftrightarrow> unused_from BPurchase p (db_purchases d) \<and> unused_from BTransaction p (db_transactions d) \<and>
     stripe_free p d \<and> unused_from BAttempt a (db_attempts d) \<and> (\<forall>u \<in> U. progress_free E u d) \<and>
     (\<forall>u k. 0 < u \<longrightarrow> (demoId BUser u, demoId BCert k) \<in> bought d \<longrightarrow> (u, k) \<in> B)"

lemma stage_steps [simp]:
  "stage (add_purchase E n u k p d) = stage d" "stage (add_lessons E u k m d) = stage d"
  "stage (add_attempt E n u en marks w d) = stage d" "stage (add_issued E code n u k a w d) = stage d"
  "stage (add_code x d) = stage d"
  by (simp_all add: stage_def step_defs program_of_def promo_keys)

lemma stripe_of: "tx_stripeSessionId (transaction_row E n u k p) = ''cs_demo_'' @ nat_text n"
  by (simp add: transaction_row_def)

lemma nat_text_inj: "nat_text m = nat_text n \<longleftrightarrow> m = n"
  using decimal_nat_text by metis

lemma fresh_purchase:
  assumes "fresh E p a U B d"
  shows "fresh E (Suc p) a U (insert (u, k) B) (add_purchase E (Suc p) u k q d)"
proof -
  note f = assms [unfolded fresh_def]
  have "unused_from BPurchase (Suc p) (db_purchases d @ [purchase_row E (Suc p) u k q])"
    using f by (intro unused_from_step) (simp_all add: purchase_row_def Let_def)
  moreover have "unused_from BTransaction (Suc p) (db_transactions d @ [transaction_row E (Suc p) u k q])"
    using f by (intro unused_from_step) (simp_all add: transaction_row_def)
  moreover have "stripe_free (Suc p) (add_purchase E (Suc p) u k q d)"
    using f by (auto simp: stripe_free_def add_purchase_def stripe_of nat_text_inj)
  moreover have "\<forall>v \<in> U. progress_free E v (add_purchase E (Suc p) u k q d)"
    using f by (simp add: progress_free_def add_purchase_def)
  moreover have "bought (add_purchase E (Suc p) u k q d) = insert (demoId BUser u, demoId BCert k) (bought d)"
    by (simp add: bought_def add_purchase_def purchase_row_def Let_def)
  ultimately show ?thesis using f by (simp add: fresh_def) (auto simp: add_purchase_def)
qed

lemma fresh_lessons:
  assumes f: "fresh E p a U B d" and "uuids_differ E" and "V \<subseteq> U" and "u \<notin> V"
  shows "fresh E p a V B (add_lessons E u k m d)"
proof -
  let ?rows = "map (demo_progress_row E u) (enumerate 0 (take m (lessons_of d (demoId BCert k))))"
  have r: "pr_userId x = demoId BUser u \<and> (\<exists>l. pk x = sd_uuid E (demoId BUser u) l)" if "x \<in> set ?rows" for x
    using that by (auto simp: demo_progress_row_def)
  have "progress_free E v (add_lessons E u k m d)" if "v \<in> V" for v
  proof -
    have "u \<noteq> v" and o: "progress_free E v d" using that assms by (auto simp: fresh_def)
    then have "\<forall>x \<in> set ?rows. pr_userId x \<noteq> demoId BUser v \<and> (\<forall>l. sd_uuid E (demoId BUser v) l \<noteq> pk x)"
      using r assms(2) unfolding uuids_differ_def by (metis demoId_inj)
    then show ?thesis using o unfolding progress_free_def by (auto simp: add_lessons_def simp del: set_map)
  qed
  then show ?thesis using f by (simp add: fresh_def add_lessons_def stripe_free_def bought_def)
qed

lemma fresh_attempt: "fresh E p a U B d \<Longrightarrow> fresh E p (Suc a) U B (add_attempt E (Suc a) u en marks w d)"
  by (auto simp: fresh_def add_attempt_def stripe_free_def bought_def progress_free_def attempt_row_def split: prod.split
      intro!: unused_from_step)

lemma fresh_other [simp]:
  "fresh E p a U B (add_issued E code n u k x w d) = fresh E p a U B d" "fresh E p a U B (add_code y d) = fresh E p a U B d"
  by (simp_all add: fresh_def add_issued_def add_code_def stripe_free_def bought_def progress_free_def)

lemma numbers_other [simp]:
  "numbers_free E code (add_purchase E n u k p d) = numbers_free E code d" "number_at code (add_purchase E n u k p d) = number_at code d"
  "numbers_free E code (add_lessons E u k m d) = numbers_free E code d" "number_at code (add_lessons E u k m d) = number_at code d"
  "numbers_free E code (add_attempt E n u en marks w d) = numbers_free E code d"
  "number_at code (add_attempt E n u en marks w d) = number_at code d"
  "numbers_free E code (add_code x d) = numbers_free E code d" "number_at code (add_code x d) = number_at code d"
  by (simp_all add: numbers_free_def number_at_def step_defs split: option.split)

lemma seq_names: "toLowerCase ''PSM'' = ''psm''" "toLowerCase ''PAL'' = ''pal''"
  by code_simp+

lemma numbers_pal [simp]:
  "numbers_free E ''PAL'' (add_issued E ''PSM'' n u k x w d) = numbers_free E ''PAL'' d"
  "number_at ''PAL'' (add_issued E ''PSM'' n u k x w d) = number_at ''PAL'' d"
  by (auto simp: numbers_free_def number_at_def add_issued_def seq_names cert_number_def split: option.split)

lemma issued_other [simp]:
  "db_issued (add_purchase E n u k p d) = db_issued d" "db_issued (add_lessons E u k m d) = db_issued d"
  "db_issued (add_attempt E n u en marks w d) = db_issued d" "db_issued (add_code y d) = db_issued d"
  "pk ` set (db_issued (add_issued E code n u k x w d)) = insert (demoId BIssued n) (pk ` set (db_issued d))"
  by (simp_all add: step_defs demo_issued_row_def)

lemma codes_other [simp]:
  "db_codes (add_purchase E n u k p d) = db_codes d" "db_codes (add_lessons E u k m d) = db_codes d"
  "db_codes (add_attempt E n u en marks w d) = db_codes d" "db_codes (add_issued E code n u k x w d) = db_codes d"
  by (simp_all add: step_defs)

lemma attempts_other [simp]:
  "pk ` set (db_attempts (add_attempt E n u en marks w d)) = insert (demoId BAttempt n) (pk ` set (db_attempts d))"
  by (simp add: step_defs attempt_row_def split: prod.split)

subsection \<open>The scores of the stories\<close>

lemma story_scores:
  "snd (buildAnswers (entry spec n j) [3, 2, 2, 2]) = 90" "snd (buildAnswers (entry spec n j) [3, 2, 1]) = 60"
  "snd (buildAnswers (entry spec n j) [3, 2, 2, 2, 1]) = 100"
proof -
  have p: "parse_float (to_fixed2 (js_percent 9 10)) = 90" "parse_float (to_fixed2 (js_percent 6 10)) = 60"
    "parse_float (to_fixed2 100) = 100" "js_percent 10 10 = 100" by code_simp+
  show "snd (buildAnswers (entry spec n j) [3, 2, 2, 2]) = 90" "snd (buildAnswers (entry spec n j) [3, 2, 1]) = 60"
    "snd (buildAnswers (entry spec n j) [3, 2, 2, 2, 1]) = 100"
    by (simp_all add: buildAnswers_def entry_def QUESTION_MARKS_def option_count_def correct_index_def upt_rec p)
qed

lemma attempt_row_score: "at_score (attempt_row E n u en marks w) = snd (buildAnswers en marks)"
  by (simp add: attempt_row_def split: prod.split)

subsection \<open>The five stories\<close>

definition sara_db :: "seed_env \<Rightarrow> seed_db \<Rightarrow> seed_db" where
  "sara_db E d = add_issued E ''PSM'' 1 1 1 (demoId BAttempt 1) 21 (add_attempt E 1 1 (entry cert_psm 1 0) [3, 2, 2, 2] 21
     (add_lessons E 1 1 12 (add_purchase E 1 1 1
       \<lparr>po_examCompleted = Some True, po_promoId = None, po_amountCents = 14900, po_when = 30\<rparr> d)))"

definition omar_db :: "seed_env \<Rightarrow> seed_db \<Rightarrow> seed_db" where
  "omar_db E d = add_code (omar_code E (demoId BExam 2)) (add_attempt E 2 2 (entry cert_psm 1 0) [3, 2, 1] 14
     (add_lessons E 2 1 8 (add_purchase E 2 2 1
       \<lparr>po_examCompleted = None, po_promoId = None, po_amountCents = 14900, po_when = 25\<rparr> d)))"

definition lina_db :: "seed_env \<Rightarrow> seed_db \<Rightarrow> seed_db" where
  "lina_db E d = add_lessons E 3 2 5 (add_purchase E 3 3 2
     \<lparr>po_examCompleted = None, po_promoId = None, po_amountCents = 14900, po_when = 12\<rparr> d)"

definition yusuf_db :: "seed_env \<Rightarrow> seed_db \<Rightarrow> seed_db" where
  "yusuf_db E d = add_lessons E 4 3 1 (add_purchase E 4 4 3
     \<lparr>po_examCompleted = None, po_promoId = Some (demoId BPromo 1), po_amountCents = 10320, po_when = 3\<rparr> d)"

definition mona_db :: "seed_env \<Rightarrow> seed_db \<Rightarrow> seed_db" where
  "mona_db E d = add_purchase E 6 5 1 \<lparr>po_examCompleted = None, po_promoId = None, po_amountCents = 14900, po_when = 2\<rparr>
     (add_issued E ''PAL'' 2 5 4 (demoId BAttempt 3) 40 (add_attempt E 3 5 (entry cert_pal 1 7) [3, 2, 2, 2, 1] 40
       (add_lessons E 5 4 6 (add_purchase E 5 5 4
         \<lparr>po_examCompleted = Some True, po_promoId = None, po_amountCents = 19900, po_when = 45\<rparr> d))))"

definition stories_db :: "seed_env \<Rightarrow> seed_db \<Rightarrow> seed_db" where
  "stories_db E d = mona_db E (yusuf_db E (lina_db E (omar_db E (sara_db E d))))"

abbreviation at_story :: "seed_db \<Rightarrow> nat \<Rightarrow> nat \<Rightarrow> story_state" where
  "at_story d p a \<equiv> \<lparr>st_db = d, st_purchaseSeq = p, st_txSeq = p, st_attemptSeq = a\<rparr>"

lemma fresh_bought: "fresh E p a U B d \<Longrightarrow> 0 < u \<Longrightarrow> (u, k) \<notin> B \<Longrightarrow> (demoId BUser u, demoId BCert k) \<notin> bought d"
  by (auto simp: fresh_def)

lemma purchase_at:
  assumes "stage d" "fresh E p a U B d" "u \<in> {1, 2, 3, 4, 5}" "k \<in> {1, 2, 3, 4}" "(u, k) \<notin> B"
    and "po_promoId q \<in> {None, Some (demoId BPromo 1)}"
  shows "demo_purchase E u k q (at_story d p a) = (Inr (), at_story (add_purchase E (Suc p) u k q d) (Suc p) a)"
  using assms fresh_bought [OF assms(2) _ assms(5)]
  by (subst demo_purchase_run [OF refl]) (auto simp: stage_def fresh_def)

lemma lessons_at:
  assumes "stage d" "fresh E p a U B d" "uuids_differ E" "u \<in> {1, 2, 3, 4, 5}" "u \<in> U"
  shows "completeLessons E u k m (at_story d p a) = (Inr (), at_story (add_lessons E u k m d) p a)"
  using assms by (subst completeLessons_run [OF refl]) (auto simp: stage_def fresh_def)

lemma entry_fields [simp]: "se_certN (entry spec n j) = cp_n spec" "se_examId (entry spec n j) = demoId BExam (Suc j)"
  by (simp_all add: entry_def)

lemma attempt_at:
  assumes "stage d" "fresh E p a U B d" "u \<in> {1, 2, 3, 4, 5}" "cp_n spec \<in> {1, 2, 3, 4}" "Suc j \<in> {1, 2, 8}"
    and "0 \<le> snd (buildAnswers (entry spec n j) marks)" "snd (buildAnswers (entry spec n j) marks) \<le> 100"
  shows "demo_attempt E u (entry spec n j # es) 0 marks w (at_story d p a) =
    (Inr (demoId BAttempt (Suc a)), at_story (add_attempt E (Suc a) u (entry spec n j) marks w d) p (Suc a))"
proof -
  have "demoId BUser u \<in> pk ` set (db_users d)" "demoId BCert (cp_n spec) \<in> pk ` set (db_certs d)"
    "demoId BExam (Suc j) \<in> pk ` set (db_exams d)" using assms(1,3-5) unfolding stage_def by blast+
  moreover have "unused_from BAttempt a (db_attempts d)" using assms(2) by (simp add: fresh_def)
  ultimately show ?thesis using assms(6,7)
    by (subst demo_attempt_run [OF refl refl]) (simp_all add: attempt_score_check_def attempt_row_score)
qed

lemma issue_at:
  assumes "stage d" "u \<in> {1, 2, 3, 4, 5}" "(k, code) \<in> {(1, ''PSM''), (4, ''PAL'')}" "x \<in> pk ` set (db_attempts d)"
    and "demoId BIssued n \<notin> pk ` set (db_issued d)" "length (sd_year E) = 4" "numbers_free E code d" "number_at code d < 10 ^ 6"
  shows "demo_issue E n u k x w (at_story d p a) = (Inr (), at_story (add_issued E code n u k x w d) p a)"
  using assms by (subst demo_issue_run [OF refl, where code = code]) (auto simp: stage_def)

lemma sara_run:
  assumes "stage d" "fresh E 0 0 {1, 2, 3, 4, 5} {} d" "uuids_differ E" "length (sd_year E) = 4"
    and "numbers_free E ''PSM'' d" "number_at ''PSM'' d < 10 ^ 6" "unused_from BIssued 0 (db_issued d)"
  shows "story_sara E (all_entries CERTS 0) (at_story d 0 0) = (Inr (), at_story (sara_db E d) 1 1)"
    and "stage (sara_db E d)" and "fresh E 1 1 {2, 3, 4, 5} {(1, 1)} (sara_db E d)"
proof -
  let ?q = "\<lparr>po_examCompleted = Some True, po_promoId = None, po_amountCents = 14900, po_when = 30\<rparr>"
  let ?d1 = "add_purchase E 1 1 1 ?q d"
  let ?d2 = "add_lessons E 1 1 12 ?d1"
  let ?d3 = "add_attempt E 1 1 (entry cert_psm 1 0) [3, 2, 2, 2] 21 ?d2"
  have f1: "fresh E 1 0 {1, 2, 3, 4, 5} {(1, 1)} ?d1" using fresh_purchase [OF assms(2), of 1 1 ?q] by simp
  have f2: "fresh E 1 0 {2, 3, 4, 5} {(1, 1)} ?d2" by (rule fresh_lessons [OF f1 assms(3)]) auto
  have f3: "fresh E 1 1 {2, 3, 4, 5} {(1, 1)} ?d3" using fresh_attempt [OF f2] by simp
  have 1: "demo_purchase E 1 1 ?q (at_story d 0 0) = (Inr (), at_story ?d1 1 0)"
    using purchase_at [OF assms(1,2), of 1 1 ?q] by simp
  have 2: "completeLessons E 1 1 12 (at_story ?d1 1 0) = (Inr (), at_story ?d2 1 0)"
    using lessons_at [OF _ f1 assms(3), of 1 1 12] assms(1) by simp
  have 3: "demo_attempt E 1 (examsFor (all_entries CERTS 0) 1) 0 [3, 2, 2, 2] 21 (at_story ?d2 1 0) =
      (Inr (demoId BAttempt 1), at_story ?d3 1 1)"
    unfolding examsFor_psm using attempt_at [OF _ f2, of 1 cert_psm 0 1 "[3, 2, 2, 2]"] assms(1)
    by (simp add: story_scores cert_numbers)
  have 4: "demo_issue E 1 1 1 (demoId BAttempt 1) 21 (at_story ?d3 1 1) = (Inr (), at_story (sara_db E d) 1 1)"
    unfolding sara_db_def using assms unused_fromD [OF assms(7), of 1] by (intro issue_at) simp_all
  show "story_sara E (all_entries CERTS 0) (at_story d 0 0) = (Inr (), at_story (sara_db E d) 1 1)"
    by (simp only: story_sara_def bind_op_def 1 2 3 4 prod.case sum.case)
  show "stage (sara_db E d)" "fresh E 1 1 {2, 3, 4, 5} {(1, 1)} (sara_db E d)"
    using assms(1) f3 by (simp_all add: sara_db_def)
qed

lemma omar_run:
  assumes "stage d" "fresh E 1 1 {2, 3, 4, 5} {(1, 1)} d" "uuids_differ E" "unused_from BAccessCode 0 (db_codes d)"
  shows "story_omar E (all_entries CERTS 0) (at_story d 1 1) = (Inr (), at_story (omar_db E d) 2 2)"
    and "stage (omar_db E d)" and "fresh E 2 2 {3, 4, 5} {(2, 1), (1, 1)} (omar_db E d)"
proof -
  let ?q = "\<lparr>po_examCompleted = None, po_promoId = None, po_amountCents = 14900, po_when = 25\<rparr>"
  let ?d1 = "add_purchase E 2 2 1 ?q d"
  let ?d2 = "add_lessons E 2 1 8 ?d1"
  let ?d3 = "add_attempt E 2 2 (entry cert_psm 1 0) [3, 2, 1] 14 ?d2"
  let ?code = "omar_code E (demoId BExam 2)"
  have f1: "fresh E 2 1 {2, 3, 4, 5} {(2, 1), (1, 1)} ?d1" using fresh_purchase [OF assms(2), of 2 1 ?q] by (simp add: numeral_2_eq_2)
  have f2: "fresh E 2 1 {3, 4, 5} {(2, 1), (1, 1)} ?d2" by (rule fresh_lessons [OF f1 assms(3)]) auto
  have f3: "fresh E 2 2 {3, 4, 5} {(2, 1), (1, 1)} ?d3" using fresh_attempt [OF f2] by (simp add: numeral_2_eq_2)
  have 1: "demo_purchase E 2 1 ?q (at_story d 1 1) = (Inr (), at_story ?d1 2 1)"
    using purchase_at [OF assms(1,2), of 2 1 ?q] by (simp add: numeral_2_eq_2)
  have 2: "completeLessons E 2 1 8 (at_story ?d1 2 1) = (Inr (), at_story ?d2 2 1)"
    using lessons_at [OF _ f1 assms(3), of 2 1 8] assms(1) by simp
  have 3: "demo_attempt E 2 (examsFor (all_entries CERTS 0) 1) 0 [3, 2, 1] 14 (at_story ?d2 2 1) =
      (Inr (demoId BAttempt 2), at_story ?d3 2 2)"
    unfolding examsFor_psm using attempt_at [OF _ f2, of 2 cert_psm 0 1 "[3, 2, 1]"] assms(1)
    by (simp add: story_scores cert_numbers numeral_2_eq_2)
  have s: "stage ?d3" using assms(1) by simp
  then have k: "demoId BUser 2 \<in> pk ` set (db_users ?d3)" "demoId BExam 2 \<in> pk ` set (db_exams ?d3)"
    "demoId BCert 1 \<in> pk ` set (db_certs ?d3)" unfolding stage_def by blast+
  have "demoId BAccessCode 1 \<notin> pk ` set (db_codes ?d3)" using unused_fromD [OF assms(4), of 1] by simp
  then have "save_code ?code ?d3 = (Inr (), omar_db E d)"
    using k by (simp add: save_code_def omar_code_def store_def omar_db_def add_code_def)
  then have 4: "on_db (save_code (omar_code E (se_examId (examsFor (all_entries CERTS 0) 1 ! 1)))) (at_story ?d3 2 2) =
      (Inr (), at_story (omar_db E d) 2 2)" unfolding examsFor_psm by (simp add: numeral_2_eq_2)
  have l: "\<not> length (examsFor (all_entries CERTS 0) 1) \<le> 1" unfolding examsFor_psm by simp
  show "story_omar E (all_entries CERTS 0) (at_story d 1 1) = (Inr (), at_story (omar_db E d) 2 2)"
    by (simp only: story_omar_def bind_op_def 1 2 3 4 l prod.case sum.case if_False)
  show "stage (omar_db E d)" "fresh E 2 2 {3, 4, 5} {(2, 1), (1, 1)} (omar_db E d)"
    using assms(1) f3 by (simp_all add: omar_db_def)
qed

lemma lina_run:
  assumes "stage d" "fresh E 2 2 {3, 4, 5} {(2, 1), (1, 1)} d" "uuids_differ E"
  shows "story_lina E (at_story d 2 2) = (Inr (), at_story (lina_db E d) 3 2)"
    and "stage (lina_db E d)" and "fresh E 3 2 {4, 5} {(3, 2), (2, 1), (1, 1)} (lina_db E d)"
proof -
  let ?q = "\<lparr>po_examCompleted = None, po_promoId = None, po_amountCents = 14900, po_when = 12\<rparr>"
  let ?d1 = "add_purchase E 3 3 2 ?q d"
  have f1: "fresh E 3 2 {3, 4, 5} {(3, 2), (2, 1), (1, 1)} ?d1"
    using fresh_purchase [OF assms(2), of 3 2 ?q] by (simp add: eval_nat_numeral)
  have 1: "demo_purchase E 3 2 ?q (at_story d 2 2) = (Inr (), at_story ?d1 3 2)"
    using purchase_at [OF assms(1,2), of 3 2 ?q] by (simp add: eval_nat_numeral)
  have 2: "completeLessons E 3 2 5 (at_story ?d1 3 2) = (Inr (), at_story (lina_db E d) 3 2)"
    unfolding lina_db_def using lessons_at [OF _ f1 assms(3), of 3 2 5] assms(1) by simp
  show "story_lina E (at_story d 2 2) = (Inr (), at_story (lina_db E d) 3 2)"
    by (simp only: story_lina_def bind_op_def 1 2 prod.case sum.case)
  show "stage (lina_db E d)" using assms(1) by (simp add: lina_db_def)
  show "fresh E 3 2 {4, 5} {(3, 2), (2, 1), (1, 1)} (lina_db E d)"
    unfolding lina_db_def by (rule fresh_lessons [OF f1 assms(3)]) auto
qed

lemma yusuf_run:
  assumes "stage d" "fresh E 3 2 {4, 5} {(3, 2), (2, 1), (1, 1)} d" "uuids_differ E"
  shows "story_yusuf E (at_story d 3 2) = (Inr (), at_story (yusuf_db E d) 4 2)"
    and "stage (yusuf_db E d)" and "fresh E 4 2 {5} {(4, 3), (3, 2), (2, 1), (1, 1)} (yusuf_db E d)"
proof -
  let ?q = "\<lparr>po_examCompleted = None, po_promoId = Some (demoId BPromo 1), po_amountCents = 10320, po_when = 3\<rparr>"
  let ?d1 = "add_purchase E 4 4 3 ?q d"
  have f1: "fresh E 4 2 {4, 5} {(4, 3), (3, 2), (2, 1), (1, 1)} ?d1"
    using fresh_purchase [OF assms(2), of 4 3 ?q] by (simp add: eval_nat_numeral)
  have 1: "demo_purchase E 4 3 ?q (at_story d 3 2) = (Inr (), at_story ?d1 4 2)"
    using purchase_at [OF assms(1,2), of 4 3 ?q] by (simp add: eval_nat_numeral)
  have 2: "completeLessons E 4 3 1 (at_story ?d1 4 2) = (Inr (), at_story (yusuf_db E d) 4 2)"
    unfolding yusuf_db_def using lessons_at [OF _ f1 assms(3), of 4 3 1] assms(1) by simp
  show "story_yusuf E (at_story d 3 2) = (Inr (), at_story (yusuf_db E d) 4 2)"
    by (simp only: story_yusuf_def bind_op_def 1 2 prod.case sum.case)
  show "stage (yusuf_db E d)" using assms(1) by (simp add: yusuf_db_def)
  show "fresh E 4 2 {5} {(4, 3), (3, 2), (2, 1), (1, 1)} (yusuf_db E d)"
    unfolding yusuf_db_def by (rule fresh_lessons [OF f1 assms(3)]) auto
qed

lemma mona_run:
  assumes "stage d" "fresh E 4 2 {5} {(4, 3), (3, 2), (2, 1), (1, 1)} d" "uuids_differ E" "length (sd_year E) = 4"
    and "numbers_free E ''PAL'' d" "number_at ''PAL'' d < 10 ^ 6" "demoId BIssued 2 \<notin> pk ` set (db_issued d)"
  shows "story_mona E (all_entries CERTS 0) (at_story d 4 2) = (Inr (), at_story (mona_db E d) 6 3)"
proof -
  let ?q = "\<lparr>po_examCompleted = Some True, po_promoId = None, po_amountCents = 19900, po_when = 45\<rparr>"
  let ?q2 = "\<lparr>po_examCompleted = None, po_promoId = None, po_amountCents = 14900, po_when = 2\<rparr>"
  let ?B = "{(4, 3), (3, 2), (2, 1), (1, 1 :: nat)} :: (nat \<times> nat) set"
  let ?d1 = "add_purchase E 5 5 4 ?q d"
  let ?d2 = "add_lessons E 5 4 6 ?d1"
  let ?d3 = "add_attempt E 3 5 (entry cert_pal 1 7) [3, 2, 2, 2, 1] 40 ?d2"
  let ?d4 = "add_issued E ''PAL'' 2 5 4 (demoId BAttempt 3) 40 ?d3"
  have f1: "fresh E 5 2 {5} (insert (5, 4) ?B) ?d1" using fresh_purchase [OF assms(2), of 5 4 ?q] by (simp add: eval_nat_numeral)
  have f2: "fresh E 5 2 {} (insert (5, 4) ?B) ?d2" by (rule fresh_lessons [OF f1 assms(3)]) auto
  have f4: "fresh E 5 3 {} (insert (5, 4) ?B) ?d4" using fresh_attempt [OF f2, of 5] by (simp add: eval_nat_numeral)
  have 1: "demo_purchase E 5 4 ?q (at_story d 4 2) = (Inr (), at_story ?d1 5 2)"
    using purchase_at [OF assms(1,2), of 5 4 ?q] by (simp add: eval_nat_numeral)
  have 2: "completeLessons E 5 4 6 (at_story ?d1 5 2) = (Inr (), at_story ?d2 5 2)"
    using lessons_at [OF _ f1 assms(3), of 5 4 6] assms(1) by simp
  have 3: "demo_attempt E 5 (examsFor (all_entries CERTS 0) 4) 0 [3, 2, 2, 2, 1] 40 (at_story ?d2 5 2) =
      (Inr (demoId BAttempt 3), at_story ?d3 5 3)"
    unfolding examsFor_pal using attempt_at [OF _ f2, of 5 cert_pal 7 1 "[3, 2, 2, 2, 1]"] assms(1)
    by (simp add: story_scores cert_numbers eval_nat_numeral)
  have 4: "demo_issue E 2 5 4 (demoId BAttempt 3) 40 (at_story ?d3 5 3) = (Inr (), at_story ?d4 5 3)"
    using assms by (intro issue_at) simp_all
  have 5: "demo_purchase E 5 1 ?q2 (at_story ?d4 5 3) = (Inr (), at_story (mona_db E d) 6 3)"
    unfolding mona_db_def using purchase_at [OF _ f4, of 5 1 ?q2] assms(1) by (simp add: eval_nat_numeral)
  show ?thesis by (simp only: story_mona_def bind_op_def 1 2 3 4 5 prod.case sum.case)
qed

subsection \<open>The whole script\<close>

lemma vacant_bought:
  assumes "references c" "accounts_vacant c" "0 < u"
  shows "(demoId BUser u, k) \<notin> bought c"
proof -
  have "demoId BUser u \<notin> pk ` set (db_users c)" using assms(2) unfolding accounts_vacant_def by (intro unused_fromD [OF _ assms(3)]) blast
  moreover have "\<forall>x \<in> set (db_purchases c). sp_userId x \<in> pk ` set (db_users c)" using assms(1) by (simp add: reference_defs refs_def)
  ultimately show ?thesis unfolding bought_def image_iff by (metis prod.inject)
qed

lemma vacant_progress:
  assumes "references c" "accounts_vacant c" "rows_vacant E c" "0 < u"
  shows "progress_free E u c"
proof -
  have "demoId BUser u \<notin> pk ` set (db_users c)" using assms(2) unfolding accounts_vacant_def by (intro unused_fromD [OF _ assms(4)]) blast
  moreover have "\<forall>x \<in> set (db_progress c). pr_userId x \<in> pk ` set (db_users c)" using assms(1) by (simp add: reference_defs refs_def)
  ultimately show ?thesis using assms(3) unfolding progress_free_def rows_vacant_def by metis
qed

lemma seeded_program:
  assumes "unused_from BCert 0 (db_certs c)" and "s \<in> set CERTS"
  shows "program_of (seeded_db t h c) (demoId BCert (cp_n s)) = Some (cp_code s)"
proof -
  have "demoId BCert (cp_n s) \<notin> pk ` set (db_certs c)" using assms unused_fromD CERTS_positive by blast
  then have "find_one (\<lambda>x. pk x = demoId BCert (cp_n s)) (db_certs c) = None" by (force simp: find_one_None_iff)
  moreover have "distinct (map pk (map (demo_cert_row t) CERTS))"
  proof -
    have "map pk (map (demo_cert_row t) CERTS) = map (demoId BCert) (map cp_n CERTS)" by (simp add: demo_cert_row_key)
    then show ?thesis unfolding CERTS_n by simp
  qed
  from find_one_key_unique [OF this, of "demo_cert_row t s"]
  have "find_one (\<lambda>x. pk x = demoId BCert (cp_n s)) (map (demo_cert_row t) CERTS) = Some (demo_cert_row t s)"
    using assms(2) by (simp add: demo_cert_row_key)
  ultimately show ?thesis by (simp add: program_of_def seeded_db_def find_one_append) (simp add: demo_cert_row_def)
qed

lemma CERTS_codes: "cp_code cert_psm = ''PSM''" "cp_code cert_pal = ''PAL''" "cert_psm \<in> set CERTS" "cert_pal \<in> set CERTS"
  by (simp_all add: cert_psm_def cert_pal_def CERTS_def)

lemma module_keys: "map pk (all_modules t cs ms) = map (demoId BModule) [Suc ms..<Suc (ms + module_total cs)]"
proof (induction cs arbitrary: ms)
  case (Cons c cs)
  have "map pk (all_modules t (c # cs) ms) = map (demoId BModule) [Suc ms..<Suc (ms + length (cp_modules c))] @
      map (demoId BModule) [Suc (ms + length (cp_modules c))..<Suc (ms + length (cp_modules c) + module_total cs)]"
    by (simp add: Cons.IH module_rows_keys del: upt_Suc)
  also have "\<dots> = map (demoId BModule) [Suc ms..<Suc (ms + length (cp_modules c) + module_total cs)]" by (rule block_append) simp
  finally show ?case by (simp add: module_total_def add.assoc del: upt_Suc)
qed (simp add: module_total_def)

lemma lesson_keys: "map pk (all_lessons t cs ms ls) = map (demoId BLesson) [Suc ls..<Suc (ls + lesson_total cs)]"
proof (induction cs arbitrary: ms ls)
  case (Cons c cs)
  let ?n = "lesson_count (cp_modules c)"
  have "map pk (all_lessons t (c # cs) ms ls) = map (demoId BLesson) [Suc ls..<Suc (ls + ?n)] @
      map (demoId BLesson) [Suc (ls + ?n)..<Suc (ls + ?n + lesson_total cs)]"
    by (simp add: Cons.IH lessons_in_keys del: upt_Suc)
  also have "\<dots> = map (demoId BLesson) [Suc ls..<Suc (ls + ?n + lesson_total cs)]" by (rule block_append) simp
  finally show ?case by (simp add: lesson_total_def add.assoc del: upt_Suc)
qed (simp add: lesson_total_def)

lemma distinct_after:
  assumes "distinct (map pk t)" "unused_from b n t" "map pk rows = map (demoId b) [Suc n..<m]"
  shows "distinct (map pk (t @ rows))"
proof -
  have "pk ` set t \<inter> pk ` set rows = {}"
    unfolding keys_of_block [OF assms(3)] Int_commute [of "pk ` set t"] by (rule unused_block [OF assms(2)]) simp
  moreover have "distinct (map pk rows)" unfolding assms(3) by (rule distinct_block)
  ultimately show ?thesis using assms(1) by simp
qed

lemma stage_seeded:
  assumes "catalogue_vacant c"
  shows "stage (seeded_db t h c)"
proof -
  note v = assms [unfolded catalogue_vacant_def]
  have "demoId BUser ` {1, 2, 3, 4, 5} \<subseteq> pk ` set (db_users (seeded_db t h c))"
    using keys_of_block [OF student_rows_keys, of t h] by (auto simp: seeded_db_def image_Un)
  moreover have "demoId BCert ` {1, 2, 3, 4} \<subseteq> pk ` set (db_certs (seeded_db t h c))"
  proof -
    have "pk ` set (map (demo_cert_row t) CERTS) = demoId BCert ` {1, 2, 3, 4, 5, 6}"
      using CERTS_keys by (simp add: image_image demo_cert_row_key)
    then show ?thesis by (auto simp: seeded_db_def image_Un)
  qed
  moreover have "demoId BExam ` {1, 2, 8} \<subseteq> pk ` set (db_exams (seeded_db t h c))"
  proof -
    have "exam_sum CERTS = 11" unfolding exam_sum_def CERTS_exams by simp
    then have "pk ` set (all_exams t CERTS 0) = demoId BExam ` set [1..<12]" using keys_of_block [OF all_exams_keys, of t CERTS 0] by simp
    then show ?thesis by (auto simp: seeded_db_def image_Un)
  qed
  moreover have "demoId BPromo 1 \<in> pc_id ` set (db_promos (seeded_db t h c))"
    by (simp add: seeded_db_def demo_promos_def demo_promo_def)
  moreover have "distinct (map pk (db_modules (seeded_db t h c)))" "distinct (map pk (db_lessons (seeded_db t h c)))"
    using v distinct_after [of "db_modules c" BModule 0, OF _ _ module_keys] distinct_after [of "db_lessons c" BLesson 0, OF _ _ lesson_keys]
    by (simp_all add: seeded_db_def)
  ultimately show ?thesis
    using v seeded_program [of c cert_psm t h] seeded_program [of c cert_pal t h] CERTS_codes by (simp add: stage_def cert_numbers)
qed

lemma seeded_same [simp]:
  "db_purchases (seeded_db t h c) = db_purchases c" "db_transactions (seeded_db t h c) = db_transactions c"
  "db_attempts (seeded_db t h c) = db_attempts c" "db_progress (seeded_db t h c) = db_progress c"
  "db_issued (seeded_db t h c) = db_issued c" "db_codes (seeded_db t h c) = db_codes c" "db_seqs (seeded_db t h c) = db_seqs c"
  "db_sessions (seeded_db t h c) = db_sessions c" "db_refresh (seeded_db t h c) = db_refresh c" "db_tokens (seeded_db t h c) = db_tokens c"
  by (simp_all add: seeded_db_def)

lemma fresh_seeded:
  assumes "references c" "accounts_vacant c" "rows_vacant E c"
  shows "fresh E 0 0 {1, 2, 3, 4, 5} {} (seeded_db t h c)"
proof -
  have "\<forall>u \<in> {1, 2, 3, 4, 5}. progress_free E u c" using vacant_progress [OF assms] by simp
  moreover have "(demoId BUser u, demoId BCert k) \<notin> bought c" if "0 < u" for u k using vacant_bought [OF assms(1,2) that] .
  ultimately show ?thesis using assms(3)
    by (simp add: fresh_def rows_vacant_def stripe_free_def progress_free_def bought_def)
qed

lemma numbers_seeded [simp]:
  "numbers_free E code (seeded_db t h c) = numbers_free E code c" "number_at code (seeded_db t h c) = number_at code c"
  by (simp_all add: numbers_free_def number_at_def split: option.split)

lemma seedStories_run:
  assumes "references c" "vacant E c" "d = seeded_db t h c"
  shows "seedStories E (all_entries CERTS 0) d = (Inr (), stories_db E d)"
proof -
  note v = assms(2) [unfolded vacant_def]
  have stage: "stage d" and fresh: "fresh E 0 0 {1, 2, 3, 4, 5} {} d"
    using stage_seeded [of c] fresh_seeded [OF assms(1)] v by (simp_all add: assms(3))
  have diff: "uuids_differ E" and y: "length (sd_year E) = 4" using v by simp_all
  have n: "numbers_free E ''PSM'' d" "number_at ''PSM'' d < 10 ^ 6" "unused_from BIssued 0 (db_issued d)"
    using v by (simp_all add: assms(3) rows_vacant_def)
  note sara = sara_run [OF stage fresh diff y n]
  have codes: "unused_from BAccessCode 0 (db_codes (sara_db E d))" using v by (simp add: sara_db_def assms(3) rows_vacant_def)
  note omar = omar_run [OF sara(2,3) diff codes]
  note lina = lina_run [OF omar(2,3) diff]
  note yusuf = yusuf_run [OF lina(2,3) diff]
  let ?d4 = "yusuf_db E (lina_db E (omar_db E (sara_db E d)))"
  have p: "numbers_free E ''PAL'' ?d4" "number_at ''PAL'' ?d4 < 10 ^ 6" "demoId BIssued 2 \<notin> pk ` set (db_issued ?d4)"
    using v unused_fromD [OF n(3), of 2] by (simp_all add: yusuf_db_def lina_db_def omar_db_def sara_db_def assms(3))
  note mona = mona_run [OF yusuf(2,3) diff y p]
  show ?thesis
    by (simp only: seedStories_def bind_op_def sara(1) omar(1) lina(1) yusuf(1) mona stories_db_def prod.case sum.case
        story_state.simps)
qed

lemma demo_main_run:
  assumes "cleanup s = (Inr (), c)" "references c" "vacant E c" "nodeEnv \<noteq> Some ''production''"
  shows "demo_main nodeEnv E s =
    (Inr (), stories_db E (seeded_db (sd_now E) (bc_hash (sd_bcrypt E) (sd_salt E) 12 DEMO_PASSWORD) c))"
proof -
  have v: "accounts_vacant c" "catalogue_vacant c" using assms(3) by (simp_all add: vacant_def)
  let ?h = "bc_hash (sd_bcrypt E) (sd_salt E) 12 DEMO_PASSWORD"
  show ?thesis using assms(4) sections_run [OF assms(2) v, of "sd_now E" ?h "seedStories E"] seedStories_run [OF assms(2,3) refl]
    by (simp add: demo_main_def Let_def bind_op_def [of cleanup] assms(1))
qed

end
