(* ===== verification/DemoCleanup.thy ===== *)
theory DemoCleanup
  imports DemoStories
begin

section \<open>The removal takes away what the seeder inserted\<close>

text \<open>
  A database extends another when each table goes on with demo rows. The removal gives back the tables of the
  smaller one, whatever the demo rows are, and a run of the script extends the database it found: so the script can be
  run again.
\<close>

subsection \<open>Extensions by demo rows\<close>

definition grown :: "('r \<Rightarrow> bool) \<Rightarrow> 'r list \<Rightarrow> 'r list \<Rightarrow> bool" where
  "grown P t t' \<longleftrightarrow> (\<exists>rows. t' = t @ rows \<and> list_all P rows)"

definition demo_key :: "demo_block \<Rightarrow> uuid \<Rightarrow> bool" where
  "demo_key b k \<longleftrightarrow> (\<exists>n > 0. k = demoId b n)"

abbreviation demo_users :: "uuid set" where
  "demo_users \<equiv> set (demo_ids BUser 16)"

definition demo_certs :: "uuid set" where
  "demo_certs = set (map (\<lambda>c. demoId BCert (cp_n c)) CERTS)"

definition demo_modules :: "seed_db \<Rightarrow> uuid set" where
  "demo_modules s = pk ` set (filter (\<lambda>m. m_certId m \<in> demo_certs) (db_modules s))"

definition demo_exams :: "seed_db \<Rightarrow> uuid set" where
  "demo_exams s = pk ` set (filter (\<lambda>e. e_certId e \<in> demo_certs) (db_exams s))"

definition demo_questions :: "seed_db \<Rightarrow> uuid set" where
  "demo_questions s = pk ` set (filter (\<lambda>q. q_examId q \<in> demo_exams s) (db_questions s))"

definition catalogue_grown :: "seed_db \<Rightarrow> seed_db \<Rightarrow> bool" where
  "catalogue_grown c s \<longleftrightarrow> grown (\<lambda>r. pk r \<in> demo_certs) (db_certs c) (db_certs s) \<and>
     grown (\<lambda>r. m_certId r \<in> demo_certs \<and> demo_key BModule (pk r)) (db_modules c) (db_modules s) \<and>
     grown (\<lambda>r. l_moduleId r \<in> demo_modules s \<and> demo_key BLesson (pk r)) (db_lessons c) (db_lessons s) \<and>
     grown (\<lambda>r. e_certId r \<in> demo_certs \<and> demo_key BExam (pk r)) (db_exams c) (db_exams s) \<and>
     grown (\<lambda>r. q_examId r \<in> demo_exams s \<and> demo_key BQuestion (pk r)) (db_questions c) (db_questions s) \<and>
     grown (\<lambda>r. o_questionId r \<in> demo_questions s) (db_options c) (db_options s)"

definition rows_grown :: "seed_db \<Rightarrow> seed_db \<Rightarrow> bool" where
  "rows_grown c s \<longleftrightarrow> grown (\<lambda>r. ac_userId r \<in> demo_users) (db_codes c) (db_codes s) \<and>
     grown (\<lambda>r. at_userId r \<in> demo_users \<and> demo_key BAttempt (pk r)) (db_attempts c) (db_attempts s) \<and>
     grown (\<lambda>r. sp_userId r \<in> demo_users) (db_purchases c) (db_purchases s) \<and>
     grown (\<lambda>r. pr_userId r \<in> demo_users) (db_progress c) (db_progress s) \<and>
     grown (\<lambda>r. tx_userId r \<in> demo_users) (db_transactions c) (db_transactions s) \<and>
     grown (\<lambda>r. iss_userId r \<in> demo_users) (db_issued c) (db_issued s)"

definition accounts_grown :: "seed_db \<Rightarrow> seed_db \<Rightarrow> bool" where
  "accounts_grown c s \<longleftrightarrow> grown (\<lambda>r. pk r \<in> demo_users) (db_users c) (db_users s) \<and>
     grown (\<lambda>r. pk r \<in> set (demo_ids BAdmin 8) \<and> a_role r \<noteq> SUPER_ADMIN) (db_admins c) (db_admins s) \<and>
     grown (\<lambda>r. pc_id r \<in> set (demo_ids BPromo 8)) (db_promos c) (db_promos s) \<and>
     db_sessions s = db_sessions c \<and> db_refresh s = db_refresh c \<and> db_tokens s = db_tokens c"

definition extends :: "seed_db \<Rightarrow> seed_db \<Rightarrow> bool" where
  "extends c s \<longleftrightarrow> catalogue_grown c s \<and> rows_grown c s \<and> accounts_grown c s"

subsection \<open>Dropping demo rows\<close>

definition demo_only :: "demo_block \<Rightarrow> uuid set \<Rightarrow> bool" where
  "demo_only b gone \<longleftrightarrow> (\<forall>k \<in> gone. demo_key b k)"

lemma grown_refl [simp]: "grown P t t"
  by (simp add: grown_def)

lemma grown_append: "grown P t t' \<Longrightarrow> list_all P rows \<Longrightarrow> grown P t (t' @ rows)"
  by (auto simp: grown_def)

lemma without_none: "\<forall>r \<in> set t. key r \<notin> gone \<Longrightarrow> without key gone t = t"
  by (simp add: without_def filter_id_conv)

lemma grown_drop:
  assumes "grown P t t'" "\<forall>r \<in> set t. key r \<notin> gone" "\<And>r. P r \<Longrightarrow> key r \<in> gone"
  shows "without key gone t' = t"
proof -
  from assms(1) obtain rows where t': "t' = t @ rows" "list_all P rows" by (auto simp: grown_def)
  have "filter (\<lambda>r. key r \<notin> gone) rows = []" using t'(2) assms(3) by (auto simp: list_all_iff filter_empty_conv)
  moreover have "filter (\<lambda>r. key r \<notin> gone) t = t" using assms(2) by (simp add: filter_id_conv)
  ultimately show ?thesis by (simp add: without_def t'(1))
qed

lemma grown_without: "grown P t t' \<Longrightarrow> \<forall>r \<in> set t. key r \<notin> gone \<Longrightarrow> grown P t (without key gone t')"
  by (auto simp: grown_def without_def filter_id_conv list_all_iff)

lemma demo_key_unused: "demo_key b k \<Longrightarrow> unused_from b 0 t \<Longrightarrow> k \<notin> pk ` set t"
  by (auto simp: demo_key_def dest!: unused_fromD)

lemma keys_outside: "unused_from b 0 t \<Longrightarrow> demo_only b gone \<Longrightarrow> \<forall>r \<in> set t. pk r \<notin> gone"
  using demo_key_unused unfolding demo_only_def by blast

lemma refs_outside: "refs f t ps \<Longrightarrow> unused_from b 0 ps \<Longrightarrow> demo_only b gone \<Longrightarrow> \<forall>r \<in> set t. f r \<notin> gone"
  using demo_key_unused unfolding demo_only_def refs_def by blast

lemma refs_opt_outside: "refs_opt f t pk ps \<Longrightarrow> unused_from b 0 ps \<Longrightarrow> demo_only b gone \<Longrightarrow> \<forall>r \<in> set t. \<forall>k. f r = Some k \<longrightarrow> k \<notin> gone"
  using demo_key_unused unfolding demo_only_def refs_opt_def by blast

text \<open>The rows that refer to a gone one, as the cascades collect them.\<close>

lemma grown_drop_keys:
  assumes g: "grown (\<lambda>r. f r \<in> G \<and> demo_key b (pk r)) t t'" and o: "\<forall>r \<in> set t. f r \<notin> G" and u: "unused_from b 0 t"
  shows "without pk (pk ` set (filter (\<lambda>r. f r \<in> G) t')) t' = t" and "demo_only b (pk ` set (filter (\<lambda>r. f r \<in> G) t'))"
proof -
  from g obtain rows where t': "t' = t @ rows" "\<forall>r \<in> set rows. f r \<in> G \<and> demo_key b (pk r)"
    by (auto simp: grown_def list_all_iff)
  have gone: "set (filter (\<lambda>r. f r \<in> G) t') = set rows" using t' o by auto
  then show d: "demo_only b (pk ` set (filter (\<lambda>r. f r \<in> G) t'))" using t'(2) by (auto simp: demo_only_def)
  have "grown (\<lambda>r. r \<in> set rows) t t'" using t'(1) by (auto simp: grown_def list_all_iff)
  then show "without pk (pk ` set (filter (\<lambda>r. f r \<in> G) t')) t' = t"
    using keys_outside [OF u d] gone by (intro grown_drop [where P = "\<lambda>r. r \<in> set rows"]) auto
qed

lemma demo_ids_only: "demo_only b (set (demo_ids b n))"
  by (auto simp: demo_only_def demo_key_def demo_ids_def)

lemma demo_certs_only: "demo_only BCert demo_certs"
  using CERTS_positive by (auto simp: demo_only_def demo_key_def demo_certs_def)

subsection \<open>The removal\<close>

lemma delete_users_restores:
  assumes r: "references c" and "unused_from BUser 0 (db_users c)" "unused_from BAttempt 0 (db_attempts c)"
    and g: "rows_grown c s" "accounts_grown c s"
  shows "delete_users (demo_ids BUser 16) s = s\<lparr>db_users := db_users c, db_codes := db_codes c, db_attempts := db_attempts c,
     db_purchases := db_purchases c, db_progress := db_progress c, db_transactions := db_transactions c, db_issued := db_issued c\<rparr>"
proof -
  note g = g [unfolded rows_grown_def accounts_grown_def]
  have out: "refs f t (db_users c) \<Longrightarrow> \<forall>r \<in> set t. f r \<notin> demo_users" for f and t :: "'r list"
    using refs_outside [OF _ assms(2) demo_ids_only] .
  let ?as = "pk ` set (filter (\<lambda>a. at_userId a \<in> demo_users) (db_attempts s))"
  have at: "\<forall>a \<in> set (db_attempts c). at_userId a \<notin> demo_users" using r by (intro out) (simp add: reference_defs)
  have a: "without pk ?as (db_attempts s) = db_attempts c" "demo_only BAttempt ?as"
    using grown_drop_keys [OF _ at assms(3)] g by blast+
  have users: "without pk demo_users (db_users s) = db_users c"
    using g keys_outside [OF assms(2) demo_ids_only] by (intro grown_drop [where P = "\<lambda>r. pk r \<in> demo_users"]) auto
  have codes: "without ac_userId demo_users (db_codes s) = db_codes c"
    using g r by (intro grown_drop [where P = "\<lambda>r. ac_userId r \<in> demo_users"] out) (auto simp: reference_defs)
  have purchases: "without sp_userId demo_users (db_purchases s) = db_purchases c"
    using g r by (intro grown_drop [where P = "\<lambda>r. sp_userId r \<in> demo_users"] out) (auto simp: reference_defs)
  have progress: "without pr_userId demo_users (db_progress s) = db_progress c"
    using g r by (intro grown_drop [where P = "\<lambda>r. pr_userId r \<in> demo_users"] out) (auto simp: reference_defs)
  have transactions: "without tx_userId demo_users (db_transactions s) = db_transactions c"
    using g r by (intro grown_drop [where P = "\<lambda>r. tx_userId r \<in> demo_users"] out) (auto simp: reference_defs)
  have "\<forall>x \<in> set (db_issued c). iss_examAttemptId x \<notin> ?as"
    using r by (intro refs_outside [OF _ assms(3) a(2)]) (simp add: reference_defs)
  then have "grown (\<lambda>r. iss_userId r \<in> demo_users) (db_issued c) (without iss_examAttemptId ?as (db_issued s))"
    using g by (intro grown_without) simp_all
  then have issued: "without iss_userId demo_users (without iss_examAttemptId ?as (db_issued s)) = db_issued c"
    using r by (intro grown_drop [where P = "\<lambda>r. iss_userId r \<in> demo_users"] out) (auto simp: reference_defs)
  have "without ts_userId demo_users (db_sessions c) = db_sessions c" "without tk_userId demo_users (db_tokens c) = db_tokens c"
    using r by (intro without_none out; simp add: reference_defs)+
  then have sessions: "without ts_userId demo_users (db_sessions s) = db_sessions s"
    and tokens: "without tk_userId demo_users (db_tokens s) = db_tokens s" using g by simp_all
  have "\<forall>x \<in> set (db_refresh c). \<forall>k. rt_userId x = Some k \<longrightarrow> k \<notin> demo_users"
    using r by (intro refs_opt_outside [OF _ assms(2) demo_ids_only]) (simp add: reference_defs)
  then have refresh: "filter (\<lambda>r. case rt_userId r of None \<Rightarrow> True | Some u \<Rightarrow> u \<notin> demo_users) (db_refresh s) = db_refresh s"
    using g by (auto simp: filter_id_conv split: option.split)
  show ?thesis
    by (simp add: delete_users_def Let_def drop_attempts_def a(1) users codes purchases progress transactions issued sessions tokens refresh
        del: set_filter)
qed

lemma delete_certificates_restores:
  assumes r: "references c" and u: "catalogue_vacant c" and g: "catalogue_grown c s"
    and same: "db_codes s = db_codes c" "db_attempts s = db_attempts c" "db_purchases s = db_purchases c"
      "db_progress s = db_progress c" "db_transactions s = db_transactions c" "db_issued s = db_issued c" "db_sessions s = db_sessions c"
  shows "delete_certificates (map (\<lambda>c. demoId BCert (cp_n c)) CERTS) s = s\<lparr>db_certs := db_certs c, db_modules := db_modules c,
     db_lessons := db_lessons c, db_exams := db_exams c, db_questions := db_questions c, db_options := db_options c\<rparr>"
proof -
  note g = g [unfolded catalogue_grown_def]
  have uc: "unused_from BCert 0 (db_certs c)" and um: "unused_from BModule 0 (db_modules c)"
    and ul: "unused_from BLesson 0 (db_lessons c)" and ue: "unused_from BExam 0 (db_exams c)"
    and uq: "unused_from BQuestion 0 (db_questions c)" using u unfolding catalogue_vacant_def by blast+
  have cert: "refs f t (db_certs c) \<Longrightarrow> \<forall>r \<in> set t. f r \<notin> demo_certs" for f and t :: "'r list"
    using refs_outside [OF _ uc demo_certs_only] .
  have m: "\<forall>x \<in> set (db_modules c). m_certId x \<notin> demo_certs" using r by (intro cert) (simp add: reference_defs)
  have modules: "without pk (demo_modules s) (db_modules s) = db_modules c" "demo_only BModule (demo_modules s)"
    unfolding demo_modules_def using grown_drop_keys [OF _ m um] g by blast+
  have "\<forall>x \<in> set (db_lessons c). l_moduleId x \<notin> demo_modules s"
    using r by (intro refs_outside [OF _ um modules(2)]) (simp add: reference_defs)
  from grown_drop_keys [OF _ this ul] g
  have lessons: "without pk (pk ` set (filter (\<lambda>l. l_moduleId l \<in> demo_modules s) (db_lessons s))) (db_lessons s) = db_lessons c"
    "demo_only BLesson (pk ` set (filter (\<lambda>l. l_moduleId l \<in> demo_modules s) (db_lessons s)))" by blast+
  have e: "\<forall>x \<in> set (db_exams c). e_certId x \<notin> demo_certs" using r by (intro cert) (simp add: reference_defs)
  have exams: "without pk (demo_exams s) (db_exams s) = db_exams c" "demo_only BExam (demo_exams s)"
    unfolding demo_exams_def using grown_drop_keys [OF _ e ue] g by blast+
  have exam: "refs f t (db_exams c) \<Longrightarrow> \<forall>r \<in> set t. f r \<notin> demo_exams s" for f and t :: "'r list"
    using refs_outside [OF _ ue exams(2)] .
  have q: "\<forall>x \<in> set (db_questions c). q_examId x \<notin> demo_exams s" using r by (intro exam) (simp add: reference_defs)
  have questions: "without q_examId (demo_exams s) (db_questions s) = db_questions c"
    using g by (intro grown_drop [OF _ q, where P = "\<lambda>r. q_examId r \<in> demo_exams s \<and> demo_key BQuestion (pk r)"]) auto
  have qs: "demo_only BQuestion (demo_questions s)"
    unfolding demo_questions_def using grown_drop_keys [OF _ q uq] g by blast
  have "\<forall>x \<in> set (db_options c). o_questionId x \<notin> demo_questions s"
    using r by (intro refs_outside [OF _ uq qs]) (simp add: reference_defs)
  then have options: "without o_questionId (demo_questions s) (db_options s) = db_options c"
    using g by (intro grown_drop [where P = "\<lambda>r. o_questionId r \<in> demo_questions s"]) auto
  have no_attempts: "filter (\<lambda>a. at_certId a \<in> demo_certs) (db_attempts c) = []" "filter (\<lambda>a. at_examId a \<in> demo_exams s) (db_attempts c) = []"
    using r cert [of at_certId "db_attempts c"] exam [of at_examId "db_attempts c"] by (simp_all add: filter_empty_conv reference_defs)
  have certs: "without pk demo_certs (db_certs s) = db_certs c"
    using g keys_outside [OF uc demo_certs_only] by (intro grown_drop [where P = "\<lambda>r. pk r \<in> demo_certs"]) auto
  have progress: "without pr_lessonId (pk ` set (filter (\<lambda>l. l_moduleId l \<in> demo_modules s) (db_lessons s))) (db_progress c) = db_progress c"
    using r by (intro without_none refs_outside [OF _ ul lessons(2)]) (simp add: reference_defs)
  have dependents: "without ac_certId demo_certs (db_codes c) = db_codes c" "without sp_certId demo_certs (db_purchases c) = db_purchases c"
    "without tx_certId demo_certs (db_transactions c) = db_transactions c" "without iss_certificateId demo_certs (db_issued c) = db_issued c"
    "without ac_examId (demo_exams s) (db_codes c) = db_codes c" "without ts_examId (demo_exams s) (db_sessions c) = db_sessions c"
    using r by (intro without_none cert exam; simp add: reference_defs)+
  have empty: "without f {} t = t" for f :: "'r \<Rightarrow> uuid" and t by (simp add: without_def)
  show ?thesis
    by (simp add: delete_certificates_def Let_def drop_modules_def drop_lessons_def drop_exams_def drop_attempts_def same
        demo_certs_def [symmetric, simplified] demo_modules_def [symmetric] demo_exams_def [symmetric] demo_questions_def [symmetric] no_attempts
        modules(1) lessons(1) exams(1) questions options certs progress dependents empty del: set_filter)
qed

lemma trigger_deletes_ok: "\<forall>r \<in> set rows. P r \<longrightarrow> a_role r \<noteq> SUPER_ADMIN \<Longrightarrow> trigger_deletes P rows = Inr (filter (\<lambda>r. \<not> P r) rows)"
  by (induction rows) (simp_all add: protect_super_admin_role_def)

lemma trigger_rows_none: "\<forall>r \<in> set rows. \<not> P r \<Longrightarrow> trigger_rows P f rows = Inr rows"
  by (induction rows) simp_all

lemma set_null_outside: "(\<forall>k. v = Some k \<longrightarrow> k \<notin> gone) \<Longrightarrow> set_null gone v = v"
  by (auto simp: set_null_def split: option.split)

lemma delete_admins_restores:
  assumes r: "references c" and u: "unused_from BAdmin 0 (db_admins c)" and g: "accounts_grown c s"
  shows "delete_admin_users (demo_ids BAdmin 8) s = (Inr (), s\<lparr>db_admins := db_admins c,
     db_promos := map (\<lambda>p. p\<lparr>pc_createdById := set_null (set (demo_ids BAdmin 8)) (pc_createdById p)\<rparr>) (db_promos s)\<rparr>)"
proof -
  let ?gone = "set (demo_ids BAdmin 8)"
  note g = g [unfolded accounts_grown_def]
  have out: "refs_opt f t pk (db_admins c) \<Longrightarrow> \<forall>r \<in> set t. \<forall>k. f r = Some k \<longrightarrow> k \<notin> ?gone" for f and t :: "'r list"
    using refs_opt_outside [OF _ u demo_ids_only] .
  have kept: "\<forall>a \<in> set (db_admins c). pk a \<notin> ?gone" by (rule keys_outside [OF u demo_ids_only])
  have "\<forall>a \<in> set (db_admins s). pk a \<in> ?gone \<longrightarrow> a_role a \<noteq> SUPER_ADMIN" using g kept by (auto simp: grown_def list_all_iff)
  from trigger_deletes_ok [of _ "\<lambda>a. pk a \<in> ?gone", OF this]
  have "trigger_deletes (\<lambda>a. pk a \<in> ?gone) (db_admins s) = Inr (without pk ?gone (db_admins s))" by (simp add: without_def)
  moreover have "without pk ?gone (db_admins s) = db_admins c"
    using g kept by (intro grown_drop [where P = "\<lambda>r. pk r \<in> ?gone \<and> a_role r \<noteq> SUPER_ADMIN"]) auto
  ultimately have 1: "delete_admins (\<lambda>a. pk a \<in> ?gone) (db_admins s) = (Inr (), db_admins c)" by (simp add: delete_admins_def)
  have "\<forall>a \<in> set (db_admins c). \<forall>k. a_createdById a = Some k \<longrightarrow> k \<notin> ?gone" using r by (intro out) (simp add: reference_defs)
  then have "\<forall>a \<in> set (db_admins c). \<not> created_by ?gone a" by (auto simp: created_by_def split: option.split)
  then have 2: "update_admins (created_by ?gone) f (db_admins c) = (Inr (), db_admins c)" for f
    by (simp add: update_admins_def trigger_rows_none)
  have "\<forall>x \<in> set (db_refresh c). \<forall>k. rt_adminId x = Some k \<longrightarrow> k \<notin> ?gone" using r by (intro out) (simp add: reference_defs)
  then have 3: "filter (\<lambda>r. case rt_adminId r of None \<Rightarrow> True | Some a \<Rightarrow> a \<notin> ?gone) (db_refresh s) = db_refresh s"
    using g by (auto simp: filter_id_conv split: option.split)
  show ?thesis unfolding delete_admin_users_def Let_def 1 prod.case sum.case 2 3 by simp
qed

lemma delete_promos_restores:
  assumes r: "references c" and v: "accounts_vacant c" and g: "grown (\<lambda>r. pc_id r \<in> set (demo_ids BPromo 8)) (db_promos c) ps"
    and s: "db_promos s = map (\<lambda>p. p\<lparr>pc_createdById := set_null (set (demo_ids BAdmin 8)) (pc_createdById p)\<rparr>) ps"
    and x: "db_transactions s = db_transactions c"
  shows "delete_promos (demo_ids BPromo 8) s = s\<lparr>db_promos := db_promos c\<rparr>"
proof -
  let ?gone = "set (demo_ids BPromo 8)" and ?g = "\<lambda>p. p\<lparr>pc_createdById := set_null (set (demo_ids BAdmin 8)) (pc_createdById p)\<rparr>"
  from g obtain rows where ps: "ps = db_promos c @ rows" "\<forall>r \<in> set rows. pc_id r \<in> ?gone" by (auto simp: grown_def list_all_iff)
  have "unused_from BAdmin 0 (db_admins c)" using v by (simp add: accounts_vacant_def)
  from refs_opt_outside [OF _ this demo_ids_only, of pc_createdById "db_promos c" 8] r
  have "\<forall>p \<in> set (db_promos c). ?g p = p" by (auto simp: reference_defs set_null_outside)
  then have same: "map ?g (db_promos c) = db_promos c" by (simp add: map_idI)
  have out: "\<forall>p \<in> set (db_promos c). pc_id p \<notin> ?gone" using v by (auto simp: accounts_vacant_def demo_ids_def)
  then have "grown (\<lambda>r. pc_id r \<in> ?gone) (db_promos c) (db_promos s)"
    using ps by (auto simp: s same grown_def list_all_iff)
  from grown_drop [OF this out] have 1: "without pc_id ?gone (db_promos s) = db_promos c" by simp
  have "\<forall>x \<in> set (db_transactions c). \<forall>k. tx_promoCodeId x = Some k \<longrightarrow> k \<notin> ?gone"
    using r out by (fastforce simp: reference_defs refs_opt_def)
  then have 2: "map (\<lambda>x. x\<lparr>tx_promoCodeId := set_null ?gone (tx_promoCodeId x)\<rparr>) (db_transactions s) = db_transactions s"
    unfolding x by (intro map_idI) (simp add: set_null_outside)
  show ?thesis by (simp add: delete_promos_def 1 2)
qed

lemma cleanup_restores:
  assumes "references c" "accounts_vacant c" "catalogue_vacant c" "unused_from BAttempt 0 (db_attempts c)" "extends c s"
  shows "cleanup s = (Inr (), c\<lparr>db_seqs := db_seqs s\<rparr>)"
proof -
  let ?s1 = "s\<lparr>db_users := db_users c, db_codes := db_codes c, db_attempts := db_attempts c,
     db_purchases := db_purchases c, db_progress := db_progress c, db_transactions := db_transactions c, db_issued := db_issued c\<rparr>"
  let ?s2 = "?s1\<lparr>db_certs := db_certs c, db_modules := db_modules c,
     db_lessons := db_lessons c, db_exams := db_exams c, db_questions := db_questions c, db_options := db_options c\<rparr>"
  let ?ps = "map (\<lambda>p. p\<lparr>pc_createdById := set_null (set (demo_ids BAdmin 8)) (pc_createdById p)\<rparr>) (db_promos s)"
  let ?s3 = "?s2\<lparr>db_admins := db_admins c, db_promos := ?ps\<rparr>"
  have g: "catalogue_grown c s" "rows_grown c s" "accounts_grown c s" using assms(5) by (simp_all add: extends_def)
  have u: "unused_from BUser 0 (db_users c)" "unused_from BAdmin 0 (db_admins c)" using assms(2) by (simp_all add: accounts_vacant_def)
  have 1: "delete_users (demo_ids BUser 16) s = ?s1" by (rule delete_users_restores [OF assms(1) u(1) assms(4) g(2,3)])
  have "catalogue_grown c ?s1" using g(1) by (simp add: catalogue_grown_def demo_modules_def demo_exams_def demo_questions_def)
  moreover have "db_sessions ?s1 = db_sessions c" using g(3) by (simp add: accounts_grown_def)
  ultimately have 2: "delete_certificates (map (\<lambda>c. demoId BCert (cp_n c)) CERTS) ?s1 = ?s2"
    by (intro delete_certificates_restores [OF assms(1,3)]) simp_all
  have "accounts_grown c ?s2" using g(3) by (simp add: accounts_grown_def)
  from delete_admins_restores [OF assms(1) u(2) this]
  have 3: "delete_admin_users (demo_ids BAdmin 8) ?s2 = (Inr (), ?s3)" by simp
  have "grown (\<lambda>r. pc_id r \<in> set (demo_ids BPromo 8)) (db_promos c) (db_promos s)" using g(3) by (simp add: accounts_grown_def)
  from delete_promos_restores [OF assms(1,2) this, of ?s3]
  have 4: "delete_promos (demo_ids BPromo 8) ?s3 = ?s3\<lparr>db_promos := db_promos c\<rparr>" by simp
  have 5: "?s3\<lparr>db_promos := db_promos c\<rparr> = c\<lparr>db_seqs := db_seqs s\<rparr>"
    using g(3) by (simp add: accounts_grown_def)
  show ?thesis unfolding cleanup_def Let_def 1 2 bind_op_def 3 prod.case sum.case 4 5 ..
qed

subsection \<open>A run extends its database\<close>

lemma module_rows_cert: "m \<in> set (module_rows t c mi mods ms) \<Longrightarrow> m_certId m = demoId BCert c"
  by (induction mods arbitrary: mi ms) (auto simp: module_row_def)

lemma all_modules_certs: "m \<in> set (all_modules t cs ms) \<Longrightarrow> m_certId m \<in> (\<lambda>c. demoId BCert (cp_n c)) ` set cs"
  by (induction cs arbitrary: ms) (auto dest: module_rows_cert)

lemma lesson_rows_module: "l \<in> set (lesson_rows t ms li titles ls) \<Longrightarrow> l_moduleId l = demoId BModule ms"
  by (induction titles arbitrary: li ls) (auto simp: lesson_row_def)

lemma lessons_in_modules: "l \<in> set (lessons_in t mods ms ls) \<Longrightarrow> l_moduleId l \<in> demoId BModule ` set [Suc ms..<Suc (ms + length mods)]"
proof (induction mods arbitrary: ms ls)
  case (Cons md mods)
  obtain title titles where m: "md = (title, titles)" by (cases md)
  from Cons.prems consider "l_moduleId l = demoId BModule (Suc ms)" | "l \<in> set (lessons_in t mods (Suc ms) (ls + length titles))"
    by (auto simp: m dest: lesson_rows_module)
  then show ?case
  proof cases
    case 2
    from Cons.IH [OF this] show ?thesis by (auto simp del: upt_Suc)
  qed (auto simp del: upt_Suc)
qed simp

lemma all_lessons_modules: "l \<in> set (all_lessons t cs ms ls) \<Longrightarrow> l_moduleId l \<in> pk ` set (all_modules t cs ms)"
proof (induction cs arbitrary: ms ls)
  case (Cons c cs)
  then consider "l \<in> set (lessons_in t (cp_modules c) ms ls)"
    | "l \<in> set (all_lessons t cs (ms + length (cp_modules c)) (ls + lesson_count (cp_modules c)))" by auto
  then show ?case
  proof cases
    case 1
    have "pk ` set (module_rows t (cp_n c) 0 (cp_modules c) ms) = demoId BModule ` set [Suc ms..<Suc (ms + length (cp_modules c))]"
      by (rule keys_of_block [OF module_rows_keys])
    with lessons_in_modules [OF 1] show ?thesis by (simp add: image_Un del: upt_Suc)
  next
    case 2
    from Cons.IH [OF this] show ?thesis by (simp add: image_Un)
  qed
qed simp

lemma order_questions_exams: "q \<in> set (order_questions t spec ns e) \<Longrightarrow> q_examId q \<in> pk ` set (order_exams t spec ns e)"
proof (induction ns arbitrary: e)
  case (Cons n ns)
  then consider "q_examId q = demoId BExam (Suc e)" | "q \<in> set (order_questions t spec ns (Suc e))" by (auto dest: question_rows_exam)
  then show ?case
  proof cases
    case 2
    from Cons.IH [OF this] show ?thesis by simp
  qed (simp add: exam_row_def)
qed simp

lemma all_questions_exams: "q \<in> set (all_questions t cs e) \<Longrightarrow> q_examId q \<in> pk ` set (all_exams t cs e)"
proof (induction cs arbitrary: e)
  case (Cons c cs)
  then show ?case using order_questions_exams [of q t c "orders c" e] Cons.IH [of "e + exam_total c"] by (auto simp: image_Un)
qed simp

lemma order_options_questions: "x \<in> set (order_options t ns e) \<Longrightarrow> o_questionId x \<in> pk ` set (order_questions t spec ns e)"
proof (induction ns arbitrary: e)
  case (Cons n ns)
  then consider "x \<in> set (exam_options t 0 QUESTION_MARKS (5 * e) (16 * e))" | "x \<in> set (order_options t ns (Suc e))" by auto
  then show ?case
  proof cases
    case 1
    have "pk ` set (question_rows t spec n (Suc e) 0 QUESTION_MARKS (5 * e)) =
        demoId BQuestion ` set [Suc (5 * e)..<Suc (5 * e + length QUESTION_MARKS)]" by (rule keys_of_block [OF question_rows_keys])
    with exam_options_question [OF 1] have "o_questionId x \<in> pk ` set (question_rows t spec n (Suc e) 0 QUESTION_MARKS (5 * e))"
      by (auto simp del: upt_Suc)
    then show ?thesis by (simp add: image_Un)
  next
    case 2
    from Cons.IH [OF this] show ?thesis by (simp add: image_Un)
  qed
qed simp

lemma all_options_questions: "x \<in> set (all_options t cs e) \<Longrightarrow> o_questionId x \<in> pk ` set (all_questions t cs e)"
proof (induction cs arbitrary: e)
  case (Cons c cs)
  then show ?case using order_options_questions [of x t "orders c" e c] Cons.IH [of "e + exam_total c"] by (auto simp: image_Un)
qed simp

lemma all_exams_certificates: "x \<in> set (all_exams t cs e) \<Longrightarrow> e_certId x \<in> (\<lambda>c. demoId BCert (cp_n c)) ` set cs"
  by (induction cs arbitrary: e) (auto dest: all_exams_certs)

lemma demo_block_keys: "map pk rows = map (demoId b) [Suc 0..<n] \<Longrightarrow> r \<in> set rows \<Longrightarrow> demo_key b (pk r)"
proof -
  assume "map pk rows = map (demoId b) [Suc 0..<n]" "r \<in> set rows"
  then have "pk r \<in> demoId b ` set [Suc 0..<n]" using keys_of_block by blast
  then show ?thesis by (auto simp: demo_key_def simp del: upt_Suc)
qed

lemma question_keys: "map pk (all_questions t cs e) = map (demoId BQuestion) [Suc (5 * e)..<Suc (5 * (e + exam_sum cs))]"
proof (induction cs arbitrary: e)
  case (Cons c cs)
  have "map pk (all_questions t (c # cs) e) = map (demoId BQuestion) [Suc (5 * e)..<Suc (5 * (e + exam_total c))] @
      map (demoId BQuestion) [Suc (5 * (e + exam_total c))..<Suc (5 * (e + exam_total c) + 5 * exam_sum cs)]"
    using order_questions_keys [of t c "orders c" e] by (simp add: Cons.IH del: upt_Suc)
  also have "\<dots> = map (demoId BQuestion) [Suc (5 * e)..<Suc (5 * (e + exam_total c) + 5 * exam_sum cs)]" by (rule block_append) simp
  finally show ?case by (simp add: exam_sum_def add.assoc del: upt_Suc)
qed (simp add: exam_sum_def)

lemma seeded_tables [simp]:
  "db_modules (seeded_db t h c) = db_modules c @ all_modules t CERTS 0" "db_exams (seeded_db t h c) = db_exams c @ all_exams t CERTS 0"
  "db_questions (seeded_db t h c) = db_questions c @ all_questions t CERTS 0"
  by (simp_all add: seeded_db_def)

lemma catalogue_grown_seeded: "catalogue_grown c (seeded_db t h c)"
proof -
  let ?s = "seeded_db t h c"
  have m: "m_certId x \<in> demo_certs" "demo_key BModule (pk x)" if "x \<in> set (all_modules t CERTS 0)" for x
    using all_modules_certs [OF that] demo_block_keys [OF module_keys that] by (simp_all add: demo_certs_def)
  have l: "l_moduleId x \<in> demo_modules ?s" "demo_key BLesson (pk x)" if "x \<in> set (all_lessons t CERTS 0 0)" for x
    using all_lessons_modules [OF that] m(1) demo_block_keys [OF lesson_keys that] by (auto simp: demo_modules_def)
  have e: "e_certId x \<in> demo_certs" "demo_key BExam (pk x)" if "x \<in> set (all_exams t CERTS 0)" for x
    using all_exams_certificates [OF that] demo_block_keys [OF all_exams_keys that] by (simp_all add: demo_certs_def)
  have "map pk (all_questions t CERTS 0) = map (demoId BQuestion) [Suc 0..<Suc (5 * exam_sum CERTS)]"
    using question_keys [of t CERTS 0] by (simp del: upt_Suc)
  note qk = demo_block_keys [OF this]
  have q: "q_examId x \<in> demo_exams ?s" "demo_key BQuestion (pk x)" if "x \<in> set (all_questions t CERTS 0)" for x
    using all_questions_exams [OF that] e(1) qk [OF that] by (auto simp: demo_exams_def)
  have o: "o_questionId x \<in> demo_questions ?s" if "x \<in> set (all_options t CERTS 0)" for x
    using all_options_questions [OF that] q(1) by (auto simp: demo_questions_def)
  have c: "\<forall>x \<in> set CERTS. pk (demo_cert_row t x) \<in> demo_certs" by (simp add: demo_cert_row_key demo_certs_def)
  show ?thesis
    unfolding catalogue_grown_def seeded_tables using m l e q o c
    by (intro conjI grown_append; simp add: seeded_db_def list_all_iff grown_append)
qed

lemma extends_seeded: "extends c (seeded_db t h c)"
proof -
  have "list_all (\<lambda>r. pk r \<in> demo_users) (student_rows t h)"
    by (simp add: student_rows_def demo_students_def student_row_def demo_ids_def)
  moreover have "list_all (\<lambda>r. pk r \<in> set (demo_ids BAdmin 8) \<and> a_role r \<noteq> SUPER_ADMIN) (admin_rows t h)"
    by (simp add: admin_rows_def demo_admins_def admin_row_def demo_ids_def)
  moreover have "list_all (\<lambda>r. pc_id r \<in> set (demo_ids BPromo 8)) (demo_promos t)"
    by (simp add: demo_promos_def demo_promo_def demo_ids_def)
  ultimately have "accounts_grown c (seeded_db t h c)"
    by (simp add: accounts_grown_def) (simp add: seeded_db_def grown_append)
  moreover have "rows_grown c (seeded_db t h c)" by (simp add: rows_grown_def)
  ultimately show ?thesis using catalogue_grown_seeded by (simp add: extends_def)
qed

text \<open>The steps of the stories.\<close>

lemma demo_user [simp]: "u \<in> {1, 2, 3, 4, 5} \<Longrightarrow> demoId BUser u \<in> demo_users"
  by (auto simp: demo_ids_def image_iff)

lemma update_promo_append: "\<forall>x \<in> set c. i \<noteq> Some (pc_id x) \<Longrightarrow>
  update_promo_usage_count t i (c @ rows) = c @ update_promo_usage_count t i rows"
  by (cases i) (auto simp: update_promo_usage_count_def update_rows_def intro!: map_idI)

lemma grown_promos:
  assumes "grown (\<lambda>r. pc_id r \<in> G) c ps" "\<forall>x \<in> set c. i \<noteq> Some (pc_id x)"
  shows "grown (\<lambda>r. pc_id r \<in> G) c (update_promo_usage_count t i ps)"
proof -
  from assms(1) obtain rows where ps: "ps = c @ rows" "list_all (\<lambda>r. pc_id r \<in> G) rows" by (auto simp: grown_def)
  have "pc_id ` set (update_promo_usage_count t i rows) = pc_id ` set rows" by (rule promo_keys)
  then have "list_all (\<lambda>r. pc_id r \<in> G) (update_promo_usage_count t i rows)"
    using ps(2) unfolding list_all_iff by (metis imageE imageI)
  then show ?thesis unfolding ps(1) update_promo_append [OF assms(2)] by (auto simp: grown_def)
qed

definition grown_by_story :: "seed_db \<Rightarrow> seed_db \<Rightarrow> bool" where
  "grown_by_story c d \<longleftrightarrow> extends c d \<and> accounts_vacant c"

lemma catalogue_grown_steps:
  "catalogue_grown c (add_purchase E n u k p d) = catalogue_grown c d" "catalogue_grown c (add_lessons E u k m d) = catalogue_grown c d"
  "catalogue_grown c (add_attempt E n u en marks w d) = catalogue_grown c d"
  "catalogue_grown c (add_issued E code n u k a w d) = catalogue_grown c d" "catalogue_grown c (add_code x d) = catalogue_grown c d"
  by (simp_all add: catalogue_grown_def step_defs demo_modules_def demo_exams_def demo_questions_def)

lemma accounts_grown_steps:
  "accounts_grown c (add_lessons E u k m d) = accounts_grown c d" "accounts_grown c (add_attempt E n u en marks w d) = accounts_grown c d"
  "accounts_grown c (add_issued E code n u k a w d) = accounts_grown c d" "accounts_grown c (add_code x d) = accounts_grown c d"
  by (simp_all add: accounts_grown_def step_defs)

lemma grown_purchase:
  assumes "grown_by_story c d" "u \<in> {1, 2, 3, 4, 5}" "po_promoId p \<in> {None, Some (demoId BPromo 1)}"
  shows "grown_by_story c (add_purchase E n u k p d)"
proof -
  have "\<forall>x \<in> set (db_promos c). pc_id x \<noteq> demoId BPromo 1"
    using assms(1) unfolding grown_by_story_def accounts_vacant_def by blast
  then have "\<forall>x \<in> set (db_promos c). po_promoId p \<noteq> Some (pc_id x)" using assms(3) by auto
  then have "accounts_grown c (add_purchase E n u k p d)"
    using assms(1) by (simp add: grown_by_story_def extends_def accounts_grown_def add_purchase_def grown_promos)
  moreover have "rows_grown c (add_purchase E n u k p d)"
    using assms demo_user [OF assms(2)] by (simp add: grown_by_story_def extends_def rows_grown_def add_purchase_def grown_append
        purchase_row_def transaction_row_def Let_def)
  ultimately show ?thesis using assms(1) by (simp add: grown_by_story_def extends_def catalogue_grown_steps)
qed

lemma grown_lessons: "grown_by_story c d \<Longrightarrow> u \<in> {1, 2, 3, 4, 5} \<Longrightarrow> grown_by_story c (add_lessons E u k m d)"
  using demo_user [of u] unfolding grown_by_story_def extends_def catalogue_grown_steps accounts_grown_steps
  by (auto simp: rows_grown_def add_lessons_def list_all_iff demo_progress_row_def intro!: grown_append)

lemma grown_attempt: "grown_by_story c d \<Longrightarrow> u \<in> {1, 2, 3, 4, 5} \<Longrightarrow> 0 < n \<Longrightarrow> grown_by_story c (add_attempt E n u en marks w d)"
  using demo_user [of u] unfolding grown_by_story_def extends_def catalogue_grown_steps accounts_grown_steps
  by (auto simp: rows_grown_def add_attempt_def attempt_row_def demo_key_def split: prod.split intro!: grown_append)

lemma grown_issued: "grown_by_story c d \<Longrightarrow> u \<in> {1, 2, 3, 4, 5} \<Longrightarrow> grown_by_story c (add_issued E code n u k a w d)"
  using demo_user [of u] unfolding grown_by_story_def extends_def catalogue_grown_steps accounts_grown_steps
  by (auto simp: rows_grown_def add_issued_def demo_issued_row_def intro!: grown_append)

lemma grown_code: "grown_by_story c d \<Longrightarrow> grown_by_story c (add_code (omar_code E x) d)"
  using demo_user [of 2] unfolding grown_by_story_def extends_def catalogue_grown_steps accounts_grown_steps
  by (auto simp: rows_grown_def add_code_def omar_code_def intro!: grown_append)

lemma extends_stories:
  assumes "extends c d" "accounts_vacant c"
  shows "extends c (stories_db E d)"
proof -
  have "grown_by_story c d" using assms by (simp add: grown_by_story_def)
  then have "grown_by_story c (stories_db E d)"
    unfolding stories_db_def mona_db_def yusuf_db_def lina_db_def omar_db_def sara_db_def
    by (intro grown_purchase grown_issued grown_attempt grown_lessons grown_code) simp_all
  then show ?thesis by (simp add: grown_by_story_def)
qed

subsection \<open>Running again\<close>

lemma number_at_issued:
  "number_at ''PSM'' (add_issued E ''PSM'' n u k x w d) = Suc (number_at ''PSM'' d)"
  "number_at ''PAL'' (add_issued E ''PAL'' n u k x w d) = Suc (number_at ''PAL'' d)"
  "number_at ''PSM'' (add_issued E ''PAL'' n u k x w d) = number_at ''PSM'' d"
  by (simp_all add: number_at_def add_issued_def seq_names)

lemma number_at_stories:
  "number_at ''PSM'' (stories_db E d) = Suc (number_at ''PSM'' d)" "number_at ''PAL'' (stories_db E d) = Suc (number_at ''PAL'' d)"
  by (simp_all add: stories_db_def mona_db_def yusuf_db_def lina_db_def omar_db_def sara_db_def number_at_issued)

lemma seq_kept:
  "db_seqs d s \<noteq> None \<Longrightarrow> db_seqs (stories_db E d) s \<noteq> None"
  by (auto simp: stories_db_def mona_db_def yusuf_db_def lina_db_def omar_db_def sara_db_def step_defs)

lemma numbers_later:
  assumes "numbers_free E code c" "db_seqs c' (''cert_seq_'' @ toLowerCase code) \<noteq> None" "number_at code c \<le> number_at code c'"
    and "db_issued c' = db_issued c"
  shows "numbers_free E code c'"
  using assms by (auto simp: numbers_free_def number_at_def split: option.splits)

lemma vacant_later:
  assumes "vacant E c" "d = seeded_db t h c" "c' = c\<lparr>db_seqs := db_seqs (stories_db E' d)\<rparr>"
    and "Suc (number_at ''PSM'' c) < 10 ^ 6" "Suc (number_at ''PAL'' c) < 10 ^ 6"
  shows "vacant E c'"
proof -
  note v = assms(1) [unfolded vacant_def]
  have seq: "db_seqs c (''cert_seq_'' @ toLowerCase code) \<noteq> None" if "numbers_free E code c" for code
    using that by (auto simp: numbers_free_def split: option.splits)
  have at: "number_at code c' = number_at code (stories_db E' d)" for code by (simp add: number_at_def assms(3))
  have n: "number_at ''PSM'' c' = Suc (number_at ''PSM'' c)" "number_at ''PAL'' c' = Suc (number_at ''PAL'' c)"
    unfolding at number_at_stories by (simp_all add: assms(2))
  have kept: "db_seqs c' (''cert_seq_'' @ toLowerCase code) \<noteq> None" if "numbers_free E code c" for code
    using seq_kept [of d "''cert_seq_'' @ toLowerCase code" E'] seq [OF that] by (simp add: assms(2,3))
  have "numbers_free E ''PSM'' c'" "numbers_free E ''PAL'' c'"
    using v n kept by (auto intro: numbers_later [of E _ c] simp: assms(3))
  then show ?thesis using v n assms(4,5)
    by (simp add: vacant_def) (simp add: assms(3) accounts_vacant_def catalogue_vacant_def rows_vacant_def)
qed

lemma demo_run_undone:
  assumes "cleanup s = (Inr (), c)" "references c" "vacant E c" "nodeEnv \<noteq> Some ''production''"
  shows "\<exists>t h. demo_main nodeEnv E s = (Inr (), stories_db E (seeded_db t h c)) \<and>
    cleanup (stories_db E (seeded_db t h c)) = (Inr (), c\<lparr>db_seqs := db_seqs (stories_db E (seeded_db t h c))\<rparr>)"
proof -
  have v: "accounts_vacant c" "catalogue_vacant c" "unused_from BAttempt 0 (db_attempts c)"
    using assms(3) by (simp_all add: vacant_def rows_vacant_def)
  have "cleanup (stories_db E (seeded_db t h c)) = (Inr (), c\<lparr>db_seqs := db_seqs (stories_db E (seeded_db t h c))\<rparr>)" for t h
    by (rule cleanup_restores [OF assms(2) v extends_stories [OF extends_seeded v(1)]])
  with demo_main_run [OF assms] show ?thesis by blast
qed

lemma demo_runs:
  assumes "nodeEnv \<noteq> Some ''production''"
  shows "cleanup s = (Inr (), c) \<Longrightarrow> references c \<Longrightarrow> \<forall>E \<in> set Es. vacant E c \<Longrightarrow>
    number_at ''PSM'' c + length Es \<le> 10 ^ 6 \<Longrightarrow> number_at ''PAL'' c + length Es \<le> 10 ^ 6 \<Longrightarrow>
    \<exists>s' q. each (demo_main nodeEnv) Es s = (Inr (), s') \<and> cleanup s' = (Inr (), c\<lparr>db_seqs := q\<rparr>)"
proof (induction Es arbitrary: s c)
  case Nil
  then show ?case by (intro exI [of _ s] exI [of _ "db_seqs c"]) simp
next
  case (Cons E Es)
  obtain t h where run: "demo_main nodeEnv E s = (Inr (), stories_db E (seeded_db t h c))"
    and undo: "cleanup (stories_db E (seeded_db t h c)) = (Inr (), c\<lparr>db_seqs := db_seqs (stories_db E (seeded_db t h c))\<rparr>)"
    using demo_run_undone [OF Cons.prems(1,2) _ assms, of E] Cons.prems(3) by auto
  let ?d = "seeded_db t h c"
  let ?c = "c\<lparr>db_seqs := db_seqs (stories_db E ?d)\<rparr>"
  have n: "number_at ''PSM'' ?c = Suc (number_at ''PSM'' c)" "number_at ''PAL'' ?c = Suc (number_at ''PAL'' c)"
    using number_at_stories [of E ?d] by (simp_all add: number_at_def [of _ ?c] number_at_def [of _ "stories_db E ?d"])
  have "\<forall>E' \<in> set Es. vacant E' ?c"
  proof
    fix E' assume e: "E' \<in> set Es"
    then have "1 \<le> length Es" by (cases Es) auto
    then show "vacant E' ?c" using Cons.prems(3-5) e by (intro vacant_later [of E' c, OF _ refl refl]) auto
  qed
  then obtain s' q where "each (demo_main nodeEnv) Es (stories_db E ?d) = (Inr (), s')" "cleanup s' = (Inr (), ?c\<lparr>db_seqs := q\<rparr>)"
    using Cons.IH [OF undo] Cons.prems n by auto
  then show ?case using run by (intro exI [of _ s'] exI [of _ q]) (simp add: bind_op_def)
qed

end
