(* ===== verification/DemoProperties.thy ===== *)
theory DemoProperties
  imports DemoCleanup ExamService
begin

section \<open>Properties of the demo seeder\<close>

text \<open>
  The seeded scores are the ones the exam engine computes, the references of the database hold wherever the script
  stops, the script can be run again and again, and what it leaves is a state the exam engine can go on from.
\<close>

subsection \<open>An empty database\<close>

definition copying_bcrypt :: bcrypt_lib where
  "copying_bcrypt = \<lparr>bc_hash = (\<lambda>s n p. p), bc_compare = (\<lambda>p h. p = h)\<rparr>"

definition sample_run :: seed_env where
  "sample_run = \<lparr>sd_now = 1767225600000, sd_year = ''2026'', sd_bcrypt = copying_bcrypt, sd_salt = ''salt'',
     sd_uuid = (\<lambda>u l. concat (map (\<lambda>c. [CHR ''u'', c]) u) @ CHR ''-'' # l)\<rparr>"

definition empty_db :: seed_db where
  "empty_db = \<lparr>db_users = [], db_admins = [], db_certs = [], db_modules = [], db_lessons = [], db_exams = [], db_questions = [],
     db_options = [], db_codes = [], db_attempts = [], db_sessions = [], db_purchases = [], db_progress = [], db_transactions = [],
     db_issued = [], db_promos = [], db_refresh = [], db_tokens = [], db_seqs = cert_sequences\<rparr>"

lemma pair_text_inj: "concat (map (\<lambda>c. [CHR ''u'', c]) u) @ CHR ''-'' # l = concat (map (\<lambda>c. [CHR ''u'', c]) u') @ CHR ''-'' # l' \<longleftrightarrow>
    u = u' \<and> l = l'"
proof (induction u arbitrary: u')
  case Nil
  then show ?case by (cases u') auto
next
  case (Cons a u)
  then show ?case by (cases u') auto
qed

lemma empty_vacant: "vacant sample_run empty_db"
proof -
  have seqs: "cert_sequences ''cert_seq_psm'' = Some 1" "cert_sequences ''cert_seq_pal'' = Some 1"
    unfolding cert_sequences_def cert_sequences_list by simp_all
  have "uuids_differ sample_run" by (simp add: uuids_differ_def sample_run_def pair_text_inj)
  then show ?thesis
    by (simp add: vacant_def accounts_vacant_def catalogue_vacant_def rows_vacant_def numbers_free_def number_at_def seq_names
        unused_from_def) (simp add: empty_db_def seqs sample_run_def)
qed

lemma empty_references: "references empty_db"
  by (simp add: empty_db_def reference_defs refs_def refs_opt_def)

lemma empty_clean: "cleanup empty_db = (Inr (), empty_db)"
proof -
  have "extends empty_db empty_db" by (simp add: extends_def catalogue_grown_def rows_grown_def accounts_grown_def)
  then show ?thesis
    using cleanup_restores [OF empty_references, of empty_db] empty_vacant by (simp add: vacant_def rows_vacant_def)
qed

subsection \<open>Scores\<close>

text \<open>C22: The answers built for a seeded exam are scored by the exam engine, on the exam as it is stored, with the score and the
  verdict that the seeder writes next to them.\<close>

theorem seeded_answers_score:
  assumes "exams_untouched s" and "\<forall>c \<in> set CERTS. demoId BCert (cp_n c) \<in> pk ` set (db_certs s)"
    and "seedExams t s = (Inr exams, s')" and "en \<in> set exams" and "buildAnswers en correctMarks = (a, score)"
  shows "s_score (scoreAnswers (loaded_exams s') (se_examId en) a) = score \<and>
    s_passed (scoreAnswers (loaded_exams s') (se_examId en) a) = (80 \<le> score)"
proof -
  note u = assms(1) [unfolded exams_untouched_def]
  have run: "exams = all_entries CERTS 0" "s' = s\<lparr>db_exams := db_exams s @ all_exams t CERTS 0,
      db_questions := db_questions s @ all_questions t CERTS 0, db_options := db_options s @ all_options t CERTS 0\<rparr>"
    using seedExams_run [of s t] u assms(2,3) by auto
  obtain ex where "find_one (\<lambda>e. pk e = se_examId en) (loaded_exams s') = Some ex" "e_passingScore ex = 80"
    "list_all2 describes (se_questions en) (e_questions ex)" "total_marks (e_questions ex) = 10" "distinct (map se_id (se_questions en))"
    using loaded_seeded_exam [OF assms(1) _ run(2)] assms(4) run(1) by auto
  then show ?thesis using buildAnswers_score [of en ex "se_examId en" "loaded_exams s'" correctMarks a score] assms(5) by simp
qed

lemma empty_catalogue: "\<forall>c \<in> set CERTS. demoId BCert (cp_n c) \<in> pk ` set (map (demo_cert_row t) CERTS)"
  by (simp add: image_image demo_cert_row_key)

theorem seeded_answers_score_witness:
  "\<exists>exams s' en a. seedExams 0 (empty_db\<lparr>db_certs := map (demo_cert_row 0) CERTS\<rparr>) = (Inr exams, s') \<and> en \<in> set exams \<and>
     s_score (scoreAnswers (loaded_exams s') (se_examId en) a) = 90 \<and> s_passed (scoreAnswers (loaded_exams s') (se_examId en) a)"
proof -
  let ?s = "empty_db\<lparr>db_certs := map (demo_cert_row 0) CERTS\<rparr>"
  have u: "exams_untouched ?s" by (simp add: exams_untouched_def unused_from_def empty_db_def)
  have c: "\<forall>c \<in> set CERTS. demoId BCert (cp_n c) \<in> pk ` set (db_certs ?s)" using empty_catalogue by simp
  obtain s' where run: "seedExams 0 ?s = (Inr (all_entries CERTS 0), s')"
    using seedExams_run [of ?s 0] u c by (simp add: exams_untouched_def)
  have en: "entry cert_psm 1 0 \<in> set (all_entries CERTS 0)" unfolding entries by simp
  obtain a where "buildAnswers (entry cert_psm 1 0) [3, 2, 2, 2] = (a, 90)"
    using story_scores(1) [of cert_psm 1 0] by (cases "buildAnswers (entry cert_psm 1 0) [3, 2, 2, 2]") simp
  from seeded_answers_score [OF u c run en this] run en show ?thesis
    by (intro exI [of _ "all_entries CERTS 0"] exI [of _ s'] exI [of _ "entry cert_psm 1 0"] exI [of _ a]) simp
qed

subsection \<open>References\<close>

text \<open>Whatever a database holds and wherever the script fails, every foreign key of the tables it touches points to a row
  afterwards when it did before, and under \<open>NODE_ENV=production\<close> nothing is changed at all.\<close>

theorem demo_seed_keeps_references:
  assumes "references s"
  shows "references (snd (demo_main nodeEnv E s)) \<and> snd (demo_main (Some ''production'') E s) = s"
  using keeps_refsD [OF keeps_demo_main assms] by (simp add: demo_main_def)

theorem demo_seed_keeps_references_witness:
  "references (snd (demo_main (Some ''test'') sample_run empty_db)) \<and> fst (demo_main (Some ''test'') sample_run empty_db) = Inr ()"
  using demo_seed_keeps_references [OF empty_references, of "Some ''test''" sample_run]
    demo_main_run [OF empty_clean empty_references empty_vacant, of "Some ''test''"] by simp

subsection \<open>Running again\<close>

text \<open>C14: On a database that holds nothing under the seeder's names besides rows of an earlier run, which the removal takes away, the
  script succeeds any number of times, as long as the certificate numbers of two programs last; the removal then gives back all
  the rows there were besides the demo data, with only the number sequences moved on.\<close>

theorem demo_seed_reruns:
  assumes "cleanup s = (Inr (), c)" and "references c" and "\<forall>E \<in> set Es. vacant E c" and "nodeEnv \<noteq> Some ''production''"
    and "number_at ''PSM'' c + length Es \<le> 10 ^ 6" and "number_at ''PAL'' c + length Es \<le> 10 ^ 6"
  shows "\<exists>s' q. each (demo_main nodeEnv) Es s = (Inr (), s') \<and> cleanup s' = (Inr (), c\<lparr>db_seqs := q\<rparr>)"
  using demo_runs [OF assms(4,1-3,5,6)] .

theorem demo_seed_reruns_witness:
  "\<exists>s' q. each (demo_main None) [sample_run, sample_run] empty_db = (Inr (), s') \<and> cleanup s' = (Inr (), empty_db\<lparr>db_seqs := q\<rparr>)"
proof (rule demo_seed_reruns [OF empty_clean empty_references])
  show "\<forall>E \<in> set [sample_run, sample_run]. vacant E empty_db" using empty_vacant by simp
  have "number_at ''PSM'' empty_db = 1" "number_at ''PAL'' empty_db = 1"
    unfolding number_at_def seq_names empty_db_def cert_sequences_def by (simp_all only: seed_db.simps cert_sequences_list) simp_all
  then show "number_at ''PSM'' empty_db + length [sample_run, sample_run] \<le> 10 ^ 6"
    "number_at ''PAL'' empty_db + length [sample_run, sample_run] \<le> 10 ^ 6" by simp_all
qed simp

subsection \<open>The exam engine takes over\<close>

text \<open>What the exam service reads of the seeded database.\<close>

definition exam_view :: "seed_db \<Rightarrow> 'r \<Rightarrow> 'r exam_state" where
  "exam_view s r = \<lparr>es_users = map pk (db_users s), es_certs = map pk (db_certs s), es_exams = loaded_exams s,
     es_codes = db_codes s, es_attempts = db_attempts s, es_sessions = db_sessions s, es_redis = r\<rparr>"

lemma loaded_exams_cong:
  "db_exams s = db_exams s' \<Longrightarrow> db_questions s = db_questions s' \<Longrightarrow> db_options s = db_options s' \<Longrightarrow> loaded_exams s = loaded_exams s'"
  by (simp add: loaded_exams_def loaded_exam_def loaded_question_def fun_eq_iff cong: map_cong)

lemma exams_of_steps:
  "loaded_exams (add_purchase E n u k p d) = loaded_exams d" "loaded_exams (add_lessons E u k m d) = loaded_exams d"
  "loaded_exams (add_issued E code n u k x w d) = loaded_exams d" "loaded_exams (add_code y d) = loaded_exams d"
  "loaded_exams (add_attempt E n u en marks w d) = loaded_exams d"
  by (rule loaded_exams_cong; simp add: step_defs)+

lemma loaded_exams_stories: "loaded_exams (stories_db E d) = loaded_exams d"
  by (simp add: stories_db_def mona_db_def yusuf_db_def lina_db_def omar_db_def sara_db_def exams_of_steps)

lemma loaded_exams_seeded: "loaded_exams (seeded_db t h c) = loaded_exams (c\<lparr>db_exams := db_exams c @ all_exams t CERTS 0,
    db_questions := db_questions c @ all_questions t CERTS 0, db_options := db_options c @ all_options t CERTS 0\<rparr>)"
  by (rule loaded_exams_cong) (simp_all add: seeded_db_def)

lemma attempts_of_steps:
  "db_attempts (add_purchase E n u k p d) = db_attempts d" "db_attempts (add_lessons E u k m d) = db_attempts d"
  "db_attempts (add_issued E code n u k x w d) = db_attempts d" "db_attempts (add_code y d) = db_attempts d"
  "db_attempts (add_attempt E n u en marks w d) = db_attempts d @ [attempt_row E n u en marks w]"
  by (simp_all add: step_defs)

lemma stories_attempts: "db_attempts (stories_db E d) = db_attempts d @ [attempt_row E 1 1 (entry cert_psm 1 0) [3, 2, 2, 2] 21,
    attempt_row E 2 2 (entry cert_psm 1 0) [3, 2, 1] 14, attempt_row E 3 5 (entry cert_pal 1 7) [3, 2, 2, 2, 1] 40]"
  by (simp add: stories_db_def mona_db_def yusuf_db_def lina_db_def omar_db_def sara_db_def attempts_of_steps)

lemma stories_codes: "db_codes (stories_db E d) = db_codes d @ [omar_code E (demoId BExam 2)]"
  by (simp add: stories_db_def mona_db_def yusuf_db_def lina_db_def omar_db_def sara_db_def step_defs)

lemma stories_sessions: "db_sessions (stories_db E d) = db_sessions d"
  by (simp add: stories_db_def mona_db_def yusuf_db_def lina_db_def omar_db_def sara_db_def step_defs)

lemma story_attempt_scored:
  assumes "exams_untouched c" "entry spec n j \<in> set (all_entries CERTS 0)" "x = attempt_row E k u (entry spec n j) marks w"
  shows "s_score (scoreAnswers (loaded_exams (seeded_db t h c)) (at_examId x) (at_answers x)) = at_score x \<and>
    s_passed (scoreAnswers (loaded_exams (seeded_db t h c)) (at_examId x) (at_answers x)) = at_passed x"
proof -
  obtain a score where b: "buildAnswers (entry spec n j) marks = (a, score)" by (cases "buildAnswers (entry spec n j) marks")
  have x: "at_examId x = se_examId (entry spec n j)" "at_answers x = a" "at_score x = score" "at_passed x = (80 \<le> score)"
    by (simp_all add: assms(3) attempt_row_def b)
  obtain ex where "find_one (\<lambda>e. pk e = se_examId (entry spec n j)) (loaded_exams (seeded_db t h c)) = Some ex" "e_passingScore ex = 80"
    "list_all2 describes (se_questions (entry spec n j)) (e_questions ex)" "total_marks (e_questions ex) = 10"
    "distinct (map se_id (se_questions (entry spec n j)))"
    using loaded_seeded_exam [OF assms(1,2) refl, of t] unfolding loaded_exams_seeded by blast
  then show ?thesis unfolding x using buildAnswers_score [of "entry spec n j" ex _ _ marks a score] b by simp
qed

lemma exams_list: "all_exams t CERTS 0 = [exam_row t cert_psm 1 1 False, exam_row t cert_psm 2 2 False, exam_row t cert_psm 3 3 False,
    exam_row t cert_pspo 4 1 False, exam_row t cert_pspo 5 2 False, exam_row t cert_psd 6 1 False, exam_row t cert_psd 7 2 False,
    exam_row t cert_pal 8 1 False, exam_row t cert_sps 9 1 False, exam_row t cert_pmp 10 1 False, exam_row t cert_pmp 11 2 True]"
proof -
  have "orders cert_psm = [1, 2, 3]" "orders cert_pspo = [1, 2]" "orders cert_psd = [1, 2]" "orders cert_pal = [1]"
    "orders cert_sps = [1]" "orders cert_pmp = [1, 2]"
    using CERTS_exams by (simp_all add: orders_def CERTS_def upt_rec)
  moreover have "exam_total cert_psm = 3" "exam_total cert_pspo = 2" "exam_total cert_psd = 2" "exam_total cert_pal = 1"
    "exam_total cert_sps = 1" using CERTS_exams by (simp_all add: CERTS_def)
  moreover have "cp_publishedExams cert_psm = 3" "cp_publishedExams cert_pspo = 2" "cp_publishedExams cert_psd = 2"
    "cp_publishedExams cert_pal = 1" "cp_publishedExams cert_sps = 1" "cp_publishedExams cert_pmp = 1"
    by (simp_all add: cert_psm_def cert_pspo_def cert_psd_def cert_pal_def cert_sps_def cert_pmp_def)
  ultimately show ?thesis by (simp add: CERTS_def eval_nat_numeral)
qed

lemma loaded_exam_simps [simp]:
  "pk (loaded_exam s e) = pk e" "e_certId (loaded_exam s e) = e_certId e" "e_status (loaded_exam s e) = e_status e"
  "e_examOrder (loaded_exam s e) = e_examOrder e"
  by (simp_all add: loaded_exam_def)

lemma exam_row_simps [simp]:
  "pk (exam_row t spec k n b) = demoId BExam k" "e_certId (exam_row t spec k n b) = demoId BCert (cp_n spec)"
  "e_status (exam_row t spec k n b) = (if b then DRAFT else PUBLISHED)" "e_examOrder (exam_row t spec k n b) = int n"
  by (simp_all add: exam_row_def)

lemma find_loaded_seeded:
  assumes "exams_untouched c" "r \<in> set (all_exams t CERTS 0)"
  shows "find_one (\<lambda>e. pk e = pk r) (loaded_exams (seeded_db t h c)) = Some (loaded_exam (seeded_db t h c) r)"
proof -
  have d: "distinct (map pk (all_exams t CERTS 0))" unfolding all_exams_keys by (rule distinct_block)
  have "demo_key BExam (pk r)" by (rule demo_block_keys [OF all_exams_keys assms(2)])
  moreover have "unused_from BExam 0 (db_exams c)" using assms(1) unfolding exams_untouched_def by blast
  ultimately have "pk r \<notin> pk ` set (db_exams c)" by (rule demo_key_unused)
  then have "find_one (\<lambda>e. pk e = pk r) (db_exams c) = None" unfolding find_one_None_iff by (metis image_eqI)
  then have "find_one (\<lambda>e. pk e = pk r) (db_exams (seeded_db t h c)) = Some r"
    using find_one_key_unique [OF d assms(2)] by (simp add: find_one_append)
  then show ?thesis by (simp add: find_loaded_exam)
qed

lemma psm_pool:
  assumes "exams_untouched c"
  shows "exam_pool (demoId BCert 1) (exam_view (stories_db E (seeded_db t h c)) r) =
    map (loaded_exam (seeded_db t h c)) [exam_row t cert_psm 1 1 False, exam_row t cert_psm 2 2 False, exam_row t cert_psm 3 3 False]"
proof -
  let ?P = "\<lambda>e. e_certId e = demoId BCert 1 \<and> e_status e = PUBLISHED"
  have "cert_psm \<in> set CERTS" by (simp add: CERTS_def)
  then have "filter ?P (db_exams c) = []"
    using assms by (force simp: exams_untouched_def filter_empty_conv cert_numbers)
  moreover have "filter ?P (all_exams t CERTS 0) = [exam_row t cert_psm 1 1 False, exam_row t cert_psm 2 2 False, exam_row t cert_psm 3 3 False]"
    unfolding exams_list by (simp add: cert_numbers)
  ultimately have "filter ?P (db_exams (seeded_db t h c)) =
      [exam_row t cert_psm 1 1 False, exam_row t cert_psm 2 2 False, exam_row t cert_psm 3 3 False]" by simp
  moreover have "filter ?P (loaded_exams (seeded_db t h c)) = map (loaded_exam (seeded_db t h c)) (filter ?P (db_exams (seeded_db t h c)))"
    by (simp add: loaded_exams_def filter_map comp_def del: seeded_tables)
  ultimately have "filter ?P (loaded_exams (seeded_db t h c)) = map (loaded_exam (seeded_db t h c))
      [exam_row t cert_psm 1 1 False, exam_row t cert_psm 2 2 False, exam_row t cert_psm 3 3 False]" by (simp only:)
  then show ?thesis by (simp add: exam_pool_def find_rows_def exam_view_def loaded_exams_stories)
qed

lemma omar_attempted:
  assumes "references c" "accounts_vacant c"
  shows "getAttemptedExamIds (demoId BUser 2) (demoId BCert 1) (exam_view (stories_db E (seeded_db t h c)) r) = {demoId BExam 1}"
proof -
  have u: "unused_from BUser 0 (db_users c)" using assms(2) by (simp add: accounts_vacant_def)
  have "\<forall>a \<in> set (db_attempts c). at_userId a \<notin> demo_users"
    using assms(1) by (intro refs_outside [OF _ u demo_ids_only]) (simp add: reference_defs)
  then have none: "filter (\<lambda>a. at_userId a = demoId BUser 2 \<and> at_certId a = demoId BCert 1)
      (filter (exam_attempts_isolation (Some (demoId BUser 2))) (db_attempts c)) = []"
    using demo_user [of 2] by (auto simp: filter_empty_conv)
  have row: "at_userId (attempt_row E n v en marks w) = demoId BUser v" "at_certId (attempt_row E n v en marks w) = demoId BCert (se_certN en)"
    "at_examId (attempt_row E n v en marks w) = se_examId en" for n v en marks w by (simp_all add: attempt_row_def split: prod.split)
  show ?thesis
    using none by (simp add: getAttemptedExamIds_def find_rows_def exam_view_def stories_attempts row exam_attempts_isolation_def cert_numbers)
qed

lemma omar_codes:
  assumes "references c" "accounts_vacant c"
  shows "filter (\<lambda>x. ac_userId x = demoId BUser 2 \<and> ac_examId x = i \<and> ac_usedAt x = None) (db_codes (stories_db E (seeded_db t h c))) =
    (if i = demoId BExam 2 then [omar_code E (demoId BExam 2)] else [])"
proof -
  have u: "unused_from BUser 0 (db_users c)" using assms(2) by (simp add: accounts_vacant_def)
  have "\<forall>a \<in> set (db_codes c). ac_userId a \<notin> demo_users"
    using assms(1) by (intro refs_outside [OF _ u demo_ids_only]) (simp add: reference_defs)
  then have "filter (\<lambda>x. ac_userId x = demoId BUser 2 \<and> ac_examId x = i \<and> ac_usedAt x = None) (db_codes c) = []"
    using demo_user [of 2] by (auto simp: filter_empty_conv)
  then show ?thesis by (simp add: stories_codes) (simp add: omar_code_def)
qed

lemma omar_no_session:
  assumes "references c" "accounts_vacant c"
  shows "find_one (\<lambda>x. ts_userId x = demoId BUser 2 \<and> ts_examId x = i \<and> ts_status x = ACTIVE) (db_sessions (stories_db E (seeded_db t h c))) = None"
proof -
  have u: "unused_from BUser 0 (db_users c)" using assms(2) by (simp add: accounts_vacant_def)
  have "\<forall>a \<in> set (db_sessions c). ts_userId a \<notin> demo_users"
    using assms(1) by (intro refs_outside [OF _ u demo_ids_only]) (simp add: reference_defs)
  then show ?thesis using demo_user [of 2] by (auto simp: find_one_None_iff stories_sessions)
qed

text \<open>C15: After a run the exam engine can go on: the attempts of the three stories carry the scores (90, 60 and 100) and
  verdicts that the engine computes from the stored answers; and for a day Omar's one-time code opens the start of the second PSM
  assessment, which is the exam \<open>assignNextExam\<close> picks for him, so that assigning it again is refused as a conflict.\<close>

theorem demo_stories_meet_engine:
  assumes "cleanup d = (Inr (), c)" and "references c" and "vacant E c" and "nodeEnv \<noteq> Some ''production''"
    and "bcrypt_ok (sd_bcrypt E)" and "demo_main nodeEnv E d = (Inr (), s)"
    and "sd_now E \<le> now env" and "now env < sd_now E + 24 * 3600000"
  shows "(\<exists>rows. db_attempts s = db_attempts c @ rows \<and> map at_score rows = [90, 60, 100] \<and> map at_passed rows = [True, False, True] \<and>
      list_all (\<lambda>x. s_score (scoreAnswers (loaded_exams s) (at_examId x) (at_answers x)) = at_score x \<and>
        s_passed (scoreAnswers (loaded_exams s) (at_examId x) (at_answers x)) = at_passed x) rows) \<and>
    (\<exists>exam. start_guard (sd_bcrypt E) (now env) (demoId BUser 2) DEMO_ACCESS_CODE (demoId BExam 2) (exam_view s r) =
        Inr (omar_code E (demoId BExam 2), exam) \<and>
      find_one (\<lambda>e. pk e \<notin> getAttemptedExamIds (demoId BUser 2) (demoId BCert 1) (exam_view s r))
        (exam_pool (demoId BCert 1) (exam_view s r)) = Some exam) \<and>
    assignNextExam (sd_bcrypt E) env (demoId BUser 2) (demoId BCert 1) (exam_view s r) =
      (throw (ConflictException ''Student already has an unused access code for their next exam''), exam_view s r)"
proof -
  have v: "accounts_vacant c" "catalogue_vacant c" using assms(3) by (simp_all add: vacant_def)
  have u: "exams_untouched c" by (rule seeded_exams_untouched [OF assms(2) v(2)])
  obtain t h where s: "s = stories_db E (seeded_db t h c)" using demo_run_undone [OF assms(1-4)] assms(6) by auto
  let ?s = "seeded_db t h c" and ?exam = "loaded_exam (seeded_db t h c) (exam_row t cert_psm 2 2 False)"
  let ?rows = "[attempt_row E 1 1 (entry cert_psm 1 0) [3, 2, 2, 2] 21, attempt_row E 2 2 (entry cert_psm 1 0) [3, 2, 1] 14,
    attempt_row E 3 5 (entry cert_pal 1 7) [3, 2, 2, 2, 1] 40]"
  have passed: "at_passed (attempt_row E n v en marks w) = (80 \<le> at_score (attempt_row E n v en marks w))" for n v en marks w
    by (simp add: attempt_row_def split: prod.split)
  have "entry cert_psm 1 0 \<in> set (all_entries CERTS 0)" "entry cert_pal 1 7 \<in> set (all_entries CERTS 0)" unfolding entries by simp_all
  note scored = story_attempt_scored [OF u this(1) refl] story_attempt_scored [OF u this(2) refl]
  have "db_attempts s = db_attempts c @ ?rows" unfolding s stories_attempts by simp
  moreover have "map at_score ?rows = [90, 60, 100] \<and> map at_passed ?rows = [True, False, True]"
    by (simp add: passed attempt_row_score story_scores)
  moreover have "list_all (\<lambda>x. s_score (scoreAnswers (loaded_exams s) (at_examId x) (at_answers x)) = at_score x \<and>
      s_passed (scoreAnswers (loaded_exams s) (at_examId x) (at_answers x)) = at_passed x) ?rows"
    unfolding s loaded_exams_stories list.pred_inject by (intro conjI scored [THEN conjunct1] scored [THEN conjunct2] list.pred_inject(1))
  ultimately have attempts: "\<exists>rows. db_attempts s = db_attempts c @ rows \<and> map at_score rows = [90, 60, 100] \<and>
      map at_passed rows = [True, False, True] \<and>
      list_all (\<lambda>x. s_score (scoreAnswers (loaded_exams s) (at_examId x) (at_answers x)) = at_score x \<and>
        s_passed (scoreAnswers (loaded_exams s) (at_examId x) (at_answers x)) = at_passed x) rows"
    by (intro exI [of _ ?rows]) (elim conjE, intro conjI, assumption+)
  have "exam_row t cert_psm 2 2 False \<in> set (all_exams t CERTS 0)" unfolding exams_list by simp
  from find_loaded_seeded [OF u this] have exam: "find_exam (demoId BExam 2) (exam_view s r) = Some ?exam"
    by (simp add: find_exam_def exam_view_def s loaded_exams_stories)
  have pick: "find_one (\<lambda>e. pk e \<notin> getAttemptedExamIds (demoId BUser 2) (demoId BCert 1) (exam_view s r))
      (exam_pool (demoId BCert 1) (exam_view s r)) = Some ?exam"
    unfolding s psm_pool [OF u] omar_attempted [OF assms(2) v(1)] by (simp add: find_one_def)
  have codes: "find_rows (\<lambda>x. ac_userId x = demoId BUser 2 \<and> ac_examId x = demoId BExam 2 \<and> ac_usedAt x = None) (es_codes (exam_view s r)) =
      [omar_code E (demoId BExam 2)]" by (simp add: find_rows_def exam_view_def s omar_codes [OF assms(2) v(1)])
  have live: "\<not> ac_expiresAt (omar_code E (demoId BExam 2)) < now env" "now env < ac_expiresAt (omar_code E (demoId BExam 2))"
    "bc_compare (sd_bcrypt E) DEMO_ACCESS_CODE (ac_tokenHash (omar_code E (demoId BExam 2)))"
    using assms(5,7,8) by (simp_all add: omar_code_def bcrypt_ok_def)
  have "findAndVerifyCode (sd_bcrypt E) (now env) (demoId BUser 2) DEMO_ACCESS_CODE (demoId BExam 2) (exam_view s r) =
      Inr (omar_code E (demoId BExam 2), ?exam)" using live by (simp add: findAndVerifyCode_def exam codes Let_def)
  then have guard: "start_guard (sd_bcrypt E) (now env) (demoId BUser 2) DEMO_ACCESS_CODE (demoId BExam 2) (exam_view s r) =
      Inr (omar_code E (demoId BExam 2), ?exam)"
    using omar_no_session [OF assms(2) v(1), of "demoId BExam 2" E t h] by (simp add: start_guard_def exam_view_def s)
  have one: "find_one P xs = Some x" if "filter P xs = [x]" for P xs and x :: exam_access_code
    using that by (induction xs) (auto simp: find_one_def split: if_splits)
  have "exam_pool (demoId BCert 1) (exam_view s r) \<noteq> []" unfolding s psm_pool [OF u] by simp
  then have "assignNextExam (sd_bcrypt E) env (demoId BUser 2) (demoId BCert 1) (exam_view s r) =
      (throw (ConflictException ''Student already has an unused access code for their next exam''), exam_view s r)"
    unfolding assignNextExam_def Let_def pick option.case using one [OF codes [unfolded find_rows_def]] live by simp
  with attempts guard pick show ?thesis by blast
qed

theorem demo_stories_meet_engine_witness:
  "\<exists>s rows. demo_main None sample_run empty_db = (Inr (), s) \<and> db_attempts s = rows \<and> map at_score rows = [90, 60, 100] \<and>
     assignNextExam copying_bcrypt \<lparr>now = 1767225600001, salt = '''', randomBytes = [], newId = ''n'', redisAt = 1767225600001,
       restoreFails = None, questionsFail = None\<rparr> (demoId BUser 2) (demoId BCert 1)
       (exam_view s ()) = (throw (ConflictException ''Student already has an unused access code for their next exam''), exam_view s ())"
proof -
  let ?env = "\<lparr>now = 1767225600001, salt = '''', randomBytes = [], newId = ''n'', redisAt = 1767225600001,
     restoreFails = None, questionsFail = None\<rparr> :: request_env"
  obtain s where run: "demo_main None sample_run empty_db = (Inr (), s)"
    using demo_main_run [OF empty_clean empty_references empty_vacant, of None] by simp
  have b: "bcrypt_ok (sd_bcrypt sample_run)" by (simp add: bcrypt_ok_def sample_run_def copying_bcrypt_def)
  have t: "sd_now sample_run \<le> now ?env" "now ?env < sd_now sample_run + 24 * 3600000" by (simp_all add: sample_run_def)
  have "db_attempts empty_db = []" "sd_bcrypt sample_run = copying_bcrypt" by (simp_all add: empty_db_def sample_run_def)
  then show ?thesis
    using demo_stories_meet_engine [OF empty_clean empty_references empty_vacant _ b run t, of "()"] run by auto
qed

end
