(* ===== verification/Spec2Isabelle.thy ===== *)
theory Spec2Isabelle
  imports ExamProperties WebPages CatalogProperties EndpointProperties StorageProperties MailProperties ErrorFilter
    SchemaProperties MigrationProperties SchemaAgreement RequestProperties ConfigurationProperties DemoProperties
begin

text \<open>
  A model of the backend of a learning platform (NestJS, TypeORM over PostgreSQL, Redis, socket.io): students
  buy certificates, work through lessons, take timed exams with one-time access codes, and staff maintain the
  catalogue. The sources are under \<open>src/src\<close>; file names below are relative to it.

  \<^bold>\<open>Parts and how they interact.\<close> A request passes the global guards and pipe (\<open>app.module.ts\<close>,
  \<open>modules/auth/guards\<close>, \<open>common/guards\<close>), the interceptor that opens a transaction carrying the caller's ids
  (\<open>common/interceptors/rls.interceptor.ts\<close>), a controller and a service; what is thrown ends in the exception filter.
  Services keep their state in tables of PostgreSQL, which themselves refuse rows by constraints, triggers and row
  level security. The exam engine (\<open>modules/exam\<close>) also keeps one key per running session in Redis, whose time to
  live is the countdown; its expiry comes back as an event that closes the session and opens a grace window, and
  the socket gateway shows the countdown from the same key.

  \<^bold>\<open>How state and operations are modelled.\<close> A table is the list of its rows in storage order, a row a record with
  the fields of its entity class, a nullable column an option, a \<open>timestamptz\<close> the integer of its milliseconds. An
  operation is a function from its arguments (the current time, fresh keys and random values among them) and a state to a result
  and a state; a result is an exception of the code or a value, and an exception keeps the writes made before it,
  except inside a transaction, which the model undoes where the code does. Steps of concurrent requests are
  separate functions where the code awaits between a read and a write, and composed in the order the code has.
  Code outside the repository is an argument: the Redis client, the S3 client, bcrypt, jsonwebtoken, Joi, class-validator,
  nestjs-i18n, the codecs of dates. What the code relies on is then a hypothesis with the
  documented behaviour or the law of a locale, and a concrete function in the witness or the interpretation. A lost
  connection can make any call of the database throw; the model has such failures where more than one commit is involved, in the start of
  an exam (its compensating transaction and the query after it), and elsewhere the refusals by keys, checks and policies.

  \<^bold>\<open>The theories.\<close>

  Vocabulary. \<open>Prelude\<close>: exceptions, results, tables and their queries. \<open>JsNumber\<close>: double precision rounding,
  \<open>toFixed(2)\<close>, \<open>parseFloat\<close>. \<open>JsString\<close>, \<open>JsObject\<close>: strings and objects with undefined and null fields. \<open>Entities\<close>:
  the rows (\<open>database/entities\<close>). \<open>Externals\<close>: the library functions that are arguments. \<open>Contracts\<close>: the locales \<open>single_use\<close>
  and \<open>row_claim\<close> (what may be claimed once) and \<open>guarded_system\<close> and \<open>monotone_system\<close> (invariants and facts that stay,
  over a step relation). \<open>Keyset\<close>: the locale of cursor pagination.

  Exams. \<open>RedisStore\<close> (\<open>modules/redis\<close>): the wrapper over a client with the laws \<open>redis_server\<close>, and a store with
  expiring keys that satisfies them (time is an argument of every command; a start of an exam sets its key at the later
  time \<open>redisAt\<close>). \<open>TestSession\<close> (\<open>test-session.service.ts\<close>), \<open>ExamScoring\<close> and \<open>ExamService\<close>
  (\<open>exam.service.ts\<close>), \<open>ExamGateway\<close> (\<open>exam.gateway.ts\<close>, \<open>exam-keyspace.handler.ts\<close>), \<open>RowSecurity\<close> (the policies of the
  tables the engine writes). \<open>ExamInvariant\<close> and \<open>ExamSteps\<close> prove the invariant of the tables for every operation, through
  the locale \<open>exam_writes\<close>; \<open>ExamFacts\<close>, \<open>ExamLive\<close> and \<open>ExamRace\<close> hold what single operations, successful submissions,
  timers and interleavings do; \<open>ExamProperties\<close> states the claims, with the data of \<open>ExamExamples\<close>.

  Accounts. \<open>AuthService\<close>, \<open>AuthController\<close>, \<open>WebPages\<close>, \<open>Profile\<close>, \<open>Mail\<close>, \<open>I18n\<close> model the files of these
  names; \<open>AccessControl\<close> the strategies, guards, decorators and the interceptor. \<open>AuthFacts\<close> has the invariant of the
  token tables and that spent tokens stay spent; \<open>AuthProperties\<close> and \<open>MailProperties\<close> the claims.

  Catalogue and learning. \<open>Catalog\<close>, \<open>Learning\<close>, \<open>Storage\<close> are the services of these modules, \<open>Endpoints\<close> their
  controllers behind the guards; \<open>CatalogFacts\<close>, \<open>CatalogProperties\<close>, \<open>LearningProperties\<close>, \<open>StorageProperties\<close>,
  \<open>EndpointProperties\<close> their lemmas and claims. \<open>ErrorFilter\<close> is the exception filter with the registry of error codes.

  The database. \<open>Ddl\<close> is the meaning of the statements that migrations send, \<open>Migrations\<close> the four migrations as data, \<open>MigrationFacts\<close>
  and \<open>MigrationProperties\<close> that they apply and reverse. \<open>SchemaRules\<close> and \<open>SchemaProperties\<close> are the functions, triggers
  and sequences of the schema and the bootstrap of the first administrator. \<open>EntityMetadata\<close> holds the decorators of
  the entity classes, which \<open>SchemaAgreement\<close> compares with the migrated schema; \<open>RequestBodies\<close> the validators of the request
  bodies, which \<open>RequestProperties\<close> compares with the columns.

  Configuration and demo data. \<open>Configuration\<close> is the schema of the environment (\<open>config/validation.ts\<close>),
  \<open>ConfigurationProperties\<close> what a validated environment excludes and what starts with it. \<open>DemoCatalogue\<close> holds the constants of
  the demo seeder (\<open>database/seeds/demo-seed.ts\<close>), \<open>DemoSeed\<close> its removal, sections and script over the tables it
  writes; \<open>DemoSeedFacts\<close>, \<open>DemoExams\<close>, \<open>DemoScores\<close>, \<open>DemoReferences\<close>, \<open>DemoRun\<close>, \<open>DemoStories\<close> and
  \<open>DemoCleanup\<close> follow its sections, and \<open>DemoProperties\<close> states that it can be repeated, that its attempts score as the engine
  scores, and that its stories are what the engine would say.

  \<^bold>\<open>What the lemmas show.\<close> Exams: attempts correspond to closed sessions, at most one attempt per session under interleaving,
  the score decides exactly at the threshold, the Redis countdown outlives the deadline in Postgres by the time the start took, a failed start is
  undone except in two named cases, a code starts one session, grace lasts two minutes, an owner's submission succeeds, the next exam
  is the lowest unattempted, timers stop; and where the code falls short (an example of an expiry that races a
  submission and records two attempts). Accounts: rotation, reuse detection, spent tokens, cookies, password changes, the refresh race. Catalogue and learning: a walk
  over all pages of a list without a search gives each certificate once, codes are unique, lessons are behind the purchase, completions are unique, staff routes need
  their role. Storage and mail: uploads and deletes stay in their environment, values never add markup. Database: the migrations reverse, classes and schema
  agree but for one index, accepted bodies fit the columns but for unbounded numbers, the super administrator is frozen, certificate numbers are
  distinct. Configuration: production refuses the secrets the schema lists, which are not all that ship; a validated environment starts.

  \<^bold>\<open>Bounds and fuel.\<close> No operation of the model needs fuel: loops are structural recursions, and recursion
  that is not has a termination proof. The client that follows the cursors of the catalogue (\<open>catalog_walk\<close>) is a loop over responses of the server
  and takes fuel; the theorem asks for more fuel than there are certificates, which is enough because every page but the last holds at least one. Numbers are unbounded where
  the code's stay below the exact range of a double (marks, durations, milliseconds); the
  percentage of a score is computed with the rounding of doubles. Scores decide exactly for totals below
  200 marks, the bound of that theorem. Certificate numbers are distinct below a million, where the code cuts them.

  \<^bold>\<open>Not modelled.\<close> Framework wiring (dependency injection, connection options, the Swagger document, logging), the
  socket.io transport and its Redis adapter, the health probes, the throttler, the templates and translation files themselves (data, which the renderer and the
  filter take as arguments), generated type declarations, tests. PostgreSQL is modelled as far as the code relies on it: isolation is that of the
  single statement and of the transactions the code opens, not of a serialisable database.
\<close>

end
